(* ===== verification/GoPrelude.thy ===== *)
theory GoPrelude
  imports Main "HOL-Library.Char_ord" "HOL-Library.List_Lexorder" "HOL-Library.Sublist"
begin

text \<open>
  The part of the Go language and of its standard library that the program relies on, and the
  generic lemmas the component theories share.

  \<^item> Go strings and byte slices are both byte sequences: the model uses \<open>string\<close> (a list of
    8-bit characters) for either, so the conversions \<open>[]byte(s)\<close> and \<open>string(b)\<close> are the
    identity. Go's \<open><\<close> on strings is the bytewise lexicographic order, which is the order
    of \<open>List_Lexorder\<close> over \<open>Char_ord\<close>.
  \<^item> Error values are the datatype \<open>go_error\<close>: the sentinels of the program, \<open>Err\<close> for
    \<open>errors.New\<close> or \<open>fmt.Errorf\<close> without \<open>%w\<close>, and \<open>Wrap\<close> for
    \<open>fmt.Errorf\<close> with \<open>%w\<close>. The text carries the constant part of the message; formatted
    arguments are left out. \<open>errors.Is\<close> walks the chain of wraps.
  \<^item> \<open>strings.TrimSpace\<close> works on the UTF-8 encodings of the Unicode white space characters.
    \<open>strings.ToLower\<close>, \<open>strings.ToUpper\<close> and \<open>strings.EqualFold\<close> are modelled on ASCII
    letters, other bytes are left alone.
  \<^item> An SQL table is the list of its rows in \<open>rowid\<close> order; the locale \<open>keyed_table\<close> states
    what a table with a primary key promises, and every table of the store interprets it.
\<close>

section \<open>Collections of rules\<close>

named_theorems store_defs \<open>definitions of the statements run against the store\<close>
named_theorems tbl_simps \<open>equations of the table operations\<close>

section \<open>Errors\<close>

datatype go_error =
    ErrFrameTooLarge
  | ErrUnsupportedVersion
  | ErrInvalidSignature
  | ErrInvalidMessageType
  | ErrSequenceReplay
  | ErrPongTimeout
  | ErrInvalidSecureFrame
  | ErrKeyChanged
  | ErrNotFound
  | ErrFileRequestDismissed
  | ErrClosed
  | EOF
  | UnexpectedEOF
  | ErrTimeout
  | ContextCanceled
  | DeadlineExceeded
  | ErrNotExist
  | Err string
  | Wrap string go_error

type_synonym 'a res = "go_error + 'a"

text \<open>\<open>errors.Is (err, target)\<close>.\<close>

fun errors_Is :: "go_error \<Rightarrow> go_error \<Rightarrow> bool" where
  "errors_Is (Wrap s e) target = (Wrap s e = target \<or> errors_Is e target)"
| "errors_Is e target = (e = target)"

text \<open>\<open>err.Error ()\<close>, without the formatted arguments.\<close>

fun error_text :: "go_error \<Rightarrow> string" where
  "error_text ErrFrameTooLarge = ''network: frame exceeds max size''"
| "error_text ErrUnsupportedVersion = ''network: unsupported protocol version''"
| "error_text ErrInvalidSignature = ''network: invalid signature''"
| "error_text ErrInvalidMessageType = ''network: invalid message type''"
| "error_text ErrSequenceReplay = ''network: sequence replay detected''"
| "error_text ErrPongTimeout = ''network: pong timeout''"
| "error_text ErrInvalidSecureFrame = ''network: invalid secure frame''"
| "error_text ErrKeyChanged = ''network: peer public key changed''"
| "error_text ErrNotFound = ''storage: record not found''"
| "error_text ErrFileRequestDismissed = ''network: file request dismissed''"
| "error_text ErrClosed = ''use of closed network connection''"
| "error_text EOF = ''EOF''"
| "error_text UnexpectedEOF = ''unexpected EOF''"
| "error_text ErrTimeout = ''i/o timeout''"
| "error_text ContextCanceled = ''context canceled''"
| "error_text DeadlineExceeded = ''context deadline exceeded''"
| "error_text ErrNotExist = ''file does not exist''"
| "error_text (Err s) = s"
| "error_text (Wrap s e) = s @ '': '' @ error_text e"

definition is_ok :: "go_error option \<Rightarrow> bool" where
  "is_ok r \<longleftrightarrow> r = None"

section \<open>Machine integers\<close>

text \<open>The value an \<open>int64\<close> holds after an addition or multiplication: two's complement.\<close>

definition wrap_int64 :: "int \<Rightarrow> int" where
  "wrap_int64 x = (x + 2 ^ 63) mod 2 ^ 64 - 2 ^ 63"

definition is_int64 :: "int \<Rightarrow> bool" where
  "is_int64 x \<longleftrightarrow> - (2 ^ 63) \<le> x \<and> x < 2 ^ 63"

lemma wrap_int64_id: "is_int64 x \<Longrightarrow> wrap_int64 x = x"
  by (simp add: wrap_int64_def is_int64_def)

lemma is_int64_wrap: "is_int64 (wrap_int64 x)"
proof -
  have "0 \<le> (x + 2 ^ 63) mod 2 ^ 64" and "(x + 2 ^ 63) mod 2 ^ 64 < (2 ^ 64 :: int)"
    by simp_all
  then show ?thesis by (simp add: wrap_int64_def is_int64_def)
qed

text \<open>Go's integer division and remainder truncate towards zero.\<close>

definition quo :: "int \<Rightarrow> int \<Rightarrow> int" where
  "quo a b = sgn a * sgn b * (\<bar>a\<bar> div \<bar>b\<bar>)"

definition rem :: "int \<Rightarrow> int \<Rightarrow> int" where
  "rem a b = a - b * quo a b"

lemma quo_pos: "0 \<le> a \<Longrightarrow> 0 < b \<Longrightarrow> quo a b = a div b"
  by (cases "a = 0") (simp_all add: quo_def)

lemma rem_pos: "0 \<le> a \<Longrightarrow> 0 < b \<Longrightarrow> rem a b = a mod b"
  by (simp add: rem_def quo_pos minus_mult_div_eq_mod)

section \<open>Strings\<close>

text \<open>The UTF-8 encodings of the characters for which \<open>unicode.IsSpace\<close> holds.\<close>

definition space_encodings :: "string list" where
  "space_encodings =
     [[CHR 0x09], [CHR 0x0A], [CHR 0x0B], [CHR 0x0C], [CHR 0x0D], [CHR 0x20],
      [CHR 0xC2, CHR 0x85], [CHR 0xC2, CHR 0xA0], [CHR 0xE1, CHR 0x9A, CHR 0x80],
      [CHR 0xE2, CHR 0x80, CHR 0x80], [CHR 0xE2, CHR 0x80, CHR 0x81],
      [CHR 0xE2, CHR 0x80, CHR 0x82], [CHR 0xE2, CHR 0x80, CHR 0x83],
      [CHR 0xE2, CHR 0x80, CHR 0x84], [CHR 0xE2, CHR 0x80, CHR 0x85],
      [CHR 0xE2, CHR 0x80, CHR 0x86], [CHR 0xE2, CHR 0x80, CHR 0x87],
      [CHR 0xE2, CHR 0x80, CHR 0x88], [CHR 0xE2, CHR 0x80, CHR 0x89],
      [CHR 0xE2, CHR 0x80, CHR 0x8A], [CHR 0xE2, CHR 0x80, CHR 0xA8],
      [CHR 0xE2, CHR 0x80, CHR 0xA9], [CHR 0xE2, CHR 0x80, CHR 0xAF],
      [CHR 0xE2, CHR 0x81, CHR 0x9F], [CHR 0xE3, CHR 0x80, CHR 0x80]]"

definition space_rev_encodings :: "string list" where
  "space_rev_encodings = map rev space_encodings"

definition strip_first :: "string list \<Rightarrow> string \<Rightarrow> string option" where
  "strip_first encs s =
     (case find (\<lambda>e. e \<noteq> [] \<and> prefix e s) encs of
        None \<Rightarrow> None
      | Some e \<Rightarrow> Some (drop (length e) s))"

lemma strip_first_shorter: "strip_first encs s = Some t \<Longrightarrow> length t < length s"
  by (auto simp: strip_first_def find_Some_iff prefix_def split: option.splits)

function trim_front :: "string list \<Rightarrow> string \<Rightarrow> string" where
  "trim_front encs s = (case strip_first encs s of None \<Rightarrow> s | Some t \<Rightarrow> trim_front encs t)"
  by pat_completeness auto
termination
  by (relation "measure (\<lambda>(encs, s). length s)") (auto dest: strip_first_shorter)

declare trim_front.simps [simp del]

definition TrimSpace :: "string \<Rightarrow> string" where
  "TrimSpace s =
     (let t = trim_front space_encodings s in rev (trim_front space_rev_encodings (rev t)))"

lemma trim_front_Nil [simp]: "trim_front encs [] = []"
proof -
  have "strip_first encs [] = None"
    using strip_first_shorter [of encs "[]"] by (cases "strip_first encs []") auto
  then show ?thesis by (simp add: trim_front.simps)
qed

lemma strip_first_trim_front: "strip_first encs (trim_front encs s) = None"
proof (induction encs s rule: trim_front.induct)
  case (1 encs s)
  then show ?case
    by (cases "strip_first encs s") (simp_all add: trim_front.simps [of encs s])
qed

lemma trim_front_fix: "strip_first encs s = None \<Longrightarrow> trim_front encs s = s"
  by (simp add: trim_front.simps)

lemma trim_front_suffix: "suffix (trim_front encs s) s"
proof (induction encs s rule: trim_front.induct)
  case (1 encs s)
  show ?case
  proof (cases "strip_first encs s")
    case None
    then show ?thesis by (simp add: trim_front_fix)
  next
    case (Some t)
    then have "suffix t s"
      by (auto simp: strip_first_def suffix_drop split: option.splits)
    with "1.IH" [OF Some] Some show ?thesis
      by (simp add: trim_front.simps [of encs s] suffix_order.order_trans)
  qed
qed

lemma strip_first_None_prefix:
  assumes "strip_first encs s = None" and "prefix t s"
  shows "strip_first encs t = None"
proof -
  have "e \<in> set encs \<Longrightarrow> e \<noteq> [] \<Longrightarrow> \<not> prefix e s" for e
    using assms(1) by (auto simp: strip_first_def find_None_iff split: option.splits)
  then have "e \<in> set encs \<Longrightarrow> e \<noteq> [] \<Longrightarrow> \<not> prefix e t" for e
    using assms(2) by (meson prefix_order.order_trans)
  then have "find (\<lambda>e. e \<noteq> [] \<and> prefix e t) encs = None"
    by (auto simp: find_None_iff)
  then show ?thesis by (simp add: strip_first_def)
qed

lemma TrimSpace_Nil [simp]: "TrimSpace [] = []"
  by (simp add: TrimSpace_def)

lemma TrimSpace_idem [simp]: "TrimSpace (TrimSpace s) = TrimSpace s"
proof -
  define t where "t = trim_front space_encodings s"
  define r where "r = trim_front space_rev_encodings (rev t)"
  have "suffix r (rev t)" by (simp add: r_def trim_front_suffix)
  then have "prefix (rev r) t" by (simp add: suffix_to_prefix)
  then have "strip_first space_encodings (rev r) = None"
    by (rule strip_first_None_prefix [rotated]) (simp add: t_def strip_first_trim_front)
  then have "trim_front space_encodings (rev r) = rev r" by (rule trim_front_fix)
  moreover have "trim_front space_rev_encodings r = r"
    by (rule trim_front_fix) (simp add: r_def strip_first_trim_front)
  moreover have "TrimSpace s = rev r" by (simp add: TrimSpace_def t_def r_def Let_def)
  ultimately show ?thesis by (simp add: TrimSpace_def)
qed

text \<open>ASCII case mapping.\<close>

definition lower_char :: "char \<Rightarrow> char" where
  "lower_char c = (let n = of_char c :: nat in
     if 65 \<le> n \<and> n \<le> 90 then char_of (n + 32) else c)"

definition upper_char :: "char \<Rightarrow> char" where
  "upper_char c = (let n = of_char c :: nat in
     if 97 \<le> n \<and> n \<le> 122 then char_of (n - 32) else c)"

definition ToLower :: "string \<Rightarrow> string" where
  "ToLower s = map lower_char s"

definition ToUpper :: "string \<Rightarrow> string" where
  "ToUpper s = map upper_char s"

definition EqualFold :: "string \<Rightarrow> string \<Rightarrow> bool" where
  "EqualFold a b \<longleftrightarrow> ToLower a = ToLower b"

definition HasPrefix :: "string \<Rightarrow> string \<Rightarrow> bool" where
  "HasPrefix s p \<longleftrightarrow> prefix p s"

fun Contains :: "string \<Rightarrow> string \<Rightarrow> bool" where
  "Contains [] sub = (sub = [])"
| "Contains (c # s) sub = (prefix sub (c # s) \<or> Contains s sub)"

lemma Contains_iff: "Contains s sub \<longleftrightarrow> (\<exists>a b. s = a @ sub @ b)"
proof (induction s)
  case Nil
  then show ?case by simp
next
  case (Cons c s)
  show ?case
  proof
    assume "Contains (c # s) sub"
    then show "\<exists>a b. c # s = a @ sub @ b"
    proof (cases "prefix sub (c # s)")
      case True
      then show ?thesis by (metis append_Nil prefix_def)
    next
      case False
      with \<open>Contains (c # s) sub\<close> Cons show ?thesis by (metis Contains.simps(2) append_Cons)
    qed
  next
    assume "\<exists>a b. c # s = a @ sub @ b"
    then obtain a b where ab: "c # s = a @ sub @ b" by blast
    show "Contains (c # s) sub"
    proof (cases a)
      case Nil
      with ab have "prefix sub (c # s)" by (simp add: prefix_def)
      then show ?thesis by simp
    next
      case (Cons d a')
      with ab have "s = a' @ sub @ b" by simp
      with \<open>Contains s sub = (\<exists>a b. s = a @ sub @ b)\<close> show ?thesis by auto
    qed
  qed
qed

section \<open>Tables\<close>

text \<open>
  \<open>tbl_find\<close>, \<open>tbl_update\<close> and \<open>tbl_delete\<close> are the \<open>SELECT\<close> of one row by key, the
  \<open>UPDATE\<close> and the \<open>DELETE\<close> of the rows a \<open>WHERE\<close> clause selects; \<open>rows_affected\<close> is what
  \<open>RowsAffected\<close> reports for them.
\<close>

definition tbl_find :: "('r \<Rightarrow> 'k) \<Rightarrow> 'k \<Rightarrow> 'r list \<Rightarrow> 'r option" where
  "tbl_find key k rows = find (\<lambda>r. key r = k) rows"

definition tbl_update :: "('r \<Rightarrow> bool) \<Rightarrow> ('r \<Rightarrow> 'r) \<Rightarrow> 'r list \<Rightarrow> 'r list" where
  "tbl_update P f rows = map (\<lambda>r. if P r then f r else r) rows"

definition tbl_delete :: "('r \<Rightarrow> bool) \<Rightarrow> 'r list \<Rightarrow> 'r list" where
  "tbl_delete P rows = filter (\<lambda>r. \<not> P r) rows"

definition rows_affected :: "('r \<Rightarrow> bool) \<Rightarrow> 'r list \<Rightarrow> nat" where
  "rows_affected P rows = length (filter P rows)"

text \<open>\<open>INSERT \<dots> ON CONFLICT (key) DO UPDATE\<close>: the row keeps its place.\<close>

definition tbl_upsert :: "('r \<Rightarrow> 'k) \<Rightarrow> 'r \<Rightarrow> 'r list \<Rightarrow> 'r list" where
  "tbl_upsert key r rows =
     (if key r \<in> key ` set rows then tbl_update (\<lambda>x. key x = key r) (\<lambda>_. r) rows
      else rows @ [r])"

definition keys_distinct :: "('r \<Rightarrow> 'k) \<Rightarrow> 'r list \<Rightarrow> bool" where
  "keys_distinct key rows \<longleftrightarrow> distinct (map key rows)"

lemma rows_affected_0 [tbl_simps]: "rows_affected P rows = 0 \<longleftrightarrow> (\<forall>r \<in> set rows. \<not> P r)"
  by (simp add: rows_affected_def filter_empty_conv)

lemma set_tbl_update [tbl_simps]: "set (tbl_update P f rows) = (\<lambda>r. if P r then f r else r) ` set rows"
  by (simp add: tbl_update_def)

lemma set_tbl_delete [tbl_simps]: "set (tbl_delete P rows) = {r \<in> set rows. \<not> P r}"
  by (simp add: tbl_delete_def)

lemma map_key_tbl_update:
  "(\<And>r. P r \<Longrightarrow> key (f r) = key r) \<Longrightarrow> map key (tbl_update P f rows) = map key rows"
  by (simp add: tbl_update_def)

lemma image_key_tbl_update:
  "(\<And>r. P r \<Longrightarrow> key (f r) = key r) \<Longrightarrow> key ` set (tbl_update P f rows) = key ` set rows"
  by (metis list.set_map map_key_tbl_update)

lemma keys_distinct_update:
  "(\<And>r. P r \<Longrightarrow> key (f r) = key r) \<Longrightarrow>
   keys_distinct key (tbl_update P f rows) = keys_distinct key rows"
  by (simp add: keys_distinct_def map_key_tbl_update)

lemma keys_distinct_delete: "keys_distinct key rows \<Longrightarrow> keys_distinct key (tbl_delete P rows)"
  by (simp add: keys_distinct_def tbl_delete_def distinct_map_filter)

lemma image_key_tbl_delete: "key ` set (tbl_delete (\<lambda>r. key r = k) rows) = key ` set rows - {k}"
  by (auto simp: tbl_delete_def)

lemma keys_distinct_snoc:
  "keys_distinct key (rows @ [r]) \<longleftrightarrow> keys_distinct key rows \<and> key r \<notin> key ` set rows"
  by (auto simp: keys_distinct_def)

lemma tbl_find_None_iff: "tbl_find key k rows = None \<longleftrightarrow> k \<notin> key ` set rows"
  by (auto simp: tbl_find_def find_None_iff)

lemma tbl_find_SomeD: "tbl_find key k rows = Some r \<Longrightarrow> r \<in> set rows \<and> key r = k"
  by (auto simp: tbl_find_def find_Some_iff)

lemma tbl_find_Cons [tbl_simps]:
  "tbl_find key k (r # rows) = (if key r = k then Some r else tbl_find key k rows)"
  by (simp add: tbl_find_def)

lemma tbl_find_Nil [tbl_simps]: "tbl_find key k [] = None"
  by (simp add: tbl_find_def)

lemma tbl_find_append:
  "tbl_find key k (xs @ ys) = (case tbl_find key k xs of None \<Rightarrow> tbl_find key k ys | Some r \<Rightarrow> Some r)"
  by (induction xs) (auto simp: tbl_simps)

lemma tbl_find_update:
  "(\<And>r. P r \<Longrightarrow> key (f r) = key r) \<Longrightarrow>
   tbl_find key k (tbl_update P f rows) =
     map_option (\<lambda>r. if P r then f r else r) (tbl_find key k rows)"
  by (induction rows) (auto simp: tbl_update_def tbl_simps)

text \<open>The \<open>UPDATE\<close> of the row with key \<open>d\<close> is seen by the \<open>SELECT\<close> of that row only.\<close>

lemma tbl_find_update_key:
  assumes "\<And>r. key (f r) = key r"
  shows "tbl_find key k (tbl_update (\<lambda>r. key r = d) f rows) =
           (if k = d then map_option f (tbl_find key k rows) else tbl_find key k rows)"
  using assms by (induction rows) (auto simp: tbl_update_def tbl_simps)

lemma tbl_find_delete:
  "keys_distinct key rows \<Longrightarrow>
   tbl_find key k (tbl_delete P rows) =
     (case tbl_find key k rows of None \<Rightarrow> None | Some r \<Rightarrow> if P r then None else Some r)"
proof (induction rows)
  case Nil
  then show ?case by (simp add: tbl_delete_def tbl_simps)
next
  case (Cons a rows)
  then have a: "tbl_find key (key a) rows = None"
    by (simp add: tbl_find_None_iff keys_distinct_def)
  then have "tbl_find key (key a) (tbl_delete P rows) = None"
    by (auto simp: tbl_find_None_iff tbl_simps)
  with Cons a show ?case
    by (auto simp: tbl_delete_def tbl_simps keys_distinct_def)
qed

lemma tbl_find_unique:
  "keys_distinct key rows \<Longrightarrow> r \<in> set rows \<Longrightarrow> tbl_find key (key r) rows = Some r"
  by (induction rows) (auto simp: keys_distinct_def tbl_simps)

lemma tbl_find_upsert:
  "tbl_find key k (tbl_upsert key r rows) = (if k = key r then Some r else tbl_find key k rows)"
proof (cases "key r \<in> key ` set rows")
  case True
  then obtain x where "tbl_find key (key r) rows = Some x"
    using tbl_find_None_iff [of key "key r" rows] by (cases "tbl_find key (key r) rows") auto
  moreover have "tbl_find key k (tbl_update (\<lambda>x. key x = key r) (\<lambda>_. r) rows) =
      map_option (\<lambda>x. if key x = key r then r else x) (tbl_find key k rows)"
    by (rule tbl_find_update) simp
  ultimately show ?thesis using True
    by (cases "tbl_find key k rows") (auto simp: tbl_upsert_def dest: tbl_find_SomeD)
next
  case False
  then have "tbl_find key (key r) rows = None" by (simp add: tbl_find_None_iff)
  with False show ?thesis
    by (auto simp: tbl_upsert_def tbl_find_append tbl_simps split: option.splits)
qed

lemma keys_distinct_upsert: "keys_distinct key rows \<Longrightarrow> keys_distinct key (tbl_upsert key r rows)"
  by (simp add: tbl_upsert_def keys_distinct_snoc
        keys_distinct_update [of "\<lambda>x. key x = key r" key "\<lambda>_. r"])

text \<open>
  A table with a primary key inside the state of the store: \<open>rows\<close> reads the table, \<open>put\<close>
  writes it back. The laws are the lens laws; the lemmas are what the clients of a table use.
\<close>

locale keyed_table =
  fixes key :: "'r \<Rightarrow> 'k"
    and rows :: "'s \<Rightarrow> 'r list"
    and put :: "'r list \<Rightarrow> 's \<Rightarrow> 's"
  assumes rows_put: "rows (put rs s) = rs"
    and put_rows: "put (rows s) s = s"
    and put_put: "put rs (put rs' s) = put rs s"
begin

lemma find_insert:
  "key r \<notin> key ` set (rows s) \<Longrightarrow>
   tbl_find key k (rows (put (rows s @ [r]) s)) = (if k = key r then Some r else tbl_find key k (rows s))"
  using tbl_find_None_iff [of key "key r" "rows s"]
  by (auto simp: rows_put tbl_find_append tbl_simps split: option.splits)

lemma distinct_insert:
  "keys_distinct key (rows s) \<Longrightarrow> key r \<notin> key ` set (rows s) \<Longrightarrow>
   keys_distinct key (rows (put (rows s @ [r]) s))"
  by (simp add: rows_put keys_distinct_snoc)

lemma find_update:
  "(\<And>r. P r \<Longrightarrow> key (f r) = key r) \<Longrightarrow>
   tbl_find key k (rows (put (tbl_update P f (rows s)) s)) =
     map_option (\<lambda>r. if P r then f r else r) (tbl_find key k (rows s))"
  by (simp add: rows_put tbl_find_update)

lemma distinct_update:
  "(\<And>r. P r \<Longrightarrow> key (f r) = key r) \<Longrightarrow>
   keys_distinct key (rows (put (tbl_update P f (rows s)) s)) = keys_distinct key (rows s)"
  by (simp add: rows_put keys_distinct_update)

lemma distinct_delete:
  "keys_distinct key (rows s) \<Longrightarrow> keys_distinct key (rows (put (tbl_delete P (rows s)) s))"
  by (simp add: rows_put keys_distinct_delete)

lemma update_none: "rows_affected P (rows s) = 0 \<Longrightarrow> put (tbl_update P f (rows s)) s = s"
proof -
  assume "rows_affected P (rows s) = 0"
  then have "tbl_update P f (rows s) = rows s"
    by (auto simp: tbl_update_def rows_affected_0 intro: map_idI)
  then show ?thesis by (simp add: put_rows)
qed

end

end
