(* ===== verification/Codec.thy ===== *)
theory Codec
  imports GoPrelude
begin

text \<open>
  The byte-level encodings the program takes from Go's standard library: \<open>base64.StdEncoding\<close>,
  \<open>hex.EncodeToString\<close>, \<open>binary.BigEndian\<close> on 32 bits, \<open>io.ReadFull\<close> and a writer, and
  \<open>strconv.FormatUint\<close>.

  \<open>DecodeString\<close> of base64 skips carriage returns and line feeds anywhere, wants the padding
  complete and nothing after it, and ignores the unused low bits of the last digit.
\<close>

section \<open>Base 64\<close>

definition b64_char :: "nat \<Rightarrow> char" where
  "b64_char n =
     (if n < 26 then char_of (n + 65)
      else if n < 52 then char_of (n + 71)
      else if n < 62 then char_of (n - 4)
      else if n = 62 then CHR ''+'' else CHR ''/'')"

definition b64_index :: "char \<Rightarrow> nat option" where
  "b64_index c =
     (let n = of_char c :: nat in
      if 65 \<le> n \<and> n \<le> 90 then Some (n - 65)
      else if 97 \<le> n \<and> n \<le> 122 then Some (n - 71)
      else if 48 \<le> n \<and> n \<le> 57 then Some (n + 4)
      else if c = CHR ''+'' then Some 62
      else if c = CHR ''/'' then Some 63
      else None)"

definition b64_quad :: "nat \<Rightarrow> string" where
  "b64_quad n = map b64_char [n div 262144 mod 64, n div 4096 mod 64, n div 64 mod 64, n mod 64]"

definition bytes3 :: "nat \<Rightarrow> string" where
  "bytes3 n = map char_of [n div 65536 mod 256, n div 256 mod 256, n mod 256]"

fun EncodeToString :: "string \<Rightarrow> string" where
  "EncodeToString [] = []"
| "EncodeToString [a] = take 2 (b64_quad (of_char a * 65536)) @ ''==''"
| "EncodeToString [a, b] = take 3 (b64_quad (of_char a * 65536 + of_char b * 256)) @ ''=''"
| "EncodeToString (a # b # c # s) =
     b64_quad (of_char a * 65536 + of_char b * 256 + of_char c) @ EncodeToString s"

fun b64_decode :: "string \<Rightarrow> string option" where
  "b64_decode [] = Some []"
| "b64_decode (w # x # y # z # s) =
     (case (b64_index w, b64_index x) of
        (Some i, Some j) \<Rightarrow>
          if y = CHR ''='' then
            if z = CHR ''='' \<and> s = [] then Some (take 1 (bytes3 (i * 262144 + j * 4096))) else None
          else (case b64_index y of
                  None \<Rightarrow> None
                | Some k \<Rightarrow>
                    if z = CHR ''='' then
                      if s = [] then Some (take 2 (bytes3 (i * 262144 + j * 4096 + k * 64))) else None
                    else (case b64_index z of
                            None \<Rightarrow> None
                          | Some l \<Rightarrow>
                              map_option (\<lambda>t. bytes3 (i * 262144 + j * 4096 + k * 64 + l) @ t)
                                (b64_decode s)))
      | _ \<Rightarrow> None)"
| "b64_decode _ = None"

definition DecodeString :: "string \<Rightarrow> string res" where
  "DecodeString s =
     (case b64_decode (filter (\<lambda>c. c \<noteq> CHR 0x0A \<and> c \<noteq> CHR 0x0D) s) of
        None \<Rightarrow> Inl (Err ''illegal base64 data'')
      | Some t \<Rightarrow> Inr t)"

lemma of_char_of_less: "n < 256 \<Longrightarrow> of_char (char_of n) = (n :: nat)"
  by simp

lemma char_of_eq: "n < 256 \<Longrightarrow> char_of n = c \<longleftrightarrow> n = (of_char c :: nat)"
  by (metis of_char_of_less char_of_char)

lemma b64_char_simps:
  assumes "n < 64"
  shows "b64_index (b64_char n) = Some n" and "b64_char n \<noteq> CHR ''=''"
    and "b64_char n \<noteq> CHR 0x0A" and "b64_char n \<noteq> CHR 0x0D"
proof -
  consider "n < 26" | "26 \<le> n" "n < 52" | "52 \<le> n" "n < 62" | "n = 62" | "n = 63"
    using assms by linarith
  then have "b64_index (b64_char n) = Some n \<and> b64_char n \<noteq> CHR ''='' \<and>
      b64_char n \<noteq> CHR 0x0A \<and> b64_char n \<noteq> CHR 0x0D"
  proof cases
    case 1
    then show ?thesis by (simp add: b64_char_def b64_index_def Let_def char_of_eq)
  next
    case 2
    then show ?thesis by (simp add: b64_char_def b64_index_def Let_def char_of_eq)
  next
    case 3
    then show ?thesis by (simp add: b64_char_def b64_index_def Let_def char_of_eq) arith
  next
    case 4
    then show ?thesis by (simp add: b64_char_def b64_index_def Let_def)
  next
    case 5
    then show ?thesis by (simp add: b64_char_def b64_index_def Let_def)
  qed
  then show "b64_index (b64_char n) = Some n" and "b64_char n \<noteq> CHR ''=''"
    and "b64_char n \<noteq> CHR 0x0A" and "b64_char n \<noteq> CHR 0x0D" by blast+
qed

lemma of_char_less [simp]: "(of_char c :: nat) < 256"
  using of_char_mod_256 [of c, where 'a = nat] by (metis mod_less_divisor zero_less_numeral)

lemma quad_digits:
  assumes "(n :: nat) < 16777216"
  shows "(n div 262144 mod 64) * 262144 + (n div 4096 mod 64) * 4096 + (n div 64 mod 64) * 64 + n mod 64 = n"
proof -
  have "n div 262144 < 64" using assms by (simp add: less_mult_imp_div_less)
  then have a: "n div 262144 mod 64 = n div 262144" by simp
  have "n div 4096 = (n div 262144) * 64 + n div 4096 mod 64"
    using div_mult_mod_eq [of "n div 4096" 64] by (simp add: div_mult2_eq [symmetric])
  moreover have "n div 64 = (n div 4096) * 64 + n div 64 mod 64"
    using div_mult_mod_eq [of "n div 64" 64] by (simp add: div_mult2_eq [symmetric])
  moreover have "n = (n div 64) * 64 + n mod 64" by simp
  ultimately show ?thesis using a by linarith
qed

lemma bytes3_compose:
  assumes "a < 256" "b < 256" "c < 256"
  shows "bytes3 (a * 65536 + b * 256 + c) = map char_of [a, b, c]"
proof -
  have bc: "b * 256 + c < 65536" using assms by linarith
  have "(a * 65536 + (b * 256 + c)) div 65536 = a" using bc by (subst div_mult_self3) simp_all
  moreover have "(a * 65536 + b * 256 + c) div 256 = a * 256 + b"
  proof -
    have "a * 65536 + b * 256 + c = (a * 256 + b) * 256 + c" by simp
    then show ?thesis using assms by (metis div_mult_self3 div_less add_cancel_right_right zero_neq_numeral)
  qed
  moreover have "(a * 65536 + b * 256 + c) mod 256 = c"
  proof -
    have "a * 65536 + b * 256 + c = c + (a * 256 + b) * 256" by simp
    then show ?thesis using assms by (metis mod_less mod_mult_self1)
  qed
  moreover have "(a * 256 + b) mod 256 = b" using assms by (metis add.commute mod_less mod_mult_self1)
  ultimately show ?thesis using assms by (simp add: bytes3_def add.assoc)
qed

lemma EncodeToString_no_newline:
  "c \<in> set (EncodeToString s) \<Longrightarrow> c \<noteq> CHR 0x0A \<and> c \<noteq> CHR 0x0D"
  by (induction s rule: EncodeToString.induct) (auto simp: b64_quad_def b64_char_simps)

text \<open>Decoding inverts encoding.\<close>

lemma quad_pad2: "(a * 65536) div 64 mod 64 = (0 :: nat)" "(a * 65536) mod 64 = (0 :: nat)"
proof -
  have "a * 65536 = (a * 1024) * (64 :: nat)" "a * 1024 = (a * 16) * (64 :: nat)" by simp_all
  then show "(a * 65536) div 64 mod 64 = (0 :: nat)" "(a * 65536) mod 64 = (0 :: nat)"
    by (metis nonzero_mult_div_cancel_right mod_mult_self2_is_0 zero_neq_numeral)+
qed

lemma quad_pad1: "(a * 65536 + b * 256) mod 64 = (0 :: nat)"
proof -
  have "a * 65536 + b * 256 = (a * 1024 + b * 4) * (64 :: nat)" by simp
  then show ?thesis by (metis mod_mult_self2_is_0)
qed

lemma b64_roundtrip: "b64_decode (EncodeToString s) = Some s"
proof (induction s rule: EncodeToString.induct)
  case 1
  then show ?case by simp
next
  case (2 a)
  let ?n = "of_char a * 65536 :: nat"
  have "?n < 16777216" using of_char_less [of a] by linarith
  from quad_digits [OF this]
  have "(?n div 262144 mod 64) * 262144 + (?n div 4096 mod 64) * 4096 = ?n"
    by (simp only: quad_pad2)
  moreover define d0 d1 where "d0 = ?n div 262144 mod 64" and "d1 = ?n div 4096 mod 64"
  ultimately have eq: "d0 * 262144 + d1 * 4096 = ?n" by (simp only:)
  have d: "d0 < 64" "d1 < 64" by (simp_all add: d0_def d1_def)
  have "EncodeToString [a] = [b64_char d0, b64_char d1] @ ''==''"
    by (simp only: EncodeToString.simps b64_quad_def d0_def d1_def list.map) simp
  moreover have "bytes3 ?n = map char_of [of_char a :: nat, 0, 0]"
    using bytes3_compose [of "of_char a" 0 0] by simp
  ultimately show ?case using d by (simp add: b64_char_simps eq)
next
  case (3 a b)
  let ?n = "of_char a * 65536 + of_char b * 256 :: nat"
  have "?n < 16777216" using of_char_less [of a] of_char_less [of b] by linarith
  from quad_digits [OF this]
  have "(?n div 262144 mod 64) * 262144 + (?n div 4096 mod 64) * 4096 + (?n div 64 mod 64) * 64 = ?n"
    by (simp only: quad_pad1)
  moreover define d0 d1 d2
    where "d0 = ?n div 262144 mod 64" and "d1 = ?n div 4096 mod 64" and "d2 = ?n div 64 mod 64"
  ultimately have eq: "d0 * 262144 + d1 * 4096 + d2 * 64 = ?n" by (simp only:)
  have d: "d0 < 64" "d1 < 64" "d2 < 64" by (simp_all add: d0_def d1_def d2_def)
  have "EncodeToString [a, b] = [b64_char d0, b64_char d1, b64_char d2] @ ''=''"
    by (simp only: EncodeToString.simps b64_quad_def d0_def d1_def d2_def list.map) simp
  moreover have "bytes3 ?n = map char_of [of_char a :: nat, of_char b, 0]"
    using bytes3_compose [of "of_char a" "of_char b" 0] by simp
  ultimately show ?case using d by (simp add: b64_char_simps eq)
next
  case (4 a b c s)
  let ?n = "of_char a * 65536 + of_char b * 256 + of_char c :: nat"
  have "?n < 16777216" using of_char_less [of a] of_char_less [of b] of_char_less [of c] by linarith
  note quad_digits [OF this]
  moreover define d0 d1 d2 d3
    where "d0 = ?n div 262144 mod 64" and "d1 = ?n div 4096 mod 64" and "d2 = ?n div 64 mod 64"
      and "d3 = ?n mod 64"
  ultimately have eq: "d0 * 262144 + d1 * 4096 + d2 * 64 + d3 = ?n" by (simp only:)
  have d: "d0 < 64" "d1 < 64" "d2 < 64" "d3 < 64" by (simp_all add: d0_def d1_def d2_def d3_def)
  have "EncodeToString (a # b # c # s) =
      b64_char d0 # b64_char d1 # b64_char d2 # b64_char d3 # EncodeToString s"
    by (simp only: EncodeToString.simps b64_quad_def d0_def d1_def d2_def d3_def list.map) simp
  moreover have "bytes3 ?n = map char_of [of_char a :: nat, of_char b, of_char c]"
    using bytes3_compose [of "of_char a" "of_char b" "of_char c"] by simp
  ultimately show ?case using 4 d by (simp add: b64_char_simps eq)
qed

lemma DecodeString_EncodeToString [simp]: "DecodeString (EncodeToString s) = Inr s"
proof -
  have "filter (\<lambda>c. c \<noteq> CHR 0x0A \<and> c \<noteq> CHR 0x0D) (EncodeToString s) = EncodeToString s"
    by (rule filter_True) (simp add: EncodeToString_no_newline)
  then show ?thesis by (simp add: DecodeString_def b64_roundtrip)
qed

lemma EncodeToString_inj: "EncodeToString a = EncodeToString b \<Longrightarrow> a = b"
  by (metis b64_roundtrip option.inject)

lemma EncodeToString_eq_Nil [simp]: "EncodeToString s = [] \<longleftrightarrow> s = []"
  by (cases s rule: EncodeToString.cases) (auto simp: b64_quad_def)

section \<open>Hexadecimal, decimal and big-endian numbers\<close>

definition hex_digit :: "nat \<Rightarrow> char" where
  "hex_digit n = (if n < 10 then char_of (n + 48) else char_of (n + 87))"

definition hex_encode :: "string \<Rightarrow> string" where
  "hex_encode s = concat (map (\<lambda>c. [hex_digit (of_char c div 16), hex_digit (of_char c mod 16)]) s)"

fun FormatUint :: "nat \<Rightarrow> string" where
  "FormatUint n = (if n < 10 then [char_of (n + 48)] else FormatUint (n div 10) @ [char_of (n mod 10 + 48)])"

declare FormatUint.simps [simp del]

definition PutUint32 :: "nat \<Rightarrow> string" where
  "PutUint32 n = map char_of [n div 16777216 mod 256, n div 65536 mod 256, n div 256 mod 256, n mod 256]"

definition Uint32 :: "string \<Rightarrow> nat" where
  "Uint32 b = of_char (b ! 0) * 16777216 + of_char (b ! 1) * 65536 + of_char (b ! 2) * 256 + of_char (b ! 3)"

lemma length_PutUint32 [simp]: "length (PutUint32 n) = 4"
  by (simp add: PutUint32_def)

lemma Uint32_PutUint32 [simp]: "n < 4294967296 \<Longrightarrow> Uint32 (PutUint32 n) = n"
proof -
  assume "n < 4294967296"
  then have "n div 16777216 < 256" by (simp add: less_mult_imp_div_less)
  then have a: "n div 16777216 mod 256 = n div 16777216" by simp
  have "n div 65536 = (n div 16777216) * 256 + n div 65536 mod 256"
    using div_mult_mod_eq [of "n div 65536" 256] by (simp add: div_mult2_eq [symmetric])
  moreover have "n div 256 = (n div 65536) * 256 + n div 256 mod 256"
    using div_mult_mod_eq [of "n div 256" 256] by (simp add: div_mult2_eq [symmetric])
  moreover have "n = (n div 256) * 256 + n mod 256" by simp
  ultimately have "(n div 16777216) * 16777216 + (n div 65536 mod 256) * 65536 +
      (n div 256 mod 256) * 256 + n mod 256 = n" using a by linarith
  then show ?thesis by (simp add: Uint32_def PutUint32_def a)
qed

section \<open>Streams\<close>

text \<open>
  A stream to read from: the bytes that have arrived, and the error a \<open>Read\<close> gives once they are
  used up (\<open>EOF\<close> after the other side closed, \<open>ErrTimeout\<close> when the deadline passes first).
  A stream to write to: the bytes written, and how many more it takes before a \<open>Write\<close> fails
  (\<open>None\<close>: no limit).
\<close>

record Reader =
  r_avail :: string
  r_end :: go_error

record Writer =
  w_bytes :: string
  w_limit :: "nat option"

definition ReadFull :: "nat \<Rightarrow> Reader \<Rightarrow> string res \<times> Reader" where
  "ReadFull n r =
     (if n \<le> length (r_avail r) then (Inr (take n (r_avail r)), r\<lparr>r_avail := drop n (r_avail r)\<rparr>)
      else (Inl (if r_end r = EOF \<and> r_avail r \<noteq> [] then UnexpectedEOF else r_end r), r\<lparr>r_avail := []\<rparr>))"

definition Write :: "string \<Rightarrow> Writer \<Rightarrow> go_error option \<times> Writer" where
  "Write b w =
     (case w_limit w of
        None \<Rightarrow> (None, w\<lparr>w_bytes := w_bytes w @ b\<rparr>)
      | Some k \<Rightarrow>
          if length b \<le> k then (None, w\<lparr>w_bytes := w_bytes w @ b, w_limit := Some (k - length b)\<rparr>)
          else (Some (Err ''write: broken pipe''), w\<lparr>w_bytes := w_bytes w @ take k b, w_limit := Some 0\<rparr>))"

end
