(* ===== verification/Crypto.thy ===== *)
theory Crypto
  imports Codec
begin

text \<open>
  \<open>src/crypto\<close>: Ed25519 signatures and the identity key pair on disk, X25519 key agreement, the session
  key derivation and AES-256-GCM, as wrappers around primitives.

  The primitives themselves (Ed25519, X25519, HKDF, AES-GCM, SHA-256, PEM) are the fields of a record
  \<open>Prims\<close>, a parameter of everything that uses them. \<open>prims_ok\<close> states what their documentation
  promises and the program relies on: a signature made with a private key verifies under its public
  key, X25519 gives both sides the same secret, opening a sealed text gives it back, and the sizes.
  No secrecy or unforgeability is assumed. \<open>sample_prims\<close> satisfies the laws.
\<close>

record Prims =
  ed25519_Sign :: "string \<Rightarrow> string \<Rightarrow> string"
  ed25519_Verify :: "string \<Rightarrow> string \<Rightarrow> string \<Rightarrow> bool"
  ed25519_Public :: "string \<Rightarrow> string"
  x25519_Public :: "string \<Rightarrow> string"
  x25519_NewPublicKey :: "string \<Rightarrow> bool"
  x25519_ECDH :: "string \<Rightarrow> string \<Rightarrow> string option"
  hkdf_sha256 :: "string \<Rightarrow> string \<Rightarrow> string \<Rightarrow> nat \<Rightarrow> string"
  gcm_Seal :: "string \<Rightarrow> string \<Rightarrow> string \<Rightarrow> string"
  gcm_Open :: "string \<Rightarrow> string \<Rightarrow> string \<Rightarrow> string option"
  sha256_Sum :: "string \<Rightarrow> string"
  pem_Decode :: "string \<Rightarrow> (string \<times> string) option"
  pem_Encode :: "string \<Rightarrow> string \<Rightarrow> string"

definition PrivateKeySize :: nat where "PrivateKeySize = 64"
definition PublicKeySize :: nat where "PublicKeySize = 32"
definition SignatureSize :: nat where "SignatureSize = 64"

definition prims_ok :: "Prims \<Rightarrow> bool" where
  "prims_ok P \<longleftrightarrow>
     (\<forall>sk m. length sk = 64 \<longrightarrow> length (ed25519_Sign P sk m) = 64 \<and> length (ed25519_Public P sk) = 32 \<and>
        ed25519_Verify P (ed25519_Public P sk) m (ed25519_Sign P sk m)) \<and>
     (\<forall>a. length a = 32 \<longrightarrow> length (x25519_Public P a) = 32 \<and> x25519_NewPublicKey P (x25519_Public P a)) \<and>
     (\<forall>a b. length a = 32 \<longrightarrow> length b = 32 \<longrightarrow>
        x25519_ECDH P a (x25519_Public P b) = x25519_ECDH P b (x25519_Public P a)) \<and>
     (\<forall>a B s. x25519_ECDH P a B = Some s \<longrightarrow> length s = 32) \<and>
     (\<forall>s salt info n. length (hkdf_sha256 P s salt info n) = n) \<and>
     (\<forall>k iv m. length k = 32 \<longrightarrow> length iv = 12 \<longrightarrow>
        gcm_Open P k iv (gcm_Seal P k iv m) = Some m \<and> length (gcm_Seal P k iv m) = length m + 16) \<and>
     (\<forall>m. length (sha256_Sum P m) = 32) \<and>
     (\<forall>t b. t \<in> {''ED25519 PRIVATE KEY'', ''ED25519 PUBLIC KEY''} \<longrightarrow>
        pem_Decode P (pem_Encode P t b) = Some (t, b))"

section \<open>Signatures\<close>

definition Sign :: "Prims \<Rightarrow> string \<Rightarrow> string \<Rightarrow> string res" where
  "Sign P privateKey data =
     (if length privateKey \<noteq> PrivateKeySize then Inl (Err ''invalid Ed25519 private key length'')
      else if data = [] then Inl (Err ''data is required'')
      else Inr (ed25519_Sign P privateKey data))"

definition Verify :: "Prims \<Rightarrow> string \<Rightarrow> string \<Rightarrow> string \<Rightarrow> bool" where
  "Verify P publicKey data signature =
     (if length publicKey \<noteq> PublicKeySize then False
      else if data = [] then False
      else if length signature \<noteq> SignatureSize then False
      else ed25519_Verify P publicKey data signature)"

section \<open>Key agreement\<close>

definition ParseX25519PublicKey :: "Prims \<Rightarrow> string \<Rightarrow> string res" where
  "ParseX25519PublicKey P raw =
     (if x25519_NewPublicKey P raw then Inr raw
      else Inl (Wrap ''parse X25519 public key'' (Err ''crypto/ecdh: invalid public key'')))"

definition ComputeX25519SharedSecret :: "Prims \<Rightarrow> string \<Rightarrow> string \<Rightarrow> string res" where
  "ComputeX25519SharedSecret P privateKey peerPublicKey =
     (case x25519_ECDH P privateKey peerPublicKey of
        None \<Rightarrow> Inl (Wrap ''compute X25519 shared secret'' (Err ''crypto/ecdh: bad X25519 remote ECDH input''))
      | Some secret \<Rightarrow> Inr secret)"

definition sessionInfo :: "string \<Rightarrow> string \<Rightarrow> string \<Rightarrow> string" where
  "sessionInfo deviceIDa deviceIDb context =
     (let ids = sort [deviceIDa, deviceIDb];
          info = ids ! 0 @ ''|'' @ ids ! 1
      in if context = [] then info else info @ ''|'' @ context)"

definition DeriveSessionKeyWithContext ::
    "Prims \<Rightarrow> string \<Rightarrow> string \<Rightarrow> string \<Rightarrow> string \<Rightarrow> string res" where
  "DeriveSessionKeyWithContext P sharedSecret deviceIDa deviceIDb context =
     (if sharedSecret = [] then Inl (Err ''shared secret is required'')
      else if TrimSpace deviceIDa = [] \<or> TrimSpace deviceIDb = [] then
        Inl (Err ''both device IDs are required'')
      else Inr (hkdf_sha256 P sharedSecret ''p2pchat-session-v1''
                  (sessionInfo deviceIDa deviceIDb context) 32))"

definition DeriveSessionKey :: "Prims \<Rightarrow> string \<Rightarrow> string \<Rightarrow> string \<Rightarrow> string res" where
  "DeriveSessionKey P sharedSecret deviceIDa deviceIDb =
     DeriveSessionKeyWithContext P sharedSecret deviceIDa deviceIDb []"

section \<open>AES-256-GCM\<close>

text \<open>\<open>iv\<close> is the nonce \<open>rand.Read\<close> fills in, 12 bytes; the result is the ciphertext and the nonce.\<close>

definition Encrypt :: "Prims \<Rightarrow> string \<Rightarrow> string \<Rightarrow> string \<Rightarrow> (string \<times> string) res" where
  "Encrypt P iv sessionKey plaintext =
     (if length sessionKey \<noteq> 32 then Inl (Err ''invalid session key length'')
      else Inr (gcm_Seal P sessionKey iv plaintext, iv))"

definition Decrypt :: "Prims \<Rightarrow> string \<Rightarrow> string \<Rightarrow> string \<Rightarrow> string res" where
  "Decrypt P sessionKey iv ciphertext =
     (if length sessionKey \<noteq> 32 then Inl (Err ''invalid session key length'')
      else if ciphertext = [] then Inl (Err ''ciphertext is required'')
      else if length iv \<noteq> 12 then Inl (Err ''invalid nonce length'')
      else case gcm_Open P sessionKey iv ciphertext of
             None \<Rightarrow> Inl (Wrap ''decrypt ciphertext'' (Err ''cipher: message authentication failed''))
           | Some plaintext \<Rightarrow> Inr plaintext)"

section \<open>Fingerprints\<close>

definition KeyFingerprint :: "Prims \<Rightarrow> string \<Rightarrow> string" where
  "KeyFingerprint P publicKey = hex_encode (take 16 (sha256_Sum P publicKey))"

fun groups4 :: "string \<Rightarrow> string" where
  "groups4 s = (if length s \<le> 4 then s else take 4 s @ '' '' @ groups4 (drop 4 s))"

declare groups4.simps [simp del]

definition FormatFingerprint :: "string \<Rightarrow> string" where
  "FormatFingerprint fingerprint =
     (let clean = ToUpper (filter (\<lambda>c. c \<noteq> CHR '' '') fingerprint)
      in if clean = [] then [] else groups4 clean)"

section \<open>The identity key pair on disk\<close>

text \<open>
  A file system is what \<open>os.ReadFile\<close> gives for each path; \<open>writable\<close> says for which paths
  \<open>os.WriteFile\<close> succeeds.
\<close>

type_synonym FS = "string \<Rightarrow> string res"

definition load_key :: "Prims \<Rightarrow> string \<Rightarrow> nat \<Rightarrow> string \<Rightarrow> FS \<Rightarrow> string res" where
  "load_key P pemType len path fs =
     (case fs path of
        Inl e \<Rightarrow> Inl (Wrap ''read Ed25519 key'' e)
      | Inr raw \<Rightarrow>
          (case pem_Decode P raw of
             None \<Rightarrow> Inl (Err ''decode Ed25519 PEM: no PEM block'')
           | Some (t, b) \<Rightarrow>
               if t \<noteq> pemType then Inl (Err ''decode Ed25519 PEM: unexpected type'')
               else if length b \<noteq> len then Inl (Err ''decode Ed25519 PEM: invalid key size'')
               else Inr b))"

definition LoadEd25519PrivateKey :: "Prims \<Rightarrow> string \<Rightarrow> FS \<Rightarrow> string res" where
  "LoadEd25519PrivateKey P path fs = load_key P ''ED25519 PRIVATE KEY'' PrivateKeySize path fs"

definition LoadEd25519PublicKey :: "Prims \<Rightarrow> string \<Rightarrow> FS \<Rightarrow> string res" where
  "LoadEd25519PublicKey P path fs = load_key P ''ED25519 PUBLIC KEY'' PublicKeySize path fs"

definition save_key :: "Prims \<Rightarrow> (string \<Rightarrow> bool) \<Rightarrow> string \<Rightarrow> nat \<Rightarrow> string \<Rightarrow> string \<Rightarrow> FS \<Rightarrow> go_error option \<times> FS" where
  "save_key P writable pemType len path key fs =
     (if length key \<noteq> len then (Some (Err ''save Ed25519 key: invalid key size''), fs)
      else if \<not> writable path then (Some (Wrap ''write Ed25519 key'' (Err ''permission denied'')), fs)
      else (None, fs(path := Inr (pem_Encode P pemType key))))"

definition SaveEd25519PrivateKey :: "Prims \<Rightarrow> (string \<Rightarrow> bool) \<Rightarrow> string \<Rightarrow> string \<Rightarrow> FS \<Rightarrow> go_error option \<times> FS" where
  "SaveEd25519PrivateKey P writable path key fs =
     save_key P writable ''ED25519 PRIVATE KEY'' PrivateKeySize path key fs"

definition SaveEd25519PublicKey :: "Prims \<Rightarrow> (string \<Rightarrow> bool) \<Rightarrow> string \<Rightarrow> string \<Rightarrow> FS \<Rightarrow> go_error option \<times> FS" where
  "SaveEd25519PublicKey P writable path key fs =
     save_key P writable ''ED25519 PUBLIC KEY'' PublicKeySize path key fs"

text \<open>\<open>fresh\<close> is the private key \<open>ed25519.GenerateKey\<close> makes, if it is called.\<close>

definition EnsureEd25519KeyPair ::
    "Prims \<Rightarrow> (string \<Rightarrow> bool) \<Rightarrow> string \<Rightarrow> string \<Rightarrow> string \<Rightarrow> FS \<Rightarrow> (string \<times> string) res \<times> FS" where
  "EnsureEd25519KeyPair P writable fresh privatePath publicPath fs =
     (case LoadEd25519PrivateKey P privatePath fs of
        Inr privateKey \<Rightarrow>
          let publicKey = ed25519_Public P privateKey in
          if LoadEd25519PublicKey P publicPath fs \<noteq> Inr publicKey then
            (case SaveEd25519PublicKey P writable publicPath publicKey fs of
               (Some e, fs1) \<Rightarrow> (Inl e, fs1)
             | (None, fs1) \<Rightarrow> (Inr (privateKey, publicKey), fs1))
          else (Inr (privateKey, publicKey), fs)
      | Inl e \<Rightarrow>
          if \<not> errors_Is e ErrNotExist then (Inl e, fs)
          else
            let publicKey = ed25519_Public P fresh in
            (case SaveEd25519PrivateKey P writable privatePath fresh fs of
               (Some e, fs1) \<Rightarrow> (Inl e, fs1)
             | (None, fs1) \<Rightarrow>
                 (case SaveEd25519PublicKey P writable publicPath publicKey fs1 of
                    (Some e, fs2) \<Rightarrow> (Inl e, fs2)
                  | (None, fs2) \<Rightarrow> (Inr (fresh, publicKey), fs2))))"

section \<open>Lemmas\<close>

lemma sessionInfo_sym: "sessionInfo a b c = sessionInfo b a c"
proof -
  have "sort [a, b] = sort [b, a]"
    by (simp add: linorder_class.insort_key.simps) (meson linear)
  then show ?thesis by (simp add: sessionInfo_def)
qed

lemma DeriveSessionKeyWithContext_sym:
  "DeriveSessionKeyWithContext P s a b c = DeriveSessionKeyWithContext P s b a c"
  by (auto simp: DeriveSessionKeyWithContext_def sessionInfo_sym [of a b])

text \<open>The laws, one by one.\<close>

lemma prims_okD:
  assumes "prims_ok P"
  shows "length sk = 64 \<Longrightarrow> length (ed25519_Sign P sk m) = 64"
    and "length sk = 64 \<Longrightarrow> length (ed25519_Public P sk) = 32"
    and "length sk = 64 \<Longrightarrow> ed25519_Verify P (ed25519_Public P sk) m (ed25519_Sign P sk m)"
    and "length a = 32 \<Longrightarrow> x25519_NewPublicKey P (x25519_Public P a)"
    and "length a = 32 \<Longrightarrow> length b = 32 \<Longrightarrow>
         x25519_ECDH P a (x25519_Public P b) = x25519_ECDH P b (x25519_Public P a)"
    and "x25519_ECDH P a B = Some s \<Longrightarrow> length s = 32"
    and "length (hkdf_sha256 P s salt info n) = n"
  using assms by (simp_all add: prims_ok_def)

lemma Verify_Sign:
  "prims_ok P \<Longrightarrow> Sign P sk m = Inr sig \<Longrightarrow> Verify P (ed25519_Public P sk) m sig"
  by (auto simp: Sign_def Verify_def prims_ok_def PrivateKeySize_def PublicKeySize_def
      SignatureSize_def split: if_splits)

lemma Decrypt_Encrypt:
  "prims_ok P \<Longrightarrow> length iv = 12 \<Longrightarrow> Encrypt P iv k m = Inr (ct, n) \<Longrightarrow> Decrypt P k n ct = Inr m"
proof -
  assume "prims_ok P" "length iv = 12" "Encrypt P iv k m = Inr (ct, n)"
  then have *: "length k = 32" "n = iv" "ct = gcm_Seal P k iv m" "gcm_Open P k iv ct = Some m"
    "length ct = length m + 16"
    by (auto simp: Encrypt_def prims_ok_def split: if_splits)
  then have "ct \<noteq> []" by auto
  with * show ?thesis using \<open>length iv = 12\<close> by (simp add: Decrypt_def)
qed

lemma Load_Save:
  "prims_ok P \<Longrightarrow> t \<in> {''ED25519 PRIVATE KEY'', ''ED25519 PUBLIC KEY''} \<Longrightarrow>
   save_key P w t n path key fs = (None, fs') \<Longrightarrow>
   load_key P t n path fs' = Inr key \<and> (\<forall>q. q \<noteq> path \<longrightarrow> fs' q = fs q)"
  by (auto simp: save_key_def load_key_def prims_ok_def split: if_splits)

lemma load_key_cong: "fs p = fs' p \<Longrightarrow> load_key P t n p fs = load_key P t n p fs'"
  by (simp add: load_key_def)

text \<open>Primitives that satisfy the laws: no security, but every promised equation.\<close>

definition sample_prims :: Prims where
  "sample_prims = \<lparr>
     ed25519_Sign = (\<lambda>sk m. take 64 (sk @ replicate 64 CHR ''s'')),
     ed25519_Verify = (\<lambda>pk m sig. take 32 sig = pk),
     ed25519_Public = (\<lambda>sk. take 32 sk),
     x25519_Public = (\<lambda>a. a),
     x25519_NewPublicKey = (\<lambda>raw. length raw = 32),
     x25519_ECDH = (\<lambda>a B. if length a = 32 \<and> length B = 32 then Some (map2 max a B) else None),
     hkdf_sha256 = (\<lambda>s salt info n. take n (s @ info @ replicate n CHR ''k'')),
     gcm_Seal = (\<lambda>k iv m. m @ take 16 k),
     gcm_Open = (\<lambda>k iv c. if drop (length c - 16) c = take 16 k then Some (take (length c - 16) c) else None),
     sha256_Sum = (\<lambda>m. take 32 (m @ replicate 32 CHR ''h'')),
     pem_Decode = (\<lambda>f. if CHR '':'' \<in> set f then
        Some (takeWhile (\<lambda>c. c \<noteq> CHR '':'') f, tl (dropWhile (\<lambda>c. c \<noteq> CHR '':'') f)) else None),
     pem_Encode = (\<lambda>t b. t @ '':'' @ b)\<rparr>"

lemma sample_prims_ok: "prims_ok sample_prims"
proof -
  have "map2 max a b = map2 max b a" for a b :: string
    by (rule nth_equalityI) (simp_all add: max.commute)
  moreover have "takeWhile (\<lambda>c. c \<noteq> CHR '':'') (t @ CHR '':'' # b) = t"
    "dropWhile (\<lambda>c. c \<noteq> CHR '':'') (t @ CHR '':'' # b) = CHR '':'' # b"
    if "CHR '':'' \<notin> set t" for t b
    using that by (auto simp: takeWhile_append dropWhile_append)
  ultimately show ?thesis
    by (simp add: prims_ok_def sample_prims_def) arith
qed

section \<open>Properties\<close>

text \<open>The identity key pair is stable: once the pair was loaded or generated, loading it again gives
  the same pair and writes nothing, the public key is the one of the private key, and a private key file
  that exists, whatever it holds, is never overwritten.\<close>

theorem EnsureEd25519KeyPair_stable:
  assumes "prims_ok P" and "priv \<noteq> pub"
    and "EnsureEd25519KeyPair P w fresh priv pub fs = (Inr (sk, pk), fs1)"
  shows "EnsureEd25519KeyPair P w' fresh' priv pub fs1 = (Inr (sk, pk), fs1) \<and>
         pk = ed25519_Public P sk \<and>
         (case fs priv of Inr _ \<Rightarrow> fs1 priv = fs priv | Inl e \<Rightarrow> errors_Is e ErrNotExist \<and> sk = fresh)"
proof (cases "LoadEd25519PrivateKey P priv fs")
  case (Inr k)
  then have k: "sk = k" "pk = ed25519_Public P k"
    and r: "\<exists>raw. fs priv = Inr raw"
    using assms(3) by (auto simp: EnsureEd25519KeyPair_def LoadEd25519PrivateKey_def load_key_def Let_def
        split: if_splits prod.splits option.splits sum.splits)
  show ?thesis
  proof (cases "LoadEd25519PublicKey P pub fs = Inr pk")
    case True
    with assms(3) Inr k r show ?thesis by (auto simp: EnsureEd25519KeyPair_def Let_def)
  next
    case False
    with assms(3) Inr k have save: "SaveEd25519PublicKey P w pub pk fs = (None, fs1)"
      by (auto simp: EnsureEd25519KeyPair_def Let_def split: prod.splits option.splits)
    then have pub: "LoadEd25519PublicKey P pub fs1 = Inr pk" and same: "\<forall>q. q \<noteq> pub \<longrightarrow> fs1 q = fs q"
      using Load_Save [OF assms(1) _ save [unfolded SaveEd25519PublicKey_def]]
      by (simp_all add: LoadEd25519PublicKey_def)
    from same assms(2) have "fs1 priv = fs priv" by simp
    then have "LoadEd25519PrivateKey P priv fs1 = Inr k"
      using Inr load_key_cong [of fs1 priv fs] by (simp add: LoadEd25519PrivateKey_def)
    with pub k r \<open>fs1 priv = fs priv\<close> show ?thesis by (auto simp: EnsureEd25519KeyPair_def Let_def)
  qed
next
  case (Inl e)
  then have nx: "errors_Is e ErrNotExist" and fresh: "sk = fresh" "pk = ed25519_Public P fresh"
    and "\<exists>fs0. SaveEd25519PrivateKey P w priv fresh fs = (None, fs0) \<and> SaveEd25519PublicKey P w pub pk fs0 = (None, fs1)"
    using assms(3) by (auto simp: EnsureEd25519KeyPair_def Let_def split: if_splits prod.splits option.splits)
  then obtain fs0 where s0: "SaveEd25519PrivateKey P w priv fresh fs = (None, fs0)"
    and s1: "SaveEd25519PublicKey P w pub pk fs0 = (None, fs1)" by blast
  have "LoadEd25519PrivateKey P priv fs0 = Inr fresh"
    using Load_Save [OF assms(1) _ s0 [unfolded SaveEd25519PrivateKey_def]]
    by (simp add: LoadEd25519PrivateKey_def)
  moreover have l1: "LoadEd25519PublicKey P pub fs1 = Inr pk" and "fs1 priv = fs0 priv"
    using Load_Save [OF assms(1) _ s1 [unfolded SaveEd25519PublicKey_def]] assms(2)
    by (simp_all add: LoadEd25519PublicKey_def)
  ultimately have "LoadEd25519PrivateKey P priv fs1 = Inr fresh"
    using load_key_cong [of fs1 priv fs0] by (simp add: LoadEd25519PrivateKey_def)
  moreover have "\<exists>e0. fs priv = Inl e0 \<and> errors_Is e0 ErrNotExist"
    using Inl nx by (auto simp: LoadEd25519PrivateKey_def load_key_def split: sum.splits option.splits if_splits)
  ultimately show ?thesis using l1 fresh by (auto simp: EnsureEd25519KeyPair_def Let_def)
qed

theorem EnsureEd25519KeyPair_stable_witness:
  "\<exists>fs1. EnsureEd25519KeyPair sample_prims (\<lambda>_. True) (replicate 64 CHR ''a'') ''p'' ''q'' (\<lambda>_. Inl ErrNotExist) =
           (Inr (replicate 64 CHR ''a'', replicate 32 CHR ''a''), fs1) \<and>
         EnsureEd25519KeyPair sample_prims (\<lambda>_. False) (replicate 64 CHR ''b'') ''p'' ''q'' fs1 =
           (Inr (replicate 64 CHR ''a'', replicate 32 CHR ''a''), fs1)"
proof -
  let ?r = "EnsureEd25519KeyPair sample_prims (\<lambda>_. True) (replicate 64 CHR ''a'') ''p'' ''q'' (\<lambda>_. Inl ErrNotExist)"
  have "fst ?r = Inr (replicate 64 CHR ''a'', replicate 32 CHR ''a'')" by code_simp
  then obtain fs1 where r: "?r = (Inr (replicate 64 CHR ''a'', replicate 32 CHR ''a''), fs1)"
    by (metis prod.collapse)
  show ?thesis
    using EnsureEd25519KeyPair_stable [OF sample_prims_ok _ r] r by blast
qed

lemma groups4_spaces: "CHR '' '' \<notin> set s \<Longrightarrow> filter (\<lambda>c. c \<noteq> CHR '' '') (groups4 s) = s"
proof (induction s rule: groups4.induct)
  case (1 s)
  show ?case
  proof (cases "length s \<le> 4")
    case True
    then have "groups4 s = s" by (simp add: groups4.simps)
    with 1(2) show ?thesis by (simp add: filter_id_conv) (metis (mono_tags))
  next
    case False
    then have "groups4 s = take 4 s @ '' '' @ groups4 (drop 4 s)" by (simp add: groups4.simps [of s])
    moreover have "CHR '' '' \<notin> set (take 4 s)" "CHR '' '' \<notin> set (drop 4 s)"
      using 1(2) in_set_takeD in_set_dropD by fast+
    moreover have "filter (\<lambda>c. c \<noteq> CHR '' '') (take 4 s) = take 4 s"
      using calculation(2) by (auto simp: filter_id_conv)
    ultimately show ?thesis using 1(1) [OF False] by simp
  qed
qed

lemma upper_char_idem [simp]: "upper_char (upper_char c) = upper_char c"
proof -
  have "(of_char c - 32) mod 256 = of_char c - (32 :: nat)"
    using of_char_less [of c] by (simp add: less_imp_diff_less)
  then show ?thesis by (auto simp: upper_char_def Let_def)
qed

lemma upper_char_space [simp]: "upper_char c = CHR '' '' \<longleftrightarrow> c = CHR '' ''"
  by (auto simp: upper_char_def Let_def char_of_eq)

lemma FormatFingerprint_letters:
  "filter (\<lambda>c. c \<noteq> CHR '' '') (FormatFingerprint f) = ToUpper (filter (\<lambda>c. c \<noteq> CHR '' '') f)"
proof -
  have "CHR '' '' \<notin> set (ToUpper (filter (\<lambda>c. c \<noteq> CHR '' '') f))"
    by (auto simp: ToUpper_def) (metis upper_char_space)
  then show ?thesis by (simp add: FormatFingerprint_def Let_def groups4_spaces)
qed

text \<open>Formatting a fingerprint only upper-cases it and inserts spaces: without the spaces it is the
  upper-cased fingerprint, and formatting again changes nothing. So two devices show the same text
  exactly when the fingerprints agree up to case and spacing.\<close>

theorem FormatFingerprint_faithful:
  "filter (\<lambda>c. c \<noteq> CHR '' '') (FormatFingerprint f) = ToUpper (filter (\<lambda>c. c \<noteq> CHR '' '') f) \<and>
   FormatFingerprint (FormatFingerprint f) = FormatFingerprint f \<and>
   (FormatFingerprint f = FormatFingerprint g \<longleftrightarrow>
      ToUpper (filter (\<lambda>c. c \<noteq> CHR '' '') f) = ToUpper (filter (\<lambda>c. c \<noteq> CHR '' '') g))"
proof -
  have "FormatFingerprint x = FormatFingerprint y"
    if "ToUpper (filter (\<lambda>c. c \<noteq> CHR '' '') x) = ToUpper (filter (\<lambda>c. c \<noteq> CHR '' '') y)" for x y
    using that by (simp add: FormatFingerprint_def)
  moreover have "ToUpper (ToUpper s) = ToUpper s" for s by (simp add: ToUpper_def)
  ultimately show ?thesis by (metis FormatFingerprint_letters)
qed

end
