(* ===== verification/Protocol.thy ===== *)
theory Protocol
  imports Crypto "HOL-Library.Word"
begin

text \<open>
  \<open>src/network/protocol.go\<close>: the messages of the wire protocol, their framing on a byte stream, and the
  signed handshake messages.

  Each message struct is a record and \<open>Packet\<close> their sum; the constructor stands for the \<open>type\<close>
  field, which \<open>packet_type\<close> gives back. The JSON encoding is a parameter \<open>Json\<close>; \<open>json_ok\<close> states what
  \<open>encoding/json\<close> promises for it: decoding what was encoded gives the message and its type.
  A frame is a four byte big-endian length and the payload.
\<close>

definition ProtocolVersion :: int where "ProtocolVersion = 1"
definition MaxControlFrameSize :: nat where "MaxControlFrameSize = 65536"
definition MaxFrameSize :: nat where "MaxFrameSize = 10485760"

section \<open>Messages\<close>

record LocalIdentity =
  id_DeviceID :: string
  id_DeviceName :: string
  id_Ed25519PrivateKey :: string
  id_Ed25519PublicKey :: string

record HandshakeChallenge =
  hc_Nonce :: string

record HandshakeMessage =
  h_Type :: string
  h_DeviceID :: string
  h_DeviceName :: string
  h_Ed25519PublicKey :: string
  h_X25519PublicKey :: string
  h_ChallengeNonce :: string
  h_ProtocolVersion :: int
  h_Timestamp :: int
  h_Signature :: string

record HandshakeResponse =
  hr_Type :: string
  hr_DeviceID :: string
  hr_DeviceName :: string
  hr_Ed25519PublicKey :: string
  hr_X25519PublicKey :: string
  hr_ProtocolVersion :: int
  hr_Timestamp :: int
  hr_Signature :: string

record PeerAddRequest =
  ar_FromDeviceID :: string
  ar_FromDeviceName :: string
  ar_Timestamp :: int
  ar_Signature :: string

record PeerAddResponse =
  as_Status :: string
  as_DeviceID :: string
  as_DeviceName :: string
  as_Timestamp :: int
  as_Signature :: string

record PeerRemove =
  pr_FromDeviceID :: string
  pr_Timestamp :: int
  pr_Signature :: string

record PeerDisconnect =
  pd_FromDeviceID :: string
  pd_Timestamp :: int

record PingMessage =
  pi_FromDeviceID :: string
  pi_Timestamp :: int

record PongMessage =
  po_FromDeviceID :: string
  po_Timestamp :: int

record EncryptedMessage =
  em_MessageID :: string
  em_FromDeviceID :: string
  em_ToDeviceID :: string
  em_ContentType :: string
  em_Sequence :: "64 word"
  em_EncryptedContent :: string
  em_IV :: string
  em_Timestamp :: int
  em_Signature :: string

record RekeyRequest =
  rq_FromDeviceID :: string
  rq_Epoch :: "64 word"
  rq_X25519PublicKey :: string
  rq_Timestamp :: int
  rq_Signature :: string

record RekeyResponse =
  rs_FromDeviceID :: string
  rs_Epoch :: "64 word"
  rs_X25519PublicKey :: string
  rs_Timestamp :: int
  rs_Signature :: string

record FileRequest =
  fq_FileID :: string
  fq_FolderID :: string
  fq_RelativePath :: string
  fq_FromDeviceID :: string
  fq_ToDeviceID :: string
  fq_Filename :: string
  fq_Filesize :: int
  fq_Filetype :: string
  fq_Checksum :: string
  fq_Sequence :: "64 word"
  fq_Timestamp :: int
  fq_Signature :: string

record FileResponse =
  fs_FileID :: string
  fs_Status :: string
  fs_FromDeviceID :: string
  fs_ChunkIndex :: int
  fs_ResumeFromChunk :: int
  fs_Message :: string
  fs_Timestamp :: int
  fs_Signature :: string

record FileData =
  fd_FileID :: string
  fd_ChunkIndex :: int
  fd_TotalChunks :: int
  fd_ChunkSize :: int
  fd_EncryptedData :: string
  fd_IV :: string
  fd_Timestamp :: int

record FileComplete =
  fc_FileID :: string
  fc_Status :: string
  fc_Message :: string
  fc_Timestamp :: int
  fc_Signature :: string

record FolderManifestEntry =
  me_RelativePath :: string
  me_Size :: int
  me_IsDirectory :: bool

record FolderTransferRequest =
  dq_FolderID :: string
  dq_FolderName :: string
  dq_TotalFiles :: int
  dq_TotalSize :: int
  dq_Manifest :: "FolderManifestEntry list"
  dq_FromDeviceID :: string
  dq_ToDeviceID :: string
  dq_Timestamp :: int
  dq_Signature :: string

record FolderTransferResponse =
  ds_FolderID :: string
  ds_Status :: string
  ds_FromDeviceID :: string
  ds_Message :: string
  ds_Timestamp :: int
  ds_Signature :: string

record AckMessage =
  ak_MessageID :: string
  ak_FromDeviceID :: string
  ak_Status :: string
  ak_Timestamp :: int
  ak_Signature :: string

record ErrorMessage =
  er_Code :: string
  er_Message :: string
  er_RelatedMessageID :: string
  er_SupportedVersions :: "int list"
  er_Timestamp :: int

datatype Packet =
    PHandshakeChallenge HandshakeChallenge
  | PHandshake HandshakeMessage
  | PHandshakeResponse HandshakeResponse
  | PPeerAddRequest PeerAddRequest
  | PPeerAddResponse PeerAddResponse
  | PPeerRemove PeerRemove
  | PPeerDisconnect PeerDisconnect
  | PPing PingMessage
  | PPong PongMessage
  | PMessage EncryptedMessage
  | PRekeyRequest RekeyRequest
  | PRekeyResponse RekeyResponse
  | PFileRequest FileRequest
  | PFileResponse FileResponse
  | PFileData FileData
  | PFileComplete FileComplete
  | PFolderRequest FolderTransferRequest
  | PFolderResponse FolderTransferResponse
  | PAck AckMessage
  | PError ErrorMessage

fun packet_type :: "Packet \<Rightarrow> string" where
  "packet_type (PHandshakeChallenge _) = ''handshake_challenge''"
| "packet_type (PHandshake _) = ''handshake''"
| "packet_type (PHandshakeResponse _) = ''handshake_response''"
| "packet_type (PPeerAddRequest _) = ''peer_add_request''"
| "packet_type (PPeerAddResponse _) = ''peer_add_response''"
| "packet_type (PPeerRemove _) = ''peer_remove''"
| "packet_type (PPeerDisconnect _) = ''peer_disconnect''"
| "packet_type (PPing _) = ''ping''"
| "packet_type (PPong _) = ''pong''"
| "packet_type (PMessage _) = ''message''"
| "packet_type (PRekeyRequest _) = ''rekey_request''"
| "packet_type (PRekeyResponse _) = ''rekey_response''"
| "packet_type (PFileRequest _) = ''file_request''"
| "packet_type (PFileResponse _) = ''file_response''"
| "packet_type (PFileData _) = ''file_data''"
| "packet_type (PFileComplete _) = ''file_complete''"
| "packet_type (PFolderRequest _) = ''folder_transfer_request''"
| "packet_type (PFolderResponse _) = ''folder_transfer_response''"
| "packet_type (PAck _) = ''ack''"
| "packet_type (PError _) = ''error''"

text \<open>The encrypted transport frame (\<open>connection.go\<close>) that carries the payloads of a session.\<close>

record secureFrame =
  sf_Type :: string
  sf_Epoch :: "64 word"
  sf_Nonce :: string
  sf_Ciphertext :: string

record Json =
  json_Marshal :: "Packet \<Rightarrow> string"
  json_Unmarshal :: "string \<Rightarrow> Packet option"
  json_Type :: "string \<Rightarrow> string option"
  json_MarshalFrame :: "secureFrame \<Rightarrow> string"
  json_UnmarshalFrame :: "string \<Rightarrow> secureFrame option"

definition json_ok :: "Json \<Rightarrow> bool" where
  "json_ok J \<longleftrightarrow>
     (\<forall>p. json_Unmarshal J (json_Marshal J p) = Some p \<and>
          json_Type J (json_Marshal J p) = Some (packet_type p) \<and> json_Marshal J p \<noteq> []) \<and>
     (\<forall>f. json_UnmarshalFrame J (json_MarshalFrame J f) = Some f \<and> json_MarshalFrame J f \<noteq> [])"

text \<open>\<open>json_Type\<close> reads the \<open>type\<close> field of an envelope; a payload without the field has the empty type.\<close>

definition DecodeMessageType :: "Json \<Rightarrow> string \<Rightarrow> string res" where
  "DecodeMessageType J payload =
     (case json_Type J payload of
        None \<Rightarrow> Inl (Wrap ''decode envelope'' (Err ''invalid JSON''))
      | Some t \<Rightarrow> if t = [] then Inl ErrInvalidMessageType else Inr t)"

lemma packet_type_nonempty [simp]: "packet_type p \<noteq> []"
  by (cases p) simp_all

lemma DecodeMessageType_Marshal [simp]:
  "json_ok J \<Longrightarrow> DecodeMessageType J (json_Marshal J p) = Inr (packet_type p)"
  by (simp add: DecodeMessageType_def json_ok_def)

section \<open>Frames\<close>

definition WriteFrame :: "string \<Rightarrow> Writer \<Rightarrow> go_error option \<times> Writer" where
  "WriteFrame payload w =
     (if length payload > MaxFrameSize then (Some ErrFrameTooLarge, w)
      else case Write (PutUint32 (length payload)) w of
             (Some e, w1) \<Rightarrow> (Some (Wrap ''write frame length'' e), w1)
           | (None, w1) \<Rightarrow>
               if length payload = 0 then (None, w1)
               else (case Write payload w1 of
                       (Some e, w2) \<Rightarrow> (Some (Wrap ''write frame payload'' e), w2)
                     | (None, w2) \<Rightarrow> (None, w2)))"

definition readFrameWithLimit :: "nat \<Rightarrow> Reader \<Rightarrow> string res \<times> Reader" where
  "readFrameWithLimit maxSize r =
     (case ReadFull 4 r of
        (Inl e, r1) \<Rightarrow> (Inl (Wrap ''read frame length'' e), r1)
      | (Inr header, r1) \<Rightarrow>
          (let len = Uint32 header in
           if len > maxSize then (Inl ErrFrameTooLarge, r1)
           else if len = 0 then (Inr [], r1)
           else (case ReadFull len r1 of
                   (Inl e, r2) \<Rightarrow> (Inl (Wrap ''read frame payload'' e), r2)
                 | (Inr payload, r2) \<Rightarrow> (Inr payload, r2))))"

definition ReadFrame :: "Reader \<Rightarrow> string res \<times> Reader" where
  "ReadFrame r = readFrameWithLimit MaxFrameSize r"

definition ReadControlFrame :: "Reader \<Rightarrow> string res \<times> Reader" where
  "ReadControlFrame r = readFrameWithLimit MaxControlFrameSize r"

fun WriteFrames :: "string list \<Rightarrow> Writer \<Rightarrow> go_error option \<times> Writer" where
  "WriteFrames [] w = (None, w)"
| "WriteFrames (p # ps) w =
     (case WriteFrame p w of (Some e, w1) \<Rightarrow> (Some e, w1) | (None, w1) \<Rightarrow> WriteFrames ps w1)"

fun ReadFrames :: "nat \<Rightarrow> Reader \<Rightarrow> string list res \<times> Reader" where
  "ReadFrames 0 r = (Inr [], r)"
| "ReadFrames (Suc n) r =
     (case ReadFrame r of
        (Inl e, r1) \<Rightarrow> (Inl e, r1)
      | (Inr p, r1) \<Rightarrow>
          (case ReadFrames n r1 of
             (Inl e, r2) \<Rightarrow> (Inl e, r2)
           | (Inr ps, r2) \<Rightarrow> (Inr (p # ps), r2)))"

section \<open>Handshake messages\<close>

definition signHandshake :: "Prims \<Rightarrow> Json \<Rightarrow> HandshakeMessage \<Rightarrow> string \<Rightarrow> string res" where
  "signHandshake P J msg privateKey =
     (case Sign P privateKey (json_Marshal J (PHandshake (msg\<lparr>h_Signature := []\<rparr>))) of
        Inl e \<Rightarrow> Inl (Wrap ''sign handshake payload'' e)
      | Inr sig \<Rightarrow> Inr sig)"

definition buildHandshakeMessage ::
    "Prims \<Rightarrow> Json \<Rightarrow> int \<Rightarrow> LocalIdentity \<Rightarrow> string \<Rightarrow> string \<Rightarrow> string \<Rightarrow> HandshakeMessage res" where
  "buildHandshakeMessage P J now identity ephemeralPublicKey challengeNonce msgType =
     (if length (id_Ed25519PrivateKey identity) \<noteq> PrivateKeySize then
        Inl (Err ''invalid local Ed25519 private key'')
      else if length (id_Ed25519PublicKey identity) \<noteq> PublicKeySize then
        Inl (Err ''invalid local Ed25519 public key'')
      else
        let msg = \<lparr>h_Type = msgType, h_DeviceID = id_DeviceID identity,
                   h_DeviceName = id_DeviceName identity,
                   h_Ed25519PublicKey = EncodeToString (id_Ed25519PublicKey identity),
                   h_X25519PublicKey = EncodeToString ephemeralPublicKey,
                   h_ChallengeNonce = challengeNonce, h_ProtocolVersion = ProtocolVersion,
                   h_Timestamp = now, h_Signature = []\<rparr>
        in (case signHandshake P J msg (id_Ed25519PrivateKey identity) of
              Inl e \<Rightarrow> Inl e
            | Inr sig \<Rightarrow> Inr (msg\<lparr>h_Signature := EncodeToString sig\<rparr>)))"

definition BuildHandshakeMessage ::
    "Prims \<Rightarrow> Json \<Rightarrow> int \<Rightarrow> LocalIdentity \<Rightarrow> string \<Rightarrow> string \<Rightarrow> HandshakeMessage res" where
  "BuildHandshakeMessage P J now identity ephemeralPublicKey challengeNonce =
     buildHandshakeMessage P J now identity ephemeralPublicKey challengeNonce ''handshake''"

definition BuildHandshakeResponse ::
    "Prims \<Rightarrow> Json \<Rightarrow> int \<Rightarrow> LocalIdentity \<Rightarrow> string \<Rightarrow> HandshakeResponse res" where
  "BuildHandshakeResponse P J now identity ephemeralPublicKey =
     (case buildHandshakeMessage P J now identity ephemeralPublicKey [] ''handshake_response'' of
        Inl e \<Rightarrow> Inl e
      | Inr msg \<Rightarrow> Inr \<lparr>hr_Type = h_Type msg, hr_DeviceID = h_DeviceID msg,
            hr_DeviceName = h_DeviceName msg, hr_Ed25519PublicKey = h_Ed25519PublicKey msg,
            hr_X25519PublicKey = h_X25519PublicKey msg, hr_ProtocolVersion = h_ProtocolVersion msg,
            hr_Timestamp = h_Timestamp msg, hr_Signature = h_Signature msg\<rparr>)"

definition verifyHandshake :: "Prims \<Rightarrow> Json \<Rightarrow> HandshakeMessage \<Rightarrow> string res" where
  "verifyHandshake P J msg =
     (if h_ProtocolVersion msg \<noteq> ProtocolVersion then Inl ErrUnsupportedVersion
      else if h_Type msg = ''handshake'' \<and> h_ChallengeNonce msg = [] then
        Inl (Err ''missing handshake challenge nonce'')
      else case DecodeString (h_Ed25519PublicKey msg) of
             Inl e \<Rightarrow> Inl (Wrap ''decode Ed25519 public key'' e)
           | Inr publicKey \<Rightarrow>
               if length publicKey \<noteq> PublicKeySize then Inl (Err ''invalid Ed25519 public key length'')
               else (case DecodeString (h_Signature msg) of
                       Inl e \<Rightarrow> Inl (Wrap ''decode handshake signature'' e)
                     | Inr sig \<Rightarrow>
                         if \<not> Verify P publicKey (json_Marshal J (PHandshake (msg\<lparr>h_Signature := []\<rparr>))) sig
                         then Inl ErrInvalidSignature
                         else Inr publicKey))"

definition VerifyHandshakeMessage :: "Prims \<Rightarrow> Json \<Rightarrow> HandshakeMessage \<Rightarrow> string res" where
  "VerifyHandshakeMessage P J msg = verifyHandshake P J msg"

definition response_as_message :: "HandshakeResponse \<Rightarrow> HandshakeMessage" where
  "response_as_message r =
     \<lparr>h_Type = hr_Type r, h_DeviceID = hr_DeviceID r, h_DeviceName = hr_DeviceName r,
      h_Ed25519PublicKey = hr_Ed25519PublicKey r, h_X25519PublicKey = hr_X25519PublicKey r,
      h_ChallengeNonce = [], h_ProtocolVersion = hr_ProtocolVersion r,
      h_Timestamp = hr_Timestamp r, h_Signature = hr_Signature r\<rparr>"

definition VerifyHandshakeResponse :: "Prims \<Rightarrow> Json \<Rightarrow> HandshakeResponse \<Rightarrow> string res" where
  "VerifyHandshakeResponse P J r = verifyHandshake P J (response_as_message r)"

section \<open>Lemmas\<close>

definition frame_bytes :: "string \<Rightarrow> string" where
  "frame_bytes payload = PutUint32 (length payload) @ payload"

lemma WriteFrame_unlimited:
  "length payload \<le> MaxFrameSize \<Longrightarrow> w_limit w = None \<Longrightarrow>
   WriteFrame payload w = (None, w\<lparr>w_bytes := w_bytes w @ frame_bytes payload\<rparr>)"
  by (simp add: WriteFrame_def Write_def frame_bytes_def)

lemma readFrameWithLimit_frame:
  assumes "length payload \<le> maxSize" and "maxSize < 4294967296"
  shows "readFrameWithLimit maxSize (r\<lparr>r_avail := frame_bytes payload @ rest\<rparr>) =
           (Inr payload, r\<lparr>r_avail := rest\<rparr>)"
proof -
  have "length payload < 4294967296" using assms by simp
  then show ?thesis
    using assms by (simp add: readFrameWithLimit_def ReadFull_def frame_bytes_def Let_def)
qed

lemma WriteFrames_unlimited:
  "list_all (\<lambda>p. length p \<le> MaxFrameSize) ps \<Longrightarrow> w_limit w = None \<Longrightarrow>
   WriteFrames ps w = (None, w\<lparr>w_bytes := w_bytes w @ concat (map frame_bytes ps)\<rparr>)"
  by (induction ps arbitrary: w) (simp_all add: WriteFrame_unlimited)

lemma ReadFrames_frames:
  "list_all (\<lambda>p. length p \<le> MaxFrameSize) ps \<Longrightarrow>
   ReadFrames (length ps) (r\<lparr>r_avail := concat (map frame_bytes ps) @ rest\<rparr>) =
     (Inr ps, r\<lparr>r_avail := rest\<rparr>)"
proof (induction ps arbitrary: r)
  case Nil
  then show ?case by simp
next
  case (Cons p ps)
  then show ?case
    using readFrameWithLimit_frame [of p MaxFrameSize "concat (map frame_bytes ps) @ rest" r]
    by (simp add: ReadFrame_def MaxFrameSize_def)
qed

section \<open>Properties\<close>

text \<open>C17: Framing loses and invents nothing: the payloads written to a connection, each within the size
  limit and empty ones included, are read back one by one in the order they were written, and the bytes
  that follow them stay unread.\<close>

theorem frames_roundtrip:
  assumes "list_all (\<lambda>p. length p \<le> MaxFrameSize) ps"
    and "WriteFrames ps \<lparr>w_bytes = [], w_limit = None\<rparr> = (None, w)"
  shows "ReadFrames (length ps) \<lparr>r_avail = w_bytes w @ rest, r_end = e\<rparr> =
           (Inr ps, \<lparr>r_avail = rest, r_end = e\<rparr>)"
proof -
  have "w_bytes w = concat (map frame_bytes ps)"
    using assms(2) WriteFrames_unlimited [OF assms(1), of "\<lparr>w_bytes = [], w_limit = None\<rparr>"] by auto
  then show ?thesis
    using ReadFrames_frames [OF assms(1), of rest "\<lparr>r_avail = [], r_end = e\<rparr>"] by simp
qed

theorem frames_roundtrip_witness:
  "\<exists>w. WriteFrames [''hi'', [], ''there''] \<lparr>w_bytes = [], w_limit = None\<rparr> = (None, w) \<and>
       ReadFrames 3 \<lparr>r_avail = w_bytes w @ ''tail'', r_end = EOF\<rparr> =
         (Inr [''hi'', [], ''there''], \<lparr>r_avail = ''tail'', r_end = EOF\<rparr>)"
proof -
  have ok: "list_all (\<lambda>p. length p \<le> MaxFrameSize) [''hi'', [], ''there'']"
    by (simp add: MaxFrameSize_def)
  define w where "w = \<lparr>w_bytes = concat (map frame_bytes [''hi'', [], ''there'']), w_limit = None\<rparr>"
  have w: "WriteFrames [''hi'', [], ''there''] \<lparr>w_bytes = [], w_limit = None\<rparr> = (None, w)"
    using WriteFrames_unlimited [OF ok, of "\<lparr>w_bytes = [], w_limit = None\<rparr>"] by (simp add: w_def)
  have "length [''hi'', [], ''there''] = 3" by simp
  with frames_roundtrip [OF ok w, of "''tail''" EOF] w show ?thesis by metis
qed

text \<open>The reader never hands out a payload above its limit, and a header that announces more is refused
  having read nothing but the header, so a peer cannot make the reader allocate more than the limit.\<close>

theorem frame_limit:
  "case readFrameWithLimit maxSize r of
     (Inr payload, r') \<Rightarrow> length payload \<le> maxSize
   | (Inl e, r') \<Rightarrow> e = ErrFrameTooLarge \<longrightarrow>
       maxSize < Uint32 (take 4 (r_avail r)) \<and> r_avail r' = drop 4 (r_avail r)"
  by (auto simp: readFrameWithLimit_def ReadFull_def Let_def split: prod.split sum.split)

theorem frame_limit_witness:
  "fst (readFrameWithLimit 5 \<lparr>r_avail = PutUint32 6 @ ''abcdef'', r_end = EOF\<rparr>) = Inl ErrFrameTooLarge \<and>
   r_avail (snd (readFrameWithLimit 5 \<lparr>r_avail = PutUint32 6 @ ''abcdef'', r_end = EOF\<rparr>)) = ''abcdef''"
proof -
  let ?r = "\<lparr>r_avail = PutUint32 6 @ ''abcdef'', r_end = EOF\<rparr>"
  have e: "fst (readFrameWithLimit 5 ?r) = Inl ErrFrameTooLarge"
    by (simp add: readFrameWithLimit_def ReadFull_def Let_def)
  then obtain r' where r': "readFrameWithLimit 5 ?r = (Inl ErrFrameTooLarge, r')" by (metis prod.collapse)
  from frame_limit [of 5 ?r] have "r_avail r' = ''abcdef''" by (simp add: r')
  with r' show ?thesis by simp
qed

text \<open>A read that times out in the middle of a frame has consumed what had arrived, so the next read
  takes the following bytes of that payload for a frame header: the stream is out of step from then on,
  and with a payload of suitable bytes the rest of it is read as frames of its own.\<close>

theorem timeout_desynchronises:
  assumes "length payload \<le> MaxFrameSize" and "payload = seen @ frame_bytes inner @ rest"
  shows "ReadFrame \<lparr>r_avail = PutUint32 (length payload) @ seen, r_end = ErrTimeout\<rparr> =
           (Inl (Wrap ''read frame payload'' ErrTimeout), \<lparr>r_avail = [], r_end = ErrTimeout\<rparr>) \<and>
         ReadFrame \<lparr>r_avail = drop (length seen) payload, r_end = e\<rparr> = (Inr inner, \<lparr>r_avail = rest, r_end = e\<rparr>)"
proof
  have "length payload < 4294967296" using assms(1) by (simp add: MaxFrameSize_def)
  moreover have "length seen < length payload" "payload \<noteq> []" using assms(2) by (auto simp: frame_bytes_def PutUint32_def)
  ultimately show "ReadFrame \<lparr>r_avail = PutUint32 (length payload) @ seen, r_end = ErrTimeout\<rparr> =
           (Inl (Wrap ''read frame payload'' ErrTimeout), \<lparr>r_avail = [], r_end = ErrTimeout\<rparr>)"
    using assms(1) by (simp add: ReadFrame_def readFrameWithLimit_def ReadFull_def Let_def)
  have "length inner \<le> MaxFrameSize" using assms by (simp add: frame_bytes_def)
  then show "ReadFrame \<lparr>r_avail = drop (length seen) payload, r_end = e\<rparr> = (Inr inner, \<lparr>r_avail = rest, r_end = e\<rparr>)"
    using readFrameWithLimit_frame [of inner MaxFrameSize rest "\<lparr>r_avail = [], r_end = e\<rparr>"] assms
    by (simp add: ReadFrame_def MaxFrameSize_def)
qed

theorem timeout_desynchronises_witness:
  "ReadFrame \<lparr>r_avail = drop 2 (''ab'' @ frame_bytes ''in'' @ ''z''), r_end = EOF\<rparr> =
     (Inr ''in'', \<lparr>r_avail = ''z'', r_end = EOF\<rparr>)"
  using timeout_desynchronises [of "''ab'' @ frame_bytes ''in'' @ ''z''" "''ab''" "''in''" "''z''" EOF]
  by (simp add: MaxFrameSize_def frame_bytes_def)

end
