(* ===== verification/SampleJson.thy ===== *)
theory SampleJson
  imports Protocol "HOL-Library.Countable"
begin

text \<open>
  An encoding of the wire messages that satisfies \<open>json_ok\<close>, on which theorems with that hypothesis are
  instantiated: the messages are countable, and a message is written as so many letters. \<open>RawPacket\<close>
  holds the fields of each message as a tuple.
\<close>

datatype RawPacket =
RHandshakeChallenge "string"
| RHandshake "string \<times> string \<times> string \<times> string \<times> string \<times> string
     \<times> int \<times> int \<times> string"
| RHandshakeResponse "string \<times> string \<times> string \<times> string \<times> string \<times>
     int \<times> int \<times> string"
| RPeerAddRequest "string \<times> string \<times> int \<times> string"
| RPeerAddResponse "string \<times> string \<times> string \<times> int \<times> string"
| RPeerRemove "string \<times> int \<times> string"
| RPeerDisconnect "string \<times> int"
| RPing "string \<times> int"
| RPong "string \<times> int"
| RMessage "string \<times> string \<times> string \<times> string \<times> 64 word \<times> string \<times>
     string \<times> int \<times> string"
| RRekeyRequest "string \<times> 64 word \<times> string \<times> int \<times> string"
| RRekeyResponse "string \<times> 64 word \<times> string \<times> int \<times> string"
| RFileRequest "string \<times> string \<times> string \<times> string \<times> string \<times> string
     \<times> int \<times> string \<times> string \<times> 64 word \<times> int \<times> string"
| RFileResponse "string \<times> string \<times> string \<times> int \<times> int \<times> string
     \<times> int \<times> string"
| RFileData "string \<times> int \<times> int \<times> int \<times> string \<times> string \<times> int"
| RFileComplete "string \<times> string \<times> string \<times> int \<times> string"
| RFolderRequest "string \<times> string \<times> int \<times> int \<times> (string \<times> int
     \<times> bool) list \<times> string \<times> string \<times> int \<times> string"
| RFolderResponse "string \<times> string \<times> string \<times> string \<times> int \<times> string"
| RAck "string \<times> string \<times> string \<times> int \<times> string"
| RError "string \<times> string \<times> string \<times> int list \<times> int"

instance RawPacket :: countable
  by countable_datatype

definition entry_raw :: "FolderManifestEntry \<Rightarrow> string \<times> int \<times> bool" where
  "entry_raw e = (me_RelativePath e, me_Size e, me_IsDirectory e)"

fun raw_entry :: "string \<times> int \<times> bool \<Rightarrow> FolderManifestEntry" where
  "raw_entry (p, n, d) = \<lparr>me_RelativePath = p, me_Size = n, me_IsDirectory = d\<rparr>"

fun to_raw :: "Packet \<Rightarrow> RawPacket" where
"to_raw (PHandshakeChallenge m) = RHandshakeChallenge (hc_Nonce m)"
| "to_raw (PHandshake m) = RHandshake (h_Type m, h_DeviceID m, h_DeviceName m, h_Ed25519PublicKey m,
     h_X25519PublicKey m, h_ChallengeNonce m, h_ProtocolVersion m, h_Timestamp m, h_Signature m)"
| "to_raw (PHandshakeResponse m) = RHandshakeResponse (hr_Type m, hr_DeviceID m, hr_DeviceName m,
     hr_Ed25519PublicKey m, hr_X25519PublicKey m, hr_ProtocolVersion m, hr_Timestamp m, hr_Signature m)"
| "to_raw (PPeerAddRequest m) = RPeerAddRequest (ar_FromDeviceID m, ar_FromDeviceName m, ar_Timestamp m,
     ar_Signature m)"
| "to_raw (PPeerAddResponse m) = RPeerAddResponse (as_Status m, as_DeviceID m, as_DeviceName m,
     as_Timestamp m, as_Signature m)"
| "to_raw (PPeerRemove m) = RPeerRemove (pr_FromDeviceID m, pr_Timestamp m, pr_Signature m)"
| "to_raw (PPeerDisconnect m) = RPeerDisconnect (pd_FromDeviceID m, pd_Timestamp m)"
| "to_raw (PPing m) = RPing (pi_FromDeviceID m, pi_Timestamp m)"
| "to_raw (PPong m) = RPong (po_FromDeviceID m, po_Timestamp m)"
| "to_raw (PMessage m) = RMessage (em_MessageID m, em_FromDeviceID m, em_ToDeviceID m, em_ContentType m,
     em_Sequence m, em_EncryptedContent m, em_IV m, em_Timestamp m, em_Signature m)"
| "to_raw (PRekeyRequest m) = RRekeyRequest (rq_FromDeviceID m, rq_Epoch m, rq_X25519PublicKey m,
     rq_Timestamp m, rq_Signature m)"
| "to_raw (PRekeyResponse m) = RRekeyResponse (rs_FromDeviceID m, rs_Epoch m, rs_X25519PublicKey m,
     rs_Timestamp m, rs_Signature m)"
| "to_raw (PFileRequest m) = RFileRequest (fq_FileID m, fq_FolderID m, fq_RelativePath m,
     fq_FromDeviceID m, fq_ToDeviceID m, fq_Filename m, fq_Filesize m, fq_Filetype m, fq_Checksum m,
     fq_Sequence m, fq_Timestamp m, fq_Signature m)"
| "to_raw (PFileResponse m) = RFileResponse (fs_FileID m, fs_Status m, fs_FromDeviceID m, fs_ChunkIndex
     m, fs_ResumeFromChunk m, fs_Message m, fs_Timestamp m, fs_Signature m)"
| "to_raw (PFileData m) = RFileData (fd_FileID m, fd_ChunkIndex m, fd_TotalChunks m, fd_ChunkSize m,
     fd_EncryptedData m, fd_IV m, fd_Timestamp m)"
| "to_raw (PFileComplete m) = RFileComplete (fc_FileID m, fc_Status m, fc_Message m, fc_Timestamp m,
     fc_Signature m)"
| "to_raw (PFolderRequest m) = RFolderRequest (dq_FolderID m, dq_FolderName m, dq_TotalFiles m,
     dq_TotalSize m, map entry_raw (dq_Manifest m), dq_FromDeviceID m, dq_ToDeviceID m, dq_Timestamp m,
     dq_Signature m)"
| "to_raw (PFolderResponse m) = RFolderResponse (ds_FolderID m, ds_Status m, ds_FromDeviceID m,
     ds_Message m, ds_Timestamp m, ds_Signature m)"
| "to_raw (PAck m) = RAck (ak_MessageID m, ak_FromDeviceID m, ak_Status m, ak_Timestamp m, ak_Signature
     m)"
| "to_raw (PError m) = RError (er_Code m, er_Message m, er_RelatedMessageID m, er_SupportedVersions m,
     er_Timestamp m)"

fun of_raw :: "RawPacket \<Rightarrow> Packet" where
"of_raw (RHandshakeChallenge (x0)) = PHandshakeChallenge \<lparr>hc_Nonce = x0\<rparr>"
| "of_raw (RHandshake (x0, x1, x2, x3, x4, x5, x6, x7, x8)) = PHandshake \<lparr>h_Type = x0, h_DeviceID
     = x1, h_DeviceName = x2, h_Ed25519PublicKey = x3, h_X25519PublicKey = x4, h_ChallengeNonce = x5,
     h_ProtocolVersion = x6, h_Timestamp = x7, h_Signature = x8\<rparr>"
| "of_raw (RHandshakeResponse (x0, x1, x2, x3, x4, x5, x6, x7)) = PHandshakeResponse \<lparr>hr_Type =
     x0, hr_DeviceID = x1, hr_DeviceName = x2, hr_Ed25519PublicKey = x3, hr_X25519PublicKey = x4,
     hr_ProtocolVersion = x5, hr_Timestamp = x6, hr_Signature = x7\<rparr>"
| "of_raw (RPeerAddRequest (x0, x1, x2, x3)) = PPeerAddRequest \<lparr>ar_FromDeviceID = x0,
     ar_FromDeviceName = x1, ar_Timestamp = x2, ar_Signature = x3\<rparr>"
| "of_raw (RPeerAddResponse (x0, x1, x2, x3, x4)) = PPeerAddResponse \<lparr>as_Status = x0, as_DeviceID
     = x1, as_DeviceName = x2, as_Timestamp = x3, as_Signature = x4\<rparr>"
| "of_raw (RPeerRemove (x0, x1, x2)) = PPeerRemove \<lparr>pr_FromDeviceID = x0, pr_Timestamp = x1,
     pr_Signature = x2\<rparr>"
| "of_raw (RPeerDisconnect (x0, x1)) = PPeerDisconnect \<lparr>pd_FromDeviceID = x0, pd_Timestamp =
     x1\<rparr>"
| "of_raw (RPing (x0, x1)) = PPing \<lparr>pi_FromDeviceID = x0, pi_Timestamp = x1\<rparr>"
| "of_raw (RPong (x0, x1)) = PPong \<lparr>po_FromDeviceID = x0, po_Timestamp = x1\<rparr>"
| "of_raw (RMessage (x0, x1, x2, x3, x4, x5, x6, x7, x8)) = PMessage \<lparr>em_MessageID = x0,
     em_FromDeviceID = x1, em_ToDeviceID = x2, em_ContentType = x3, em_Sequence = x4,
     em_EncryptedContent = x5, em_IV = x6, em_Timestamp = x7, em_Signature = x8\<rparr>"
| "of_raw (RRekeyRequest (x0, x1, x2, x3, x4)) = PRekeyRequest \<lparr>rq_FromDeviceID = x0, rq_Epoch =
     x1, rq_X25519PublicKey = x2, rq_Timestamp = x3, rq_Signature = x4\<rparr>"
| "of_raw (RRekeyResponse (x0, x1, x2, x3, x4)) = PRekeyResponse \<lparr>rs_FromDeviceID = x0, rs_Epoch
     = x1, rs_X25519PublicKey = x2, rs_Timestamp = x3, rs_Signature = x4\<rparr>"
| "of_raw (RFileRequest (x0, x1, x2, x3, x4, x5, x6, x7, x8, x9, x10, x11)) = PFileRequest
     \<lparr>fq_FileID = x0, fq_FolderID = x1, fq_RelativePath = x2, fq_FromDeviceID = x3, fq_ToDeviceID
     = x4, fq_Filename = x5, fq_Filesize = x6, fq_Filetype = x7, fq_Checksum = x8, fq_Sequence = x9,
     fq_Timestamp = x10, fq_Signature = x11\<rparr>"
| "of_raw (RFileResponse (x0, x1, x2, x3, x4, x5, x6, x7)) = PFileResponse \<lparr>fs_FileID = x0,
     fs_Status = x1, fs_FromDeviceID = x2, fs_ChunkIndex = x3, fs_ResumeFromChunk = x4, fs_Message = x5,
     fs_Timestamp = x6, fs_Signature = x7\<rparr>"
| "of_raw (RFileData (x0, x1, x2, x3, x4, x5, x6)) = PFileData \<lparr>fd_FileID = x0, fd_ChunkIndex =
     x1, fd_TotalChunks = x2, fd_ChunkSize = x3, fd_EncryptedData = x4, fd_IV = x5, fd_Timestamp =
     x6\<rparr>"
| "of_raw (RFileComplete (x0, x1, x2, x3, x4)) = PFileComplete \<lparr>fc_FileID = x0, fc_Status = x1,
     fc_Message = x2, fc_Timestamp = x3, fc_Signature = x4\<rparr>"
| "of_raw (RFolderRequest (x0, x1, x2, x3, x4, x5, x6, x7, x8)) = PFolderRequest \<lparr>dq_FolderID =
     x0, dq_FolderName = x1, dq_TotalFiles = x2, dq_TotalSize = x3, dq_Manifest = map raw_entry x4,
     dq_FromDeviceID = x5, dq_ToDeviceID = x6, dq_Timestamp = x7, dq_Signature = x8\<rparr>"
| "of_raw (RFolderResponse (x0, x1, x2, x3, x4, x5)) = PFolderResponse \<lparr>ds_FolderID = x0,
     ds_Status = x1, ds_FromDeviceID = x2, ds_Message = x3, ds_Timestamp = x4, ds_Signature =
     x5\<rparr>"
| "of_raw (RAck (x0, x1, x2, x3, x4)) = PAck \<lparr>ak_MessageID = x0, ak_FromDeviceID = x1, ak_Status
     = x2, ak_Timestamp = x3, ak_Signature = x4\<rparr>"
| "of_raw (RError (x0, x1, x2, x3, x4)) = PError \<lparr>er_Code = x0, er_Message = x1,
     er_RelatedMessageID = x2, er_SupportedVersions = x3, er_Timestamp = x4\<rparr>"

lemma raw_entry_entry_raw: "raw_entry (entry_raw e) = e"
  by (simp add: entry_raw_def)

lemma of_raw_to_raw: "of_raw (to_raw p) = p"
  by (cases p) (simp_all add: raw_entry_entry_raw o_def)

definition sample_json :: Json where
  "sample_json =
     \<lparr>json_Marshal = (\<lambda>p. replicate (Suc (to_nat (to_raw p))) CHR ''x''),
      json_Unmarshal = (\<lambda>s. Some (of_raw (from_nat (length s - 1)))),
      json_Type = (\<lambda>s. Some (packet_type (of_raw (from_nat (length s - 1))))),
      json_MarshalFrame = (\<lambda>f. replicate (Suc (to_nat (sf_Type f, sf_Epoch f, sf_Nonce f, sf_Ciphertext f))) CHR ''x''),
      json_UnmarshalFrame = (\<lambda>s. case from_nat (length s - 1) of
         (t, e, n, c) \<Rightarrow> Some \<lparr>sf_Type = t, sf_Epoch = e, sf_Nonce = n, sf_Ciphertext = c\<rparr>)\<rparr>"

lemma sample_json_ok: "json_ok sample_json"
  by (simp add: json_ok_def sample_json_def of_raw_to_raw del: replicate_Suc)

text \<open>
  A second instance, short where a witness needs it to be: the packets of a list are named by their
  position, and so are the frames of epoch 0 with one fixed nonce by their content; everything else is
  encoded as above.
\<close>

fun position :: "'a list \<Rightarrow> 'a \<Rightarrow> nat option" where
  "position [] x = None"
| "position (y # ys) x = (if x = y then Some 0 else map_option Suc (position ys x))"

lemma position_SomeD: "position xs x = Some k \<Longrightarrow> k < length xs \<and> xs ! k = x"
  by (induction xs x arbitrary: k rule: position.induct) (auto split: if_splits)

lemma position_member: "x \<in> set xs \<Longrightarrow> \<exists>k. position xs x = Some k"
  by (induction xs) auto

definition short_marshal :: "Packet list \<Rightarrow> Packet \<Rightarrow> string" where
  "short_marshal ps p =
     (case position ps p of Some k \<Rightarrow> CHR ''p'' # replicate k CHR ''x'' | None \<Rightarrow> json_Marshal sample_json p)"

definition short_unmarshal :: "Packet list \<Rightarrow> string \<Rightarrow> Packet option" where
  "short_unmarshal ps s =
     (case s of c # r \<Rightarrow> if c = CHR ''p'' then Some (ps ! length r) else json_Unmarshal sample_json s
      | [] \<Rightarrow> None)"

definition short_json :: "string \<Rightarrow> Packet list \<Rightarrow> Json" where
  "short_json nonce ps =
     \<lparr>json_Marshal = short_marshal ps, json_Unmarshal = short_unmarshal ps,
      json_Type = (\<lambda>s. map_option packet_type (short_unmarshal ps s)),
      json_MarshalFrame = (\<lambda>f. if sf_Type f = ''secure_frame'' \<and> sf_Epoch f = 0 \<and> sf_Nonce f = nonce
         then CHR ''f'' # sf_Ciphertext f else json_MarshalFrame sample_json f),
      json_UnmarshalFrame = (\<lambda>s. case s of
         c # r \<Rightarrow> if c = CHR ''f''
           then Some \<lparr>sf_Type = ''secure_frame'', sf_Epoch = 0, sf_Nonce = nonce, sf_Ciphertext = r\<rparr>
           else json_UnmarshalFrame sample_json s
       | [] \<Rightarrow> None)\<rparr>"

lemma short_unmarshal_marshal: "short_unmarshal ps (short_marshal ps p) = Some p"
proof (cases "position ps p")
  case None
  then show ?thesis
    using sample_json_ok by (simp add: short_marshal_def short_unmarshal_def sample_json_def of_raw_to_raw)
qed (auto simp: short_marshal_def short_unmarshal_def dest: position_SomeD)

lemma short_json_ok: "json_ok (short_json nonce ps)"
proof -
  have "short_marshal ps p \<noteq> []" for p
    by (simp add: short_marshal_def sample_json_def split: option.split)
  then show ?thesis
    unfolding json_ok_def
    by (simp add: short_json_def short_unmarshal_marshal)
       (auto simp: sample_json_def)
qed

lemma short_marshal_length: "p \<in> set ps \<Longrightarrow> length (json_Marshal (short_json nonce ps) p) \<le> length ps"
  by (auto simp: short_json_def short_marshal_def dest!: position_member dest: position_SomeD split: option.split)

lemma short_frame_length:
  "length (json_MarshalFrame (short_json nonce ps)
     \<lparr>sf_Type = ''secure_frame'', sf_Epoch = 0, sf_Nonce = nonce, sf_Ciphertext = ct\<rparr>) = Suc (length ct)"
  by (simp add: short_json_def)

end
