(* ===== verification/Handshake.thy ===== *)
theory Handshake
  imports Protocol SampleJson
begin

text \<open>
  \<open>src/network/handshake.go\<close>, \<open>client.go\<close> and the handshake half of \<open>server.go\<close>: the options and
  their defaults, the pinned-key policy, the derivation of session keys, and the two sides of the
  handshake as functions from what they read to what they send and conclude.

  The listener sends a fresh nonce, the dialer answers with a signed handshake that echoes it, the
  listener checks it and answers with its own signed message; then both derive the session key.
  \<open>Dial\<close> is \<open>dial_start\<close> (up to sending the handshake) and \<open>dial_finish\<close>; \<open>handleInboundConn\<close> is
  \<open>server_accept\<close> after the challenge. The network enters as the errors its calls return (\<open>DialNet\<close>,
  \<open>ServerNet\<close>), the ephemeral X25519 private keys and the nonce as arguments.
\<close>

section \<open>Options\<close>

record HandshakeOptions =
  o_Identity :: LocalIdentity
  o_KnownPeerKeys :: "string \<Rightarrow> string"
  o_KnownPeerKeyLookup :: "(string \<Rightarrow> string) option"
  o_OnKeyChangeDecision :: "(string \<Rightarrow> string \<Rightarrow> string \<Rightarrow> bool res) option"
  o_ConnectionTimeout :: int
  o_KeepAliveInterval :: int
  o_KeepAliveTimeout :: int
  o_FrameReadTimeout :: int
  o_RekeyInterval :: int
  o_RekeyAfterBytes :: nat
  o_AutoRespondPing :: "bool option"
  o_ConnectionRateLimitPerIP :: int
  o_ConnectionRateLimitWindow :: int

text \<open>Durations are in nanoseconds.\<close>

definition Second :: int where "Second = 1000000000"

definition or_default :: "int \<Rightarrow> int \<Rightarrow> int" where
  "or_default v d = (if v \<le> 0 then d else v)"

definition withDefaults :: "HandshakeOptions \<Rightarrow> HandshakeOptions" where
  "withDefaults opts = opts\<lparr>
     o_ConnectionTimeout := or_default (o_ConnectionTimeout opts) (30 * Second),
     o_KeepAliveInterval := or_default (o_KeepAliveInterval opts) (60 * Second),
     o_KeepAliveTimeout := or_default (o_KeepAliveTimeout opts) (15 * Second),
     o_FrameReadTimeout := or_default (o_FrameReadTimeout opts) (30 * Second),
     o_RekeyInterval := or_default (o_RekeyInterval opts) (3600 * Second),
     o_RekeyAfterBytes := (if o_RekeyAfterBytes opts = 0 then 1073741824 else o_RekeyAfterBytes opts),
     o_ConnectionRateLimitPerIP := or_default (o_ConnectionRateLimitPerIP opts) 5,
     o_ConnectionRateLimitWindow := or_default (o_ConnectionRateLimitWindow opts) (60 * Second)\<rparr>"

definition validateIdentity :: "HandshakeOptions \<Rightarrow> go_error option" where
  "validateIdentity opts =
     (if id_DeviceID (o_Identity opts) = [] then Some (Err ''local device ID is required'')
      else if id_DeviceName (o_Identity opts) = [] then Some (Err ''local device name is required'')
      else if id_Ed25519PrivateKey (o_Identity opts) = [] then
        Some (Err ''local Ed25519 private key is required'')
      else if id_Ed25519PublicKey (o_Identity opts) = [] then
        Some (Err ''local Ed25519 public key is required'')
      else None)"

definition autoRespondPingEnabled :: "HandshakeOptions \<Rightarrow> bool" where
  "autoRespondPingEnabled opts = (case o_AutoRespondPing opts of None \<Rightarrow> True | Some b \<Rightarrow> b)"

section \<open>Keys\<close>

definition ephemeral_secret :: "Prims \<Rightarrow> string \<Rightarrow> string \<Rightarrow> string \<Rightarrow> string res" where
  "ephemeral_secret P what eph peerX25519PublicKeyBase64 =
     (case DecodeString peerX25519PublicKeyBase64 of
        Inl e \<Rightarrow> Inl (Wrap what e)
      | Inr raw \<Rightarrow>
          (case ParseX25519PublicKey P raw of
             Inl e \<Rightarrow> Inl e
           | Inr peerPublicKey \<Rightarrow> ComputeX25519SharedSecret P eph peerPublicKey))"

definition deriveSessionKey ::
    "Prims \<Rightarrow> string \<Rightarrow> string \<Rightarrow> string \<Rightarrow> string \<Rightarrow> string \<Rightarrow> string res" where
  "deriveSessionKey P eph peerX25519PublicKeyBase64 localDeviceID peerDeviceID challengeNonceBase64 =
     (case ephemeral_secret P ''decode peer ephemeral public key'' eph peerX25519PublicKeyBase64 of
        Inl e \<Rightarrow> Inl e
      | Inr sharedSecret \<Rightarrow>
          (case DecodeString challengeNonceBase64 of
             Inl e \<Rightarrow> Inl (Wrap ''decode challenge nonce'' e)
           | Inr challengeNonce \<Rightarrow>
               if length challengeNonce \<noteq> 32 then Inl (Err ''invalid challenge nonce length'')
               else DeriveSessionKeyWithContext P sharedSecret localDeviceID peerDeviceID challengeNonce))"

definition deriveRekeySessionKey ::
    "Prims \<Rightarrow> string \<Rightarrow> string \<Rightarrow> string \<Rightarrow> string \<Rightarrow> 64 word \<Rightarrow> string res" where
  "deriveRekeySessionKey P eph peerX25519PublicKeyBase64 localDeviceID peerDeviceID epoch =
     (case ephemeral_secret P ''decode peer rekey public key'' eph peerX25519PublicKeyBase64 of
        Inl e \<Rightarrow> Inl e
      | Inr sharedSecret \<Rightarrow>
          DeriveSessionKeyWithContext P sharedSecret localDeviceID peerDeviceID
            (''rekey|'' @ FormatUint (unat epoch)))"

text \<open>The key a peer is known by: what the lookup finds, or else the fixed table.\<close>

definition existing_key :: "(string \<Rightarrow> string) \<Rightarrow> (string \<Rightarrow> string) option \<Rightarrow> string \<Rightarrow> string" where
  "existing_key known lookup deviceID =
     (let e = (case lookup of None \<Rightarrow> [] | Some f \<Rightarrow> f deviceID)
      in if e = [] then known deviceID else e)"

definition evaluatePeerKey ::
    "string \<Rightarrow> string \<Rightarrow> (string \<Rightarrow> string) \<Rightarrow> (string \<Rightarrow> string) option \<Rightarrow>
     (string \<Rightarrow> string \<Rightarrow> string \<Rightarrow> bool res) option \<Rightarrow> go_error option" where
  "evaluatePeerKey deviceID receivedBase64 known lookup decision =
     (let existing = existing_key known lookup deviceID in
      if existing = [] \<or> existing = receivedBase64 then None
      else case decision of
             None \<Rightarrow> Some ErrKeyChanged
           | Some decide \<Rightarrow>
               (case decide deviceID existing receivedBase64 of
                  Inl e \<Rightarrow> Some (Wrap ''key change decision'' e)
                | Inr trust \<Rightarrow> if trust then None else Some ErrKeyChanged))"

definition makeVersionMismatchError :: "int \<Rightarrow> ErrorMessage" where
  "makeVersionMismatchError now =
     \<lparr>er_Code = ''version_mismatch'', er_Message = ''Unsupported protocol version'',
      er_RelatedMessageID = [], er_SupportedVersions = [ProtocolVersion], er_Timestamp = now\<rparr>"

section \<open>The dialer\<close>

text \<open>What a handshake settles about a connection.\<close>

record Session =
  ss_LocalDeviceID :: string
  ss_PeerDeviceID :: string
  ss_PeerDeviceName :: string
  ss_PeerPublicKey :: string
  ss_SessionKey :: string

definition remote_error :: "Json \<Rightarrow> string \<Rightarrow> go_error" where
  "remote_error J payload =
     (case json_Unmarshal J payload of
        Some (PError e) \<Rightarrow> Err (''remote error ['' @ er_Code e @ '']: '' @ er_Message e)
      | _ \<Rightarrow> Wrap ''decode remote error response'' (Err ''invalid JSON''))"

text \<open>The challenge is read and checked, and the handshake to send is built; it carries the nonce on.\<close>

definition dial_start ::
    "Prims \<Rightarrow> Json \<Rightarrow> HandshakeOptions \<Rightarrow> int \<Rightarrow> string \<Rightarrow> string \<Rightarrow> (string \<times> string) res" where
  "dial_start P J opts now eph challengePayload =
     (case DecodeMessageType J challengePayload of
        Inl e \<Rightarrow> Inl e
      | Inr t \<Rightarrow>
          if t = ''error'' then Inl (remote_error J challengePayload)
          else if t \<noteq> ''handshake_challenge'' then Inl (Err ''expected handshake_challenge'')
          else case json_Unmarshal J challengePayload of
                 Some (PHandshakeChallenge challenge) \<Rightarrow>
                   (case DecodeString (hc_Nonce challenge) of
                      Inl e \<Rightarrow> Inl (Wrap ''decode handshake challenge nonce'' e)
                    | Inr rawNonce \<Rightarrow>
                        if length rawNonce \<noteq> 32 then Inl (Err ''invalid handshake challenge nonce length'')
                        else (case BuildHandshakeMessage P J now (o_Identity opts) (x25519_Public P eph)
                                     (hc_Nonce challenge) of
                                Inl e \<Rightarrow> Inl e
                              | Inr handshake \<Rightarrow>
                                  Inr (json_Marshal J (PHandshake handshake), hc_Nonce challenge)))
               | _ \<Rightarrow> Inl (Wrap ''decode handshake challenge'' (Err ''invalid JSON'')))"

definition dial_finish ::
    "Prims \<Rightarrow> Json \<Rightarrow> HandshakeOptions \<Rightarrow> string \<Rightarrow> string \<Rightarrow> string \<Rightarrow> Session res" where
  "dial_finish P J opts eph nonce responsePayload =
     (case DecodeMessageType J responsePayload of
        Inl e \<Rightarrow> Inl e
      | Inr t \<Rightarrow>
          if t = ''error'' then Inl (remote_error J responsePayload)
          else if t \<noteq> ''handshake_response'' then Inl (Err ''expected handshake_response'')
          else case json_Unmarshal J responsePayload of
                 Some (PHandshakeResponse response) \<Rightarrow>
                   (case VerifyHandshakeResponse P J response of
                      Inl e \<Rightarrow> Inl (if errors_Is e ErrUnsupportedVersion then e
                                   else Wrap ''verify handshake response'' e)
                    | Inr _ \<Rightarrow>
                        (case evaluatePeerKey (hr_DeviceID response) (hr_Ed25519PublicKey response)
                                (o_KnownPeerKeys opts) (o_KnownPeerKeyLookup opts)
                                (o_OnKeyChangeDecision opts) of
                           Some e \<Rightarrow> Inl e
                         | None \<Rightarrow>
                             (case deriveSessionKey P eph (hr_X25519PublicKey response)
                                     (id_DeviceID (o_Identity opts)) (hr_DeviceID response) nonce of
                                Inl e \<Rightarrow> Inl e
                              | Inr key \<Rightarrow> Inr
                                  \<lparr>ss_LocalDeviceID = id_DeviceID (o_Identity opts),
                                   ss_PeerDeviceID = hr_DeviceID response,
                                   ss_PeerDeviceName = hr_DeviceName response,
                                   ss_PeerPublicKey = hr_Ed25519PublicKey response,
                                   ss_SessionKey = key\<rparr>)))
               | _ \<Rightarrow> Inl (Wrap ''decode handshake response'' (Err ''invalid JSON'')))"

text \<open>The calls on the socket, as the errors they return; \<open>dn_send\<close> is the peer's answer to the handshake.\<close>

record DialNet =
  dn_dial :: "go_error option"
  dn_deadline :: "go_error option"
  dn_challenge :: "string res"
  dn_write :: "go_error option"
  dn_response :: "string \<Rightarrow> string res"
  dn_clear :: "go_error option"

definition Dial :: "Prims \<Rightarrow> Json \<Rightarrow> HandshakeOptions \<Rightarrow> int \<Rightarrow> string \<Rightarrow> DialNet \<Rightarrow> Session res" where
  "Dial P J options now eph net =
     (let opts = withDefaults options in
      case validateIdentity opts of
        Some e \<Rightarrow> Inl e
      | None \<Rightarrow>
      (case dn_dial net of Some e \<Rightarrow> Inl (Wrap ''dial'' e) | None \<Rightarrow>
      (case dn_deadline net of Some e \<Rightarrow> Inl (Wrap ''set handshake deadline'' e) | None \<Rightarrow>
      (case dn_challenge net of
         Inl e \<Rightarrow> Inl (Wrap ''read handshake challenge'' e)
       | Inr challengePayload \<Rightarrow>
      (case dial_start P J opts now eph challengePayload of
         Inl e \<Rightarrow> Inl e
       | Inr (payload, nonce) \<Rightarrow>
      (case dn_write net of Some e \<Rightarrow> Inl (Wrap ''send handshake'' e) | None \<Rightarrow>
      (case dn_response net payload of
         Inl e \<Rightarrow> Inl (Wrap ''read handshake response'' e)
       | Inr responsePayload \<Rightarrow>
      (case dial_finish P J opts eph nonce responsePayload of
         Inl e \<Rightarrow> Inl e
       | Inr session \<Rightarrow>
      (case dn_clear net of
         Some e \<Rightarrow> Inl (Wrap ''clear handshake deadline'' e)
       | None \<Rightarrow> Inr session)))))))))"

section \<open>The listener\<close>

text \<open>
  How a handshake ends for the listener: an error reported to its owner, an error message sent to the
  dialer, or an accepted session with the response to send.
\<close>

datatype Inbound =
    Reported go_error
  | Replied ErrorMessage
  | Accepted string Session

definition reply_error :: "int \<Rightarrow> string \<Rightarrow> string \<Rightarrow> ErrorMessage" where
  "reply_error now code msg =
     \<lparr>er_Code = code, er_Message = msg, er_RelatedMessageID = [], er_SupportedVersions = [],
      er_Timestamp = now\<rparr>"

definition server_accept ::
    "Prims \<Rightarrow> Json \<Rightarrow> HandshakeOptions \<Rightarrow> int \<Rightarrow> string \<Rightarrow> string \<Rightarrow> string \<Rightarrow> Inbound" where
  "server_accept P J opts now nonce eph handshakePayload =
     (case DecodeMessageType J handshakePayload of
        Inl e \<Rightarrow> Reported e
      | Inr t \<Rightarrow>
          if t \<noteq> ''handshake'' then Replied (reply_error now ''unknown_type'' ''Expected handshake'')
          else case json_Unmarshal J handshakePayload of
                 Some (PHandshake handshake) \<Rightarrow>
                   if h_ProtocolVersion handshake \<noteq> ProtocolVersion then
                     Replied (makeVersionMismatchError now)
                   else if h_ChallengeNonce handshake \<noteq> nonce then
                     Replied (reply_error now ''invalid_handshake_challenge''
                                ''Handshake challenge nonce mismatch.'')
                   else (case VerifyHandshakeMessage P J handshake of
                      Inl e \<Rightarrow> Reported (Wrap ''verify handshake'' e)
                    | Inr _ \<Rightarrow>
                        (case evaluatePeerKey (h_DeviceID handshake) (h_Ed25519PublicKey handshake)
                                (o_KnownPeerKeys opts) (o_KnownPeerKeyLookup opts)
                                (o_OnKeyChangeDecision opts) of
                           Some e \<Rightarrow> Replied (reply_error now ''key_changed'' (error_text e))
                         | None \<Rightarrow>
                             (case deriveSessionKey P eph (h_X25519PublicKey handshake)
                                     (id_DeviceID (o_Identity opts)) (h_DeviceID handshake)
                                     (h_ChallengeNonce handshake) of
                                Inl e \<Rightarrow> Reported e
                              | Inr key \<Rightarrow>
                                  (case BuildHandshakeResponse P J now (o_Identity opts) (x25519_Public P eph) of
                                     Inl e \<Rightarrow> Reported e
                                   | Inr response \<Rightarrow>
                                       Accepted (json_Marshal J (PHandshakeResponse response))
                                         \<lparr>ss_LocalDeviceID = id_DeviceID (o_Identity opts),
                                          ss_PeerDeviceID = h_DeviceID handshake,
                                          ss_PeerDeviceName = h_DeviceName handshake,
                                          ss_PeerPublicKey = h_Ed25519PublicKey handshake,
                                          ss_SessionKey = key\<rparr>))))
               | _ \<Rightarrow> Reported (Wrap ''decode handshake'' (Err ''invalid JSON'')))"

record ServerNet =
  sn_deadline :: "go_error option"
  sn_write_challenge :: "go_error option"
  sn_handshake :: "string \<Rightarrow> string res"
  sn_write_response :: "go_error option"
  sn_clear :: "go_error option"

definition challenge_payload :: "Json \<Rightarrow> string \<Rightarrow> string" where
  "challenge_payload J nonce = json_Marshal J (PHandshakeChallenge \<lparr>hc_Nonce = nonce\<rparr>)"

text \<open>\<open>rawNonce\<close> are the 32 bytes \<open>rand.Read\<close> gives.\<close>

definition generateHandshakeChallengeNonce :: "string \<Rightarrow> string" where
  "generateHandshakeChallengeNonce rawNonce = EncodeToString rawNonce"

definition handleInboundConn ::
    "Prims \<Rightarrow> Json \<Rightarrow> HandshakeOptions \<Rightarrow> int \<Rightarrow> string \<Rightarrow> string \<Rightarrow> ServerNet \<Rightarrow> Inbound" where
  "handleInboundConn P J opts now rawNonce eph net =
     (let nonce = generateHandshakeChallengeNonce rawNonce in
      case sn_deadline net of Some e \<Rightarrow> Reported (Wrap ''set handshake deadline'' e) | None \<Rightarrow>
      (case sn_write_challenge net of Some e \<Rightarrow> Reported (Wrap ''write handshake challenge'' e) | None \<Rightarrow>
      (case sn_handshake net (challenge_payload J nonce) of
         Inl e \<Rightarrow> Reported (Wrap ''read handshake'' e)
       | Inr handshakePayload \<Rightarrow>
      (case server_accept P J opts now nonce eph handshakePayload of
         Reported e \<Rightarrow> Reported e
       | Replied m \<Rightarrow> Replied m
       | Accepted response session \<Rightarrow>
      (case sn_write_response net of Some e \<Rightarrow> Reported (Wrap ''write handshake response'' e) | None \<Rightarrow>
      (case sn_clear net of
         Some e \<Rightarrow> Reported (Wrap ''clear handshake deadline'' e)
       | None \<Rightarrow> Accepted response session))))))"

section \<open>Lemmas\<close>

definition identity_ok :: "Prims \<Rightarrow> LocalIdentity \<Rightarrow> bool" where
  "identity_ok P i \<longleftrightarrow> TrimSpace (id_DeviceID i) \<noteq> [] \<and> id_DeviceName i \<noteq> [] \<and>
     length (id_Ed25519PrivateKey i) = 64 \<and> id_Ed25519PublicKey i = ed25519_Public P (id_Ed25519PrivateKey i)"

lemma identity_ok_lengths:
  "prims_ok P \<Longrightarrow> identity_ok P i \<Longrightarrow> length (id_Ed25519PublicKey i) = 32"
  by (simp add: identity_ok_def prims_ok_def)

lemma withDefaults_simps [simp]:
  "o_Identity (withDefaults opts) = o_Identity opts"
  "o_KnownPeerKeys (withDefaults opts) = o_KnownPeerKeys opts"
  "o_KnownPeerKeyLookup (withDefaults opts) = o_KnownPeerKeyLookup opts"
  "o_OnKeyChangeDecision (withDefaults opts) = o_OnKeyChangeDecision opts"
  by (simp_all add: withDefaults_def)

lemma validateIdentity_ok:
  assumes "prims_ok P" and "identity_ok P (o_Identity opts)"
  shows "validateIdentity opts = None"
proof -
  have "id_Ed25519PublicKey (o_Identity opts) \<noteq> []" "id_Ed25519PrivateKey (o_Identity opts) \<noteq> []"
    using assms identity_ok_lengths [OF assms] by (auto simp: identity_ok_def)
  moreover have "id_DeviceID (o_Identity opts) \<noteq> []" using assms by (auto simp: identity_ok_def)
  ultimately show ?thesis using assms by (simp add: validateIdentity_def identity_ok_def)
qed

text \<open>A message built with an identity verifies and carries that identity.\<close>

lemma build_verify:
  assumes "prims_ok P" and "json_ok J" and "identity_ok P i"
  shows "\<exists>m. buildHandshakeMessage P J now i eph nonce t = Inr m \<and>
      ((t = ''handshake'' \<longrightarrow> nonce \<noteq> []) \<longrightarrow> verifyHandshake P J m = Inr (id_Ed25519PublicKey i)) \<and>
      h_Type m = t \<and> h_DeviceID m = id_DeviceID i \<and> h_DeviceName m = id_DeviceName i \<and>
      h_Ed25519PublicKey m = EncodeToString (id_Ed25519PublicKey i) \<and>
      h_X25519PublicKey m = EncodeToString eph \<and> h_ChallengeNonce m = nonce \<and>
      h_ProtocolVersion m = ProtocolVersion"
proof -
  define m0 where "m0 = \<lparr>h_Type = t, h_DeviceID = id_DeviceID i, h_DeviceName = id_DeviceName i,
     h_Ed25519PublicKey = EncodeToString (id_Ed25519PublicKey i), h_X25519PublicKey = EncodeToString eph,
     h_ChallengeNonce = nonce, h_ProtocolVersion = ProtocolVersion, h_Timestamp = now, h_Signature = []\<rparr>"
  have len: "length (id_Ed25519PrivateKey i) = 64" "length (id_Ed25519PublicKey i) = 32"
    using assms identity_ok_lengths by (auto simp: identity_ok_def)
  have "json_Marshal J (PHandshake m0) \<noteq> []" using assms(2) by (simp add: json_ok_def)
  with len obtain sig where sig: "Sign P (id_Ed25519PrivateKey i) (json_Marshal J (PHandshake m0)) = Inr sig"
    by (simp add: Sign_def PrivateKeySize_def)
  have v: "Verify P (id_Ed25519PublicKey i) (json_Marshal J (PHandshake m0)) sig"
    using Verify_Sign [OF assms(1) sig] assms(3) by (simp add: identity_ok_def)
  define m where "m = m0\<lparr>h_Signature := EncodeToString sig\<rparr>"
  have clear: "m0\<lparr>h_Signature := []\<rparr> = m0" "m\<lparr>h_Signature := []\<rparr> = m0"
    by (simp_all add: m0_def m_def)
  have "buildHandshakeMessage P J now i eph nonce t = Inr m"
    using len sig clear
    by (simp add: buildHandshakeMessage_def signHandshake_def m0_def [symmetric] Let_def
        PrivateKeySize_def PublicKeySize_def m_def)
  moreover have "verifyHandshake P J m = Inr (id_Ed25519PublicKey i)" if "t = ''handshake'' \<longrightarrow> nonce \<noteq> []"
    unfolding verifyHandshake_def clear
    using that v len by (auto simp: m_def m0_def PublicKeySize_def)
  ultimately show ?thesis by (auto simp: m_def m0_def)
qed

lemma BuildHandshakeResponse_eq:
  "buildHandshakeMessage P J now i eph [] ''handshake_response'' = Inr m \<Longrightarrow> h_ChallengeNonce m = [] \<Longrightarrow>
   \<exists>r. BuildHandshakeResponse P J now i eph = Inr r \<and> response_as_message r = m"
  by (simp add: BuildHandshakeResponse_def response_as_message_def)

lemma ephemeral_secret_parsed:
  "prims_ok P \<Longrightarrow> length b = 32 \<Longrightarrow> x25519_ECDH P a (x25519_Public P b) = Some s \<Longrightarrow>
   ephemeral_secret P what a (EncodeToString (x25519_Public P b)) = Inr s"
  by (simp add: ephemeral_secret_def ParseX25519PublicKey_def ComputeX25519SharedSecret_def prims_ok_def)

lemma deriveSessionKey_ok:
  assumes "prims_ok P" and "length b = 32" and "x25519_ECDH P a (x25519_Public P b) = Some s"
    and "length rawNonce = 32" and "TrimSpace x \<noteq> []" and "TrimSpace y \<noteq> []"
  shows "deriveSessionKey P a (EncodeToString (x25519_Public P b)) x y (EncodeToString rawNonce) =
           Inr (hkdf_sha256 P s ''p2pchat-session-v1'' (sessionInfo x y rawNonce) 32)"
proof -
  have "s \<noteq> []" using prims_okD(6) [OF assms(1,3)] by auto
  then show ?thesis
    using assms by (simp add: deriveSessionKey_def ephemeral_secret_parsed DeriveSessionKeyWithContext_def)
qed

definition dial_net :: "Prims \<Rightarrow> Json \<Rightarrow> HandshakeOptions \<Rightarrow> int \<Rightarrow> string \<Rightarrow> string \<Rightarrow> DialNet" where
  "dial_net P J B now rawNonce eb =
     \<lparr>dn_dial = None, dn_deadline = None, dn_challenge = Inr (challenge_payload J (EncodeToString rawNonce)),
      dn_write = None,
      dn_response = (\<lambda>p. case server_accept P J B now (EncodeToString rawNonce) eb p of
                           Accepted r s \<Rightarrow> Inr r | _ \<Rightarrow> Inl EOF),
      dn_clear = None\<rparr>"

definition server_net :: "Prims \<Rightarrow> Json \<Rightarrow> HandshakeOptions \<Rightarrow> int \<Rightarrow> string \<Rightarrow> ServerNet" where
  "server_net P J A now ea =
     \<lparr>sn_deadline = None, sn_write_challenge = None,
      sn_handshake = (\<lambda>c. map_sum id fst (dial_start P J (withDefaults A) now ea c)),
      sn_write_response = None, sn_clear = None\<rparr>"

text \<open>One run of the two halves against each other.\<close>

lemma handshake_run:
  assumes "prims_ok P" and "json_ok J"
    and "identity_ok P (o_Identity A)" and "identity_ok P (o_Identity B)"
    and "length rawNonce = 32" and "length ea = 32" and "length eb = 32"
    and "x25519_ECDH P ea (x25519_Public P eb) \<noteq> None"
    and "evaluatePeerKey (id_DeviceID (o_Identity B)) (EncodeToString (id_Ed25519PublicKey (o_Identity B)))
           (o_KnownPeerKeys A) (o_KnownPeerKeyLookup A) (o_OnKeyChangeDecision A) = None"
    and "evaluatePeerKey (id_DeviceID (o_Identity A)) (EncodeToString (id_Ed25519PublicKey (o_Identity A)))
           (o_KnownPeerKeys B) (o_KnownPeerKeyLookup B) (o_OnKeyChangeDecision B) = None"
  shows "\<exists>p r key.
    dial_start P J (withDefaults A) t1 ea (challenge_payload J (EncodeToString rawNonce)) = Inr (p, EncodeToString rawNonce) \<and>
    server_accept P J B t2 (EncodeToString rawNonce) eb p = Accepted r
      \<lparr>ss_LocalDeviceID = id_DeviceID (o_Identity B), ss_PeerDeviceID = id_DeviceID (o_Identity A),
       ss_PeerDeviceName = id_DeviceName (o_Identity A),
       ss_PeerPublicKey = EncodeToString (id_Ed25519PublicKey (o_Identity A)), ss_SessionKey = key\<rparr> \<and>
    dial_finish P J (withDefaults A) ea (EncodeToString rawNonce) r = Inr
      \<lparr>ss_LocalDeviceID = id_DeviceID (o_Identity A), ss_PeerDeviceID = id_DeviceID (o_Identity B),
       ss_PeerDeviceName = id_DeviceName (o_Identity B),
       ss_PeerPublicKey = EncodeToString (id_Ed25519PublicKey (o_Identity B)), ss_SessionKey = key\<rparr> \<and>
    length key = 32"
proof -
  let ?n = "EncodeToString rawNonce"
  obtain s where s: "x25519_ECDH P ea (x25519_Public P eb) = Some s" using assms(8) by blast
  then have s': "x25519_ECDH P eb (x25519_Public P ea) = Some s"
    using assms(1,6,7) by (simp add: prims_ok_def)
  have ids: "TrimSpace (id_DeviceID (o_Identity A)) \<noteq> []" "TrimSpace (id_DeviceID (o_Identity B)) \<noteq> []"
    using assms(3,4) by (simp_all add: identity_ok_def)
  have n: "?n \<noteq> []" using assms(5) by auto
  obtain h where h: "buildHandshakeMessage P J t1 (o_Identity A) (x25519_Public P ea) ?n ''handshake'' = Inr h"
    "verifyHandshake P J h = Inr (id_Ed25519PublicKey (o_Identity A))"
    "h_Type h = ''handshake''" "h_DeviceID h = id_DeviceID (o_Identity A)"
    "h_DeviceName h = id_DeviceName (o_Identity A)"
    "h_Ed25519PublicKey h = EncodeToString (id_Ed25519PublicKey (o_Identity A))"
    "h_X25519PublicKey h = EncodeToString (x25519_Public P ea)" "h_ChallengeNonce h = ?n"
    "h_ProtocolVersion h = ProtocolVersion"
    using build_verify [OF assms(1,2,3), of t1 "x25519_Public P ea" ?n "''handshake''"] n by auto
  obtain m where m: "buildHandshakeMessage P J t2 (o_Identity B) (x25519_Public P eb) [] ''handshake_response'' = Inr m"
    "verifyHandshake P J m = Inr (id_Ed25519PublicKey (o_Identity B))"
    "h_DeviceID m = id_DeviceID (o_Identity B)" "h_DeviceName m = id_DeviceName (o_Identity B)"
    "h_Ed25519PublicKey m = EncodeToString (id_Ed25519PublicKey (o_Identity B))"
    "h_ChallengeNonce m = []"
    "h_X25519PublicKey m = EncodeToString (x25519_Public P eb)"
    using build_verify [OF assms(1,2,4), of t2 "x25519_Public P eb" "[]" "''handshake_response''"]
    by auto
  obtain r where r: "BuildHandshakeResponse P J t2 (o_Identity B) (x25519_Public P eb) = Inr r"
    "response_as_message r = m"
    using BuildHandshakeResponse_eq [OF m(1,6)] by blast
  have rm: "hr_DeviceID r = h_DeviceID m" "hr_DeviceName r = h_DeviceName m" "hr_Ed25519PublicKey r = h_Ed25519PublicKey m"
    "hr_X25519PublicKey r = h_X25519PublicKey m"
    using r(2) by (auto simp: response_as_message_def)
  have J: "json_Unmarshal J (json_Marshal J p) = Some p" for p using assms(2) by (simp add: json_ok_def)
  have start: "dial_start P J (withDefaults A) t1 ea (challenge_payload J ?n) = Inr (json_Marshal J (PHandshake h), ?n)"
    using assms(2,5) h(1) J
    by (simp add: dial_start_def challenge_payload_def BuildHandshakeMessage_def)
  define key where "key = hkdf_sha256 P s ''p2pchat-session-v1''
      (sessionInfo (id_DeviceID (o_Identity A)) (id_DeviceID (o_Identity B)) rawNonce) 32"
  have kA: "deriveSessionKey P ea (h_X25519PublicKey m) (id_DeviceID (o_Identity A)) (id_DeviceID (o_Identity B)) ?n = Inr key"
    using deriveSessionKey_ok [OF assms(1,7) s assms(5) ids] by (simp add: m(7) key_def)
  have kB: "deriveSessionKey P eb (h_X25519PublicKey h) (id_DeviceID (o_Identity B)) (id_DeviceID (o_Identity A)) ?n = Inr key"
    using deriveSessionKey_ok [OF assms(1,6) s' assms(5) ids(2,1)]
    by (simp add: h(7) key_def sessionInfo_sym [of "id_DeviceID (o_Identity B)"])
  have acc: "server_accept P J B t2 ?n eb (json_Marshal J (PHandshake h)) =
      Accepted (json_Marshal J (PHandshakeResponse r))
        \<lparr>ss_LocalDeviceID = id_DeviceID (o_Identity B), ss_PeerDeviceID = id_DeviceID (o_Identity A),
         ss_PeerDeviceName = id_DeviceName (o_Identity A),
         ss_PeerPublicKey = EncodeToString (id_Ed25519PublicKey (o_Identity A)), ss_SessionKey = key\<rparr>"
    using assms(2,10) h J r(1) kB
    by (simp add: server_accept_def VerifyHandshakeMessage_def)
  have fin: "dial_finish P J (withDefaults A) ea ?n (json_Marshal J (PHandshakeResponse r)) = Inr
        \<lparr>ss_LocalDeviceID = id_DeviceID (o_Identity A), ss_PeerDeviceID = id_DeviceID (o_Identity B),
         ss_PeerDeviceName = id_DeviceName (o_Identity B),
         ss_PeerPublicKey = EncodeToString (id_Ed25519PublicKey (o_Identity B)), ss_SessionKey = key\<rparr>"
    using assms(2,9) J m r(2) rm kA
    by (simp add: dial_finish_def VerifyHandshakeResponse_def)
  have "length key = 32" using assms(1) by (simp add: key_def prims_okD(7))
  with start acc fin show ?thesis by blast
qed

section \<open>Properties\<close>

text \<open>C1: Two devices that run the handshake with each other both get a session, they hold the same 32 byte
  session key, and each session names the other device, its name and its public key; all that is needed
  is that the pinned-key policy of either side lets the other's key pass.\<close>

theorem handshake_agreement:
  assumes "prims_ok P" and "json_ok J"
    and "identity_ok P (o_Identity A)" and "identity_ok P (o_Identity B)"
    and "length rawNonce = 32" and "length ea = 32" and "length eb = 32"
    and "x25519_ECDH P ea (x25519_Public P eb) \<noteq> None"
    and "evaluatePeerKey (id_DeviceID (o_Identity B)) (EncodeToString (id_Ed25519PublicKey (o_Identity B)))
           (o_KnownPeerKeys A) (o_KnownPeerKeyLookup A) (o_OnKeyChangeDecision A) = None"
    and "evaluatePeerKey (id_DeviceID (o_Identity A)) (EncodeToString (id_Ed25519PublicKey (o_Identity A)))
           (o_KnownPeerKeys B) (o_KnownPeerKeyLookup B) (o_OnKeyChangeDecision B) = None"
  shows "\<exists>sA sB resp.
           Dial P J A t1 ea (dial_net P J B t2 rawNonce eb) = Inr sA \<and>
           handleInboundConn P J B t2 rawNonce eb (server_net P J A t1 ea) = Accepted resp sB \<and>
           ss_SessionKey sA = ss_SessionKey sB \<and> length (ss_SessionKey sA) = 32 \<and>
           ss_PeerDeviceID sA = id_DeviceID (o_Identity B) \<and> ss_PeerDeviceID sB = id_DeviceID (o_Identity A) \<and>
           ss_PeerPublicKey sA = EncodeToString (id_Ed25519PublicKey (o_Identity B)) \<and>
           ss_PeerPublicKey sB = EncodeToString (id_Ed25519PublicKey (o_Identity A))"
proof -
  obtain p r key where
    "dial_start P J (withDefaults A) t1 ea (challenge_payload J (EncodeToString rawNonce)) = Inr (p, EncodeToString rawNonce)"
    "server_accept P J B t2 (EncodeToString rawNonce) eb p = Accepted r
      \<lparr>ss_LocalDeviceID = id_DeviceID (o_Identity B), ss_PeerDeviceID = id_DeviceID (o_Identity A),
       ss_PeerDeviceName = id_DeviceName (o_Identity A),
       ss_PeerPublicKey = EncodeToString (id_Ed25519PublicKey (o_Identity A)), ss_SessionKey = key\<rparr>"
    "dial_finish P J (withDefaults A) ea (EncodeToString rawNonce) r = Inr
      \<lparr>ss_LocalDeviceID = id_DeviceID (o_Identity A), ss_PeerDeviceID = id_DeviceID (o_Identity B),
       ss_PeerDeviceName = id_DeviceName (o_Identity B),
       ss_PeerPublicKey = EncodeToString (id_Ed25519PublicKey (o_Identity B)), ss_SessionKey = key\<rparr>"
    "length key = 32"
    using handshake_run [OF assms] by metis
  then show ?thesis
    using validateIdentity_ok [OF assms(1), of "withDefaults A"] assms(3)
    by (simp add: Dial_def dial_net_def handleInboundConn_def server_net_def
        generateHandshakeChallengeNonce_def Let_def)
qed

definition sample_identity :: "string \<Rightarrow> char \<Rightarrow> LocalIdentity" where
  "sample_identity d c = \<lparr>id_DeviceID = d, id_DeviceName = ''n'', id_Ed25519PrivateKey = replicate 64 c,
     id_Ed25519PublicKey = replicate 32 c\<rparr>"

definition sample_options :: "string \<Rightarrow> char \<Rightarrow> HandshakeOptions" where
  "sample_options d c = \<lparr>o_Identity = sample_identity d c, o_KnownPeerKeys = (\<lambda>_. []),
     o_KnownPeerKeyLookup = None, o_OnKeyChangeDecision = None, o_ConnectionTimeout = 0,
     o_KeepAliveInterval = 0, o_KeepAliveTimeout = 0, o_FrameReadTimeout = 0, o_RekeyInterval = 0,
     o_RekeyAfterBytes = 0, o_AutoRespondPing = None, o_ConnectionRateLimitPerIP = 0,
     o_ConnectionRateLimitWindow = 0\<rparr>"

lemma sample_identity_ok:
  "TrimSpace d \<noteq> [] \<Longrightarrow> identity_ok sample_prims (sample_identity d c)"
  by (simp add: identity_ok_def sample_identity_def sample_prims_def)

theorem handshake_agreement_witness:
  "\<exists>sA sB resp. Dial sample_prims sample_json (sample_options ''a'' CHR ''1'') 5 (replicate 32 CHR ''x'')
       (dial_net sample_prims sample_json (sample_options ''b'' CHR ''2'') 6 (replicate 32 CHR ''n'') (replicate 32 CHR ''y''))
       = Inr sA \<and>
     handleInboundConn sample_prims sample_json (sample_options ''b'' CHR ''2'') 6 (replicate 32 CHR ''n'')
       (replicate 32 CHR ''y'') (server_net sample_prims sample_json (sample_options ''a'' CHR ''1'') 5 (replicate 32 CHR ''x''))
       = Accepted resp sB \<and> ss_SessionKey sA = ss_SessionKey sB"
proof -
  have "TrimSpace ''a'' \<noteq> []" "TrimSpace ''b'' \<noteq> []" by code_simp+
  moreover have "x25519_ECDH sample_prims (replicate 32 CHR ''x'') (x25519_Public sample_prims (replicate 32 CHR ''y'')) \<noteq> None"
    by (simp add: sample_prims_def)
  ultimately show ?thesis
    using handshake_agreement [OF sample_prims_ok sample_json_ok, of "sample_options ''a'' CHR ''1''"
        "sample_options ''b'' CHR ''2''" "replicate 32 CHR ''n''" "replicate 32 CHR ''x''" "replicate 32 CHR ''y''" 5 6]
    by (simp add: sample_options_def sample_identity_ok evaluatePeerKey_def existing_key_def) blast
qed

text \<open>C2: The listener accepts a dialer only on a handshake that echoes this connection's nonce, speaks this
  protocol version and is signed, all of it, under the public key it presents; the session then carries the
  identity that was signed. If another key was pinned for that device, it is accepted only after an
  explicit decision to trust the new one.\<close>

theorem server_accept_authenticated:
  assumes "server_accept P J opts now nonce eph payload = Accepted resp s"
  shows "\<exists>h pk sig.
           json_Unmarshal J payload = Some (PHandshake h) \<and>
           h_ChallengeNonce h = nonce \<and> h_ProtocolVersion h = ProtocolVersion \<and>
           DecodeString (h_Ed25519PublicKey h) = Inr pk \<and> DecodeString (h_Signature h) = Inr sig \<and>
           Verify P pk (json_Marshal J (PHandshake (h\<lparr>h_Signature := []\<rparr>))) sig \<and>
           ss_PeerDeviceID s = h_DeviceID h \<and> ss_PeerPublicKey s = h_Ed25519PublicKey h \<and>
           existing_key (o_KnownPeerKeys opts) (o_KnownPeerKeyLookup opts) (h_DeviceID h) \<in>
             {[], h_Ed25519PublicKey h} \<union>
             {k. \<exists>decide. o_OnKeyChangeDecision opts = Some decide \<and>
                   decide (h_DeviceID h) k (h_Ed25519PublicKey h) = Inr True}"
proof -
  from assms obtain h pk where h: "json_Unmarshal J payload = Some (PHandshake h)"
    "h_ChallengeNonce h = nonce" "h_ProtocolVersion h = ProtocolVersion"
    and v: "verifyHandshake P J h = Inr pk"
    and k: "evaluatePeerKey (h_DeviceID h) (h_Ed25519PublicKey h) (o_KnownPeerKeys opts)
              (o_KnownPeerKeyLookup opts) (o_OnKeyChangeDecision opts) = None"
    and s: "ss_PeerDeviceID s = h_DeviceID h" "ss_PeerPublicKey s = h_Ed25519PublicKey h"
    by (fastforce simp: server_accept_def VerifyHandshakeMessage_def split: sum.splits option.splits
        Packet.splits if_splits)
  from v obtain sig where "DecodeString (h_Ed25519PublicKey h) = Inr pk" "DecodeString (h_Signature h) = Inr sig"
    "Verify P pk (json_Marshal J (PHandshake (h\<lparr>h_Signature := []\<rparr>))) sig"
    by (auto simp: verifyHandshake_def split: if_splits sum.splits)
  moreover from k have "existing_key (o_KnownPeerKeys opts) (o_KnownPeerKeyLookup opts) (h_DeviceID h) \<in>
             {[], h_Ed25519PublicKey h} \<union>
             {k. \<exists>decide. o_OnKeyChangeDecision opts = Some decide \<and>
                   decide (h_DeviceID h) k (h_Ed25519PublicKey h) = Inr True}"
    by (auto simp: evaluatePeerKey_def Let_def split: option.splits sum.splits if_splits)
  ultimately show ?thesis using h s by blast
qed

theorem server_accept_authenticated_witness:
  "\<exists>payload resp s h.
     server_accept sample_prims sample_json (sample_options ''b'' CHR ''2'') 6
       (EncodeToString (replicate 32 CHR ''n'')) (replicate 32 CHR ''y'') payload = Accepted resp s \<and>
     json_Unmarshal sample_json payload = Some (PHandshake h) \<and> ss_PeerDeviceID s = h_DeviceID h"
proof -
  have "TrimSpace ''a'' \<noteq> []" "TrimSpace ''b'' \<noteq> []" by code_simp+
  moreover have "x25519_ECDH sample_prims (replicate 32 CHR ''x'') (x25519_Public sample_prims (replicate 32 CHR ''y'')) \<noteq> None"
    by (simp add: sample_prims_def)
  ultimately obtain p r s where "server_accept sample_prims sample_json (sample_options ''b'' CHR ''2'') 6
       (EncodeToString (replicate 32 CHR ''n'')) (replicate 32 CHR ''y'') p = Accepted r s"
    using handshake_run [OF sample_prims_ok sample_json_ok, of "sample_options ''a'' CHR ''1''"
        "sample_options ''b'' CHR ''2''" "replicate 32 CHR ''n''" "replicate 32 CHR ''x''" "replicate 32 CHR ''y''" 5 6]
    by (simp add: sample_options_def sample_identity_ok evaluatePeerKey_def existing_key_def) blast
  from this server_accept_authenticated [OF this] show ?thesis by blast
qed

end
