(* ===== verification/Connection.thy ===== *)
theory Connection
  imports Handshake
begin

text \<open>
  \<open>src/network/connection.go\<close>: one established session. The record \<open>Conn\<close> is the struct
  \<open>PeerConnection\<close>: session keys and epochs, sequence counters, life-cycle state, keep-alive and rekey
  bookkeeping, the socket it writes to and the payloads it has handed to its owner.

  Every method is a function on \<open>Conn\<close>; \<open>now\<close> is the clock in nanoseconds and \<open>iv\<close> the nonce drawn for
  an encryption. The two goroutines of a connection are step functions: \<open>readLoop_step\<close> handles one
  result of \<open>ReadFrameWithTimeout\<close>, \<open>keepAliveLoop_tick\<close> one tick of the timer. The inbound channel is
  unbounded here (a full channel blocks the reader, it drops nothing), and \<open>rekeyCalls\<close> counts the
  callbacks started.
\<close>

datatype ConnectionState =
    StateConnecting
  | StateReady
  | StateIdle
  | StateDisconnecting
  | StateDisconnected

record Conn =
  localDeviceID :: string
  peerDeviceID :: string
  peerDeviceName :: string
  peerPublicKey :: string
  sessionKey :: string
  sessionEpoch :: "64 word"
  previousSessionKey :: string
  previousSessionEpoch :: "64 word"
  hasPreviousSession :: bool
  sendSequence :: "64 word"
  lastSeenSeq :: "64 word"
  conn_state :: ConnectionState
  waitingPong :: bool
  pongDeadline :: int
  lastActivity :: int
  lastRekeyAt :: int
  bytesSinceRekey :: "64 word"
  keepAliveInterval :: int
  keepAliveTimeout :: int
  frameReadTimeout :: int
  autoRespondPing :: bool
  rekeyInterval :: int
  rekeyAfterBytes :: "64 word"
  inbound :: "string list"
  cn_closed :: bool
  closeErr :: "go_error option"
  rekeyInProgress :: bool
  onRekeyNeeded :: bool
  rekeyCalls :: nat
  cn_out :: Writer

definition maxMalformedFrames :: nat where "maxMalformedFrames = 3"

text \<open>\<open>newPeerConnection\<close> for the session a handshake settled and the options it was made with.\<close>

definition newPeerConnection :: "HandshakeOptions \<Rightarrow> Session \<Rightarrow> int \<Rightarrow> Conn" where
  "newPeerConnection opts s now =
     \<lparr>localDeviceID = ss_LocalDeviceID s, peerDeviceID = ss_PeerDeviceID s,
      peerDeviceName = ss_PeerDeviceName s, peerPublicKey = ss_PeerPublicKey s,
      sessionKey = ss_SessionKey s, sessionEpoch = 0, previousSessionKey = [],
      previousSessionEpoch = 0, hasPreviousSession = False, sendSequence = 0, lastSeenSeq = 0,
      conn_state = StateReady, waitingPong = False, pongDeadline = 0, lastActivity = now,
      lastRekeyAt = now, bytesSinceRekey = 0,
      keepAliveInterval = or_default (o_KeepAliveInterval opts) (60 * Second),
      keepAliveTimeout = or_default (o_KeepAliveTimeout opts) (15 * Second),
      frameReadTimeout = or_default (o_FrameReadTimeout opts) (30 * Second),
      autoRespondPing = autoRespondPingEnabled opts,
      rekeyInterval = or_default (o_RekeyInterval opts) (3600 * Second),
      rekeyAfterBytes = (if o_RekeyAfterBytes opts = 0 then 1073741824 else of_nat (o_RekeyAfterBytes opts)),
      inbound = [], cn_closed = False, closeErr = None, rekeyInProgress = False,
      onRekeyNeeded = False, rekeyCalls = 0, cn_out = \<lparr>w_bytes = [], w_limit = None\<rparr>\<rparr>"

section \<open>Sequence numbers\<close>

definition NextSendSequence :: "Conn \<Rightarrow> 64 word \<times> Conn" where
  "NextSendSequence c = (let n = sendSequence c + 1 in (n, c\<lparr>sendSequence := n\<rparr>))"

definition ValidateSequence :: "64 word \<Rightarrow> Conn \<Rightarrow> go_error option \<times> Conn" where
  "ValidateSequence n c =
     (if n \<le> lastSeenSeq c then (Some ErrSequenceReplay, c) else (None, c\<lparr>lastSeenSeq := n\<rparr>))"

section \<open>State\<close>

definition setState :: "ConnectionState \<Rightarrow> Conn \<Rightarrow> Conn" where
  "setState st c = c\<lparr>conn_state := st\<rparr>"

definition touchActivity :: "int \<Rightarrow> Conn \<Rightarrow> Conn" where
  "touchActivity now c = c\<lparr>lastActivity := now\<rparr>"

definition setWaitingPong :: "int \<Rightarrow> Conn \<Rightarrow> Conn" where
  "setWaitingPong deadline c = c\<lparr>waitingPong := True, pongDeadline := deadline\<rparr>"

definition ackPong :: "Conn \<Rightarrow> Conn" where
  "ackPong c = c\<lparr>waitingPong := False, pongDeadline := 0\<rparr>"

definition waitingPongExpired :: "int \<Rightarrow> Conn \<Rightarrow> bool" where
  "waitingPongExpired now c \<longleftrightarrow> waitingPong c \<and> pongDeadline c < now"

text \<open>\<open>closeOnce\<close>: the first close wins. Writes to the closed socket fail.\<close>

definition closeWithError :: "go_error option \<Rightarrow> Conn \<Rightarrow> Conn" where
  "closeWithError err c =
     (if cn_closed c then c
      else c\<lparr>closeErr := err, rekeyInProgress := False, conn_state := StateDisconnected,
             cn_out := (cn_out c)\<lparr>w_limit := Some 0\<rparr>, cn_closed := True\<rparr>)"

definition Close :: "Conn \<Rightarrow> Conn" where
  "Close c = closeWithError None c"

definition triggerRekeyIfNeeded :: "int \<Rightarrow> Conn \<Rightarrow> Conn" where
  "triggerRekeyIfNeeded now c =
     (if \<not> (now - lastRekeyAt c \<ge> rekeyInterval c) \<and> \<not> (bytesSinceRekey c \<ge> rekeyAfterBytes c) then c
      else if rekeyInProgress c \<or> \<not> onRekeyNeeded c then c
      else c\<lparr>rekeyInProgress := True, rekeyCalls := rekeyCalls c + 1\<rparr>)"

section \<open>Encryption\<close>

definition encryptPayload :: "Prims \<Rightarrow> Json \<Rightarrow> string \<Rightarrow> string \<Rightarrow> Conn \<Rightarrow> string res" where
  "encryptPayload P J iv payload c =
     (case Encrypt P iv (sessionKey c) payload of
        Inl e \<Rightarrow> Inl (Wrap ''encrypt payload'' e)
      | Inr (ciphertext, nonce) \<Rightarrow>
          Inr (json_MarshalFrame J
                 \<lparr>sf_Type = ''secure_frame'', sf_Epoch = sessionEpoch c,
                  sf_Nonce = EncodeToString nonce, sf_Ciphertext = EncodeToString ciphertext\<rparr>))"

definition select_key :: "64 word \<Rightarrow> Conn \<Rightarrow> string option" where
  "select_key epoch c =
     (if epoch = sessionEpoch c then Some (sessionKey c)
      else if hasPreviousSession c \<and> epoch = previousSessionEpoch c then Some (previousSessionKey c)
      else if epoch = 0 \<and> sessionEpoch c = 0 then Some (sessionKey c)
      else None)"

definition decryptPayload :: "Prims \<Rightarrow> Json \<Rightarrow> string \<Rightarrow> Conn \<Rightarrow> string res" where
  "decryptPayload P J framePayload c =
     (case json_UnmarshalFrame J framePayload of
        None \<Rightarrow> Inl (Wrap ''decode frame'' ErrInvalidSecureFrame)
      | Some frame \<Rightarrow>
          if sf_Type frame \<noteq> ''secure_frame'' \<or> sf_Nonce frame = [] \<or> sf_Ciphertext frame = [] then
            Inl ErrInvalidSecureFrame
          else case DecodeString (sf_Nonce frame) of
                 Inl e \<Rightarrow> Inl (Wrap ''decode nonce'' ErrInvalidSecureFrame)
               | Inr nonce \<Rightarrow>
                   (case DecodeString (sf_Ciphertext frame) of
                      Inl e \<Rightarrow> Inl (Wrap ''decode ciphertext'' ErrInvalidSecureFrame)
                    | Inr ciphertext \<Rightarrow>
                        (case select_key (sf_Epoch frame) c of
                           None \<Rightarrow> Inl (Wrap ''unsupported epoch'' ErrInvalidSecureFrame)
                         | Some key \<Rightarrow> Decrypt P key nonce ciphertext)))"

definition RotateSessionKey :: "int \<Rightarrow> string \<Rightarrow> 64 word \<Rightarrow> Conn \<Rightarrow> go_error option \<times> Conn" where
  "RotateSessionKey now newKey epoch c =
     (if newKey = [] then (Some (Err ''rekey: new session key is required''), c)
      else if epoch \<le> sessionEpoch c then (Some (Err ''rekey: stale epoch''), c)
      else if epoch \<noteq> sessionEpoch c + 1 then (Some (Err ''rekey: unexpected epoch''), c)
      else (None, c\<lparr>previousSessionKey := sessionKey c, previousSessionEpoch := sessionEpoch c,
                    hasPreviousSession := (length (sessionKey c) > 0),
                    sessionKey := newKey, sessionEpoch := epoch,
                    bytesSinceRekey := 0, lastRekeyAt := now, rekeyInProgress := False\<rparr>))"

section \<open>Sending\<close>

definition SendRaw :: "Prims \<Rightarrow> Json \<Rightarrow> string \<Rightarrow> int \<Rightarrow> string \<Rightarrow> Conn \<Rightarrow> go_error option \<times> Conn" where
  "SendRaw P J iv now payload c =
     (if conn_state c = StateDisconnected then
        (Some (case closeErr c of None \<Rightarrow> EOF | Some e \<Rightarrow> e), c)
      else case encryptPayload P J iv payload c of
             Inl e \<Rightarrow> (Some e, c)
           | Inr encryptedPayload \<Rightarrow>
               (case WriteFrame encryptedPayload (cn_out c) of
                  (Some e, w) \<Rightarrow> (Some e, closeWithError (Some (Wrap ''write frame'' e)) (c\<lparr>cn_out := w\<rparr>))
                | (None, w) \<Rightarrow>
                    let c1 = touchActivity now (c\<lparr>cn_out := w\<rparr>);
                        c2 = c1\<lparr>bytesSinceRekey := bytesSinceRekey c1 + of_nat (length payload)\<rparr>;
                        c3 = triggerRekeyIfNeeded now c2
                    in (None,
                        case DecodeMessageType J payload of
                          Inl _ \<Rightarrow> c3
                        | Inr t \<Rightarrow> if t \<noteq> ''ping'' \<and> t \<noteq> ''pong'' then setState StateReady c3 else c3)))"

definition SendMessage :: "Prims \<Rightarrow> Json \<Rightarrow> string \<Rightarrow> int \<Rightarrow> Packet \<Rightarrow> Conn \<Rightarrow> go_error option \<times> Conn" where
  "SendMessage P J iv now message c = SendRaw P J iv now (json_Marshal J message) c"

text \<open>\<open>now_ms\<close> is the same clock in milliseconds, for the time stamps in messages.\<close>

definition now_ms :: "int \<Rightarrow> int" where
  "now_ms now = now div 1000000"

definition Disconnect :: "Prims \<Rightarrow> Json \<Rightarrow> string \<Rightarrow> int \<Rightarrow> Conn \<Rightarrow> Conn" where
  "Disconnect P J iv now c =
     (let c1 = setState StateDisconnecting c;
          c2 = snd (SendMessage P J iv now
                 (PPeerDisconnect \<lparr>pd_FromDeviceID = localDeviceID c, pd_Timestamp = now_ms now\<rparr>) c1)
      in Close c2)"

section \<open>Receiving\<close>

record ReadLoop =
  rl_conn :: Conn
  rl_malformed :: nat
  rl_running :: bool

definition stop_with :: "go_error option \<Rightarrow> ReadLoop \<Rightarrow> ReadLoop" where
  "stop_with err l = l\<lparr>rl_conn := closeWithError err (rl_conn l), rl_running := False\<rparr>"

definition count_malformed :: "go_error \<Rightarrow> ReadLoop \<Rightarrow> ReadLoop" where
  "count_malformed err l =
     (let l1 = l\<lparr>rl_malformed := rl_malformed l + 1\<rparr>
      in if rl_malformed l1 \<ge> maxMalformedFrames
         then stop_with (Some (Wrap ''disconnect after malformed frames'' err)) l1
         else l1)"

definition dispatch_frame :: "Prims \<Rightarrow> Json \<Rightarrow> string \<Rightarrow> int \<Rightarrow> string \<Rightarrow> string \<Rightarrow> ReadLoop \<Rightarrow> ReadLoop" where
  "dispatch_frame P J iv now msgType payload l =
     (let c = rl_conn l in
      if msgType = ''ping'' then
        (let c1 = setState StateIdle c in
         l\<lparr>rl_conn := if autoRespondPing c1
            then snd (SendMessage P J iv now
                   (PPong \<lparr>po_FromDeviceID = localDeviceID c1, po_Timestamp = now_ms now\<rparr>) c1)
            else c1\<rparr>)
      else if msgType = ''pong'' then l\<lparr>rl_conn := setState StateIdle (ackPong c)\<rparr>
      else if msgType = ''peer_disconnect'' then stop_with None (l\<lparr>rl_conn := setState StateDisconnecting c\<rparr>)
      else l\<lparr>rl_conn := (setState StateReady c)\<lparr>inbound := inbound c @ [payload]\<rparr>\<rparr>)"

definition readLoop_step ::
    "Prims \<Rightarrow> Json \<Rightarrow> string \<Rightarrow> int \<Rightarrow> string res \<Rightarrow> ReadLoop \<Rightarrow> ReadLoop" where
  "readLoop_step P J iv now frame l =
     (if \<not> rl_running l then l
      else if cn_closed (rl_conn l) then l\<lparr>rl_running := False\<rparr>
      else case frame of
        Inl e \<Rightarrow>
          if errors_Is e ErrTimeout then l
          else if errors_Is e EOF \<or> errors_Is e ErrClosed then stop_with None l
          else stop_with (Some (Wrap ''read frame'' e)) l
      | Inr framePayload \<Rightarrow>
          let l1 = l\<lparr>rl_conn := touchActivity now (rl_conn l)\<rparr> in
          if framePayload = [] then l1
          else (case decryptPayload P J framePayload (rl_conn l1) of
                  Inl e \<Rightarrow> count_malformed e l1
                | Inr payload \<Rightarrow>
                    if payload = [] then l1
                    else (case DecodeMessageType J payload of
                            Inl e \<Rightarrow>
                              if length payload > MaxControlFrameSize then stop_with (Some ErrFrameTooLarge) l1
                              else count_malformed e l1
                          | Inr msgType \<Rightarrow>
                              if msgType \<noteq> ''file_data'' \<and> length payload > MaxControlFrameSize
                              then stop_with (Some ErrFrameTooLarge) l1
                              else dispatch_frame P J iv now msgType payload (l1\<lparr>rl_malformed := 0\<rparr>))))"

section \<open>Keep-alive\<close>

text \<open>The result says whether the loop goes on.\<close>

definition keepAliveLoop_tick :: "Prims \<Rightarrow> Json \<Rightarrow> string \<Rightarrow> int \<Rightarrow> Conn \<Rightarrow> bool \<times> Conn" where
  "keepAliveLoop_tick P J iv now c =
     (if cn_closed c \<or> conn_state c = StateDisconnected then (False, c)
      else
        let c1 = triggerRekeyIfNeeded now c in
        if waitingPongExpired now c1 then (False, closeWithError (Some ErrPongTimeout) c1)
        else if now - lastActivity c1 < keepAliveInterval c1 then (True, c1)
        else if waitingPong c1 then (True, c1)
        else case SendMessage P J iv now
                    (PPing \<lparr>pi_FromDeviceID = localDeviceID c1, pi_Timestamp = now_ms now\<rparr>) c1 of
               (Some e, c2) \<Rightarrow> (False, c2)
             | (None, c2) \<Rightarrow> (True, setState StateIdle (setWaitingPong (now + keepAliveTimeout c2) c2)))"

section \<open>Lemmas\<close>

lemma decryptPayload_cong:
  "sessionKey c = sessionKey c' \<Longrightarrow> sessionEpoch c = sessionEpoch c' \<Longrightarrow>
   previousSessionKey c = previousSessionKey c' \<Longrightarrow> previousSessionEpoch c = previousSessionEpoch c' \<Longrightarrow>
   hasPreviousSession c = hasPreviousSession c' \<Longrightarrow> decryptPayload P J f c = decryptPayload P J f c'"
proof -
  assume "sessionKey c = sessionKey c'" "sessionEpoch c = sessionEpoch c'"
    "previousSessionKey c = previousSessionKey c'" "previousSessionEpoch c = previousSessionEpoch c'"
    "hasPreviousSession c = hasPreviousSession c'"
  then have "select_key e c = select_key e c'" for e by (simp add: select_key_def)
  then show ?thesis by (simp add: decryptPayload_def split: option.split sum.split)
qed

lemma decryptPayload_touch [simp]: "decryptPayload P J f (touchActivity now c) = decryptPayload P J f c"
  by (rule decryptPayload_cong) (simp_all add: touchActivity_def)

lemma decrypt_encrypt_payload:
  assumes "prims_ok P" and "json_ok J" and "length iv = 12"
    and "encryptPayload P J iv p a = Inr f" and "select_key (sessionEpoch a) b = Some (sessionKey a)"
  shows "decryptPayload P J f b = Inr p"
proof -
  obtain ct n where e: "Encrypt P iv (sessionKey a) p = Inr (ct, n)"
    and f: "f = json_MarshalFrame J \<lparr>sf_Type = ''secure_frame'', sf_Epoch = sessionEpoch a,
                  sf_Nonce = EncodeToString n, sf_Ciphertext = EncodeToString ct\<rparr>"
    using assms(4) by (auto simp: encryptPayload_def split: sum.splits)
  have d: "Decrypt P (sessionKey a) n ct = Inr p" by (rule Decrypt_Encrypt [OF assms(1,3) e])
  then have "ct \<noteq> []" "n \<noteq> []" by (auto simp: Decrypt_def split: if_splits)
  with d f assms(2,5) show ?thesis by (simp add: decryptPayload_def json_ok_def)
qed

lemma encryptPayload_key_length: "encryptPayload P J iv p a = Inr f \<Longrightarrow> length (sessionKey a) = 32"
  by (auto simp: encryptPayload_def Encrypt_def split: if_splits)

lemma RotateSessionKey_Some:
  assumes "RotateSessionKey now k e c = (None, c')"
  shows "k \<noteq> []" and "sessionEpoch c < e" and "e = sessionEpoch c + 1"
    and "sessionKey c' = k" and "sessionEpoch c' = e" and "previousSessionKey c' = sessionKey c"
    and "previousSessionEpoch c' = sessionEpoch c" and "hasPreviousSession c' = (sessionKey c \<noteq> [])"
    and "rekeyInProgress c' = False" and "lastSeenSeq c' = lastSeenSeq c"
  using assms by (auto simp: RotateSessionKey_def split: if_splits)

lemma closeWithError_closed [simp]: "cn_closed c \<Longrightarrow> closeWithError e c = c"
  by (simp add: closeWithError_def)

lemma cn_closed_closeWithError [simp]: "cn_closed (closeWithError e c)"
  by (simp add: closeWithError_def)

lemma inbound_closeWithError [simp]: "inbound (closeWithError e c) = inbound c"
  by (simp add: closeWithError_def)

lemma inbound_triggerRekey [simp]: "inbound (triggerRekeyIfNeeded now c) = inbound c"
  by (simp add: triggerRekeyIfNeeded_def)

lemma inbound_SendRaw [simp]: "inbound (snd (SendRaw P J iv now p c)) = inbound c"
  by (simp add: SendRaw_def Let_def setState_def touchActivity_def split: sum.split prod.split option.split)

section \<open>Properties\<close>

fun accept_run :: "64 word list \<Rightarrow> Conn \<Rightarrow> 64 word list" where
  "accept_run [] c = []"
| "accept_run (n # ns) c =
     (case ValidateSequence n c of
        (Some e, c') \<Rightarrow> accept_run ns c'
      | (None, c') \<Rightarrow> n # accept_run ns c')"

fun send_run :: "nat \<Rightarrow> Conn \<Rightarrow> 64 word list" where
  "send_run 0 c = []"
| "send_run (Suc k) c = (let (n, c') = NextSendSequence c in n # send_run k c')"

text \<open>C15: Whatever sequence numbers arrive, in whatever order and however often, those a connection accepts
  are strictly increasing and above all accepted before: no number is accepted twice.\<close>

theorem sequence_no_replay:
  "sorted_wrt (<) (accept_run ns c) \<and> (\<forall>n \<in> set (accept_run ns c). lastSeenSeq c < n)"
proof (induction ns arbitrary: c)
  case Nil
  then show ?case by simp
next
  case (Cons n ns)
  show ?case
  proof (cases "n \<le> lastSeenSeq c")
    case True
    with Cons show ?thesis by (simp add: ValidateSequence_def)
  next
    case False
    then show ?thesis
      using Cons [of "c\<lparr>lastSeenSeq := n\<rparr>"] by (auto simp: ValidateSequence_def intro: order.strict_trans)
  qed
qed

text \<open>The sequence numbers a sender hands out are all accepted when they arrive in the order they were
  handed out, by a receiver in step with it, as long as the 64 bit counter does not wrap; a number
  handed out earlier that arrives after a later one is refused.\<close>

theorem sequence_in_order:
  assumes "lastSeenSeq b = sendSequence a" and "unat (sendSequence a) + k < 2 ^ 64"
  shows "accept_run (send_run k a) b = send_run k a \<and> length (send_run k a) = k"
  using assms
proof (induction k arbitrary: a b)
  case 0
  then show ?case by simp
next
  case (Suc k)
  let ?n = "sendSequence a + 1"
  have u: "unat ?n = unat (sendSequence a) + 1"
    using Suc.prems(2) by (subst unat_plus_if') simp
  then have lt: "sendSequence a < ?n" by (simp add: word_less_nat_alt)
  have "accept_run (send_run k (a\<lparr>sendSequence := ?n\<rparr>)) (b\<lparr>lastSeenSeq := ?n\<rparr>) = send_run k (a\<lparr>sendSequence := ?n\<rparr>) \<and>
      length (send_run k (a\<lparr>sendSequence := ?n\<rparr>)) = k"
    by (rule Suc.IH) (use Suc.prems(2) u in simp_all)
  moreover have "\<not> ?n \<le> sendSequence a" using lt by (simp add: not_le)
  ultimately show ?case
    using Suc.prems(1) by (simp add: NextSendSequence_def ValidateSequence_def Let_def)
qed

definition sample_session :: Session where
  "sample_session = \<lparr>ss_LocalDeviceID = ''a'', ss_PeerDeviceID = ''b'', ss_PeerDeviceName = ''B'',
     ss_PeerPublicKey = EncodeToString (replicate 32 CHR ''2''), ss_SessionKey = replicate 32 CHR ''k''\<rparr>"

definition sample_conn :: Conn where
  "sample_conn = newPeerConnection (sample_options ''a'' CHR ''1'') sample_session 0"

lemma sample_conn_simps:
  "sessionKey sample_conn = replicate 32 CHR ''k''" "sessionEpoch sample_conn = 0"
  "hasPreviousSession sample_conn = False" "lastSeenSeq sample_conn = 0" "sendSequence sample_conn = 0"
  "cn_closed sample_conn = False" "conn_state sample_conn = StateReady" "inbound sample_conn = []"
  "waitingPong sample_conn = False" "peerDeviceID sample_conn = ''b''"
  by (simp_all add: sample_conn_def newPeerConnection_def sample_session_def)

theorem sequence_no_replay_witness:
  "sorted_wrt (<) (accept_run [2, 1, 2, 3] sample_conn) \<and> 0 \<notin> set (accept_run [2, 1, 2, 3] sample_conn)"
  using sequence_no_replay [of "[2, 1, 2, 3]" sample_conn] by (auto simp: sample_conn_simps)

theorem sequence_in_order_witness: "accept_run (send_run 3 sample_conn) sample_conn = send_run 3 sample_conn"
  using sequence_in_order [of sample_conn sample_conn 3] by (simp add: sample_conn_simps)

text \<open>C16: A payload encrypted under the session key of an epoch is read by the peer while it is in that epoch
  and for one rotation of its key more; after a second rotation the frame is refused.\<close>

theorem frame_across_rekey:
  assumes "prims_ok P" and "json_ok J" and "length iv = 12"
    and "sessionKey b = sessionKey a" and "sessionEpoch b = sessionEpoch a"
    and "encryptPayload P J iv p a = Inr f"
    and "RotateSessionKey t1 k1 e1 b = (None, b1)" and "RotateSessionKey t2 k2 e2 b1 = (None, b2)"
  shows "decryptPayload P J f b = Inr p \<and> decryptPayload P J f b1 = Inr p \<and>
         decryptPayload P J f b2 = Inl (Wrap ''unsupported epoch'' ErrInvalidSecureFrame)"
proof -
  note r1 = RotateSessionKey_Some [OF assms(7)] and r2 = RotateSessionKey_Some [OF assms(8)]
  have k: "sessionKey a \<noteq> []" using encryptPayload_key_length [OF assms(6)] by auto
  have "sessionEpoch a < e1" "e1 < e2" using r1 r2 assms(5) by auto
  then have ne: "sessionEpoch a \<noteq> e1" "sessionEpoch a \<noteq> e2" "e2 \<noteq> 0" by (auto dest: order.strict_trans)
  have b: "decryptPayload P J f b = Inr p"
    by (rule decrypt_encrypt_payload [OF assms(1,2,3,6)]) (simp add: select_key_def assms(4,5))
  have b1: "decryptPayload P J f b1 = Inr p"
    by (rule decrypt_encrypt_payload [OF assms(1,2,3,6)]) (simp add: select_key_def r1 assms(4,5) k)
  have b2: "decryptPayload P J f b2 = Inl (Wrap ''unsupported epoch'' ErrInvalidSecureFrame)"
  proof -
    obtain ct n where e: "Encrypt P iv (sessionKey a) p = Inr (ct, n)"
      and f: "f = json_MarshalFrame J \<lparr>sf_Type = ''secure_frame'', sf_Epoch = sessionEpoch a,
                    sf_Nonce = EncodeToString n, sf_Ciphertext = EncodeToString ct\<rparr>"
      using assms(6) by (auto simp: encryptPayload_def split: sum.splits)
    have "Decrypt P (sessionKey a) n ct = Inr p" by (rule Decrypt_Encrypt [OF assms(1,3) e])
    then have "ct \<noteq> []" "n \<noteq> []" by (auto simp: Decrypt_def split: if_splits)
    moreover have "select_key (sessionEpoch a) b2 = None" using ne r1 r2 by (simp add: select_key_def)
    ultimately show ?thesis using f assms(2) by (simp add: decryptPayload_def json_ok_def)
  qed
  show ?thesis using b b1 b2 by simp
qed

theorem frame_across_rekey_witness:
  "\<exists>f b1. encryptPayload sample_prims sample_json (replicate 12 CHR ''i'') ''hi'' sample_conn = Inr f \<and>
          RotateSessionKey 1 ''new'' 1 sample_conn = (None, b1) \<and>
          decryptPayload sample_prims sample_json f b1 = Inr ''hi''"
proof -
  let ?c = sample_conn
  obtain f where f: "encryptPayload sample_prims sample_json (replicate 12 CHR ''i'') ''hi'' ?c = Inr f"
    by (simp add: encryptPayload_def Encrypt_def sample_conn_simps)
  have "fst (RotateSessionKey 1 ''new'' 1 ?c) = None" by (simp add: RotateSessionKey_def sample_conn_simps)
  then obtain b1 where b1: "RotateSessionKey 1 ''new'' 1 ?c = (None, b1)" by (metis prod.collapse)
  have "fst (RotateSessionKey 2 ''newer'' 2 b1) = None"
    using RotateSessionKey_Some(5) [OF b1] by (simp add: RotateSessionKey_def word_le_nat_alt)
  then obtain b2 where b2: "RotateSessionKey 2 ''newer'' 2 b1 = (None, b2)" by (metis prod.collapse)
  show ?thesis
    using frame_across_rekey [OF sample_prims_ok sample_json_ok _ refl refl f b1 b2] f b1 by simp
qed

text \<open>A frame the session cannot read: not a secure frame of it, or not authentic under its keys.\<close>

definition unreadable :: "Prims \<Rightarrow> Json \<Rightarrow> Conn \<Rightarrow> string \<Rightarrow> bool" where
  "unreadable P J c f \<longleftrightarrow> f \<noteq> [] \<and> (case decryptPayload P J f c of Inl _ \<Rightarrow> True | Inr _ \<Rightarrow> False)"

fun read_frames :: "Prims \<Rightarrow> Json \<Rightarrow> string \<Rightarrow> int \<Rightarrow> string list \<Rightarrow> ReadLoop \<Rightarrow> ReadLoop" where
  "read_frames P J iv now [] l = l"
| "read_frames P J iv now (f # fs) l = read_frames P J iv now fs (readLoop_step P J iv now (Inr f) l)"

lemma readLoop_step_unreadable:
  assumes "unreadable P J (rl_conn l) f" and "rl_running l" and "\<not> cn_closed (rl_conn l)"
  shows "\<exists>e. readLoop_step P J iv now (Inr f) l = count_malformed e (l\<lparr>rl_conn := touchActivity now (rl_conn l)\<rparr>)"
  using assms by (auto simp: readLoop_step_def unreadable_def Let_def split: sum.splits)

lemma read_frames_stopped: "\<not> rl_running l \<Longrightarrow> read_frames P J iv now fs l = l"
  by (induction fs arbitrary: l) (simp_all add: readLoop_step_def)

lemma touchActivity_simps [simp]:
  "cn_closed (touchActivity now c) = cn_closed c" "inbound (touchActivity now c) = inbound c"
  "closeErr (touchActivity now c) = closeErr c"
  by (simp_all add: touchActivity_def)

lemma unreadable_touch [simp]: "unreadable P J (touchActivity now c) f = unreadable P J c f"
  by (simp add: unreadable_def)

lemma read_frames_malformed:
  "\<forall>f \<in> set fs. unreadable P J (rl_conn l) f \<Longrightarrow> rl_running l \<Longrightarrow> \<not> cn_closed (rl_conn l) \<Longrightarrow>
   rl_malformed l < 3 \<Longrightarrow>
   (let l' = read_frames P J iv now fs l in
      inbound (rl_conn l') = inbound (rl_conn l) \<and>
      (if rl_malformed l + length fs < 3
       then rl_running l' \<and> \<not> cn_closed (rl_conn l') \<and> rl_malformed l' = rl_malformed l + length fs
       else \<not> rl_running l' \<and> cn_closed (rl_conn l') \<and> closeErr (rl_conn l') \<noteq> None))"
proof (induction fs arbitrary: l)
  case Nil
  then show ?case by simp
next
  case (Cons f fs)
  let ?l1 = "l\<lparr>rl_conn := touchActivity now (rl_conn l)\<rparr>"
  obtain e where st: "readLoop_step P J iv now (Inr f) l = count_malformed e ?l1"
    using readLoop_step_unreadable [of P J l f iv now] Cons.prems by auto
  show ?case
  proof (cases "rl_malformed l + 1 < 3")
    case True
    then have "count_malformed e ?l1 = ?l1\<lparr>rl_malformed := rl_malformed l + 1\<rparr>"
      by (simp add: count_malformed_def maxMalformedFrames_def)
    with Cons.IH [of "?l1\<lparr>rl_malformed := rl_malformed l + 1\<rparr>"] Cons.prems True st show ?thesis
      by (simp add: Let_def)
  next
    case False
    then have c: "count_malformed e ?l1 = (?l1\<lparr>rl_malformed := rl_malformed l + 1,
        rl_conn := closeWithError (Some (Wrap ''disconnect after malformed frames'' e)) (touchActivity now (rl_conn l)),
        rl_running := False\<rparr>)"
      by (simp add: count_malformed_def maxMalformedFrames_def stop_with_def)
    with Cons.prems False st show ?thesis
      by (simp add: read_frames_stopped closeWithError_def Let_def)
  qed
qed

text \<open>C21: Frames a session cannot read are never delivered; fewer than three in a row are put up with, the
  third in a row closes the connection with an error.\<close>

theorem malformed_frames_disconnect:
  assumes "\<forall>f \<in> set fs. unreadable P J c f" and "\<not> cn_closed c"
  shows "let l' = read_frames P J iv now fs \<lparr>rl_conn = c, rl_malformed = 0, rl_running = True\<rparr> in
           inbound (rl_conn l') = inbound c \<and>
           (if length fs < 3 then rl_running l' \<and> \<not> cn_closed (rl_conn l')
            else \<not> rl_running l' \<and> cn_closed (rl_conn l') \<and> closeErr (rl_conn l') \<noteq> None)"
  using read_frames_malformed [of fs P J "\<lparr>rl_conn = c, rl_malformed = 0, rl_running = True\<rparr>" iv now] assms
  by (auto simp: Let_def)

lemma sample_unreadable: "unreadable sample_prims J sample_conn f"
  if "f \<noteq> []" "json_UnmarshalFrame J f = None"
  using that by (simp add: unreadable_def decryptPayload_def)

theorem malformed_frames_disconnect_witness:
  "cn_closed (rl_conn (read_frames sample_prims (sample_json\<lparr>json_UnmarshalFrame := \<lambda>_. None\<rparr>) [] 5
     [''junk'', ''junk'', ''junk''] \<lparr>rl_conn = sample_conn, rl_malformed = 0, rl_running = True\<rparr>))"
proof -
  let ?J = "sample_json\<lparr>json_UnmarshalFrame := \<lambda>_. None\<rparr>"
  have "\<forall>f \<in> set [''junk'', ''junk'', ''junk'']. unreadable sample_prims ?J sample_conn f"
    by (simp add: sample_unreadable)
  from malformed_frames_disconnect [OF this, of "[]" 5] show ?thesis
    by (simp add: sample_conn_simps Let_def)
qed




text \<open>Disconnecting a connection that is already closed sends nothing and keeps the close error, but
  leaves the connection in the state DISCONNECTING for good: the state is set before the send that fails,
  and the close that would set DISCONNECTED happens only once.\<close>

theorem Disconnect_after_close:
  assumes "cn_closed c" and "w_limit (cn_out c) = Some 0"
  shows "conn_state (Disconnect P J iv now c) = StateDisconnecting \<and>
         w_bytes (cn_out (Disconnect P J iv now c)) = w_bytes (cn_out c) \<and>
         closeErr (Disconnect P J iv now c) = closeErr c"
proof -
  have fails: "\<exists>e w. WriteFrame b (cn_out c) = (Some e, w) \<and> w_bytes w = w_bytes (cn_out c)" for b
    using assms(2) by (auto simp: WriteFrame_def Write_def)
  then have "conn_state (snd (SendRaw P J iv now p (setState StateDisconnecting c))) = StateDisconnecting \<and>
      cn_closed (snd (SendRaw P J iv now p (setState StateDisconnecting c))) \<and>
      w_bytes (cn_out (snd (SendRaw P J iv now p (setState StateDisconnecting c)))) = w_bytes (cn_out c) \<and>
      closeErr (snd (SendRaw P J iv now p (setState StateDisconnecting c))) = closeErr c" for p
  proof (cases "encryptPayload P J iv p (setState StateDisconnecting c)")
    case (Inl e)
    with assms(1) show ?thesis by (simp add: SendRaw_def setState_def)
  next
    case (Inr f)
    obtain e w where "WriteFrame f (cn_out c) = (Some e, w)" "w_bytes w = w_bytes (cn_out c)"
      using fails by blast
    with Inr assms(1) show ?thesis by (simp add: SendRaw_def setState_def)
  qed
  then show ?thesis by (simp add: Disconnect_def Let_def SendMessage_def Close_def)
qed

theorem Disconnect_after_close_witness:
  "conn_state (Disconnect sample_prims sample_json [] 7 (Close sample_conn)) = StateDisconnecting"
  using Disconnect_after_close [of "Close sample_conn" sample_prims sample_json "[]" 7]
  by (simp add: Close_def closeWithError_def sample_conn_simps)

end
