(* ===== verification/StoreTypes.thy ===== *)
theory StoreTypes
  imports GoPrelude
begin

text \<open>
  The data model of \<open>src/storage\<close>: the row types and status vocabularies of \<open>types.go\<close>, and the
  state of the database that the schema of \<open>database.go\<close> describes.

  A Go pointer field is an \<open>option\<close>. Each table is the list of its rows in \<open>rowid\<close> order.
  \<open>store_wf\<close> is what the schema enforces and the program keeps: primary keys are unique, every
  \<open>CHECK\<close> holds, every foreign key has its parent row (the connection string sets
  \<open>_foreign_keys=on\<close>), and the generated identifiers stay below the \<open>AUTOINCREMENT\<close> counters.
  Failures of the database itself (I/O, locking) are not modelled: a statement fails only where a
  constraint refuses it.
\<close>

section \<open>Rows\<close>

record Peer =
  p_DeviceID :: string
  p_DeviceName :: string
  p_Ed25519PublicKey :: string
  p_KeyFingerprint :: string
  p_Status :: string
  p_AddedTimestamp :: int
  p_LastSeenTimestamp :: "int option"
  p_LastKnownIP :: "string option"
  p_LastKnownPort :: "int option"

record Message =
  m_MessageID :: string
  m_FromDeviceID :: string
  m_ToDeviceID :: string
  m_Content :: string
  m_ContentType :: string
  m_TimestampSent :: int
  m_TimestampReceived :: "int option"
  m_IsRead :: bool
  m_DeliveryStatus :: string
  m_Signature :: string

record FileMetadata =
  f_FileID :: string
  f_MessageID :: string
  f_FolderID :: string
  f_RelativePath :: string
  f_FromDeviceID :: string
  f_ToDeviceID :: string
  f_Filename :: string
  f_Filesize :: int
  f_Filetype :: string
  f_StoredPath :: string
  f_Checksum :: string
  f_TimestampReceived :: "int option"
  f_TransferStatus :: string

record FolderTransferMetadata =
  d_FolderID :: string
  d_FromDeviceID :: string
  d_ToDeviceID :: string
  d_FolderName :: string
  d_RootPath :: string
  d_TotalFiles :: int
  d_TotalSize :: int
  d_TransferStatus :: string
  d_Timestamp :: int

record TransferCheckpoint =
  c_FileID :: string
  c_Direction :: string
  c_NextChunk :: int
  c_BytesTransferred :: int
  c_TempPath :: string
  c_UpdatedAt :: int

record KeyRotationEvent =
  k_ID :: int
  k_PeerDeviceID :: string
  k_OldKeyFingerprint :: string
  k_NewKeyFingerprint :: string
  k_Decision :: string
  k_Timestamp :: int

record SecurityEvent =
  e_ID :: int
  e_EventType :: string
  e_PeerDeviceID :: "string option"
  e_Details :: string
  e_Severity :: string
  e_Timestamp :: int

record SecurityEventFilter =
  q_EventType :: string
  q_PeerDeviceID :: string
  q_Severity :: string
  q_FromTimestamp :: "int option"
  q_ToTimestamp :: "int option"
  q_Limit :: int
  q_Offset :: int

record PeerSettings =
  g_PeerDeviceID :: string
  g_AutoAcceptFiles :: bool
  g_MaxFileSize :: int
  g_DownloadDirectory :: string
  g_CustomName :: string
  g_TrustLevel :: string
  g_NotificationsMuted :: bool
  g_Verified :: bool

type_synonym SeenID = "string \<times> int"

section \<open>Vocabularies\<close>

definition validatePeerStatus :: "string \<Rightarrow> go_error option" where
  "validatePeerStatus status =
     (if status \<in> {''online'', ''offline'', ''pending'', ''blocked''} then None
      else Some (Err ''invalid peer status''))"

definition validateContentType :: "string \<Rightarrow> go_error option" where
  "validateContentType contentType =
     (if contentType \<in> {''text'', ''image'', ''file''} then None
      else Some (Err ''invalid content type''))"

definition validateDeliveryStatus :: "string \<Rightarrow> go_error option" where
  "validateDeliveryStatus status =
     (if status \<in> {''pending'', ''sent'', ''delivered'', ''failed''} then None
      else Some (Err ''invalid delivery status''))"

definition validateTransferStatus :: "string \<Rightarrow> go_error option" where
  "validateTransferStatus status =
     (if status \<in> {''pending'', ''accepted'', ''rejected'', ''complete'', ''failed'', ''canceled''}
      then None else Some (Err ''invalid transfer status''))"

definition validateTransferDirection :: "string \<Rightarrow> go_error option" where
  "validateTransferDirection direction =
     (if direction \<in> {''send'', ''receive''} then None
      else Some (Err ''invalid transfer checkpoint direction''))"

definition validateKeyRotationDecision :: "string \<Rightarrow> go_error option" where
  "validateKeyRotationDecision decision =
     (if decision \<in> {''trusted'', ''rejected''} then None
      else Some (Err ''invalid key rotation decision''))"

definition validateSecuritySeverity :: "string \<Rightarrow> go_error option" where
  "validateSecuritySeverity severity =
     (if severity \<in> {''info'', ''warning'', ''critical''} then None
      else Some (Err ''invalid security event severity''))"

definition validatePeerTrustLevel :: "string \<Rightarrow> go_error option" where
  "validatePeerTrustLevel trustLevel =
     (if trustLevel \<in> {''normal'', ''trusted''} then None
      else Some (Err ''invalid peer trust level''))"

lemmas validate_defs =
  validatePeerStatus_def validateContentType_def validateDeliveryStatus_def
  validateTransferStatus_def validateTransferDirection_def validateKeyRotationDecision_def
  validateSecuritySeverity_def validatePeerTrustLevel_def

section \<open>The database\<close>

record Store =
  st_peers :: "Peer list"
  st_messages :: "Message list"
  st_files :: "FileMetadata list"
  st_seen :: "SeenID list"
  st_rotations :: "KeyRotationEvent list"
  st_rotation_seq :: int
  st_events :: "SecurityEvent list"
  st_event_seq :: int
  st_settings :: "PeerSettings list"
  st_checkpoints :: "TransferCheckpoint list"
  st_folders :: "FolderTransferMetadata list"
  securityEventRetention :: int

text \<open>\<open>DefaultSecurityEventRetention\<close>: 90 days, in milliseconds.\<close>

definition DefaultSecurityEventRetention :: int where
  "DefaultSecurityEventRetention = 90 * 24 * 3600 * 1000"

text \<open>The state \<open>OpenPath\<close> leaves for a new file: every migration applied, every table empty.\<close>

definition empty_store :: Store where
  "empty_store = \<lparr>st_peers = [], st_messages = [], st_files = [], st_seen = [],
     st_rotations = [], st_rotation_seq = 0, st_events = [], st_event_seq = 0,
     st_settings = [], st_checkpoints = [], st_folders = [],
     securityEventRetention = DefaultSecurityEventRetention\<rparr>"

definition checkpoint_key :: "TransferCheckpoint \<Rightarrow> string \<times> string" where
  "checkpoint_key c = (c_FileID c, c_Direction c)"

definition peer_ids :: "Store \<Rightarrow> string set" where
  "peer_ids s = p_DeviceID ` set (st_peers s)"

definition message_ids :: "Store \<Rightarrow> string set" where
  "message_ids s = m_MessageID ` set (st_messages s)"

text \<open>What the schema promises of each table.\<close>

definition peers_wf :: "Store \<Rightarrow> bool" where
  "peers_wf s \<longleftrightarrow> keys_distinct p_DeviceID (st_peers s) \<and>
     (\<forall>p \<in> set (st_peers s). validatePeerStatus (p_Status p) = None)"

definition messages_wf :: "Store \<Rightarrow> bool" where
  "messages_wf s \<longleftrightarrow> keys_distinct m_MessageID (st_messages s) \<and>
     (\<forall>m \<in> set (st_messages s). m_MessageID m \<noteq> [] \<and>
        m_FromDeviceID m \<in> peer_ids s \<and> m_ToDeviceID m \<in> peer_ids s \<and>
        validateContentType (m_ContentType m) = None \<and>
        validateDeliveryStatus (m_DeliveryStatus m) = None)"

definition files_wf :: "Store \<Rightarrow> bool" where
  "files_wf s \<longleftrightarrow> keys_distinct f_FileID (st_files s) \<and>
     (\<forall>f \<in> set (st_files s).
        (f_MessageID f \<noteq> [] \<longrightarrow> f_MessageID f \<in> message_ids s) \<and>
        validateTransferStatus (f_TransferStatus f) = None)"

definition settings_wf :: "Store \<Rightarrow> bool" where
  "settings_wf s \<longleftrightarrow> keys_distinct g_PeerDeviceID (st_settings s) \<and>
     (\<forall>g \<in> set (st_settings s).
        g_PeerDeviceID g \<in> peer_ids s \<and> validatePeerTrustLevel (g_TrustLevel g) = None)"

definition rotations_wf :: "Store \<Rightarrow> bool" where
  "rotations_wf s \<longleftrightarrow> keys_distinct k_ID (st_rotations s) \<and>
     (\<forall>k \<in> set (st_rotations s).
        k_ID k \<le> st_rotation_seq s \<and> k_PeerDeviceID k \<in> peer_ids s \<and>
        validateKeyRotationDecision (k_Decision k) = None)"

definition events_wf :: "Store \<Rightarrow> bool" where
  "events_wf s \<longleftrightarrow> keys_distinct e_ID (st_events s) \<and>
     (\<forall>e \<in> set (st_events s).
        e_ID e \<le> st_event_seq s \<and> validateSecuritySeverity (e_Severity e) = None)"

definition transfers_wf :: "Store \<Rightarrow> bool" where
  "transfers_wf s \<longleftrightarrow> keys_distinct checkpoint_key (st_checkpoints s) \<and>
     keys_distinct d_FolderID (st_folders s) \<and>
     (\<forall>c \<in> set (st_checkpoints s). validateTransferDirection (c_Direction c) = None \<and>
        0 \<le> c_NextChunk c \<and> 0 \<le> c_BytesTransferred c) \<and>
     (\<forall>d \<in> set (st_folders s). validateTransferStatus (d_TransferStatus d) = None)"

definition seen_wf :: "Store \<Rightarrow> bool" where
  "seen_wf s \<longleftrightarrow> keys_distinct fst (st_seen s)"

definition store_wf :: "Store \<Rightarrow> bool" where
  "store_wf s \<longleftrightarrow> peers_wf s \<and> messages_wf s \<and> files_wf s \<and> settings_wf s \<and> rotations_wf s \<and>
     events_wf s \<and> transfers_wf s \<and> seen_wf s"

lemmas wf_parts =
  peers_wf_def messages_wf_def files_wf_def settings_wf_def rotations_wf_def events_wf_def
  transfers_wf_def seen_wf_def peer_ids_def message_ids_def

lemma store_wf_empty: "store_wf empty_store"
  by (simp add: store_wf_def wf_parts empty_store_def keys_distinct_def)

text \<open>
  The outcome of a statement: an error (and the state it leaves, unchanged where a constraint
  refuses the statement), or the new state.
\<close>

type_synonym stmt = "Store \<Rightarrow> go_error option \<times> Store"

definition preserves :: "(Store \<Rightarrow> bool) \<Rightarrow> stmt \<Rightarrow> bool" where
  "preserves I f \<longleftrightarrow> (\<forall>s. I s \<longrightarrow> I (snd (f s)))"

section \<open>Tables with a primary key\<close>

interpretation peers: keyed_table p_DeviceID st_peers "\<lambda>rs s. s\<lparr>st_peers := rs\<rparr>"
  by unfold_locales simp_all

interpretation messages: keyed_table m_MessageID st_messages "\<lambda>rs s. s\<lparr>st_messages := rs\<rparr>"
  by unfold_locales simp_all

interpretation files: keyed_table f_FileID st_files "\<lambda>rs s. s\<lparr>st_files := rs\<rparr>"
  by unfold_locales simp_all

interpretation seen: keyed_table fst st_seen "\<lambda>rs s. s\<lparr>st_seen := rs\<rparr>"
  by unfold_locales simp_all

interpretation settings: keyed_table g_PeerDeviceID st_settings "\<lambda>rs s. s\<lparr>st_settings := rs\<rparr>"
  by unfold_locales simp_all

interpretation checkpoints: keyed_table checkpoint_key st_checkpoints
  "\<lambda>rs s. s\<lparr>st_checkpoints := rs\<rparr>"
  by unfold_locales simp_all

interpretation folders: keyed_table d_FolderID st_folders "\<lambda>rs s. s\<lparr>st_folders := rs\<rparr>"
  by unfold_locales simp_all

end
