(* ===== verification/StoreMessages.thy ===== *)
theory StoreMessages
  imports StoreTypes
begin

text \<open>
  \<open>src/storage/messages.go\<close> and \<open>src/storage/seen_ids.go\<close>: the chat history, the outbound queue
  (the rows with \<open>delivery_status = 'pending'\<close>) and the table of message identifiers already seen.

  Each statement checks its arguments in the order of the code, then lets the constraints of the
  schema decide. \<open>now\<close> is what \<open>nowUnixMilli\<close> returns. Rows with equal timestamps keep their
  \<open>rowid\<close> order, which SQL leaves open. \<open>like_match\<close> is SQLite's \<open>LIKE\<close>.
\<close>

section \<open>Statements\<close>

definition insert_message :: "Message \<Rightarrow> stmt" where
  "insert_message m s =
     (if m_MessageID m \<in> message_ids s then
        (Some (Wrap ''insert message'' (Err ''UNIQUE constraint failed: messages.message_id'')), s)
      else if m_FromDeviceID m \<notin> peer_ids s \<or> m_ToDeviceID m \<notin> peer_ids s then
        (Some (Wrap ''insert message'' (Err ''FOREIGN KEY constraint failed'')), s)
      else (None, s\<lparr>st_messages := st_messages s @ [m]\<rparr>))"

definition SaveMessage :: "int \<Rightarrow> Message \<Rightarrow> stmt" where
  "SaveMessage now m s =
     (if m_MessageID m = [] then (Some (Err ''message_id is required''), s)
      else if m_FromDeviceID m = [] then (Some (Err ''from_device_id is required''), s)
      else if m_ToDeviceID m = [] then (Some (Err ''to_device_id is required''), s)
      else if m_Content m = [] then (Some (Err ''content is required''), s)
      else
        let m1 = (if m_ContentType m = [] then m\<lparr>m_ContentType := ''text''\<rparr> else m) in
        (case validateContentType (m_ContentType m1) of
           Some e \<Rightarrow> (Some e, s)
         | None \<Rightarrow>
             let m2 = (if m_DeliveryStatus m1 = [] then m1\<lparr>m_DeliveryStatus := ''pending''\<rparr> else m1) in
             (case validateDeliveryStatus (m_DeliveryStatus m2) of
                Some e \<Rightarrow> (Some e, s)
              | None \<Rightarrow>
                  let m3 = (if m_TimestampSent m2 = 0 then m2\<lparr>m_TimestampSent := now\<rparr> else m2) in
                  insert_message m3 s)))"

definition limit_offset :: "int \<Rightarrow> int \<Rightarrow> int \<Rightarrow> 'r list \<Rightarrow> 'r list" where
  "limit_offset def limit offset rows =
     (let l = (if limit \<le> 0 then def else limit); k = (if offset < 0 then 0 else offset)
      in take (nat l) (drop (nat k) rows))"

definition conversation_of :: "string \<Rightarrow> Message \<Rightarrow> bool" where
  "conversation_of peerID m \<longleftrightarrow> m_FromDeviceID m = peerID \<or> m_ToDeviceID m = peerID"

definition GetMessages :: "string \<Rightarrow> int \<Rightarrow> int \<Rightarrow> Store \<Rightarrow> Message list res" where
  "GetMessages peerID limit offset s =
     (if peerID = [] then Inl (Err ''peer_id is required'')
      else Inr (limit_offset 100 limit offset
                 (sort_key m_TimestampSent (filter (conversation_of peerID) (st_messages s)))))"

text \<open>
  \<open>LIKE\<close>: \<open>%\<close> stands for any sequence, \<open>_\<close> for one character (a lead byte and its UTF-8
  continuation bytes), every other byte for itself up to ASCII case.
\<close>

definition skip_char :: "string \<Rightarrow> string" where
  "skip_char s =
     (case s of [] \<Rightarrow> []
      | c # s' \<Rightarrow> if (of_char c :: nat) < 0xC0 then s'
                  else dropWhile (\<lambda>d. 0x80 \<le> (of_char d :: nat) \<and> (of_char d :: nat) < 0xC0) s')"

fun like_match :: "string \<Rightarrow> string \<Rightarrow> bool" where
  "like_match [] s = (s = [])"
| "like_match (p # ps) [] = (p = CHR ''%'' \<and> like_match ps [])"
| "like_match (p # ps) (c # s) =
     (if p = CHR ''%'' then like_match ps (c # s) \<or> like_match (p # ps) s
      else if p = CHR ''_'' then like_match ps (skip_char (c # s))
      else lower_char p = lower_char c \<and> like_match ps s)"

definition SearchMessages :: "string \<Rightarrow> string \<Rightarrow> int \<Rightarrow> int \<Rightarrow> Store \<Rightarrow> Message list res" where
  "SearchMessages peerID query limit offset s =
     (if peerID = [] then Inl (Err ''peer_id is required'')
      else if query = [] then Inl (Err ''query is required'')
      else Inr (limit_offset 100 limit offset
                 (sort_key m_TimestampSent
                   (filter (\<lambda>m. conversation_of peerID m \<and>
                                like_match (''%'' @ query @ ''%'') (m_Content m)) (st_messages s)))))"

text \<open>The \<open>UPDATE\<close> of one row by \<open>message_id\<close>; no row is \<open>ErrNotFound\<close>.\<close>

definition set_delivery_status :: "string \<Rightarrow> string \<Rightarrow> stmt" where
  "set_delivery_status messageID status s =
     (if rows_affected (\<lambda>m. m_MessageID m = messageID) (st_messages s) = 0 then (Some ErrNotFound, s)
      else (None, s\<lparr>st_messages :=
             tbl_update (\<lambda>m. m_MessageID m = messageID) (\<lambda>m. m\<lparr>m_DeliveryStatus := status\<rparr>)
               (st_messages s)\<rparr>))"

definition MarkDelivered :: "string \<Rightarrow> stmt" where
  "MarkDelivered messageID s =
     (if messageID = [] then (Some (Err ''message_id is required''), s)
      else set_delivery_status messageID ''delivered'' s)"

definition UpdateDeliveryStatus :: "string \<Rightarrow> string \<Rightarrow> stmt" where
  "UpdateDeliveryStatus messageID status s =
     (if messageID = [] then (Some (Err ''message_id is required''), s)
      else case validateDeliveryStatus status of
             Some e \<Rightarrow> (Some e, s)
           | None \<Rightarrow> set_delivery_status messageID status s)"

definition GetMessageByID :: "string \<Rightarrow> Store \<Rightarrow> Message res" where
  "GetMessageByID messageID s =
     (if messageID = [] then Inl (Err ''message_id is required'')
      else case tbl_find m_MessageID messageID (st_messages s) of
             None \<Rightarrow> Inl ErrNotFound
           | Some m \<Rightarrow> Inr m)"

definition is_pending_to :: "string \<Rightarrow> Message \<Rightarrow> bool" where
  "is_pending_to peerID m \<longleftrightarrow> m_ToDeviceID m = peerID \<and> m_DeliveryStatus m = ''pending''"

definition GetPendingMessages :: "string \<Rightarrow> Store \<Rightarrow> Message list res" where
  "GetPendingMessages peerID s =
     (if peerID = [] then Inl (Err ''peer_id is required'')
      else Inr (sort_key m_TimestampSent (filter (is_pending_to peerID) (st_messages s))))"

definition is_expired :: "int \<Rightarrow> Message \<Rightarrow> bool" where
  "is_expired cutoff m \<longleftrightarrow> m_DeliveryStatus m = ''pending'' \<and> m_TimestampSent m < cutoff"

definition PruneExpiredQueue :: "int \<Rightarrow> Store \<Rightarrow> nat res \<times> Store" where
  "PruneExpiredQueue cutoff s =
     (if cutoff \<le> 0 then (Inl (Err ''cutoff timestamp must be > 0''), s)
      else (Inr (rows_affected (is_expired cutoff) (st_messages s)),
            s\<lparr>st_messages := tbl_update (is_expired cutoff) (\<lambda>m. m\<lparr>m_DeliveryStatus := ''failed''\<rparr>)
                (st_messages s)\<rparr>))"

text \<open>
  A \<open>DELETE\<close> of messages fails as a whole where a file row refers to one of them
  (\<open>files.message_id REFERENCES messages\<close>, without a cascade).
\<close>

definition delete_messages :: "string \<Rightarrow> (Message \<Rightarrow> bool) \<Rightarrow> Store \<Rightarrow> nat res \<times> Store" where
  "delete_messages what P s =
     (if \<exists>f \<in> set (st_files s). f_MessageID f \<noteq> [] \<and>
           f_MessageID f \<in> m_MessageID ` set (filter P (st_messages s))
      then (Inl (Wrap what (Err ''FOREIGN KEY constraint failed'')), s)
      else (Inr (rows_affected P (st_messages s)),
            s\<lparr>st_messages := tbl_delete P (st_messages s)\<rparr>))"

definition DeleteMessagesOlderThan :: "int \<Rightarrow> Store \<Rightarrow> nat res \<times> Store" where
  "DeleteMessagesOlderThan cutoff s =
     (if cutoff \<le> 0 then (Inl (Err ''cutoff timestamp must be > 0''), s)
      else delete_messages ''delete messages older than cutoff'' (\<lambda>m. m_TimestampSent m < cutoff) s)"

definition DeleteMessagesForPeer :: "string \<Rightarrow> Store \<Rightarrow> nat res \<times> Store" where
  "DeleteMessagesForPeer peerID s =
     (if peerID = [] then (Inl (Err ''peer_id is required''), s)
      else delete_messages ''delete messages for peer'' (conversation_of peerID) s)"

definition InsertSeenID :: "int \<Rightarrow> string \<Rightarrow> int \<Rightarrow> stmt" where
  "InsertSeenID now messageID receivedAt s =
     (if messageID = [] then (Some (Err ''message_id is required''), s)
      else (None, s\<lparr>st_seen := tbl_upsert fst (messageID, if receivedAt = 0 then now else receivedAt)
                      (st_seen s)\<rparr>))"

definition HasSeenID :: "string \<Rightarrow> Store \<Rightarrow> bool res" where
  "HasSeenID messageID s =
     (if messageID = [] then Inl (Err ''message_id is required'')
      else Inr (messageID \<in> fst ` set (st_seen s)))"

definition PruneOldEntries :: "int \<Rightarrow> Store \<Rightarrow> nat res \<times> Store" where
  "PruneOldEntries cutoff s =
     (if cutoff \<le> 0 then (Inl (Err ''cutoff timestamp must be > 0''), s)
      else (Inr (rows_affected (\<lambda>r. snd r < cutoff) (st_seen s)),
            s\<lparr>st_seen := tbl_delete (\<lambda>r. snd r < cutoff) (st_seen s)\<rparr>))"

lemmas message_stmt_defs [store_defs] =
  SaveMessage_def insert_message_def set_delivery_status_def MarkDelivered_def
  UpdateDeliveryStatus_def PruneExpiredQueue_def delete_messages_def DeleteMessagesOlderThan_def
  DeleteMessagesForPeer_def InsertSeenID_def PruneOldEntries_def

section \<open>The invariant\<close>

text \<open>Replacing the messages keeps the invariant if the new rows are well formed and cover the files.\<close>

lemma store_wf_put_messages:
  assumes "store_wf s" and "messages_wf (s\<lparr>st_messages := rs\<rparr>)"
    and "\<And>f. f \<in> set (st_files s) \<Longrightarrow> f_MessageID f \<noteq> [] \<Longrightarrow> f_MessageID f \<in> m_MessageID ` set rs"
  shows "store_wf (s\<lparr>st_messages := rs\<rparr>)"
  using assms by (simp add: store_wf_def wf_parts)

lemma file_message_exists:
  "store_wf s \<Longrightarrow> f \<in> set (st_files s) \<Longrightarrow> f_MessageID f \<noteq> [] \<Longrightarrow>
   f_MessageID f \<in> m_MessageID ` set (st_messages s)"
  by (simp add: store_wf_def files_wf_def message_ids_def)

lemma store_wf_set_status:
  assumes "store_wf s" and "validateDeliveryStatus status = None"
  shows "store_wf (s\<lparr>st_messages :=
           tbl_update P (\<lambda>m. m\<lparr>m_DeliveryStatus := status\<rparr>) (st_messages s)\<rparr>)"
proof (rule store_wf_put_messages [OF assms(1)])
  from assms show "messages_wf (s\<lparr>st_messages :=
      tbl_update P (\<lambda>m. m\<lparr>m_DeliveryStatus := status\<rparr>) (st_messages s)\<rparr>)"
    by (auto simp: store_wf_def messages_wf_def peer_ids_def tbl_simps keys_distinct_update)
  fix f assume "f \<in> set (st_files s)" "f_MessageID f \<noteq> []"
  with assms(1) show "f_MessageID f \<in> m_MessageID `
      set (tbl_update P (\<lambda>m. m\<lparr>m_DeliveryStatus := status\<rparr>) (st_messages s))"
    by (simp add: image_key_tbl_update file_message_exists)
qed

lemma SaveMessage_wf: "store_wf s \<Longrightarrow> store_wf (snd (SaveMessage now m s))"
proof -
  assume wf: "store_wf s"
  have ins: "store_wf (snd (insert_message m s))"
    if "m_MessageID m \<noteq> []" "validateContentType (m_ContentType m) = None"
      "validateDeliveryStatus (m_DeliveryStatus m) = None" for m
  proof (cases "m_MessageID m \<in> message_ids s \<or> m_FromDeviceID m \<notin> peer_ids s \<or> m_ToDeviceID m \<notin> peer_ids s")
    case True
    with wf show ?thesis by (auto simp: insert_message_def)
  next
    case False
    have "store_wf (s\<lparr>st_messages := st_messages s @ [m]\<rparr>)"
    proof (rule store_wf_put_messages [OF wf])
      show "messages_wf (s\<lparr>st_messages := st_messages s @ [m]\<rparr>)"
        using wf False that
        by (auto simp: store_wf_def messages_wf_def peer_ids_def message_ids_def keys_distinct_snoc)
    qed (use wf in \<open>auto dest: file_message_exists\<close>)
    with False show ?thesis by (simp add: insert_message_def)
  qed
  show ?thesis
    using wf by (auto simp: SaveMessage_def Let_def validate_defs intro!: ins split: option.splits if_splits)
qed

lemma set_delivery_status_wf:
  "store_wf s \<Longrightarrow> validateDeliveryStatus status = None \<Longrightarrow>
   store_wf (snd (set_delivery_status messageID status s))"
  by (simp add: set_delivery_status_def store_wf_set_status)

lemma MarkDelivered_wf: "store_wf s \<Longrightarrow> store_wf (snd (MarkDelivered messageID s))"
  by (simp add: MarkDelivered_def set_delivery_status_wf validateDeliveryStatus_def)

lemma UpdateDeliveryStatus_wf: "store_wf s \<Longrightarrow> store_wf (snd (UpdateDeliveryStatus messageID status s))"
  by (simp add: UpdateDeliveryStatus_def set_delivery_status_wf split: option.split)

lemma PruneExpiredQueue_wf: "store_wf s \<Longrightarrow> store_wf (snd (PruneExpiredQueue cutoff s))"
  by (simp add: PruneExpiredQueue_def store_wf_set_status validateDeliveryStatus_def)

lemma delete_messages_wf: "store_wf s \<Longrightarrow> store_wf (snd (delete_messages what P s))"
proof -
  assume wf: "store_wf s"
  show ?thesis
  proof (cases "\<exists>f \<in> set (st_files s). f_MessageID f \<noteq> [] \<and>
      f_MessageID f \<in> m_MessageID ` set (filter P (st_messages s))")
    case True
    with wf show ?thesis by (simp add: delete_messages_def)
  next
    case False
    have "store_wf (s\<lparr>st_messages := tbl_delete P (st_messages s)\<rparr>)"
    proof (rule store_wf_put_messages [OF wf])
      show "messages_wf (s\<lparr>st_messages := tbl_delete P (st_messages s)\<rparr>)"
        using wf by (auto simp: store_wf_def messages_wf_def peer_ids_def tbl_simps keys_distinct_delete)
    next
      fix f assume f: "f \<in> set (st_files s)" "f_MessageID f \<noteq> []"
      with wf obtain m where "m \<in> set (st_messages s)" "m_MessageID m = f_MessageID f"
        by (auto dest!: file_message_exists)
      moreover from this f False have "\<not> P m" by force
      ultimately show "f_MessageID f \<in> m_MessageID ` set (tbl_delete P (st_messages s))"
        by (force simp: tbl_simps)
    qed
    with wf show ?thesis by (simp add: delete_messages_def)
  qed
qed

lemma DeleteMessagesOlderThan_wf: "store_wf s \<Longrightarrow> store_wf (snd (DeleteMessagesOlderThan cutoff s))"
  by (simp add: DeleteMessagesOlderThan_def delete_messages_wf)

lemma DeleteMessagesForPeer_wf: "store_wf s \<Longrightarrow> store_wf (snd (DeleteMessagesForPeer peerID s))"
  by (simp add: DeleteMessagesForPeer_def delete_messages_wf)

lemma InsertSeenID_wf: "store_wf s \<Longrightarrow> store_wf (snd (InsertSeenID now messageID receivedAt s))"
  by (simp add: InsertSeenID_def store_wf_def wf_parts keys_distinct_upsert)

lemma PruneOldEntries_wf: "store_wf s \<Longrightarrow> store_wf (snd (PruneOldEntries cutoff s))"
  by (simp add: PruneOldEntries_def store_wf_def wf_parts keys_distinct_delete)

section \<open>Properties\<close>

text \<open>A pattern without wildcards matches a string up to ASCII case, then the rest of the pattern.\<close>

lemma like_match_all: "like_match ''%'' s"
  by (induction s) simp_all

lemma like_match_plain:
  "CHR ''%'' \<notin> set q \<Longrightarrow> CHR ''_'' \<notin> set q \<Longrightarrow>
   like_match (q @ ''%'') s \<longleftrightarrow> prefix (ToLower q) (ToLower s)"
proof (induction q arbitrary: s)
  case Nil
  then show ?case by (simp add: like_match_all ToLower_def)
next
  case (Cons p q)
  then show ?case by (cases s) (auto simp: ToLower_def)
qed

lemma like_match_contains:
  assumes "CHR ''%'' \<notin> set q" and "CHR ''_'' \<notin> set q"
  shows "like_match (''%'' @ q @ ''%'') s \<longleftrightarrow> Contains (ToLower s) (ToLower q)"
proof (induction s)
  case Nil
  have "like_match (q @ ''%'') [] \<longleftrightarrow> q = []"
    using like_match_plain [OF assms, of "[]"] by (simp add: ToLower_def)
  then show ?case by (simp add: ToLower_def)
next
  case (Cons c s)
  then show ?case using like_match_plain [OF assms, of "c # s"] by (simp add: ToLower_def)
qed

lemma set_limit_offset_all: "int (length rows) \<le> limit \<Longrightarrow> limit_offset def limit 0 rows = rows"
  by (cases rows) (auto simp: limit_offset_def Let_def)

lemma MarkDelivered_eq: "MarkDelivered i s = UpdateDeliveryStatus i ''delivered'' s"
  by (simp add: MarkDelivered_def UpdateDeliveryStatus_def validateDeliveryStatus_def)

definition sample_message :: "string \<Rightarrow> string \<Rightarrow> string \<Rightarrow> string \<Rightarrow> int \<Rightarrow> Message" where
  "sample_message i from to content ts =
     \<lparr>m_MessageID = i, m_FromDeviceID = from, m_ToDeviceID = to, m_Content = content,
      m_ContentType = ''text'', m_TimestampSent = ts, m_TimestampReceived = None, m_IsRead = False,
      m_DeliveryStatus = ''pending'', m_Signature = []\<rparr>"

definition two_peers :: Store where
  "two_peers = empty_store\<lparr>st_peers := map (\<lambda>d. \<lparr>p_DeviceID = d, p_DeviceName = ''n'', p_Ed25519PublicKey = ''k'',
     p_KeyFingerprint = ''f'', p_Status = ''online'', p_AddedTimestamp = 1, p_LastSeenTimestamp = None,
     p_LastKnownIP = None, p_LastKnownPort = None\<rparr>) [''a'', ''b'']\<rparr>"

text \<open>A small well-formed store, on which the theorems are evaluated.\<close>

definition sample_store :: Store where
  "sample_store = two_peers\<lparr>st_messages := [sample_message ''2'' ''a'' ''b'' ''hello'' 9, sample_message ''1'' ''a'' ''b'' ''bye'' 7]\<rparr>"

lemma sample_store_wf: "store_wf sample_store"
  by code_simp

text \<open>C30: A search for a query without LIKE wildcards returns exactly the messages of the conversation
  whose content contains the query up to ASCII case, in order of the time they were sent.\<close>

theorem SearchMessages_finds:
  assumes "peerID \<noteq> []" and "query \<noteq> []" and "CHR ''%'' \<notin> set query" and "CHR ''_'' \<notin> set query"
    and "int (length (st_messages s)) \<le> limit"
  shows "\<exists>rs. SearchMessages peerID query limit 0 s = Inr rs \<and> sorted (map m_TimestampSent rs) \<and>
           set rs = {m \<in> set (st_messages s). conversation_of peerID m \<and>
                       Contains (ToLower (m_Content m)) (ToLower query)}"
proof -
  let ?f = "filter (\<lambda>m. conversation_of peerID m \<and>
              like_match (''%'' @ query @ ''%'') (m_Content m)) (st_messages s)"
  have "int (length (sort_key m_TimestampSent ?f)) \<le> limit"
    using assms(5) length_filter_le [of _ "st_messages s"] by (smt (verit) length_sort of_nat_le_iff)
  then have "SearchMessages peerID query limit 0 s = Inr (sort_key m_TimestampSent ?f)"
    using assms(1,2) by (simp add: SearchMessages_def set_limit_offset_all)
  then show ?thesis
    using like_match_contains [OF assms(3,4)] by auto
qed

theorem SearchMessages_finds_witness:
  "\<exists>rs. SearchMessages ''b'' ''LL'' 5 0 sample_store = Inr rs \<and>
        set rs = {sample_message ''2'' ''a'' ''b'' ''hello'' 9}"
proof -
  let ?x = "sample_message ''2'' ''a'' ''b'' ''hello'' 9" and ?y = "sample_message ''1'' ''a'' ''b'' ''bye'' 7"
  let ?P = "\<lambda>m. conversation_of ''b'' m \<and> Contains (ToLower (m_Content m)) (ToLower ''LL'')"
  have "?P ?x" "\<not> ?P ?y" by code_simp+
  moreover have rows: "st_messages sample_store = [?x, ?y]" by (simp add: sample_store_def)
  ultimately have eq: "{m \<in> set (st_messages sample_store). ?P m} = {?x}" by (auto simp only: list.set)
  have "int (length (st_messages sample_store)) \<le> 5" by (simp add: rows)
  with eq show ?thesis
    using SearchMessages_finds [of "''b''" "''LL''" sample_store 5] by (simp, blast)
qed

text \<open>Once the queue is pruned at a cutoff, the messages pending for a peer are those sent at or after
  the cutoff, oldest first, and every expired one is marked failed.\<close>

theorem PruneExpiredQueue_pending:
  assumes "0 < cutoff" and "peerID \<noteq> []" and "store_wf s"
  shows "GetPendingMessages peerID (snd (PruneExpiredQueue cutoff s)) =
           Inr (sort_key m_TimestampSent
             (filter (\<lambda>m. is_pending_to peerID m \<and> cutoff \<le> m_TimestampSent m) (st_messages s))) \<and>
         (\<forall>m \<in> set (st_messages s). is_expired cutoff m \<longrightarrow> m_MessageID m \<noteq> [] \<longrightarrow>
            GetMessageByID (m_MessageID m) (snd (PruneExpiredQueue cutoff s)) =
              Inr (m\<lparr>m_DeliveryStatus := ''failed''\<rparr>))"
proof
  have "filter (is_pending_to p) (tbl_update (is_expired c) (\<lambda>m. m\<lparr>m_DeliveryStatus := ''failed''\<rparr>) rs) =
      filter (\<lambda>m. is_pending_to p m \<and> c \<le> m_TimestampSent m) rs" for p c rs
    by (induction rs) (auto simp: tbl_update_def is_expired_def is_pending_to_def)
  then show "GetPendingMessages peerID (snd (PruneExpiredQueue cutoff s)) =
      Inr (sort_key m_TimestampSent
        (filter (\<lambda>m. is_pending_to peerID m \<and> cutoff \<le> m_TimestampSent m) (st_messages s)))"
    using assms by (simp add: GetPendingMessages_def PruneExpiredQueue_def)
  have "keys_distinct m_MessageID (st_messages s)"
    using assms(3) by (simp add: store_wf_def messages_wf_def)
  then show "\<forall>m \<in> set (st_messages s). is_expired cutoff m \<longrightarrow> m_MessageID m \<noteq> [] \<longrightarrow>
      GetMessageByID (m_MessageID m) (snd (PruneExpiredQueue cutoff s)) =
        Inr (m\<lparr>m_DeliveryStatus := ''failed''\<rparr>)"
    using assms(1) by (simp add: GetMessageByID_def PruneExpiredQueue_def tbl_find_update tbl_find_unique)
qed

theorem PruneExpiredQueue_pending_witness:
  "GetPendingMessages ''b'' (snd (PruneExpiredQueue 8 sample_store)) =
     Inr [sample_message ''2'' ''a'' ''b'' ''hello'' 9] \<and>
   GetMessageByID ''1'' (snd (PruneExpiredQueue 8 sample_store)) =
     Inr (sample_message ''1'' ''a'' ''b'' ''bye'' 7\<lparr>m_DeliveryStatus := ''failed''\<rparr>)"
proof -
  have "st_messages sample_store =
      [sample_message ''2'' ''a'' ''b'' ''hello'' 9, sample_message ''1'' ''a'' ''b'' ''bye'' 7]"
    by (simp add: sample_store_def)
  then show ?thesis
    using PruneExpiredQueue_pending [of 8 "''b''" sample_store, OF _ _ sample_store_wf]
    by (simp add: sample_message_def is_pending_to_def is_expired_def)
qed

text \<open>A stored message is read back with the defaults filled in, and saving it again is refused:
  the message identifier is the primary key, so a message is stored at most once.\<close>

theorem SaveMessage_GetMessageByID:
  assumes "SaveMessage now m s = (None, s')"
  shows "GetMessageByID (m_MessageID m) s' =
           Inr (m\<lparr>m_ContentType := (if m_ContentType m = [] then ''text'' else m_ContentType m),
                  m_DeliveryStatus := (if m_DeliveryStatus m = [] then ''pending'' else m_DeliveryStatus m),
                  m_TimestampSent := (if m_TimestampSent m = 0 then now else m_TimestampSent m)\<rparr>) \<and>
         (\<forall>i. i \<noteq> m_MessageID m \<longrightarrow> GetMessageByID i s' = GetMessageByID i s) \<and>
         fst (SaveMessage now' m s') \<noteq> None"
proof -
  define m3 where "m3 = m\<lparr>m_ContentType := (if m_ContentType m = [] then ''text'' else m_ContentType m),
                  m_DeliveryStatus := (if m_DeliveryStatus m = [] then ''pending'' else m_DeliveryStatus m),
                  m_TimestampSent := (if m_TimestampSent m = 0 then now else m_TimestampSent m)\<rparr>"
  from assms have ins: "insert_message m3 s = (None, s')" and id: "m_MessageID m \<noteq> []"
    by (auto simp: SaveMessage_def Let_def m3_def split: option.splits if_splits)
  have new: "m_MessageID m3 \<notin> m_MessageID ` set (st_messages s)"
    and s': "s' = s\<lparr>st_messages := st_messages s @ [m3]\<rparr>"
    using ins by (auto simp: insert_message_def message_ids_def split: if_splits)
  have "fst (SaveMessage now' m s') \<noteq> None"
    by (auto simp: SaveMessage_def insert_message_def Let_def s' message_ids_def m3_def split: option.split)
  moreover have "m_MessageID m3 = m_MessageID m" by (simp add: m3_def)
  ultimately show ?thesis
    using messages.find_insert [OF new] id
    by (simp add: s' GetMessageByID_def m3_def [symmetric])
qed

theorem SaveMessage_GetMessageByID_witness:
  "GetMessageByID ''1'' (snd (SaveMessage 5 (sample_message ''1'' ''a'' ''b'' ''hi'' 0) two_peers)) =
     Inr (sample_message ''1'' ''a'' ''b'' ''hi'' 5)"
proof -
  have "fst (SaveMessage 5 (sample_message ''1'' ''a'' ''b'' ''hi'' 0) two_peers) = None" by code_simp
  then obtain s' where s': "SaveMessage 5 (sample_message ''1'' ''a'' ''b'' ''hi'' 0) two_peers = (None, s')"
    by (metis prod.collapse)
  show ?thesis
    using SaveMessage_GetMessageByID [OF s'] s' by (simp add: sample_message_def)
qed

end
