(* ===== verification/StorePeers.thy ===== *)
theory StorePeers
  imports StoreMessages
begin

text \<open>
  \<open>src/storage/peers.go\<close> and \<open>src/storage/security_events.go\<close>: known peers with their pinned keys
  and endpoints, per-peer settings, the trail of key rotation decisions and the security events.

  Deleting a peer cascades to its settings and key rotation events, and is refused while a message
  refers to it: the foreign keys of \<open>messages\<close> have no \<open>ON DELETE\<close> action.
\<close>

section \<open>Peers\<close>

definition insert_peer :: "Peer \<Rightarrow> stmt" where
  "insert_peer p s =
     (if p_DeviceID p \<in> peer_ids s then
        (Some (Wrap ''insert peer'' (Err ''UNIQUE constraint failed: peers.device_id'')), s)
      else (None, s\<lparr>st_peers := st_peers s @ [p]\<rparr>))"

definition AddPeer :: "int \<Rightarrow> Peer \<Rightarrow> stmt" where
  "AddPeer now p s =
     (if p_DeviceID p = [] then (Some (Err ''device_id is required''), s)
      else if p_DeviceName p = [] then (Some (Err ''device_name is required''), s)
      else if p_Ed25519PublicKey p = [] then (Some (Err ''ed25519_public_key is required''), s)
      else if p_KeyFingerprint p = [] then (Some (Err ''key_fingerprint is required''), s)
      else
        let p1 = (if p_Status p = [] then p\<lparr>p_Status := ''pending''\<rparr> else p) in
        (case validatePeerStatus (p_Status p1) of
           Some e \<Rightarrow> (Some e, s)
         | None \<Rightarrow>
             let p2 = (if p_AddedTimestamp p1 = 0 then p1\<lparr>p_AddedTimestamp := now\<rparr> else p1) in
             insert_peer p2 s))"

definition GetPeer :: "string \<Rightarrow> Store \<Rightarrow> Peer res" where
  "GetPeer deviceID s =
     (case tbl_find p_DeviceID deviceID (st_peers s) of None \<Rightarrow> Inl ErrNotFound | Some p \<Rightarrow> Inr p)"

definition ListPeers :: "Store \<Rightarrow> Peer list" where
  "ListPeers s = sort_key p_DeviceName (sort_key p_DeviceID (st_peers s))"

text \<open>The \<open>UPDATE\<close> of one peer by \<open>device_id\<close>; no row is \<open>ErrNotFound\<close>.\<close>

definition update_peer :: "string \<Rightarrow> (Peer \<Rightarrow> Peer) \<Rightarrow> stmt" where
  "update_peer deviceID f s =
     (if rows_affected (\<lambda>p. p_DeviceID p = deviceID) (st_peers s) = 0 then (Some ErrNotFound, s)
      else (None, s\<lparr>st_peers := tbl_update (\<lambda>p. p_DeviceID p = deviceID) f (st_peers s)\<rparr>))"

definition last_seen_case :: "int \<Rightarrow> Peer \<Rightarrow> int option" where
  "last_seen_case lastSeen p = (if lastSeen > 0 then Some lastSeen else p_LastSeenTimestamp p)"

definition UpdatePeerStatus :: "string \<Rightarrow> string \<Rightarrow> int \<Rightarrow> stmt" where
  "UpdatePeerStatus deviceID status lastSeen s =
     (if deviceID = [] then (Some (Err ''device_id is required''), s)
      else case validatePeerStatus status of
             Some e \<Rightarrow> (Some e, s)
           | None \<Rightarrow> update_peer deviceID
               (\<lambda>p. p\<lparr>p_Status := status, p_LastSeenTimestamp := last_seen_case lastSeen p\<rparr>) s)"

definition RemovePeer :: "string \<Rightarrow> stmt" where
  "RemovePeer deviceID s =
     (if deviceID = [] then (Some (Err ''device_id is required''), s)
      else if rows_affected (\<lambda>p. p_DeviceID p = deviceID) (st_peers s) = 0 then (Some ErrNotFound, s)
      else if \<exists>m \<in> set (st_messages s). m_FromDeviceID m = deviceID \<or> m_ToDeviceID m = deviceID then
        (Some (Wrap ''remove peer'' (Err ''FOREIGN KEY constraint failed'')), s)
      else (None, s\<lparr>st_peers := tbl_delete (\<lambda>p. p_DeviceID p = deviceID) (st_peers s),
                    st_settings := tbl_delete (\<lambda>g. g_PeerDeviceID g = deviceID) (st_settings s),
                    st_rotations := tbl_delete (\<lambda>k. k_PeerDeviceID k = deviceID) (st_rotations s)\<rparr>))"

definition UpdatePeerEndpoint :: "string \<Rightarrow> string \<Rightarrow> int \<Rightarrow> int \<Rightarrow> stmt" where
  "UpdatePeerEndpoint deviceID ip port lastSeen s =
     (if deviceID = [] then (Some (Err ''device_id is required''), s)
      else if TrimSpace ip = [] then (Some (Err ''ip is required''), s)
      else if port \<le> 0 then (Some (Err ''port must be > 0''), s)
      else update_peer deviceID
             (\<lambda>p. p\<lparr>p_LastKnownIP := Some ip, p_LastKnownPort := Some port,
                    p_LastSeenTimestamp := last_seen_case lastSeen p\<rparr>) s)"

definition UpdatePeerDeviceName :: "string \<Rightarrow> string \<Rightarrow> stmt" where
  "UpdatePeerDeviceName deviceID deviceName s =
     (if deviceID = [] then (Some (Err ''device_id is required''), s)
      else if TrimSpace deviceName = [] then (Some (Err ''device_name is required''), s)
      else update_peer deviceID (\<lambda>p. p\<lparr>p_DeviceName := deviceName\<rparr>) s)"

definition clear_verified :: "string \<Rightarrow> Store \<Rightarrow> Store" where
  "clear_verified deviceID s =
     s\<lparr>st_settings := tbl_update (\<lambda>g. g_PeerDeviceID g = deviceID) (\<lambda>g. g\<lparr>g_Verified := False\<rparr>)
        (st_settings s)\<rparr>"

definition UpdatePeerIdentity :: "string \<Rightarrow> string \<Rightarrow> string \<Rightarrow> stmt" where
  "UpdatePeerIdentity deviceID publicKey fingerprint s =
     (if deviceID = [] then (Some (Err ''device_id is required''), s)
      else if publicKey = [] then (Some (Err ''ed25519_public_key is required''), s)
      else if fingerprint = [] then (Some (Err ''key_fingerprint is required''), s)
      else case update_peer deviceID
             (\<lambda>p. p\<lparr>p_Ed25519PublicKey := publicKey, p_KeyFingerprint := fingerprint\<rparr>) s of
             (Some e, s') \<Rightarrow> (Some e, s')
           | (None, s') \<Rightarrow> (None, clear_verified deviceID s'))"

section \<open>Peer settings\<close>

definition default_settings :: "string \<Rightarrow> PeerSettings" where
  "default_settings peerDeviceID =
     \<lparr>g_PeerDeviceID = peerDeviceID, g_AutoAcceptFiles = False, g_MaxFileSize = 0,
      g_DownloadDirectory = [], g_CustomName = [], g_TrustLevel = ''normal'',
      g_NotificationsMuted = False, g_Verified = False\<rparr>"

definition EnsurePeerSettingsExist :: "string \<Rightarrow> stmt" where
  "EnsurePeerSettingsExist peerDeviceID s =
     (if peerDeviceID = [] then (Some (Err ''peer_device_id is required''), s)
      else if peerDeviceID \<in> g_PeerDeviceID ` set (st_settings s) then (None, s)
      else if peerDeviceID \<notin> peer_ids s then
        (Some (Wrap ''ensure peer settings'' (Err ''FOREIGN KEY constraint failed'')), s)
      else (None, s\<lparr>st_settings := st_settings s @ [default_settings peerDeviceID]\<rparr>))"

definition GetPeerSettings :: "string \<Rightarrow> Store \<Rightarrow> PeerSettings res" where
  "GetPeerSettings peerDeviceID s =
     (if peerDeviceID = [] then Inl (Err ''peer_device_id is required'')
      else case tbl_find g_PeerDeviceID peerDeviceID (st_settings s) of
             None \<Rightarrow> Inl ErrNotFound
           | Some g \<Rightarrow> Inr g)"

definition update_settings :: "string \<Rightarrow> (PeerSettings \<Rightarrow> PeerSettings) \<Rightarrow> stmt" where
  "update_settings peerDeviceID f s =
     (if rows_affected (\<lambda>g. g_PeerDeviceID g = peerDeviceID) (st_settings s) = 0
      then (Some ErrNotFound, s)
      else (None, s\<lparr>st_settings :=
             tbl_update (\<lambda>g. g_PeerDeviceID g = peerDeviceID) f (st_settings s)\<rparr>))"

definition UpdatePeerSettings :: "PeerSettings \<Rightarrow> stmt" where
  "UpdatePeerSettings g s =
     (if g_PeerDeviceID g = [] then (Some (Err ''peer_device_id is required''), s)
      else if g_MaxFileSize g < 0 then (Some (Err ''max_file_size must be >= 0''), s)
      else
        let g1 = (if g_TrustLevel g = [] then g\<lparr>g_TrustLevel := ''normal''\<rparr> else g) in
        (case validatePeerTrustLevel (g_TrustLevel g1) of
           Some e \<Rightarrow> (Some e, s)
         | None \<Rightarrow>
             (case EnsurePeerSettingsExist (g_PeerDeviceID g1) s of
                (Some e, s1) \<Rightarrow> (Some e, s1)
              | (None, s1) \<Rightarrow> update_settings (g_PeerDeviceID g1) (\<lambda>_. g1) s1)))"

definition ResetPeerVerified :: "string \<Rightarrow> stmt" where
  "ResetPeerVerified peerDeviceID s =
     (if peerDeviceID = [] then (Some (Err ''peer_device_id is required''), s)
      else case EnsurePeerSettingsExist peerDeviceID s of
             (Some e, s1) \<Rightarrow> (Some e, s1)
           | (None, s1) \<Rightarrow> update_settings peerDeviceID (\<lambda>g. g\<lparr>g_Verified := False\<rparr>) s1)"

section \<open>Key rotation events\<close>

definition RecordKeyRotationEvent :: "int \<Rightarrow> KeyRotationEvent \<Rightarrow> stmt" where
  "RecordKeyRotationEvent now ev s =
     (if k_PeerDeviceID ev = [] then (Some (Err ''peer_device_id is required''), s)
      else if k_OldKeyFingerprint ev = [] then (Some (Err ''old_key_fingerprint is required''), s)
      else if k_NewKeyFingerprint ev = [] then (Some (Err ''new_key_fingerprint is required''), s)
      else case validateKeyRotationDecision (k_Decision ev) of
             Some e \<Rightarrow> (Some e, s)
           | None \<Rightarrow>
               let ev1 = (if k_Timestamp ev = 0 then ev\<lparr>k_Timestamp := now\<rparr> else ev);
                   i = st_rotation_seq s + 1
               in if k_PeerDeviceID ev1 \<notin> peer_ids s then
                    (Some (Wrap ''insert key rotation event'' (Err ''FOREIGN KEY constraint failed'')), s)
                  else (None, s\<lparr>st_rotations := st_rotations s @ [ev1\<lparr>k_ID := i\<rparr>],
                                st_rotation_seq := i\<rparr>))"

definition GetRecentKeyRotationEvents :: "string \<Rightarrow> int \<Rightarrow> Store \<Rightarrow> KeyRotationEvent list res" where
  "GetRecentKeyRotationEvents peerDeviceID limit s =
     (if peerDeviceID = [] then Inl (Err ''peer_device_id is required'')
      else Inr (limit_offset 20 limit 0
                 (sort_key (\<lambda>k. - k_Timestamp k) (sort_key (\<lambda>k. - k_ID k)
                   (filter (\<lambda>k. k_PeerDeviceID k = peerDeviceID) (st_rotations s))))))"

section \<open>Security events\<close>

definition SetSecurityEventRetention :: "int \<Rightarrow> Store \<Rightarrow> Store" where
  "SetSecurityEventRetention retention s =
     s\<lparr>securityEventRetention :=
        (if retention \<le> 0 then DefaultSecurityEventRetention else retention)\<rparr>"

definition PruneSecurityEvents :: "int \<Rightarrow> Store \<Rightarrow> nat res \<times> Store" where
  "PruneSecurityEvents cutoff s =
     (if cutoff \<le> 0 then (Inl (Err ''cutoff timestamp must be > 0''), s)
      else (Inr (rows_affected (\<lambda>e. e_Timestamp e < cutoff) (st_events s)),
            s\<lparr>st_events := tbl_delete (\<lambda>e. e_Timestamp e < cutoff) (st_events s)\<rparr>))"

text \<open>
  \<open>json_valid\<close> is \<open>json.Valid\<close>. The row is inserted before the pruning runs, so an error of the
  pruning leaves it in place.
\<close>

definition log_insert :: "int \<Rightarrow> SecurityEvent \<Rightarrow> stmt" where
  "log_insert now e s =
     (let s1 = s\<lparr>st_events := st_events s @ [e], st_event_seq := e_ID e\<rparr>
      in if securityEventRetention s1 > 0 then
           (case PruneSecurityEvents (now - securityEventRetention s1) s1 of
              (Inl er, s2) \<Rightarrow> (Some (Wrap ''prune security events'' er), s2)
            | (Inr _, s2) \<Rightarrow> (None, s2))
         else (None, s1))"

definition event_row :: "int \<Rightarrow> SecurityEvent \<Rightarrow> int \<Rightarrow> SecurityEvent" where
  "event_row now ev i =
     (let ev1 = (if e_Timestamp ev = 0 then ev\<lparr>e_Timestamp := now\<rparr> else ev);
          pid = (case e_PeerDeviceID ev1 of
                   None \<Rightarrow> None
                 | Some d \<Rightarrow> (let t = TrimSpace d in if t = [] then None else Some t))
      in ev1\<lparr>e_ID := i, e_PeerDeviceID := pid\<rparr>)"

definition LogSecurityEvent :: "(string \<Rightarrow> bool) \<Rightarrow> int \<Rightarrow> SecurityEvent \<Rightarrow> stmt" where
  "LogSecurityEvent json_valid now ev s =
     (if TrimSpace (e_EventType ev) = [] then (Some (Err ''event_type is required''), s)
      else
        let ev1 = (if e_Severity ev = [] then ev\<lparr>e_Severity := ''info''\<rparr> else ev) in
        (case validateSecuritySeverity (e_Severity ev1) of
           Some e \<Rightarrow> (Some e, s)
         | None \<Rightarrow>
             let ev2 = (if e_Details ev1 = [] then ev1\<lparr>e_Details := ''{}''\<rparr> else ev1) in
             if \<not> json_valid (e_Details ev2) then (Some (Err ''details must be valid JSON text''), s)
             else log_insert now (event_row now ev2 (st_event_seq s + 1)) s))"

definition event_matches :: "SecurityEventFilter \<Rightarrow> SecurityEvent \<Rightarrow> bool" where
  "event_matches q e \<longleftrightarrow>
     (q_EventType q \<noteq> [] \<longrightarrow> e_EventType e = q_EventType q) \<and>
     (q_PeerDeviceID q \<noteq> [] \<longrightarrow> e_PeerDeviceID e = Some (q_PeerDeviceID q)) \<and>
     (q_Severity q \<noteq> [] \<longrightarrow> e_Severity e = q_Severity q) \<and>
     (case q_FromTimestamp q of None \<Rightarrow> True | Some t \<Rightarrow> t \<le> e_Timestamp e) \<and>
     (case q_ToTimestamp q of None \<Rightarrow> True | Some t \<Rightarrow> e_Timestamp e \<le> t)"

definition GetSecurityEvents :: "SecurityEventFilter \<Rightarrow> Store \<Rightarrow> SecurityEvent list res" where
  "GetSecurityEvents q s =
     (case (if q_Severity q \<noteq> [] then validateSecuritySeverity (q_Severity q) else None) of
        Some e \<Rightarrow> Inl e
      | None \<Rightarrow>
          let l = (if q_Limit q \<le> 0 then 100 else q_Limit q); l' = (if l > 1000 then 1000 else l)
          in Inr (limit_offset 100 l' (q_Offset q)
                   (sort_key (\<lambda>e. - e_Timestamp e) (sort_key (\<lambda>e. - e_ID e)
                     (filter (event_matches q) (st_events s))))))"

lemmas peer_stmt_defs [store_defs] =
  AddPeer_def insert_peer_def update_peer_def UpdatePeerStatus_def RemovePeer_def
  UpdatePeerEndpoint_def UpdatePeerDeviceName_def clear_verified_def UpdatePeerIdentity_def
  EnsurePeerSettingsExist_def update_settings_def UpdatePeerSettings_def ResetPeerVerified_def
  RecordKeyRotationEvent_def PruneSecurityEvents_def LogSecurityEvent_def

section \<open>The invariant\<close>

text \<open>An update of peer rows that keeps identifiers and well-formed statuses keeps the invariant.\<close>

lemma store_wf_update_peers:
  assumes wf: "store_wf s"
    and id: "\<And>p. p_DeviceID (f p) = p_DeviceID p"
    and st: "\<And>p. validatePeerStatus (p_Status p) = None \<Longrightarrow> validatePeerStatus (p_Status (f p)) = None"
  shows "store_wf (s\<lparr>st_peers := tbl_update P f (st_peers s)\<rparr>)"
proof -
  have ids: "peer_ids (s\<lparr>st_peers := tbl_update P f (st_peers s)\<rparr>) = peer_ids s"
    using id by (simp add: peer_ids_def image_key_tbl_update)
  have "peers_wf (s\<lparr>st_peers := tbl_update P f (st_peers s)\<rparr>)"
    using wf id st by (auto simp: store_wf_def peers_wf_def keys_distinct_update tbl_simps)
  with wf ids show ?thesis
    by (simp add: store_wf_def messages_wf_def files_wf_def settings_wf_def rotations_wf_def
        events_wf_def transfers_wf_def seen_wf_def message_ids_def)
qed

lemma update_peer_wf:
  assumes "store_wf s" and "\<And>p. p_DeviceID (f p) = p_DeviceID p"
    and "\<And>p. validatePeerStatus (p_Status p) = None \<Longrightarrow> validatePeerStatus (p_Status (f p)) = None"
  shows "store_wf (snd (update_peer deviceID f s))"
  using assms by (simp add: update_peer_def store_wf_update_peers)

lemma store_wf_put_settings:
  "store_wf s \<Longrightarrow> settings_wf (s\<lparr>st_settings := rs\<rparr>) \<Longrightarrow> store_wf (s\<lparr>st_settings := rs\<rparr>)"
  by (simp add: store_wf_def wf_parts)

lemma store_wf_update_settings:
  assumes "store_wf s" and "\<And>g. P g \<Longrightarrow> g_PeerDeviceID (f g) = g_PeerDeviceID g"
    and "\<And>g. validatePeerTrustLevel (g_TrustLevel g) = None \<Longrightarrow>
             validatePeerTrustLevel (g_TrustLevel (f g)) = None"
  shows "store_wf (s\<lparr>st_settings := tbl_update P f (st_settings s)\<rparr>)"
  using assms
  by (intro store_wf_put_settings)
     (auto simp: store_wf_def settings_wf_def keys_distinct_update peer_ids_def tbl_simps)

lemma update_settings_wf:
  assumes "store_wf s" and "\<And>g. g_PeerDeviceID g = d \<Longrightarrow> g_PeerDeviceID (f g) = d"
    and "\<And>g. validatePeerTrustLevel (g_TrustLevel g) = None \<Longrightarrow>
             validatePeerTrustLevel (g_TrustLevel (f g)) = None"
  shows "store_wf (snd (update_settings d f s))"
  using assms by (simp add: update_settings_def store_wf_update_settings)

lemma AddPeer_wf: "store_wf s \<Longrightarrow> store_wf (snd (AddPeer now p s))"
proof -
  assume wf: "store_wf s"
  have ins: "store_wf (snd (insert_peer p s))" if "validatePeerStatus (p_Status p) = None" for p
    using wf that
    by (auto simp: insert_peer_def store_wf_def wf_parts keys_distinct_snoc)
  show ?thesis
    using wf by (auto simp: AddPeer_def Let_def validate_defs intro!: ins split: option.splits if_splits)
qed

lemma UpdatePeerStatus_wf: "store_wf s \<Longrightarrow> store_wf (snd (UpdatePeerStatus d st ls s))"
  by (auto simp: UpdatePeerStatus_def intro!: update_peer_wf split: option.split)

lemma UpdatePeerEndpoint_wf: "store_wf s \<Longrightarrow> store_wf (snd (UpdatePeerEndpoint d ip port ls s))"
  by (auto simp: UpdatePeerEndpoint_def intro!: update_peer_wf)

lemma UpdatePeerDeviceName_wf: "store_wf s \<Longrightarrow> store_wf (snd (UpdatePeerDeviceName d n s))"
  by (auto simp: UpdatePeerDeviceName_def intro!: update_peer_wf)

lemma clear_verified_wf: "store_wf s \<Longrightarrow> store_wf (clear_verified d s)"
  by (auto simp: clear_verified_def intro!: store_wf_update_settings)

lemma UpdatePeerIdentity_wf: "store_wf s \<Longrightarrow> store_wf (snd (UpdatePeerIdentity d k f s))"
proof -
  assume wf: "store_wf s"
  then have "store_wf (snd (update_peer d (\<lambda>p. p\<lparr>p_Ed25519PublicKey := k, p_KeyFingerprint := f\<rparr>) s))"
    by (auto intro!: update_peer_wf)
  with wf show ?thesis
    by (auto simp: UpdatePeerIdentity_def clear_verified_wf split: prod.splits option.splits)
qed

lemma RemovePeer_wf: "store_wf s \<Longrightarrow> store_wf (snd (RemovePeer d s))"
proof -
  assume wf: "store_wf s"
  show ?thesis
  proof (cases "\<exists>m \<in> set (st_messages s). m_FromDeviceID m = d \<or> m_ToDeviceID m = d")
    case True
    with wf show ?thesis by (auto simp: RemovePeer_def)
  next
    case False
    define s' where "s' = s\<lparr>st_peers := tbl_delete (\<lambda>p. p_DeviceID p = d) (st_peers s),
      st_settings := tbl_delete (\<lambda>g. g_PeerDeviceID g = d) (st_settings s),
      st_rotations := tbl_delete (\<lambda>k. k_PeerDeviceID k = d) (st_rotations s)\<rparr>"
    have ids: "peer_ids s' = peer_ids s - {d}"
      by (simp add: s'_def peer_ids_def image_key_tbl_delete)
    have "peers_wf s'" "settings_wf s'" "rotations_wf s'"
      using wf ids by (auto simp: store_wf_def peers_wf_def settings_wf_def rotations_wf_def s'_def
          keys_distinct_delete tbl_simps)
    moreover have "messages_wf s'"
      using wf False ids by (auto simp: store_wf_def messages_wf_def s'_def)
    ultimately have "store_wf s'"
      using wf by (simp add: store_wf_def files_wf_def events_wf_def transfers_wf_def seen_wf_def
          message_ids_def s'_def)
    with wf False show ?thesis by (auto simp: RemovePeer_def s'_def)
  qed
qed

lemma EnsurePeerSettingsExist_wf: "store_wf s \<Longrightarrow> store_wf (snd (EnsurePeerSettingsExist d s))"
  by (auto simp: EnsurePeerSettingsExist_def store_wf_def wf_parts keys_distinct_snoc
      default_settings_def validatePeerTrustLevel_def)

lemma UpdatePeerSettings_wf: "store_wf s \<Longrightarrow> store_wf (snd (UpdatePeerSettings g s))"
  using EnsurePeerSettingsExist_wf [of s "g_PeerDeviceID g"]
  by (auto simp: UpdatePeerSettings_def Let_def intro!: update_settings_wf
      split: option.splits prod.splits if_splits)

lemma ResetPeerVerified_wf: "store_wf s \<Longrightarrow> store_wf (snd (ResetPeerVerified d s))"
  using EnsurePeerSettingsExist_wf [of s d]
  by (auto simp: ResetPeerVerified_def intro!: update_settings_wf split: option.splits prod.splits)

lemma RecordKeyRotationEvent_wf: "store_wf s \<Longrightarrow> store_wf (snd (RecordKeyRotationEvent now ev s))"
  by (auto simp: RecordKeyRotationEvent_def Let_def store_wf_def wf_parts keys_distinct_snoc
      split: option.splits)

lemma PruneSecurityEvents_wf: "store_wf s \<Longrightarrow> store_wf (snd (PruneSecurityEvents cutoff s))"
  by (auto simp: PruneSecurityEvents_def store_wf_def wf_parts keys_distinct_delete tbl_simps)

lemma store_wf_insert_event:
  "store_wf s \<Longrightarrow> validateSecuritySeverity (e_Severity ev) = None \<Longrightarrow> e_ID ev = st_event_seq s + 1 \<Longrightarrow>
   store_wf (s\<lparr>st_events := st_events s @ [ev], st_event_seq := st_event_seq s + 1\<rparr>)"
  by (fastforce simp: store_wf_def wf_parts keys_distinct_snoc)

lemma log_insert_wf:
  assumes "store_wf s" and "validateSecuritySeverity (e_Severity e) = None" and "e_ID e = st_event_seq s + 1"
  shows "store_wf (snd (log_insert now e s))"
proof -
  have pruned: "store_wf (snd (case PruneSecurityEvents c s1 of
      (Inl e, s2) \<Rightarrow> (Some (g e), s2) | (Inr _, s2) \<Rightarrow> (None, s2)))" if "store_wf s1" for c g s1
    using PruneSecurityEvents_wf [OF that, of c]
    by (cases "PruneSecurityEvents c s1") (simp split: sum.split)
  show ?thesis
    using assms by (simp add: log_insert_def Let_def store_wf_insert_event pruned)
qed

lemma event_row_simps [simp]:
  "e_ID (event_row now ev i) = i" "e_Severity (event_row now ev i) = e_Severity ev"
  by (simp_all add: event_row_def Let_def)

lemma LogSecurityEvent_wf: "store_wf s \<Longrightarrow> store_wf (snd (LogSecurityEvent jv now ev s))"
  by (simp add: LogSecurityEvent_def Let_def log_insert_wf split: option.split)

lemma LogSecurityEvent_inserts:
  assumes "LogSecurityEvent jv now ev s = (None, s')"
  shows "\<exists>e. e_ID e = st_event_seq s + 1 \<and> log_insert now e s = (None, s')"
proof -
  from assms have "\<exists>ev2. log_insert now (event_row now ev2 (st_event_seq s + 1)) s = (None, s')"
    unfolding LogSecurityEvent_def Let_def
    by (simp del: event_row_simps split: if_split_asm option.split_asm; blast)
  then show ?thesis by (metis event_row_simps(1))
qed

section \<open>Properties\<close>

text \<open>C20: A peer can be removed exactly when it is known and no stored message was sent to or received
  from it; the removal takes its row, its settings and its key rotation events and nothing else of
  the peers, and a refused removal changes nothing.\<close>

theorem RemovePeer_outcome:
  "(fst (RemovePeer d s) = None \<longleftrightarrow>
      d \<noteq> [] \<and> d \<in> peer_ids s \<and> \<not> (\<exists>m \<in> set (st_messages s). conversation_of d m)) \<and>
   (case RemovePeer d s of
      (Some e, s') \<Rightarrow> s' = s
    | (None, s') \<Rightarrow>
        GetPeer d s' = Inl ErrNotFound \<and> GetPeerSettings d s' = Inl ErrNotFound \<and>
        GetRecentKeyRotationEvents d 0 s' = Inr [] \<and> peer_ids s' = peer_ids s - {d})"
proof
  have some: "d \<in> peer_ids s \<longleftrightarrow> rows_affected (\<lambda>p. p_DeviceID p = d) (st_peers s) \<noteq> 0"
    by (auto simp: rows_affected_0 peer_ids_def)
  show fst_iff: "fst (RemovePeer d s) = None \<longleftrightarrow>
           d \<noteq> [] \<and> d \<in> peer_ids s \<and> \<not> (\<exists>m \<in> set (st_messages s). conversation_of d m)"
    by (auto simp: RemovePeer_def some conversation_of_def)
  define s1 where "s1 = s\<lparr>st_peers := tbl_delete (\<lambda>p. p_DeviceID p = d) (st_peers s),
                    st_settings := tbl_delete (\<lambda>g. g_PeerDeviceID g = d) (st_settings s),
                    st_rotations := tbl_delete (\<lambda>k. k_PeerDeviceID k = d) (st_rotations s)\<rparr>"
  have "tbl_find p_DeviceID d (st_peers s1) = None" "tbl_find g_PeerDeviceID d (st_settings s1) = None"
    "filter (\<lambda>k. k_PeerDeviceID k = d) (st_rotations s1) = []"
    by (auto simp: tbl_find_None_iff filter_empty_conv tbl_simps s1_def)
  moreover have "peer_ids s1 = peer_ids s - {d}"
    by (simp add: peer_ids_def s1_def image_key_tbl_delete)
  ultimately have s1: "GetPeer d s1 = Inl ErrNotFound \<and> (d \<noteq> [] \<longrightarrow> GetPeerSettings d s1 = Inl ErrNotFound \<and>
        GetRecentKeyRotationEvents d 0 s1 = Inr []) \<and> peer_ids s1 = peer_ids s - {d}"
    by (simp add: GetPeer_def GetPeerSettings_def GetRecentKeyRotationEvents_def limit_offset_def)
  have "RemovePeer d s = (None, s1) \<and> d \<noteq> [] \<or> (\<exists>e. RemovePeer d s = (Some e, s))"
    by (simp add: RemovePeer_def s1_def [symmetric])
  with s1 show "case RemovePeer d s of
      (Some e, s') \<Rightarrow> s' = s
    | (None, s') \<Rightarrow>
        GetPeer d s' = Inl ErrNotFound \<and> GetPeerSettings d s' = Inl ErrNotFound \<and>
        GetRecentKeyRotationEvents d 0 s' = Inr [] \<and> peer_ids s' = peer_ids s - {d}"
    by (elim disjE exE conjE) simp_all
qed

text \<open>Pinning a new key for a peer replaces its key and fingerprint, keeps the rest of its row and the
  other peers, and withdraws the mark that its identity was verified out of band.\<close>

theorem UpdatePeerIdentity_unverifies:
  assumes "UpdatePeerIdentity d key fp s = (None, s')"
  shows "GetPeer d s' = map_sum id (\<lambda>p. p\<lparr>p_Ed25519PublicKey := key, p_KeyFingerprint := fp\<rparr>) (GetPeer d s) \<and>
         (\<forall>d'. d' \<noteq> d \<longrightarrow> GetPeer d' s' = GetPeer d' s \<and> GetPeerSettings d' s' = GetPeerSettings d' s) \<and>
         GetPeerSettings d s' = map_sum id (\<lambda>g. g\<lparr>g_Verified := False\<rparr>) (GetPeerSettings d s)"
proof -
  have s': "st_peers s' = tbl_update (\<lambda>p. p_DeviceID p = d)
              (\<lambda>p. p\<lparr>p_Ed25519PublicKey := key, p_KeyFingerprint := fp\<rparr>) (st_peers s)"
    "st_settings s' = tbl_update (\<lambda>g. g_PeerDeviceID g = d) (\<lambda>g. g\<lparr>g_Verified := False\<rparr>) (st_settings s)"
    using assms by (auto simp: UpdatePeerIdentity_def update_peer_def clear_verified_def split: if_splits)
  show ?thesis
    by (simp add: GetPeer_def GetPeerSettings_def s' tbl_find_update_key split: option.split)
qed

theorem UpdatePeerIdentity_unverifies_witness:
  "\<exists>s' p. UpdatePeerIdentity ''a'' ''k2'' ''f2'' two_peers = (None, s') \<and>
          GetPeer ''a'' s' = Inr p \<and> p_Ed25519PublicKey p = ''k2'' \<and> p_DeviceName p = ''n''"
proof -
  have "fst (UpdatePeerIdentity ''a'' ''k2'' ''f2'' two_peers) = None" by code_simp
  then obtain s' where s': "UpdatePeerIdentity ''a'' ''k2'' ''f2'' two_peers = (None, s')"
    by (metis prod.collapse)
  show ?thesis
    using UpdatePeerIdentity_unverifies [OF s'] s'
    by (simp add: GetPeer_def two_peers_def tbl_simps)
qed

text \<open>A logged security event gets a fresh identifier, and with a positive retention no event older
  than the retention period is left in the log afterwards.\<close>

theorem LogSecurityEvent_prunes:
  assumes "LogSecurityEvent json_valid now ev s = (None, s')" and "store_wf s"
    and "0 < securityEventRetention s"
  shows "st_event_seq s' = st_event_seq s + 1 \<and>
         (\<forall>e \<in> set (st_events s'). now - securityEventRetention s \<le> e_Timestamp e) \<and>
         (\<forall>e \<in> set (st_events s'). e \<in> set (st_events s) \<or> e_ID e = st_event_seq s' \<and>
            e_ID e \<notin> e_ID ` set (st_events s))"
proof -
  have fresh: "\<forall>x \<in> set (st_events s). e_ID x \<noteq> st_event_seq s + 1"
    using assms(2) by (force simp: store_wf_def events_wf_def)
  obtain e where e: "e_ID e = st_event_seq s + 1" and run: "log_insert now e s = (None, s')"
    using LogSecurityEvent_inserts [OF assms(1)] by blast
  then have s': "s' = s\<lparr>st_events := tbl_delete (\<lambda>x. e_Timestamp x < now - securityEventRetention s) (st_events s @ [e]),
                   st_event_seq := st_event_seq s + 1\<rparr>"
    using assms(3) by (auto simp: log_insert_def PruneSecurityEvents_def Let_def split: if_split_asm)
  have "set (st_events s') \<subseteq> insert e (set (st_events s))"
    "\<forall>x \<in> set (st_events s'). now - securityEventRetention s \<le> e_Timestamp x"
    by (auto simp: s' tbl_simps)
  moreover have "st_event_seq s' = st_event_seq s + 1" by (simp add: s')
  ultimately show ?thesis using fresh e by (auto simp: image_iff) (metis+)?
qed

definition sample_event :: SecurityEvent where
  "sample_event = \<lparr>e_ID = 0, e_EventType = ''key_changed'', e_PeerDeviceID = Some ''a'', e_Details = ''{}'',
     e_Severity = ''warning'', e_Timestamp = 0\<rparr>"

theorem LogSecurityEvent_prunes_witness:
  "st_event_seq (snd (LogSecurityEvent (\<lambda>s. s = ''{}'') 99999999999 sample_event two_peers)) = 1"
proof -
  have "fst (LogSecurityEvent (\<lambda>s. s = ''{}'') 99999999999 sample_event two_peers) = None"
    and wf: "store_wf two_peers" and ret: "0 < securityEventRetention two_peers" by code_simp+
  then obtain s' where s': "LogSecurityEvent (\<lambda>s. s = ''{}'') 99999999999 sample_event two_peers = (None, s')"
    by (metis prod.collapse)
  show ?thesis
    using LogSecurityEvent_prunes [OF s' wf ret] s' by (simp add: two_peers_def empty_store_def)
qed

end
