(* ===== verification/StoreFiles.thy ===== *)
theory StoreFiles
  imports StorePeers
begin

text \<open>
  \<open>src/storage/files.go\<close>: file metadata, folder envelopes and the checkpoints from which transfers
  resume; then the whole store as a transition system over the statements of all four files.

  An empty optional column is stored as \<open>NULL\<close> and read back as the empty string, so the model keeps
  the empty string. \<open>store_step\<close> has one rule per statement that writes; \<open>store_reachable\<close> is what any
  sequence of them makes of a new database.
\<close>

section \<open>Files\<close>

definition insert_file :: "FileMetadata \<Rightarrow> stmt" where
  "insert_file f s =
     (if f_FileID f \<in> f_FileID ` set (st_files s) then
        (Some (Wrap ''insert file metadata'' (Err ''UNIQUE constraint failed: files.file_id'')), s)
      else if f_MessageID f \<noteq> [] \<and> f_MessageID f \<notin> message_ids s then
        (Some (Wrap ''insert file metadata'' (Err ''FOREIGN KEY constraint failed'')), s)
      else (None, s\<lparr>st_files := st_files s @ [f]\<rparr>))"

definition SaveFileMetadata :: "FileMetadata \<Rightarrow> stmt" where
  "SaveFileMetadata f s =
     (if f_FileID f = [] then (Some (Err ''file_id is required''), s)
      else if f_Filename f = [] then (Some (Err ''filename is required''), s)
      else if f_StoredPath f = [] then (Some (Err ''stored_path is required''), s)
      else if f_Checksum f = [] then (Some (Err ''checksum is required''), s)
      else
        let f1 = (if f_TransferStatus f = [] then f\<lparr>f_TransferStatus := ''pending''\<rparr> else f) in
        (case validateTransferStatus (f_TransferStatus f1) of
           Some e \<Rightarrow> (Some e, s)
         | None \<Rightarrow> insert_file f1 s))"

text \<open>The \<open>UPDATE\<close> of one file by \<open>file_id\<close>; no row is \<open>ErrNotFound\<close>.\<close>

definition update_file :: "string \<Rightarrow> (FileMetadata \<Rightarrow> FileMetadata) \<Rightarrow> stmt" where
  "update_file fileID u s =
     (if rows_affected (\<lambda>f. f_FileID f = fileID) (st_files s) = 0 then (Some ErrNotFound, s)
      else (None, s\<lparr>st_files := tbl_update (\<lambda>f. f_FileID f = fileID) u (st_files s)\<rparr>))"

definition UpdateTransferStatus :: "string \<Rightarrow> string \<Rightarrow> stmt" where
  "UpdateTransferStatus fileID status s =
     (if fileID = [] then (Some (Err ''file_id is required''), s)
      else case validateTransferStatus status of
             Some e \<Rightarrow> (Some e, s)
           | None \<Rightarrow> update_file fileID (\<lambda>f. f\<lparr>f_TransferStatus := status\<rparr>) s)"

definition GetFileByID :: "string \<Rightarrow> Store \<Rightarrow> FileMetadata res" where
  "GetFileByID fileID s =
     (case tbl_find f_FileID fileID (st_files s) of None \<Rightarrow> Inl ErrNotFound | Some f \<Rightarrow> Inr f)"

definition file_of_peer :: "string \<Rightarrow> FileMetadata \<Rightarrow> bool" where
  "file_of_peer peerID f \<longleftrightarrow> f_FromDeviceID f = peerID \<or> f_ToDeviceID f = peerID"

definition received_or_zero :: "FileMetadata \<Rightarrow> int" where
  "received_or_zero f = (case f_TimestampReceived f of None \<Rightarrow> 0 | Some t \<Rightarrow> t)"

definition ListFilesForPeer :: "string \<Rightarrow> int \<Rightarrow> int \<Rightarrow> Store \<Rightarrow> FileMetadata list res" where
  "ListFilesForPeer peerID limit offset s =
     (if peerID = [] then Inl (Err ''peer_id is required'')
      else Inr (limit_offset 500 limit offset
                 (sort_key received_or_zero (filter (file_of_peer peerID) (st_files s)))))"

definition SearchFilesForPeer :: "string \<Rightarrow> string \<Rightarrow> int \<Rightarrow> int \<Rightarrow> Store \<Rightarrow> FileMetadata list res" where
  "SearchFilesForPeer peerID query limit offset s =
     (if peerID = [] then Inl (Err ''peer_id is required'')
      else if query = [] then Inl (Err ''query is required'')
      else
        let pattern = ''%'' @ query @ ''%'' in
        Inr (limit_offset 500 limit offset
              (sort_key received_or_zero
                (filter (\<lambda>f. file_of_peer peerID f \<and>
                             (like_match pattern (f_Filename f) \<or> like_match pattern (f_RelativePath f)))
                  (st_files s)))))"

definition UpdateFileTimestampReceived :: "int \<Rightarrow> string \<Rightarrow> int \<Rightarrow> stmt" where
  "UpdateFileTimestampReceived now fileID ts s =
     (if fileID = [] then (Some (Err ''file_id is required''), s)
      else update_file fileID (\<lambda>f. f\<lparr>f_TimestampReceived := Some (if ts \<le> 0 then now else ts)\<rparr>) s)"

definition completed_before :: "int \<Rightarrow> FileMetadata \<Rightarrow> bool" where
  "completed_before cutoff f \<longleftrightarrow> f_TransferStatus f = ''complete'' \<and>
     (case f_TimestampReceived f of None \<Rightarrow> False | Some t \<Rightarrow> t < cutoff)"

definition ListCompletedFilesOlderThan :: "int \<Rightarrow> Store \<Rightarrow> FileMetadata list res" where
  "ListCompletedFilesOlderThan cutoff s =
     (if cutoff \<le> 0 then Inl (Err ''cutoff timestamp must be > 0'')
      else Inr (sort_key received_or_zero (sort_key f_FileID
                 (filter (completed_before cutoff) (st_files s)))))"

definition DeleteFileMetadata :: "string \<Rightarrow> stmt" where
  "DeleteFileMetadata fileID s =
     (if fileID = [] then (Some (Err ''file_id is required''), s)
      else if rows_affected (\<lambda>f. f_FileID f = fileID) (st_files s) = 0 then (Some ErrNotFound, s)
      else (None, s\<lparr>st_files := tbl_delete (\<lambda>f. f_FileID f = fileID) (st_files s)\<rparr>))"

definition DeleteFileMetadataForPeer :: "string \<Rightarrow> Store \<Rightarrow> nat res \<times> Store" where
  "DeleteFileMetadataForPeer peerID s =
     (if peerID = [] then (Inl (Err ''peer_id is required''), s)
      else (Inr (rows_affected (file_of_peer peerID) (st_files s)),
            s\<lparr>st_files := tbl_delete (file_of_peer peerID) (st_files s)\<rparr>))"

section \<open>Folder transfers\<close>

definition UpsertFolderTransfer :: "int \<Rightarrow> FolderTransferMetadata \<Rightarrow> stmt" where
  "UpsertFolderTransfer now d s =
     (if d_FolderID d = [] then (Some (Err ''folder_id is required''), s)
      else if d_FolderName d = [] then (Some (Err ''folder_name is required''), s)
      else if d_RootPath d = [] then (Some (Err ''root_path is required''), s)
      else if d_TotalFiles d < 0 then (Some (Err ''total_files must be >= 0''), s)
      else if d_TotalSize d < 0 then (Some (Err ''total_size must be >= 0''), s)
      else
        let d1 = (if d_TransferStatus d = [] then d\<lparr>d_TransferStatus := ''pending''\<rparr> else d) in
        (case validateTransferStatus (d_TransferStatus d1) of
           Some e \<Rightarrow> (Some e, s)
         | None \<Rightarrow>
             let d2 = (if d_Timestamp d1 = 0 then d1\<lparr>d_Timestamp := now\<rparr> else d1) in
             (None, s\<lparr>st_folders := tbl_upsert d_FolderID d2 (st_folders s)\<rparr>)))"

definition UpdateFolderTransferStatus :: "string \<Rightarrow> string \<Rightarrow> stmt" where
  "UpdateFolderTransferStatus folderID status s =
     (if folderID = [] then (Some (Err ''folder_id is required''), s)
      else case validateTransferStatus status of
             Some e \<Rightarrow> (Some e, s)
           | None \<Rightarrow>
               if rows_affected (\<lambda>d. d_FolderID d = folderID) (st_folders s) = 0
               then (Some ErrNotFound, s)
               else (None, s\<lparr>st_folders := tbl_update (\<lambda>d. d_FolderID d = folderID)
                      (\<lambda>d. d\<lparr>d_TransferStatus := status\<rparr>) (st_folders s)\<rparr>))"

definition GetFolderTransfer :: "string \<Rightarrow> Store \<Rightarrow> FolderTransferMetadata res" where
  "GetFolderTransfer folderID s =
     (if folderID = [] then Inl (Err ''folder_id is required'')
      else case tbl_find d_FolderID folderID (st_folders s) of
             None \<Rightarrow> Inl ErrNotFound
           | Some d \<Rightarrow> Inr d)"

definition ListFilesByFolderID :: "string \<Rightarrow> Store \<Rightarrow> FileMetadata list res" where
  "ListFilesByFolderID folderID s =
     (if folderID = [] then Inl (Err ''folder_id is required'')
      else Inr (sort_key f_RelativePath (sort_key f_FileID
                 (filter (\<lambda>f. f_FolderID f = folderID) (st_files s)))))"

section \<open>Checkpoints\<close>

definition UpsertTransferCheckpoint :: "int \<Rightarrow> TransferCheckpoint \<Rightarrow> stmt" where
  "UpsertTransferCheckpoint now c s =
     (if c_FileID c = [] then (Some (Err ''file_id is required''), s)
      else case validateTransferDirection (c_Direction c) of
             Some e \<Rightarrow> (Some e, s)
           | None \<Rightarrow>
               if c_NextChunk c < 0 then (Some (Err ''next_chunk must be >= 0''), s)
               else if c_BytesTransferred c < 0 then
                 (Some (Err ''bytes_transferred must be >= 0''), s)
               else
                 let c1 = (if c_UpdatedAt c = 0 then c\<lparr>c_UpdatedAt := now\<rparr> else c) in
                 (None, s\<lparr>st_checkpoints := tbl_upsert checkpoint_key c1 (st_checkpoints s)\<rparr>))"

definition DeleteTransferCheckpoint :: "string \<Rightarrow> string \<Rightarrow> stmt" where
  "DeleteTransferCheckpoint fileID direction s =
     (if fileID = [] then (Some (Err ''file_id is required''), s)
      else case validateTransferDirection direction of
             Some e \<Rightarrow> (Some e, s)
           | None \<Rightarrow> (None, s\<lparr>st_checkpoints :=
               tbl_delete (\<lambda>c. checkpoint_key c = (fileID, direction)) (st_checkpoints s)\<rparr>))"

definition GetTransferCheckpoint :: "string \<Rightarrow> string \<Rightarrow> Store \<Rightarrow> TransferCheckpoint res" where
  "GetTransferCheckpoint fileID direction s =
     (if fileID = [] then Inl (Err ''file_id is required'')
      else case validateTransferDirection direction of
             Some e \<Rightarrow> Inl e
           | None \<Rightarrow>
               (case tbl_find checkpoint_key (fileID, direction) (st_checkpoints s) of
                  None \<Rightarrow> Inl ErrNotFound
                | Some c \<Rightarrow> Inr c))"

definition ListTransferCheckpoints :: "string \<Rightarrow> Store \<Rightarrow> TransferCheckpoint list res" where
  "ListTransferCheckpoints direction s =
     (case (if direction \<noteq> [] then validateTransferDirection direction else None) of
        Some e \<Rightarrow> Inl e
      | None \<Rightarrow>
          Inr (sort_key (\<lambda>c. - c_UpdatedAt c) (sort_key c_FileID (sort_key c_Direction
                (filter (\<lambda>c. direction \<noteq> [] \<longrightarrow> c_Direction c = direction) (st_checkpoints s))))))"

lemmas file_stmt_defs [store_defs] =
  SaveFileMetadata_def insert_file_def update_file_def UpdateTransferStatus_def
  UpdateFileTimestampReceived_def DeleteFileMetadata_def DeleteFileMetadataForPeer_def
  UpsertFolderTransfer_def UpdateFolderTransferStatus_def UpsertTransferCheckpoint_def
  DeleteTransferCheckpoint_def

section \<open>The invariant\<close>

lemma store_wf_put_files:
  "store_wf s \<Longrightarrow> files_wf (s\<lparr>st_files := rs\<rparr>) \<Longrightarrow> store_wf (s\<lparr>st_files := rs\<rparr>)"
  by (simp add: store_wf_def wf_parts)

lemma store_wf_put_folders:
  "store_wf s \<Longrightarrow> transfers_wf (s\<lparr>st_folders := rs\<rparr>) \<Longrightarrow> store_wf (s\<lparr>st_folders := rs\<rparr>)"
  by (simp add: store_wf_def wf_parts)

lemma store_wf_put_checkpoints:
  "store_wf s \<Longrightarrow> transfers_wf (s\<lparr>st_checkpoints := rs\<rparr>) \<Longrightarrow> store_wf (s\<lparr>st_checkpoints := rs\<rparr>)"
  by (simp add: store_wf_def wf_parts)

lemma update_file_wf:
  assumes wf: "store_wf s"
    and "\<And>f. f_FileID (u f) = f_FileID f" "\<And>f. f_MessageID (u f) = f_MessageID f"
    and "\<And>f. validateTransferStatus (f_TransferStatus f) = None \<Longrightarrow>
             validateTransferStatus (f_TransferStatus (u f)) = None"
  shows "store_wf (snd (update_file d u s))"
proof -
  have "files_wf (s\<lparr>st_files := tbl_update (\<lambda>f. f_FileID f = d) u (st_files s)\<rparr>)"
    using assms by (auto simp: store_wf_def files_wf_def message_ids_def keys_distinct_update tbl_simps)
  with wf show ?thesis by (simp add: update_file_def store_wf_put_files)
qed

lemma SaveFileMetadata_wf: "store_wf s \<Longrightarrow> store_wf (snd (SaveFileMetadata f s))"
proof -
  assume wf: "store_wf s"
  have ins: "store_wf (snd (insert_file f s))" if "validateTransferStatus (f_TransferStatus f) = None" for f
    using wf that
    by (auto simp: insert_file_def store_wf_def wf_parts keys_distinct_snoc)
  show ?thesis
    using wf by (auto simp: SaveFileMetadata_def Let_def intro!: ins split: option.splits)
qed

lemma UpdateTransferStatus_wf: "store_wf s \<Longrightarrow> store_wf (snd (UpdateTransferStatus i st s))"
  by (auto simp: UpdateTransferStatus_def intro!: update_file_wf split: option.split)

lemma UpdateFileTimestampReceived_wf:
  "store_wf s \<Longrightarrow> store_wf (snd (UpdateFileTimestampReceived now i ts s))"
  by (auto simp: UpdateFileTimestampReceived_def intro!: update_file_wf)

lemma store_wf_delete_files: "store_wf s \<Longrightarrow> store_wf (s\<lparr>st_files := tbl_delete P (st_files s)\<rparr>)"
  by (rule store_wf_put_files)
     (auto simp: store_wf_def files_wf_def message_ids_def keys_distinct_delete tbl_simps)

lemma DeleteFileMetadata_wf: "store_wf s \<Longrightarrow> store_wf (snd (DeleteFileMetadata i s))"
  by (simp add: DeleteFileMetadata_def store_wf_delete_files)

lemma DeleteFileMetadataForPeer_wf: "store_wf s \<Longrightarrow> store_wf (snd (DeleteFileMetadataForPeer i s))"
  by (simp add: DeleteFileMetadataForPeer_def store_wf_delete_files)

lemma set_tbl_upsert: "set (tbl_upsert key r rows) \<subseteq> insert r (set rows)"
  by (auto simp: tbl_upsert_def tbl_simps)

lemma store_wf_upsert_folder:
  assumes "store_wf s" and "validateTransferStatus (d_TransferStatus d) = None"
  shows "store_wf (s\<lparr>st_folders := tbl_upsert d_FolderID d (st_folders s)\<rparr>)"
proof (rule store_wf_put_folders)
  show "transfers_wf (s\<lparr>st_folders := tbl_upsert d_FolderID d (st_folders s)\<rparr>)"
    using assms set_tbl_upsert [of d_FolderID d "st_folders s"]
    by (auto simp: store_wf_def transfers_wf_def keys_distinct_upsert)
qed (rule assms)

lemma UpsertFolderTransfer_wf: "store_wf s \<Longrightarrow> store_wf (snd (UpsertFolderTransfer now d s))"
  by (auto simp: UpsertFolderTransfer_def Let_def validateTransferStatus_def
      intro!: store_wf_upsert_folder split: option.splits if_splits)

lemma UpdateFolderTransferStatus_wf:
  "store_wf s \<Longrightarrow> store_wf (snd (UpdateFolderTransferStatus i st s))"
  by (auto simp: UpdateFolderTransferStatus_def store_wf_def transfers_wf_def keys_distinct_update
      tbl_simps wf_parts split: option.split)

lemma UpsertTransferCheckpoint_wf: "store_wf s \<Longrightarrow> store_wf (snd (UpsertTransferCheckpoint now c s))"
proof -
  assume wf: "store_wf s"
  have up: "store_wf (s\<lparr>st_checkpoints := tbl_upsert checkpoint_key c (st_checkpoints s)\<rparr>)"
    if "validateTransferDirection (c_Direction c) = None" "0 \<le> c_NextChunk c" "0 \<le> c_BytesTransferred c" for c
  proof (rule store_wf_put_checkpoints [OF wf])
    show "transfers_wf (s\<lparr>st_checkpoints := tbl_upsert checkpoint_key c (st_checkpoints s)\<rparr>)"
      using wf that set_tbl_upsert [of checkpoint_key c "st_checkpoints s"]
      by (auto simp: store_wf_def transfers_wf_def keys_distinct_upsert)
  qed
  show ?thesis
    using wf by (auto simp: UpsertTransferCheckpoint_def Let_def intro!: up split: option.splits)
qed

lemma DeleteTransferCheckpoint_wf: "store_wf s \<Longrightarrow> store_wf (snd (DeleteTransferCheckpoint i d s))"
  by (auto simp: DeleteTransferCheckpoint_def store_wf_def transfers_wf_def keys_distinct_delete
      tbl_simps wf_parts split: option.split)

lemma SetSecurityEventRetention_wf: "store_wf s \<Longrightarrow> store_wf (SetSecurityEventRetention r s)"
  by (simp add: SetSecurityEventRetention_def store_wf_def wf_parts)

lemmas stmt_wf =
  SaveMessage_wf MarkDelivered_wf UpdateDeliveryStatus_wf PruneExpiredQueue_wf
  DeleteMessagesOlderThan_wf DeleteMessagesForPeer_wf InsertSeenID_wf PruneOldEntries_wf
  AddPeer_wf UpdatePeerStatus_wf RemovePeer_wf UpdatePeerEndpoint_wf UpdatePeerDeviceName_wf
  UpdatePeerIdentity_wf EnsurePeerSettingsExist_wf UpdatePeerSettings_wf ResetPeerVerified_wf
  RecordKeyRotationEvent_wf PruneSecurityEvents_wf LogSecurityEvent_wf
  SaveFileMetadata_wf UpdateTransferStatus_wf UpdateFileTimestampReceived_wf DeleteFileMetadata_wf
  DeleteFileMetadataForPeer_wf UpsertFolderTransfer_wf UpdateFolderTransferStatus_wf
  UpsertTransferCheckpoint_wf DeleteTransferCheckpoint_wf SetSecurityEventRetention_wf

section \<open>The store as a transition system\<close>

inductive store_step :: "Store \<Rightarrow> Store \<Rightarrow> bool" where
  save_message: "store_step s (snd (SaveMessage now m s))"
| mark_delivered: "store_step s (snd (MarkDelivered i s))"
| update_delivery: "store_step s (snd (UpdateDeliveryStatus i st s))"
| prune_queue: "store_step s (snd (PruneExpiredQueue cutoff s))"
| delete_old_messages: "store_step s (snd (DeleteMessagesOlderThan cutoff s))"
| delete_peer_messages: "store_step s (snd (DeleteMessagesForPeer d s))"
| insert_seen: "store_step s (snd (InsertSeenID now i ts s))"
| prune_seen: "store_step s (snd (PruneOldEntries cutoff s))"
| add_peer: "store_step s (snd (AddPeer now p s))"
| update_peer_status: "store_step s (snd (UpdatePeerStatus d st ts s))"
| remove_peer: "store_step s (snd (RemovePeer d s))"
| update_endpoint: "store_step s (snd (UpdatePeerEndpoint d ip port ts s))"
| update_name: "store_step s (snd (UpdatePeerDeviceName d n s))"
| update_identity: "store_step s (snd (UpdatePeerIdentity d k fp s))"
| ensure_settings: "store_step s (snd (EnsurePeerSettingsExist d s))"
| update_settings: "store_step s (snd (UpdatePeerSettings g s))"
| reset_verified: "store_step s (snd (ResetPeerVerified d s))"
| record_rotation: "store_step s (snd (RecordKeyRotationEvent now ev s))"
| log_event: "store_step s (snd (LogSecurityEvent jv now e s))"
| prune_events: "store_step s (snd (PruneSecurityEvents cutoff s))"
| set_retention: "store_step s (SetSecurityEventRetention r s)"
| save_file: "store_step s (snd (SaveFileMetadata f s))"
| update_transfer: "store_step s (snd (UpdateTransferStatus i st s))"
| update_received: "store_step s (snd (UpdateFileTimestampReceived now i ts s))"
| delete_file: "store_step s (snd (DeleteFileMetadata i s))"
| delete_peer_files: "store_step s (snd (DeleteFileMetadataForPeer d s))"
| upsert_folder: "store_step s (snd (UpsertFolderTransfer now fo s))"
| update_folder: "store_step s (snd (UpdateFolderTransferStatus i st s))"
| upsert_checkpoint: "store_step s (snd (UpsertTransferCheckpoint now c s))"
| delete_checkpoint: "store_step s (snd (DeleteTransferCheckpoint i dir s))"

inductive store_reachable :: "Store \<Rightarrow> bool" where
  opened: "store_reachable empty_store"
| ran: "store_reachable s \<Longrightarrow> store_step s s' \<Longrightarrow> store_reachable s'"

lemma store_step_wf: "store_step s s' \<Longrightarrow> store_wf s \<Longrightarrow> store_wf s'"
  by (induction rule: store_step.induct) (auto intro: stmt_wf)

lemma store_reachable_wf: "store_reachable s \<Longrightarrow> store_wf s"
  by (induction rule: store_reachable.induct) (auto intro: store_wf_empty store_step_wf)

section \<open>Properties\<close>

text \<open>C12: Whatever statements run against the store, with whatever arguments, the database stays well
  formed: primary keys unique, every status in its vocabulary, every foreign key resolved, counters
  above the identifiers they generated.\<close>

theorem store_invariant: "store_reachable s \<Longrightarrow> store_wf s"
  by (rule store_reachable_wf)

theorem store_invariant_witness:
  "store_wf (snd (SaveMessage 5 (sample_message ''1'' ''a'' ''b'' ''hi'' 0) (snd (InsertSeenID 1 ''x'' 0 empty_store))))"
  by (rule store_invariant) (blast intro: store_reachable.intros store_step.intros)

text \<open>A checkpoint is read back as it was stored, keyed by file and direction: writing or deleting one
  leaves the checkpoints of other files and of the other direction alone.\<close>

theorem checkpoint_roundtrip:
  assumes "UpsertTransferCheckpoint now c s = (None, s')"
  shows "GetTransferCheckpoint i dir s' =
           (if i = c_FileID c \<and> dir = c_Direction c
            then Inr (if c_UpdatedAt c = 0 then c\<lparr>c_UpdatedAt := now\<rparr> else c)
            else GetTransferCheckpoint i dir s)"
proof -
  define c1 where "c1 = (if c_UpdatedAt c = 0 then c\<lparr>c_UpdatedAt := now\<rparr> else c)"
  have c: "c_FileID c \<noteq> []" "validateTransferDirection (c_Direction c) = None"
    and s': "st_checkpoints s' = tbl_upsert checkpoint_key c1 (st_checkpoints s)"
    using assms by (auto simp: UpsertTransferCheckpoint_def c1_def Let_def split: if_splits option.splits)
  have "checkpoint_key c1 = (c_FileID c, c_Direction c)" by (simp add: c1_def checkpoint_key_def)
  with c show ?thesis
    by (auto simp: GetTransferCheckpoint_def s' tbl_find_upsert c1_def [symmetric] split: option.split)
qed

definition sample_checkpoint :: TransferCheckpoint where
  "sample_checkpoint = \<lparr>c_FileID = ''f'', c_Direction = ''receive'', c_NextChunk = 3,
     c_BytesTransferred = 7, c_TempPath = ''t'', c_UpdatedAt = 1\<rparr>"

theorem checkpoint_roundtrip_witness:
  "GetTransferCheckpoint ''f'' ''receive'' (snd (UpsertTransferCheckpoint 5 sample_checkpoint empty_store)) =
     Inr sample_checkpoint"
proof -
  have "fst (UpsertTransferCheckpoint 5 sample_checkpoint empty_store) = None" by code_simp
  then obtain s' where s': "UpsertTransferCheckpoint 5 sample_checkpoint empty_store = (None, s')"
    by (metis prod.collapse)
  show ?thesis
    using checkpoint_roundtrip [OF s', of "''f''" "''receive''"] s' by (simp add: sample_checkpoint_def)
qed

end
