(* ===== verification/RateLimit.thy ===== *)
theory RateLimit
  imports GoPrelude "HOL-Library.AList"
begin

text \<open>
  The three rate limiters of \<open>src/network\<close>: inbound connections per address (\<open>allowInboundConnection\<close> in
  \<open>server.go\<close>), add requests per peer and file requests per peer (\<open>allowAddRequest\<close> and
  \<open>allowFileRequest\<close> in \<open>peer_manager.go\<close>).

  Times and durations are nanoseconds, the zero time is \<open>None\<close>, a Go map is an association list. The
  locale \<open>rate_limiter\<close> is the contract: a limiter with shared state behaves, for each key, as a small
  per-key limiter of its own that sees only the requests of that key. It is interpreted on each of the
  three; what is proved of the per-key limiters then holds of the shared ones.
\<close>

section \<open>The contract\<close>

locale rate_limiter =
  fixes allow :: "'k \<Rightarrow> 'r \<Rightarrow> int \<Rightarrow> 's \<Rightarrow> bool \<times> 's"
    and step :: "'k \<Rightarrow> 'r \<Rightarrow> int \<Rightarrow> 'v \<Rightarrow> bool \<times> 'v"
    and rep :: "int \<Rightarrow> 's \<Rightarrow> 'k \<Rightarrow> 'v \<Rightarrow> bool"
  assumes same_key: "rep t s k v \<Longrightarrow> t \<le> t' \<Longrightarrow>
      fst (allow k r t' s) = fst (step k r t' v) \<and> rep t' (snd (allow k r t' s)) k (snd (step k r t' v))"
    and other_key: "rep t s k v \<Longrightarrow> t \<le> t' \<Longrightarrow> k' \<noteq> k \<Longrightarrow> rep t' (snd (allow k' r t' s)) k v"
begin

fun run :: "('k \<times> 'r \<times> int) list \<Rightarrow> 's \<Rightarrow> bool list" where
  "run [] s = []"
| "run ((k, r, t) # reqs) s = fst (allow k r t s) # run reqs (snd (allow k r t s))"

fun run1 :: "'k \<Rightarrow> ('r \<times> int) list \<Rightarrow> 'v \<Rightarrow> bool list" where
  "run1 k [] v = []"
| "run1 k ((r, t) # reqs) v = fst (step k r t v) # run1 k reqs (snd (step k r t v))"

fun ordered :: "int \<Rightarrow> ('k \<times> 'r \<times> int) list \<Rightarrow> bool" where
  "ordered t0 [] = True"
| "ordered t0 ((k, r, t) # reqs) = (t0 \<le> t \<and> ordered t reqs)"

text \<open>The decisions for one key, among the requests of all keys, are those of its own limiter.\<close>

lemma run_key:
  "rep t0 s k v \<Longrightarrow> ordered t0 reqs \<Longrightarrow>
   map snd (filter (\<lambda>(q, b). fst q = k) (zip reqs (run reqs s))) =
     run1 k (map snd (filter (\<lambda>q. fst q = k) reqs)) v"
proof (induction reqs arbitrary: t0 s v)
  case Nil
  then show ?case by simp
next
  case (Cons q reqs)
  obtain k' r t where q: "q = (k', r, t)" by (cases q)
  have later: "t0 \<le> t" "ordered t reqs" using Cons.prems q by auto
  show ?case
  proof (cases "k' = k")
    case True
    have "fst (allow k r t s) = fst (step k r t v)" "rep t (snd (allow k r t s)) k (snd (step k r t v))"
      using same_key [OF Cons.prems(1) later(1)] by auto
    with Cons.IH [OF _ later(2)] True q show ?thesis by simp
  next
    case False
    have "rep t (snd (allow k' r t s)) k v" using other_key [OF Cons.prems(1) later(1) False] .
    with Cons.IH [OF _ later(2)] False q show ?thesis by simp
  qed
qed

end

section \<open>Inbound connections\<close>

record inboundConnectionRate =
  windowStart :: "int option"
  rate_count :: int
  lastSeen :: "int option"

record ConnRates =
  connectionRates :: "(string \<times> inboundConnectionRate) list"
  lastRateLimiterPrune :: "int option"

definition zero_rate :: inboundConnectionRate where
  "zero_rate = \<lparr>windowStart = None, rate_count = 0, lastSeen = None\<rparr>"

definition entry_for :: "string \<Rightarrow> ConnRates \<Rightarrow> inboundConnectionRate" where
  "entry_for ip s = (case map_of (connectionRates s) ip of None \<Rightarrow> zero_rate | Some e \<Rightarrow> e)"

definition stale_rate :: "int \<Rightarrow> int \<Rightarrow> inboundConnectionRate \<Rightarrow> bool" where
  "stale_rate now maxAge e = (case lastSeen e of None \<Rightarrow> True | Some t \<Rightarrow> now - t > maxAge)"

definition pruneConnectionRateEntries :: "int \<Rightarrow> int \<Rightarrow> ConnRates \<Rightarrow> ConnRates" where
  "pruneConnectionRateEntries now maxAge s =
     (if connectionRates s = [] \<or> maxAge \<le> 0 then s
      else case lastRateLimiterPrune s of
             Some t \<Rightarrow>
               if now - t < 1000000000 then s
               else \<lparr>connectionRates = filter (\<lambda>(ip, e). \<not> stale_rate now maxAge e) (connectionRates s),
                     lastRateLimiterPrune = Some now\<rparr>
           | None \<Rightarrow> \<lparr>connectionRates = filter (\<lambda>(ip, e). \<not> stale_rate now maxAge e) (connectionRates s),
                      lastRateLimiterPrune = Some now\<rparr>)"

definition roll_window :: "int \<Rightarrow> int \<Rightarrow> inboundConnectionRate \<Rightarrow> inboundConnectionRate" where
  "roll_window window now e =
     (case windowStart e of
        None \<Rightarrow> e\<lparr>windowStart := Some now, rate_count := 0\<rparr>
      | Some t \<Rightarrow> if now - t \<ge> window then e\<lparr>windowStart := Some now, rate_count := 0\<rparr> else e)"

text \<open>\<open>ip\<close> is what \<open>remoteIPFromAddr\<close> makes of the remote address.\<close>

definition allowInboundConnection :: "int \<Rightarrow> int \<Rightarrow> string \<Rightarrow> int \<Rightarrow> ConnRates \<Rightarrow> bool \<times> ConnRates" where
  "allowInboundConnection limit window ip now s =
     (if limit \<le> 0 \<or> window \<le> 0 then (True, s)
      else if ip = [] then (True, s)
      else
        let s1 = pruneConnectionRateEntries now (window * 4) s;
            e = (roll_window window now (entry_for ip s1))\<lparr>lastSeen := Some now\<rparr>
        in if rate_count e \<ge> limit then
             (False, s1\<lparr>connectionRates := AList.update ip e (connectionRates s1)\<rparr>)
           else
             (True, s1\<lparr>connectionRates :=
                AList.update ip (e\<lparr>rate_count := rate_count e + 1\<rparr>) (connectionRates s1)\<rparr>))"

section \<open>Add requests\<close>

definition allowAddRequest :: "int \<Rightarrow> string \<Rightarrow> int \<Rightarrow> (string \<times> int) list \<Rightarrow> bool \<times> (string \<times> int) list" where
  "allowAddRequest cooldown peerDeviceID now lastAddRequestAt =
     (if peerDeviceID = [] then (False, lastAddRequestAt)
      else if cooldown \<le> 0 then (True, lastAddRequestAt)
      else case map_of lastAddRequestAt peerDeviceID of
             Some t \<Rightarrow>
               if now - t < cooldown then (False, lastAddRequestAt)
               else (True, AList.update peerDeviceID now lastAddRequestAt)
           | None \<Rightarrow> (True, AList.update peerDeviceID now lastAddRequestAt))"

section \<open>File requests\<close>

record FileRates =
  fileRequestHistory :: "(string \<times> int list) list"
  fileRequestSeenIDs :: "(string \<times> (string \<times> int) list) list"

definition history_of :: "string \<Rightarrow> FileRates \<Rightarrow> int list" where
  "history_of peer s = (case map_of (fileRequestHistory s) peer of None \<Rightarrow> [] | Some h \<Rightarrow> h)"

definition seen_of :: "string \<Rightarrow> FileRates \<Rightarrow> (string \<times> int) list" where
  "seen_of peer s = (case map_of (fileRequestSeenIDs s) peer of None \<Rightarrow> [] | Some h \<Rightarrow> h)"

definition put_seen :: "string \<Rightarrow> (string \<times> int) list \<Rightarrow> FileRates \<Rightarrow> FileRates" where
  "put_seen peer seen s =
     (if seen = [] then s\<lparr>fileRequestSeenIDs := AList.delete peer (fileRequestSeenIDs s)\<rparr>
      else s\<lparr>fileRequestSeenIDs := AList.update peer seen (fileRequestSeenIDs s)\<rparr>)"

definition allowFileRequest ::
    "int \<Rightarrow> int \<Rightarrow> string \<Rightarrow> string \<Rightarrow> int \<Rightarrow> FileRates \<Rightarrow> bool \<times> FileRates" where
  "allowFileRequest limit window peerDeviceID fileID now s =
     (if peerDeviceID = [] then (False, s)
      else if limit \<le> 0 \<or> window \<le> 0 then (True, s)
      else
        let cutoff = now - window;
            filtered = filter (\<lambda>t. t > cutoff) (history_of peerDeviceID s);
            s1 = s\<lparr>fileRequestHistory := AList.update peerDeviceID filtered (fileRequestHistory s)\<rparr>;
            fid = TrimSpace fileID;
            live = filter (\<lambda>(i, t). t > cutoff) (seen_of peerDeviceID s1);
            s2 = (if fid \<noteq> [] then put_seen peerDeviceID live s1 else s1)
        in if fid \<noteq> [] \<and> fid \<in> fst ` set live then
             (True, put_seen peerDeviceID (AList.update fid now live) s2)
           else if int (length filtered) \<ge> limit then (False, s2)
           else
             let s3 = s2\<lparr>fileRequestHistory :=
                           AList.update peerDeviceID (filtered @ [now]) (fileRequestHistory s2)\<rparr>
             in (True, if fid \<noteq> [] then put_seen peerDeviceID (AList.update fid now (seen_of peerDeviceID s3)) s3
                       else s3))"

section \<open>Each limiter, key by key\<close>

definition conn_step :: "int \<Rightarrow> int \<Rightarrow> string \<Rightarrow> unit \<Rightarrow> int \<Rightarrow> (int \<times> int) option \<Rightarrow> bool \<times> (int \<times> int) option" where
  "conn_step limit window ip u now v =
     (if limit \<le> 0 \<or> window \<le> 0 \<or> ip = [] then (True, v)
      else
        let (start, n) = (case v of None \<Rightarrow> (now, 0)
                          | Some (start, n) \<Rightarrow> if now - start \<ge> window then (now, 0) else (start, n))
        in if n \<ge> limit then (False, Some (start, n)) else (True, Some (start, n + 1)))"

definition conn_rep :: "int \<Rightarrow> int \<Rightarrow> ConnRates \<Rightarrow> string \<Rightarrow> (int \<times> int) option \<Rightarrow> bool" where
  "conn_rep window t s ip v \<longleftrightarrow>
     distinct (map fst (connectionRates s)) \<and>
     (case map_of (connectionRates s) ip of
        Some e \<Rightarrow> (\<exists>ws ls. windowStart e = Some ws \<and> lastSeen e = Some ls \<and> ws \<le> ls \<and> ls \<le> t \<and>
                           v = Some (ws, rate_count e))
      | None \<Rightarrow> (case v of None \<Rightarrow> True | Some (ws, n) \<Rightarrow> window \<le> t - ws))"

lemma map_of_filter:
  "distinct (map fst xs) \<Longrightarrow>
   map_of (filter P xs) k = (case map_of xs k of None \<Rightarrow> None | Some e \<Rightarrow> if P (k, e) then Some e else None)"
  by (induction xs) (auto simp: map_of_eq_None_iff image_iff split: option.split)

lemma distinct_fst_filter: "distinct (map fst xs) \<Longrightarrow> distinct (map fst (filter P xs))"
  by (rule distinct_map_filter)

lemma conn_rep_mono: "conn_rep W t s ip v \<Longrightarrow> t \<le> t' \<Longrightarrow> conn_rep W t' s ip v"
  by (cases "map_of (connectionRates s) ip") (auto simp: conn_rep_def split: option.splits)

lemma conn_rep_prune:
  assumes "conn_rep W t s ip v" and "0 < W"
  shows "conn_rep W t (pruneConnectionRateEntries t (W * 4) s) ip v"
proof -
  have "conn_rep W t \<lparr>connectionRates = filter (\<lambda>(ip, e). \<not> stale_rate t (W * 4) e) (connectionRates s),
      lastRateLimiterPrune = Some t\<rparr> ip v"
    using assms
    by (cases "map_of (connectionRates s) ip")
       (auto simp: conn_rep_def map_of_filter distinct_fst_filter stale_rate_def
        simp del: map_of_eq_Some_iff split: option.splits)
  then show ?thesis
    using assms(1) by (simp add: pruneConnectionRateEntries_def split: option.split)
qed

lemma conn_rep_update:
  "conn_rep W t s ip v \<Longrightarrow> windowStart e = Some ws \<Longrightarrow> ws \<le> t \<Longrightarrow> lastSeen e = Some t \<Longrightarrow>
   conn_rep W t (s\<lparr>connectionRates := AList.update ip e (connectionRates s)\<rparr>) ip (Some (ws, rate_count e))"
  by (simp add: conn_rep_def distinct_update update_conv)

lemma conn_rep_update_other:
  "conn_rep W t s ip v \<Longrightarrow> ip' \<noteq> ip \<Longrightarrow>
   conn_rep W t (s\<lparr>connectionRates := AList.update ip' e (connectionRates s)\<rparr>) ip v"
  by (simp add: conn_rep_def distinct_update update_conv)

text \<open>Rolling the window of the stored entry is rolling that of the per-key limiter.\<close>

lemma conn_roll:
  assumes "conn_rep W t s ip v"
  shows "\<exists>ws. windowStart (roll_window W t (entry_for ip s)) = Some ws \<and> ws \<le> t \<and>
      (ws, rate_count (roll_window W t (entry_for ip s))) =
        (case v of None \<Rightarrow> (t, 0) | Some (start, n) \<Rightarrow> if t - start \<ge> W then (t, 0) else (start, n))"
  using assms
  by (cases "map_of (connectionRates s) ip")
     (auto simp: conn_rep_def entry_for_def roll_window_def zero_rate_def split: option.splits)

lemma conn_same:
  assumes "conn_rep W t s ip v"
  shows "fst (allowInboundConnection L W ip t s) = fst (conn_step L W ip u t v) \<and>
         conn_rep W t (snd (allowInboundConnection L W ip t s)) ip (snd (conn_step L W ip u t v))"
proof (cases "L \<le> 0 \<or> W \<le> 0 \<or> ip = []")
  case True
  with assms show ?thesis by (auto simp: allowInboundConnection_def conn_step_def)
next
  case False
  let ?s1 = "pruneConnectionRateEntries t (W * 4) s"
  have r: "conn_rep W t ?s1 ip v" using conn_rep_prune [OF assms] False by simp
  let ?e = "(roll_window W t (entry_for ip ?s1))\<lparr>lastSeen := Some t\<rparr>"
  obtain ws where ws: "windowStart ?e = Some ws" "ws \<le> t"
    and v: "(case v of None \<Rightarrow> (t, 0) | Some (start, n) \<Rightarrow> if t - start \<ge> W then (t, 0) else (start, n))
              = (ws, rate_count ?e)"
    using conn_roll [OF r] by auto
  have "conn_rep W t (?s1\<lparr>connectionRates := AList.update ip ?e (connectionRates ?s1)\<rparr>) ip (Some (ws, rate_count ?e))"
    by (rule conn_rep_update [OF r ws]) simp
  moreover have "conn_rep W t (?s1\<lparr>connectionRates := AList.update ip (?e\<lparr>rate_count := rate_count ?e + 1\<rparr>)
      (connectionRates ?s1)\<rparr>) ip (Some (ws, rate_count ?e + 1))"
    using conn_rep_update [OF r, of "?e\<lparr>rate_count := rate_count ?e + 1\<rparr>" ws] ws by simp
  ultimately show ?thesis
    using False v by (simp add: allowInboundConnection_def conn_step_def Let_def)
qed

lemma conn_other:
  "conn_rep W t s ip v \<Longrightarrow> ip' \<noteq> ip \<Longrightarrow> conn_rep W t (snd (allowInboundConnection L W ip' t s)) ip v"
  by (simp add: allowInboundConnection_def Let_def conn_rep_prune conn_rep_update_other)

interpretation conns: rate_limiter "\<lambda>ip u t s. allowInboundConnection L W ip t s" "conn_step L W" "conn_rep W"
  for L W
  by unfold_locales (meson conn_rep_mono conn_same conn_other)+

definition add_step :: "int \<Rightarrow> string \<Rightarrow> unit \<Rightarrow> int \<Rightarrow> int option \<Rightarrow> bool \<times> int option" where
  "add_step cooldown peer u now v =
     (if peer = [] then (False, v)
      else if cooldown \<le> 0 then (True, v)
      else case v of Some t \<Rightarrow> if now - t < cooldown then (False, v) else (True, Some now)
           | None \<Rightarrow> (True, Some now))"

definition add_rep :: "int \<Rightarrow> (string \<times> int) list \<Rightarrow> string \<Rightarrow> int option \<Rightarrow> bool" where
  "add_rep t s peer v \<longleftrightarrow> map_of s peer = v"

interpretation adds: rate_limiter "\<lambda>p u t s. allowAddRequest C p t s" "add_step C" add_rep
  for C
  by unfold_locales
     (auto simp: allowAddRequest_def add_step_def add_rep_def update_conv split: option.splits if_splits)

definition file_rep :: "int \<Rightarrow> FileRates \<Rightarrow> string \<Rightarrow> int list \<times> (string \<times> int) list \<Rightarrow> bool" where
  "file_rep t s peer v \<longleftrightarrow> (history_of peer s, seen_of peer s) = v"

lemma history_update:
  "history_of peer (s\<lparr>fileRequestHistory := AList.update p h (fileRequestHistory s)\<rparr>) =
     (if peer = p then h else history_of peer s)"
  "seen_of peer (s\<lparr>fileRequestHistory := x\<rparr>) = seen_of peer s"
  by (simp_all add: history_of_def seen_of_def update_conv)

lemma put_seen_simps:
  "history_of peer (put_seen p l s) = history_of peer s"
  "seen_of peer (put_seen p l s) = (if peer = p then l else seen_of peer s)"
  by (simp_all add: put_seen_def history_of_def seen_of_def update_conv delete_conv')

text \<open>What a file request does to the history and the seen identifiers of a peer.\<close>

definition file_effect ::
    "int \<Rightarrow> int \<Rightarrow> string \<Rightarrow> string \<Rightarrow> int \<Rightarrow> int list \<times> (string \<times> int) list \<Rightarrow>
     bool \<times> int list \<times> (string \<times> int) list" where
  "file_effect limit window peer fileID now v =
     (if peer = [] then (False, v)
      else if limit \<le> 0 \<or> window \<le> 0 then (True, v)
      else
        let filtered = filter (\<lambda>t. t > now - window) (fst v);
            fid = TrimSpace fileID;
            live = (if fid \<noteq> [] then filter (\<lambda>(i, t). t > now - window) (snd v) else snd v)
        in if fid \<noteq> [] \<and> fid \<in> fst ` set live then (True, filtered, AList.update fid now live)
           else if int (length filtered) \<ge> limit then (False, filtered, live)
           else (True, filtered @ [now], if fid \<noteq> [] then AList.update fid now live else live))"

lemma allowFileRequest_effect:
  "file_effect L W peer fid t (history_of peer s, seen_of peer s) =
     (fst (allowFileRequest L W peer fid t s),
      history_of peer (snd (allowFileRequest L W peer fid t s)),
      seen_of peer (snd (allowFileRequest L W peer fid t s)))"
  by (simp add: allowFileRequest_def file_effect_def Let_def history_update put_seen_simps)

lemma allowFileRequest_other:
  "peer \<noteq> p \<Longrightarrow> history_of peer (snd (allowFileRequest L W p fid t s)) = history_of peer s \<and>
     seen_of peer (snd (allowFileRequest L W p fid t s)) = seen_of peer s"
  by (simp add: allowFileRequest_def Let_def history_update put_seen_simps)

interpretation filereqs: rate_limiter "allowFileRequest L W" "file_effect L W" file_rep
  for L W
proof unfold_locales
  fix t s k v t' r
  assume "file_rep t s k v"
  then show "fst (allowFileRequest L W k r t' s) = fst (file_effect L W k r t' v) \<and>
      file_rep t' (snd (allowFileRequest L W k r t' s)) k (snd (file_effect L W k r t' v))"
    using allowFileRequest_effect [of L W k r t' s]
    by (auto simp: file_rep_def)
next
  fix t s k v t' k' r
  assume "file_rep t s k v" "k' \<noteq> k"
  then show "file_rep t' (snd (allowFileRequest L W k' r t' s)) k v"
    using allowFileRequest_other [of k k' L W r t' s] by (simp add: file_rep_def)
qed

section \<open>Bounds\<close>

text \<open>The grants of the per-key connection limiter in the interval from \<open>a\<close> to \<open>a + W\<close>.\<close>

fun conn_grants :: "int \<Rightarrow> int \<Rightarrow> string \<Rightarrow> int \<Rightarrow> int list \<Rightarrow> (int \<times> int) option \<Rightarrow> int" where
  "conn_grants L W ip a [] v = 0"
| "conn_grants L W ip a (t # ts) v =
     (if fst (conn_step L W ip () t v) \<and> a \<le> t \<and> t < a + W then 1 else 0) +
     conn_grants L W ip a ts (snd (conn_step L W ip () t v))"

definition room :: "int \<Rightarrow> int \<Rightarrow> (int \<times> int) option \<Rightarrow> int" where
  "room L a v = (case v of None \<Rightarrow> 2 * L | Some (start, n) \<Rightarrow> if a \<le> start then L - n else 2 * L - n)"

definition within_limit :: "int \<Rightarrow> (int \<times> int) option \<Rightarrow> bool" where
  "within_limit L v \<longleftrightarrow> (case v of None \<Rightarrow> True | Some (start, n) \<Rightarrow> 0 \<le> n \<and> n \<le> L)"

lemma conn_step_within: "0 < L \<Longrightarrow> within_limit L v \<Longrightarrow> within_limit L (snd (conn_step L W ip u t v))"
  by (auto simp: conn_step_def within_limit_def Let_def split: option.splits)

lemma conn_grants_late:
  "sorted ts \<Longrightarrow> \<forall>t \<in> set ts. a + W \<le> t \<Longrightarrow> conn_grants L W ip a ts v = 0"
  by (induction ts arbitrary: v) auto

lemma conn_step_room:
  assumes "0 < L" "0 < W" "ip \<noteq> []" "a \<le> t" "t < a + W" "within_limit L v"
  shows "(if fst (conn_step L W ip u t v) then 1 else 0) + room L a (snd (conn_step L W ip u t v)) \<le> room L a v"
  using assms by (auto simp: conn_step_def room_def within_limit_def Let_def split: option.splits)

lemma room_nonneg: "0 < L \<Longrightarrow> within_limit L v \<Longrightarrow> 0 \<le> room L a v"
  by (auto simp: room_def within_limit_def split: option.splits)

lemma conn_grants_room:
  assumes "0 < L" "0 < W" "ip \<noteq> []"
  shows "sorted ts \<Longrightarrow> \<forall>t \<in> set ts. a \<le> t \<Longrightarrow> within_limit L v \<Longrightarrow> conn_grants L W ip a ts v \<le> room L a v"
proof (induction ts arbitrary: v)
  case Nil
  then show ?case using assms room_nonneg by simp
next
  case (Cons t ts)
  show ?case
  proof (cases "t < a + W")
    case True
    have "conn_grants L W ip a ts (snd (conn_step L W ip () t v)) \<le> room L a (snd (conn_step L W ip () t v))"
      using Cons assms conn_step_within by simp
    with conn_step_room [OF assms _ True Cons.prems(3), of "()"] Cons.prems(2) show ?thesis
      by (auto split: if_splits)
  next
    case False
    then have "conn_grants L W ip a (t # ts) v = 0"
      using Cons.prems(1) by (intro conn_grants_late) auto
    then show ?thesis using assms room_nonneg Cons.prems(3) by metis
  qed
qed

lemma conn_grants_bound:
  assumes "0 < L" "0 < W" "ip \<noteq> []"
  shows "sorted ts \<Longrightarrow> within_limit L v \<Longrightarrow> conn_grants L W ip a ts v \<le> 2 * L"
proof (induction ts arbitrary: v)
  case Nil
  then show ?case using assms by simp
next
  case (Cons t ts)
  show ?case
  proof (cases "a \<le> t")
    case True
    then have "\<forall>x \<in> set (t # ts). a \<le> x" using Cons.prems(1) by auto
    then have "conn_grants L W ip a (t # ts) v \<le> room L a v"
      by (rule conn_grants_room [OF assms Cons.prems(1) _ Cons.prems(2)])
    moreover have "room L a v \<le> 2 * L"
      using Cons.prems(2) assms(1) by (auto simp: room_def within_limit_def split: option.splits)
    ultimately show ?thesis by simp
  next
    case False
    then show ?thesis using Cons assms conn_step_within by simp
  qed
qed

text \<open>The decisions over a sequence of inbound connections, given with their address and time.\<close>

fun conn_run :: "int \<Rightarrow> int \<Rightarrow> (string \<times> int) list \<Rightarrow> ConnRates \<Rightarrow> bool list" where
  "conn_run L W [] s = []"
| "conn_run L W ((ip, t) # reqs) s =
     fst (allowInboundConnection L W ip t s) # conn_run L W reqs (snd (allowInboundConnection L W ip t s))"

lemma conn_run_eq:
  "conn_run L W rs s =
     rate_limiter.run (\<lambda>ip (u :: unit) t s. allowInboundConnection L W ip t s) (map (\<lambda>(i, t). (i, (), t)) rs) s"
  by (induction rs arbitrary: s) (auto simp: conns.run.simps)

lemma conn_run_length: "length (conn_run L W rs s) = length rs"
  by (induction L W rs s rule: conn_run.induct) simp_all

definition accepted_in :: "string \<Rightarrow> int \<Rightarrow> int \<Rightarrow> (string \<times> int) list \<Rightarrow> bool list \<Rightarrow> nat" where
  "accepted_in ip a b reqs decisions =
     length (filter (\<lambda>((i, t), d). i = ip \<and> a \<le> t \<and> t < b \<and> d) (zip reqs decisions))"

lemma accepted_in_grants:
  "conn_rep W t0 s ip v \<Longrightarrow> sorted (t0 # map snd reqs) \<Longrightarrow>
   int (accepted_in ip a (a + W) reqs (conn_run L W reqs s)) =
     conn_grants L W ip a (map snd (filter (\<lambda>q. fst q = ip) reqs)) v"
proof (induction reqs arbitrary: t0 s v)
  case Nil
  then show ?case by (simp add: accepted_in_def)
next
  case (Cons q reqs)
  obtain i t where q: "q = (i, t)" by (cases q)
  have t: "t0 \<le> t" "sorted (t # map snd reqs)" using Cons.prems(2) q by auto
  have r: "conn_rep W t s ip v" using conn_rep_mono [OF Cons.prems(1) t(1)] .
  show ?case
  proof (cases "i = ip")
    case True
    with Cons.IH [OF conn_same [OF r, THEN conjunct2, of L "()"] t(2)]
      conn_same [OF r, THEN conjunct1, of L "()"] q
    show ?thesis by (auto simp: accepted_in_def)
  next
    case False
    with Cons.IH [OF conn_other [OF r False] t(2)] q
    show ?thesis by (auto simp: accepted_in_def)
  qed
qed

definition no_rates :: ConnRates where
  "no_rates = \<lparr>connectionRates = [], lastRateLimiterPrune = None\<rparr>"

section \<open>Properties\<close>

text \<open>However many addresses connect and whatever was pruned in between, in no interval as long as the
  rate window are more than twice the limit of connections accepted from one address.\<close>

theorem inbound_rate_bound:
  assumes "0 < limit" and "0 < window" and "ip \<noteq> []" and "sorted (map snd reqs)"
  shows "int (accepted_in ip a (a + window) reqs (conn_run limit window reqs no_rates)) \<le> 2 * limit"
proof (cases reqs)
  case Nil
  with assms(1) show ?thesis by (simp add: accepted_in_def)
next
  case (Cons q qs)
  have "conn_rep window (snd q) no_rates ip None" by (simp add: conn_rep_def no_rates_def)
  then have "int (accepted_in ip a (a + window) reqs (conn_run limit window reqs no_rates)) =
      conn_grants limit window ip a (map snd (filter (\<lambda>q. fst q = ip) reqs)) None"
    by (rule accepted_in_grants) (use assms(4) Cons in auto)
  moreover have "sorted (map snd (filter (\<lambda>q. fst q = ip) reqs))"
    using assms(4) by (simp add: sorted_filter)
  ultimately show ?thesis
    using conn_grants_bound [OF assms(1,2,3)] by (simp add: within_limit_def)
qed

theorem inbound_rate_bound_witness:
  "int (accepted_in ''h'' 0 (0 + 10) [(''h'', 1), (''g'', 2), (''h'', 3), (''h'', 4)]
     (conn_run 1 10 [(''h'', 1), (''g'', 2), (''h'', 3), (''h'', 4)] no_rates)) \<le> 2 * 1"
  by (rule inbound_rate_bound) simp_all

text \<open>What a connection attempt is answered depends on the earlier attempts from the same address
  only: the decisions for an address, among those for all, are the ones it would get alone.\<close>

theorem inbound_isolation:
  assumes "sorted (map snd reqs)"
  shows "map snd (filter (\<lambda>((i, t), d). i = ip) (zip reqs (conn_run limit window reqs no_rates))) =
         conn_run limit window (filter (\<lambda>(i, t). i = ip) reqs) no_rates"
proof -
  let ?as = "map (\<lambda>(i, t). (i, (), t))"
  have keep: "filter (\<lambda>q. fst q = ip) (?as (filter (\<lambda>(i, t). i = ip) rs)) = ?as (filter (\<lambda>(i, t). i = ip) rs)"
    "filter (\<lambda>q. fst q = ip) (?as rs) = ?as (filter (\<lambda>(i, t). i = ip) rs)" for rs :: "(string \<times> int) list"
    by (induction rs) auto
  have all: "map snd (filter (\<lambda>(q, b). fst q = ip) (zip (?as (filter (\<lambda>(i, t). i = ip) rs)) bs)) = bs"
    if "length bs = length (filter (\<lambda>(i, t). i = ip) rs)" for rs bs
  proof -
    have "filter (\<lambda>(q, b). fst q = ip) (zip (?as (filter (\<lambda>(i, t). i = ip) rs)) bs) =
        zip (?as (filter (\<lambda>(i, t). i = ip) rs)) bs"
      by (rule filter_True) (auto dest!: set_zip_leftD)
    then show ?thesis using that by simp
  qed
  have sel: "map snd (filter (\<lambda>((i, t), d). i = ip) (zip rs bs)) =
      map snd (filter (\<lambda>(q, b). fst q = ip) (zip (?as rs) bs))" for rs bs
    by (induction rs bs rule: list_induct2') auto
  define start where "start = (case reqs of [] \<Rightarrow> 0 | q # _ \<Rightarrow> snd q)"
  have rep: "conn_rep window start no_rates ip None" by (simp add: conn_rep_def no_rates_def)
  have ord: "rate_limiter.ordered t0 (?as rs)" if "sorted (t0 # map snd rs)" for rs :: "(string \<times> int) list" and t0
    using that by (induction rs arbitrary: t0) (auto simp: conns.ordered.simps)
  have s1: "sorted (start # map snd reqs)" using assms by (cases reqs) (auto simp: start_def)
  then have s2: "sorted (start # map snd (filter (\<lambda>(i, t). i = ip) reqs))"
    by (auto simp: sorted_filter)
  note eq = conn_run_eq and len = conn_run_length
  have "map snd (filter (\<lambda>((i, t), d). i = ip) (zip reqs (conn_run limit window reqs no_rates))) =
      rate_limiter.run1 (conn_step limit window) ip (map snd (?as (filter (\<lambda>(i, t). i = ip) reqs))) None"
    unfolding sel eq using conns.run_key [OF rep ord [OF s1]] by (simp add: keep)
  also have "\<dots> = conn_run limit window (filter (\<lambda>(i, t). i = ip) reqs) no_rates"
    using conns.run_key [OF rep ord [OF s2], of limit] all [OF len, of reqs limit window no_rates] by (simp add: keep eq)
  finally show ?thesis .
qed

theorem inbound_isolation_witness:
  "map snd (filter (\<lambda>((i, t), d). i = ''h'') (zip [(''h'', 1 :: int), (''g'', 2), (''h'', 3)]
      (conn_run 1 10 [(''h'', 1), (''g'', 2), (''h'', 3)] no_rates))) =
   conn_run 1 10 (filter (\<lambda>(i, t). i = ''h'') [(''h'', 1), (''g'', 2), (''h'', 3)]) no_rates"
  by (rule inbound_isolation) simp

fun add_run :: "int \<Rightarrow> (string \<times> int) list \<Rightarrow> (string \<times> int) list \<Rightarrow> bool list" where
  "add_run C [] s = []"
| "add_run C ((p, t) # reqs) s =
     fst (allowAddRequest C p t s) # add_run C reqs (snd (allowAddRequest C p t s))"

definition granted_times :: "string \<Rightarrow> (string \<times> int) list \<Rightarrow> bool list \<Rightarrow> int list" where
  "granted_times peer reqs decisions =
     map (snd \<circ> fst) (filter (\<lambda>((p, t), d). p = peer \<and> d) (zip reqs decisions))"

lemma allowAddRequest_cases:
  assumes "0 < C"
  shows "map_of (snd (allowAddRequest C p t s)) peer =
           (if p = peer \<and> fst (allowAddRequest C p t s) then Some t else map_of s peer)"
    and "fst (allowAddRequest C p t s) \<Longrightarrow> map_of s p = Some l \<Longrightarrow> l + C \<le> t"
  using assms by (auto simp: allowAddRequest_def update_conv simp del: map_of_eq_Some_iff split: option.splits if_splits)

lemma add_run_spaced:
  assumes "0 < C"
  shows "sorted_wrt (\<lambda>t t'. t + C \<le> t') (granted_times peer reqs (add_run C reqs s)) \<and>
         (\<forall>l. map_of s peer = Some l \<longrightarrow> (\<forall>t \<in> set (granted_times peer reqs (add_run C reqs s)). l + C \<le> t))"
proof (induction reqs arbitrary: s)
  case Nil
  then show ?case by (simp add: granted_times_def)
next
  case (Cons q reqs)
  obtain p t where q: "q = (p, t)" by (cases q)
  let ?s = "snd (allowAddRequest C p t s)" and ?g = "fst (allowAddRequest C p t s)"
  have split: "granted_times peer (q # reqs) (add_run C (q # reqs) s) =
      (if p = peer \<and> ?g then [t] else []) @ granted_times peer reqs (add_run C reqs ?s)"
    by (auto simp: granted_times_def q)
  note IH = Cons.IH [of ?s] and st = allowAddRequest_cases [OF assms, of p t s]
  show ?case
  proof (cases "p = peer \<and> ?g")
    case True
    then have "map_of ?s peer = Some t" using st(1) [of peer] by auto
    then have rest: "\<forall>x \<in> set (granted_times peer reqs (add_run C reqs ?s)). t + C \<le> x"
      using IH by blast
    have first: "l + C \<le> t" if "map_of s peer = Some l" for l using st(2) True that by blast
    then have "\<forall>l. map_of s peer = Some l \<longrightarrow>
        (\<forall>x \<in> set (granted_times peer reqs (add_run C reqs ?s)). l + C \<le> x)"
      using rest assms by fastforce
    with True rest IH first show ?thesis unfolding split by auto
  next
    case False
    have "granted_times peer (q # reqs) (add_run C (q # reqs) s) = granted_times peer reqs (add_run C reqs ?s)"
      unfolding split if_not_P [OF False] by simp
    moreover have "map_of ?s peer = map_of s peer" unfolding st(1) if_not_P [OF False] ..
    ultimately show ?thesis using IH by simp
  qed
qed

text \<open>Two add requests of one peer that are let through are at least the cooldown apart, in any order of
  requests from any peers.\<close>

theorem add_requests_spaced:
  "0 < cooldown \<Longrightarrow>
   sorted_wrt (\<lambda>t t'. t + cooldown \<le> t') (granted_times peer reqs (add_run cooldown reqs s))"
  using add_run_spaced by blast

theorem add_requests_spaced_witness:
  "sorted_wrt (\<lambda>t t'. t + 30 \<le> t')
     (granted_times ''p'' [(''p'', 1), (''q'', 2), (''p'', 20), (''p'', 31)]
       (add_run 30 [(''p'', 1), (''q'', 2), (''p'', 20), (''p'', 31)] []))"
  by (rule add_requests_spaced) simp

text \<open>A file request passes exactly when it repeats an identifier that passed within the window, which
  costs nothing, or when fewer than the limit of new requests passed within the window; it then counts
  itself. The history of a peer never exceeds the limit and holds nothing older than the window, and other
  peers are not affected.\<close>

theorem file_request_rate:
  assumes "0 < limit" and "0 < window" and "peer \<noteq> []" and "TrimSpace fileID \<noteq> []"
    and "allowFileRequest limit window peer fileID now s = (ok, s')"
    and "int (length (history_of peer s)) \<le> limit"
  shows "let recent = filter (\<lambda>t. now - window < t) (history_of peer s);
             again = TrimSpace fileID \<in> fst ` set (filter (\<lambda>(i, t). now - window < t) (seen_of peer s))
         in (ok \<longleftrightarrow> again \<or> int (length recent) < limit) \<and>
            history_of peer s' = (if \<not> again \<and> ok then recent @ [now] else recent) \<and>
            int (length (history_of peer s')) \<le> limit \<and>
            (ok \<longrightarrow> map_of (seen_of peer s') (TrimSpace fileID) = Some now) \<and>
            (\<forall>p. p \<noteq> peer \<longrightarrow> history_of p s' = history_of p s \<and> seen_of p s' = seen_of p s)"
proof -
  have eff: "file_effect limit window peer fileID now (history_of peer s, seen_of peer s) =
      (ok, history_of peer s', seen_of peer s')"
    using allowFileRequest_effect [of limit window peer fileID now s] assms(5) by simp
  have len: "int (length (filter ((<) (now - window)) (history_of peer s))) \<le> limit"
    using length_filter_le [of "(<) (now - window)" "history_of peer s"] assms(6) by linarith
  have other: "p \<noteq> peer \<Longrightarrow> history_of p s' = history_of p s \<and> seen_of p s' = seen_of p s" for p
    using allowFileRequest_other [of p peer limit window fileID now s] assms(5) by simp
  let ?again = "TrimSpace fileID \<in> fst ` set (filter (\<lambda>(i, t). now - window < t) (seen_of peer s))"
  consider "?again" | "\<not> ?again" "limit \<le> int (length (filter (\<lambda>t. now - window < t) (history_of peer s)))"
    | "\<not> ?again" "\<not> limit \<le> int (length (filter (\<lambda>t. now - window < t) (history_of peer s)))" by blast
  then show ?thesis
  proof cases
    case 1
    then have "ok \<and> history_of peer s' = filter (\<lambda>t. now - window < t) (history_of peer s) \<and>
        seen_of peer s' = AList.update (TrimSpace fileID) now (filter (\<lambda>(i, t). now - window < t) (seen_of peer s))"
      using eff assms(1-4) unfolding file_effect_def Let_def by simp
    with 1 len assms(6) other show ?thesis unfolding Let_def by (simp add: update_conv)
  next
    case 2
    then have "\<not> ok \<and> history_of peer s' = filter (\<lambda>t. now - window < t) (history_of peer s)"
      using eff assms(1-4) unfolding file_effect_def Let_def by simp
    with 2 len assms(6) other show ?thesis unfolding Let_def by simp
  next
    case 3
    then have "ok \<and> history_of peer s' = filter (\<lambda>t. now - window < t) (history_of peer s) @ [now] \<and>
        seen_of peer s' = AList.update (TrimSpace fileID) now (filter (\<lambda>(i, t). now - window < t) (seen_of peer s))"
      using eff assms(1-4) unfolding file_effect_def Let_def by simp
    with 3 other show ?thesis unfolding Let_def by (simp add: update_conv)
  qed
qed

theorem file_request_rate_witness:
  "\<exists>s'. allowFileRequest 1 60 ''p'' ''f'' 100 \<lparr>fileRequestHistory = [], fileRequestSeenIDs = []\<rparr> = (True, s') \<and>
        history_of ''p'' s' = [100] \<and> map_of (seen_of ''p'' s') ''f'' = Some 100"
proof -
  let ?s = "\<lparr>fileRequestHistory = [], fileRequestSeenIDs = []\<rparr>"
  have "fst (allowFileRequest 1 60 ''p'' ''f'' 100 ?s) = True" by code_simp
  then obtain s' where s': "allowFileRequest 1 60 ''p'' ''f'' 100 ?s = (True, s')" by (metis prod.collapse)
  have f: "TrimSpace ''f'' = ''f''" by code_simp
  have h: "history_of ''p'' ?s = []" "seen_of ''p'' ?s = []" by (simp_all add: history_of_def seen_of_def)
  show ?thesis
    using file_request_rate [OF _ _ _ _ s'] s' by (simp add: f h Let_def)
qed

end
