(* ===== verification/Manager.thy ===== *)
theory Manager
  imports Connection StoreFiles RateLimit
begin

text \<open>
  The state of \<open>PeerManager\<close> (\<open>src/network/peer_manager.go\<close>) and the operations every handler uses:
  the connection table, error reports, the security log, signing and verifying messages, sending on a
  connection, the message builders.

  A \<open>*PeerConnection\<close> is a number into \<open>mg_heap\<close>; \<open>connections\<close> maps a peer to the connection that is
  active for it. \<open>mg_errors\<close>, \<open>mg_received\<close> and \<open>mg_sent\<close> record, in order, the errors reported, the
  messages passed to \<open>OnMessageReceived\<close>, and the packets \<open>SendMessage\<close> accepted, each with the
  connection it went out on, and \<open>mg_overflow\<close> the calls of \<open>OnQueueOverflow\<close>; no handler reads them.
  A waiter for a rekey response is a numbered one-place box. \<open>mg_stopped\<close> is whether the manager's context is cancelled. What a handler draws from outside
  (primitives, JSON, clock, ephemeral key, and two nonces, one for the secure frame and one for the
  content of a chat message) is the record \<open>Env\<close>.
\<close>

record Env =
  en_P :: Prims
  en_J :: Json
  en_iv :: string
  en_content_iv :: string
  en_now :: int
  en_eph :: string
  en_json_valid :: "string \<Rightarrow> bool"
  en_details :: "(string \<times> string) list \<Rightarrow> string"

record Manager =
  mg_identity :: LocalIdentity
  localDeviceName :: string
  mg_store :: Store
  mg_heap :: "nat \<Rightarrow> Conn"
  connections :: "(string \<times> nat) list"
  knownKeys :: "(string \<times> string) list"
  outboundAddPending :: "string list"
  outboundAddResponse :: "(string \<times> nat) list"
  suppressReconnect :: "string list"
  reconnectWorkers :: "string list"
  lastAddRequestAt :: "(string \<times> int) list"
  addRequestCooldown :: int
  fileRates :: FileRates
  pendingRekeyWaiters :: "(string \<times> nat \<times> RekeyResponse res option) list"
  mg_waiter_seq :: nat
  mg_errors :: "go_error list"
  mg_received :: "Message list"
  mg_sent :: "(nat \<times> Packet) list"
  mg_overflow :: "(string \<times> nat) list"
  mg_stopped :: bool

definition env_ms :: "Env \<Rightarrow> int" where
  "env_ms env = now_ms (en_now env)"

definition local_id :: "Manager \<Rightarrow> string" where
  "local_id m = id_DeviceID (mg_identity m)"

definition conn_of :: "Manager \<Rightarrow> nat \<Rightarrow> Conn" where
  "conn_of m i = mg_heap m i"

definition peer_of :: "Manager \<Rightarrow> nat \<Rightarrow> string" where
  "peer_of m i = peerDeviceID (mg_heap m i)"

definition set_conn :: "nat \<Rightarrow> Conn \<Rightarrow> Manager \<Rightarrow> Manager" where
  "set_conn i c m = m\<lparr>mg_heap := (mg_heap m)(i := c)\<rparr>"

definition getConnection :: "string \<Rightarrow> Manager \<Rightarrow> nat option" where
  "getConnection peer m = map_of (connections m) peer"

definition reportError :: "go_error \<Rightarrow> Manager \<Rightarrow> Manager" where
  "reportError e m = m\<lparr>mg_errors := mg_errors m @ [e]\<rparr>"

definition report_result :: "go_error option \<Rightarrow> Manager \<Rightarrow> Manager" where
  "report_result r m = (case r of None \<Rightarrow> m | Some e \<Rightarrow> reportError e m)"

text \<open>Run a statement against the store and keep its error.\<close>

definition on_store :: "stmt \<Rightarrow> Manager \<Rightarrow> go_error option \<times> Manager" where
  "on_store f m = (let (r, s) = f (mg_store m) in (r, m\<lparr>mg_store := s\<rparr>))"

definition logSecurityEvent ::
    "Env \<Rightarrow> string \<Rightarrow> string \<Rightarrow> string \<Rightarrow> (string \<times> string) list \<Rightarrow> Manager \<Rightarrow> Manager" where
  "logSecurityEvent env eventType peer severity details m =
     (let ev = \<lparr>e_ID = 0, e_EventType = eventType,
                e_PeerDeviceID = (if peer \<noteq> [] then Some peer else None),
                e_Details = (if details = [] then ''{}'' else en_details env details),
                e_Severity = severity, e_Timestamp = env_ms env\<rparr>;
          (r, m1) = on_store (LogSecurityEvent (en_json_valid env) (env_ms env) ev) m
      in case r of None \<Rightarrow> m1 | Some e \<Rightarrow> reportError (Wrap ''log security event'' e) m1)"

definition send :: "Env \<Rightarrow> nat \<Rightarrow> Packet \<Rightarrow> Manager \<Rightarrow> go_error option \<times> Manager" where
  "send env i p m =
     (let (r, c) = SendMessage (en_P env) (en_J env) (en_iv env) (en_now env) p (mg_heap m i);
          m1 = set_conn i c m
      in (r, if r = None then m1\<lparr>mg_sent := mg_sent m1 @ [(i, p)]\<rparr> else m1))"

definition close_conn :: "nat \<Rightarrow> Manager \<Rightarrow> Manager" where
  "close_conn i m = set_conn i (Close (mg_heap m i)) m"

definition sendErrorMessage ::
    "Env \<Rightarrow> nat \<Rightarrow> string \<Rightarrow> string \<Rightarrow> string \<Rightarrow> Manager \<Rightarrow> Manager" where
  "sendErrorMessage env i code message relatedMessageID m =
     snd (send env i (PError \<lparr>er_Code = code, er_Message = message,
            er_RelatedMessageID = relatedMessageID, er_SupportedVersions = [],
            er_Timestamp = env_ms env\<rparr>) m)"

section \<open>Time and signatures\<close>

definition maxTimestampSkew :: int where "maxTimestampSkew = 5 * 60 * Second"

definition withinTimestampSkew :: "int \<Rightarrow> int \<Rightarrow> bool" where
  "withinTimestampSkew now timestamp \<longleftrightarrow>
     (if timestamp = 0 then False else \<bar>now - timestamp * 1000000\<bar> \<le> maxTimestampSkew)"

definition decodePeerPublicKey :: "string \<Rightarrow> string res" where
  "decodePeerPublicKey keyBase64 =
     (case DecodeString keyBase64 of
        Inl e \<Rightarrow> Inl (Wrap ''decode peer Ed25519 public key'' e)
      | Inr raw \<Rightarrow>
          if length raw \<noteq> PublicKeySize then Inl (Err ''invalid peer Ed25519 public key size'')
          else Inr raw)"

text \<open>
  Every \<open>sign\<dots>\<close> function signs the JSON of its message with an empty signature, every \<open>verify\<dots>\<close>
  function checks the same bytes under the key the handshake settled for the connection.
\<close>

definition sign_packet :: "Env \<Rightarrow> Packet \<Rightarrow> Manager \<Rightarrow> string res" where
  "sign_packet env body m =
     map_sum id EncodeToString
       (Sign (en_P env) (id_Ed25519PrivateKey (mg_identity m)) (json_Marshal (en_J env) body))"

definition verify_packet :: "Env \<Rightarrow> nat \<Rightarrow> Packet \<Rightarrow> string \<Rightarrow> Manager \<Rightarrow> go_error option" where
  "verify_packet env i body signature m =
     (case decodePeerPublicKey (peerPublicKey (mg_heap m i)) of
        Inl e \<Rightarrow> Some e
      | Inr publicKey \<Rightarrow>
          (case DecodeString signature of
             Inl e \<Rightarrow> Some (Wrap ''decode signature'' e)
           | Inr sig \<Rightarrow>
               if \<not> Verify (en_P env) publicKey (json_Marshal (en_J env) body) sig
               then Some (Err ''invalid signature'') else None))"

definition signPeerAddRequest :: "Env \<Rightarrow> PeerAddRequest \<Rightarrow> Manager \<Rightarrow> PeerAddRequest res" where
  "signPeerAddRequest env msg m =
     map_sum id (\<lambda>s. msg\<lparr>ar_Signature := s\<rparr>) (sign_packet env (PPeerAddRequest (msg\<lparr>ar_Signature := []\<rparr>)) m)"

definition verifyPeerAddRequest :: "Env \<Rightarrow> nat \<Rightarrow> PeerAddRequest \<Rightarrow> Manager \<Rightarrow> go_error option" where
  "verifyPeerAddRequest env i msg m =
     verify_packet env i (PPeerAddRequest (msg\<lparr>ar_Signature := []\<rparr>)) (ar_Signature msg) m"

definition signPeerAddResponse :: "Env \<Rightarrow> PeerAddResponse \<Rightarrow> Manager \<Rightarrow> PeerAddResponse res" where
  "signPeerAddResponse env msg m =
     map_sum id (\<lambda>s. msg\<lparr>as_Signature := s\<rparr>) (sign_packet env (PPeerAddResponse (msg\<lparr>as_Signature := []\<rparr>)) m)"

definition verifyPeerAddResponse :: "Env \<Rightarrow> nat \<Rightarrow> PeerAddResponse \<Rightarrow> Manager \<Rightarrow> go_error option" where
  "verifyPeerAddResponse env i msg m =
     verify_packet env i (PPeerAddResponse (msg\<lparr>as_Signature := []\<rparr>)) (as_Signature msg) m"

definition signPeerRemove :: "Env \<Rightarrow> PeerRemove \<Rightarrow> Manager \<Rightarrow> PeerRemove res" where
  "signPeerRemove env msg m =
     map_sum id (\<lambda>s. msg\<lparr>pr_Signature := s\<rparr>) (sign_packet env (PPeerRemove (msg\<lparr>pr_Signature := []\<rparr>)) m)"

definition verifyPeerRemove :: "Env \<Rightarrow> nat \<Rightarrow> PeerRemove \<Rightarrow> Manager \<Rightarrow> go_error option" where
  "verifyPeerRemove env i msg m =
     verify_packet env i (PPeerRemove (msg\<lparr>pr_Signature := []\<rparr>)) (pr_Signature msg) m"

definition signEncryptedMessage :: "Env \<Rightarrow> EncryptedMessage \<Rightarrow> Manager \<Rightarrow> EncryptedMessage res" where
  "signEncryptedMessage env msg m =
     map_sum id (\<lambda>s. msg\<lparr>em_Signature := s\<rparr>) (sign_packet env (PMessage (msg\<lparr>em_Signature := []\<rparr>)) m)"

definition verifyEncryptedMessageSignature :: "Env \<Rightarrow> nat \<Rightarrow> EncryptedMessage \<Rightarrow> Manager \<Rightarrow> go_error option" where
  "verifyEncryptedMessageSignature env i msg m =
     (if em_Signature msg = [] then Some (Err ''message signature is required'')
      else verify_packet env i (PMessage (msg\<lparr>em_Signature := []\<rparr>)) (em_Signature msg) m)"

definition signRekeyRequest :: "Env \<Rightarrow> RekeyRequest \<Rightarrow> Manager \<Rightarrow> RekeyRequest res" where
  "signRekeyRequest env msg m =
     map_sum id (\<lambda>s. msg\<lparr>rq_Signature := s\<rparr>) (sign_packet env (PRekeyRequest (msg\<lparr>rq_Signature := []\<rparr>)) m)"

definition verifyRekeyRequest :: "Env \<Rightarrow> nat \<Rightarrow> RekeyRequest \<Rightarrow> Manager \<Rightarrow> go_error option" where
  "verifyRekeyRequest env i msg m =
     verify_packet env i (PRekeyRequest (msg\<lparr>rq_Signature := []\<rparr>)) (rq_Signature msg) m"

definition signRekeyResponse :: "Env \<Rightarrow> RekeyResponse \<Rightarrow> Manager \<Rightarrow> RekeyResponse res" where
  "signRekeyResponse env msg m =
     map_sum id (\<lambda>s. msg\<lparr>rs_Signature := s\<rparr>) (sign_packet env (PRekeyResponse (msg\<lparr>rs_Signature := []\<rparr>)) m)"

definition verifyRekeyResponse :: "Env \<Rightarrow> nat \<Rightarrow> RekeyResponse \<Rightarrow> Manager \<Rightarrow> go_error option" where
  "verifyRekeyResponse env i msg m =
     verify_packet env i (PRekeyResponse (msg\<lparr>rs_Signature := []\<rparr>)) (rs_Signature msg) m"

definition signAck :: "Env \<Rightarrow> AckMessage \<Rightarrow> Manager \<Rightarrow> AckMessage res" where
  "signAck env msg m =
     map_sum id (\<lambda>s. msg\<lparr>ak_Signature := s\<rparr>) (sign_packet env (PAck (msg\<lparr>ak_Signature := []\<rparr>)) m)"

definition verifyAck :: "Env \<Rightarrow> nat \<Rightarrow> AckMessage \<Rightarrow> Manager \<Rightarrow> go_error option" where
  "verifyAck env i msg m =
     verify_packet env i (PAck (msg\<lparr>ak_Signature := []\<rparr>)) (ak_Signature msg) m"

section \<open>Known keys, names and reconnect marks\<close>

definition setKnownKey :: "string \<Rightarrow> string \<Rightarrow> Manager \<Rightarrow> Manager" where
  "setKnownKey peer key m =
     (if peer = [] \<or> key = [] then m else m\<lparr>knownKeys := AList.update peer key (knownKeys m)\<rparr>)"

definition removeKnownKey :: "string \<Rightarrow> Manager \<Rightarrow> Manager" where
  "removeKnownKey peer m = m\<lparr>knownKeys := AList.delete peer (knownKeys m)\<rparr>"

definition lookupKnownKey :: "string \<Rightarrow> Manager \<Rightarrow> string" where
  "lookupKnownKey peer m =
     (if peer = [] then [] else case map_of (knownKeys m) peer of None \<Rightarrow> [] | Some k \<Rightarrow> k)"

definition markSuppressReconnect :: "string \<Rightarrow> Manager \<Rightarrow> Manager" where
  "markSuppressReconnect peer m = m\<lparr>suppressReconnect := List.insert peer (suppressReconnect m)\<rparr>"

definition consumeSuppressReconnect :: "string \<Rightarrow> Manager \<Rightarrow> bool \<times> Manager" where
  "consumeSuppressReconnect peer m =
     (peer \<in> set (suppressReconnect m), m\<lparr>suppressReconnect := removeAll peer (suppressReconnect m)\<rparr>)"

definition startReconnect :: "string \<Rightarrow> Manager \<Rightarrow> Manager" where
  "startReconnect peer m =
     (if peer = [] then m else m\<lparr>reconnectWorkers := List.insert peer (reconnectWorkers m)\<rparr>)"

definition stopReconnect :: "string \<Rightarrow> Manager \<Rightarrow> Manager" where
  "stopReconnect peer m = m\<lparr>reconnectWorkers := removeAll peer (reconnectWorkers m)\<rparr>"

definition fingerprintFromBase64 :: "Prims \<Rightarrow> string \<Rightarrow> string res" where
  "fingerprintFromBase64 P keyBase64 =
     (case DecodeString keyBase64 of
        Inl e \<Rightarrow> Inl (Wrap ''decode peer public key'' e)
      | Inr k \<Rightarrow> if length k \<noteq> PublicKeySize then Inl (Err ''invalid peer Ed25519 public key size'')
                else Inr (KeyFingerprint P k))"

fun stringsEqualFold :: "string \<Rightarrow> string \<Rightarrow> bool" where
  "stringsEqualFold [] [] = True"
| "stringsEqualFold (a # s) (b # t) = (lower_char a = lower_char b \<and> stringsEqualFold s t)"
| "stringsEqualFold _ _ = False"

section \<open>Lemmas\<close>

lemma send_frame:
  assumes "send env i p m = (r, m')"
  shows "mg_store m' = mg_store m" and "mg_identity m' = mg_identity m" and "mg_errors m' = mg_errors m"
    and "mg_received m' = mg_received m" and "knownKeys m' = knownKeys m"
    and "mg_sent m' = (if r = None then mg_sent m @ [(i, p)] else mg_sent m)"
    and "connections m' = connections m" and "suppressReconnect m' = suppressReconnect m"
  using assms by (auto simp: send_def Let_def set_conn_def split: prod.splits if_splits)

lemma send_frame14: "send env i p m = (r, m') \<Longrightarrow> mg_store m' = mg_store m \<and> mg_received m' = mg_received m"
  using send_frame(1,4) by blast

lemma sendErrorMessage_frame [simp]:
  "mg_store (sendErrorMessage env i c t r m) = mg_store m"
  "mg_identity (sendErrorMessage env i c t r m) = mg_identity m"
  "mg_received (sendErrorMessage env i c t r m) = mg_received m"
  "knownKeys (sendErrorMessage env i c t r m) = knownKeys m"
  by (simp_all add: sendErrorMessage_def send_def Let_def set_conn_def split: prod.split)

lemma reportError_frame [simp]:
  "mg_store (reportError e m) = mg_store m" "mg_heap (reportError e m) = mg_heap m"
  "mg_identity (reportError e m) = mg_identity m" "mg_received (reportError e m) = mg_received m"
  "mg_sent (reportError e m) = mg_sent m" "knownKeys (reportError e m) = knownKeys m"
  "connections (reportError e m) = connections m" "suppressReconnect (reportError e m) = suppressReconnect m"
  by (simp_all add: reportError_def)

lemma set_conn_frame [simp]:
  "mg_store (set_conn i c m) = mg_store m" "mg_identity (set_conn i c m) = mg_identity m"
  "mg_received (set_conn i c m) = mg_received m" "mg_sent (set_conn i c m) = mg_sent m"
  "knownKeys (set_conn i c m) = knownKeys m" "mg_heap (set_conn i c m) = (mg_heap m)(i := c)"
  by (simp_all add: set_conn_def)

text \<open>Logging a security event touches only the event log of the store.\<close>

definition chat_part :: "Store \<Rightarrow> Message list \<times> SeenID list \<times> Peer list \<times> FileMetadata list \<times> PeerSettings list \<times> KeyRotationEvent list" where
  "chat_part s = (st_messages s, st_seen s, st_peers s, st_files s, st_settings s, st_rotations s)"

lemma chat_part_log_insert: "chat_part (snd (log_insert t e s)) = chat_part s"
  by (simp add: log_insert_def Let_def PruneSecurityEvents_def chat_part_def)

lemma chat_part_LogSecurityEvent: "chat_part (snd (LogSecurityEvent jv t e s)) = chat_part s"
  by (simp add: LogSecurityEvent_def Let_def chat_part_log_insert split: option.split)

lemma chat_part_logSecurityEvent: "chat_part (mg_store (logSecurityEvent env t p v d m)) = chat_part (mg_store m)"
proof -
  have "mg_store (logSecurityEvent env t p v d m) =
      snd (LogSecurityEvent (en_json_valid env) (env_ms env)
        \<lparr>e_ID = 0, e_EventType = t, e_PeerDeviceID = (if p \<noteq> [] then Some p else None),
         e_Details = (if d = [] then ''{}'' else en_details env d), e_Severity = v,
         e_Timestamp = env_ms env\<rparr> (mg_store m))"
    by (simp add: logSecurityEvent_def on_store_def Let_def reportError_def split: prod.split option.split)
  then show ?thesis by (simp add: chat_part_LogSecurityEvent)
qed

lemma logSecurityEvent_frame [simp]:
  "st_messages (mg_store (logSecurityEvent env t p v d m)) = st_messages (mg_store m)"
  "st_seen (mg_store (logSecurityEvent env t p v d m)) = st_seen (mg_store m)"
  "st_peers (mg_store (logSecurityEvent env t p v d m)) = st_peers (mg_store m)"
  "st_files (mg_store (logSecurityEvent env t p v d m)) = st_files (mg_store m)"
  using chat_part_logSecurityEvent [of env t p v d m] by (simp_all add: chat_part_def)

lemma logSecurityEvent_frame2 [simp]:
  "mg_heap (logSecurityEvent env t p v d m) = mg_heap m"
  "mg_identity (logSecurityEvent env t p v d m) = mg_identity m"
  "mg_received (logSecurityEvent env t p v d m) = mg_received m"
  "mg_sent (logSecurityEvent env t p v d m) = mg_sent m"
  "knownKeys (logSecurityEvent env t p v d m) = knownKeys m"
  by (simp_all add: logSecurityEvent_def on_store_def Let_def reportError_def split: prod.split option.split)

end
