(* ===== verification/Messaging.thy ===== *)
theory Messaging
  imports Manager
begin

text \<open>
  Chat messages in \<open>src/network/peer_manager.go\<close>: building and sending a message, the offline queue and
  its limits, receiving a message, acknowledgements and protocol errors.

  Every handler is a function on \<open>Manager\<close> that follows the code from guard to guard; it runs without
  interruption and reads the clock once. The properties speak of what a whole handler does to the store,
  to the messages delivered (\<open>mg_received\<close>) and to the packets sent (\<open>mg_sent\<close>).
\<close>

section \<open>Limits\<close>

definition maxQueueAge :: int where "maxQueueAge = 7 * 24 * 3600 * 1000"
definition maxQueuedMessages :: nat where "maxQueuedMessages = 500"
definition maxQueuedBytesPerPeer :: int where "maxQueuedBytesPerPeer = 50 * 1024 * 1024"

text \<open>
  The loop of \<open>enforceQueueLimits\<close> over the rows not dropped yet. \<open>pending[dropped]\<close> past the end is a
  panic, kept here as an outcome of its own.
\<close>

datatype evicted = IndexPanic | Failed go_error | Dropped nat

definition content_bytes :: "Message list \<Rightarrow> int" where
  "content_bytes ms = (\<Sum>x\<leftarrow>ms. int (length (m_Content x)))"

definition over_limit :: "nat \<Rightarrow> int \<Rightarrow> bool" where
  "over_limit n totalBytes \<longleftrightarrow> maxQueuedMessages < n \<or> maxQueuedBytesPerPeer < totalBytes"

definition serious :: "go_error option \<Rightarrow> go_error option" where
  "serious r = (case r of None \<Rightarrow> None | Some e \<Rightarrow> if errors_Is e ErrNotFound then None else Some e)"

fun evict :: "Message list \<Rightarrow> int \<Rightarrow> nat \<Rightarrow> Manager \<Rightarrow> evicted \<times> Manager" where
  "evict [] totalBytes dropped m =
     (if over_limit 0 totalBytes then (IndexPanic, m) else (Dropped dropped, m))"
| "evict (oldest # rest) totalBytes dropped m =
     (if over_limit (length (oldest # rest)) totalBytes then
        (let (r, m1) = on_store (UpdateDeliveryStatus (m_MessageID oldest) ''failed'') m
         in case serious r of
              Some e \<Rightarrow> (Failed e, m1)
            | None \<Rightarrow> evict rest (totalBytes - int (length (m_Content oldest))) (dropped + 1) m1)
      else (Dropped dropped, m))"

definition after_evict :: "Env \<Rightarrow> string \<Rightarrow> nat \<Rightarrow> Manager \<Rightarrow> Manager" where
  "after_evict env peer dropped m =
     (if dropped > 0
      then logSecurityEvent env ''connection_rate_limit_triggered'' peer ''warning''
             [(''limit_type'', ''pending_message_queue''), (''dropped_messages'', FormatUint dropped),
              (''max_queued_messages'', FormatUint maxQueuedMessages),
              (''max_queued_bytes'', FormatUint (nat maxQueuedBytesPerPeer))]
             (m\<lparr>mg_overflow := mg_overflow m @ [(peer, dropped)]\<rparr>)
      else m)"

text \<open>The result \<open>None\<close> is the panic.\<close>

definition enforceQueueLimits :: "Env \<Rightarrow> string \<Rightarrow> Manager \<Rightarrow> go_error option option \<times> Manager" where
  "enforceQueueLimits env peer m =
     (if peer = [] then (Some None, m)
      else case PruneExpiredQueue (env_ms env - maxQueueAge) (mg_store m) of
        (Inl e, s) \<Rightarrow> (Some (Some e), m\<lparr>mg_store := s\<rparr>)
      | (Inr _, s) \<Rightarrow>
          (case GetPendingMessages peer s of
             Inl e \<Rightarrow> (Some (Some e), m\<lparr>mg_store := s\<rparr>)
           | Inr pending \<Rightarrow>
               if pending = [] then (Some None, m\<lparr>mg_store := s\<rparr>)
               else case evict pending (content_bytes pending) 0 (m\<lparr>mg_store := s\<rparr>) of
                      (IndexPanic, m1) \<Rightarrow> (None, m1)
                    | (Failed e, m1) \<Rightarrow> (Some (Some e), m1)
                    | (Dropped n, m1) \<Rightarrow> (Some None, after_evict env peer n m1)))"

section \<open>Sending\<close>

definition buildEncryptedMessage ::
    "Env \<Rightarrow> nat \<Rightarrow> string \<Rightarrow> string \<Rightarrow> int \<Rightarrow> Manager \<Rightarrow> EncryptedMessage res \<times> Manager" where
  "buildEncryptedMessage env i messageID content timestamp m =
     (let ts = (if timestamp = 0 then env_ms env else timestamp);
          c = mg_heap m i
      in case Encrypt (en_P env) (en_content_iv env) (sessionKey c) content of
           Inl e \<Rightarrow> (Inl e, m)
         | Inr (ciphertext, iv) \<Rightarrow>
             let (n, c1) = NextSendSequence c; m1 = set_conn i c1 m;
                 wire = \<lparr>em_MessageID = messageID, em_FromDeviceID = local_id m,
                         em_ToDeviceID = peerDeviceID c, em_ContentType = ''text'', em_Sequence = n,
                         em_EncryptedContent = EncodeToString ciphertext, em_IV = EncodeToString iv,
                         em_Timestamp = ts, em_Signature = []\<rparr>
             in (signEncryptedMessage env wire m1, m1))"

definition outgoing_row :: "Manager \<Rightarrow> string \<Rightarrow> string \<Rightarrow> string \<Rightarrow> int \<Rightarrow> string \<Rightarrow> string \<Rightarrow> Message" where
  "outgoing_row m peer messageID content timestampSent status signature =
     \<lparr>m_MessageID = messageID, m_FromDeviceID = local_id m, m_ToDeviceID = peer, m_Content = content,
      m_ContentType = ''text'', m_TimestampSent = timestampSent, m_TimestampReceived = None,
      m_IsRead = False, m_DeliveryStatus = status, m_Signature = signature\<rparr>"

text \<open>The first half of \<open>sendTextMessageWithID\<close>: try the connection, if there is one.\<close>

definition try_send ::
    "Env \<Rightarrow> string \<Rightarrow> string \<Rightarrow> string \<Rightarrow> int \<Rightarrow> Manager \<Rightarrow> (string \<times> string) res \<times> Manager" where
  "try_send env peer messageID content timestampSent m =
     (case getConnection peer m of
        None \<Rightarrow> (Inr (''pending'', []), m)
      | Some i \<Rightarrow>
          if conn_state (mg_heap m i) = StateDisconnected then (Inr (''pending'', []), m)
          else case buildEncryptedMessage env i messageID content timestampSent m of
                 (Inl e, m1) \<Rightarrow> (Inl e, m1)
               | (Inr wire, m1) \<Rightarrow>
                   (case send env i (PMessage wire) m1 of
                      (None, m2) \<Rightarrow> (Inr (''sent'', em_Signature wire), m2)
                    | (Some e, m2) \<Rightarrow>
                        (Inr (''pending'', []), reportError (Wrap ''send message failed, queueing'' e) m2)))"

definition save_outgoing ::
    "Env \<Rightarrow> string \<Rightarrow> string \<Rightarrow> string \<Rightarrow> int \<Rightarrow> string \<Rightarrow> string \<Rightarrow> Manager \<Rightarrow> go_error option option \<times> Manager" where
  "save_outgoing env peer messageID content timestampSent status signature m =
     (case on_store (SaveMessage (env_ms env)
             (outgoing_row m peer messageID content timestampSent status signature)) m of
        (Some e, m1) \<Rightarrow> (Some (Some e), m1)
      | (None, m1) \<Rightarrow>
          if status = ''pending'' then enforceQueueLimits env peer m1 else (Some None, m1))"

definition sendTextMessageWithID ::
    "Env \<Rightarrow> string \<Rightarrow> string \<Rightarrow> string \<Rightarrow> int \<Rightarrow> Manager \<Rightarrow> go_error option option \<times> Manager" where
  "sendTextMessageWithID env peer messageID content timestampSent m =
     (case try_send env peer messageID content timestampSent m of
        (Inl e, m1) \<Rightarrow> (Some (Some e), m1)
      | (Inr (status, signature), m1) \<Rightarrow>
          save_outgoing env peer messageID content timestampSent status signature m1)"

text \<open>\<open>messageID\<close> is what \<open>uuid.NewString\<close> returns.\<close>

definition SendTextMessage ::
    "Env \<Rightarrow> string \<Rightarrow> string \<Rightarrow> string \<Rightarrow> Manager \<Rightarrow> go_error option option \<times> Manager" where
  "SendTextMessage env messageID peer content m =
     (if peer = [] then (Some (Some (Err ''peer device ID is required'')), m)
      else if content = [] then (Some (Some (Err ''content is required'')), m)
      else sendTextMessageWithID env peer messageID content (env_ms env) m)"

definition sendPendingMessage :: "Env \<Rightarrow> nat \<Rightarrow> Message \<Rightarrow> Manager \<Rightarrow> go_error option \<times> Manager" where
  "sendPendingMessage env i message m =
     (case buildEncryptedMessage env i (m_MessageID message) (m_Content message) (m_TimestampSent message) m of
        (Inl e, m1) \<Rightarrow> (Some e, m1)
      | (Inr wire, m1) \<Rightarrow>
          (case send env i (PMessage wire) m1 of
             (Some e, m2) \<Rightarrow> (Some e, m2)
           | (None, m2) \<Rightarrow>
               let (r, m3) = on_store (UpdateDeliveryStatus (m_MessageID message) ''sent'') m2
               in (serious r, m3)))"

text \<open>\<open>env k\<close> is what the \<open>k\<close>-th turn of the loop draws.\<close>

fun drain_loop :: "(nat \<Rightarrow> Env) \<Rightarrow> nat \<Rightarrow> nat \<Rightarrow> Message list \<Rightarrow> Manager \<Rightarrow> go_error option \<times> Manager" where
  "drain_loop env k i [] m = (None, m)"
| "drain_loop env k i (p # pending) m =
     (if mg_stopped m then (None, m)
      else if conn_state (mg_heap m i) = StateDisconnected then (None, m)
      else case sendPendingMessage (env k) i p m of
             (Some e, m1) \<Rightarrow> (Some e, m1)
           | (None, m1) \<Rightarrow> drain_loop env (k + 1) i pending m1)"

definition drainPendingMessages ::
    "(nat \<Rightarrow> Env) \<Rightarrow> string \<Rightarrow> nat \<Rightarrow> Manager \<Rightarrow> go_error option option \<times> Manager" where
  "drainPendingMessages env peer i m =
     (case enforceQueueLimits (env 0) peer m of
        (None, m1) \<Rightarrow> (None, m1)
      | (Some (Some e), m1) \<Rightarrow> (Some (Some e), m1)
      | (Some None, m1) \<Rightarrow>
          (case GetPendingMessages peer (mg_store m1) of
             Inl e \<Rightarrow> (Some (Some e), m1)
           | Inr pending \<Rightarrow> apfst Some (drain_loop env 1 i pending m1)))"

section \<open>Receiving\<close>

definition incoming_row :: "int \<Rightarrow> EncryptedMessage \<Rightarrow> string \<Rightarrow> Message" where
  "incoming_row receivedAt msg plaintext =
     \<lparr>m_MessageID = em_MessageID msg, m_FromDeviceID = em_FromDeviceID msg,
      m_ToDeviceID = em_ToDeviceID msg, m_Content = plaintext,
      m_ContentType = (if em_ContentType msg = [] then ''text'' else em_ContentType msg),
      m_TimestampSent = em_Timestamp msg, m_TimestampReceived = Some receivedAt, m_IsRead = False,
      m_DeliveryStatus = ''delivered'', m_Signature = em_Signature msg\<rparr>"

text \<open>The tail of \<open>handleIncomingEncryptedMessage\<close>, once the content is decrypted.\<close>

definition send_ack :: "Env \<Rightarrow> nat \<Rightarrow> string \<Rightarrow> Manager \<Rightarrow> Manager" where
  "send_ack env i messageID m =
     (case signAck env \<lparr>ak_MessageID = messageID, ak_FromDeviceID = local_id m,
                       ak_Status = ''delivered'', ak_Timestamp = env_ms env, ak_Signature = []\<rparr> m of
        Inl e \<Rightarrow> reportError e m
      | Inr ack \<Rightarrow> (let (r, m1) = send env i (PAck ack) m in report_result r m1))"

definition deliver_message :: "Env \<Rightarrow> nat \<Rightarrow> Message \<Rightarrow> Manager \<Rightarrow> Manager" where
  "deliver_message env i row m =
     (case on_store (SaveMessage (env_ms env) row) m of
        (Some e, m1) \<Rightarrow> reportError e m1
      | (None, m1) \<Rightarrow>
          let (r, m2) = on_store (InsertSeenID (env_ms env) (m_MessageID row) (env_ms env)) m1;
              m3 = report_result r m2;
              m4 = m3\<lparr>mg_received := mg_received m3 @ [row]\<rparr>
          in send_ack env i (m_MessageID row) m4)"

definition open_message :: "Env \<Rightarrow> nat \<Rightarrow> EncryptedMessage \<Rightarrow> Manager \<Rightarrow> Manager" where
  "open_message env i msg m =
     (case DecodeString (em_EncryptedContent msg) of
        Inl e \<Rightarrow> reportError e m
      | Inr ciphertext \<Rightarrow>
      (case DecodeString (em_IV msg) of
        Inl e \<Rightarrow> reportError e m
      | Inr iv \<Rightarrow>
      (case verifyEncryptedMessageSignature env i msg m of
        Some e \<Rightarrow>
          sendErrorMessage env i ''invalid_signature'' ''message signature verification failed'' (em_MessageID msg)
            (logSecurityEvent env ''signature_verification_failed'' (em_FromDeviceID msg) ''warning''
              [(''message_type'', ''message''), (''message_id'', em_MessageID msg)]
              (reportError (Err ''rejecting message: invalid signature'') m))
      | None \<Rightarrow>
      (case Decrypt (en_P env) (sessionKey (mg_heap m i)) iv ciphertext of
        Inl e \<Rightarrow>
          sendErrorMessage env i ''decryption_failed'' ''message decryption failed'' (em_MessageID msg)
            (reportError (Wrap ''decrypt message'' e) m)
      | Inr plaintext \<Rightarrow> deliver_message env i (incoming_row (env_ms env) msg plaintext) m))))"

definition check_replay :: "Env \<Rightarrow> nat \<Rightarrow> EncryptedMessage \<Rightarrow> Manager \<Rightarrow> Manager" where
  "check_replay env i msg m =
     (case HasSeenID (em_MessageID msg) (mg_store m) of
        Inl e \<Rightarrow> reportError e m
      | Inr seen \<Rightarrow>
          if seen then
            logSecurityEvent env ''replay_rejected'' (em_FromDeviceID msg) ''warning''
              [(''message_id'', em_MessageID msg), (''reason'', ''duplicate_message_id'')]
              (reportError (Err ''rejecting duplicate message_id'') m)
          else open_message env i msg m)"

definition handleIncomingEncryptedMessage :: "Env \<Rightarrow> nat \<Rightarrow> EncryptedMessage \<Rightarrow> Manager \<Rightarrow> Manager" where
  "handleIncomingEncryptedMessage env i msg m =
     (if em_MessageID msg = [] \<or> em_FromDeviceID msg = [] \<or> em_ToDeviceID msg = [] then m
      else if em_FromDeviceID msg \<noteq> peer_of m i then
        reportError (Err ''rejecting message: sender mismatch'') m
      else if em_ToDeviceID msg \<noteq> local_id m then m
      else if \<not> withinTimestampSkew (en_now env) (em_Timestamp msg) then
        sendErrorMessage env i ''timestamp_out_of_range'' ''message timestamp outside allowed skew''
          (em_MessageID msg) (reportError (Err ''rejecting message: timestamp outside skew window'') m)
      else case ValidateSequence (em_Sequence msg) (mg_heap m i) of
             (Some e, c) \<Rightarrow>
               let m1 = reportError (Wrap ''rejecting message'' e) (set_conn i c m)
               in if errors_Is e ErrSequenceReplay
                  then logSecurityEvent env ''replay_rejected'' (em_FromDeviceID msg) ''warning''
                         [(''message_id'', em_MessageID msg), (''reason'', error_text e),
                          (''sequence'', FormatUint (unat (em_Sequence msg)))] m1
                  else m1
           | (None, c) \<Rightarrow> check_replay env i msg (set_conn i c m))"

section \<open>Acknowledgements and errors\<close>

definition apply_ack :: "AckMessage \<Rightarrow> string \<Rightarrow> Manager \<Rightarrow> Manager" where
  "apply_ack ack peer m =
     (case GetMessageByID (ak_MessageID ack) (mg_store m) of
        Inl e \<Rightarrow> if \<not> errors_Is e ErrNotFound then reportError e m else m
      | Inr stored \<Rightarrow>
          if m_FromDeviceID stored \<noteq> local_id m \<or> m_ToDeviceID stored \<noteq> peer then
            reportError (Err ''rejecting ack: ack does not match message route'') m
          else
            let status = (if ak_Status ack = [] then ''delivered'' else ak_Status ack);
                (r, m1) = (if status = ''delivered'' then on_store (MarkDelivered (ak_MessageID ack)) m
                           else on_store (UpdateDeliveryStatus (ak_MessageID ack) status) m)
            in report_result (serious r) m1)"

definition handleAck :: "Env \<Rightarrow> nat \<Rightarrow> AckMessage \<Rightarrow> Manager \<Rightarrow> Manager" where
  "handleAck env i ack m =
     (if ak_MessageID ack = [] \<or> ak_Signature ack = [] then m
      else let peer = peer_of m i in
      if peer = [] \<or> ak_FromDeviceID ack = [] then m
      else if ak_FromDeviceID ack \<noteq> peer then
        reportError (Err ''rejecting ack: sender mismatch'') m
      else case verifyAck env i ack m of
             Some e \<Rightarrow>
               sendErrorMessage env i ''invalid_signature'' ''ack signature verification failed''
                 (ak_MessageID ack)
                 (logSecurityEvent env ''signature_verification_failed'' peer ''warning''
                   [(''message_type'', ''ack''), (''message_id'', ak_MessageID ack)]
                   (reportError (Wrap ''rejecting ack'' e) m))
           | None \<Rightarrow> apply_ack ack peer m)"

definition handleProtocolError :: "ErrorMessage \<Rightarrow> Manager \<Rightarrow> Manager" where
  "handleProtocolError e m =
     reportError (Wrap ''peer protocol error'' (Err (er_Message e)))
       (if er_RelatedMessageID e \<noteq> [] then
          (let (r, m1) = on_store (UpdateDeliveryStatus (er_RelatedMessageID e) ''failed'') m
           in report_result (serious r) m1)
        else m)"

section \<open>What no handler but the receiver of messages touches\<close>

text \<open>
  \<open>keeps m m'\<close>: the store stays well formed, and neither the table of seen identifiers nor the messages
  delivered change.
\<close>

definition keeps :: "Manager \<Rightarrow> Manager \<Rightarrow> bool" where
  "keeps m m' \<longleftrightarrow> (store_wf (mg_store m) \<longrightarrow> store_wf (mg_store m')) \<and>
     st_seen (mg_store m') = st_seen (mg_store m) \<and> mg_received m' = mg_received m"

named_theorems keeps_intros

lemma keeps_refl [simp, intro]: "keeps m m"
  by (simp add: keeps_def)

lemma keeps_store:
  "keeps m x \<Longrightarrow> store_wf (mg_store x) \<longrightarrow> store_wf s \<Longrightarrow> st_seen s = st_seen (mg_store x) \<Longrightarrow>
   keeps m (x\<lparr>mg_store := s\<rparr>)"
  by (auto simp: keeps_def)

lemma keeps_same_store:
  "keeps m x \<Longrightarrow> mg_store y = mg_store x \<Longrightarrow> mg_received y = mg_received x \<Longrightarrow> keeps m y"
  by (simp add: keeps_def)

lemma keeps_set_conn [keeps_intros]: "keeps m x \<Longrightarrow> keeps m (set_conn i c x)"
  by (rule keeps_same_store) simp_all

lemma keeps_reportError [keeps_intros]: "keeps m x \<Longrightarrow> keeps m (reportError e x)"
  by (rule keeps_same_store) simp_all

lemma keeps_report_result [keeps_intros]: "keeps m x \<Longrightarrow> keeps m (report_result r x)"
  by (simp add: report_result_def keeps_reportError split: option.split)

lemma keeps_sendErrorMessage [keeps_intros]: "keeps m x \<Longrightarrow> keeps m (sendErrorMessage env i c t r x)"
  by (rule keeps_same_store) simp_all

lemma keeps_send [keeps_intros]: "keeps m x \<Longrightarrow> keeps m (snd (send env i p x))"
  by (cases "send env i p x") (auto dest: send_frame(1,4) intro: keeps_same_store)

lemma keeps_on_store:
  "keeps m x \<Longrightarrow> (store_wf (mg_store x) \<Longrightarrow> store_wf (snd (f (mg_store x)))) \<Longrightarrow>
   st_seen (snd (f (mg_store x))) = st_seen (mg_store x) \<Longrightarrow> keeps m (snd (on_store f x))"
  by (auto simp: on_store_def split_beta intro!: keeps_store)

lemma keeps_logSecurityEvent [keeps_intros]:
  "keeps m x \<Longrightarrow> keeps m (logSecurityEvent env t p v d x)"
proof -
  assume k: "keeps m x"
  have "keeps m (snd (on_store (LogSecurityEvent jv t' ev) x))" for jv t' ev
    using k by (rule keeps_on_store)
      (use chat_part_LogSecurityEvent [of jv t' ev "mg_store x"] in \<open>simp_all add: LogSecurityEvent_wf chat_part_def\<close>)
  then show ?thesis
    by (simp add: logSecurityEvent_def Let_def split_beta keeps_intros split: option.split)
qed

lemma st_seen_status [simp]:
  "st_seen (snd (set_delivery_status i st s)) = st_seen s"
  "st_seen (snd (MarkDelivered i s)) = st_seen s"
  "st_seen (snd (UpdateDeliveryStatus i st s)) = st_seen s"
  "st_seen (snd (PruneExpiredQueue t s)) = st_seen s"
  "st_seen (snd (SaveMessage t row s)) = st_seen s"
  by (simp_all add: set_delivery_status_def MarkDelivered_def UpdateDeliveryStatus_def PruneExpiredQueue_def
      SaveMessage_def insert_message_def Let_def split: option.split)

lemma keeps_UpdateDeliveryStatus [keeps_intros]:
  "keeps m x \<Longrightarrow> keeps m (snd (on_store (UpdateDeliveryStatus i st) x))"
  by (rule keeps_on_store) (simp_all add: UpdateDeliveryStatus_wf)

lemma keeps_MarkDelivered [keeps_intros]:
  "keeps m x \<Longrightarrow> keeps m (snd (on_store (MarkDelivered i) x))"
  by (rule keeps_on_store) (simp_all add: MarkDelivered_wf)

lemma keeps_SaveMessage [keeps_intros]:
  "keeps m x \<Longrightarrow> keeps m (snd (on_store (SaveMessage t row) x))"
  by (rule keeps_on_store) (simp_all add: SaveMessage_wf)

lemma keeps_evict [keeps_intros]: "keeps m x \<Longrightarrow> keeps m (snd (evict ms t k x))"
  by (induction ms arbitrary: t k x) (auto simp: Let_def split_beta keeps_intros split: option.split)

lemma keeps_after_evict [keeps_intros]: "keeps m x \<Longrightarrow> keeps m (after_evict env p n x)"
  unfolding after_evict_def by (auto intro!: keeps_intros elim: keeps_same_store)

lemma keeps_enforceQueueLimits [keeps_intros]:
  "keeps m x \<Longrightarrow> keeps m (snd (enforceQueueLimits env p x))"
proof -
  assume k: "keeps m x"
  define s where "s = snd (PruneExpiredQueue (env_ms env - maxQueueAge) (mg_store x))"
  have "keeps m (x\<lparr>mg_store := s\<rparr>)"
    using k by (rule keeps_store) (simp_all add: s_def PruneExpiredQueue_wf)
  from this keeps_evict [OF this] k show ?thesis
    unfolding enforceQueueLimits_def split_beta s_def [symmetric]
    by (auto simp: keeps_after_evict split: sum.split evicted.split)
qed

lemma keeps_build [keeps_intros]: "keeps m x \<Longrightarrow> keeps m (snd (buildEncryptedMessage env i a b t x))"
  by (simp add: buildEncryptedMessage_def Let_def split_beta keeps_intros split: sum.split)

lemma keeps_sendPendingMessage [keeps_intros]: "keeps m x \<Longrightarrow> keeps m (snd (sendPendingMessage env i p x))"
  by (simp add: sendPendingMessage_def Let_def split_beta keeps_intros split: sum.split option.split)

lemma keeps_drain_loop [keeps_intros]: "keeps m x \<Longrightarrow> keeps m (snd (drain_loop env k i ps x))"
  by (induction ps arbitrary: k x) (auto simp: split_beta keeps_intros split: option.split)

lemma keeps_drainPendingMessages [keeps_intros]:
  "keeps m x \<Longrightarrow> keeps m (snd (drainPendingMessages env p i x))"
  by (simp add: drainPendingMessages_def split_beta keeps_intros split: sum.split option.split)

lemma keeps_SendTextMessage [keeps_intros]:
  "keeps m x \<Longrightarrow> keeps m (snd (SendTextMessage env a p c x))"
proof -
  assume k: "keeps m x"
  have "keeps m (snd (try_send env p a c t x))" for t
    using k by (simp add: try_send_def split_beta keeps_intros split: option.split sum.split)
  then have "keeps m (snd (sendTextMessageWithID env p a c t x))" for t
    unfolding sendTextMessageWithID_def split_beta
    by (simp add: save_outgoing_def split_beta keeps_intros split: sum.split option.split)
  with k show ?thesis by (simp add: SendTextMessage_def)
qed

lemma keeps_handleAck [keeps_intros]: "keeps m x \<Longrightarrow> keeps m (handleAck env i ack x)"
  by (simp add: handleAck_def apply_ack_def Let_def split_beta keeps_intros split: option.split sum.split)

lemma keeps_handleProtocolError [keeps_intros]: "keeps m x \<Longrightarrow> keeps m (handleProtocolError e x)"
  by (simp add: handleProtocolError_def split_beta keeps_intros)

section \<open>What the receiver of messages does\<close>

text \<open>
  The specification of \<open>handleIncomingEncryptedMessage\<close>: the plain text of a message that opens on a
  connection, the conditions under which it is taken, and the rows it adds.
\<close>

definition opened_text :: "Env \<Rightarrow> Conn \<Rightarrow> EncryptedMessage \<Rightarrow> string option" where
  "opened_text env c msg =
     (case (DecodeString (em_EncryptedContent msg), DecodeString (em_IV msg),
            DecodeString (peerPublicKey c), DecodeString (em_Signature msg)) of
        (Inr ciphertext, Inr iv, Inr key, Inr sig) \<Rightarrow>
          if em_Signature msg \<noteq> [] \<and> length key = PublicKeySize \<and>
             Verify (en_P env) key (json_Marshal (en_J env) (PMessage (msg\<lparr>em_Signature := []\<rparr>))) sig
          then (case Decrypt (en_P env) (sessionKey c) iv ciphertext of Inl _ \<Rightarrow> None | Inr t \<Rightarrow> Some t)
          else None
      | _ \<Rightarrow> None)"

definition acceptable :: "Env \<Rightarrow> nat \<Rightarrow> EncryptedMessage \<Rightarrow> Manager \<Rightarrow> bool" where
  "acceptable env i msg m \<longleftrightarrow>
     em_MessageID msg \<noteq> [] \<and> em_FromDeviceID msg \<noteq> [] \<and> em_ToDeviceID msg \<noteq> [] \<and>
     em_FromDeviceID msg = peer_of m i \<and> em_ToDeviceID msg = local_id m \<and>
     withinTimestampSkew (en_now env) (em_Timestamp msg) \<and>
     lastSeenSeq (mg_heap m i) < em_Sequence msg \<and>
     em_MessageID msg \<notin> fst ` set (st_seen (mg_store m))"

definition storable :: "EncryptedMessage \<Rightarrow> string \<Rightarrow> Manager \<Rightarrow> bool" where
  "storable msg plaintext m \<longleftrightarrow>
     plaintext \<noteq> [] \<and> (em_ContentType msg = [] \<or> validateContentType (em_ContentType msg) = None) \<and>
     em_MessageID msg \<notin> message_ids (mg_store m) \<and>
     em_FromDeviceID msg \<in> peer_ids (mg_store m) \<and> em_ToDeviceID msg \<in> peer_ids (mg_store m)"

definition delivered_rows :: "Env \<Rightarrow> nat \<Rightarrow> EncryptedMessage \<Rightarrow> Manager \<Rightarrow> Message list" where
  "delivered_rows env i msg m =
     (if acceptable env i msg m then
        (case opened_text env (mg_heap m i) msg of
           None \<Rightarrow> []
         | Some t \<Rightarrow> if storable msg t m then [incoming_row (env_ms env) msg t] else [])
      else [])"

text \<open>The part of the state a chat is about.\<close>

definition chat_view :: "Manager \<Rightarrow> Message list \<times> SeenID list \<times> Message list" where
  "chat_view m = (st_messages (mg_store m), st_seen (mg_store m), mg_received m)"

definition take_in :: "int \<Rightarrow> Message list \<Rightarrow> Message list \<times> SeenID list \<times> Message list \<Rightarrow>
    Message list \<times> SeenID list \<times> Message list" where
  "take_in now rows v =
     (case v of (ms, seen, received) \<Rightarrow>
        (ms @ rows, fold (\<lambda>r. tbl_upsert fst (m_MessageID r, now)) rows seen, received @ rows))"

lemma take_in_Nil [simp]: "take_in t [] v = v"
  by (simp add: take_in_def split: prod.split)

lemma chat_view_simps [simp]:
  "chat_view (reportError e m) = chat_view m" "chat_view (set_conn i c m) = chat_view m"
  "chat_view (sendErrorMessage env i a b r m) = chat_view m"
  "chat_view (logSecurityEvent env t p v d m) = chat_view m"
  "chat_view (snd (send env i pk m)) = chat_view m"
proof -
  show "chat_view (snd (send env i pk m)) = chat_view m"
    by (cases "send env i pk m") (simp add: chat_view_def send_frame(1,4))
qed (simp_all add: chat_view_def)

lemma chat_view_report_result [simp]: "chat_view (report_result r m) = chat_view m"
  by (simp add: report_result_def split: option.split)

lemma chat_view_send_ack [simp]: "chat_view (send_ack env i a m) = chat_view m"
  by (simp add: send_ack_def split_beta split: sum.split)


lemma SaveMessage_incoming:
  assumes "em_MessageID msg \<noteq> []" and "em_FromDeviceID msg \<noteq> []" and "em_ToDeviceID msg \<noteq> []"
    and "em_Timestamp msg \<noteq> 0"
  shows "storable msg t m \<Longrightarrow> SaveMessage now (incoming_row r msg t) (mg_store m) =
      (None, (mg_store m)\<lparr>st_messages := st_messages (mg_store m) @ [incoming_row r msg t]\<rparr>)"
    and "\<not> storable msg t m \<Longrightarrow> \<exists>e. SaveMessage now (incoming_row r msg t) (mg_store m) = (Some e, mg_store m)"
  using assms
  by (auto simp: SaveMessage_def insert_message_def incoming_row_def storable_def Let_def validate_defs
      split: if_splits)

lemma deliver_message_view:
  assumes "em_MessageID msg \<noteq> []" and "em_FromDeviceID msg \<noteq> []" and "em_ToDeviceID msg \<noteq> []"
    and "em_Timestamp msg \<noteq> 0"
  shows "chat_view (deliver_message env i (incoming_row (env_ms env) msg t) m) =
     take_in (env_ms env) (if storable msg t m then [incoming_row (env_ms env) msg t] else []) (chat_view m)"
proof (cases "storable msg t m")
  case True
  have id: "m_MessageID (incoming_row (env_ms env) msg t) = em_MessageID msg"
    by (simp add: incoming_row_def)
  show ?thesis
    using SaveMessage_incoming(1) [OF assms True, of "env_ms env" "env_ms env"] True assms(1)
    by (simp add: deliver_message_def on_store_def InsertSeenID_def id report_result_def Let_def)
       (simp add: chat_view_def take_in_def id)
next
  case False
  then obtain e where "SaveMessage (env_ms env) (incoming_row (env_ms env) msg t) (mg_store m) = (Some e, mg_store m)"
    using SaveMessage_incoming(2) [OF assms False] by blast
  then show ?thesis using False by (simp add: deliver_message_def on_store_def)
qed

lemma verify_message_None:
  "verifyEncryptedMessageSignature env i msg m = None \<longleftrightarrow>
     (\<exists>key sig. DecodeString (peerPublicKey (mg_heap m i)) = Inr key \<and> length key = PublicKeySize \<and>
        DecodeString (em_Signature msg) = Inr sig \<and> em_Signature msg \<noteq> [] \<and>
        Verify (en_P env) key (json_Marshal (en_J env) (PMessage (msg\<lparr>em_Signature := []\<rparr>))) sig)"
  by (auto simp: verifyEncryptedMessageSignature_def verify_packet_def decodePeerPublicKey_def
      split: sum.split)

lemma opened_text_Some:
  "opened_text env (mg_heap m i) msg = Some t \<longleftrightarrow>
     (\<exists>ct iv. DecodeString (em_EncryptedContent msg) = Inr ct \<and> DecodeString (em_IV msg) = Inr iv \<and>
        verifyEncryptedMessageSignature env i msg m = None \<and>
        Decrypt (en_P env) (sessionKey (mg_heap m i)) iv ct = Inr t)"
  unfolding verify_message_None opened_text_def
  by (auto split: sum.splits if_splits)

lemma open_message_view:
  assumes "em_MessageID msg \<noteq> []" and "em_FromDeviceID msg \<noteq> []" and "em_ToDeviceID msg \<noteq> []"
    and "em_Timestamp msg \<noteq> 0"
  shows "chat_view (open_message env i msg m) =
     take_in (env_ms env)
       (case opened_text env (mg_heap m i) msg of
          None \<Rightarrow> [] | Some t \<Rightarrow> if storable msg t m then [incoming_row (env_ms env) msg t] else [])
       (chat_view m)"
proof (cases "opened_text env (mg_heap m i) msg")
  case None
  then have "\<And>ct iv t. DecodeString (em_EncryptedContent msg) = Inr ct \<Longrightarrow> DecodeString (em_IV msg) = Inr iv \<Longrightarrow>
      verifyEncryptedMessageSignature env i msg m = None \<Longrightarrow>
      Decrypt (en_P env) (sessionKey (mg_heap m i)) iv ct \<noteq> Inr t"
    using opened_text_Some [of env m i msg] by auto
  then have "chat_view (open_message env i msg m) = chat_view m"
    by (auto simp: open_message_def split: sum.split option.split)
  with None show ?thesis by simp
next
  case (Some t)
  then obtain ct iv where "DecodeString (em_EncryptedContent msg) = Inr ct" "DecodeString (em_IV msg) = Inr iv"
    "verifyEncryptedMessageSignature env i msg m = None"
    "Decrypt (en_P env) (sessionKey (mg_heap m i)) iv ct = Inr t"
    by (auto simp: opened_text_Some)
  then have "open_message env i msg m = deliver_message env i (incoming_row (env_ms env) msg t) m"
    by (simp add: open_message_def)
  with Some show ?thesis by (simp add: deliver_message_view [OF assms])
qed

lemma opened_text_cong:
  "peerPublicKey c = peerPublicKey c' \<Longrightarrow> sessionKey c = sessionKey c' \<Longrightarrow> opened_text env c msg = opened_text env c' msg"
  unfolding opened_text_def by (elim ssubst) (rule refl)

lemma handle_incoming_view:
  "chat_view (handleIncomingEncryptedMessage env i msg m) =
     take_in (env_ms env) (delivered_rows env i msg m) (chat_view m)"
proof (cases "acceptable env i msg m")
  case True
  then have seq: "ValidateSequence (em_Sequence msg) (mg_heap m i) =
      (None, (mg_heap m i)\<lparr>lastSeenSeq := em_Sequence msg\<rparr>)"
    and guards: "em_MessageID msg \<noteq> []" "em_FromDeviceID msg \<noteq> []" "em_ToDeviceID msg \<noteq> []"
    and ts: "em_Timestamp msg \<noteq> 0"
    by (auto simp: acceptable_def ValidateSequence_def withinTimestampSkew_def split: if_splits)
  define m1 where "m1 = set_conn i ((mg_heap m i)\<lparr>lastSeenSeq := em_Sequence msg\<rparr>) m"
  have "handleIncomingEncryptedMessage env i msg m = open_message env i msg m1"
    using True guards
    by (auto simp: handleIncomingEncryptedMessage_def acceptable_def seq check_replay_def HasSeenID_def m1_def)
  moreover have "storable msg t m1 = storable msg t m" for t by (simp add: storable_def m1_def)
  moreover have "opened_text env (mg_heap m1 i) msg = opened_text env (mg_heap m i) msg"
    by (rule opened_text_cong) (simp_all add: m1_def)
  moreover have "chat_view m1 = chat_view m" by (simp add: m1_def)
  ultimately show ?thesis
    using True open_message_view [OF guards ts, of env i m1]
    by (simp add: delivered_rows_def split: option.split)
next
  case False
  have "chat_view (handleIncomingEncryptedMessage env i msg m) = chat_view m"
  proof (cases "lastSeenSeq (mg_heap m i) < em_Sequence msg")
    case True
    with False show ?thesis
      by (auto simp: handleIncomingEncryptedMessage_def acceptable_def ValidateSequence_def check_replay_def
          HasSeenID_def Let_def)
  next
    case seq: False
    then show ?thesis
      by (auto simp: handleIncomingEncryptedMessage_def ValidateSequence_def Let_def)
  qed
  with False show ?thesis by (simp add: delivered_rows_def)
qed

lemma wf_of_keeps: "keeps x y \<Longrightarrow> store_wf (mg_store x) \<Longrightarrow> store_wf (mg_store y)"
  by (simp add: keeps_def)

lemma wf_blocks:
  assumes "store_wf (mg_store x)"
  shows "store_wf (mg_store (reportError e x))" and "store_wf (mg_store (report_result r x))"
    and "store_wf (mg_store (logSecurityEvent env t p v d x))" and "store_wf (mg_store (set_conn i c x))"
    and "store_wf (mg_store (sendErrorMessage env i a b f x))" and "store_wf (mg_store (snd (send env i pk x)))"
    and "store_wf (mg_store (snd (on_store (SaveMessage now row) x)))"
    and "store_wf (mg_store (snd (on_store (InsertSeenID now k now') x)))"
  using assms
  by (simp_all add: wf_of_keeps [OF _ assms] keeps_intros)
     (simp add: on_store_def split_beta InsertSeenID_wf [OF assms])

lemma wf_send_ack: "store_wf (mg_store x) \<Longrightarrow> store_wf (mg_store (send_ack env i a x))"
  by (simp add: send_ack_def split_beta wf_blocks split: sum.split)

lemma wf_deliver_message: "store_wf (mg_store x) \<Longrightarrow> store_wf (mg_store (deliver_message env i row x))"
  by (simp add: deliver_message_def Let_def split_beta wf_blocks wf_send_ack split: option.split)

lemma wf_open_message: "store_wf (mg_store x) \<Longrightarrow> store_wf (mg_store (open_message env i msg x))"
  by (simp add: open_message_def wf_blocks wf_deliver_message split: option.split sum.split
      del: sendErrorMessage_frame reportError_frame)

lemma wf_handle_incoming:
  "store_wf (mg_store m) \<Longrightarrow> store_wf (mg_store (handleIncomingEncryptedMessage env i msg m))"
proof -
  assume wf: "store_wf (mg_store m)"
  have "store_wf (mg_store (check_replay env i msg x))" if "store_wf (mg_store x)" for x
    using that by (simp add: check_replay_def wf_blocks wf_open_message split: sum.split)
  with wf show ?thesis
    unfolding handleIncomingEncryptedMessage_def
    by (simp add: Let_def wf_blocks ValidateSequence_def del: sendErrorMessage_frame reportError_frame set_conn_frame)
qed

section \<open>Runs\<close>

text \<open>
  What happens to the chat while the manager runs, in any order: messages, acknowledgements and errors
  arrive, from any peer and with any content, the user sends, queues are drained, the history is cleared,
  and connections come, go and change their keys.
\<close>

inductive chat_step :: "Manager \<Rightarrow> Manager \<Rightarrow> bool" where
  receive: "chat_step m (handleIncomingEncryptedMessage env i msg m)"
| ack: "chat_step m (handleAck env i a m)"
| perror: "chat_step m (handleProtocolError e m)"
| user_send: "chat_step m (snd (SendTextMessage env mid peer content m))"
| drain: "chat_step m (snd (drainPendingMessages envs peer i m))"
| clear_peer: "chat_step m (m\<lparr>mg_store := snd (DeleteMessagesForPeer peer (mg_store m))\<rparr>)"
| clear_old: "chat_step m (m\<lparr>mg_store := snd (DeleteMessagesOlderThan cutoff (mg_store m))\<rparr>)"
| connection: "chat_step m (set_conn i c m)"

inductive_cases chat_stepE: "chat_step m m'"

definition chat_inv :: "Manager \<Rightarrow> bool" where
  "chat_inv m \<longleftrightarrow> store_wf (mg_store m) \<and> distinct (map m_MessageID (mg_received m)) \<and>
     m_MessageID ` set (mg_received m) \<subseteq> fst ` set (st_seen (mg_store m))"

lemma chat_inv_keeps: "keeps m m' \<Longrightarrow> chat_inv m \<Longrightarrow> chat_inv m'"
  by (simp add: keeps_def chat_inv_def)

lemma delivered_rows_cases:
  obtains (none) "delivered_rows env i msg m = []"
  | (one) t where "delivered_rows env i msg m = [incoming_row (env_ms env) msg t]"
      and "acceptable env i msg m" and "storable msg t m" and "opened_text env (mg_heap m i) msg = Some t"
proof (cases "delivered_rows env i msg m = []")
  case False
  then obtain t where "opened_text env (mg_heap m i) msg = Some t" "acceptable env i msg m" "storable msg t m"
    by (auto simp: delivered_rows_def split: if_splits option.splits)
  then show ?thesis by (intro one) (simp_all add: delivered_rows_def)
qed (rule none)

lemma image_key_tbl_upsert: "key ` set (tbl_upsert key r rows) = insert (key r) (key ` set rows)"
  by (auto simp: tbl_upsert_def tbl_simps)

lemma chat_inv_receive: "chat_inv m \<Longrightarrow> chat_inv (handleIncomingEncryptedMessage env i msg m)"
proof -
  assume inv: "chat_inv m"
  let ?m = "handleIncomingEncryptedMessage env i msg m"
  have view: "(st_seen (mg_store ?m), mg_received ?m) =
      (fold (\<lambda>r. tbl_upsert fst (m_MessageID r, env_ms env)) (delivered_rows env i msg m) (st_seen (mg_store m)),
       mg_received m @ delivered_rows env i msg m)"
    using handle_incoming_view [of env i msg m] by (simp add: chat_view_def take_in_def)
  have wf: "store_wf (mg_store ?m)" using inv by (simp add: chat_inv_def wf_handle_incoming)
  show ?thesis
  proof (cases rule: delivered_rows_cases [of env i msg m])
    case none
    with inv view wf show ?thesis by (simp add: chat_inv_def)
  next
    case (one t)
    have id: "m_MessageID (incoming_row (env_ms env) msg t) = em_MessageID msg" by (simp add: incoming_row_def)
    from one(2) have new: "em_MessageID msg \<notin> fst ` set (st_seen (mg_store m))" by (simp add: acceptable_def)
    with inv have "em_MessageID msg \<notin> m_MessageID ` set (mg_received m)" by (auto simp: chat_inv_def)
    moreover have "fst ` set (tbl_upsert fst (em_MessageID msg, env_ms env) (st_seen (mg_store m))) =
        insert (em_MessageID msg) (fst ` set (st_seen (mg_store m)))"
      by (simp add: image_key_tbl_upsert)
    ultimately show ?thesis using inv view wf one(1) by (auto simp: chat_inv_def id)
  qed
qed

lemma chat_inv_step: "chat_step m m' \<Longrightarrow> chat_inv m \<Longrightarrow> chat_inv m'"
proof (induction rule: chat_step.induct)
  case (clear_peer m peer)
  then show ?case
    by (simp add: chat_inv_def DeleteMessagesForPeer_wf) (simp add: DeleteMessagesForPeer_def delete_messages_def)
next
  case (clear_old m cutoff)
  then show ?case
    by (simp add: chat_inv_def DeleteMessagesOlderThan_wf) (simp add: DeleteMessagesOlderThan_def delete_messages_def)
qed (auto simp: chat_inv_receive intro: chat_inv_keeps keeps_intros)

lemma chat_inv_run: "chat_step\<^sup>*\<^sup>* m m' \<Longrightarrow> chat_inv m \<Longrightarrow> chat_inv m'"
  by (induction rule: rtranclp_induct) (auto dest: chat_inv_step)

section \<open>The queue limits\<close>

text \<open>How many of the oldest rows have to go, and the store once they are marked failed.\<close>

fun overflow :: "Message list \<Rightarrow> nat" where
  "overflow [] = 0"
| "overflow (x # xs) =
     (if over_limit (length (x # xs)) (content_bytes (x # xs)) then Suc (overflow xs) else 0)"

definition fail_ids :: "string set \<Rightarrow> Store \<Rightarrow> Store" where
  "fail_ids ids s = s\<lparr>st_messages :=
     tbl_update (\<lambda>r. m_MessageID r \<in> ids) (\<lambda>r. r\<lparr>m_DeliveryStatus := ''failed''\<rparr>) (st_messages s)\<rparr>"

lemma content_bytes_simps [simp]:
  "content_bytes [] = 0" "content_bytes (x # xs) = int (length (m_Content x)) + content_bytes xs"
  by (simp_all add: content_bytes_def)

lemma not_over_limit_empty: "\<not> over_limit 0 0"
  by (simp add: over_limit_def maxQueuedBytesPerPeer_def)

lemma overflow_within: "\<not> over_limit (length ms - overflow ms) (content_bytes (drop (overflow ms) ms))"
  by (induction ms) (simp_all add: not_over_limit_empty)

lemma overflow_least: "k < overflow ms \<Longrightarrow> over_limit (length ms - k) (content_bytes (drop k ms))"
  by (induction ms arbitrary: k) (auto split: if_splits simp: less_Suc_eq_0_disj)

lemma message_ids_fail_ids [simp]: "message_ids (fail_ids ids s) = message_ids s"
  by (simp add: fail_ids_def message_ids_def image_key_tbl_update)

lemma fail_ids_fail_ids: "fail_ids a (fail_ids b s) = fail_ids (a \<union> b) s"
  by (simp add: fail_ids_def tbl_update_def)

lemma fail_ids_empty [simp]: "fail_ids {} s = s"
  by (simp add: fail_ids_def tbl_update_def)

lemma UpdateDeliveryStatus_failed:
  "i \<noteq> [] \<Longrightarrow> i \<in> message_ids s \<Longrightarrow> UpdateDeliveryStatus i ''failed'' s = (None, fail_ids {i} s)"
  by (auto simp: UpdateDeliveryStatus_def validateDeliveryStatus_def set_delivery_status_def fail_ids_def
      rows_affected_def message_ids_def filter_empty_conv)

lemma evict_outcome:
  "\<forall>x \<in> set ms. m_MessageID x \<noteq> [] \<and> m_MessageID x \<in> message_ids (mg_store m) \<Longrightarrow>
   evict ms (content_bytes ms) k m =
     (Dropped (k + overflow ms), m\<lparr>mg_store := fail_ids (m_MessageID ` set (take (overflow ms) ms)) (mg_store m)\<rparr>)"
proof (induction ms arbitrary: k m)
  case Nil
  then show ?case by (simp add: not_over_limit_empty)
next
  case (Cons x xs)
  define m1 where "m1 = m\<lparr>mg_store := fail_ids {m_MessageID x} (mg_store m)\<rparr>"
  have u: "on_store (UpdateDeliveryStatus (m_MessageID x) ''failed'') m = (None, m1)"
    using Cons.prems by (simp add: on_store_def UpdateDeliveryStatus_failed m1_def)
  have ih: "evict xs (content_bytes xs) (k + 1) m1 = (Dropped (k + 1 + overflow xs),
      m1\<lparr>mg_store := fail_ids (m_MessageID ` set (take (overflow xs) xs)) (mg_store m1)\<rparr>)"
    by (rule Cons.IH) (use Cons.prems in \<open>simp add: m1_def\<close>)
  show ?case
    using ih by (simp add: u serious_def) (simp add: m1_def fail_ids_fail_ids insert_commute)
qed

lemma pending_failed:
  "filter (is_pending_to p) (tbl_update P (\<lambda>r. r\<lparr>m_DeliveryStatus := ''failed''\<rparr>) rows) =
   filter (\<lambda>r. \<not> P r) (filter (is_pending_to p) rows)"
  by (induction rows) (auto simp: tbl_update_def is_pending_to_def)

lemma filter_not_in_take:
  "distinct (map f xs) \<Longrightarrow> filter (\<lambda>r. f r \<notin> f ` set (take n xs)) xs = drop n xs"
proof -
  assume d: "distinct (map f xs)"
  then have "distinct (map f (take n xs) @ map f (drop n xs))" by (simp flip: map_append)
  then have "\<forall>r \<in> set (drop n xs). f r \<notin> f ` set (take n xs)" by auto
  then have "filter (\<lambda>r. f r \<notin> f ` set (take n xs)) (drop n xs) = drop n xs" by (simp add: filter_id_conv)
  moreover have "filter (\<lambda>r. f r \<notin> f ` set (take n xs)) (take n xs) = []" by (simp add: filter_empty_conv)
  ultimately have "filter (\<lambda>r. f r \<notin> f ` set (take n xs)) (take n xs @ drop n xs) = drop n xs"
    by (simp del: append_take_drop_id)
  then show ?thesis by simp
qed

definition live_queue :: "Env \<Rightarrow> string \<Rightarrow> Store \<Rightarrow> Message list" where
  "live_queue env p s =
     filter (\<lambda>r. \<not> is_expired (env_ms env - maxQueueAge) r)
       (sort_key m_TimestampSent (filter (is_pending_to p) (st_messages s)))"

lemma GetPending_fail_ids:
  assumes "p \<noteq> []" and "GetPendingMessages p s = Inr q" and "distinct (map m_MessageID q)"
  shows "GetPendingMessages p (fail_ids (m_MessageID ` set (take n q)) s) = Inr (drop n q)"
proof -
  let ?old = "\<lambda>r. m_MessageID r \<in> m_MessageID ` set (take n q)"
  have "sort_key m_TimestampSent (filter (\<lambda>r. \<not> ?old r) (filter (is_pending_to p) (st_messages s))) =
      filter (\<lambda>r. \<not> ?old r) (sort_key m_TimestampSent (filter (is_pending_to p) (st_messages s)))"
    by (rule filter_sort [symmetric])
  also have "sort_key m_TimestampSent (filter (is_pending_to p) (st_messages s)) = q"
    using assms(1,2) by (simp add: GetPendingMessages_def)
  also have "filter (\<lambda>r. \<not> ?old r) q = drop n q" by (rule filter_not_in_take [OF assms(3)])
  finally show ?thesis
    using assms(1) by (simp add: GetPendingMessages_def fail_ids_def pending_failed del: filter_filter)
qed

lemma GetPending_messages_only:
  "st_messages s = st_messages s' \<Longrightarrow> GetPendingMessages p s = GetPendingMessages p s'"
  by (simp add: GetPendingMessages_def)

lemma st_messages_after_evict [simp]: "st_messages (mg_store (after_evict env p n m)) = st_messages (mg_store m)"
  by (simp add: after_evict_def)

lemma live_queue_distinct: "store_wf s \<Longrightarrow> distinct (map m_MessageID (live_queue env p s))"
proof -
  assume "store_wf s"
  then have d: "distinct (map m_MessageID (st_messages s))"
    by (simp add: store_wf_def messages_wf_def keys_distinct_def)
  then have "distinct (st_messages s)" and inj: "inj_on m_MessageID (set (st_messages s))"
    by (simp_all add: distinct_map)
  moreover have "set (live_queue env p s) \<subseteq> set (st_messages s)" by (auto simp: live_queue_def)
  ultimately show ?thesis
    by (simp add: distinct_map live_queue_def inj_on_subset del: filter_filter)
qed

lemma enforceQueueLimits_outcome:
  assumes "store_wf (mg_store m)" and "p \<noteq> []" and "maxQueueAge < env_ms env"
  shows "\<exists>m'. enforceQueueLimits env p m = (Some None, m') \<and>
     GetPendingMessages p (mg_store m') =
       Inr (drop (overflow (live_queue env p (mg_store m))) (live_queue env p (mg_store m)))"
proof -
  let ?s = "mg_store m" and ?q = "live_queue env p (mg_store m)"
  define s1 where "s1 = snd (PruneExpiredQueue (env_ms env - maxQueueAge) ?s)"
  from assms(3) obtain k where prune: "PruneExpiredQueue (env_ms env - maxQueueAge) ?s = (Inr k, s1)"
    by (simp add: s1_def PruneExpiredQueue_def)
  have wf1: "store_wf s1" using assms(1) by (simp add: s1_def PruneExpiredQueue_wf)
  have pend: "GetPendingMessages p s1 = Inr ?q"
    using assms(2,3)
    by (simp add: GetPendingMessages_def s1_def PruneExpiredQueue_def pending_failed live_queue_def filter_sort)
  have d: "distinct (map m_MessageID ?q)" using assms(1) by (rule live_queue_distinct)
  have sub: "set ?q \<subseteq> set (st_messages s1)"
    using pend assms(2) by (auto simp: GetPendingMessages_def dest!: sym [of "sort_key _ _"])
  show ?thesis
  proof (cases "?q = []")
    case True
    have "enforceQueueLimits env p m = (Some None, m\<lparr>mg_store := s1\<rparr>)"
      using assms(2) True by (simp add: enforceQueueLimits_def prune pend)
    with pend True show ?thesis by simp
  next
    case False
    define s2 where "s2 = fail_ids (m_MessageID ` set (take (overflow ?q) ?q)) s1"
    have "evict ?q (content_bytes ?q) 0 (m\<lparr>mg_store := s1\<rparr>) =
        (Dropped (overflow ?q), m\<lparr>mg_store := s2\<rparr>)"
      using evict_outcome [of ?q "m\<lparr>mg_store := s1\<rparr>" 0] sub wf1
      by (auto simp: s2_def message_ids_def store_wf_def messages_wf_def)
    then have e: "enforceQueueLimits env p m =
        (Some None, after_evict env p (overflow ?q) (m\<lparr>mg_store := s2\<rparr>))"
      using assms(2) False by (simp add: enforceQueueLimits_def prune pend)
    have "GetPendingMessages p s2 = Inr (drop (overflow ?q) ?q)"
      unfolding s2_def by (rule GetPending_fail_ids [OF assms(2) pend d])
    moreover have "GetPendingMessages p (mg_store (after_evict env p (overflow ?q) (m\<lparr>mg_store := s2\<rparr>))) =
        GetPendingMessages p s2"
      by (rule GetPending_messages_only) simp
    ultimately show ?thesis using e by simp
  qed
qed

section \<open>Acknowledgements\<close>

definition genuine_ack :: "Env \<Rightarrow> nat \<Rightarrow> AckMessage \<Rightarrow> Manager \<Rightarrow> bool" where
  "genuine_ack env i ack m \<longleftrightarrow>
     ak_MessageID ack \<noteq> [] \<and> ak_Signature ack \<noteq> [] \<and> ak_FromDeviceID ack \<noteq> [] \<and>
     ak_FromDeviceID ack = peer_of m i \<and> verifyAck env i ack m = None"

definition ack_status :: "AckMessage \<Rightarrow> string" where
  "ack_status ack = (if ak_Status ack = [] then ''delivered'' else ak_Status ack)"

text \<open>What a genuine acknowledgement makes of a stored row.\<close>

definition acked :: "AckMessage \<Rightarrow> string \<Rightarrow> string \<Rightarrow> Message \<Rightarrow> Message" where
  "acked ack me peer r =
     (if m_MessageID r = ak_MessageID ack \<and> m_FromDeviceID r = me \<and> m_ToDeviceID r = peer \<and>
         validateDeliveryStatus (ack_status ack) = None
      then r\<lparr>m_DeliveryStatus := ack_status ack\<rparr> else r)"

lemma handleAck_ignored:
  "\<not> genuine_ack env i ack m \<Longrightarrow> chat_view (handleAck env i ack m) = chat_view m"
  by (auto simp: handleAck_def genuine_ack_def Let_def split: option.split)

lemma handleAck_unknown:
  assumes "ak_MessageID ack \<notin> message_ids (mg_store m)"
  shows "chat_view (handleAck env i ack m) = chat_view m"
proof -
  have "tbl_find m_MessageID (ak_MessageID ack) (st_messages (mg_store m)) = None"
    using assms by (simp add: tbl_find_None_iff message_ids_def)
  then have "chat_view (apply_ack ack peer m) = chat_view m" for peer
    by (simp add: apply_ack_def GetMessageByID_def)
  then show ?thesis by (auto simp: handleAck_def Let_def split: option.split)
qed

lemma handleAck_genuine: "genuine_ack env i ack m \<Longrightarrow> handleAck env i ack m = apply_ack ack (peer_of m i) m"
  by (auto simp: handleAck_def genuine_ack_def Let_def)

lemma apply_ack_status:
  "apply_ack ack peer m =
     (case GetMessageByID (ak_MessageID ack) (mg_store m) of
        Inl e \<Rightarrow> if \<not> errors_Is e ErrNotFound then reportError e m else m
      | Inr stored \<Rightarrow>
          if m_FromDeviceID stored \<noteq> local_id m \<or> m_ToDeviceID stored \<noteq> peer then
            reportError (Err ''rejecting ack: ack does not match message route'') m
          else let (r, m1) = on_store (UpdateDeliveryStatus (ak_MessageID ack) (ack_status ack)) m
               in report_result (serious r) m1)"
  by (simp add: apply_ack_def ack_status_def Let_def on_store_def MarkDelivered_eq split: sum.split)

lemma st_peers_handleAck: "st_peers (mg_store (handleAck env i ack m)) = st_peers (mg_store m)"
proof -
  have "st_peers (snd (UpdateDeliveryStatus k st s)) = st_peers s" for k st s
    by (simp add: UpdateDeliveryStatus_def set_delivery_status_def split: option.split)
  then show ?thesis
    by (simp add: handleAck_def apply_ack_status Let_def on_store_def split_beta report_result_def
        split: option.split sum.split)
qed

lemma local_id_handleAck: "local_id (handleAck env i ack m) = local_id m"
  by (simp add: local_id_def handleAck_def apply_ack_status Let_def on_store_def split_beta report_result_def
      split: option.split sum.split)

lemma apply_ack_messages:
  assumes "store_wf (mg_store m)" and "ak_MessageID ack \<noteq> []"
  shows "st_messages (mg_store (apply_ack ack peer m)) =
    map (acked ack (local_id m) peer) (st_messages (mg_store m))"
proof (cases "tbl_find m_MessageID (ak_MessageID ack) (st_messages (mg_store m))")
  case None
  then have "map (acked ack (local_id m) peer) (st_messages (mg_store m)) = st_messages (mg_store m)"
    by (intro map_idI) (auto simp: tbl_find_None_iff acked_def image_iff)
  with None assms(2) show ?thesis by (simp add: apply_ack_def GetMessageByID_def)
next
  case (Some x)
  let ?rows = "st_messages (mg_store m)"
  have x: "x \<in> set ?rows" "m_MessageID x = ak_MessageID ack" using tbl_find_SomeD [OF Some] by auto
  have uniq: "r = x" if "r \<in> set ?rows" "m_MessageID r = ak_MessageID ack" for r
  proof -
    have "inj_on m_MessageID (set ?rows)"
      using assms(1) by (simp add: store_wf_def messages_wf_def keys_distinct_def distinct_map)
    then show ?thesis by (rule inj_onD) (use that x in auto)
  qed
  show ?thesis
  proof (cases "m_FromDeviceID x = local_id m \<and> m_ToDeviceID x = peer \<and> validateDeliveryStatus (ack_status ack) = None")
    case True
    have "map (acked ack (local_id m) peer) ?rows =
        tbl_update (\<lambda>r. m_MessageID r = ak_MessageID ack) (\<lambda>r. r\<lparr>m_DeliveryStatus := ack_status ack\<rparr>) ?rows"
      unfolding tbl_update_def by (rule map_cong) (use True uniq in \<open>auto simp: acked_def\<close>)
    moreover have "rows_affected (\<lambda>r. m_MessageID r = ak_MessageID ack) ?rows \<noteq> 0"
      using x by (auto simp: rows_affected_0)
    ultimately show ?thesis
      using True Some assms(2)
      by (simp add: apply_ack_status GetMessageByID_def on_store_def UpdateDeliveryStatus_def set_delivery_status_def
          report_result_def serious_def)
  next
    case False
    have "map (acked ack (local_id m) peer) ?rows = ?rows"
      by (intro map_idI) (use False uniq in \<open>auto simp: acked_def\<close>)
    with False Some assms(2) show ?thesis
      by (auto simp: apply_ack_status GetMessageByID_def on_store_def UpdateDeliveryStatus_def
          report_result_def serious_def split: option.split)
  qed
qed

section \<open>From sender to receiver\<close>

text \<open>Two managers whose connections \<open>i\<close> and \<open>j\<close> are the two ends of one session.\<close>

definition linked :: "Env \<Rightarrow> nat \<Rightarrow> Manager \<Rightarrow> nat \<Rightarrow> Manager \<Rightarrow> bool" where
  "linked env i a j b \<longleftrightarrow>
     peer_of a i = local_id b \<and> peer_of b j = local_id a \<and> local_id a \<noteq> [] \<and> local_id b \<noteq> [] \<and>
     sessionKey (mg_heap b j) = sessionKey (mg_heap a i) \<and>
     length (id_Ed25519PrivateKey (mg_identity a)) = PrivateKeySize \<and>
     peerPublicKey (mg_heap b j) =
       EncodeToString (ed25519_Public (en_P env) (id_Ed25519PrivateKey (mg_identity a)))"

lemma sign_packet_verifies:
  assumes "prims_ok (en_P env)" and "json_ok (en_J env)"
    and "length (id_Ed25519PrivateKey (mg_identity a)) = PrivateKeySize"
  obtains sig where "sign_packet env p a = Inr (EncodeToString sig)" and "length sig = SignatureSize"
    and "Verify (en_P env) (ed25519_Public (en_P env) (id_Ed25519PrivateKey (mg_identity a)))
           (json_Marshal (en_J env) p) sig"
proof -
  have ne: "json_Marshal (en_J env) p \<noteq> []" using assms(2) by (simp add: json_ok_def)
  then obtain sig where s: "Sign (en_P env) (id_Ed25519PrivateKey (mg_identity a)) (json_Marshal (en_J env) p) = Inr sig"
    using assms(3) by (simp add: Sign_def)
  from Verify_Sign [OF assms(1) s]
  have "Verify (en_P env) (ed25519_Public (en_P env) (id_Ed25519PrivateKey (mg_identity a))) (json_Marshal (en_J env) p) sig" .
  moreover from this have "length sig = SignatureSize" by (simp add: Verify_def split: if_splits)
  ultimately show ?thesis using that s by (simp add: sign_packet_def)
qed

lemma EncodeToString_neq_Nil: "s \<noteq> [] \<Longrightarrow> EncodeToString s \<noteq> []"
proof
  assume "s \<noteq> []" and "EncodeToString s = []"
  then have "DecodeString (EncodeToString s) = DecodeString (EncodeToString [])" by simp
  with \<open>s \<noteq> []\<close> show False by (simp del: EncodeToString.simps)
qed

lemma buildEncryptedMessage_Inr:
  assumes "buildEncryptedMessage env i mid content ts a = (Inr wire, a')"
  shows "em_MessageID wire = mid" and "em_FromDeviceID wire = local_id a" and "em_ToDeviceID wire = peer_of a i"
    and "em_ContentType wire = ''text''" and "em_Timestamp wire = (if ts = 0 then env_ms env else ts)"
    and "em_Sequence wire = sendSequence (mg_heap a i) + 1" and "mg_store a' = mg_store a"
    and "mg_identity a' = mg_identity a" and "mg_sent a' = mg_sent a"
  using assms
  by (auto simp: buildEncryptedMessage_def NextSendSequence_def Let_def signEncryptedMessage_def peer_of_def
      map_sum_def split: sum.splits)

lemma buildEncryptedMessage_frame:
  "buildEncryptedMessage env i mid content ts a = (r, a') \<Longrightarrow>
   mg_store a' = mg_store a \<and> mg_received a' = mg_received a"
  by (auto simp: buildEncryptedMessage_def Let_def NextSendSequence_def split: sum.splits)

lemma built_message_opens:
  assumes "prims_ok (en_P ea)" and "json_ok (en_J ea)" and "en_P eb = en_P ea" and "en_J eb = en_J ea"
    and "length (en_content_iv ea) = 12" and "linked ea i a j b"
    and "buildEncryptedMessage ea i mid content ts a = (Inr wire, a')"
  shows "opened_text eb (mg_heap b j) wire = Some content"
proof -
  let ?P = "en_P ea" and ?k = "id_Ed25519PrivateKey (mg_identity a)"
  obtain ct n where enc: "Encrypt ?P (en_content_iv ea) (sessionKey (mg_heap a i)) content = Inr (ct, n)"
    using assms(7) by (cases "Encrypt ?P (en_content_iv ea) (sessionKey (mg_heap a i)) content")
      (auto simp: buildEncryptedMessage_def Let_def)
  define c1 where "c1 = (mg_heap a i)\<lparr>sendSequence := sendSequence (mg_heap a i) + 1\<rparr>"
  define w where "w = \<lparr>em_MessageID = mid, em_FromDeviceID = local_id a,
       em_ToDeviceID = peerDeviceID (mg_heap a i), em_ContentType = ''text'',
       em_Sequence = sendSequence (mg_heap a i) + 1, em_EncryptedContent = EncodeToString ct,
       em_IV = EncodeToString n, em_Timestamp = (if ts = 0 then env_ms ea else ts), em_Signature = []\<rparr>"
  have sk: "length (id_Ed25519PrivateKey (mg_identity (set_conn i c1 a))) = PrivateKeySize"
    using assms(6) by (simp add: linked_def)
  obtain sig where sig: "sign_packet ea (PMessage w) (set_conn i c1 a) = Inr (EncodeToString sig)"
    "length sig = SignatureSize" "Verify ?P (ed25519_Public ?P ?k) (json_Marshal (en_J ea) (PMessage w)) sig"
    using sign_packet_verifies [OF assms(1,2) sk] by auto
  have upd: "w\<lparr>em_Signature := []\<rparr> = w" by (simp add: w_def)
  have wire: "wire = w\<lparr>em_Signature := EncodeToString sig\<rparr>"
    using assms(7) sig(1)
    by (simp add: buildEncryptedMessage_def enc NextSendSequence_def signEncryptedMessage_def c1_def [symmetric]
        w_def [symmetric] upd Let_def) (simp add: w_def)
  have dec: "Decrypt ?P (sessionKey (mg_heap b j)) n ct = Inr content"
    using Decrypt_Encrypt [OF assms(1,5) enc] assms(6) by (simp add: linked_def)
  have fields: "em_EncryptedContent wire = EncodeToString ct" "em_IV wire = EncodeToString n"
    "em_Signature wire = EncodeToString sig" "wire\<lparr>em_Signature := []\<rparr> = w"
    by (simp_all add: wire w_def)
  have "EncodeToString sig \<noteq> []" by (rule EncodeToString_neq_Nil) (use sig(2) in \<open>auto simp: SignatureSize_def\<close>)
  moreover have "length (ed25519_Public ?P ?k) = PublicKeySize"
    using sig(3) by (simp add: Verify_def split: if_splits)
  moreover have "DecodeString (peerPublicKey (mg_heap b j)) = Inr (ed25519_Public ?P ?k)"
    using assms(6) by (simp add: linked_def del: EncodeToString.simps)
  ultimately show ?thesis
    using dec sig(3) by (simp add: opened_text_def fields assms(3,4) del: EncodeToString.simps)
qed

section \<open>Samples\<close>

definition sample_env :: "int \<Rightarrow> Env" where
  "sample_env ms = \<lparr>en_P = sample_prims, en_J = sample_json, en_iv = replicate 12 CHR ''f'',
     en_content_iv = replicate 12 CHR ''c'', en_now = ms * 1000000, en_eph = replicate 32 CHR ''e'',
     en_json_valid = (\<lambda>_. True), en_details = (\<lambda>_. ''{}'')\<rparr>"

definition sample_manager :: "string \<Rightarrow> char \<Rightarrow> string \<Rightarrow> char \<Rightarrow> Store \<Rightarrow> Manager" where
  "sample_manager me k peer k' s = \<lparr>mg_identity = sample_identity me k, localDeviceName = me, mg_store = s,
     mg_heap = (\<lambda>_. newPeerConnection (sample_options me k)
        \<lparr>ss_LocalDeviceID = me, ss_PeerDeviceID = peer, ss_PeerDeviceName = peer,
         ss_PeerPublicKey = EncodeToString (replicate 32 k'), ss_SessionKey = replicate 32 CHR ''k''\<rparr> 0),
     connections = [(peer, 0)], knownKeys = [], outboundAddPending = [], outboundAddResponse = [],
     suppressReconnect = [], reconnectWorkers = [], lastAddRequestAt = [], addRequestCooldown = 30 * Second,
     fileRates = \<lparr>fileRequestHistory = [], fileRequestSeenIDs = []\<rparr>, pendingRekeyWaiters = [],
     mg_waiter_seq = 0,
     mg_errors = [], mg_received = [], mg_sent = [], mg_overflow = [], mg_stopped = False\<rparr>"

abbreviation "alice \<equiv> sample_manager ''a'' CHR ''1'' ''b'' CHR ''2'' two_peers"
abbreviation "bob \<equiv> sample_manager ''b'' CHR ''2'' ''a'' CHR ''1'' two_peers"

definition sample_wire :: EncryptedMessage where
  "sample_wire = \<lparr>em_MessageID = ''m'', em_FromDeviceID = ''a'', em_ToDeviceID = ''b'',
     em_ContentType = ''text'', em_Sequence = 1, em_EncryptedContent = ''aGk='', em_IV = ''aGk='',
     em_Timestamp = 9, em_Signature = ''aGk=''\<rparr>"

lemma two_peers_wf: "store_wf two_peers"
  by (simp add: two_peers_def store_wf_def wf_parts empty_store_def keys_distinct_def validatePeerStatus_def)

lemma sample_manager_simps [simp]:
  "mg_store (sample_manager me k peer k' s) = s" "mg_received (sample_manager me k peer k' s) = []"
  "peer_of (sample_manager me k peer k' s) i = peer" "local_id (sample_manager me k peer k' s) = me"
  "mg_identity (sample_manager me k peer k' s) = sample_identity me k"
  "sessionKey (mg_heap (sample_manager me k peer k' s) i) = replicate 32 CHR ''k''"
  "lastSeenSeq (mg_heap (sample_manager me k peer k' s) i) = 0"
  "sendSequence (mg_heap (sample_manager me k peer k' s) i) = 0"
  "peerPublicKey (mg_heap (sample_manager me k peer k' s) i) = EncodeToString (replicate 32 k')"
  by (simp_all add: sample_manager_def peer_of_def local_id_def newPeerConnection_def sample_identity_def
      del: EncodeToString.simps)

lemma sample_env_simps [simp]:
  "en_P (sample_env t) = sample_prims" "en_J (sample_env t) = sample_json"
  "length (en_content_iv (sample_env t)) = 12" "env_ms (sample_env t) = t" "en_now (sample_env t) = t * 1000000"
  by (simp_all add: sample_env_def env_ms_def now_ms_def)

lemma sample_linked: "linked (sample_env t) 0 alice 0 bob"
  by (simp add: linked_def sample_identity_def PrivateKeySize_def sample_prims_def del: EncodeToString.simps)

lemma sample_build: "\<exists>wire a'. buildEncryptedMessage (sample_env t) 0 mid content ts alice = (Inr wire, a')"
proof -
  have enc: "\<exists>ct n. Encrypt sample_prims iv (replicate 32 CHR ''k'') content = Inr (ct, n)" for iv
    by (simp add: Encrypt_def)
  then obtain ct n where e: "Encrypt sample_prims (en_content_iv (sample_env t)) (replicate 32 CHR ''k'') content = Inr (ct, n)"
    by blast
  have sg: "\<exists>w. signEncryptedMessage (sample_env t) msg (set_conn 0 c alice) = Inr w" for msg c
  proof -
    have "length (id_Ed25519PrivateKey (mg_identity (set_conn 0 c alice))) = PrivateKeySize"
      by (simp add: sample_identity_def PrivateKeySize_def)
    from sign_packet_verifies [OF _ _ this, of "sample_env t" "PMessage (msg\<lparr>em_Signature := []\<rparr>)"]
    obtain sig where "sign_packet (sample_env t) (PMessage (msg\<lparr>em_Signature := []\<rparr>)) (set_conn 0 c alice)
        = Inr (EncodeToString sig)"
      by (auto simp: sample_prims_ok sample_json_ok)
    then show ?thesis by (simp add: signEncryptedMessage_def)
  qed
  show ?thesis
    using sg by (simp add: buildEncryptedMessage_def Let_def e NextSendSequence_def del: EncodeToString.simps)
qed

section \<open>Properties\<close>

text \<open>C3: What an incoming chat message does, on every branch: a row is added to the history and handed to
  the application exactly when the message names the connected peer as its sender and this device as its
  recipient, is fresh, has a higher sequence number than any before it on the connection, has an identifier
  not seen before, carries a valid signature of the peer over all its fields, opens under the session key,
  and can be stored; its identifier is then recorded as seen. Otherwise none of the three changes.\<close>

theorem incoming_message_outcome:
  "(let m' = handleIncomingEncryptedMessage env i msg m; rows = delivered_rows env i msg m
    in mg_received m' = mg_received m @ rows \<and>
       st_messages (mg_store m') = st_messages (mg_store m) @ rows \<and>
       fst ` set (st_seen (mg_store m')) = m_MessageID ` set rows \<union> fst ` set (st_seen (mg_store m)) \<and>
       (rows = [] \<or> acceptable env i msg m \<and>
          (\<exists>t. opened_text env (mg_heap m i) msg = Some t \<and> storable msg t m \<and>
               rows = [incoming_row (env_ms env) msg t])))"
proof -
  have view: "chat_view (handleIncomingEncryptedMessage env i msg m) =
      take_in (env_ms env) (delivered_rows env i msg m) (chat_view m)"
    by (rule handle_incoming_view)
  show ?thesis
    using view
    by (cases rule: delivered_rows_cases [of env i msg m])
       (simp_all add: chat_view_def take_in_def Let_def image_key_tbl_upsert)
qed



text \<open>C5: A message built by one end of a session and handed, in time and for the first time, to the handler
  of the other end is delivered with the text, sender, identifier and time stamp it was sent with.\<close>

theorem sent_message_delivered:
  assumes "prims_ok (en_P ea)" and "json_ok (en_J ea)" and "en_P eb = en_P ea" and "en_J eb = en_J ea"
    and "length (en_content_iv ea) = 12" and "linked ea i a j b"
    and "buildEncryptedMessage ea i mid content ts a = (Inr wire, a')"
    and "mid \<noteq> []" and "content \<noteq> []" and "withinTimestampSkew (en_now eb) (em_Timestamp wire)"
    and "lastSeenSeq (mg_heap b j) < em_Sequence wire"
    and "mid \<notin> fst ` set (st_seen (mg_store b))" and "mid \<notin> message_ids (mg_store b)"
    and "local_id a \<in> peer_ids (mg_store b)" and "local_id b \<in> peer_ids (mg_store b)"
  shows "\<exists>row. mg_received (handleIncomingEncryptedMessage eb j wire b) = mg_received b @ [row] \<and>
     m_MessageID row = mid \<and> m_Content row = content \<and> m_FromDeviceID row = local_id a \<and>
     m_TimestampSent row = em_Timestamp wire \<and> m_DeliveryStatus row = ''delivered''"
proof -
  note w = buildEncryptedMessage_Inr [OF assms(7)]
  have "opened_text eb (mg_heap b j) wire = Some content"
    by (rule built_message_opens [OF assms(1-7)])
  moreover have "acceptable eb j wire b" using assms(6,8,10-12) w by (simp add: acceptable_def linked_def)
  moreover have "storable wire content b"
    using assms(6,9,13-15) w by (simp add: storable_def linked_def validateContentType_def)
  ultimately have "delivered_rows eb j wire b = [incoming_row (env_ms eb) wire content]"
    by (simp add: delivered_rows_def)
  then have "mg_received (handleIncomingEncryptedMessage eb j wire b) =
      mg_received b @ [incoming_row (env_ms eb) wire content]"
    using handle_incoming_view [of eb j wire b] by (simp add: chat_view_def take_in_def)
  then show ?thesis using w by (simp add: incoming_row_def)
qed

theorem sent_message_delivered_witness:
  "\<exists>wire row. mg_received (handleIncomingEncryptedMessage (sample_env 9) 0 wire bob) = [row] \<and>
     m_MessageID row = ''m'' \<and> m_Content row = ''hi''"
proof -
  obtain wire a' where w: "buildEncryptedMessage (sample_env 9) 0 ''m'' ''hi'' 8 alice = (Inr wire, a')"
    using sample_build by blast
  have peers: "st_seen two_peers = []" "message_ids two_peers = {}" "peer_ids two_peers = {''a'', ''b''}"
    by (auto simp: two_peers_def empty_store_def message_ids_def peer_ids_def)
  show ?thesis
    using sent_message_delivered [of "sample_env 9" "sample_env 9", OF _ _ _ _ _ sample_linked w]
      buildEncryptedMessage_Inr [OF w]
    by (simp add: sample_prims_ok sample_json_ok withinTimestampSkew_def maxTimestampSkew_def Second_def peers)
       blast
qed

text \<open>C18: Enforcing the queue limits never fails and never runs off the queue: afterwards at most 500 messages
  and 50 MiB wait for the peer, they are the youngest of the unexpired ones in their order, and no more
  were dropped than the limits required.\<close>

theorem enforceQueueLimits_bounds:
  assumes "store_wf (mg_store m)" and "peer \<noteq> []" and "maxQueueAge < env_ms env"
  shows "\<exists>n m'. enforceQueueLimits env peer m = (Some None, m') \<and>
     GetPendingMessages peer (mg_store m') = Inr (drop n (live_queue env peer (mg_store m))) \<and>
     length (drop n (live_queue env peer (mg_store m))) \<le> 500 \<and>
     content_bytes (drop n (live_queue env peer (mg_store m))) \<le> 52428800 \<and>
     (\<forall>k < n. 500 < length (drop k (live_queue env peer (mg_store m))) \<or>
              52428800 < content_bytes (drop k (live_queue env peer (mg_store m))))"
proof -
  let ?q = "live_queue env peer (mg_store m)"
  obtain m' where m': "enforceQueueLimits env peer m = (Some None, m')"
    "GetPendingMessages peer (mg_store m') = Inr (drop (overflow ?q) ?q)"
    using enforceQueueLimits_outcome [OF assms] by blast
  have lim: "over_limit n t \<longleftrightarrow> 500 < n \<or> 52428800 < t" for n t
    by (simp add: over_limit_def maxQueuedMessages_def maxQueuedBytesPerPeer_def)
  have "\<forall>k < overflow ?q. 500 < length (drop k ?q) \<or> 52428800 < content_bytes (drop k ?q)"
    using overflow_least [of _ ?q] by (auto simp: lim)
  moreover have "length (drop (overflow ?q) ?q) \<le> 500" "content_bytes (drop (overflow ?q) ?q) \<le> 52428800"
    using overflow_within [of ?q] by (auto simp: lim)
  ultimately show ?thesis using m' by blast
qed

theorem enforceQueueLimits_bounds_witness:
  "\<exists>m'. enforceQueueLimits (sample_env 604800008) ''b'' (sample_manager ''a'' CHR ''1'' ''b'' CHR ''2'' sample_store)
      = (Some None, m') \<and>
     GetPendingMessages ''b'' (mg_store m') = Inr [sample_message ''2'' ''a'' ''b'' ''hello'' 9]"
proof -
  have q: "live_queue (sample_env 604800008) ''b'' sample_store = [sample_message ''2'' ''a'' ''b'' ''hello'' 9]"
    by (simp add: live_queue_def sample_store_def sample_message_def is_pending_to_def is_expired_def maxQueueAge_def)
  obtain n m' where m': "enforceQueueLimits (sample_env 604800008) ''b''
        (sample_manager ''a'' CHR ''1'' ''b'' CHR ''2'' sample_store) = (Some None, m')"
    "GetPendingMessages ''b'' (mg_store m') = Inr (drop n [sample_message ''2'' ''a'' ''b'' ''hello'' 9])"
    and least: "\<forall>k < n. 500 < length (drop k [sample_message ''2'' ''a'' ''b'' ''hello'' 9]) \<or>
      52428800 < content_bytes (drop k [sample_message ''2'' ''a'' ''b'' ''hello'' 9])"
    using enforceQueueLimits_bounds [of "sample_manager ''a'' CHR ''1'' ''b'' CHR ''2'' sample_store" "''b''"
        "sample_env 604800008"] sample_store_wf
    by (auto simp: q maxQueueAge_def)
  have "n = 0"
  proof (rule ccontr)
    assume "n \<noteq> 0"
    with least have "500 < length (drop 0 [sample_message ''2'' ''a'' ''b'' ''hello'' 9]) \<or>
      52428800 < content_bytes (drop 0 [sample_message ''2'' ''a'' ''b'' ''hello'' 9])" by blast
    then show False by (simp add: sample_message_def)
  qed
  with m' show ?thesis by simp
qed

text \<open>C19: An acknowledgement changes nothing but the delivery status of the message it names, and that only
  if this device sent the message to the very peer on whose connection a correctly signed acknowledgement
  arrives, and the status is one of the vocabulary.\<close>

theorem ack_outcome:
  assumes "store_wf (mg_store m)"
  shows "st_messages (mg_store (handleAck env i ack m)) =
    map (\<lambda>r. if genuine_ack env i ack m \<and> m_MessageID r = ak_MessageID ack \<and>
               m_FromDeviceID r = local_id m \<and> m_ToDeviceID r = peer_of m i \<and>
               validateDeliveryStatus (ack_status ack) = None
             then r\<lparr>m_DeliveryStatus := ack_status ack\<rparr> else r) (st_messages (mg_store m))"
proof (cases "genuine_ack env i ack m")
  case True
  then have "ak_MessageID ack \<noteq> []" by (simp add: genuine_ack_def)
  from apply_ack_messages [OF assms this, of "peer_of m i"] True show ?thesis
    by (simp add: handleAck_genuine acked_def [abs_def])
next
  case False
  with handleAck_ignored [OF False] show ?thesis by (simp add: chat_view_def)
qed

theorem ack_outcome_witness:
  "st_messages (mg_store (handleAck (sample_env 9) 0 \<lparr>ak_MessageID = ''1'', ak_FromDeviceID = ''c'',
       ak_Status = ''failed'', ak_Timestamp = 9, ak_Signature = ''s''\<rparr>
       (sample_manager ''a'' CHR ''1'' ''b'' CHR ''2'' sample_store))) = st_messages sample_store"
  using ack_outcome [of "sample_manager ''a'' CHR ''1'' ''b'' CHR ''2'' sample_store" "sample_env 9" 0
      "\<lparr>ak_MessageID = ''1'', ak_FromDeviceID = ''c'', ak_Status = ''failed'', ak_Timestamp = 9, ak_Signature = ''s''\<rparr>"]
    sample_store_wf
  by (simp add: genuine_ack_def)

text \<open>A queued message keeps the time stamp it was written with, so one that waited more than five minutes
  is refused by the peer: the sender marks it sent, the peer delivers nothing and answers
  \<open>timestamp_out_of_range\<close>, and on that answer the sender marks the message failed.\<close>

theorem queued_message_expires:
  assumes "sendPendingMessage ea i p a = (None, a')" and "store_wf (mg_store a)"
    and "p \<in> set (st_messages (mg_store a))" and "m_TimestampSent p \<noteq> 0"
    and "m_TimestampSent p * 1000000 + maxTimestampSkew < en_now eb"
    and "peer_of a i = local_id b" and "peer_of b j = local_id a" and "local_id a \<noteq> []" and "local_id b \<noteq> []"
    and "er_RelatedMessageID e = m_MessageID p"
  shows "\<exists>wire. (i, PMessage wire) \<in> set (mg_sent a') \<and> em_MessageID wire = m_MessageID p \<and>
     handleIncomingEncryptedMessage eb j wire b =
       sendErrorMessage eb j ''timestamp_out_of_range'' ''message timestamp outside allowed skew'' (m_MessageID p)
         (reportError (Err ''rejecting message: timestamp outside skew window'') b) \<and>
     (\<exists>row. GetMessageByID (m_MessageID p) (mg_store (handleProtocolError e a')) =
        Inr (row\<lparr>m_DeliveryStatus := ''failed''\<rparr>))"
proof -
  have id: "m_MessageID p \<noteq> []" using assms(2,3) by (simp add: store_wf_def messages_wf_def)
  obtain wire a1 where w: "buildEncryptedMessage ea i (m_MessageID p) (m_Content p) (m_TimestampSent p) a = (Inr wire, a1)"
    using assms(1) by (auto simp: sendPendingMessage_def split: prod.splits sum.splits)
  obtain a2 where s: "send ea i (PMessage wire) a1 = (None, a2)"
    using assms(1) w by (auto simp: sendPendingMessage_def split: prod.splits option.splits)
  have a': "a' = snd (on_store (UpdateDeliveryStatus (m_MessageID p) ''sent'') a2)"
    using assms(1) w s by (simp add: sendPendingMessage_def Let_def split_beta)
  note f = buildEncryptedMessage_Inr [OF w]
  have sent: "(i, PMessage wire) \<in> set (mg_sent a')"
    using send_frame(6) [OF s] by (simp add: a' on_store_def split_beta)
  have "m_MessageID p \<in> message_ids (mg_store a2)"
    using assms(3) send_frame(1) [OF s] f(7) by (simp add: message_ids_def)
  then have "m_MessageID p \<in> message_ids (mg_store a')"
    using id by (auto simp: a' on_store_def split_beta UpdateDeliveryStatus_def set_delivery_status_def
        message_ids_def image_key_tbl_update split: option.split)
  then have upd: "UpdateDeliveryStatus (m_MessageID p) ''failed'' (mg_store a') =
      (None, fail_ids {m_MessageID p} (mg_store a'))"
    and "\<exists>r. tbl_find m_MessageID (m_MessageID p) (st_messages (mg_store a')) = Some r"
    using id tbl_find_None_iff [of m_MessageID "m_MessageID p" "st_messages (mg_store a')"]
    by (auto simp: UpdateDeliveryStatus_failed message_ids_def)
  then obtain r where "tbl_find m_MessageID (m_MessageID p) (st_messages (mg_store a')) = Some r" by blast
  then have "GetMessageByID (m_MessageID p) (mg_store (handleProtocolError e a')) =
      Inr (r\<lparr>m_DeliveryStatus := ''failed''\<rparr>)"
    using id assms(10) tbl_find_SomeD
    by (fastforce simp: handleProtocolError_def on_store_def upd report_result_def serious_def GetMessageByID_def
        fail_ids_def tbl_find_update)
  moreover have "\<not> withinTimestampSkew (en_now eb) (em_Timestamp wire)"
    using assms(4,5) f(5) by (simp add: withinTimestampSkew_def)
  then have "handleIncomingEncryptedMessage eb j wire b =
       sendErrorMessage eb j ''timestamp_out_of_range'' ''message timestamp outside allowed skew'' (m_MessageID p)
         (reportError (Err ''rejecting message: timestamp outside skew window'') b)"
    using id f(1-3) assms(6-9) by (simp add: handleIncomingEncryptedMessage_def)
  ultimately show ?thesis using sent f(1) by blast
qed

definition plain_json :: Json where
  "plain_json = \<lparr>json_Marshal = (\<lambda>_. ''{}''), json_Unmarshal = (\<lambda>_. None), json_Type = (\<lambda>_. None),
     json_MarshalFrame = (\<lambda>_. ''{}''), json_UnmarshalFrame = (\<lambda>_. None)\<rparr>"

abbreviation "plain_env t \<equiv> (sample_env t)\<lparr>en_J := plain_json\<rparr>"

lemma plain_build:
  assumes "length (id_Ed25519PrivateKey (mg_identity m)) = 64" and "length (sessionKey (mg_heap m i)) = 32"
  shows "\<exists>wire. buildEncryptedMessage (plain_env t) i mid content ts m =
    (Inr wire, set_conn i ((mg_heap m i)\<lparr>sendSequence := sendSequence (mg_heap m i) + 1\<rparr>) m)"
  using assms
  by (simp add: buildEncryptedMessage_def Let_def Encrypt_def NextSendSequence_def signEncryptedMessage_def
      sign_packet_def Sign_def PrivateKeySize_def plain_json_def del: EncodeToString.simps)

lemma sample_identity_length: "length (id_Ed25519PrivateKey (sample_identity d c)) = 64"
  by (simp add: sample_identity_def)

lemma plain_build_sample:
  "\<exists>wire. buildEncryptedMessage (plain_env t) 0 mid content ts (sample_manager me k peer k' s) =
    (Inr wire, set_conn 0 ((mg_heap (sample_manager me k peer k' s) 0)\<lparr>sendSequence := 1\<rparr>) (sample_manager me k peer k' s))"
  using plain_build [of "sample_manager me k peer k' s" 0 t mid content ts]
  by (simp add: sample_identity_length del: EncodeToString.simps)

lemma plain_send:
  assumes "conn_state (mg_heap m i) \<noteq> StateDisconnected" and "length (sessionKey (mg_heap m i)) = 32"
    and "w_limit (cn_out (mg_heap m i)) = None"
  shows "fst (send (plain_env t) i pk m) = None"
  using assms
  by (simp add: send_def SendMessage_def SendRaw_def encryptPayload_def Encrypt_def WriteFrame_def Write_def
      plain_json_def MaxFrameSize_def Let_def split_beta del: EncodeToString.simps)

theorem queued_message_expires_witness:
  "\<exists>a' wire row. (0, PMessage wire) \<in> set (mg_sent a') \<and> em_MessageID wire = ''1'' \<and>
     GetMessageByID ''1'' (mg_store (handleProtocolError \<lparr>er_Code = [], er_Message = [],
        er_RelatedMessageID = ''1'', er_SupportedVersions = [], er_Timestamp = 0\<rparr> a')) =
       Inr (row\<lparr>m_DeliveryStatus := ''failed''\<rparr>)"
proof -
  let ?a = "sample_manager ''a'' CHR ''1'' ''b'' CHR ''2'' sample_store"
  let ?p = "sample_message ''1'' ''a'' ''b'' ''bye'' 7"
  obtain wire a1 where b: "buildEncryptedMessage (plain_env 9) 0 (m_MessageID ?p) (m_Content ?p) (m_TimestampSent ?p) ?a = (Inr wire, a1)"
    and a1: "a1 = set_conn 0 ((mg_heap ?a 0)\<lparr>sendSequence := 1\<rparr>) ?a"
    using plain_build_sample by blast
  have snd: "fst (send (plain_env 9) 0 (PMessage wire) a1) = None"
    by (rule plain_send) (simp_all add: a1 sample_manager_def newPeerConnection_def)
  obtain a2 where a2: "send (plain_env 9) 0 (PMessage wire) a1 = (None, a2)"
    using snd by (metis prod.collapse)
  have "mg_store a2 = sample_store" using send_frame(1) [OF a2] by (simp add: a1)
  then have "fst (on_store (UpdateDeliveryStatus ''1'' ''sent'') a2) = None"
    by (simp add: on_store_def split_beta UpdateDeliveryStatus_def validateDeliveryStatus_def set_delivery_status_def
        rows_affected_0 sample_store_def sample_message_def)
  then have "fst (sendPendingMessage (plain_env 9) 0 ?p ?a) = None"
    by (simp add: sendPendingMessage_def b  a2 split_beta Let_def serious_def)
       (simp add: sample_message_def)
  then obtain a' where a': "sendPendingMessage (plain_env 9) 0 ?p ?a = (None, a')"
    by (metis prod.collapse)
  have p: "?p \<in> set (st_messages sample_store)" by (simp add: sample_store_def)
  show ?thesis
    using queued_message_expires [OF a', of "sample_env 300008" bob 0 "\<lparr>er_Code = [], er_Message = [],
        er_RelatedMessageID = ''1'', er_SupportedVersions = [], er_Timestamp = 0\<rparr>"] p sample_store_wf
    by (simp add: maxTimestampSkew_def Second_def) (auto simp: sample_message_def)
qed

text \<open>A message is stored only after it was sent, so an acknowledgement that is handled in between finds
  no row: it changes nothing, and the message is stored as \<open>sent\<close> although the peer confirmed it.\<close>

theorem early_ack_lost:
  assumes "try_send env peer mid content ts m = (Inr (''sent'', sg), m1)"
    and "store_wf (mg_store m)" and "mid \<notin> message_ids (mg_store m)" and "ak_MessageID ack = mid"
    and "save_outgoing env peer mid content ts ''sent'' sg (handleAck env' i ack m1) = (Some None, m2)"
  shows "chat_view (handleAck env' i ack m1) = chat_view m \<and>
     (\<exists>row. GetMessageByID mid (mg_store m2) = Inr row \<and> m_DeliveryStatus row = ''sent'')"
proof -
  let ?a = "handleAck env' i ack m1"
  let ?row = "outgoing_row ?a peer mid content ts ''sent'' sg"
  have st1: "mg_store m1 = mg_store m" and cv1: "chat_view m1 = chat_view m"
    using assms(1)
    by (auto simp: try_send_def chat_view_def dest!: buildEncryptedMessage_frame send_frame14
        split: option.splits prod.splits sum.splits if_splits)
  obtain s where s: "SaveMessage (env_ms env) ?row (mg_store ?a) = (None, s)" and m2: "mg_store m2 = s"
    using assms(5) by (auto simp: save_outgoing_def on_store_def split: prod.splits option.splits)
  then have "insert_message (?row\<lparr>m_TimestampSent := if ts = 0 then env_ms env else ts\<rparr>) (mg_store ?a) = (None, s)"
    by (auto simp: SaveMessage_def outgoing_row_def Let_def split: if_splits option.splits)
  then have new: "mid \<notin> m_MessageID ` set (st_messages (mg_store ?a))"
    and st: "st_messages s = st_messages (mg_store ?a) @ [?row\<lparr>m_TimestampSent := if ts = 0 then env_ms env else ts\<rparr>]"
    by (auto simp: insert_message_def outgoing_row_def message_ids_def split: if_splits)
  have id: "mid \<noteq> []" using s by (auto simp: SaveMessage_def outgoing_row_def split: if_splits)
  have "chat_view ?a = chat_view m"
    using handleAck_unknown [of ack m1 env' i] assms(3,4) st1 cv1 by (simp add: message_ids_def)
  with id new st show ?thesis
    by (simp add: m2 GetMessageByID_def tbl_find_append outgoing_row_def tbl_simps tbl_find_None_iff [THEN iffD2])
qed

theorem early_ack_lost_witness:
  "\<exists>sg m1 (m2 :: Manager) row. try_send (plain_env 9) ''b'' ''7'' ''hi'' 8 alice = (Inr (''sent'', sg), m1) \<and>
     GetMessageByID ''7'' (mg_store m2) = Inr row \<and> m_DeliveryStatus row = ''sent''"
proof -
  let ?ack = "\<lparr>ak_MessageID = ''7'', ak_FromDeviceID = ''b'', ak_Status = ''delivered'', ak_Timestamp = 9,
     ak_Signature = ''s''\<rparr>"
  let ?t = "try_send (plain_env 9) ''b'' ''7'' ''hi'' 8 alice"
  obtain wire a1 where b: "buildEncryptedMessage (plain_env 9) 0 ''7'' ''hi'' 8 alice = (Inr wire, a1)"
    and a1: "a1 = set_conn 0 ((mg_heap alice 0)\<lparr>sendSequence := 1\<rparr>) alice"
    using plain_build_sample by blast
  have "fst (send (plain_env 9) 0 (PMessage wire) a1) = None"
    by (rule plain_send) (simp_all add: a1 sample_manager_def newPeerConnection_def)
  then obtain a2 where a2: "send (plain_env 9) 0 (PMessage wire) a1 = (None, a2)"
    by (metis prod.collapse)
  have "getConnection ''b'' alice = Some 0" "conn_state (mg_heap alice 0) = StateReady"
    by (simp_all add: getConnection_def sample_manager_def newPeerConnection_def)
  then have t: "?t = (Inr (''sent'', em_Signature wire), a2)"
    by (simp add: try_send_def b  a2)
  define m where "m = handleAck (plain_env 9) 0 ?ack a2"
  have cv: "chat_view a2 = chat_view alice" and st: "mg_store a2 = two_peers"
    using send_frame(1,4) [OF a2] by (simp_all add: chat_view_def a1)
  have ids: "''7'' \<notin> message_ids two_peers" by (simp add: message_ids_def two_peers_def empty_store_def)
  have "''7'' \<notin> message_ids (mg_store m)"
    using handleAck_unknown [of ?ack a2 "plain_env 9" 0] ids
    by (simp add: m_def st chat_view_def message_ids_def)
  moreover have "peer_ids (mg_store m) = {''a'', ''b''}"
    by (simp add: m_def peer_ids_def st_peers_handleAck st) (auto simp: two_peers_def)
  moreover have "local_id m = ''a''"
    using send_frame(2) [OF a2] by (simp add: m_def local_id_handleAck) (simp add: local_id_def a1 sample_identity_def)
  ultimately have "fst (save_outgoing (plain_env 9) ''b'' ''7'' ''hi'' 8 ''sent'' (em_Signature wire) m) = Some None"
    by (simp add: save_outgoing_def on_store_def split_beta SaveMessage_def insert_message_def outgoing_row_def
        validateContentType_def validateDeliveryStatus_def)
  then have "save_outgoing (plain_env 9) ''b'' ''7'' ''hi'' 8 ''sent'' (em_Signature wire) m =
      (Some None, snd (save_outgoing (plain_env 9) ''b'' ''7'' ''hi'' 8 ''sent'' (em_Signature wire) m))"
    by (metis prod.collapse)
  from early_ack_lost [OF t _ _ _ this [unfolded m_def]] ids two_peers_wf
  obtain row and m2 :: Manager where "GetMessageByID ''7'' (mg_store m2) = Inr row" "m_DeliveryStatus row = ''sent''"
    by auto
  with t show ?thesis by blast
qed

end
