(* ===== verification/Rekey.thy ===== *)
theory Rekey
  imports Messaging
begin

text \<open>
  The change of session keys in \<open>src/network/peer_manager.go\<close>: \<open>onConnectionRekeyNeeded\<close>,
  \<open>initiateRekey\<close>, \<open>handleRekeyRequest\<close>, \<open>handleRekeyResponse\<close>.

  \<open>initiateRekey\<close> blocks while it waits for the response. It is two functions here, \<open>rekey_start\<close> up to
  the request on the wire and \<open>rekey_finish\<close> from the event that ended the wait (\<open>rekey_wait\<close>, one
  constructor per case of the \<open>select\<close>), so that everything can happen in between. The ephemeral keys are
  drawn by the environment and do not fail.
\<close>

section \<open>The initiator\<close>

definition setRekeyInProgress :: "bool \<Rightarrow> Conn \<Rightarrow> Conn" where
  "setRekeyInProgress b c = c\<lparr>rekeyInProgress := b\<rparr>"

datatype rekey_started = AlreadyWaiting | StartFailed go_error | Waiting nat "64 word"

datatype rekey_wait = Stopped | ConnDone | TimedOut | Result "RekeyResponse res"

text \<open>The deferred removal: only the own waiter is removed.\<close>

definition drop_waiter :: "string \<Rightarrow> nat \<Rightarrow> Manager \<Rightarrow> Manager" where
  "drop_waiter peer w m =
     (case map_of (pendingRekeyWaiters m) peer of
        Some (w', box) \<Rightarrow>
          if w' = w then m\<lparr>pendingRekeyWaiters := AList.delete peer (pendingRekeyWaiters m)\<rparr> else m
      | None \<Rightarrow> m)"

definition rekey_request :: "Env \<Rightarrow> nat \<Rightarrow> Manager \<Rightarrow> RekeyRequest" where
  "rekey_request env i m =
     \<lparr>rq_FromDeviceID = local_id m, rq_Epoch = sessionEpoch (mg_heap m i) + 1,
      rq_X25519PublicKey = EncodeToString (x25519_Public (en_P env) (en_eph env)),
      rq_Timestamp = env_ms env, rq_Signature = []\<rparr>"

definition rekey_start :: "Env \<Rightarrow> nat \<Rightarrow> Manager \<Rightarrow> rekey_started \<times> Manager" where
  "rekey_start env i m =
     (let peer = peer_of m i; w = mg_waiter_seq m in
      if peer = [] then (StartFailed (Err ''rekey: peer device ID is required''), m)
      else if map_of (pendingRekeyWaiters m) peer \<noteq> None then (AlreadyWaiting, m)
      else
        let m1 = m\<lparr>pendingRekeyWaiters := AList.update peer (w, None) (pendingRekeyWaiters m),
                   mg_waiter_seq := w + 1\<rparr>
        in case signRekeyRequest env (rekey_request env i m1) m1 of
             Inl e \<Rightarrow> (StartFailed e, drop_waiter peer w m1)
           | Inr request \<Rightarrow>
               (case send env i (PRekeyRequest request) m1 of
                  (Some e, m2) \<Rightarrow> (StartFailed e, drop_waiter peer w m2)
                | (None, m2) \<Rightarrow> (Waiting w (rq_Epoch request), m2)))"

definition rotate :: "Env \<Rightarrow> nat \<Rightarrow> string \<Rightarrow> 64 word \<Rightarrow> Manager \<Rightarrow> go_error option \<times> Manager" where
  "rotate env i key epoch m =
     (let (r, c) = RotateSessionKey (en_now env) key epoch (mg_heap m i) in (r, set_conn i c m))"

definition rekey_complete ::
    "Env \<Rightarrow> nat \<Rightarrow> string \<Rightarrow> 64 word \<Rightarrow> RekeyResponse \<Rightarrow> Manager \<Rightarrow> go_error option \<times> Manager" where
  "rekey_complete env i eph targetEpoch response m =
     (if rs_Epoch response \<noteq> targetEpoch then (Some (Err ''rekey: unexpected response epoch''), m)
      else case deriveRekeySessionKey (en_P env) eph (rs_X25519PublicKey response) (local_id m)
                  (peer_of m i) targetEpoch of
             Inl e \<Rightarrow> (Some e, m)
           | Inr newKey \<Rightarrow> rotate env i newKey targetEpoch m)"

definition rekey_finish ::
    "Env \<Rightarrow> nat \<Rightarrow> string \<Rightarrow> nat \<Rightarrow> 64 word \<Rightarrow> rekey_wait \<Rightarrow> Manager \<Rightarrow> go_error option \<times> Manager" where
  "rekey_finish env i eph w targetEpoch ev m =
     (let (r, m1) =
        (case ev of
           Stopped \<Rightarrow> (Some ContextCanceled, m)
         | ConnDone \<Rightarrow>
             (Some (case closeErr (mg_heap m i) of
                      Some e \<Rightarrow> e
                    | None \<Rightarrow> Err ''connection closed while waiting for rekey response''), m)
         | TimedOut \<Rightarrow> (Some DeadlineExceeded, m)
         | Result (Inl e) \<Rightarrow> (Some e, m)
         | Result (Inr response) \<Rightarrow> rekey_complete env i eph targetEpoch response m)
      in (r, drop_waiter (peer_of m i) w m1))"

text \<open>What \<open>onConnectionRekeyNeeded\<close> does with the error \<open>initiateRekey\<close> returns.\<close>

definition rekey_failed :: "nat \<Rightarrow> go_error \<Rightarrow> Manager \<Rightarrow> Manager" where
  "rekey_failed i e m = close_conn i (reportError (Wrap ''rekey failed'' e) m)"

definition onConnectionRekeyNeeded :: "Env \<Rightarrow> nat \<Rightarrow> Manager \<Rightarrow> (nat \<times> 64 word) option \<times> Manager" where
  "onConnectionRekeyNeeded env i m =
     (if conn_state (mg_heap m i) = StateDisconnected then (None, m)
      else if peer_of m i = [] \<or> peer_of m i < local_id m
      then (None, set_conn i (setRekeyInProgress False (mg_heap m i)) m)
      else case rekey_start env i m of
             (AlreadyWaiting, m1) \<Rightarrow> (None, m1)
           | (StartFailed e, m1) \<Rightarrow> (None, rekey_failed i e m1)
           | (Waiting w t, m1) \<Rightarrow> (Some (w, t), m1))"

definition onConnectionRekeyEnd ::
    "Env \<Rightarrow> nat \<Rightarrow> string \<Rightarrow> nat \<Rightarrow> 64 word \<Rightarrow> rekey_wait \<Rightarrow> Manager \<Rightarrow> Manager" where
  "onConnectionRekeyEnd env i eph w targetEpoch ev m =
     (case rekey_finish env i eph w targetEpoch ev m of
        (None, m1) \<Rightarrow> m1
      | (Some e, m1) \<Rightarrow> rekey_failed i e m1)"

section \<open>The responder\<close>

definition reject_rekey :: "nat \<Rightarrow> go_error \<Rightarrow> Manager \<Rightarrow> Manager" where
  "reject_rekey i e m = close_conn i (reportError e m)"

definition answer_rekey :: "Env \<Rightarrow> nat \<Rightarrow> RekeyRequest \<Rightarrow> Manager \<Rightarrow> Manager" where
  "answer_rekey env i request m =
     (case deriveRekeySessionKey (en_P env) (en_eph env) (rq_X25519PublicKey request) (local_id m)
             (peer_of m i) (rq_Epoch request) of
        Inl e \<Rightarrow> reject_rekey i e m
      | Inr newKey \<Rightarrow>
          (case signRekeyResponse env
                  \<lparr>rs_FromDeviceID = local_id m, rs_Epoch = rq_Epoch request,
                   rs_X25519PublicKey = EncodeToString (x25519_Public (en_P env) (en_eph env)),
                   rs_Timestamp = env_ms env, rs_Signature = []\<rparr> m of
             Inl e \<Rightarrow> reject_rekey i e m
           | Inr response \<Rightarrow>
               (case send env i (PRekeyResponse response) m of
                  (Some e, m1) \<Rightarrow> reject_rekey i e m1
                | (None, m1) \<Rightarrow>
                    (case rotate env i newKey (rq_Epoch request) m1 of
                       (Some e, m2) \<Rightarrow> reject_rekey i e m2
                     | (None, m2) \<Rightarrow> m2))))"

definition handleRekeyRequest :: "Env \<Rightarrow> nat \<Rightarrow> RekeyRequest \<Rightarrow> Manager \<Rightarrow> Manager" where
  "handleRekeyRequest env i request m =
     (let peer = peer_of m i in
      if peer = [] \<or> rq_FromDeviceID request = [] \<or> rq_X25519PublicKey request = [] \<or>
         rq_Signature request = [] \<or> rq_Epoch request = 0 then close_conn i m
      else if rq_FromDeviceID request \<noteq> peer then
        reject_rekey i (Err ''rejecting rekey_request: sender mismatch'') m
      else if \<not> withinTimestampSkew (en_now env) (rq_Timestamp request) then
        reject_rekey i (Err ''rejecting rekey_request: timestamp outside skew'') m
      else case verifyRekeyRequest env i request m of
             Some e \<Rightarrow>
               close_conn i (logSecurityEvent env ''signature_verification_failed'' peer ''warning''
                 [(''message_type'', ''rekey_request''), (''error'', error_text e)] (reportError e m))
           | None \<Rightarrow> answer_rekey env i request m)"

section \<open>The response\<close>

definition deliver_response :: "string \<Rightarrow> RekeyResponse \<Rightarrow> Manager \<Rightarrow> Manager" where
  "deliver_response peer response m =
     (case map_of (pendingRekeyWaiters m) peer of
        None \<Rightarrow> m
      | Some (w, Some _) \<Rightarrow> m
      | Some (w, None) \<Rightarrow>
          m\<lparr>pendingRekeyWaiters := AList.update peer (w, Some (Inr response)) (pendingRekeyWaiters m)\<rparr>)"

definition handleRekeyResponse :: "Env \<Rightarrow> nat \<Rightarrow> RekeyResponse \<Rightarrow> Manager \<Rightarrow> Manager" where
  "handleRekeyResponse env i response m =
     (let peer = peer_of m i in
      if peer = [] \<or> rs_FromDeviceID response = [] \<or> rs_X25519PublicKey response = [] \<or>
         rs_Signature response = [] \<or> rs_Epoch response = 0 then close_conn i m
      else if rs_FromDeviceID response \<noteq> peer then
        reject_rekey i (Err ''rejecting rekey_response: sender mismatch'') m
      else if \<not> withinTimestampSkew (en_now env) (rs_Timestamp response) then
        reject_rekey i (Err ''rejecting rekey_response: timestamp outside skew'') m
      else case verifyRekeyResponse env i response m of
             Some e \<Rightarrow>
               close_conn i (logSecurityEvent env ''signature_verification_failed'' peer ''warning''
                 [(''message_type'', ''rekey_response''), (''error'', error_text e)] (reportError e m))
           | None \<Rightarrow> deliver_response peer response m)"

section \<open>What sending leaves alone\<close>

definition session_part :: "Conn \<Rightarrow> string \<times> string \<times> string \<times> 64 word \<times> string \<times> 64 word \<times> bool" where
  "session_part c = (peerDeviceID c, peerPublicKey c, sessionKey c, sessionEpoch c, previousSessionKey c,
     previousSessionEpoch c, hasPreviousSession c)"

lemma session_part_simps [simp]:
  "session_part (closeWithError e c) = session_part c" "session_part (Close c) = session_part c"
  "session_part (triggerRekeyIfNeeded now c) = session_part c" "session_part (setState st c) = session_part c"
  "session_part (touchActivity now c) = session_part c" "session_part (setRekeyInProgress b c) = session_part c"
  "session_part (c\<lparr>cn_out := w\<rparr>) = session_part c" "session_part (c\<lparr>bytesSinceRekey := n\<rparr>) = session_part c"
  by (simp_all add: session_part_def closeWithError_def Close_def triggerRekeyIfNeeded_def setState_def
      touchActivity_def setRekeyInProgress_def)

lemma session_part_SendMessage [simp]: "session_part (snd (SendMessage P J iv now p c)) = session_part c"
  by (simp add: SendMessage_def SendRaw_def Let_def split: sum.split prod.split option.split)

lemma send_heap:
  assumes "send env i p m = (r, m')"
  shows "session_part (mg_heap m' k) = session_part (mg_heap m k)"
    and "pendingRekeyWaiters m' = pendingRekeyWaiters m" and "mg_waiter_seq m' = mg_waiter_seq m"
proof -
  have m': "m' = snd (send env i p m)" using assms by simp
  show "session_part (mg_heap m' k) = session_part (mg_heap m k)"
    and "pendingRekeyWaiters m' = pendingRekeyWaiters m" and "mg_waiter_seq m' = mg_waiter_seq m"
    unfolding m' by (simp_all add: send_def Let_def split_beta set_conn_def)
qed

lemma session_part_eq:
  assumes "session_part c = session_part c'"
  shows "peerDeviceID c = peerDeviceID c'" and "peerPublicKey c = peerPublicKey c'"
    and "sessionKey c = sessionKey c'" and "sessionEpoch c = sessionEpoch c'"
    and "previousSessionKey c = previousSessionKey c'" and "previousSessionEpoch c = previousSessionEpoch c'"
    and "hasPreviousSession c = hasPreviousSession c'"
  using assms by (simp_all add: session_part_def)

section \<open>Both sides derive the same key\<close>

lemma deriveRekey_agree:
  assumes "prims_ok P" and "length a = 32" and "length b = 32"
  shows "deriveRekeySessionKey P a (EncodeToString (x25519_Public P b)) A B t =
         deriveRekeySessionKey P b (EncodeToString (x25519_Public P a)) B A t"
proof -
  have "x25519_ECDH P a (x25519_Public P b) = x25519_ECDH P b (x25519_Public P a)"
    by (rule prims_okD(5) [OF assms])
  moreover have "sessionInfo A B c = sessionInfo B A c" for c by (rule sessionInfo_sym)
  ultimately show ?thesis
    using prims_okD(4) [OF assms(1), of a] prims_okD(4) [OF assms(1), of b] assms(2,3)
    by (auto simp: deriveRekeySessionKey_def ephemeral_secret_def ParseX25519PublicKey_def
        ComputeX25519SharedSecret_def DeriveSessionKeyWithContext_def simp del: EncodeToString.simps
        split: option.split)
qed

lemma deriveRekey_length:
  "prims_ok P \<Longrightarrow> deriveRekeySessionKey P a B x y t = Inr k \<Longrightarrow> length k = 32"
  by (auto simp: deriveRekeySessionKey_def DeriveSessionKeyWithContext_def prims_okD(7)
      split: sum.splits if_splits)

lemma verify_packet_signed:
  assumes "prims_ok (en_P env)" and "json_ok (en_J env)"
    and "length sk = PrivateKeySize"
    and "sign_packet env p a = Inr s" and "id_Ed25519PrivateKey (mg_identity a) = sk"
    and "en_P env' = en_P env" and "en_J env' = en_J env"
    and "peerPublicKey (mg_heap b j) = EncodeToString (ed25519_Public (en_P env) sk)"
  shows "verify_packet env' j p s b = None"
proof -
  obtain sig where sig: "sign_packet env p a = Inr (EncodeToString sig)"
    "Verify (en_P env) (ed25519_Public (en_P env) sk) (json_Marshal (en_J env) p) sig"
    using sign_packet_verifies [OF assms(1,2), of a p] assms(3,5) by auto
  then have "s = EncodeToString sig" using assms(4) by simp
  moreover have "length (ed25519_Public (en_P env) sk) = PublicKeySize"
    using sig(2) by (simp add: Verify_def split: if_splits)
  ultimately show ?thesis
    using sig(2) by (simp add: verify_packet_def decodePeerPublicKey_def assms(6-8) del: EncodeToString.simps)
qed

lemma sign_packet_neq_Nil:
  assumes "prims_ok (en_P env)" and "sign_packet env p a = Inr s"
  shows "s \<noteq> []"
proof -
  obtain sig where sig: "Sign (en_P env) (id_Ed25519PrivateKey (mg_identity a)) (json_Marshal (en_J env) p) = Inr sig"
    and s: "s = EncodeToString sig"
    using assms(2) by (auto simp: sign_packet_def map_sum_def split: sum.splits)
  have "length sig = SignatureSize"
    using Verify_Sign [OF assms(1) sig] by (simp add: Verify_def split: if_splits)
  then show ?thesis unfolding s by (intro EncodeToString_neq_Nil) (auto simp: SignatureSize_def)
qed

lemma sign_packet_identity: "mg_identity m = mg_identity m' \<Longrightarrow> sign_packet env p m = sign_packet env p m'"
  by (simp add: sign_packet_def)

lemma rekey_start_Waiting:
  assumes "rekey_start env i a = (Waiting w t, a1)"
  shows "\<exists>rq. mg_sent a1 = mg_sent a @ [(i, PRekeyRequest rq)] \<and>
      rq\<lparr>rq_Signature := []\<rparr> = rekey_request env i a \<and>
      sign_packet env (PRekeyRequest (rekey_request env i a)) a = Inr (rq_Signature rq)"
    and "t = sessionEpoch (mg_heap a i) + 1" and "peer_of a i \<noteq> []"
    and "map_of (pendingRekeyWaiters a1) (peer_of a i) = Some (w, None)"
    and "session_part (mg_heap a1 k) = session_part (mg_heap a k)" and "mg_identity a1 = mg_identity a"
proof -
  define m1 where "m1 = a\<lparr>pendingRekeyWaiters := AList.update (peer_of a i) (mg_waiter_seq a, None) (pendingRekeyWaiters a),
       mg_waiter_seq := mg_waiter_seq a + 1\<rparr>"
  have rr: "rekey_request env i m1 = rekey_request env i a" "(rekey_request env i a)\<lparr>rq_Signature := []\<rparr> = rekey_request env i a"
    by (simp_all add: m1_def rekey_request_def local_id_def)
  have sp: "sign_packet env p m1 = sign_packet env p a" for p
    by (rule sign_packet_identity) (simp add: m1_def)
  have p: "peer_of a i \<noteq> []" using assms by (auto simp: rekey_start_def Let_def)
  have none: "map_of (pendingRekeyWaiters a) (peer_of a i) = None"
    using assms p by (cases "map_of (pendingRekeyWaiters a) (peer_of a i)") (auto simp: rekey_start_def Let_def)
  have step: "rekey_start env i a =
      (case sign_packet env (PRekeyRequest (rekey_request env i a)) a of
         Inl e \<Rightarrow> (StartFailed e, drop_waiter (peer_of a i) (mg_waiter_seq a) m1)
       | Inr s \<Rightarrow>
           (case send env i (PRekeyRequest ((rekey_request env i a)\<lparr>rq_Signature := s\<rparr>)) m1 of
              (Some e, m2) \<Rightarrow> (StartFailed e, drop_waiter (peer_of a i) (mg_waiter_seq a) m2)
            | (None, m2) \<Rightarrow> (Waiting (mg_waiter_seq a) (sessionEpoch (mg_heap a i) + 1), m2)))"
    using p none unfolding rekey_start_def Let_def m1_def [symmetric] signRekeyRequest_def rr sp
    by (simp add: rr split: sum.split) (simp add: rekey_request_def split: prod.split option.split)
  obtain s where s: "sign_packet env (PRekeyRequest (rekey_request env i a)) a = Inr s"
    and snd: "send env i (PRekeyRequest ((rekey_request env i a)\<lparr>rq_Signature := s\<rparr>)) m1 = (None, a1)"
    and w: "w = mg_waiter_seq a" and t: "t = sessionEpoch (mg_heap a i) + 1"
    using assms unfolding step by (auto split: sum.splits prod.splits option.splits)
  have "\<exists>rq. rq = (rekey_request env i a)\<lparr>rq_Signature := s\<rparr>" by simp
  then show "\<exists>rq. mg_sent a1 = mg_sent a @ [(i, PRekeyRequest rq)] \<and>
      rq\<lparr>rq_Signature := []\<rparr> = rekey_request env i a \<and>
      sign_packet env (PRekeyRequest (rekey_request env i a)) a = Inr (rq_Signature rq)"
    using send_frame(6) [OF snd] s rr(2) by (auto simp: m1_def)
  show "t = sessionEpoch (mg_heap a i) + 1" "peer_of a i \<noteq> []" by fact+
  show "map_of (pendingRekeyWaiters a1) (peer_of a i) = Some (w, None)"
    using send_heap(2) [OF snd] by (simp add: m1_def w update_conv')
  show "session_part (mg_heap a1 k) = session_part (mg_heap a k)"
    using send_heap(1) [OF snd] by (simp add: m1_def)
  show "mg_identity a1 = mg_identity a"
    using send_frame(2) [OF snd] by (simp add: m1_def)
qed

lemma mg_sent_simps [simp]:
  "mg_sent (close_conn i m) = mg_sent m" "mg_sent (reject_rekey i e m) = mg_sent m"
  by (simp_all add: close_conn_def reject_rekey_def)

lemma answer_rekey_sent:
  assumes "mg_sent (answer_rekey env j rq b) = mg_sent b @ [(j, PRekeyResponse rs)]"
  obtains key m1 where "deriveRekeySessionKey (en_P env) (en_eph env) (rq_X25519PublicKey rq) (local_id b)
      (peer_of b j) (rq_Epoch rq) = Inr key"
    and "sign_packet env (PRekeyResponse (rs\<lparr>rs_Signature := []\<rparr>)) b = Inr (rs_Signature rs)"
    and "rs_FromDeviceID rs = local_id b" and "rs_Epoch rs = rq_Epoch rq"
    and "rs_X25519PublicKey rs = EncodeToString (x25519_Public (en_P env) (en_eph env))"
    and "rs_Timestamp rs = env_ms env"
    and "send env j (PRekeyResponse rs) b = (None, m1)"
    and "answer_rekey env j rq b = (case rotate env j key (rq_Epoch rq) m1 of
           (Some e, m2) \<Rightarrow> reject_rekey j e m2 | (None, m2) \<Rightarrow> m2)"
proof -
  define r0 where "r0 = \<lparr>rs_FromDeviceID = local_id b, rs_Epoch = rq_Epoch rq,
     rs_X25519PublicKey = EncodeToString (x25519_Public (en_P env) (en_eph env)),
     rs_Timestamp = env_ms env, rs_Signature = []\<rparr>"
  have r0: "r0\<lparr>rs_Signature := []\<rparr> = r0" by (simp add: r0_def)
  obtain key where key: "deriveRekeySessionKey (en_P env) (en_eph env) (rq_X25519PublicKey rq) (local_id b)
      (peer_of b j) (rq_Epoch rq) = Inr key"
    using assms by (cases "deriveRekeySessionKey (en_P env) (en_eph env) (rq_X25519PublicKey rq) (local_id b)
      (peer_of b j) (rq_Epoch rq)") (auto simp: answer_rekey_def)
  obtain s where s: "sign_packet env (PRekeyResponse r0) b = Inr s"
    using assms by (cases "sign_packet env (PRekeyResponse r0) b")
      (auto simp: answer_rekey_def key r0_def [symmetric] signRekeyResponse_def r0)
  let ?rs = "r0\<lparr>rs_Signature := s\<rparr>"
  obtain m1 where m1: "send env j (PRekeyResponse ?rs) b = (None, m1)"
  proof (cases "send env j (PRekeyResponse ?rs) b")
    case (Pair r m1)
    then show ?thesis
      using that assms send_frame(6) [OF Pair]
      by (cases r) (auto simp: answer_rekey_def key r0_def [symmetric] signRekeyResponse_def r0 s)
  qed
  have eq: "answer_rekey env j rq b = (case rotate env j key (rq_Epoch rq) m1 of
           (Some e, m2) \<Rightarrow> reject_rekey j e m2 | (None, m2) \<Rightarrow> m2)"
    by (simp add: answer_rekey_def key r0_def [symmetric] signRekeyResponse_def r0 s m1)
  have "mg_sent (answer_rekey env j rq b) = mg_sent m1"
    by (simp add: eq rotate_def Let_def split: prod.split option.split)
  then have rs: "rs = ?rs" using assms send_frame(6) [OF m1] by simp
  show ?thesis
    by (rule that [OF key _ _ _ _ _ m1 [folded rs] eq]) (simp_all add: rs s r0, simp_all add: r0_def)
qed

lemma rotate_next:
  assumes "key \<noteq> []" and "epoch = sessionEpoch (mg_heap m i) + 1" and "epoch \<noteq> 0"
  shows "rotate env i key epoch m =
    (None, set_conn i ((mg_heap m i)\<lparr>previousSessionKey := sessionKey (mg_heap m i),
        previousSessionEpoch := sessionEpoch (mg_heap m i),
        hasPreviousSession := (length (sessionKey (mg_heap m i)) > 0), sessionKey := key, sessionEpoch := epoch,
        bytesSinceRekey := 0, lastRekeyAt := en_now env, rekeyInProgress := False\<rparr>) m)"
proof -
  have "\<not> epoch \<le> sessionEpoch (mg_heap m i)"
  proof
    assume le: "epoch \<le> sessionEpoch (mg_heap m i)"
    have "unat (sessionEpoch (mg_heap m i) + 1) = unat (sessionEpoch (mg_heap m i)) + 1"
      using assms(2,3) by (metis Suc_eq_plus1 add.commute unatSuc)
    with le assms(2) show False by (simp add: word_le_nat_alt)
  qed
  then show ?thesis using assms(1,2) by (simp add: rotate_def RotateSessionKey_def)
qed

lemma Rekey_request_neq_Nil:
  "prims_ok P \<Longrightarrow> length k = 32 \<Longrightarrow> EncodeToString (x25519_Public P k) \<noteq> []"
  by (intro EncodeToString_neq_Nil) (auto simp: prims_ok_def)

text \<open>
  The three stages of a rekey between linked ends: the request of the initiator is genuine, the responder
  answers it and rotates, and the initiator, once the response is in its box, rotates to the same key.
\<close>

lemma rekey_request_genuine:
  assumes P: "prims_ok (en_P ea)" "json_ok (en_J ea)" "length (en_eph ea) = 32"
    and envs: "en_P eb = en_P ea" "en_J eb = en_J ea"
    and ends: "linked ea i a j b" and wrap: "sessionEpoch (mg_heap a i) + 1 \<noteq> 0"
    and start: "rekey_start ea i a = (Waiting w t, a1)" "mg_sent a1 = mg_sent a @ [(i, PRekeyRequest rq)]"
    and fresh: "withinTimestampSkew (en_now eb) (rq_Timestamp rq)"
  shows "handleRekeyRequest eb j rq b = answer_rekey eb j rq b"
    and "rq_Epoch rq = t" and "rq_X25519PublicKey rq = EncodeToString (x25519_Public (en_P ea) (en_eph ea))"
proof -
  note L = ends [unfolded linked_def]
  have t: "t = sessionEpoch (mg_heap a i) + 1" using rekey_start_Waiting(2) [OF start(1)] .
  have rq: "rq\<lparr>rq_Signature := []\<rparr> = rekey_request ea i a"
    "sign_packet ea (PRekeyRequest (rekey_request ea i a)) a = Inr (rq_Signature rq)"
    using rekey_start_Waiting(1) [OF start(1)] start(2) by auto
  show f: "rq_Epoch rq = t" "rq_X25519PublicKey rq = EncodeToString (x25519_Public (en_P ea) (en_eph ea))"
    using arg_cong [OF rq(1), of rq_Epoch] arg_cong [OF rq(1), of rq_X25519PublicKey]
    by (simp_all add: rekey_request_def t)
  have from_a: "rq_FromDeviceID rq = local_id a"
    using arg_cong [OF rq(1), of rq_FromDeviceID] by (simp add: rekey_request_def)
  have "verifyRekeyRequest eb j rq b = None"
    unfolding verifyRekeyRequest_def rq(1)
    by (rule verify_packet_signed [OF P(1,2) _ rq(2) refl envs]) (use L in simp_all)
  then show "handleRekeyRequest eb j rq b = answer_rekey eb j rq b"
    using L fresh wrap f from_a sign_packet_neq_Nil [OF P(1) rq(2)] Rekey_request_neq_Nil [OF P(1,3)]
    by (simp add: handleRekeyRequest_def Let_def t)
qed

lemma rekey_answered:
  assumes P: "prims_ok (en_P eb)"
    and epoch: "rq_Epoch rq = sessionEpoch (mg_heap b j) + 1" "rq_Epoch rq \<noteq> 0"
    and sent: "mg_sent (answer_rekey eb j rq b) = mg_sent b @ [(j, PRekeyResponse rs)]"
  obtains key where "deriveRekeySessionKey (en_P eb) (en_eph eb) (rq_X25519PublicKey rq) (local_id b)
      (peer_of b j) (rq_Epoch rq) = Inr key" and "length key = 32"
    and "sign_packet eb (PRekeyResponse (rs\<lparr>rs_Signature := []\<rparr>)) b = Inr (rs_Signature rs)"
    and "rs_FromDeviceID rs = local_id b" and "rs_Epoch rs = rq_Epoch rq"
    and "rs_X25519PublicKey rs = EncodeToString (x25519_Public (en_P eb) (en_eph eb))"
    and "sessionKey (mg_heap (answer_rekey eb j rq b) j) = key"
    and "sessionEpoch (mg_heap (answer_rekey eb j rq b) j) = rq_Epoch rq"
    and "previousSessionKey (mg_heap (answer_rekey eb j rq b) j) = sessionKey (mg_heap b j)"
proof -
  obtain key m1 where key: "deriveRekeySessionKey (en_P eb) (en_eph eb) (rq_X25519PublicKey rq) (local_id b)
      (peer_of b j) (rq_Epoch rq) = Inr key"
    and sg: "sign_packet eb (PRekeyResponse (rs\<lparr>rs_Signature := []\<rparr>)) b = Inr (rs_Signature rs)"
    and rsf: "rs_FromDeviceID rs = local_id b" "rs_Epoch rs = rq_Epoch rq"
      "rs_X25519PublicKey rs = EncodeToString (x25519_Public (en_P eb) (en_eph eb))"
    and m1: "send eb j (PRekeyResponse rs) b = (None, m1)"
    and b1e: "answer_rekey eb j rq b = (case rotate eb j key (rq_Epoch rq) m1 of
           (Some e, m2) \<Rightarrow> reject_rekey j e m2 | (None, m2) \<Rightarrow> m2)"
    by (rule answer_rekey_sent [OF sent])
  have key32: "length key = 32" by (rule deriveRekey_length [OF P key])
  note b0 = session_part_eq [OF send_heap(1) [OF m1, of j]]
  have rot: "rotate eb j key (rq_Epoch rq) m1 = (None, set_conn j ((mg_heap m1 j)\<lparr>previousSessionKey := sessionKey (mg_heap m1 j),
        previousSessionEpoch := sessionEpoch (mg_heap m1 j),
        hasPreviousSession := (length (sessionKey (mg_heap m1 j)) > 0), sessionKey := key, sessionEpoch := rq_Epoch rq,
        bytesSinceRekey := 0, lastRekeyAt := en_now eb, rekeyInProgress := False\<rparr>) m1)"
    by (rule rotate_next) (use key32 epoch b0(4) in auto)
  show ?thesis
    by (rule that [OF key key32 sg rsf]) (simp_all add: b1e rot b0(3))
qed

lemma rekey_response_delivered:
  assumes P: "prims_ok (en_P eb)" "json_ok (en_J eb)" "length (en_eph eb) = 32"
    and envs: "en_P ec = en_P eb" "en_J ec = en_J eb"
    and ends: "linked eb j b i a1"
    and rs: "sign_packet eb (PRekeyResponse (rs\<lparr>rs_Signature := []\<rparr>)) b = Inr (rs_Signature rs)"
      "rs_FromDeviceID rs = local_id b" "rs_Epoch rs \<noteq> 0"
      "rs_X25519PublicKey rs = EncodeToString (x25519_Public (en_P eb) (en_eph eb))"
    and fresh: "withinTimestampSkew (en_now ec) (rs_Timestamp rs)"
    and box: "map_of (pendingRekeyWaiters a1) (peer_of a1 i) = Some (w, None)"
  shows "handleRekeyResponse ec i rs a1 =
    a1\<lparr>pendingRekeyWaiters := AList.update (peer_of a1 i) (w, Some (Inr rs)) (pendingRekeyWaiters a1)\<rparr>"
proof -
  note L = ends [unfolded linked_def]
  have "verifyRekeyResponse ec i rs a1 = None"
    unfolding verifyRekeyResponse_def
    by (rule verify_packet_signed [OF P(1,2) _ rs(1) refl envs]) (use L in simp_all)
  then show ?thesis
    using L fresh rs(2-4) sign_packet_neq_Nil [OF P(1) rs(1)] Rekey_request_neq_Nil [OF P(1,3)] box
    by (simp add: handleRekeyResponse_def Let_def deliver_response_def)
qed

lemma rekey_finished:
  assumes "prims_ok (en_P ed)" and "rs_Epoch rs = t" and "t = sessionEpoch (mg_heap m i) + 1" and "t \<noteq> 0"
    and "deriveRekeySessionKey (en_P ed) eph (rs_X25519PublicKey rs) (local_id m) (peer_of m i) t = Inr key"
  shows "\<exists>m'. rekey_finish ed i eph w t (Result (Inr rs)) m = (None, m') \<and> sessionKey (mg_heap m' i) = key \<and>
     sessionEpoch (mg_heap m' i) = t \<and> previousSessionKey (mg_heap m' i) = sessionKey (mg_heap m i)"
proof -
  have "key \<noteq> []" using deriveRekey_length [OF assms(1,5)] by auto
  note r = rotate_next [OF this assms(3,4), of ed]
  have heap: "mg_heap (drop_waiter p k x) = mg_heap x" for p k x
    by (simp add: drop_waiter_def split: option.split prod.split)
  show ?thesis
    using r by (simp add: rekey_finish_def rekey_complete_def assms(2,5) heap)
qed

section \<open>Properties\<close>

text \<open>C6: A rekey that runs to its end leaves both ends of the session with the same fresh key at the next
  epoch, and each keeps the old key as the previous one, provided request and response arrive within the
  allowed skew.\<close>

theorem rekey_agreement:
  assumes P: "prims_ok (en_P ea)" "json_ok (en_J ea)" "length (en_eph ea) = 32" "length (en_eph eb) = 32"
    and envs: "en_P eb = en_P ea" "en_J eb = en_J ea" "en_P ec = en_P ea" "en_J ec = en_J ea" "en_P ed = en_P ea"
    and ends: "linked ea i a j b" "linked ea j b i a"
    and epoch: "sessionEpoch (mg_heap b j) = sessionEpoch (mg_heap a i)" "sessionEpoch (mg_heap a i) + 1 \<noteq> 0"
    and start: "rekey_start ea i a = (Waiting w t, a1)" "mg_sent a1 = mg_sent a @ [(i, PRekeyRequest rq)]"
    and fresh: "withinTimestampSkew (en_now eb) (rq_Timestamp rq)" "withinTimestampSkew (en_now ec) (rs_Timestamp rs)"
    and answer: "b1 = handleRekeyRequest eb j rq b" "mg_sent b1 = mg_sent b @ [(j, PRekeyResponse rs)]"
    and deliver: "a2 = handleRekeyResponse ec i rs a1"
  shows "\<exists>a3. rekey_finish ed i (en_eph ea) w t (Result (Inr rs)) a2 = (None, a3) \<and>
     map_of (pendingRekeyWaiters a2) (peer_of a i) = Some (w, Some (Inr rs)) \<and>
     sessionKey (mg_heap a3 i) = sessionKey (mg_heap b1 j) \<and>
     sessionEpoch (mg_heap a3 i) = sessionEpoch (mg_heap a i) + 1 \<and>
     sessionEpoch (mg_heap b1 j) = sessionEpoch (mg_heap a i) + 1 \<and>
     previousSessionKey (mg_heap a3 i) = sessionKey (mg_heap a i) \<and>
     previousSessionKey (mg_heap b1 j) = sessionKey (mg_heap a i)"
proof -
  have t: "t = sessionEpoch (mg_heap a i) + 1" using rekey_start_Waiting(2) [OF start(1)] .
  note rq = rekey_request_genuine [OF P(1-3) envs(1,2) ends(1) epoch(2) start fresh(1)]
  have Pb: "prims_ok (en_P eb)" "json_ok (en_J eb)" using P envs by simp_all
  obtain key where key: "deriveRekeySessionKey (en_P eb) (en_eph eb) (rq_X25519PublicKey rq) (local_id b)
      (peer_of b j) (rq_Epoch rq) = Inr key"
    and rs: "sign_packet eb (PRekeyResponse (rs\<lparr>rs_Signature := []\<rparr>)) b = Inr (rs_Signature rs)"
      "rs_FromDeviceID rs = local_id b" "rs_Epoch rs = rq_Epoch rq"
      "rs_X25519PublicKey rs = EncodeToString (x25519_Public (en_P eb) (en_eph eb))"
    and b1: "sessionKey (mg_heap b1 j) = key" "sessionEpoch (mg_heap b1 j) = rq_Epoch rq"
      "previousSessionKey (mg_heap b1 j) = sessionKey (mg_heap b j)"
  proof (rule rekey_answered [OF Pb(1)])
    show "rq_Epoch rq = sessionEpoch (mg_heap b j) + 1" "rq_Epoch rq \<noteq> 0" using rq(2) t epoch by simp_all
    show "mg_sent (answer_rekey eb j rq b) = mg_sent b @ [(j, PRekeyResponse rs)]"
      using answer rq(1) by simp
  qed (use that answer(1) rq(1) in simp)
  note a0 = session_part_eq [OF rekey_start_Waiting(5) [OF start(1), of i]]
  have ida: "local_id a1 = local_id a" "peer_of a1 i = peer_of a i"
    using rekey_start_Waiting(6) [OF start(1)] a0(1) by (simp_all add: local_id_def peer_of_def)
  have l1: "linked eb j b i a1"
    using ends(2) ida a0 envs(1) by (simp add: linked_def)
  have a2: "a2 = a1\<lparr>pendingRekeyWaiters := AList.update (peer_of a1 i) (w, Some (Inr rs)) (pendingRekeyWaiters a1)\<rparr>"
    unfolding deliver
    by (rule rekey_response_delivered [OF Pb P(4) _ _ l1])
       (use rs envs t rq(2) epoch(2) fresh(2) ida(2) rekey_start_Waiting(4) [OF start(1)] in simp_all)
  have id2: "local_id a2 = local_id a" "peer_of a2 i = peer_of a i" "mg_heap a2 i = mg_heap a1 i"
    using ida by (simp_all add: a2 local_id_def peer_of_def)
  have pb: "peer_of a i = local_id b" "peer_of b j = local_id a" "sessionKey (mg_heap b j) = sessionKey (mg_heap a i)"
    using ends(1) by (simp_all add: linked_def)
  have "deriveRekeySessionKey (en_P ed) (en_eph ea) (rs_X25519PublicKey rs) (local_id a2) (peer_of a2 i) t = Inr key"
    unfolding id2 pb(1) rs(4) envs(1,5) deriveRekey_agree [OF P(1,3,4)]
    by (rule key [unfolded rq(2,3) pb(2) envs(1)])
  from rekey_finished [OF _ _ _ _ this, of w] obtain a3 where
    "rekey_finish ed i (en_eph ea) w t (Result (Inr rs)) a2 = (None, a3)" "sessionKey (mg_heap a3 i) = key"
    "sessionEpoch (mg_heap a3 i) = t" "previousSessionKey (mg_heap a3 i) = sessionKey (mg_heap a2 i)"
    using P(1) envs(5) rs(3) rq(2) t epoch(2) id2(3) a0(4) by auto
  moreover have "map_of (pendingRekeyWaiters a2) (peer_of a i) = Some (w, Some (Inr rs))"
    by (simp add: a2 ida update_conv')
  ultimately show ?thesis
    using b1 rq(2) t pb(3) id2(3) a0(3) by (intro exI [of _ a3]) (simp only: simp_thms)
qed

lemma length_EncodeToString: "length (EncodeToString s) \<le> 2 * length s + 2"
  by (induction s rule: EncodeToString.induct) (simp_all add: b64_quad_def)

abbreviation "short_env t e ps \<equiv>
  (sample_env t)\<lparr>en_J := short_json (EncodeToString (replicate 12 CHR ''f'')) ps, en_eph := replicate 32 e\<rparr>"

lemma short_env_simps [simp]: "env_ms (short_env t e ps) = t" "en_now (short_env t e ps) = t * 1000000"
  by (simp_all add: env_ms_def sample_env_def now_ms_def)

lemma short_send:
  assumes "p \<in> set ps" and "length ps \<le> 100" and "conn_state (mg_heap m i) \<noteq> StateDisconnected"
    and "length (sessionKey (mg_heap m i)) = 32" and "sessionEpoch (mg_heap m i) = 0"
    and "w_limit (cn_out (mg_heap m i)) = None"
  shows "fst (send (short_env t e ps) i p m) = None"
proof -
  let ?J = "short_json (EncodeToString (replicate 12 CHR ''f'')) ps" and ?k = "sessionKey (mg_heap m i)"
  let ?ct = "EncodeToString (json_Marshal ?J p @ take 16 ?k)"
  have "length ?ct \<le> 2 * length (json_Marshal ?J p @ take 16 ?k) + 2" by (rule length_EncodeToString)
  then have l: "length ?ct < 300"
    using short_marshal_length [OF assms(1), of "EncodeToString (replicate 12 CHR ''f'')"] assms(2,4) by simp
  have enc: "encryptPayload sample_prims ?J (replicate 12 CHR ''f'') (json_Marshal ?J p) (mg_heap m i) =
      Inr (CHR ''f'' # ?ct)"
    using assms(4,5)
    by (simp add: encryptPayload_def Encrypt_def sample_prims_def del: EncodeToString.simps)
       (simp add: short_json_def del: EncodeToString.simps)
  have iv: "en_iv (sample_env t) = replicate 12 CHR ''f''" by (simp add: sample_env_def)
  have "fst (SendMessage sample_prims ?J (replicate 12 CHR ''f'') (t * 1000000) p (mg_heap m i)) = None"
    using assms(3,6) l
    by (simp add: SendMessage_def SendRaw_def enc WriteFrame_def Write_def MaxFrameSize_def Let_def
        del: EncodeToString.simps replicate.simps)
  then show ?thesis
    by (simp add: send_def iv split_beta Let_def del: EncodeToString.simps replicate.simps)
qed

lemma sample_sign:
  "id_Ed25519PrivateKey (mg_identity m) = replicate 64 k \<Longrightarrow>
   sign_packet (short_env t e ps) p m = Inr (EncodeToString (replicate 64 k))"
  using short_json_ok [of "EncodeToString (replicate 12 CHR ''f'')" ps]
  by (simp add: sign_packet_def Sign_def sample_prims_def PrivateKeySize_def json_ok_def
      del: EncodeToString.simps replicate.simps)
     (simp only: replicate.simps append_Nil2)

text \<open>The run of the witness: alice asks, bob answers.\<close>

definition sample_rq :: RekeyRequest where
  "sample_rq = \<lparr>rq_FromDeviceID = ''a'', rq_Epoch = 1,
     rq_X25519PublicKey = EncodeToString (replicate 32 CHR ''e''), rq_Timestamp = 9,
     rq_Signature = EncodeToString (replicate 64 CHR ''1'')\<rparr>"

definition sample_rs :: RekeyResponse where
  "sample_rs = \<lparr>rs_FromDeviceID = ''b'', rs_Epoch = 1,
     rs_X25519PublicKey = EncodeToString (replicate 32 CHR ''g''), rs_Timestamp = 9,
     rs_Signature = EncodeToString (replicate 64 CHR ''2'')\<rparr>"

abbreviation "rekey_env e \<equiv> short_env 9 e [PRekeyRequest sample_rq, PRekeyResponse sample_rs]"

lemma sample_manager_conn:
  "sessionEpoch (mg_heap (sample_manager me k peer k' s) i) = 0"
  "conn_state (mg_heap (sample_manager me k peer k' s) i) = StateReady"
  "w_limit (cn_out (mg_heap (sample_manager me k peer k' s) i)) = None"
  "mg_sent (sample_manager me k peer k' s) = []" "pendingRekeyWaiters (sample_manager me k peer k' s) = []"
  "mg_waiter_seq (sample_manager me k peer k' s) = 0"
  by (simp_all add: sample_manager_def newPeerConnection_def)

lemma sample_request: "rekey_request (rekey_env CHR ''e'') 0 alice = sample_rq\<lparr>rq_Signature := []\<rparr>"
  by (simp add: rekey_request_def sample_rq_def sample_manager_conn sample_prims_def
      del: EncodeToString.simps replicate.simps)

lemma sample_start: "\<exists>w a1. rekey_start (rekey_env CHR ''e'') 0 alice = (Waiting w 1, a1) \<and>
    mg_sent a1 = mg_sent alice @ [(0, PRekeyRequest sample_rq)]"
proof -
  define m1 where "m1 = alice\<lparr>pendingRekeyWaiters := [(''b'', 0, None)], mg_waiter_seq := Suc 0\<rparr>"
  have "rekey_request (rekey_env CHR ''e'') 0 m1 = rekey_request (rekey_env CHR ''e'') 0 alice"
    by (simp add: rekey_request_def m1_def local_id_def)
  then have rq: "signRekeyRequest (rekey_env CHR ''e'') (rekey_request (rekey_env CHR ''e'') 0 m1) m1 = Inr sample_rq"
    using sample_sign [of m1 "CHR ''1''"] unfolding signRekeyRequest_def sample_request
    by (simp add: sample_rq_def m1_def sample_identity_def del: EncodeToString.simps replicate.simps)
  have "fst (send (rekey_env CHR ''e'') 0 (PRekeyRequest sample_rq) m1) = None"
    by (rule short_send) (simp_all add: m1_def sample_manager_conn)
  then obtain a1 where a1: "send (rekey_env CHR ''e'') 0 (PRekeyRequest sample_rq) m1 = (None, a1)"
    by (metis prod.collapse)
  have "rekey_start (rekey_env CHR ''e'') 0 alice = (Waiting 0 1, a1)"
    using rq a1 by (simp add: rekey_start_def sample_manager_conn m1_def [symmetric] Let_def)
       (simp add: sample_rq_def)
  moreover have "mg_sent a1 = mg_sent alice @ [(0, PRekeyRequest sample_rq)]"
    using send_frame(6) [OF a1] by (simp add: m1_def)
  ultimately show ?thesis by blast
qed

lemma sample_answer:
  "mg_sent (answer_rekey (rekey_env CHR ''g'') 0 sample_rq bob) = mg_sent bob @ [(0, PRekeyResponse sample_rs)]"
proof -
  let ?E = "rekey_env CHR ''g''"
  have tr: "TrimSpace ''a'' \<noteq> []" "TrimSpace ''b'' \<noteq> []" by code_simp+
  have "\<exists>key. deriveRekeySessionKey sample_prims (replicate 32 CHR ''g'') (EncodeToString (replicate 32 CHR ''e''))
      ''b'' ''a'' 1 = Inr key"
    using tr by (simp add: deriveRekeySessionKey_def ephemeral_secret_def ParseX25519PublicKey_def sample_prims_def
        ComputeX25519SharedSecret_def DeriveSessionKeyWithContext_def zip_replicate
        del: EncodeToString.simps replicate.simps)
  then obtain key where key: "deriveRekeySessionKey (en_P ?E) (en_eph ?E) (rq_X25519PublicKey sample_rq)
      (local_id bob) (peer_of bob 0) (rq_Epoch sample_rq) = Inr key"
    by (auto simp: sample_rq_def simp del: EncodeToString.simps replicate.simps)
  have rs: "signRekeyResponse ?E \<lparr>rs_FromDeviceID = local_id bob, rs_Epoch = rq_Epoch sample_rq,
       rs_X25519PublicKey = EncodeToString (x25519_Public (en_P ?E) (en_eph ?E)),
       rs_Timestamp = env_ms ?E, rs_Signature = []\<rparr> bob = Inr sample_rs"
    using sample_sign [of bob "CHR ''2''"]
    by (simp add: signRekeyResponse_def sample_rs_def sample_rq_def sample_identity_def env_ms_def
        del: EncodeToString.simps replicate.simps)
       (simp add: sample_prims_def sample_env_def now_ms_def del: EncodeToString.simps replicate.simps)
  have "fst (send ?E 0 (PRekeyResponse sample_rs) bob) = None"
    by (rule short_send) (simp_all add: sample_manager_conn)
  then obtain m1 where m1: "send ?E 0 (PRekeyResponse sample_rs) bob = (None, m1)"
    by (metis prod.collapse)
  have "mg_sent (answer_rekey ?E 0 sample_rq bob) = mg_sent m1"
    unfolding answer_rekey_def key rs
    by (simp add: m1 rotate_def Let_def split: prod.split option.split)
  then show ?thesis using send_frame(6) [OF m1] by simp
qed

theorem rekey_agreement_witness:
  "\<exists>w a1 a3. rekey_start (rekey_env CHR ''e'') 0 alice = (Waiting w 1, a1) \<and>
     rekey_finish (rekey_env CHR ''e'') 0 (replicate 32 CHR ''e'') w 1 (Result (Inr sample_rs))
       (handleRekeyResponse (rekey_env CHR ''e'') 0 sample_rs a1) = (None, a3) \<and>
     sessionKey (mg_heap a3 0) = sessionKey (mg_heap (handleRekeyRequest (rekey_env CHR ''g'') 0 sample_rq bob) 0) \<and>
     sessionEpoch (mg_heap a3 0) = 1"
proof -
  obtain w a1 where a1: "rekey_start (rekey_env CHR ''e'') 0 alice = (Waiting w 1, a1)"
    and sent: "mg_sent a1 = mg_sent alice @ [(0, PRekeyRequest sample_rq)]"
    using sample_start by blast
  have ends: "linked (rekey_env CHR ''e'') 0 alice 0 bob" "linked (rekey_env CHR ''e'') 0 bob 0 alice"
    by (simp_all add: linked_def sample_identity_def PrivateKeySize_def sample_prims_def
        del: EncodeToString.simps replicate.simps)
  have fresh: "withinTimestampSkew (en_now (rekey_env CHR ''g'')) (rq_Timestamp sample_rq)"
    "withinTimestampSkew (en_now (rekey_env CHR ''e'')) (rs_Timestamp sample_rs)"
    by (simp_all add: withinTimestampSkew_def sample_rq_def sample_rs_def maxTimestampSkew_def Second_def
        del: EncodeToString.simps replicate.simps)
  have P: "prims_ok (en_P (rekey_env CHR ''e''))" "json_ok (en_J (rekey_env CHR ''e''))"
    by (simp_all add: sample_prims_ok short_json_ok del: EncodeToString.simps replicate.simps)
  have ans: "mg_sent (handleRekeyRequest (rekey_env CHR ''g'') 0 sample_rq bob) =
      mg_sent bob @ [(0, PRekeyResponse sample_rs)]"
    using sample_answer rekey_request_genuine(1) [OF P _ _ _ ends(1) _ a1 sent fresh(1)]
    by (simp add: sample_manager_conn del: EncodeToString.simps replicate.simps)
  show ?thesis
    using rekey_agreement [OF P _ _ _ _ _ _ _ ends _ _ a1 sent fresh refl ans refl, of "rekey_env CHR ''e''"] a1
    by (simp add: sample_manager_conn del: EncodeToString.simps replicate.simps) blast
qed

lemma session_close [simp]:
  "session_part (mg_heap (close_conn i x) k) = session_part (mg_heap x k)"
  "session_part (mg_heap (reject_rekey i e x) k) = session_part (mg_heap x k)"
  by (simp_all add: close_conn_def reject_rekey_def)

lemma rotate_error: "rotate env i key t m = (Some e, m') \<Longrightarrow> mg_heap m' = mg_heap m"
  by (auto simp: rotate_def RotateSessionKey_def Let_def split: if_splits)

lemma rotate_ok:
  assumes "rotate env i key t m = (None, m')"
  shows "t = sessionEpoch (mg_heap m i) + 1" and "k \<noteq> i \<Longrightarrow> mg_heap m' k = mg_heap m k"
    and "sessionEpoch (mg_heap m' i) = t" and "previousSessionKey (mg_heap m' i) = sessionKey (mg_heap m i)"
    and "previousSessionEpoch (mg_heap m' i) = sessionEpoch (mg_heap m i)"
proof -
  obtain c where c: "RotateSessionKey (en_now env) key t (mg_heap m i) = (None, c)" "m' = set_conn i c m"
    using assms by (auto simp: rotate_def Let_def split: prod.splits)
  note r = RotateSessionKey_Some [OF c(1)]
  show "t = sessionEpoch (mg_heap m i) + 1" "k \<noteq> i \<Longrightarrow> mg_heap m' k = mg_heap m k"
    "sessionEpoch (mg_heap m' i) = t" "previousSessionKey (mg_heap m' i) = sessionKey (mg_heap m i)"
    "previousSessionEpoch (mg_heap m' i) = sessionEpoch (mg_heap m i)"
    using r c(2) by simp_all
qed

lemma answer_rekey_cases:
  obtains (keeps) "\<And>k. session_part (mg_heap (answer_rekey env i rq m) k) = session_part (mg_heap m k)"
  | (rotates) key m1 where "rotate env i key (rq_Epoch rq) m1 = (None, answer_rekey env i rq m)"
      and "\<And>k. session_part (mg_heap m1 k) = session_part (mg_heap m k)"
proof -
  let ?d = "deriveRekeySessionKey (en_P env) (en_eph env) (rq_X25519PublicKey rq) (local_id m) (peer_of m i) (rq_Epoch rq)"
  let ?s = "signRekeyResponse env \<lparr>rs_FromDeviceID = local_id m, rs_Epoch = rq_Epoch rq,
                   rs_X25519PublicKey = EncodeToString (x25519_Public (en_P env) (en_eph env)),
                   rs_Timestamp = env_ms env, rs_Signature = []\<rparr> m"
  show ?thesis
  proof (cases ?d)
    case (Inl e)
    then show ?thesis by (intro keeps) (simp add: answer_rekey_def)
  next
    case d: (Inr key)
    show ?thesis
    proof (cases ?s)
      case (Inl e)
      with d show ?thesis by (intro keeps) (simp add: answer_rekey_def)
    next
      case s: (Inr rs)
      obtain r m1 where m1: "send env i (PRekeyResponse rs) m = (r, m1)" by fastforce
      obtain r2 m2 where m2: "rotate env i key (rq_Epoch rq) m1 = (r2, m2)" by fastforce
      show ?thesis
      proof (cases "r = None \<and> r2 = None")
        case True
        with d s m1 m2 show ?thesis
          by (intro rotates [of key m1]) (simp_all add: answer_rekey_def send_heap(1))
      next
        case False
        with d s m1 m2 show ?thesis
          by (intro keeps)
             (auto simp: answer_rekey_def send_heap(1) dest: rotate_error split: option.split)
      qed
    qed
  qed
qed


text \<open>C11: The responder rotates as soon as it has sent its response, the initiator only when its waiting
  goroutine runs. A frame the responder sends in between is sealed for an epoch the initiator does not know:
  it is rejected and counted as malformed, and the third such frame closes the connection.\<close>

theorem early_frame_rejected:
  assumes "json_ok J" and "encryptPayload P J iv payload b = Inr frame"
    and "sessionEpoch b = sessionEpoch a + 1" and "sessionEpoch b \<noteq> 0"
    and "\<not> (hasPreviousSession a \<and> previousSessionEpoch a = sessionEpoch b)"
    and "rl_conn l = a" and "rl_running l" and "\<not> cn_closed a" and "frame \<noteq> []"
  shows "\<exists>e. errors_Is e ErrInvalidSecureFrame \<and>
    readLoop_step P J iv' now (Inr frame) l = count_malformed e (l\<lparr>rl_conn := touchActivity now a\<rparr>)"
proof -
  obtain f where f: "json_UnmarshalFrame J frame = Some f" "sf_Epoch f = sessionEpoch b"
    using assms(1,2) by (auto simp: encryptPayload_def json_ok_def split: sum.splits)
  have "sessionEpoch b \<noteq> sessionEpoch a" using assms(3) by simp
  then have "select_key (sf_Epoch f) a = None" using assms(4,5) f(2) by (auto simp: select_key_def)
  then have "\<exists>e. decryptPayload P J frame a = Inl e \<and> errors_Is e ErrInvalidSecureFrame"
    using f(1) by (auto simp: decryptPayload_def split: sum.split)
  then obtain e where e: "decryptPayload P J frame a = Inl e" "errors_Is e ErrInvalidSecureFrame" by blast
  have "readLoop_step P J iv' now (Inr frame) l = count_malformed e (l\<lparr>rl_conn := touchActivity now a\<rparr>)"
    using assms(6-9) e(1) by (simp add: readLoop_step_def Let_def)
  with e(2) show ?thesis by blast
qed

theorem early_frame_rejected_witness:
  "\<exists>e. errors_Is e ErrInvalidSecureFrame \<and>
    readLoop_step sample_prims sample_json [] 0
      (Inr (case encryptPayload sample_prims sample_json (replicate 12 CHR ''n'') ''hi'' (sample_conn\<lparr>sessionEpoch := 1\<rparr>)
            of Inr f \<Rightarrow> f | Inl _ \<Rightarrow> [])) \<lparr>rl_conn = sample_conn, rl_malformed = 0, rl_running = True\<rparr>
    = count_malformed e \<lparr>rl_conn = touchActivity 0 sample_conn, rl_malformed = 0, rl_running = True\<rparr>"
proof -
  obtain f where f: "encryptPayload sample_prims sample_json (replicate 12 CHR ''n'') ''hi'' (sample_conn\<lparr>sessionEpoch := 1\<rparr>)
      = Inr f" "f \<noteq> []"
    using sample_json_ok
    by (simp add: encryptPayload_def Encrypt_def sample_conn_simps json_ok_def del: EncodeToString.simps)
  show ?thesis
    using early_frame_rejected [OF sample_json_ok f(1), of sample_conn
        "\<lparr>rl_conn = sample_conn, rl_malformed = 0, rl_running = True\<rparr>"] f(2)
    by (simp add: f(1) sample_conn_simps)
qed

end
