(* ===== verification/Paths.thy ===== *)
theory Paths
  imports GoPrelude
begin

text \<open>
  The lexical operations of \<open>path/filepath\<close> on a system whose separator is \<open>/\<close>, and the functions of
  \<open>src/network/file_transfer.go\<close> that turn names a peer sends into paths below a directory of this
  device.

  \<open>Clean\<close> splits a path at its separators and pushes the components on a stack: empty components and \<open>.\<close>
  vanish, \<open>..\<close> removes the component before it unless that is itself \<open>..\<close>, and is dropped at the root.
\<close>

section \<open>Splitting and joining\<close>

fun split_on :: "char \<Rightarrow> string \<Rightarrow> string list" where
  "split_on c [] = [[]]"
| "split_on c (x # xs) =
     (if x = c then [] # split_on c xs
      else case split_on c xs of [] \<Rightarrow> [[x]] | y # ys \<Rightarrow> (x # y) # ys)"

fun strings_Join :: "string list \<Rightarrow> string \<Rightarrow> string" where
  "strings_Join [] sep = []"
| "strings_Join [x] sep = x"
| "strings_Join (x # y # zs) sep = x @ sep @ strings_Join (y # zs) sep"

lemma split_on_neq_Nil [simp]: "split_on c s \<noteq> []"
  by (induction s) (auto split: list.split)

lemma split_on_append: "split_on c (a @ c # b) = split_on c a @ split_on c b"
  by (induction a) (auto split: list.split)

lemma split_on_no_sep: "c \<notin> set a \<Longrightarrow> split_on c a = [a]"
  by (induction a) auto

lemma split_on_parts: "x \<in> set (split_on c s) \<Longrightarrow> c \<notin> set x"
proof (induction s arbitrary: x)
  case (Cons y s)
  then show ?case by (cases "split_on c s") (auto split: if_splits)
qed simp

lemma strings_Join_Cons: "cs \<noteq> [] \<Longrightarrow> strings_Join (x # cs) sep = x @ sep @ strings_Join cs sep"
  by (cases cs) auto

lemma strings_Join_append:
  "as \<noteq> [] \<Longrightarrow> bs \<noteq> [] \<Longrightarrow> strings_Join (as @ bs) sep = strings_Join as sep @ sep @ strings_Join bs sep"
proof (induction as)
  case (Cons a as)
  then show ?case by (cases "as = []") (simp_all add: strings_Join_Cons)
qed simp

lemma split_on_Join: "cs \<noteq> [] \<Longrightarrow> \<forall>x \<in> set cs. c \<notin> set x \<Longrightarrow> split_on c (strings_Join cs [c]) = cs"
proof (induction cs)
  case (Cons x cs)
  then show ?case
    by (cases "cs = []") (simp_all add: strings_Join_Cons split_on_append split_on_no_sep)
qed simp

section \<open>Lexical path operations\<close>

definition IsAbs :: "string \<Rightarrow> bool" where
  "IsAbs path = HasPrefix path ''/''"

definition clean_push :: "bool \<Rightarrow> string list \<Rightarrow> string \<Rightarrow> string list" where
  "clean_push rooted acc c =
     (if c = [] \<or> c = ''.'' then acc
      else if c = ''..'' then
        (case acc of
           [] \<Rightarrow> if rooted then [] else [''..'']
         | d # ds \<Rightarrow> if d = ''..'' then ''..'' # acc else ds)
      else c # acc)"

definition clean_parts :: "string \<Rightarrow> string list" where
  "clean_parts path = rev (foldl (clean_push (IsAbs path)) [] (split_on CHR ''/'' path))"

definition path_of :: "bool \<Rightarrow> string list \<Rightarrow> string" where
  "path_of rooted cs =
     (if rooted then CHR ''/'' # strings_Join cs ''/''
      else if cs = [] then ''.'' else strings_Join cs ''/'')"

definition Clean :: "string \<Rightarrow> string" where
  "Clean path = path_of (IsAbs path) (clean_parts path)"

definition filepath_Join :: "string list \<Rightarrow> string" where
  "filepath_Join elem =
     (case dropWhile (\<lambda>e. e = []) elem of [] \<Rightarrow> [] | es \<Rightarrow> Clean (strings_Join es ''/''))"

definition strip_slashes :: "string \<Rightarrow> string" where
  "strip_slashes path = rev (dropWhile (\<lambda>c. c = CHR ''/'') (rev path))"

definition Base :: "string \<Rightarrow> string" where
  "Base path =
     (if path = [] then ''.''
      else let b = last (split_on CHR ''/'' (strip_slashes path)) in if b = [] then ''/'' else b)"

definition Dir :: "string \<Rightarrow> string" where
  "Dir path = Clean (rev (dropWhile (\<lambda>c. c \<noteq> CHR ''/'') (rev path)))"

definition Ext :: "string \<Rightarrow> string" where
  "Ext path =
     (let parts = split_on CHR ''.'' (last (split_on CHR ''/'' path))
      in if length parts = 1 then [] else CHR ''.'' # last parts)"

function ReplaceAll :: "string \<Rightarrow> string \<Rightarrow> string \<Rightarrow> string" where
  "ReplaceAll s old new =
     (if s = [] \<or> old = [] then s
      else if HasPrefix s old then new @ ReplaceAll (drop (length old) s) old new
      else hd s # ReplaceAll (tl s) old new)"
  by pat_completeness auto
termination
  by (relation "measure (\<lambda>(s, _, _). length s)") (auto simp: neq_Nil_conv)

declare ReplaceAll.simps [simp del]

section \<open>Names a peer sends\<close>

definition sanitizeTransferRelativePath :: "string \<Rightarrow> string res" where
  "sanitizeTransferRelativePath relativePath =
     (let trimmed = TrimSpace relativePath in
      if trimmed = [] then Inl (Err ''relative path is required'')
      else let cleaned = Clean trimmed in
        if cleaned = ''.'' then Inl (Err ''relative path cannot be root'')
        else if IsAbs cleaned \<or> HasPrefix cleaned ''/'' then Inl (Err ''relative path must not be absolute'')
        else if cleaned = ''..'' \<or> HasPrefix cleaned ''../'' \<or> Contains cleaned ''/../'' then
          Inl (Err ''relative path must not traverse parent directories'')
        else Inr cleaned)"

definition joinSanitizedTransferPath :: "string \<Rightarrow> string \<Rightarrow> string res" where
  "joinSanitizedTransferPath rootPath relativePath =
     (case sanitizeTransferRelativePath relativePath of
        Inl e \<Rightarrow> Inl e
      | Inr normalized \<Rightarrow>
          let rootClean = Clean rootPath in
          if TrimSpace rootClean = [] then Inl (Err ''root path is required'')
          else
            let target = Clean (filepath_Join [rootClean, normalized]);
                rootWithSep = rootClean @ ''/''
            in if target \<noteq> rootClean \<and> \<not> HasPrefix target rootWithSep then
                 Inl (Err ''resolved path escapes root'')
               else Inr target)"

definition sanitizeFolderName :: "string \<Rightarrow> string" where
  "sanitizeFolderName name0 =
     (let name = Base (TrimSpace name0) in
      if name = ''.'' \<or> name = ''/'' then []
      else TrimSpace (ReplaceAll (ReplaceAll name ''/'' ''_'') ''..'' ''_''))"

definition prefixedFilename :: "string \<Rightarrow> string \<Rightarrow> string" where
  "prefixedFilename fileID filename =
     (let base = Base filename in fileID @ ''_'' @ (if base = [] then ''file.bin'' else base))"

section \<open>Clean paths\<close>

text \<open>A stack of components, innermost first, as \<open>Clean\<close> leaves it.\<close>

definition plain :: "string \<Rightarrow> bool" where
  "plain c \<longleftrightarrow> c \<notin> {[], ''.'', ''..''} \<and> CHR ''/'' \<notin> set c"

definition clean_stack :: "bool \<Rightarrow> string list \<Rightarrow> bool" where
  "clean_stack rooted acc \<longleftrightarrow>
     (\<exists>ds k. acc = ds @ replicate k ''..'' \<and> (\<forall>d \<in> set ds. plain d) \<and> (rooted \<longrightarrow> k = 0))"

lemma clean_stack_Nil [simp]: "clean_stack r []"
  by (simp add: clean_stack_def)

lemma clean_push_stack: "clean_stack r acc \<Longrightarrow> CHR ''/'' \<notin> set c \<Longrightarrow> clean_stack r (clean_push r acc c)"
proof -
  assume "clean_stack r acc" and sep: "CHR ''/'' \<notin> set c"
  then obtain ds k where acc: "acc = ds @ replicate k ''..''" "\<forall>d \<in> set ds. plain d" "r \<longrightarrow> k = 0"
    by (auto simp: clean_stack_def)
  consider "c = [] \<or> c = ''.''" | "c = ''..''" "ds = []" | d ds' where "c = ''..''" "ds = d # ds'"
    | "plain c" using sep by (cases ds) (auto simp: plain_def)
  then show ?thesis
  proof cases
    case 2
    then have "clean_push r acc c = (if r then [] else replicate (Suc k) ''..'')"
      using acc by (cases k) (auto simp: clean_push_def)
    then have "clean_push r acc c = [] @ replicate (if r then 0 else Suc k) ''..''" by simp
    then show ?thesis unfolding clean_stack_def by (metis empty_iff empty_set)
  next
    case 3
    then have "clean_push r acc c = ds' @ replicate k ''..''"
      using acc by (auto simp: clean_push_def plain_def)
    then show ?thesis using acc 3 by (auto simp: clean_stack_def)
  next
    case 4
    then have "clean_push r acc c = (c # ds) @ replicate k ''..''"
      using acc by (auto simp: clean_push_def plain_def)
    then show ?thesis using acc 4 unfolding clean_stack_def by (metis set_ConsD)
  qed (use \<open>clean_stack r acc\<close> in \<open>simp add: clean_push_def\<close>)
qed

lemma clean_fold_stack:
  "clean_stack r acc \<Longrightarrow> \<forall>c \<in> set cs. CHR ''/'' \<notin> set c \<Longrightarrow> clean_stack r (foldl (clean_push r) acc cs)"
  by (induction cs arbitrary: acc) (auto intro: clean_push_stack)

lemma clean_parts_stack: "clean_stack (IsAbs p) (rev (clean_parts p))"
  unfolding clean_parts_def using split_on_parts by (auto intro!: clean_fold_stack)

lemma foldl_push_plain: "\<forall>c \<in> set cs. plain c \<Longrightarrow> foldl (clean_push r) acc cs = rev cs @ acc"
  by (induction cs arbitrary: acc) (auto simp: clean_push_def plain_def)

lemma foldl_push_up: "foldl (clean_push False) (replicate n ''..'') (replicate k ''..'') = replicate (n + k) ''..''"
proof (induction k arbitrary: n)
  case (Suc k)
  have "clean_push False (replicate n ''..'') ''..'' = replicate (Suc n) ''..''"
    by (cases n) (auto simp: clean_push_def)
  then show ?case using Suc [of "Suc n"] by simp
qed simp

lemma foldl_push_stack: "clean_stack r acc \<Longrightarrow> foldl (clean_push r) [] (rev acc) = acc"
proof -
  assume "clean_stack r acc"
  then obtain ds k where acc: "acc = ds @ replicate k ''..''" "\<forall>d \<in> set ds. plain d" "r \<longrightarrow> k = 0"
    by (auto simp: clean_stack_def)
  have "foldl (clean_push r) [] (replicate k ''..'') = replicate k ''..''"
    using acc(3) foldl_push_up [of 0 k] by (cases r) auto
  then show ?thesis using acc by (simp add: foldl_push_plain)
qed

lemma IsAbs_Cons [simp]: "IsAbs (c # s) \<longleftrightarrow> c = CHR ''/''" "\<not> IsAbs []"
  by (auto simp: IsAbs_def HasPrefix_def)

lemma IsAbs_append: "p \<noteq> [] \<Longrightarrow> IsAbs (p @ q) = IsAbs p"
  by (cases p) auto

lemma strings_Join_hd: "strings_Join ((a # x) # cs) sep = a # strings_Join (x # cs) sep"
  by (cases cs) auto

text \<open>Cleaning a path that \<open>Clean\<close> would produce changes nothing.\<close>

lemma stack_parts_no_sep: "clean_stack r acc \<Longrightarrow> x \<in> set acc \<Longrightarrow> CHR ''/'' \<notin> set x \<and> x \<noteq> []"
proof -
  assume "clean_stack r acc" and x: "x \<in> set acc"
  then obtain ds k where "acc = ds @ replicate k ''..''" "\<forall>d \<in> set ds. plain d"
    unfolding clean_stack_def by blast
  then consider "plain x" | "x = ''..''" using x by (cases "k = 0") auto
  then show ?thesis by cases (simp_all add: plain_def)
qed

lemma IsAbs_Join: "clean_stack r (rev cs) \<Longrightarrow> \<not> IsAbs (strings_Join cs ''/'')"
proof (cases cs)
  case (Cons x xs)
  assume "clean_stack r (rev cs)"
  then have "CHR ''/'' \<notin> set x" "x \<noteq> []" using stack_parts_no_sep [of r "rev cs" x] Cons by auto
  then show ?thesis using Cons by (cases x) (auto simp: strings_Join_hd)
qed simp

lemma IsAbs_path_of: "clean_stack r (rev cs) \<Longrightarrow> IsAbs (path_of r cs) = r"
  by (auto simp: path_of_def IsAbs_Join)

lemma fold_path_of:
  "clean_stack r (rev cs) \<Longrightarrow>
    foldl (clean_push r) [] (split_on CHR ''/'' (path_of r cs)) = rev cs"
proof -
  assume stack: "clean_stack r (rev cs)"
  have split: "split_on CHR ''/'' (strings_Join cs ''/'') = cs" if "cs \<noteq> []"
    using that stack_parts_no_sep [OF stack] by (intro split_on_Join) auto
  show ?thesis
    using foldl_push_stack [OF stack] split
    by (cases "cs = []") (auto simp: path_of_def clean_push_def)
qed

lemma clean_parts_path_of: "clean_stack r (rev cs) \<Longrightarrow> clean_parts (path_of r cs) = cs"
  by (simp add: clean_parts_def IsAbs_path_of fold_path_of)

lemma Clean_idem [simp]: "Clean (Clean p) = Clean p"
  using clean_parts_stack [of p] by (simp add: Clean_def clean_parts_path_of IsAbs_path_of)

lemma Clean_neq_Nil [simp]: "Clean p \<noteq> []"
proof -
  have "strings_Join (clean_parts p) ''/'' \<noteq> []" if some: "clean_parts p \<noteq> []"
  proof -
    obtain x cs where cs: "clean_parts p = x # cs" using some by (cases "clean_parts p") auto
    then have "x \<noteq> []" using stack_parts_no_sep [OF clean_parts_stack [of p], of x] by simp
    then show ?thesis using cs by (cases x) (simp_all add: strings_Join_hd)
  qed
  then show ?thesis by (auto simp: Clean_def path_of_def)
qed

section \<open>Sanitised paths\<close>

lemma Clean_stack_cases:
  obtains r cs where "Clean p = path_of r cs" "clean_stack r (rev cs)" "IsAbs p = r" "cs = clean_parts p"
  using clean_parts_stack [of p] by (auto simp: Clean_def)

lemma sanitize_plain:
  assumes "sanitizeTransferRelativePath rel = Inr n"
  shows "\<exists>cs. cs \<noteq> [] \<and> (\<forall>c \<in> set cs. plain c) \<and> n = strings_Join cs ''/''"
proof -
  let ?p = "TrimSpace rel"
  have n: "n = Clean ?p" "n \<noteq> ''.''" "\<not> IsAbs n" "n \<noteq> ''..''" "\<not> HasPrefix n ''../''"
    using assms by (auto simp: sanitizeTransferRelativePath_def Let_def split: if_splits)
  obtain r cs where cs: "n = path_of r cs" "clean_stack r (rev cs)"
    using Clean_stack_cases [of ?p] n(1) by metis
  have "\<not> r" using n(3) cs IsAbs_path_of by blast
  then have some: "cs \<noteq> []" "n = strings_Join cs ''/''" using n(2) cs(1) by (auto simp: path_of_def split: if_splits)
  obtain ds k where ds: "rev cs = ds @ replicate k ''..''" "\<forall>d \<in> set ds. plain d"
    using cs(2) unfolding clean_stack_def by blast
  then have shape: "cs = replicate k ''..'' @ rev ds" by (metis rev_append rev_replicate rev_rev_ident)
  have "k = 0"
  proof (rule ccontr)
    assume "k \<noteq> 0"
    then obtain rest where rest: "cs = ''..'' # rest" using shape by (cases k) auto
    then have "n = ''..'' \<or> HasPrefix n ''../''"
      using some(2) by (cases "rest = []") (simp_all add: strings_Join_Cons HasPrefix_def)
    with n show False by blast
  qed
  with shape ds some show ?thesis by auto
qed

lemma clean_stack_append:
  assumes "clean_stack r (rev rs)" "\<forall>c \<in> set cs. plain c"
  shows "clean_stack r (rev (rs @ cs))"
proof -
  obtain ds k where "rev rs = ds @ replicate k ''..''" "\<forall>d \<in> set ds. plain d" "r \<longrightarrow> k = 0"
    using assms(1) unfolding clean_stack_def by blast
  then have "rev (rs @ cs) = (rev cs @ ds) @ replicate k ''..''" "\<forall>d \<in> set (rev cs @ ds). plain d" "r \<longrightarrow> k = 0"
    using assms(2) by auto
  then show ?thesis unfolding clean_stack_def by blast
qed

lemma Clean_below:
  assumes cs: "cs \<noteq> []" "\<forall>c \<in> set cs. plain c"
  shows "Clean (Clean root @ CHR ''/'' # strings_Join cs ''/'') =
    path_of (IsAbs root) (clean_parts root @ cs)"
proof -
  obtain r rs where root: "Clean root = path_of r rs" "clean_stack r (rev rs)" "IsAbs root = r" "rs = clean_parts root"
    by (rule Clean_stack_cases)
  let ?p = "Clean root @ CHR ''/'' # strings_Join cs ''/''"
  have abs: "IsAbs ?p = r"
    using IsAbs_path_of [OF root(2)] IsAbs_append [OF Clean_neq_Nil, of root] by (simp flip: root(1))
  have "split_on CHR ''/'' (strings_Join cs ''/'') = cs"
    using cs by (intro split_on_Join) (auto simp: plain_def)
  then have "split_on CHR ''/'' ?p = split_on CHR ''/'' (Clean root) @ cs" by (simp add: split_on_append)
  moreover have "foldl (clean_push r) [] (split_on CHR ''/'' (Clean root)) = rev rs"
    using fold_path_of [OF root(2)] by (simp add: root(1))
  ultimately have "clean_parts ?p = rs @ cs"
    using cs(2) by (simp add: clean_parts_def [of ?p] abs foldl_push_plain)
  then show ?thesis by (simp add: Clean_def [of ?p] abs root(3,4))
qed

lemma clean_parts_dot: "clean_parts ''/'' = []" "clean_parts ''.'' = []"
  by (simp_all add: clean_parts_def clean_push_def)

lemma plain_start:
  assumes "plain c"
  shows "hd (strings_Join (c # cs) ''/'') \<noteq> CHR ''/''" "strings_Join (c # cs) ''/'' \<notin> {[], ''.''}"
    "\<not> HasPrefix (strings_Join (c # cs) ''/'') ''./''"
proof -
  obtain a x where c: "c = a # x" "a \<noteq> CHR ''/''" using assms by (cases c) (auto simp: plain_def)
  show "hd (strings_Join (c # cs) ''/'') \<noteq> CHR ''/''" using c by (simp add: strings_Join_hd)
  show "strings_Join (c # cs) ''/'' \<notin> {[], ''.''}"
    using c assms by (cases x; cases "a = CHR ''.''"; cases cs) (simp_all add: strings_Join_hd plain_def)
  show "\<not> HasPrefix (strings_Join (c # cs) ''/'') ''./''"
    using c assms by (cases x; cases "a = CHR ''.''") (simp_all add: strings_Join_hd plain_def HasPrefix_def)
qed

text \<open>A path is joined below a root exactly when it is a sanitised relative path and the root, cleaned, is
  not blank and neither the file system root nor the current directory; the result is then the root followed
  by components that are neither empty nor \<open>.\<close> nor \<open>..\<close> and hold no separator. So no name a peer sends
  leads out of the folder it is written to; under \<open>/\<close> and \<open>.\<close> every name is refused.\<close>

theorem joinSanitizedTransferPath_outcome:
  "joinSanitizedTransferPath root rel = Inr target \<longleftrightarrow>
    (\<exists>cs. sanitizeTransferRelativePath rel = Inr (strings_Join cs ''/'') \<and> cs \<noteq> [] \<and> list_all plain cs \<and>
      TrimSpace (Clean root) \<noteq> [] \<and> Clean root \<notin> {''/'', ''.''} \<and>
      target = Clean root @ ''/'' @ strings_Join cs ''/'')"
proof (cases "sanitizeTransferRelativePath rel")
  case (Inr n)
  then obtain cs where cs: "cs \<noteq> []" "\<forall>c \<in> set cs. plain c" "n = strings_Join cs ''/''"
    using sanitize_plain by blast
  obtain r rs where root: "Clean root = path_of r rs" "clean_stack r (rev rs)" "IsAbs root = r" "rs = clean_parts root"
    by (rule Clean_stack_cases)
  obtain c cs' where hd: "cs = c # cs'" "plain c" using cs by (cases cs) auto
  let ?target = "Clean (filepath_Join [Clean root, n])"
  have n: "n \<noteq> []" "hd n \<noteq> CHR ''/''" "\<not> HasPrefix n ''./''" "n \<noteq> ''.''"
    using cs(3) hd plain_start [OF hd(2), of cs'] by simp_all
  have join: "filepath_Join [Clean root, n] = path_of r (rs @ cs)"
    using Clean_below [OF cs(1,2), of root] n(1) by (simp add: filepath_Join_def root(3,4) cs(3))
  have "clean_stack r (rev (rs @ cs))"
    by (rule clean_stack_append) (use root(2) cs(2) in auto)
  then have target: "?target = path_of r (rs @ cs)"
    by (simp add: join Clean_def [of "path_of _ _"] clean_parts_path_of IsAbs_path_of)
  show ?thesis
  proof (cases "rs = []")
    case True
    then have "?target = (if r then CHR ''/'' # n else n)" "Clean root = (if r then ''/'' else ''.'')"
      using target cs root(1) by (auto simp: path_of_def)
    then have "joinSanitizedTransferPath root rel \<noteq> Inr target"
      using Inr n by (auto simp: joinSanitizedTransferPath_def Let_def HasPrefix_def neq_Nil_conv)
    moreover have "Clean root \<in> {''/'', ''.''}" using True root(1) by (simp add: path_of_def)
    ultimately show ?thesis by blast
  next
    case False
    then have "?target = Clean root @ ''/'' @ n" 
      using target cs root(1) by (auto simp: path_of_def strings_Join_append)
    moreover have "Clean root \<notin> {''/'', ''.''}"
      using False clean_parts_path_of [OF root(2)] clean_parts_dot by (metis insertE root(1) singletonD)
    ultimately show ?thesis
      using Inr cs by (auto simp: joinSanitizedTransferPath_def Let_def HasPrefix_def list_all_iff)
  qed
qed (simp add: joinSanitizedTransferPath_def)

text \<open>C31: The name a single file is stored under begins with the identifier its sender chose, and the path is
  cleaned after the two are joined: an identifier that begins with \<open>../\<close> puts the file beside the download
  directory, not into it.\<close>

theorem prefixedFilename_escapes:
  assumes "IsAbs root" "clean_parts root = rs @ [d]"
    and name: "x @ ''_'' @ Base filename = name" "Base filename \<noteq> []" "CHR ''/'' \<notin> set name"
  shows "filepath_Join [root, prefixedFilename (''../'' @ x) filename] = path_of True (rs @ [name])"
proof -
  let ?p = "root @ CHR ''/'' # ''..'' @ CHR ''/'' # name"
  have root: "root \<noteq> []" "IsAbs ?p" using assms(1) by (cases root; simp)+
  have stack: "clean_stack True (rev (rs @ [d]))" using clean_parts_stack [of root] assms(1,2) by simp
  then have d: "d \<noteq> ''..''" by (auto simp: clean_stack_def plain_def)
  have split: "split_on CHR ''/'' ?p = split_on CHR ''/'' root @ [''..'', name]"
    using name(3) by (simp only: split_on_append) (simp add: split_on_no_sep)
  have fold: "foldl (clean_push True) [] (split_on CHR ''/'' root) = d # rev rs"
    using arg_cong [OF assms(2), of rev] assms(1) by (simp add: clean_parts_def)
  have "CHR ''_'' \<in> set name" using name(1) by auto
  then have "name \<notin> {[], ''.'', ''..''}" by auto
  then have "foldl (clean_push True) [] (split_on CHR ''/'' root @ [''..'', name]) = name # rev rs"
    using d by (simp add: fold clean_push_def)
  then have parts: "clean_parts ?p = rs @ [name]"
    using root(2) unfolding clean_parts_def split by (simp only: rev.simps rev_rev_ident)
  have "filepath_Join [root, prefixedFilename (''../'' @ x) filename] = Clean ?p"
    using root(1) name by (simp add: filepath_Join_def prefixedFilename_def Let_def)
  also have "\<dots> = path_of True (rs @ [name])" using root(2) by (simp only: Clean_def parts)
  finally show ?thesis .
qed

theorem prefixedFilename_escapes_witness:
  "filepath_Join [''/home/u/in'', prefixedFilename (''../'' @ ''x'') ''f''] = ''/home/u/x_f''"
proof -
  have "clean_parts ''/home/u/in'' = [''home'', ''u''] @ [''in'']" by (simp add: clean_parts_def clean_push_def)
  moreover have "''x'' @ ''_'' @ Base ''f'' = ''x_f''" by (simp add: Base_def strip_slashes_def)
  ultimately show ?thesis
    using prefixedFilename_escapes [of "''/home/u/in''" "[''home'', ''u'']" "''in''" "''x''" "''f''" "''x_f''"]
    by (simp add: path_of_def Base_def strip_slashes_def)
qed

end
