(* ===== verification/FileTypes.thy ===== *)
theory FileTypes
  imports Manager Paths
begin

text \<open>
  The state of the file transfers of \<open>PeerManager\<close> and the operations both directions share
  (\<open>src/network/file_transfer.go\<close>).

  A \<open>Node\<close> is the manager of theory \<open>Manager\<close> with the fields that only file transfers use, the options
  they read, and the disk. A transfer is identified by its \<open>file_id\<close>, so the maps hold the transfers
  themselves where the code holds pointers. A disk holds files and directories by path; every call may
  also be refused by the system for reasons of its own (\<open>os_refuse\<close>: operation and path), and if it is not,
  it does what its documentation says. \<open>nd_progress\<close> records the calls of \<open>OnFileProgress\<close>, less the
  floating-point speed and the estimate made of it. \<open>nd_approvals\<close> are the goroutines that wait for the
  user to decide on a file, \<open>nd_runs\<close> those that send one. The getters among the options are the values they return.
\<close>

section \<open>The disk\<close>

record Disk =
  dk_files :: "(string \<times> string) list"
  dk_dirs :: "string list"

record FileEnv =
  fe_env :: Env
  os_refuse :: "string \<Rightarrow> string \<Rightarrow> go_error option"
  mime_TypeByExtension :: "string \<Rightarrow> string"
  uuid_NewString :: "nat \<Rightarrow> string"

definition is_dir :: "Disk \<Rightarrow> string \<Rightarrow> bool" where
  "is_dir d path \<longleftrightarrow> path \<in> set (dk_dirs d)"

definition os_call :: "FileEnv \<Rightarrow> string \<Rightarrow> string \<Rightarrow> (Disk \<Rightarrow> go_error option \<times> Disk) \<Rightarrow> Disk \<Rightarrow> go_error option \<times> Disk" where
  "os_call fe operation path f d = (case os_refuse fe operation path of Some e \<Rightarrow> (Some e, d) | None \<Rightarrow> f d)"

definition put_file :: "string \<Rightarrow> string \<Rightarrow> Disk \<Rightarrow> Disk" where
  "put_file path content d = d\<lparr>dk_files := AList.update path content (dk_files d)\<rparr>"

definition os_Stat :: "FileEnv \<Rightarrow> string \<Rightarrow> Disk \<Rightarrow> (bool \<times> int) res" where
  "os_Stat fe path d =
     (case os_refuse fe ''stat'' path of
        Some e \<Rightarrow> Inl e
      | None \<Rightarrow>
          (case map_of (dk_files d) path of
             Some content \<Rightarrow> Inr (False, int (length content))
           | None \<Rightarrow> if is_dir d path then Inr (True, 0) else Inl ErrNotExist))"

definition os_MkdirAll :: "FileEnv \<Rightarrow> string \<Rightarrow> Disk \<Rightarrow> go_error option \<times> Disk" where
  "os_MkdirAll fe path =
     os_call fe ''mkdir'' path 
       (\<lambda>d. if map_of (dk_files d) path \<noteq> None then (Some (Err ''not a directory''), d)
            else (None, d\<lparr>dk_dirs := List.insert path (dk_dirs d)\<rparr>))"

definition os_Create :: "FileEnv \<Rightarrow> string \<Rightarrow> Disk \<Rightarrow> go_error option \<times> Disk" where
  "os_Create fe path =
     os_call fe ''create'' path
       (\<lambda>d. if is_dir d path then (Some (Err ''is a directory''), d)
            else (None, if map_of (dk_files d) path = None then put_file path [] d else d))"

definition os_OpenWrite :: "FileEnv \<Rightarrow> string \<Rightarrow> Disk \<Rightarrow> go_error option \<times> Disk" where
  "os_OpenWrite fe path =
     os_call fe ''open'' path (\<lambda>d. (if map_of (dk_files d) path = None then Some ErrNotExist else None, d))"

definition os_Truncate :: "FileEnv \<Rightarrow> string \<Rightarrow> int \<Rightarrow> Disk \<Rightarrow> go_error option \<times> Disk" where
  "os_Truncate fe path n =
     os_call fe ''truncate'' path
       (\<lambda>d. case map_of (dk_files d) path of
              None \<Rightarrow> (Some ErrNotExist, d)
            | Some content \<Rightarrow>
                if n < 0 then (Some (Err ''invalid argument''), d)
                else (None, put_file path
                       (take (nat n) content @ replicate (nat n - length content) CHR 0x00) d))"

definition write_at :: "nat \<Rightarrow> string \<Rightarrow> string \<Rightarrow> string" where
  "write_at offset bytes content =
     take offset content @ replicate (offset - length content) CHR 0x00 @ bytes
     @ drop (offset + length bytes) content"

definition os_WriteAt :: "FileEnv \<Rightarrow> string \<Rightarrow> string \<Rightarrow> int \<Rightarrow> Disk \<Rightarrow> go_error option \<times> Disk" where
  "os_WriteAt fe path bytes offset =
     os_call fe ''write'' path
       (\<lambda>d. case map_of (dk_files d) path of
              None \<Rightarrow> (Some ErrNotExist, d)
            | Some content \<Rightarrow>
                if offset < 0 then (Some (Err ''negative offset''), d)
                else (None, put_file path (if bytes = [] then content else write_at (nat offset) bytes content) d))"

definition os_ReadFile :: "FileEnv \<Rightarrow> string \<Rightarrow> Disk \<Rightarrow> string res" where
  "os_ReadFile fe path d =
     (case os_refuse fe ''read'' path of
        Some e \<Rightarrow> Inl e
      | None \<Rightarrow> (case map_of (dk_files d) path of None \<Rightarrow> Inl ErrNotExist | Some content \<Rightarrow> Inr content))"

definition os_Rename :: "FileEnv \<Rightarrow> string \<Rightarrow> string \<Rightarrow> Disk \<Rightarrow> go_error option \<times> Disk" where
  "os_Rename fe old new =
     os_call fe ''rename'' new
       (\<lambda>d. case map_of (dk_files d) old of
              None \<Rightarrow> (Some ErrNotExist, d)
            | Some content \<Rightarrow>
                if is_dir d new then (Some (Err ''file exists''), d)
                else (None, put_file new content (d\<lparr>dk_files := AList.delete old (dk_files d)\<rparr>)))"

definition os_Remove :: "FileEnv \<Rightarrow> string \<Rightarrow> Disk \<Rightarrow> go_error option \<times> Disk" where
  "os_Remove fe path =
     os_call fe ''remove'' path
       (\<lambda>d. if map_of (dk_files d) path = None then (Some ErrNotExist, d)
            else (None, d\<lparr>dk_files := AList.delete path (dk_files d)\<rparr>))"

section \<open>Transfers\<close>

record recentFileDecision =
  rd_Accepted :: bool
  rd_DecidedAt :: int
  rd_ExpiresAt :: int

record outboundFileTransfer =
  ot_FileID :: string
  ot_MessageID :: string
  ot_PeerDeviceID :: string
  ot_FolderID :: string
  ot_RelativePath :: string
  ot_SourcePath :: string
  ot_Filename :: string
  ot_Filesize :: int
  ot_Filetype :: string
  ot_Checksum :: string
  ot_ChunkSize :: int
  ot_TotalChunks :: int
  ot_NextChunk :: int
  ot_BytesSent :: int
  ot_Running :: bool
  ot_Done :: bool
  ot_Rejected :: bool
  ot_Canceled :: bool
  ot_run_canceled :: bool
  ot_checkpointChunk :: int
  ot_checkpointBytes :: int

record inboundFileTransfer =
  it_FileID :: string
  it_FromDeviceID :: string
  it_Filename :: string
  it_Filesize :: int
  it_Filetype :: string
  it_Checksum :: string
  it_ChunkSize :: int
  it_TotalChunks :: int
  it_TempPath :: string
  it_FinalPath :: string
  it_ReceivedChunks :: "int list"
  it_NextChunk :: int
  it_BytesReceived :: int
  it_checkpointChunk :: int
  it_checkpointBytes :: int

record inboundFolderTransfer =
  io_FolderID :: string
  io_FromDeviceID :: string
  io_FolderName :: string
  io_RootPath :: string
  io_Manifest :: "(string \<times> FolderManifestEntry) list"
  io_AcceptedAt :: int
  io_ExpectedFiles :: int
  io_TotalSize :: int

datatype fileTransferEvent = ev_Response FileResponse | ev_Complete FileComplete

record FileProgress =
  fp_FileID :: string
  fp_PeerDeviceID :: string
  fp_Direction :: string
  fp_BytesTransferred :: int
  fp_TotalBytes :: int
  fp_ChunkIndex :: int
  fp_TotalChunks :: int
  fp_Status :: string
  fp_TransferCompleted :: bool

record FileOptions =
  FilesDir :: string
  MaxReceiveFileSize :: int
  GetDownloadDirectory :: "string option"
  GetMaxReceiveFileSize :: "int option"
  FileChunkSize :: int
  FileResponseTimeout :: int
  MaxChunkRetries :: nat
  FileRequestRateLimit :: int
  FileRequestWindow :: int
  OnFileRequest :: bool

record Approval =
  ap_conn :: nat
  ap_request :: FileRequest
  ap_folderID :: string
  ap_relativePath :: string
  ap_finalPath :: string
  ap_rejectMessage :: string

text \<open>
  Where the goroutine of an outbound transfer stands: not yet running, or waiting for the answer to its
  request, for the answer to an attempt at a chunk (its number, the attempt, its bytes, the bytes sent before
  it), or for the end.
\<close>

datatype run_phase = Starting | AwaitAccept | AwaitChunk int nat string int | AwaitComplete

record Run =
  rn_FileID :: string
  rn_conn :: nat
  rn_phase :: run_phase

record Node =
  nd_mgr :: Manager
  nd_options :: FileOptions
  nd_disk :: Disk
  outboundFileTransfers :: "(string \<times> outboundFileTransfer) list"
  inboundFileTransfers :: "(string \<times> inboundFileTransfer) list"
  inboundFolderTransfers :: "(string \<times> inboundFolderTransfer) list"
  pendingFileApprovals :: "string list"
  recentFileDecisions :: "(string \<times> recentFileDecision) list"
  outboundFileEventChans :: "(string \<times> fileTransferEvent list) list"
  outboundFolderEventChans :: "(string \<times> FolderTransferResponse list) list"
  outboundTransferQueue :: "(string \<times> string list) list"
  activeOutboundTransfer :: "(string \<times> string) list"
  nd_progress :: "FileProgress list"
  nd_approvals :: "Approval list"
  nd_runs :: "Run list"

section \<open>Acting on the parts of a node\<close>

definition on_mgr :: "(Manager \<Rightarrow> Manager) \<Rightarrow> Node \<Rightarrow> Node" where
  "on_mgr f n = n\<lparr>nd_mgr := f (nd_mgr n)\<rparr>"

definition run_mgr :: "(Manager \<Rightarrow> 'r \<times> Manager) \<Rightarrow> Node \<Rightarrow> 'r \<times> Node" where
  "run_mgr f n = (let (r, m) = f (nd_mgr n) in (r, n\<lparr>nd_mgr := m\<rparr>))"

definition run_disk :: "(Disk \<Rightarrow> 'r \<times> Disk) \<Rightarrow> Node \<Rightarrow> 'r \<times> Node" where
  "run_disk f n = (let (r, d) = f (nd_disk n) in (r, n\<lparr>nd_disk := d\<rparr>))"

definition report :: "go_error \<Rightarrow> Node \<Rightarrow> Node" where
  "report e = on_mgr (reportError e)"

definition report_some :: "go_error option \<times> Node \<Rightarrow> Node" where
  "report_some rn = (case rn of (None, n) \<Rightarrow> n | (Some e, n) \<Rightarrow> report e n)"

definition nd_store :: "Node \<Rightarrow> Store" where
  "nd_store n = mg_store (nd_mgr n)"

definition statement :: "stmt \<Rightarrow> Node \<Rightarrow> go_error option \<times> Node" where
  "statement f = run_mgr (on_store f)"

definition nd_id :: "Node \<Rightarrow> string" where
  "nd_id n = local_id (nd_mgr n)"

definition fe_ms :: "FileEnv \<Rightarrow> int" where
  "fe_ms fe = env_ms (fe_env fe)"

definition send_to :: "FileEnv \<Rightarrow> nat \<Rightarrow> Packet \<Rightarrow> Node \<Rightarrow> go_error option \<times> Node" where
  "send_to fe i p = run_mgr (send (fe_env fe) i p)"

text \<open>The active connection of a peer, if it is not disconnected.\<close>

definition live_conn :: "string \<Rightarrow> Node \<Rightarrow> nat option" where
  "live_conn peer n =
     (case getConnection peer (nd_mgr n) of
        None \<Rightarrow> None
      | Some i \<Rightarrow> if conn_state (mg_heap (nd_mgr n) i) = StateDisconnected then None else Some i)"

definition set_status :: "string \<Rightarrow> string \<Rightarrow> Node \<Rightarrow> Node" where
  "set_status fileID status n = snd (statement (UpdateTransferStatus fileID status) n)"

definition emitFileProgress :: "FileProgress \<Rightarrow> Node \<Rightarrow> Node" where
  "emitFileProgress p n = n\<lparr>nd_progress := nd_progress n @ [p]\<rparr>"

definition progress_of ::
    "string \<Rightarrow> string \<Rightarrow> string \<Rightarrow> int \<Rightarrow> int \<Rightarrow> int \<Rightarrow> int \<Rightarrow> string \<Rightarrow> bool \<Rightarrow> FileProgress" where
  "progress_of fileID peer direction bytes filesize chunk chunks status completed =
     \<lparr>fp_FileID = fileID, fp_PeerDeviceID = peer, fp_Direction = direction, fp_BytesTransferred = bytes,
      fp_TotalBytes = filesize, fp_ChunkIndex = chunk, fp_TotalChunks = chunks, fp_Status = status,
      fp_TransferCompleted = completed\<rparr>"

end
