(* ===== verification/FileCommon.thy ===== *)
theory FileCommon
  imports FileTypes
begin

text \<open>
  The operations of \<open>src/network/file_transfer.go\<close> that senders and receivers share: signatures of the
  file messages, the tables of transfers, decisions and approvals, checkpoints, per-peer settings and
  limits, chunk arithmetic, and the vocabulary of cancellations.
\<close>

section \<open>Signatures\<close>

definition signFileRequest :: "Env \<Rightarrow> FileRequest \<Rightarrow> Manager \<Rightarrow> FileRequest res" where
  "signFileRequest env msg m =
     map_sum id (\<lambda>s. msg\<lparr>fq_Signature := s\<rparr>) (sign_packet env (PFileRequest (msg\<lparr>fq_Signature := []\<rparr>)) m)"

definition verifyFileRequest :: "Env \<Rightarrow> nat \<Rightarrow> FileRequest \<Rightarrow> Manager \<Rightarrow> go_error option" where
  "verifyFileRequest env i msg m =
     verify_packet env i (PFileRequest (msg\<lparr>fq_Signature := []\<rparr>)) (fq_Signature msg) m"

definition signFileResponse :: "Env \<Rightarrow> FileResponse \<Rightarrow> Manager \<Rightarrow> FileResponse res" where
  "signFileResponse env msg m =
     map_sum id (\<lambda>s. msg\<lparr>fs_Signature := s\<rparr>) (sign_packet env (PFileResponse (msg\<lparr>fs_Signature := []\<rparr>)) m)"

definition verifyFileResponse :: "Env \<Rightarrow> nat \<Rightarrow> FileResponse \<Rightarrow> Manager \<Rightarrow> go_error option" where
  "verifyFileResponse env i msg m =
     (if fs_Signature msg = [] then Some (Err ''file response signature is required'')
      else verify_packet env i (PFileResponse (msg\<lparr>fs_Signature := []\<rparr>)) (fs_Signature msg) m)"

definition signFileComplete :: "Env \<Rightarrow> FileComplete \<Rightarrow> Manager \<Rightarrow> FileComplete res" where
  "signFileComplete env msg m =
     map_sum id (\<lambda>s. msg\<lparr>fc_Signature := s\<rparr>) (sign_packet env (PFileComplete (msg\<lparr>fc_Signature := []\<rparr>)) m)"

definition verifyFileComplete :: "Env \<Rightarrow> nat \<Rightarrow> FileComplete \<Rightarrow> Manager \<Rightarrow> go_error option" where
  "verifyFileComplete env i msg m =
     (if fc_Signature msg = [] then Some (Err ''file complete signature is required'')
      else verify_packet env i (PFileComplete (msg\<lparr>fc_Signature := []\<rparr>)) (fc_Signature msg) m)"

definition signFolderTransferRequest :: "Env \<Rightarrow> FolderTransferRequest \<Rightarrow> Manager \<Rightarrow> FolderTransferRequest res" where
  "signFolderTransferRequest env msg m =
     map_sum id (\<lambda>s. msg\<lparr>dq_Signature := s\<rparr>) (sign_packet env (PFolderRequest (msg\<lparr>dq_Signature := []\<rparr>)) m)"

definition verifyFolderTransferRequest :: "Env \<Rightarrow> nat \<Rightarrow> FolderTransferRequest \<Rightarrow> Manager \<Rightarrow> go_error option" where
  "verifyFolderTransferRequest env i msg m =
     (if dq_Signature msg = [] then Some (Err ''folder transfer request signature is required'')
      else verify_packet env i (PFolderRequest (msg\<lparr>dq_Signature := []\<rparr>)) (dq_Signature msg) m)"

definition signFolderTransferResponse :: "Env \<Rightarrow> FolderTransferResponse \<Rightarrow> Manager \<Rightarrow> FolderTransferResponse res" where
  "signFolderTransferResponse env msg m =
     map_sum id (\<lambda>s. msg\<lparr>ds_Signature := s\<rparr>) (sign_packet env (PFolderResponse (msg\<lparr>ds_Signature := []\<rparr>)) m)"

definition verifyFolderTransferResponse :: "Env \<Rightarrow> nat \<Rightarrow> FolderTransferResponse \<Rightarrow> Manager \<Rightarrow> go_error option" where
  "verifyFolderTransferResponse env i msg m =
     (if ds_Signature msg = [] then Some (Err ''folder transfer response signature is required'')
      else verify_packet env i (PFolderResponse (msg\<lparr>ds_Signature := []\<rparr>)) (ds_Signature msg) m)"

text \<open>Sign a response, report what goes wrong, and send it; the handlers differ in whether they report a
  failure of the connection.\<close>

definition respond :: "FileEnv \<Rightarrow> bool \<Rightarrow> nat \<Rightarrow> FileResponse \<Rightarrow> Node \<Rightarrow> Node" where
  "respond fe reports i response n =
     (case signFileResponse (fe_env fe) response (nd_mgr n) of
        Inl e \<Rightarrow> report e n
      | Inr msg \<Rightarrow>
          (let rn = send_to fe i (PFileResponse msg) n in if reports then report_some rn else snd rn))"

definition sendSignedFileComplete :: "FileEnv \<Rightarrow> nat \<Rightarrow> FileComplete \<Rightarrow> Node \<Rightarrow> go_error option \<times> Node" where
  "sendSignedFileComplete fe i complete n =
     (case signFileComplete (fe_env fe) complete (nd_mgr n) of
        Inl e \<Rightarrow> (Some e, n)
      | Inr msg \<Rightarrow> send_to fe i (PFileComplete msg) n)"

definition file_response :: "FileEnv \<Rightarrow> Node \<Rightarrow> string \<Rightarrow> string \<Rightarrow> int \<Rightarrow> int \<Rightarrow> string \<Rightarrow> FileResponse" where
  "file_response fe n fileID status chunk resume message =
     \<lparr>fs_FileID = fileID, fs_Status = status, fs_FromDeviceID = nd_id n, fs_ChunkIndex = chunk,
      fs_ResumeFromChunk = resume, fs_Message = message, fs_Timestamp = fe_ms fe, fs_Signature = []\<rparr>"

definition file_complete :: "FileEnv \<Rightarrow> string \<Rightarrow> string \<Rightarrow> string \<Rightarrow> FileComplete" where
  "file_complete fe fileID status message =
     \<lparr>fc_FileID = fileID, fc_Status = status, fc_Message = message, fc_Timestamp = fe_ms fe, fc_Signature = []\<rparr>"

definition sendChunkNack :: "FileEnv \<Rightarrow> nat \<Rightarrow> string \<Rightarrow> int \<Rightarrow> string \<Rightarrow> Node \<Rightarrow> Node" where
  "sendChunkNack fe i fileID chunkIndex msg n =
     respond fe True i (file_response fe n fileID ''chunk_nack'' chunkIndex 0 msg) n"

definition sendFolderTransferResponse :: "FileEnv \<Rightarrow> nat \<Rightarrow> string \<Rightarrow> string \<Rightarrow> string \<Rightarrow> Node \<Rightarrow> Node" where
  "sendFolderTransferResponse fe i folderID status message n =
     (case signFolderTransferResponse (fe_env fe)
             \<lparr>ds_FolderID = folderID, ds_Status = status, ds_FromDeviceID = nd_id n, ds_Message = message,
              ds_Timestamp = fe_ms fe, ds_Signature = []\<rparr> (nd_mgr n) of
        Inl e \<Rightarrow> report e n
      | Inr msg \<Rightarrow> report_some (send_to fe i (PFolderResponse msg) n))"

section \<open>Tables\<close>

definition getInboundTransfer :: "string \<Rightarrow> Node \<Rightarrow> inboundFileTransfer option" where
  "getInboundTransfer fileID n = map_of (inboundFileTransfers n) fileID"

definition setInboundTransfer :: "inboundFileTransfer \<Rightarrow> Node \<Rightarrow> Node" where
  "setInboundTransfer t n =
     n\<lparr>inboundFileTransfers := AList.update (it_FileID t) t (inboundFileTransfers n)\<rparr>"

definition removeInboundTransfer :: "string \<Rightarrow> Node \<Rightarrow> Node" where
  "removeInboundTransfer fileID n = n\<lparr>inboundFileTransfers := AList.delete fileID (inboundFileTransfers n)\<rparr>"

definition getInboundFolderTransfer :: "string \<Rightarrow> Node \<Rightarrow> inboundFolderTransfer option" where
  "getInboundFolderTransfer folderID n = map_of (inboundFolderTransfers n) folderID"

definition setInboundFolderTransfer :: "inboundFolderTransfer \<Rightarrow> Node \<Rightarrow> Node" where
  "setInboundFolderTransfer d n =
     (if io_FolderID d = [] then n
      else n\<lparr>inboundFolderTransfers := AList.update (io_FolderID d) d (inboundFolderTransfers n)\<rparr>)"

definition removeInboundFolderTransfer :: "string \<Rightarrow> Node \<Rightarrow> Node" where
  "removeInboundFolderTransfer folderID n =
     (if TrimSpace folderID = [] then n
      else n\<lparr>inboundFolderTransfers := AList.delete folderID (inboundFolderTransfers n)\<rparr>)"

definition beginPendingFileApproval :: "string \<Rightarrow> Node \<Rightarrow> bool \<times> Node" where
  "beginPendingFileApproval fileID0 n =
     (let fileID = TrimSpace fileID0 in
      if fileID = [] \<or> fileID \<in> set (pendingFileApprovals n) then (False, n)
      else (True, n\<lparr>pendingFileApprovals := fileID # pendingFileApprovals n\<rparr>))"

definition endPendingFileApproval :: "string \<Rightarrow> Node \<Rightarrow> Node" where
  "endPendingFileApproval fileID0 n =
     (let fileID = TrimSpace fileID0 in
      if fileID = [] then n else n\<lparr>pendingFileApprovals := removeAll fileID (pendingFileApprovals n)\<rparr>)"

definition lookup_decision :: "FileEnv \<Rightarrow> string \<Rightarrow> Node \<Rightarrow> recentFileDecision option \<times> Node" where
  "lookup_decision fe fileID0 n =
     (let fileID = TrimSpace fileID0 in
      if fileID = [] then (None, n)
      else case map_of (recentFileDecisions n) fileID of
        None \<Rightarrow> (None, n)
      | Some d \<Rightarrow>
          if en_now (fe_env fe) > rd_ExpiresAt d
          then (None, n\<lparr>recentFileDecisions := AList.delete fileID (recentFileDecisions n)\<rparr>)
          else (Some d, n))"

definition minRecentFileDecisionTTL :: int where "minRecentFileDecisionTTL = 30 * Second"
definition maxRecentFileDecisionTTL :: int where "maxRecentFileDecisionTTL = 5 * 60 * Second"

definition recentFileDecisionTTL :: "Node \<Rightarrow> int" where
  "recentFileDecisionTTL n =
     (let timeout = (if FileResponseTimeout (nd_options n) \<le> 0 then 10 * Second
                     else FileResponseTimeout (nd_options n));
          ttl = wrap_int64 (timeout * 3)
      in if ttl < minRecentFileDecisionTTL then minRecentFileDecisionTTL
         else if ttl > maxRecentFileDecisionTTL then maxRecentFileDecisionTTL
         else ttl)"

definition rememberFileDecision :: "FileEnv \<Rightarrow> string \<Rightarrow> bool \<Rightarrow> int \<Rightarrow> Node \<Rightarrow> Node" where
  "rememberFileDecision fe fileID0 accepted ttl0 n =
     (let fileID = TrimSpace fileID0; ttl = (if ttl0 \<le> 0 then recentFileDecisionTTL n else ttl0) in
      if fileID = [] then n
      else n\<lparr>recentFileDecisions := AList.update fileID
               \<lparr>rd_Accepted = accepted, rd_DecidedAt = fe_ms fe, rd_ExpiresAt = en_now (fe_env fe) + ttl\<rparr>
               (recentFileDecisions n)\<rparr>)"

definition clearRecentFileDecision :: "string \<Rightarrow> Node \<Rightarrow> Node" where
  "clearRecentFileDecision fileID0 n =
     (let fileID = TrimSpace fileID0 in
      if fileID = [] then n
      else n\<lparr>recentFileDecisions := AList.delete fileID (recentFileDecisions n)\<rparr>)"

section \<open>Settings and limits\<close>

definition getPeerSettingsSnapshot :: "string \<Rightarrow> Node \<Rightarrow> PeerSettings option \<times> Node" where
  "getPeerSettingsSnapshot peer n =
     (if TrimSpace peer = [] then (None, n)
      else case GetPeerSettings peer (nd_store n) of
        Inr g \<Rightarrow> (Some g, n)
      | Inl e \<Rightarrow>
          if \<not> errors_Is e ErrNotFound then (None, report (Wrap ''load peer settings'' e) n)
          else
            (case statement (EnsurePeerSettingsExist peer) n of
               (Some e, n1) \<Rightarrow> (None, report (Wrap ''ensure peer settings'' e) n1)
             | (None, n1) \<Rightarrow>
                 (case GetPeerSettings peer (nd_store n1) of
                    Inr g \<Rightarrow> (Some g, n1)
                  | Inl e \<Rightarrow>
                      (None, if \<not> errors_Is e ErrNotFound then report (Wrap ''reload peer settings'' e) n1
                             else n1))))"

definition currentDownloadDirectory :: "Node \<Rightarrow> string" where
  "currentDownloadDirectory n =
     (let configured = (case GetDownloadDirectory (nd_options n) of None \<Rightarrow> [] | Some p \<Rightarrow> TrimSpace p);
          files = TrimSpace (FilesDir (nd_options n))
      in if configured \<noteq> [] then configured else if files \<noteq> [] then files else ''./files'')"

definition currentMaxReceiveFileSize :: "Node \<Rightarrow> int" where
  "currentMaxReceiveFileSize n =
     (case GetMaxReceiveFileSize (nd_options n) of
        Some limit \<Rightarrow> if limit > 0 then limit else 0
      | None \<Rightarrow> if MaxReceiveFileSize (nd_options n) > 0 then MaxReceiveFileSize (nd_options n) else 0)"

definition resolveInboundDownloadDirectory :: "PeerSettings option \<Rightarrow> Node \<Rightarrow> string" where
  "resolveInboundDownloadDirectory settings n =
     (let peerDir = (case settings of None \<Rightarrow> [] | Some g \<Rightarrow> TrimSpace (g_DownloadDirectory g))
      in if peerDir \<noteq> [] then peerDir else currentDownloadDirectory n)"

definition resolveReceiveLimit :: "PeerSettings option \<Rightarrow> Node \<Rightarrow> int" where
  "resolveReceiveLimit settings n =
     (case settings of
        Some g \<Rightarrow> if g_MaxFileSize g > 0 then g_MaxFileSize g else currentMaxReceiveFileSize n
      | None \<Rightarrow> currentMaxReceiveFileSize n)"

section \<open>Chunks\<close>

definition chunkCount :: "int \<Rightarrow> int \<Rightarrow> int" where
  "chunkCount filesize chunkSize =
     (if filesize \<le> 0 \<or> chunkSize \<le> 0 then 0
      else quo filesize chunkSize + (if rem filesize chunkSize \<noteq> 0 then 1 else 0))"

text \<open>\<open>readFileChunk\<close> on the content of the file.\<close>

definition readFileChunk :: "string \<Rightarrow> int \<Rightarrow> int \<Rightarrow> string res" where
  "readFileChunk content offset chunkSize =
     (if offset < 0 then Inl (Wrap ''read file chunk'' (Err ''negative offset''))
      else let bytes = take (nat chunkSize) (drop (nat offset) content)
           in if bytes = [] then Inl EOF else Inr bytes)"

definition fileChecksumHex :: "FileEnv \<Rightarrow> string \<Rightarrow> Node \<Rightarrow> string res" where
  "fileChecksumHex fe path n =
     (case os_ReadFile fe path (nd_disk n) of
        Inl e \<Rightarrow> Inl (Wrap ''open file for checksum'' e)
      | Inr content \<Rightarrow> Inr (hex_encode (sha256_Sum (en_P (fe_env fe)) content)))"

text \<open>\<open>for transfer.ReceivedChunks[transfer.NextChunk] { transfer.NextChunk++ }\<close>\<close>

function advance :: "int list \<Rightarrow> int \<Rightarrow> int" where
  "advance received k = (if k \<in> set received then advance received (k + 1) else k)"
  by pat_completeness auto
termination
proof (relation "measure (\<lambda>(received, k). card {c \<in> set received. k \<le> c})")
  fix received and k :: int
  assume "k \<in> set received"
  then have "k \<in> {c \<in> set received. k \<le> c}" "k \<notin> {c \<in> set received. k + 1 \<le> c}" by simp_all
  moreover have "{c \<in> set received. k + 1 \<le> c} \<subseteq> {c \<in> set received. k \<le> c}" by auto
  ultimately have "{c \<in> set received. k + 1 \<le> c} \<subset> {c \<in> set received. k \<le> c}" by blast
  then show "((received, k + 1), (received, k)) \<in> measure (\<lambda>(received, k). card {c \<in> set received. k \<le> c})"
    by (auto intro: psubset_card_mono)
qed simp

declare advance.simps [simp del]

section \<open>Checkpoints and metadata\<close>

definition inboundCheckpointChunkInterval :: int where "inboundCheckpointChunkInterval = 10"
definition inboundCheckpointByteInterval :: int where "inboundCheckpointByteInterval = 2 * 1024 * 1024"
definition outboundCheckpointChunkInterval :: int where "outboundCheckpointChunkInterval = 50"
definition outboundCheckpointByteInterval :: int where "outboundCheckpointByteInterval = 10 * 1024 * 1024"

definition maybePersistInboundCheckpoint :: "FileEnv \<Rightarrow> string \<Rightarrow> bool \<Rightarrow> Node \<Rightarrow> Node" where
  "maybePersistInboundCheckpoint fe fileID force n =
     (case getInboundTransfer fileID n of
        None \<Rightarrow> n
      | Some t \<Rightarrow>
          if \<not> force \<and> it_NextChunk t - it_checkpointChunk t < inboundCheckpointChunkInterval \<and>
             it_BytesReceived t - it_checkpointBytes t < inboundCheckpointByteInterval then n
          else
            let n1 = setInboundTransfer (t\<lparr>it_checkpointChunk := it_NextChunk t,
                                           it_checkpointBytes := it_BytesReceived t\<rparr>) n;
                cp = \<lparr>c_FileID = it_FileID t, c_Direction = ''receive'', c_NextChunk = it_NextChunk t,
                      c_BytesTransferred = it_BytesReceived t, c_TempPath = it_TempPath t, c_UpdatedAt = fe_ms fe\<rparr>
            in (case statement (UpsertTransferCheckpoint (fe_ms fe) cp) n1 of
                  (None, n2) \<Rightarrow> n2
                | (Some e, n2) \<Rightarrow> report (Wrap ''upsert inbound transfer checkpoint'' e) n2))"

definition getOutboundTransfer :: "string \<Rightarrow> Node \<Rightarrow> outboundFileTransfer option" where
  "getOutboundTransfer fileID n = map_of (outboundFileTransfers n) fileID"

definition setOutboundTransfer :: "outboundFileTransfer \<Rightarrow> Node \<Rightarrow> Node" where
  "setOutboundTransfer t n =
     n\<lparr>outboundFileTransfers := AList.update (ot_FileID t) t (outboundFileTransfers n)\<rparr>"

definition maybePersistOutboundCheckpoint :: "FileEnv \<Rightarrow> string \<Rightarrow> bool \<Rightarrow> Node \<Rightarrow> Node" where
  "maybePersistOutboundCheckpoint fe fileID force n =
     (case getOutboundTransfer fileID n of
        None \<Rightarrow> n
      | Some t \<Rightarrow>
          if \<not> force \<and> ot_NextChunk t - ot_checkpointChunk t < outboundCheckpointChunkInterval \<and>
             ot_BytesSent t - ot_checkpointBytes t < outboundCheckpointByteInterval then n
          else
            let n1 = setOutboundTransfer (t\<lparr>ot_checkpointChunk := ot_NextChunk t,
                                            ot_checkpointBytes := ot_BytesSent t\<rparr>) n;
                cp = \<lparr>c_FileID = ot_FileID t, c_Direction = ''send'', c_NextChunk = ot_NextChunk t,
                      c_BytesTransferred = ot_BytesSent t, c_TempPath = ot_SourcePath t, c_UpdatedAt = fe_ms fe\<rparr>
            in (case statement (UpsertTransferCheckpoint (fe_ms fe) cp) n1 of
                  (None, n2) \<Rightarrow> n2
                | (Some e, n2) \<Rightarrow> report (Wrap ''upsert outbound transfer checkpoint'' e) n2))"

definition removeTransferCheckpoint :: "string \<Rightarrow> string \<Rightarrow> Node \<Rightarrow> Node" where
  "removeTransferCheckpoint fileID direction n =
     (if TrimSpace fileID = [] then n
      else case statement (DeleteTransferCheckpoint fileID direction) n of
             (None, n1) \<Rightarrow> n1
           | (Some e, n1) \<Rightarrow> report (Wrap ''delete transfer checkpoint'' e) n1)"

definition upsertFileMetadata :: "FileMetadata \<Rightarrow> Node \<Rightarrow> go_error option \<times> Node" where
  "upsertFileMetadata meta n =
     (case statement (SaveFileMetadata meta) n of
        (None, n1) \<Rightarrow> (None, n1)
      | (Some e, n1) \<Rightarrow>
          (if Contains (error_text e) ''UNIQUE constraint failed: files.file_id'' then None else Some e, n1))"

definition isTerminalTransferStatus :: "string \<Rightarrow> bool" where
  "isTerminalTransferStatus status \<longleftrightarrow> status \<in> {''complete'', ''rejected'', ''failed'', ''canceled''}"

text \<open>\<open>UpdateFileTimestampReceived\<close> as the handlers call it: a missing row is no error.\<close>

definition stamp_received :: "FileEnv \<Rightarrow> string \<Rightarrow> Node \<Rightarrow> Node" where
  "stamp_received fe fileID n =
     (case statement (UpdateFileTimestampReceived (fe_ms fe) fileID (fe_ms fe)) n of
        (None, n1) \<Rightarrow> n1
      | (Some e, n1) \<Rightarrow> if errors_Is e ErrNotFound then n1 else report e n1)"

section \<open>Cancellations\<close>

definition fileCancelMessageBySender :: string where
  "fileCancelMessageBySender = ''transfer canceled by sender''"

definition fileCancelMessageByReceiver :: string where
  "fileCancelMessageByReceiver = ''transfer canceled by receiver''"

definition normalizeTransferMessage :: "string \<Rightarrow> string" where
  "normalizeTransferMessage message = ToLower (TrimSpace message)"

definition isCancellationResponseMessage :: "string \<Rightarrow> bool" where
  "isCancellationResponseMessage message \<longleftrightarrow>
     normalizeTransferMessage message \<in>
       {fileCancelMessageBySender, fileCancelMessageByReceiver,
        ''transfer cancelled by sender'', ''transfer cancelled by receiver''}"

definition isCancellationComplete :: "FileComplete \<Rightarrow> bool" where
  "isCancellationComplete complete \<longleftrightarrow>
     EqualFold (TrimSpace (fc_Status complete)) ''failed'' \<and> isCancellationResponseMessage (fc_Message complete)"

section \<open>What an operation on the manager leaves alone\<close>

definition parts where
  "parts n = (nd_options n, nd_disk n, outboundFileTransfers n, inboundFileTransfers n,
     inboundFolderTransfers n, pendingFileApprovals n, recentFileDecisions n, outboundFileEventChans n,
     outboundFolderEventChans n, outboundTransferQueue n, activeOutboundTransfer n, nd_progress n, nd_approvals n, nd_runs n)"

lemmas parts_inject = parts_def prod.inject

lemma parts_on_mgr: "parts (on_mgr f n) = parts n"
  by (simp add: parts_def on_mgr_def)

lemma parts_run_mgr: "parts (snd (run_mgr f n)) = parts n"
  by (simp add: parts_def run_mgr_def split: prod.split)

lemma parts_report: "parts (report e n) = parts n"
  by (simp add: report_def parts_on_mgr)

lemma parts_report_some: "parts (report_some rn) = parts (snd rn)"
  by (cases rn) (simp add: report_some_def parts_report split: option.split)

lemma parts_statement: "parts (snd (statement f n)) = parts n"
  by (simp add: statement_def parts_run_mgr)

lemma parts_send_to: "parts (snd (send_to fe i p n)) = parts n"
  by (simp add: send_to_def parts_run_mgr)

lemma parts_set_status: "parts (set_status fileID status n) = parts n"
  by (simp add: set_status_def parts_statement)

lemma parts_respond: "parts (respond fe r i response n) = parts n"
  by (simp add: respond_def parts_report parts_report_some parts_send_to Let_def split: sum.split)

lemma parts_sendSignedFileComplete: "parts (snd (sendSignedFileComplete fe i c n)) = parts n"
  by (simp add: sendSignedFileComplete_def parts_send_to split: sum.split)

lemma parts_sendChunkNack: "parts (sendChunkNack fe i fileID k msg n) = parts n"
  by (simp add: sendChunkNack_def parts_respond)

lemma parts_sendFolderTransferResponse: "parts (sendFolderTransferResponse fe i d s msg n) = parts n"
  by (simp add: sendFolderTransferResponse_def parts_report parts_report_some parts_send_to split: sum.split)

lemma parts_removeTransferCheckpoint: "parts (removeTransferCheckpoint fileID d n) = parts n"
  using parts_statement [of "DeleteTransferCheckpoint fileID d" n]
  by (auto simp: removeTransferCheckpoint_def parts_report split: prod.split option.split)

lemma parts_upsertFileMetadata: "parts (snd (upsertFileMetadata meta n)) = parts n"
  using parts_statement [of "SaveFileMetadata meta" n]
  by (auto simp: upsertFileMetadata_def split: prod.split option.split)

lemma parts_stamp_received: "parts (stamp_received fe fileID n) = parts n"
  using parts_statement [of "UpdateFileTimestampReceived (fe_ms fe) fileID (fe_ms fe)" n]
  by (auto simp: stamp_received_def parts_report split: prod.split option.split)

lemma parts_getPeerSettingsSnapshot: "parts (snd (getPeerSettingsSnapshot peer n)) = parts n"
  using parts_statement [of "EnsurePeerSettingsExist peer" n]
  by (auto simp: getPeerSettingsSnapshot_def parts_report split: prod.split option.split sum.split)

lemmas frames [simp] =
  parts_on_mgr [unfolded parts_inject] parts_run_mgr [unfolded parts_inject] parts_report [unfolded parts_inject]
  parts_report_some [unfolded parts_inject] parts_statement [unfolded parts_inject]
  parts_send_to [unfolded parts_inject] parts_set_status [unfolded parts_inject]
  parts_respond [unfolded parts_inject] parts_sendSignedFileComplete [unfolded parts_inject]
  parts_sendChunkNack [unfolded parts_inject] parts_sendFolderTransferResponse [unfolded parts_inject]
  parts_removeTransferCheckpoint [unfolded parts_inject] parts_upsertFileMetadata [unfolded parts_inject]
  parts_stamp_received [unfolded parts_inject] parts_getPeerSettingsSnapshot [unfolded parts_inject]

lemma emitFileProgress_frame [simp]:
  "nd_mgr (emitFileProgress p n) = nd_mgr n" "nd_options (emitFileProgress p n) = nd_options n"
  "nd_disk (emitFileProgress p n) = nd_disk n" "outboundFileTransfers (emitFileProgress p n) = outboundFileTransfers n"
  "inboundFileTransfers (emitFileProgress p n) = inboundFileTransfers n"
  "inboundFolderTransfers (emitFileProgress p n) = inboundFolderTransfers n"
  "outboundFileEventChans (emitFileProgress p n) = outboundFileEventChans n"
  "outboundTransferQueue (emitFileProgress p n) = outboundTransferQueue n"
  "activeOutboundTransfer (emitFileProgress p n) = activeOutboundTransfer n"
  "nd_approvals (emitFileProgress p n) = nd_approvals n" "nd_runs (emitFileProgress p n) = nd_runs n"
  by (simp_all add: emitFileProgress_def)

end
