(* ===== verification/FileReceive.thy ===== *)
theory FileReceive
  imports FileCommon
begin

text \<open>
  The receiving side of file transfers (\<open>src/network/file_transfer.go\<close>): a request, the decision on it, the
  chunks, the end of the transfer, folders, and the transfers restored from checkpoints at the start.

  \<open>handleFileRequest\<close> ends in one of three ways: an answer now, a decision made here and carried out by
  \<open>finalizeInboundFileRequest\<close>, or a goroutine that waits for the user, kept in \<open>nd_approvals\<close> until
  \<open>approval_decided\<close> runs it with what the user chose. For a folder the handler itself waits, so the
  decision is an argument of \<open>handleFolderTransferRequest\<close>.
\<close>

section \<open>Requests\<close>

definition reject_file :: "FileEnv \<Rightarrow> bool \<Rightarrow> nat \<Rightarrow> string \<Rightarrow> string \<Rightarrow> Node \<Rightarrow> Node" where
  "reject_file fe reports i fileID message n =
     respond fe reports i (file_response fe n fileID ''rejected'' 0 0 message) n"

definition accept_file :: "FileEnv \<Rightarrow> nat \<Rightarrow> string \<Rightarrow> int \<Rightarrow> Node \<Rightarrow> Node" where
  "accept_file fe i fileID resumeFrom n =
     respond fe True i (file_response fe n fileID ''accepted'' 0 resumeFrom []) n"

definition request_meta :: "FileRequest \<Rightarrow> string \<Rightarrow> string \<Rightarrow> string \<Rightarrow> string \<Rightarrow> FileMetadata" where
  "request_meta request folderID relativePath finalPath status =
     \<lparr>f_FileID = fq_FileID request, f_MessageID = [], f_FolderID = folderID, f_RelativePath = relativePath,
      f_FromDeviceID = fq_FromDeviceID request, f_ToDeviceID = fq_ToDeviceID request,
      f_Filename = fq_Filename request, f_Filesize = fq_Filesize request, f_Filetype = fq_Filetype request,
      f_StoredPath = finalPath, f_Checksum = fq_Checksum request, f_TimestampReceived = None,
      f_TransferStatus = status\<rparr>"

text \<open>The connection a late decision is answered on: the one active now, else the one the request came on.\<close>

definition response_conn :: "nat \<Rightarrow> string \<Rightarrow> Node \<Rightarrow> nat option" where
  "response_conn i peer n =
     (case live_conn peer n of
        Some j \<Rightarrow> Some j
      | None \<Rightarrow> if conn_state (mg_heap (nd_mgr n) i) = StateDisconnected then None else Some i)"

definition answer_file :: "FileEnv \<Rightarrow> nat \<Rightarrow> FileRequest \<Rightarrow> string \<Rightarrow> int \<Rightarrow> string \<Rightarrow> Node \<Rightarrow> Node" where
  "answer_file fe i request status resumeFrom message n =
     (case response_conn i (fq_FromDeviceID request) n of
        None \<Rightarrow> n
      | Some j \<Rightarrow> respond fe True j (file_response fe n (fq_FileID request) status 0 resumeFrom message) n)"

text \<open>Record a rejected file; a status update follows an upsert that did not fail.\<close>

definition store_rejected :: "FileRequest \<Rightarrow> string \<Rightarrow> string \<Rightarrow> string \<Rightarrow> Node \<Rightarrow> Node" where
  "store_rejected request folderID relativePath finalPath n =
     (case upsertFileMetadata (request_meta request folderID relativePath finalPath ''rejected'') n of
        (Some e, n1) \<Rightarrow> report e n1
      | (None, n1) \<Rightarrow> set_status (fq_FileID request) ''rejected'' n1)"

definition new_inbound :: "FileRequest \<Rightarrow> string \<Rightarrow> int \<Rightarrow> inboundFileTransfer" where
  "new_inbound request finalPath chunkSize =
     \<lparr>it_FileID = fq_FileID request, it_FromDeviceID = fq_FromDeviceID request,
      it_Filename = fq_Filename request, it_Filesize = fq_Filesize request, it_Filetype = fq_Filetype request,
      it_Checksum = fq_Checksum request, it_ChunkSize = chunkSize,
      it_TotalChunks = chunkCount (fq_Filesize request) chunkSize,
      it_TempPath = finalPath @ ''.part'', it_FinalPath = finalPath, it_ReceivedChunks = [],
      it_NextChunk = 0, it_BytesReceived = 0, it_checkpointChunk = 0, it_checkpointBytes = 0\<rparr>"

text \<open>Create the directory and the temporary file, and give the file its final length.\<close>

definition prepare_temp :: "FileEnv \<Rightarrow> string \<Rightarrow> int \<Rightarrow> Node \<Rightarrow> go_error option \<times> Node" where
  "prepare_temp fe finalPath filesize n =
     (case run_disk (os_MkdirAll fe (Dir finalPath)) n of
        (Some e, n1) \<Rightarrow> (Some e, n1)
      | (None, n1) \<Rightarrow>
          (case run_disk (os_Create fe (finalPath @ ''.part'')) n1 of
             (Some e, n2) \<Rightarrow> (Some e, n2)
           | (None, n2) \<Rightarrow> run_disk (os_Truncate fe (finalPath @ ''.part'') filesize) n2))"

definition start_inbound ::
    "FileEnv \<Rightarrow> nat \<Rightarrow> FileRequest \<Rightarrow> string \<Rightarrow> string \<Rightarrow> string \<Rightarrow> Node \<Rightarrow> Node" where
  "start_inbound fe i request folderID relativePath finalPath n =
     (let n1 = setInboundTransfer (new_inbound request finalPath (FileChunkSize (nd_options n))) n;
          n2 = report_some (upsertFileMetadata (request_meta request folderID relativePath finalPath ''pending'') n1);
          n3 = maybePersistInboundCheckpoint fe (fq_FileID request) True n2;
          n4 = set_status (fq_FileID request) ''accepted'' n3;
          resumeFrom = (case getInboundTransfer (fq_FileID request) n4 of None \<Rightarrow> 0 | Some t \<Rightarrow> it_NextChunk t)
      in answer_file fe i request ''accepted'' resumeFrom [] n4)"

definition finalizeInboundFileRequest ::
    "FileEnv \<Rightarrow> nat \<Rightarrow> FileRequest \<Rightarrow> string \<Rightarrow> string \<Rightarrow> string \<Rightarrow> bool \<Rightarrow> string \<Rightarrow> Node \<Rightarrow> Node" where
  "finalizeInboundFileRequest fe i request folderID relativePath finalPath accept rejectMessage n =
     (if \<not> accept then
        let n1 = rememberFileDecision fe (fq_FileID request) False (recentFileDecisionTTL n) n;
            n2 = store_rejected request folderID relativePath finalPath n1
        in answer_file fe i request ''rejected'' 0 rejectMessage n2
      else
        let n1 = clearRecentFileDecision (fq_FileID request) n;
            existing = GetFileByID (fq_FileID request) (nd_store n1);
            canceled = (case existing of
                          Inr meta \<Rightarrow> EqualFold (TrimSpace (f_TransferStatus meta)) ''canceled''
                        | Inl _ \<Rightarrow> False)
        in if canceled then
             answer_file fe i request ''rejected'' 0 fileCancelMessageBySender
               (set_status (fq_FileID request) ''canceled'' n1)
           else
             let n2 = (case existing of
                         Inl e \<Rightarrow> if errors_Is e ErrNotFound then n1 else report e n1
                       | Inr _ \<Rightarrow> n1)
             in (case prepare_temp fe finalPath (fq_Filesize request) n2 of
                   (Some e, n3) \<Rightarrow> report e n3
                 | (None, n3) \<Rightarrow> start_inbound fe i request folderID relativePath finalPath n3))"

text \<open>The target of a file: below the root of an accepted folder, or in the download directory under a name
  that begins with the identifier of the file.\<close>

definition folder_target :: "FileRequest \<Rightarrow> string \<Rightarrow> Node \<Rightarrow> (go_error option \<times> string) + (string \<times> string)" where
  "folder_target request folderID n =
     (case sanitizeTransferRelativePath (fq_RelativePath request) of
        Inl e \<Rightarrow> Inl (Some (Wrap ''rejecting file_request invalid relative path'' e), ''invalid folder relative path'')
      | Inr relativePath \<Rightarrow>
          (case getInboundFolderTransfer folderID n of
             None \<Rightarrow> Inl (None, ''unknown folder transfer'')
           | Some folder \<Rightarrow>
               if io_FromDeviceID folder \<noteq> fq_FromDeviceID request then Inl (None, ''unknown folder transfer'')
               else
                 (case joinSanitizedTransferPath (io_RootPath folder) relativePath of
                    Inl e \<Rightarrow> Inl (Some (Wrap ''rejecting file_request invalid folder target path'' e),
                                  ''invalid folder path'')
                  | Inr finalPath \<Rightarrow>
                      if io_Manifest folder = [] then Inr (relativePath, finalPath)
                      else
                        (case map_of (io_Manifest folder) relativePath of
                           None \<Rightarrow> Inl (None, ''unknown folder entry'')
                         | Some entry \<Rightarrow>
                             if me_IsDirectory entry then Inl (None, ''unknown folder entry'')
                             else if me_Size entry \<noteq> fq_Filesize request
                             then Inl (None, ''folder file size mismatch'')
                             else Inr (relativePath, finalPath)))))"

text \<open>What the handler decides before anyone is asked: accept, reject with a message, or ask the user.\<close>

datatype receive_decision = Decide bool string | AskUser string

definition decide_receive :: "FileRequest \<Rightarrow> string \<Rightarrow> PeerSettings option \<Rightarrow> Node \<Rightarrow> receive_decision" where
  "decide_receive request folderID settings n =
     (let limit = resolveReceiveLimit settings n in
      if limit > 0 \<and> fq_Filesize request > limit then Decide False ''file size exceeds configured limit''
      else if folderID \<noteq> [] then Decide True ''file transfer rejected by user''
      else if (case settings of Some g \<Rightarrow> g_AutoAcceptFiles g | None \<Rightarrow> False)
      then Decide True ''file transfer rejected by user''
      else if OnFileRequest (nd_options n) then AskUser ''file transfer rejected by user''
      else Decide True ''file transfer rejected by user'')"

definition decide_request ::
    "FileEnv \<Rightarrow> nat \<Rightarrow> FileRequest \<Rightarrow> string \<Rightarrow> string \<Rightarrow> string \<Rightarrow> PeerSettings option \<Rightarrow> Node \<Rightarrow> Node" where
  "decide_request fe i request folderID relativePath finalPath settings n =
     (case decide_receive request folderID settings n of
        Decide accept message \<Rightarrow>
          finalizeInboundFileRequest fe i request folderID relativePath finalPath accept message n
      | AskUser message \<Rightarrow>
          (case beginPendingFileApproval (fq_FileID request) n of
             (False, n1) \<Rightarrow> n1
           | (True, n1) \<Rightarrow>
               n1\<lparr>nd_approvals := nd_approvals n1 @
                  [\<lparr>ap_conn = i, ap_request = request, ap_folderID = folderID,
                    ap_relativePath = relativePath, ap_finalPath = finalPath, ap_rejectMessage = message\<rparr>]\<rparr>))"

text \<open>The rest of \<open>handleFileRequest\<close> once the target is known: a transfer under way is resumed, a recent
  rejection repeated, otherwise a decision is made.\<close>

definition admit_request ::
    "FileEnv \<Rightarrow> nat \<Rightarrow> FileRequest \<Rightarrow> string \<Rightarrow> string \<Rightarrow> string \<Rightarrow> PeerSettings option \<Rightarrow> Node \<Rightarrow> Node" where
  "admit_request fe i request folderID relativePath finalPath settings n =
     (case getInboundTransfer (fq_FileID request) n of
        Some t \<Rightarrow>
          accept_file fe i (fq_FileID request) (it_NextChunk t) (set_status (fq_FileID request) ''accepted'' n)
      | None \<Rightarrow>
          (case lookup_decision fe (fq_FileID request) n of
             (Some d, n1) \<Rightarrow>
               if rd_Accepted d then decide_request fe i request folderID relativePath finalPath settings n1
               else if fq_Timestamp request \<le> rd_DecidedAt d then
                 reject_file fe False i (fq_FileID request) ''file transfer rejected by user''
                   (store_rejected request folderID relativePath finalPath n1)
               else decide_request fe i request folderID relativePath finalPath settings
                      (clearRecentFileDecision (fq_FileID request) n1)
           | (None, n1) \<Rightarrow> decide_request fe i request folderID relativePath finalPath settings n1))"

definition allow_file_request :: "FileEnv \<Rightarrow> FileRequest \<Rightarrow> Node \<Rightarrow> bool \<times> Node" where
  "allow_file_request fe request n =
     run_mgr (\<lambda>m. let (ok, r) = allowFileRequest (FileRequestRateLimit (nd_options n))
                        (FileRequestWindow (nd_options n)) (fq_FromDeviceID request) (fq_FileID request)
                        (en_now (fe_env fe)) (fileRates m)
                  in (ok, m\<lparr>fileRates := r\<rparr>)) n"

definition log_file_event :: "FileEnv \<Rightarrow> string \<Rightarrow> string \<Rightarrow> (string \<times> string) list \<Rightarrow> Node \<Rightarrow> Node" where
  "log_file_event fe eventType peer details =
     on_mgr (logSecurityEvent (fe_env fe) eventType peer ''warning'' details)"

definition target_request :: "FileEnv \<Rightarrow> nat \<Rightarrow> FileRequest \<Rightarrow> Node \<Rightarrow> Node" where
  "target_request fe i request n =
     (let (settings, n1) = getPeerSettingsSnapshot (fq_FromDeviceID request) n;
          downloadDir = resolveInboundDownloadDirectory settings n1;
          finalPath = filepath_Join [downloadDir, prefixedFilename (fq_FileID request) (fq_Filename request)];
          folderID = TrimSpace (fq_FolderID request)
      in if folderID = [] then admit_request fe i request folderID [] finalPath settings n1
         else
           (case folder_target request folderID n1 of
              Inl (e, message) \<Rightarrow>
                reject_file fe False i (fq_FileID request) message
                  (case e of None \<Rightarrow> n1 | Some err \<Rightarrow> report err n1)
            | Inr (relativePath, folderPath) \<Rightarrow>
                admit_request fe i request folderID relativePath folderPath settings n1))"

definition validate_sequence :: "nat \<Rightarrow> 64 word \<Rightarrow> Node \<Rightarrow> go_error option \<times> Node" where
  "validate_sequence i s =
     run_mgr (\<lambda>m. let (r, c) = ValidateSequence s (mg_heap m i) in (r, set_conn i c m))"

definition handleFileRequest :: "FileEnv \<Rightarrow> nat \<Rightarrow> FileRequest \<Rightarrow> Node \<Rightarrow> Node" where
  "handleFileRequest fe i request n =
     (if fq_FileID request = [] \<or> fq_FromDeviceID request = [] \<or> fq_Filename request = [] \<or>
         fq_Filesize request < 0 then n
      else if fq_FromDeviceID request \<noteq> peer_of (nd_mgr n) i \<or> fq_ToDeviceID request \<noteq> nd_id n then n
      else if \<not> withinTimestampSkew (en_now (fe_env fe)) (fq_Timestamp request) then
        report (Err ''rejecting file_request: timestamp outside skew'') n
      else
        (case validate_sequence i (fq_Sequence request) n of
           (Some e, n1) \<Rightarrow>
             let n2 = report (Wrap ''rejecting file_request'' e) n1
             in if errors_Is e ErrSequenceReplay then
                  log_file_event fe ''replay_rejected'' (fq_FromDeviceID request)
                    [(''message_type'', ''file_request''), (''file_id'', fq_FileID request),
                     (''reason'', error_text e), (''sequence'', FormatUint (unat (fq_Sequence request)))] n2
                else n2
         | (None, n1) \<Rightarrow>
             (case verifyFileRequest (fe_env fe) i request (nd_mgr n1) of
                Some e \<Rightarrow>
                  on_mgr (sendErrorMessage (fe_env fe) i ''invalid_signature''
                            ''file request signature verification failed'' (fq_FileID request))
                    (log_file_event fe ''signature_verification_failed'' (fq_FromDeviceID request)
                      [(''message_type'', ''file_request''), (''file_id'', fq_FileID request)] (report e n1))
              | None \<Rightarrow>
                  (case allow_file_request fe request n1 of
                     (False, n2) \<Rightarrow>
                       reject_file fe False i (fq_FileID request) ''file request rate limit exceeded''
                         (log_file_event fe ''connection_rate_limit_triggered'' (fq_FromDeviceID request)
                           [(''limit_type'', ''file_request_per_peer''),
                            (''limit_per_window'', FormatUint (nat (FileRequestRateLimit (nd_options n))))] n2)
                   | (True, n2) \<Rightarrow> target_request fe i request n2))))"

text \<open>The user decided on the file a goroutine was waiting for.\<close>

definition approval_decided :: "FileEnv \<Rightarrow> Approval \<Rightarrow> bool res \<Rightarrow> Node \<Rightarrow> Node" where
  "approval_decided fe a decision n =
     (let n1 = n\<lparr>nd_approvals := remove1 a (nd_approvals n)\<rparr>;
          n2 = (case decision of
                  Inl e \<Rightarrow> if errors_Is e ErrFileRequestDismissed then n1 else report e n1
                | Inr accept \<Rightarrow>
                    finalizeInboundFileRequest fe (ap_conn a) (ap_request a) (ap_folderID a)
                      (ap_relativePath a) (ap_finalPath a) accept (ap_rejectMessage a) n1)
      in endPendingFileApproval (fq_FileID (ap_request a)) n2)"

section \<open>Chunks\<close>

text \<open>Decode and open a chunk; what is wrong with it is the text of the refusal.\<close>

definition open_chunk :: "FileEnv \<Rightarrow> nat \<Rightarrow> FileData \<Rightarrow> inboundFileTransfer \<Rightarrow> Node \<Rightarrow> string + string" where
  "open_chunk fe i data t n =
     (if fd_ChunkIndex data < 0 \<or> it_TotalChunks t \<le> fd_ChunkIndex data then Inl ''invalid chunk index''
      else case DecodeString (fd_EncryptedData data) of
        Inl _ \<Rightarrow> Inl ''invalid encrypted data''
      | Inr ciphertext \<Rightarrow>
          (case DecodeString (fd_IV data) of
             Inl _ \<Rightarrow> Inl ''invalid iv''
           | Inr iv \<Rightarrow>
               (case Decrypt (en_P (fe_env fe)) (sessionKey (mg_heap (nd_mgr n) i)) iv ciphertext of
                  Inl _ \<Rightarrow> Inl ''decryption failed''
                | Inr plaintext \<Rightarrow>
                    if 0 < fd_ChunkSize data \<and> int (length plaintext) \<noteq> fd_ChunkSize data
                    then Inl ''chunk size mismatch'' else Inr plaintext)))"

definition write_chunk :: "FileEnv \<Rightarrow> int \<Rightarrow> string \<Rightarrow> inboundFileTransfer \<Rightarrow> Node \<Rightarrow> string option \<times> Node" where
  "write_chunk fe index plaintext t n =
     (case run_disk (os_OpenWrite fe (it_TempPath t)) n of
        (Some _, n1) \<Rightarrow> (Some ''open temp file failed'', n1)
      | (None, n1) \<Rightarrow>
          (case run_disk (os_WriteAt fe (it_TempPath t) plaintext (wrap_int64 (index * it_ChunkSize t))) n1 of
             (Some _, n2) \<Rightarrow> (Some ''write chunk failed'', n2)
           | (None, n2) \<Rightarrow> (None, n2)))"

definition count_chunk :: "int \<Rightarrow> nat \<Rightarrow> inboundFileTransfer \<Rightarrow> inboundFileTransfer" where
  "count_chunk index len t =
     (if index \<in> set (it_ReceivedChunks t) then t
      else
        let received = index # it_ReceivedChunks t
        in t\<lparr>it_ReceivedChunks := received, it_BytesReceived := it_BytesReceived t + int len,
             it_NextChunk := advance received (it_NextChunk t)\<rparr>)"

definition acknowledge_chunk :: "FileEnv \<Rightarrow> nat \<Rightarrow> string \<Rightarrow> int \<Rightarrow> inboundFileTransfer \<Rightarrow> Node \<Rightarrow> Node" where
  "acknowledge_chunk fe i fileID index t n =
     (case signFileResponse (fe_env fe) (file_response fe n fileID ''chunk_ack'' index 0 []) (nd_mgr n) of
        Inl e \<Rightarrow> report e n
      | Inr ack \<Rightarrow>
          emitFileProgress
            (progress_of fileID (peer_of (nd_mgr n) i) ''receive'' (it_BytesReceived t) (it_Filesize t)
              index (it_TotalChunks t) ''accepted'' False)
            (report_some (send_to fe i (PFileResponse ack) n)))"

definition handleFileData :: "FileEnv \<Rightarrow> nat \<Rightarrow> FileData \<Rightarrow> Node \<Rightarrow> Node" where
  "handleFileData fe i data n =
     (if fd_FileID data = [] then n
      else case getInboundTransfer (fd_FileID data) n of
        None \<Rightarrow> sendChunkNack fe i (fd_FileID data) (fd_ChunkIndex data) ''unknown file transfer'' n
      | Some t \<Rightarrow>
          (case open_chunk fe i data t n of
             Inl msg \<Rightarrow> sendChunkNack fe i (fd_FileID data) (fd_ChunkIndex data) msg n
           | Inr plaintext \<Rightarrow>
               (case write_chunk fe (fd_ChunkIndex data) plaintext t n of
                  (Some msg, n1) \<Rightarrow> sendChunkNack fe i (fd_FileID data) (fd_ChunkIndex data) msg n1
                | (None, n1) \<Rightarrow>
                    let t1 = count_chunk (fd_ChunkIndex data) (length plaintext) t;
                        n2 = maybePersistInboundCheckpoint fe (fd_FileID data) False (setInboundTransfer t1 n1)
                    in acknowledge_chunk fe i (fd_FileID data) (fd_ChunkIndex data) t1 n2)))"

section \<open>The end of a transfer\<close>

definition recordInboundCanceledBeforeApproval :: "FileEnv \<Rightarrow> nat \<Rightarrow> FileComplete \<Rightarrow> Node \<Rightarrow> Node" where
  "recordInboundCanceledBeforeApproval fe i complete n =
     (let fileID = TrimSpace (fc_FileID complete); peer = TrimSpace (peer_of (nd_mgr n) i);
          canceled = (\<lambda>filesize n1.
            emitFileProgress (progress_of fileID peer ''receive'' 0 filesize 0
                (chunkCount filesize (FileChunkSize (nd_options n1))) ''canceled'' True)
              (set_status fileID ''canceled'' n1))
      in if fileID = [] then n
         else case GetFileByID fileID (nd_store n) of
           Inr meta \<Rightarrow> canceled (f_Filesize meta) n
         | Inl e \<Rightarrow>
             if \<not> errors_Is e ErrNotFound then report e n
             else canceled 0 (report_some (upsertFileMetadata
               \<lparr>f_FileID = fileID, f_MessageID = [], f_FolderID = [], f_RelativePath = [], f_FromDeviceID = peer,
                f_ToDeviceID = nd_id n, f_Filename = fileID, f_Filesize = 0, f_Filetype = [],
                f_StoredPath = filepath_Join [currentDownloadDirectory n, prefixedFilename fileID fileID],
                f_Checksum = ''canceled-before-approval'', f_TimestampReceived = None,
                f_TransferStatus = ''canceled''\<rparr> n)))"

text \<open>Drop an inbound transfer and its checkpoint under a final status.\<close>

definition drop_inbound :: "string \<Rightarrow> Node \<Rightarrow> Node" where
  "drop_inbound fileID n = removeTransferCheckpoint fileID ''receive'' (removeInboundTransfer fileID n)"

definition fail_inbound :: "FileEnv \<Rightarrow> nat \<Rightarrow> string \<Rightarrow> string \<Rightarrow> string \<Rightarrow> Node \<Rightarrow> Node" where
  "fail_inbound fe i fileID status message n =
     report_some (sendSignedFileComplete fe i (file_complete fe fileID ''failed'' message)
       (drop_inbound fileID (set_status fileID status n)))"

definition finish_inbound :: "FileEnv \<Rightarrow> nat \<Rightarrow> string \<Rightarrow> inboundFileTransfer \<Rightarrow> Node \<Rightarrow> Node" where
  "finish_inbound fe i fileID t n =
     emitFileProgress
       (progress_of fileID (peer_of (nd_mgr n) i) ''receive'' (it_Filesize t) (it_Filesize t)
          (it_TotalChunks t - 1) (it_TotalChunks t) ''complete'' True)
       (report_some (sendSignedFileComplete fe i (file_complete fe fileID ''complete'' [])
         (drop_inbound fileID (stamp_received fe fileID (set_status fileID ''complete'' n)))))"

definition complete_inbound :: "FileEnv \<Rightarrow> nat \<Rightarrow> FileComplete \<Rightarrow> inboundFileTransfer \<Rightarrow> Node \<Rightarrow> Node" where
  "complete_inbound fe i complete t n =
     (let fileID = fc_FileID complete in
      if fc_Status complete \<noteq> ''complete'' then
        let canceled = isCancellationComplete complete;
            status = (if canceled then ''canceled'' else ''failed'')
        in emitFileProgress
             (progress_of fileID (peer_of (nd_mgr n) i) ''receive'' (it_BytesReceived t) (it_Filesize t) 0
                (it_TotalChunks t) status True)
             (fail_inbound fe i fileID status
                (if canceled then fileCancelMessageBySender else ''sender marked transfer failed'') n)
      else
        (case fileChecksumHex fe (it_TempPath t) n of
           Inl e \<Rightarrow> fail_inbound fe i fileID ''failed'' ''checksum verification failed'' (report e n)
         | Inr checksum \<Rightarrow>
             if \<not> EqualFold checksum (it_Checksum t) then
               fail_inbound fe i fileID ''failed'' ''checksum mismatch'' n
             else
               (case run_disk (os_Rename fe (it_TempPath t) (it_FinalPath t)) n of
                  (Some e, n1) \<Rightarrow> fail_inbound fe i fileID ''failed'' ''finalize file failed'' (report e n1)
                | (None, n1) \<Rightarrow> finish_inbound fe i fileID t n1)))"

text \<open>Hand an event to the goroutine that waits on the channel of a transfer; a full channel drops it.\<close>

definition push_event :: "string \<Rightarrow> fileTransferEvent \<Rightarrow> Node \<Rightarrow> Node" where
  "push_event fileID ev n =
     (case map_of (outboundFileEventChans n) fileID of
        None \<Rightarrow> n
      | Some evs \<Rightarrow>
          if 256 \<le> length evs then n
          else n\<lparr>outboundFileEventChans := AList.update fileID (evs @ [ev]) (outboundFileEventChans n)\<rparr>)"

definition complete_outbound_late :: "FileEnv \<Rightarrow> FileComplete \<Rightarrow> outboundFileTransfer \<Rightarrow> Node \<Rightarrow> Node" where
  "complete_outbound_late fe complete t n =
     (if ot_BytesSent t = ot_Filesize t \<and> \<not> ot_Done t then
        emitFileProgress
          (progress_of (ot_FileID t) (ot_PeerDeviceID t) ''send'' (ot_Filesize t) (ot_Filesize t)
             (ot_TotalChunks t - 1) (ot_TotalChunks t) ''complete'' True)
          (removeTransferCheckpoint (ot_FileID t) ''send''
            (stamp_received fe (ot_FileID t)
              (set_status (ot_FileID t) ''complete''
                (setOutboundTransfer (t\<lparr>ot_Done := True, ot_Running := False\<rparr>) n))))
      else n)"

definition handleFileComplete :: "FileEnv \<Rightarrow> nat \<Rightarrow> FileComplete \<Rightarrow> Node \<Rightarrow> Node" where
  "handleFileComplete fe i complete n =
     (if fc_FileID complete = [] then n
      else case verifyFileComplete (fe_env fe) i complete (nd_mgr n) of
        Some e \<Rightarrow>
          on_mgr (sendErrorMessage (fe_env fe) i ''invalid_signature''
                    ''file complete signature verification failed'' (fc_FileID complete))
            (log_file_event fe ''signature_verification_failed'' (peer_of (nd_mgr n) i)
              [(''message_type'', ''file_complete''), (''file_id'', fc_FileID complete)] (report e n))
      | None \<Rightarrow>
          (case getInboundTransfer (fc_FileID complete) n of
             Some t \<Rightarrow> complete_inbound fe i complete t n
           | None \<Rightarrow>
               if map_of (outboundFileEventChans n) (fc_FileID complete) \<noteq> None then
                 push_event (fc_FileID complete) (ev_Complete complete) n
               else if isCancellationComplete complete then recordInboundCanceledBeforeApproval fe i complete n
               else
                 (case getOutboundTransfer (fc_FileID complete) n of
                    Some t \<Rightarrow>
                      if fc_Status complete = ''complete'' then complete_outbound_late fe complete t n else n
                  | None \<Rightarrow> n)))"

definition handleFileResponse :: "FileEnv \<Rightarrow> nat \<Rightarrow> FileResponse \<Rightarrow> Node \<Rightarrow> Node" where
  "handleFileResponse fe i response n =
     (if fs_FileID response = [] then n
      else if fs_FromDeviceID response = [] then
        report (Err ''rejecting file_response: missing from_device_id'') n
      else if fs_FromDeviceID response \<noteq> peer_of (nd_mgr n) i then
        report (Err ''rejecting file_response: sender mismatch'') n
      else case verifyFileResponse (fe_env fe) i response (nd_mgr n) of
        Some e \<Rightarrow>
          on_mgr (sendErrorMessage (fe_env fe) i ''invalid_signature''
                    ''file response signature verification failed'' (fs_FileID response))
            (log_file_event fe ''signature_verification_failed'' (fs_FromDeviceID response)
              [(''message_type'', ''file_response''), (''file_id'', fs_FileID response)] (report e n))
      | None \<Rightarrow> push_event (fs_FileID response) (ev_Response response) n)"

section \<open>Folders\<close>

text \<open>The manifest with every path sanitised, or the message of the refusal; file count and total size are
  summed in 64 bits.\<close>

fun check_manifest :: "FolderManifestEntry list \<Rightarrow> string + (FolderManifestEntry list \<times> int \<times> int)" where
  "check_manifest [] = Inr ([], 0, 0)"
| "check_manifest (entry # es) =
     (case sanitizeTransferRelativePath (me_RelativePath entry) of
        Inl _ \<Rightarrow> Inl ''invalid folder manifest path''
      | Inr path \<Rightarrow>
          if me_Size entry < 0 then Inl ''invalid folder manifest size''
          else
            (case check_manifest es of
               Inl msg \<Rightarrow> Inl msg
             | Inr (rest, files, bytes) \<Rightarrow>
                 Inr (entry\<lparr>me_RelativePath := path\<rparr> # rest,
                      if me_IsDirectory entry then files else files + 1,
                      if me_IsDirectory entry then bytes else wrap_int64 (me_Size entry + bytes))))"

definition manifest_map :: "FolderManifestEntry list \<Rightarrow> (string \<times> FolderManifestEntry) list" where
  "manifest_map es = foldl (\<lambda>m e. AList.update (me_RelativePath e) e m) [] es"

text \<open>Make the directories of the manifest below the root, in its order.\<close>

fun make_tree :: "FileEnv \<Rightarrow> string \<Rightarrow> FolderManifestEntry list \<Rightarrow> Node \<Rightarrow> (go_error \<times> string) option \<times> Node" where
  "make_tree fe rootPath [] n = (None, n)"
| "make_tree fe rootPath (entry # es) n =
     (case joinSanitizedTransferPath rootPath (me_RelativePath entry) of
        Inl e \<Rightarrow> (Some (e, ''invalid folder entry path''), n)
      | Inr targetPath \<Rightarrow>
          (case run_disk (os_MkdirAll fe (if me_IsDirectory entry then targetPath else Dir targetPath)) n of
             (Some e, n1) \<Rightarrow>
               (Some (e, if me_IsDirectory entry then ''create subdirectory failed''
                         else ''create parent directory failed''), n1)
           | (None, n1) \<Rightarrow> make_tree fe rootPath es n1))"

definition folder_root :: "FileEnv \<Rightarrow> string \<Rightarrow> string \<Rightarrow> PeerSettings option \<Rightarrow> Node \<Rightarrow> string" where
  "folder_root fe folderID folderName settings n =
     (let downloadDir = resolveInboundDownloadDirectory settings n;
          cleaned = sanitizeFolderName folderName;
          rootName = (if cleaned = [] then ''folder'' else cleaned);
          rootPath = filepath_Join [downloadDir, rootName]
      in case os_Stat fe rootPath (nd_disk n) of
           Inr _ \<Rightarrow> filepath_Join [downloadDir, folderID @ ''_'' @ rootName]
         | Inl _ \<Rightarrow> rootPath)"

definition folder_meta :: "FileEnv \<Rightarrow> FolderTransferRequest \<Rightarrow> string \<Rightarrow> int \<Rightarrow> int \<Rightarrow> string \<Rightarrow> FolderTransferMetadata" where
  "folder_meta fe request rootPath files bytes status =
     \<lparr>d_FolderID = dq_FolderID request, d_FromDeviceID = dq_FromDeviceID request,
      d_ToDeviceID = dq_ToDeviceID request, d_FolderName = dq_FolderName request, d_RootPath = rootPath,
      d_TotalFiles = files, d_TotalSize = bytes, d_TransferStatus = status, d_Timestamp = fe_ms fe\<rparr>"

definition accept_folder ::
    "FileEnv \<Rightarrow> nat \<Rightarrow> FolderTransferRequest \<Rightarrow> FolderManifestEntry list \<Rightarrow> int \<Rightarrow> int \<Rightarrow> string \<Rightarrow> Node \<Rightarrow> Node" where
  "accept_folder fe i request manifest files bytes rootPath n =
     (case run_disk (os_MkdirAll fe rootPath) n of
        (Some e, n1) \<Rightarrow>
          sendFolderTransferResponse fe i (dq_FolderID request) ''rejected'' ''create folder path failed'' (report e n1)
      | (None, n1) \<Rightarrow>
          (case make_tree fe rootPath manifest n1 of
             (Some (e, msg), n2) \<Rightarrow>
               sendFolderTransferResponse fe i (dq_FolderID request) ''rejected'' msg (report e n2)
           | (None, n2) \<Rightarrow>
               let n3 = report_some (statement (UpsertFolderTransfer (fe_ms fe)
                          (folder_meta fe request rootPath files bytes ''accepted'')) n2);
                   n4 = setInboundFolderTransfer
                          \<lparr>io_FolderID = dq_FolderID request, io_FromDeviceID = dq_FromDeviceID request,
                           io_FolderName = dq_FolderName request, io_RootPath = rootPath,
                           io_Manifest = manifest_map manifest, io_AcceptedAt = fe_ms fe,
                           io_ExpectedFiles = files, io_TotalSize = bytes\<rparr> n3
               in sendFolderTransferResponse fe i (dq_FolderID request) ''accepted'' [] n4))"

text \<open>\<open>decision\<close> is what the user answers if asked.\<close>

definition decide_folder ::
    "FileEnv \<Rightarrow> bool res \<Rightarrow> int \<Rightarrow> PeerSettings option \<Rightarrow> Node \<Rightarrow> (bool \<times> string) res" where
  "decide_folder fe decision bytes settings n =
     (let limit = resolveReceiveLimit settings n in
      if limit > 0 \<and> bytes > limit then Inr (False, ''folder size exceeds configured limit'')
      else if (case settings of Some g \<Rightarrow> g_AutoAcceptFiles g | None \<Rightarrow> False)
      then Inr (True, ''folder transfer rejected by user'')
      else if OnFileRequest (nd_options n)
      then map_sum id (\<lambda>accept. (accept, ''folder transfer rejected by user'')) decision
      else Inr (True, ''folder transfer rejected by user''))"

definition place_folder ::
    "FileEnv \<Rightarrow> nat \<Rightarrow> FolderTransferRequest \<Rightarrow> bool res \<Rightarrow> FolderManifestEntry list \<Rightarrow> int \<Rightarrow> int \<Rightarrow> Node \<Rightarrow> Node" where
  "place_folder fe i request decision manifest files bytes n =
     (let (settings, n1) = getPeerSettingsSnapshot (dq_FromDeviceID request) n in
      case decide_folder fe decision bytes settings n1 of
        Inl e \<Rightarrow> report e n1
      | Inr (accept, message) \<Rightarrow>
          let rootPath = folder_root fe (dq_FolderID request) (dq_FolderName request) settings n1
          in if \<not> accept then
               sendFolderTransferResponse fe i (dq_FolderID request) ''rejected'' message
                 (snd (statement (UpsertFolderTransfer (fe_ms fe)
                   (folder_meta fe request rootPath files bytes ''rejected'')) n1))
             else accept_folder fe i request manifest files bytes rootPath n1)"

definition handleFolderTransferRequest ::
    "FileEnv \<Rightarrow> nat \<Rightarrow> FolderTransferRequest \<Rightarrow> bool res \<Rightarrow> Node \<Rightarrow> Node" where
  "handleFolderTransferRequest fe i request decision n =
     (if dq_FolderID request = [] \<or> dq_FolderName request = [] \<or> dq_FromDeviceID request = [] \<or>
         dq_ToDeviceID request = [] then n
      else if dq_FromDeviceID request \<noteq> peer_of (nd_mgr n) i \<or> dq_ToDeviceID request \<noteq> nd_id n then n
      else if \<not> withinTimestampSkew (en_now (fe_env fe)) (dq_Timestamp request) then
        report (Err ''rejecting folder_transfer_request: timestamp outside skew'') n
      else case verifyFolderTransferRequest (fe_env fe) i request (nd_mgr n) of
        Some e \<Rightarrow>
          on_mgr (sendErrorMessage (fe_env fe) i ''invalid_signature''
                    ''folder transfer request signature verification failed'' (dq_FolderID request))
            (log_file_event fe ''signature_verification_failed'' (dq_FromDeviceID request)
              [(''message_type'', ''folder_transfer_request''), (''folder_id'', dq_FolderID request)] (report e n))
      | None \<Rightarrow>
          (case check_manifest (dq_Manifest request) of
             Inl msg \<Rightarrow> sendFolderTransferResponse fe i (dq_FolderID request) ''rejected'' msg n
           | Inr (manifest, files, bytes) \<Rightarrow>
               if 0 < dq_TotalFiles request \<and> dq_TotalFiles request \<noteq> files then
                 sendFolderTransferResponse fe i (dq_FolderID request) ''rejected''
                   ''folder manifest file count mismatch'' n
               else if 0 < dq_TotalSize request \<and> dq_TotalSize request \<noteq> bytes then
                 sendFolderTransferResponse fe i (dq_FolderID request) ''rejected''
                   ''folder manifest size mismatch'' n
               else place_folder fe i request decision manifest files bytes n))"

definition push_folder_response :: "FolderTransferResponse \<Rightarrow> Node \<Rightarrow> Node" where
  "push_folder_response response n =
     (case map_of (outboundFolderEventChans n) (ds_FolderID response) of
        None \<Rightarrow> n
      | Some rs \<Rightarrow>
          if 16 \<le> length rs then n
          else n\<lparr>outboundFolderEventChans :=
                   AList.update (ds_FolderID response) (rs @ [response]) (outboundFolderEventChans n)\<rparr>)"

definition handleFolderTransferResponse :: "FileEnv \<Rightarrow> nat \<Rightarrow> FolderTransferResponse \<Rightarrow> Node \<Rightarrow> Node" where
  "handleFolderTransferResponse fe i response n =
     (if ds_FolderID response = [] \<or> ds_FromDeviceID response = [] then n
      else if ds_FromDeviceID response \<noteq> peer_of (nd_mgr n) i then
        report (Err ''rejecting folder_transfer_response: sender mismatch'') n
      else case verifyFolderTransferResponse (fe_env fe) i response (nd_mgr n) of
        Some e \<Rightarrow>
          on_mgr (sendErrorMessage (fe_env fe) i ''invalid_signature''
                    ''folder transfer response signature verification failed'' (ds_FolderID response))
            (log_file_event fe ''signature_verification_failed'' (ds_FromDeviceID response)
              [(''message_type'', ''folder_transfer_response''), (''folder_id'', ds_FolderID response)] (report e n))
      | None \<Rightarrow> push_folder_response response n)"

section \<open>Restoring transfers at the start\<close>

definition clamp :: "int \<Rightarrow> int \<Rightarrow> int" where
  "clamp v hi = (let low = (if v < 0 then 0 else v) in if low > hi then hi else low)"

definition restored_inbound :: "Node \<Rightarrow> FileMetadata \<Rightarrow> TransferCheckpoint \<Rightarrow> string \<Rightarrow> string \<Rightarrow> inboundFileTransfer" where
  "restored_inbound n meta cp tempPath finalPath =
     (let chunkSize = FileChunkSize (nd_options n);
          chunks = chunkCount (f_Filesize meta) chunkSize;
          nextChunk = clamp (c_NextChunk cp) chunks;
          bytes = clamp (c_BytesTransferred cp) (f_Filesize meta)
      in \<lparr>it_FileID = f_FileID meta, it_FromDeviceID = f_FromDeviceID meta, it_Filename = f_Filename meta,
          it_Filesize = f_Filesize meta, it_Filetype = f_Filetype meta, it_Checksum = f_Checksum meta,
          it_ChunkSize = chunkSize, it_TotalChunks = chunks, it_TempPath = tempPath, it_FinalPath = finalPath,
          it_ReceivedChunks = map int [0..<nat nextChunk], it_NextChunk = nextChunk, it_BytesReceived = bytes,
          it_checkpointChunk = nextChunk, it_checkpointBytes = bytes\<rparr>)"

text \<open>The folder of a restored file, if it is not known: its manifest is lost, so it is empty.\<close>

definition restore_folder :: "FileEnv \<Rightarrow> FileMetadata \<Rightarrow> string \<Rightarrow> Node \<Rightarrow> Node" where
  "restore_folder fe meta finalPath n =
     (if f_FolderID meta = [] \<or> getInboundFolderTransfer (f_FolderID meta) n \<noteq> None then n
      else
        let stored = GetFolderTransfer (f_FolderID meta) (nd_store n);
            rootPath = (case stored of
                          Inr d \<Rightarrow> if TrimSpace (d_RootPath d) \<noteq> [] then TrimSpace (d_RootPath d) else Dir finalPath
                        | Inl _ \<Rightarrow> Dir finalPath);
            folderName = (case stored of
                          Inr d \<Rightarrow> if TrimSpace (d_FolderName d) \<noteq> [] then TrimSpace (d_FolderName d)
                                   else Base (Dir finalPath)
                        | Inl _ \<Rightarrow> Base (Dir finalPath))
        in setInboundFolderTransfer
             \<lparr>io_FolderID = f_FolderID meta, io_FromDeviceID = f_FromDeviceID meta, io_FolderName = folderName,
              io_RootPath = rootPath, io_Manifest = [], io_AcceptedAt = fe_ms fe, io_ExpectedFiles = 0,
              io_TotalSize = 0\<rparr> n)"

definition restoreInboundTransfer :: "FileEnv \<Rightarrow> TransferCheckpoint \<Rightarrow> Node \<Rightarrow> go_error option \<times> Node" where
  "restoreInboundTransfer fe cp n =
     (case GetFileByID (c_FileID cp) (nd_store n) of
        Inl e \<Rightarrow>
          if errors_Is e ErrNotFound then (None, removeTransferCheckpoint (c_FileID cp) ''receive'' n)
          else (Some (Wrap ''load inbound checkpoint metadata'' e), n)
      | Inr meta \<Rightarrow>
          let finalPath = TrimSpace (f_StoredPath meta);
              tempPath = (if TrimSpace (c_TempPath cp) = [] then finalPath @ ''.part'' else TrimSpace (c_TempPath cp))
          in if isTerminalTransferStatus (f_TransferStatus meta) \<or> tempPath = [] \<or> finalPath = [] then
               (None, removeTransferCheckpoint (c_FileID cp) ''receive'' n)
             else
               (case run_disk (os_MkdirAll fe (Dir tempPath)) n of
                  (Some e, n1) \<Rightarrow> (Some (Wrap ''restore inbound checkpoint: create temp dir'' e), n1)
                | (None, n1) \<Rightarrow>
                    (case run_disk (os_Create fe tempPath) n1 of
                       (Some e, n2) \<Rightarrow> (Some (Wrap ''restore inbound checkpoint: open temp file'' e), n2)
                     | (None, n2) \<Rightarrow>
                         (case run_disk (os_Truncate fe tempPath (f_Filesize meta)) n2 of
                            (Some e, n3) \<Rightarrow> (Some (Wrap ''restore inbound checkpoint: truncate temp file'' e), n3)
                          | (None, n3) \<Rightarrow>
                              (None, setInboundTransfer (restored_inbound n3 meta cp tempPath finalPath)
                                       (restore_folder fe meta finalPath n3))))))"

end
