(* ===== verification/FileSend.thy ===== *)
theory FileSend
  imports FileReceive "HOL-Library.Product_Lexorder"
begin

text \<open>
  The sending side of file transfers (\<open>src/network/file_transfer.go\<close>): queueing a file for a peer, the
  goroutine that sends it, cancelling, retrying, folders, and what is restored at the start.

  \<open>runOutboundFileTransfer\<close> is one function that waits in three places. Here it is cut at its waits: a
  \<open>Run\<close> says where the goroutine of a transfer stands, and \<open>run_step\<close> takes it from one wait to the next
  when it is woken, by its start, a cancelled context, the end of its connection, a timeout, or the next
  event of its channel. The source file is read through its path at every chunk.
\<close>

section \<open>The queue of a peer\<close>

definition queue_of :: "string \<Rightarrow> Node \<Rightarrow> string list" where
  "queue_of peer n = (case map_of (outboundTransferQueue n) peer of None \<Rightarrow> [] | Some q \<Rightarrow> q)"

definition put_queue :: "string \<Rightarrow> string list \<Rightarrow> Node \<Rightarrow> Node" where
  "put_queue peer q n =
     n\<lparr>outboundTransferQueue := (if q = [] then AList.delete peer (outboundTransferQueue n)
                                  else AList.update peer q (outboundTransferQueue n))\<rparr>"

definition active_of :: "string \<Rightarrow> Node \<Rightarrow> string" where
  "active_of peer n = (case map_of (activeOutboundTransfer n) peer of None \<Rightarrow> [] | Some f \<Rightarrow> f)"

definition enqueueOutboundTransfer :: "string \<Rightarrow> string \<Rightarrow> bool \<Rightarrow> Node \<Rightarrow> Node" where
  "enqueueOutboundTransfer peer fileID front n =
     (if TrimSpace peer = [] \<or> TrimSpace fileID = [] \<or> fileID \<in> set (queue_of peer n) then n
      else put_queue peer (if front then fileID # queue_of peer n else queue_of peer n @ [fileID]) n)"

definition removeQueuedOutboundTransfer :: "string \<Rightarrow> string \<Rightarrow> Node \<Rightarrow> bool \<times> Node" where
  "removeQueuedOutboundTransfer peer fileID n =
     (if TrimSpace peer = [] \<or> TrimSpace fileID = [] \<or> queue_of peer n = [] then (False, n)
      else (fileID \<in> set (queue_of peer n), put_queue peer (removeAll fileID (queue_of peer n)) n))"

definition finishOutboundTransfer :: "string \<Rightarrow> string \<Rightarrow> Node \<Rightarrow> Node" where
  "finishOutboundTransfer peer fileID n =
     (if peer = [] \<or> fileID = [] \<or> active_of peer n \<noteq> fileID then n
      else n\<lparr>activeOutboundTransfer := AList.delete peer (activeOutboundTransfer n)\<rparr>)"

definition is_over :: "outboundFileTransfer \<Rightarrow> bool" where
  "is_over t \<longleftrightarrow> ot_Done t \<or> ot_Rejected t \<or> ot_Canceled t"

text \<open>Mark a transfer as running and leave its goroutine to start.\<close>

definition beginOutboundFileTransfer :: "outboundFileTransfer \<Rightarrow> nat \<Rightarrow> Node \<Rightarrow> Node" where
  "beginOutboundFileTransfer t i n =
     (if ot_Running t \<or> is_over t then n
      else
        let n1 = setOutboundTransfer (t\<lparr>ot_Running := True, ot_run_canceled := False\<rparr>) n
        in n1\<lparr>nd_runs := nd_runs n1 @ [\<lparr>rn_FileID = ot_FileID t, rn_conn = i, rn_phase = Starting\<rparr>]\<rparr>)"

text \<open>The loop of \<open>startNextQueuedTransfer\<close>: every turn takes one identifier off the queue.\<close>

fun start_next :: "string \<Rightarrow> nat \<Rightarrow> string list \<Rightarrow> Node \<Rightarrow> Node" where
  "start_next peer i [] n = (if active_of peer n \<noteq> [] then n else put_queue peer [] n)"
| "start_next peer i (nextID # remaining) n =
     (if active_of peer n \<noteq> [] then n
      else
        let n1 = put_queue peer remaining n;
            n2 = n1\<lparr>activeOutboundTransfer := AList.update peer nextID (activeOutboundTransfer n1)\<rparr>
        in case getOutboundTransfer nextID n2 of
             None \<Rightarrow> start_next peer i remaining (finishOutboundTransfer peer nextID n2)
           | Some t \<Rightarrow>
               if is_over t then start_next peer i remaining (finishOutboundTransfer peer nextID n2)
               else beginOutboundFileTransfer t i n2)"

definition startNextQueuedTransfer :: "string \<Rightarrow> Node \<Rightarrow> Node" where
  "startNextQueuedTransfer peer n =
     (if TrimSpace peer = [] then n
      else case live_conn peer n of
        None \<Rightarrow> n
      | Some i \<Rightarrow> start_next peer i (queue_of peer n) n)"

definition startOutboundFileTransferDrain :: "string \<Rightarrow> Node \<Rightarrow> Node" where
  "startOutboundFileTransferDrain peer n = (if peer = [] then n else startNextQueuedTransfer peer n)"

section \<open>Event channels\<close>

definition registerOutboundFileEventChannel :: "string \<Rightarrow> Node \<Rightarrow> Node" where
  "registerOutboundFileEventChannel fileID n =
     (if map_of (outboundFileEventChans n) fileID \<noteq> None then n
      else n\<lparr>outboundFileEventChans := AList.update fileID [] (outboundFileEventChans n)\<rparr>)"

definition unregisterOutboundFileEventChannel :: "string \<Rightarrow> Node \<Rightarrow> Node" where
  "unregisterOutboundFileEventChannel fileID n =
     n\<lparr>outboundFileEventChans := AList.delete fileID (outboundFileEventChans n)\<rparr>"

definition registerOutboundFolderEventChannel :: "string \<Rightarrow> Node \<Rightarrow> Node" where
  "registerOutboundFolderEventChannel folderID n =
     (if map_of (outboundFolderEventChans n) folderID \<noteq> None then n
      else n\<lparr>outboundFolderEventChans := AList.update folderID [] (outboundFolderEventChans n)\<rparr>)"

definition unregisterOutboundFolderEventChannel :: "string \<Rightarrow> Node \<Rightarrow> Node" where
  "unregisterOutboundFolderEventChannel folderID n =
     n\<lparr>outboundFolderEventChans := AList.delete folderID (outboundFolderEventChans n)\<rparr>"

section \<open>The goroutine of a transfer\<close>

definition get_run :: "string \<Rightarrow> Node \<Rightarrow> Run option" where
  "get_run fileID n = find (\<lambda>r. rn_FileID r = fileID) (nd_runs n)"

definition set_phase :: "string \<Rightarrow> run_phase \<Rightarrow> Node \<Rightarrow> Node" where
  "set_phase fileID ph n =
     n\<lparr>nd_runs := map (\<lambda>r. if rn_FileID r = fileID then r\<lparr>rn_phase := ph\<rparr> else r) (nd_runs n)\<rparr>"

definition drop_run :: "string \<Rightarrow> Node \<Rightarrow> Node" where
  "drop_run fileID n = n\<lparr>nd_runs := filter (\<lambda>r. rn_FileID r \<noteq> fileID) (nd_runs n)\<rparr>"

definition send_progress :: "outboundFileTransfer \<Rightarrow> int \<Rightarrow> int \<Rightarrow> int \<Rightarrow> string \<Rightarrow> bool \<Rightarrow> FileProgress" where
  "send_progress t bytes chunk chunks status completed =
     progress_of (ot_FileID t) (ot_PeerDeviceID t) ''send'' bytes (ot_Filesize t) chunk chunks status completed"

text \<open>What follows the return of \<open>runOutboundFileTransfer\<close>.\<close>

definition run_end :: "string \<Rightarrow> go_error option \<Rightarrow> Node \<Rightarrow> Node" where
  "run_end fileID err n0 =
     (let n = drop_run fileID (unregisterOutboundFileEventChannel fileID n0) in
      case getOutboundTransfer fileID n of
        None \<Rightarrow> n
      | Some t \<Rightarrow>
          let n1 = setOutboundTransfer (t\<lparr>ot_Running := False\<rparr>) n;
              n2 = (case err of
                      Some e \<Rightarrow> if errors_Is e ContextCanceled then n1 else report (Wrap ''file transfer'' e) n1
                    | None \<Rightarrow> n1);
              n3 = (if \<not> is_over t then
                      enqueueOutboundTransfer (ot_PeerDeviceID t) fileID True (set_status fileID ''pending'' n2)
                    else if ot_Canceled t then
                      emitFileProgress (send_progress t (ot_BytesSent t) 0 (ot_TotalChunks t) ''canceled'' True)
                        (removeTransferCheckpoint fileID ''send'' (set_status fileID ''canceled'' n2))
                    else n2)
          in startNextQueuedTransfer (ot_PeerDeviceID t)
               (finishOutboundTransfer (ot_PeerDeviceID t) fileID n3))"

text \<open>A rejection, of the request or of a chunk; the message says whether it is a cancellation.\<close>

definition run_rejected :: "string \<Rightarrow> string \<Rightarrow> bool \<Rightarrow> Node \<Rightarrow> Node" where
  "run_rejected fileID message started n =
     (case getOutboundTransfer fileID n of
        None \<Rightarrow> n
      | Some t \<Rightarrow>
          let canceled = isCancellationResponseMessage message;
              status = (if canceled then ''canceled'' else ''rejected'');
              n1 = setOutboundTransfer (t\<lparr>ot_Rejected := True, ot_Canceled := (canceled \<or> ot_Canceled t)\<rparr>) n;
              n2 = removeTransferCheckpoint fileID ''send'' (set_status fileID status n1)
          in run_end fileID None
               (emitFileProgress (send_progress t (if started then ot_BytesSent t else 0) 0 0 status True) n2))"

text \<open>Send a chunk once more, if any attempt is left.\<close>

definition send_attempt :: "FileEnv \<Rightarrow> string \<Rightarrow> int \<Rightarrow> nat \<Rightarrow> string \<Rightarrow> int \<Rightarrow> Node \<Rightarrow> Node" where
  "send_attempt fe fileID k attempt bytes sent n =
     (case (get_run fileID n, getOutboundTransfer fileID n) of
        (Some r, Some t) \<Rightarrow>
          if MaxChunkRetries (nd_options n) \<le> attempt then
            run_end fileID (Some (Err ''chunk delivery failed after retries'')) n
          else
            (case Encrypt (en_P (fe_env fe)) (en_content_iv (fe_env fe))
                    (sessionKey (mg_heap (nd_mgr n) (rn_conn r))) bytes of
               Inl e \<Rightarrow> run_end fileID (Some e) n
             | Inr (ciphertext, iv) \<Rightarrow>
                 (case send_to fe (rn_conn r) (PFileData
                         \<lparr>fd_FileID = fileID, fd_ChunkIndex = k, fd_TotalChunks = ot_TotalChunks t,
                          fd_ChunkSize = int (length bytes), fd_EncryptedData = EncodeToString ciphertext,
                          fd_IV = EncodeToString iv, fd_Timestamp = fe_ms fe\<rparr>) n of
                    (Some e, n1) \<Rightarrow> run_end fileID (Some e) n1
                  | (None, n1) \<Rightarrow> set_phase fileID (AwaitChunk k attempt bytes sent) n1))
      | _ \<Rightarrow> n)"

text \<open>The context of a run is cancelled by \<open>CancelTransfer\<close> or with the manager's.\<close>

definition run_canceled :: "outboundFileTransfer \<Rightarrow> Node \<Rightarrow> bool" where
  "run_canceled t n \<longleftrightarrow> ot_run_canceled t \<or> mg_stopped (nd_mgr n)"

text \<open>The head of the loop over the chunks, at chunk \<open>k\<close>; after the last one the end is announced.\<close>

definition next_chunk :: "FileEnv \<Rightarrow> string \<Rightarrow> int \<Rightarrow> int \<Rightarrow> Node \<Rightarrow> Node" where
  "next_chunk fe fileID k sent n =
     (case (get_run fileID n, getOutboundTransfer fileID n) of
        (Some r, Some t) \<Rightarrow>
          if ot_TotalChunks t \<le> k then
            (case sendSignedFileComplete fe (rn_conn r) (file_complete fe fileID ''complete'' []) n of
               (Some e, n1) \<Rightarrow> run_end fileID (Some e) n1
             | (None, n1) \<Rightarrow> set_phase fileID AwaitComplete n1)
          else if run_canceled t n then run_end fileID (Some ContextCanceled) n
          else
            (case os_ReadFile fe (ot_SourcePath t) (nd_disk n) of
               Inl e \<Rightarrow> run_end fileID (Some (Wrap ''read file chunk'' e)) n
             | Inr content \<Rightarrow>
                 (case readFileChunk content (wrap_int64 (k * ot_ChunkSize t)) (ot_ChunkSize t) of
                    Inl e \<Rightarrow> run_end fileID (Some e) n
                  | Inr bytes \<Rightarrow> send_attempt fe fileID k 0 bytes sent n))
      | _ \<Rightarrow> n)"

text \<open>Where sending starts: where the receiver wants it, but not before what is already sent.\<close>

definition resume_point :: "outboundFileTransfer \<Rightarrow> int \<Rightarrow> int \<times> int" where
  "resume_point t resumeFrom =
     (let start0 = (if resumeFrom < 0 then 0 else resumeFrom);
          start1 = (if start0 > ot_TotalChunks t then ot_TotalChunks t else start0);
          start = (if ot_NextChunk t > start1 then ot_NextChunk t else start1);
          least0 = wrap_int64 (start * ot_ChunkSize t);
          least = (if least0 > ot_Filesize t then ot_Filesize t else least0)
      in (start, if ot_BytesSent t < least then least else ot_BytesSent t))"

definition run_accepted :: "FileEnv \<Rightarrow> string \<Rightarrow> int \<Rightarrow> Node \<Rightarrow> Node" where
  "run_accepted fe fileID resumeFrom n =
     (let n1 = (case statement (UpdateTransferStatus fileID ''accepted'') n of
                  (None, n1) \<Rightarrow> n1
                | (Some e, n1) \<Rightarrow> if errors_Is e ErrNotFound then n1 else report e n1)
      in case getOutboundTransfer fileID n1 of
           None \<Rightarrow> n1
         | Some t \<Rightarrow>
             let (start, sent) = resume_point t resumeFrom;
                 n2 = setOutboundTransfer (t\<lparr>ot_NextChunk := start, ot_BytesSent := sent\<rparr>) n1;
                 n3 = maybePersistOutboundCheckpoint fe fileID True n2
             in case os_ReadFile fe (ot_SourcePath t) (nd_disk n3) of
                  Inl e \<Rightarrow> run_end fileID (Some (Wrap ''open source file'' e)) n3
                | Inr _ \<Rightarrow> next_chunk fe fileID start sent n3)"

definition chunk_delivered :: "FileEnv \<Rightarrow> string \<Rightarrow> int \<Rightarrow> string \<Rightarrow> int \<Rightarrow> Node \<Rightarrow> Node" where
  "chunk_delivered fe fileID k bytes sent n =
     (case getOutboundTransfer fileID n of
        None \<Rightarrow> n
      | Some t \<Rightarrow>
          let sent1 = sent + int (length bytes);
              t1 = t\<lparr>ot_NextChunk := k + 1, ot_BytesSent := sent1\<rparr>;
              n1 = maybePersistOutboundCheckpoint fe fileID False (setOutboundTransfer t1 n);
              n2 = emitFileProgress (send_progress t1 sent1 k (ot_TotalChunks t) ''accepted'' False) n1
          in next_chunk fe fileID (k + 1) sent1 n2)"

definition run_completed :: "FileEnv \<Rightarrow> string \<Rightarrow> FileComplete \<Rightarrow> Node \<Rightarrow> Node" where
  "run_completed fe fileID complete n =
     (case getOutboundTransfer fileID n of
        None \<Rightarrow> n
      | Some t \<Rightarrow>
          if fc_Status complete \<noteq> ''complete'' then
            let canceled = isCancellationComplete complete;
                status = (if canceled then ''canceled'' else ''failed'');
                n1 = setOutboundTransfer (t\<lparr>ot_Done := True, ot_Canceled := (canceled \<or> ot_Canceled t)\<rparr>) n;
                n2 = removeTransferCheckpoint fileID ''send'' (set_status fileID status n1)
            in run_end fileID None
                 (emitFileProgress (send_progress t (ot_BytesSent t) 0 (ot_TotalChunks t) status True) n2)
          else
            let n1 = setOutboundTransfer (t\<lparr>ot_Done := True, ot_Running := False\<rparr>) n;
                n2 = stamp_received fe fileID (set_status fileID ''complete'' n1);
                n3 = removeTransferCheckpoint fileID ''send'' n2
            in run_end fileID None
                 (emitFileProgress
                   (send_progress t (ot_Filesize t) (ot_TotalChunks t - 1) (ot_TotalChunks t) ''complete'' True) n3))"

definition file_request :: "FileEnv \<Rightarrow> outboundFileTransfer \<Rightarrow> 64 word \<Rightarrow> Node \<Rightarrow> FileRequest" where
  "file_request fe t sequence n =
     \<lparr>fq_FileID = ot_FileID t, fq_FolderID = ot_FolderID t, fq_RelativePath = ot_RelativePath t,
      fq_FromDeviceID = nd_id n, fq_ToDeviceID = ot_PeerDeviceID t, fq_Filename = ot_Filename t,
      fq_Filesize = ot_Filesize t, fq_Filetype = ot_Filetype t, fq_Checksum = ot_Checksum t,
      fq_Sequence = sequence, fq_Timestamp = fe_ms fe, fq_Signature = []\<rparr>"

definition next_sequence :: "nat \<Rightarrow> Node \<Rightarrow> 64 word \<times> Node" where
  "next_sequence i = run_mgr (\<lambda>m. let (s, c) = NextSendSequence (mg_heap m i) in (s, set_conn i c m))"

definition run_start :: "FileEnv \<Rightarrow> string \<Rightarrow> Run \<Rightarrow> Node \<Rightarrow> Node" where
  "run_start fe fileID r n0 =
     (let n = registerOutboundFileEventChannel fileID n0 in
      case getOutboundTransfer fileID n of
        None \<Rightarrow> n
      | Some t \<Rightarrow>
          let (sequence, n1) = next_sequence (rn_conn r) n in
          case signFileRequest (fe_env fe) (file_request fe t sequence n1) (nd_mgr n1) of
            Inl e \<Rightarrow> run_end fileID (Some e) n1
          | Inr request \<Rightarrow>
              (case send_to fe (rn_conn r) (PFileRequest request) n1 of
                 (Some e, n2) \<Rightarrow> run_end fileID (Some e) n2
               | (None, n2) \<Rightarrow> set_phase fileID AwaitAccept n2))"

text \<open>The next event of the channel, and what the waiting goroutine makes of it; events that do not match
  are dropped.\<close>

definition take_event :: "string \<Rightarrow> Node \<Rightarrow> fileTransferEvent option \<times> Node" where
  "take_event fileID n =
     (case map_of (outboundFileEventChans n) fileID of
        Some (ev # evs) \<Rightarrow>
          (Some ev, n\<lparr>outboundFileEventChans := AList.update fileID evs (outboundFileEventChans n)\<rparr>)
      | _ \<Rightarrow> (None, n))"

definition run_event :: "FileEnv \<Rightarrow> string \<Rightarrow> run_phase \<Rightarrow> fileTransferEvent \<Rightarrow> Node \<Rightarrow> Node" where
  "run_event fe fileID ph ev n =
     (case (ph, ev) of
        (AwaitAccept, ev_Response response) \<Rightarrow>
          if fs_Status response = ''accepted'' then run_accepted fe fileID (fs_ResumeFromChunk response) n
          else if fs_Status response = ''rejected'' then run_rejected fileID (fs_Message response) False n
          else n
      | (AwaitChunk k attempt bytes sent, ev_Response response) \<Rightarrow>
          if fs_Status response = ''rejected'' then run_rejected fileID (fs_Message response) True n
          else if fs_ChunkIndex response = k \<and> fs_Status response = ''chunk_ack'' then
            chunk_delivered fe fileID k bytes sent n
          else if fs_ChunkIndex response = k \<and> fs_Status response = ''chunk_nack'' then
            send_attempt fe fileID k (attempt + 1) bytes sent n
          else n
      | (AwaitComplete, ev_Complete complete) \<Rightarrow>
          if fc_Status complete = ''complete'' \<or> fc_Status complete = ''failed''
          then run_completed fe fileID complete n else n
      | _ \<Rightarrow> n)"

datatype wake = Go | Canceled | ConnClosed | Timeout | Channel

definition run_step :: "FileEnv \<Rightarrow> string \<Rightarrow> wake \<Rightarrow> Node \<Rightarrow> Node" where
  "run_step fe fileID w n =
     (case (get_run fileID n, getOutboundTransfer fileID n) of
        (Some r, Some t) \<Rightarrow>
          (case (w, rn_phase r) of
             (Go, Starting) \<Rightarrow> run_start fe fileID r n
           | (_, Starting) \<Rightarrow> n
           | (Canceled, _) \<Rightarrow> if run_canceled t n then run_end fileID (Some ContextCanceled) n else n
           | (ConnClosed, AwaitAccept) \<Rightarrow>
               let c = mg_heap (nd_mgr n) (rn_conn r)
               in if cn_closed c then
                    run_end fileID (Some (case closeErr c of None \<Rightarrow> EOF | Some e \<Rightarrow> e)) n
                  else n
           | (Timeout, AwaitChunk k attempt bytes sent) \<Rightarrow> send_attempt fe fileID k (attempt + 1) bytes sent n
           | (Timeout, AwaitComplete) \<Rightarrow> run_end fileID (Some DeadlineExceeded) n
           | (Channel, ph) \<Rightarrow>
               (case take_event fileID n of
                  (None, n1) \<Rightarrow> n1
                | (Some ev, n1) \<Rightarrow> run_event fe fileID ph ev n1)
           | _ \<Rightarrow> n)
      | _ \<Rightarrow> n)"

section \<open>Queueing a file\<close>

record outboundSendOptions =
  so_FileID :: string
  so_MessageID :: string
  so_ChecksumOverride :: string
  so_FolderID :: string
  so_RelativePath :: string

definition no_options :: outboundSendOptions where
  "no_options = \<lparr>so_FileID = [], so_MessageID = [], so_ChecksumOverride = [], so_FolderID = [], so_RelativePath = []\<rparr>"

definition or_new :: "string \<Rightarrow> string \<Rightarrow> string" where
  "or_new given fresh = (if given = [] then fresh else given)"

definition new_outbound ::
    "FileEnv \<Rightarrow> string \<Rightarrow> string \<Rightarrow> outboundSendOptions \<Rightarrow> string \<Rightarrow> int \<Rightarrow> string \<Rightarrow> Node \<Rightarrow> outboundFileTransfer" where
  "new_outbound fe peer sourcePath opts relativePath filesize checksum n =
     (let filename = Base (if relativePath \<noteq> [] then relativePath else sourcePath);
          chunkSize = FileChunkSize (nd_options n)
      in \<lparr>ot_FileID = or_new (so_FileID opts) (uuid_NewString fe 0),
          ot_MessageID = or_new (so_MessageID opts) (uuid_NewString fe 1), ot_PeerDeviceID = peer,
          ot_FolderID = TrimSpace (so_FolderID opts), ot_RelativePath = relativePath, ot_SourcePath = sourcePath,
          ot_Filename = filename, ot_Filesize = filesize,
          ot_Filetype = mime_TypeByExtension fe (ToLower (Ext filename)), ot_Checksum = checksum,
          ot_ChunkSize = chunkSize, ot_TotalChunks = chunkCount filesize chunkSize, ot_NextChunk = 0,
          ot_BytesSent = 0, ot_Running = False, ot_Done = False, ot_Rejected = False, ot_Canceled = False,
          ot_run_canceled = False, ot_checkpointChunk = 0, ot_checkpointBytes = 0\<rparr>)"

definition outbound_meta :: "outboundFileTransfer \<Rightarrow> Node \<Rightarrow> FileMetadata" where
  "outbound_meta t n =
     \<lparr>f_FileID = ot_FileID t, f_MessageID = [], f_FolderID = ot_FolderID t, f_RelativePath = ot_RelativePath t,
      f_FromDeviceID = nd_id n, f_ToDeviceID = ot_PeerDeviceID t, f_Filename = ot_Filename t,
      f_Filesize = ot_Filesize t, f_Filetype = ot_Filetype t, f_StoredPath = ot_SourcePath t,
      f_Checksum = ot_Checksum t, f_TimestampReceived = None, f_TransferStatus = ''pending''\<rparr>"

definition queue_outbound :: "outboundFileTransfer \<Rightarrow> Node \<Rightarrow> Node" where
  "queue_outbound t n =
     startNextQueuedTransfer (ot_PeerDeviceID t)
       (enqueueOutboundTransfer (ot_PeerDeviceID t) (ot_FileID t) False (setOutboundTransfer t n))"

text \<open>The relative path of a file of a folder, sanitised.\<close>

definition send_relative_path :: "outboundSendOptions \<Rightarrow> string res" where
  "send_relative_path opts =
     (let trimmed = TrimSpace (so_RelativePath opts) in
      if trimmed = [] then
        (if TrimSpace (so_FolderID opts) \<noteq> [] then Inl (Err ''relative path is required for folder file transfer'')
         else Inr [])
      else sanitizeTransferRelativePath trimmed)"

definition sendFileWithOptions ::
    "FileEnv \<Rightarrow> string \<Rightarrow> string \<Rightarrow> outboundSendOptions \<Rightarrow> Node \<Rightarrow> string res \<times> Node" where
  "sendFileWithOptions fe peer sourcePath opts n =
     (if peer = [] then (Inl (Err ''peer device ID is required''), n)
      else if TrimSpace sourcePath = [] then (Inl (Err ''source path is required''), n)
      else case os_Stat fe sourcePath (nd_disk n) of
        Inl e \<Rightarrow> (Inl (Wrap ''stat source file'' e), n)
      | Inr (True, _) \<Rightarrow> (Inl (Err ''source path must be a file''), n)
      | Inr (False, filesize) \<Rightarrow>
          (case fileChecksumHex fe sourcePath n of
             Inl e \<Rightarrow> (Inl e, n)
           | Inr computed \<Rightarrow>
               (case send_relative_path opts of
                  Inl e \<Rightarrow> (Inl e, n)
                | Inr relativePath \<Rightarrow>
                    let checksum = (if so_ChecksumOverride opts \<noteq> [] then so_ChecksumOverride opts else computed);
                        t = new_outbound fe peer sourcePath opts relativePath filesize checksum n
                    in case upsertFileMetadata (outbound_meta t n) n of
                         (Some e, n1) \<Rightarrow> (Inl e, n1)
                       | (None, n1) \<Rightarrow> (Inr (ot_FileID t), queue_outbound t n1))))"

definition SendFile :: "FileEnv \<Rightarrow> string \<Rightarrow> string \<Rightarrow> Node \<Rightarrow> string res \<times> Node" where
  "SendFile fe peer sourcePath n = sendFileWithOptions fe peer sourcePath no_options n"

definition sendFileWithChecksumOverride :: "FileEnv \<Rightarrow> string \<Rightarrow> string \<Rightarrow> string \<Rightarrow> Node \<Rightarrow> string res \<times> Node" where
  "sendFileWithChecksumOverride fe peer sourcePath checksum n =
     sendFileWithOptions fe peer sourcePath (no_options\<lparr>so_ChecksumOverride := checksum\<rparr>) n"

text \<open>The loop of \<open>SendFiles\<close>, with what each call draws from outside; the identifiers queued so far are
  returned with an error.\<close>

fun send_files :: "string \<Rightarrow> (FileEnv \<times> string) list \<Rightarrow> string list \<Rightarrow> Node \<Rightarrow> (go_error option \<times> string list) \<times> Node" where
  "send_files peer [] queued n = ((None, queued), n)"
| "send_files peer ((fe, path) # rest) queued n =
     (let sourcePath = TrimSpace path in
      if sourcePath = [] then send_files peer rest queued n
      else case SendFile fe peer sourcePath n of
             (Inl e, n1) \<Rightarrow> ((Some e, queued), n1)
           | (Inr fileID, n1) \<Rightarrow> send_files peer rest (queued @ [fileID]) n1)"

definition SendFiles :: "string \<Rightarrow> (FileEnv \<times> string) list \<Rightarrow> Node \<Rightarrow> (go_error option \<times> string list) \<times> Node" where
  "SendFiles peer paths n =
     (if peer = [] then ((Some (Err ''peer device ID is required''), []), n)
      else case send_files peer paths [] n of
        ((Some e, queued), n1) \<Rightarrow> ((Some e, queued), n1)
      | ((None, queued), n1) \<Rightarrow>
          (if queued = [] then (Some (Err ''at least one source path is required''), []) else (None, queued), n1))"

section \<open>Cancelling and retrying\<close>

definition cancel_outbound :: "FileEnv \<Rightarrow> string \<Rightarrow> outboundFileTransfer \<Rightarrow> Node \<Rightarrow> Node" where
  "cancel_outbound fe fileID t n =
     (if is_over t then n
      else
        let t1 = t\<lparr>ot_Canceled := True, ot_Done := (\<not> ot_Running t)\<rparr>;
            n1 = snd (removeQueuedOutboundTransfer (ot_PeerDeviceID t) fileID (setOutboundTransfer t1 n))
        in if ot_Running t then
             let n2 = (case getConnection (ot_PeerDeviceID t) (nd_mgr n1) of
                         None \<Rightarrow> n1
                       | Some i \<Rightarrow> snd (sendSignedFileComplete fe i
                                    (file_complete fe fileID ''failed'' fileCancelMessageBySender) n1))
             in setOutboundTransfer (t1\<lparr>ot_run_canceled := True\<rparr>) n2
           else
             emitFileProgress (send_progress t (ot_BytesSent t) 0 (ot_TotalChunks t) ''canceled'' True)
               (startNextQueuedTransfer (ot_PeerDeviceID t)
                 (finishOutboundTransfer (ot_PeerDeviceID t) fileID
                   (removeTransferCheckpoint fileID ''send'' (set_status fileID ''canceled'' n1)))))"

definition cancel_inbound :: "FileEnv \<Rightarrow> string \<Rightarrow> inboundFileTransfer \<Rightarrow> Node \<Rightarrow> Node" where
  "cancel_inbound fe fileID t n =
     (let n1 = drop_inbound fileID n;
          n2 = snd (run_disk (os_Remove fe (it_TempPath t)) n1);
          n3 = set_status fileID ''canceled'' n2;
          n4 = (case getConnection (it_FromDeviceID t) (nd_mgr n3) of
                  None \<Rightarrow> n3
                | Some i \<Rightarrow> snd (sendSignedFileComplete fe i
                             (file_complete fe fileID ''failed'' fileCancelMessageByReceiver) n3))
      in emitFileProgress
           (progress_of fileID (it_FromDeviceID t) ''receive'' (it_BytesReceived t) (it_Filesize t) 0
              (it_TotalChunks t) ''canceled'' True) n4)"

definition CancelTransfer :: "FileEnv \<Rightarrow> string \<Rightarrow> Node \<Rightarrow> go_error option \<times> Node" where
  "CancelTransfer fe fileID0 n =
     (let fileID = TrimSpace fileID0 in
      if fileID = [] then (Some (Err ''file_id is required''), n)
      else case getOutboundTransfer fileID n of
        Some t \<Rightarrow> (None, cancel_outbound fe fileID t n)
      | None \<Rightarrow>
          (case getInboundTransfer fileID n of
             Some t \<Rightarrow> (None, cancel_inbound fe fileID t n)
           | None \<Rightarrow>
               (case GetFileByID fileID (nd_store n) of
                  Inl e \<Rightarrow> (Some e, n)
                | Inr _ \<Rightarrow> statement (UpdateTransferStatus fileID ''canceled'') n)))"

text \<open>A transfer made again from its stored row.\<close>

definition outbound_of_meta :: "FileMetadata \<Rightarrow> string \<Rightarrow> int \<Rightarrow> int \<Rightarrow> int \<Rightarrow> outboundFileTransfer" where
  "outbound_of_meta meta sourcePath chunkSize nextChunk sent =
     \<lparr>ot_FileID = f_FileID meta, ot_MessageID = f_MessageID meta, ot_PeerDeviceID = f_ToDeviceID meta,
      ot_FolderID = f_FolderID meta, ot_RelativePath = f_RelativePath meta, ot_SourcePath = sourcePath,
      ot_Filename = f_Filename meta, ot_Filesize = f_Filesize meta, ot_Filetype = f_Filetype meta,
      ot_Checksum = f_Checksum meta, ot_ChunkSize = chunkSize,
      ot_TotalChunks = chunkCount (f_Filesize meta) chunkSize, ot_NextChunk = nextChunk, ot_BytesSent = sent,
      ot_Running = False, ot_Done = False, ot_Rejected = False, ot_Canceled = False, ot_run_canceled = False,
      ot_checkpointChunk = nextChunk, ot_checkpointBytes = sent\<rparr>"

definition restart_outbound :: "outboundFileTransfer \<Rightarrow> outboundFileTransfer" where
  "restart_outbound t = t\<lparr>ot_Done := False, ot_Rejected := False, ot_Canceled := False, ot_NextChunk := 0,
     ot_BytesSent := 0, ot_checkpointChunk := 0, ot_checkpointBytes := 0, ot_run_canceled := False\<rparr>"

definition RetryTransfer :: "FileEnv \<Rightarrow> string \<Rightarrow> Node \<Rightarrow> go_error option \<times> Node" where
  "RetryTransfer fe fileID0 n =
     (let fileID = TrimSpace fileID0 in
      if fileID = [] then (Some (Err ''file_id is required''), n)
      else case GetFileByID fileID (nd_store n) of
        Inl e \<Rightarrow> (Some e, n)
      | Inr meta \<Rightarrow>
          if f_FromDeviceID meta \<noteq> nd_id n then (Some (Err ''only outbound transfers can be retried''), n)
          else
            let sourcePath = TrimSpace (f_StoredPath meta) in
            if sourcePath = [] then (Some (Err ''missing source path for retry''), n)
            else case os_Stat fe sourcePath (nd_disk n) of
              Inl e \<Rightarrow> (Some (Wrap ''stat retry source file'' e), n)
            | Inr (True, _) \<Rightarrow> (Some (Err ''retry source must be a file''), n)
            | Inr (False, _) \<Rightarrow>
                let t = (case getOutboundTransfer fileID n of
                           Some t \<Rightarrow> t
                         | None \<Rightarrow> outbound_of_meta meta sourcePath (FileChunkSize (nd_options n)) 0 0);
                    n1 = setOutboundTransfer t n
                in if ot_Running t then (Some (Err ''transfer is currently running''), n1)
                   else
                     let n2 = setOutboundTransfer (restart_outbound t) n1;
                         n3 = set_status fileID ''pending'' (removeTransferCheckpoint fileID ''send'' n2)
                     in (None, startNextQueuedTransfer (ot_PeerDeviceID t)
                                 (enqueueOutboundTransfer (ot_PeerDeviceID t) fileID False n3)))"

section \<open>Restoring transfers at the start\<close>

definition restoreOutboundTransfer :: "FileEnv \<Rightarrow> TransferCheckpoint \<Rightarrow> Node \<Rightarrow> go_error option \<times> Node" where
  "restoreOutboundTransfer fe cp n =
     (case GetFileByID (c_FileID cp) (nd_store n) of
        Inl e \<Rightarrow>
          if errors_Is e ErrNotFound then (None, removeTransferCheckpoint (c_FileID cp) ''send'' n)
          else (Some (Wrap ''load outbound checkpoint metadata'' e), n)
      | Inr meta \<Rightarrow>
          let sourcePath = TrimSpace (f_StoredPath meta) in
          if isTerminalTransferStatus (f_TransferStatus meta) \<or> TrimSpace (f_ToDeviceID meta) = [] \<or> sourcePath = []
          then (None, removeTransferCheckpoint (c_FileID cp) ''send'' n)
          else case os_Stat fe sourcePath (nd_disk n) of
            Inl e \<Rightarrow>
              (Some (Wrap ''resume outbound transfer: source missing'' e),
               removeTransferCheckpoint (c_FileID cp) ''send'' (set_status (c_FileID cp) ''failed'' n))
          | Inr _ \<Rightarrow>
              let chunkSize = FileChunkSize (nd_options n);
                  nextChunk = clamp (c_NextChunk cp) (chunkCount (f_Filesize meta) chunkSize);
                  t = outbound_of_meta meta sourcePath chunkSize nextChunk
                        (clamp (c_BytesTransferred cp) (f_Filesize meta));
                  n1 = (if getOutboundTransfer (ot_FileID t) n = None then setOutboundTransfer t n else n)
              in (None, enqueueOutboundTransfer (ot_PeerDeviceID t) (ot_FileID t) False n1))"

definition restore_checkpoint :: "FileEnv \<Rightarrow> TransferCheckpoint \<Rightarrow> Node \<Rightarrow> Node" where
  "restore_checkpoint fe cp n =
     (if c_Direction cp = ''send'' then report_some (restoreOutboundTransfer fe cp n)
      else if c_Direction cp = ''receive'' then report_some (restoreInboundTransfer fe cp n)
      else n)"

definition loadTransferCheckpoints :: "FileEnv \<Rightarrow> Node \<Rightarrow> go_error option \<times> Node" where
  "loadTransferCheckpoints fe n =
     (case ListTransferCheckpoints [] (nd_store n) of
        Inl e \<Rightarrow> (Some (Wrap ''list transfer checkpoints'' e), n)
      | Inr cps \<Rightarrow> (None, foldl (\<lambda>m cp. restore_checkpoint fe cp m) n cps))"

section \<open>Folders\<close>

text \<open>What \<open>filepath.WalkDir\<close> visits below the root, in its order: the path relative to the root, whether it
  is a directory or a symbolic link, and the size \<open>entry.Info\<close> gives.\<close>

record WalkEntry =
  we_Relative :: string
  we_IsDir :: bool
  we_IsSymlink :: bool
  we_Info :: "int res"

record folderManifestFile =
  mf_RelativePath :: string
  mf_AbsolutePath :: string
  mf_Size :: int

fun walk_folder ::
    "string \<Rightarrow> WalkEntry list \<Rightarrow> (FolderManifestEntry list \<times> folderManifestFile list \<times> int) res" where
  "walk_folder rootPath [] = Inr ([], [], 0)"
| "walk_folder rootPath (w # ws) =
     (if we_IsSymlink w then walk_folder rootPath ws
      else case sanitizeTransferRelativePath (we_Relative w) of
        Inl e \<Rightarrow> Inl e
      | Inr path \<Rightarrow>
          if we_IsDir w then
            map_sum id (\<lambda>(ms, fs, bytes).
              (\<lparr>me_RelativePath = path, me_Size = 0, me_IsDirectory = True\<rparr> # ms, fs, bytes)) (walk_folder rootPath ws)
          else
            (case we_Info w of
               Inl e \<Rightarrow> Inl e
             | Inr bytes0 \<Rightarrow>
                 if bytes0 < 0 then Inl (Err ''invalid file size'')
                 else map_sum id (\<lambda>(ms, fs, bytes).
                   (\<lparr>me_RelativePath = path, me_Size = bytes0, me_IsDirectory = False\<rparr> # ms,
                    \<lparr>mf_RelativePath = path, mf_AbsolutePath = filepath_Join [rootPath, we_Relative w], mf_Size = bytes0\<rparr> # fs,
                    wrap_int64 (bytes0 + bytes))) (walk_folder rootPath ws)))"

definition manifest_order :: "FolderManifestEntry \<Rightarrow> bool \<times> string" where
  "manifest_order e = (\<not> me_IsDirectory e, me_RelativePath e)"

definition buildFolderManifest ::
    "string \<Rightarrow> WalkEntry list res \<Rightarrow> (FolderManifestEntry list \<times> folderManifestFile list \<times> int) res" where
  "buildFolderManifest rootPath0 walk =
     (let rootPath = TrimSpace rootPath0 in
      if rootPath = [] then Inl (Err ''folder path is required'')
      else case walk of
        Inl e \<Rightarrow> Inl (Wrap ''enumerate folder'' e)
      | Inr ws \<Rightarrow>
          (case walk_folder rootPath ws of
             Inl e \<Rightarrow> Inl (Wrap ''enumerate folder'' e)
           | Inr (ms, fs, bytes) \<Rightarrow> Inr (sort_key manifest_order ms, sort_key mf_RelativePath fs, bytes)))"

text \<open>\<open>SendFolder\<close> up to its wait for the answer, and what it does with what ends the wait: the next
  response of its channel, a timeout or a cancelled context.\<close>

record FolderSend =
  fo_FolderID :: string
  fo_peer :: string
  fo_files :: "folderManifestFile list"

definition SendFolder ::
    "FileEnv \<Rightarrow> string \<Rightarrow> string \<Rightarrow> WalkEntry list res \<Rightarrow> Node \<Rightarrow> FolderSend res \<times> Node" where
  "SendFolder fe peer folderPath walk n =
     (if peer = [] then (Inl (Err ''peer device ID is required''), n)
      else if TrimSpace folderPath = [] then (Inl (Err ''folder path is required''), n)
      else case os_Stat fe folderPath (nd_disk n) of
        Inl e \<Rightarrow> (Inl (Wrap ''stat folder'' e), n)
      | Inr (False, _) \<Rightarrow> (Inl (Err ''folder path must be a directory''), n)
      | Inr (True, _) \<Rightarrow>
          (case buildFolderManifest folderPath walk of
             Inl e \<Rightarrow> (Inl e, n)
           | Inr (manifest, files, bytes) \<Rightarrow>
               (case live_conn peer n of
                  None \<Rightarrow> (Inl (Err ''no active connection for peer''), n)
                | Some i \<Rightarrow>
                    let cleaned = sanitizeFolderName (Base folderPath);
                        folderName = (if cleaned = [] then ''folder'' else cleaned);
                        folderID = uuid_NewString fe 0
                    in (case statement (UpsertFolderTransfer (fe_ms fe)
                              \<lparr>d_FolderID = folderID, d_FromDeviceID = nd_id n, d_ToDeviceID = peer,
                               d_FolderName = folderName, d_RootPath = folderPath, d_TotalFiles = int (length files),
                               d_TotalSize = bytes, d_TransferStatus = ''pending'', d_Timestamp = fe_ms fe\<rparr>) n of
                          (Some e, n1) \<Rightarrow> (Inl e, n1)
                        | (None, n1) \<Rightarrow>
                            (case signFolderTransferRequest (fe_env fe)
                                \<lparr>dq_FolderID = folderID, dq_FolderName = folderName,
                                 dq_TotalFiles = int (length files), dq_TotalSize = bytes, dq_Manifest = manifest,
                                 dq_FromDeviceID = nd_id n, dq_ToDeviceID = peer, dq_Timestamp = fe_ms fe,
                                 dq_Signature = []\<rparr> (nd_mgr n1) of
                               Inl e \<Rightarrow> (Inl e, n1)
                             | Inr request \<Rightarrow>
                                 let n2 = registerOutboundFolderEventChannel folderID n1 in
                                 (case send_to fe i (PFolderRequest request) n2 of
                                    (Some e, n3) \<Rightarrow> (Inl e, unregisterOutboundFolderEventChannel folderID n3)
                                  | (None, n3) \<Rightarrow>
                                      (Inr \<lparr>fo_FolderID = folderID, fo_peer = peer, fo_files = files\<rparr>, n3)))))))"

fun send_folder_files ::
    "string \<Rightarrow> string \<Rightarrow> (FileEnv \<times> folderManifestFile) list \<Rightarrow> string list \<Rightarrow> Node
      \<Rightarrow> (go_error option \<times> string list) \<times> Node" where
  "send_folder_files peer folderID [] queued n = ((None, queued), n)"
| "send_folder_files peer folderID ((fe, f) # rest) queued n =
     (case sendFileWithOptions fe peer (mf_AbsolutePath f)
             (no_options\<lparr>so_FolderID := folderID, so_RelativePath := mf_RelativePath f\<rparr>) n of
        (Inl e, n1) \<Rightarrow> ((Some e, queued), n1)
      | (Inr fileID, n1) \<Rightarrow> send_folder_files peer folderID rest (queued @ [fileID]) n1)"

definition folder_status :: "string \<Rightarrow> string \<Rightarrow> Node \<Rightarrow> Node" where
  "folder_status folderID status n = snd (statement (UpdateFolderTransferStatus folderID status) n)"

definition folder_answered ::
    "(nat \<Rightarrow> FileEnv) \<Rightarrow> FolderSend \<Rightarrow> FolderTransferResponse \<Rightarrow> Node \<Rightarrow> (string \<times> string list) res \<times> Node" where
  "folder_answered fes fo response n =
     (let status = ToLower (ds_Status response); folderID = fo_FolderID fo in
      if status = ''rejected'' then (Inr (folderID, []), folder_status folderID ''rejected'' n)
      else if status = ''accepted'' then
        (case send_folder_files (fo_peer fo) folderID
               (map (\<lambda>k. (fes k, fo_files fo ! k)) [0..<length (fo_files fo)]) []
               (folder_status folderID ''accepted'' n) of
           ((Some e, queued), n1) \<Rightarrow> (Inl e, n1)
         | ((None, queued), n1) \<Rightarrow>
             (Inr (folderID, queued), if queued = [] then folder_status folderID ''complete'' n1 else n1))
      else (Inl (Err ''unexpected folder transfer status''), n))"

text \<open>\<open>waitForFolderResponse\<close> takes responses off the channel until one names the folder.\<close>

definition folder_wait ::
    "(nat \<Rightarrow> FileEnv) \<Rightarrow> FolderSend \<Rightarrow> wake \<Rightarrow> Node \<Rightarrow> (string \<times> string list) res option \<times> Node" where
  "folder_wait fes fo w n =
     (let folderID = fo_FolderID fo in
      case w of
        Canceled \<Rightarrow> (Some (Inl ContextCanceled), unregisterOutboundFolderEventChannel folderID n)
      | Timeout \<Rightarrow> (Some (Inl DeadlineExceeded), unregisterOutboundFolderEventChannel folderID n)
      | Channel \<Rightarrow>
          (case map_of (outboundFolderEventChans n) folderID of
             Some (response # rest) \<Rightarrow>
               let n1 = n\<lparr>outboundFolderEventChans := AList.update folderID rest (outboundFolderEventChans n)\<rparr>
               in if ds_FolderID response \<noteq> folderID then (None, n1)
                  else
                    let (r, n2) = folder_answered fes fo response n1
                    in (Some r, unregisterOutboundFolderEventChannel folderID n2)
           | _ \<Rightarrow> (None, n))
      | _ \<Rightarrow> (None, n))"

section \<open>Maintenance\<close>

definition hasPendingOutboundTransferForPeer :: "string \<Rightarrow> Node \<Rightarrow> bool" where
  "hasPendingOutboundTransferForPeer peer n \<longleftrightarrow>
     peer \<noteq> [] \<and> list_ex (\<lambda>(_, t). ot_PeerDeviceID t = peer \<and> \<not> is_over t) (outboundFileTransfers n)"

definition purgeInMemoryTransfer :: "string \<Rightarrow> Node \<Rightarrow> Node" where
  "purgeInMemoryTransfer fileID0 n =
     (let fileID = TrimSpace fileID0 in
      if fileID = [] then n
      else
        let peer = (case getOutboundTransfer fileID n of None \<Rightarrow> [] | Some t \<Rightarrow> ot_PeerDeviceID t);
            n1 = n\<lparr>outboundFileTransfers := AList.delete fileID (outboundFileTransfers n),
                   inboundFileTransfers := AList.delete fileID (inboundFileTransfers n),
                   outboundFileEventChans := AList.delete fileID (outboundFileEventChans n)\<rparr>
        in if peer = [] then n1
           else finishOutboundTransfer peer fileID (snd (removeQueuedOutboundTransfer peer fileID n1)))"

definition currentMessageRetentionDays :: "int option \<Rightarrow> int" where
  "currentMessageRetentionDays configured =
     (case configured of None \<Rightarrow> 0 | Some days \<Rightarrow> if days \<in> {0, 30, 90, 365} then days else 0)"

definition seenIDRetention :: int where "seenIDRetention = 14 * 24 * 3600 * 1000"

definition report_unless_missing :: "string \<Rightarrow> go_error \<Rightarrow> go_error option \<times> Node \<Rightarrow> Node" where
  "report_unless_missing what missing rn =
     (case rn of
        (None, n) \<Rightarrow> n
      | (Some e, n) \<Rightarrow> if errors_Is e missing then n else report (Wrap what e) n)"

text \<open>Remove one old completed file: its content, if it was received and the user wants that, its row, its
  checkpoints and what is in memory.\<close>

definition clean_completed :: "FileEnv \<Rightarrow> bool \<Rightarrow> FileMetadata \<Rightarrow> Node \<Rightarrow> Node" where
  "clean_completed fe deleteDownloaded f n =
     (let n1 = (if deleteDownloaded \<and> f_ToDeviceID f = nd_id n \<and> TrimSpace (f_StoredPath f) \<noteq> [] then
                  report_unless_missing ''maintenance: delete file'' ErrNotExist
                    (run_disk (os_Remove fe (f_StoredPath f)) n)
                else n);
          n2 = report_unless_missing ''maintenance: delete file metadata'' ErrNotFound
                 (statement (DeleteFileMetadata (f_FileID f)) n1)
      in purgeInMemoryTransfer (f_FileID f)
           (removeTransferCheckpoint (f_FileID f) ''receive'' (removeTransferCheckpoint (f_FileID f) ''send'' n2)))"

text \<open>\<open>days_ago\<close> is the Unix time in milliseconds that many calendar days before now.\<close>

definition clean_retained :: "FileEnv \<Rightarrow> (int \<Rightarrow> int) \<Rightarrow> int \<Rightarrow> bool \<Rightarrow> Node \<Rightarrow> Node" where
  "clean_retained fe days_ago days deleteDownloaded n =
     (let cutoff = days_ago days;
          (r, n1) = run_mgr (\<lambda>m. let (r, s) = DeleteMessagesOlderThan cutoff (mg_store m) in (r, m\<lparr>mg_store := s\<rparr>)) n;
          n2 = (case r of Inl e \<Rightarrow> report (Wrap ''maintenance: delete old messages'' e) n1 | Inr _ \<Rightarrow> n1)
      in case ListCompletedFilesOlderThan cutoff (nd_store n2) of
           Inl e \<Rightarrow> report (Wrap ''maintenance: list old completed files'' e) n2
         | Inr completed \<Rightarrow> foldl (\<lambda>k f. clean_completed fe deleteDownloaded f k) n2 completed)"

definition runMaintenanceCleanup ::
    "FileEnv \<Rightarrow> (int \<Rightarrow> int) \<Rightarrow> int option \<Rightarrow> bool \<Rightarrow> Node \<Rightarrow> Node" where
  "runMaintenanceCleanup fe days_ago configured deleteDownloaded n =
     (let days = currentMessageRetentionDays configured;
          n1 = (if days > 0 then clean_retained fe days_ago days deleteDownloaded n else n);
          (r, n2) = run_mgr (\<lambda>m. let (r, s) = PruneOldEntries (fe_ms fe - seenIDRetention) (mg_store m)
                                 in (r, m\<lparr>mg_store := s\<rparr>)) n1
      in case r of
           Inl e \<Rightarrow> report (Wrap ''maintenance: prune seen message ids'' e) n2
         | Inr _ \<Rightarrow> n2)"

end
