(* ===== verification/Frames.thy ===== *)
theory Frames
  imports FileSend
begin

text \<open>
  What the file transfers of \<open>src/network/file_transfer.go\<close> leave alone. A part of a node is a function of it; a
  locale states which primitive changes the part does not see, and every operation built from them keeps it.
  \<open>node_frame\<close> has the primitives both sides of a transfer use, \<open>sending_frame\<close> adds the tables of the sender,
  \<open>receiving_frame\<close> those of the receiver. The theories about transfers and about keys interpret them with the
  part each of their invariants is about.
\<close>

section \<open>The common primitives\<close>

locale node_frame =
  fixes part :: "Node \<Rightarrow> 'a"
  assumes fields: "part (n\<lparr>nd_disk := d\<rparr>) = part n" "part (n\<lparr>nd_progress := ps\<rparr>) = part n"
    "part (n\<lparr>inboundFolderTransfers := fs\<rparr>) = part n" "part (n\<lparr>pendingFileApprovals := pa\<rparr>) = part n"
    "part (n\<lparr>recentFileDecisions := rd\<rparr>) = part n" "part (n\<lparr>nd_approvals := as\<rparr>) = part n"
  and manager: "part (report e n) = part n" "part (snd (send_to fe i pk n)) = part n"
    "part (on_mgr (sendErrorMessage env i c msg rel) n) = part n" "part (snd (next_sequence i n)) = part n"
    "part (snd (validate_sequence i w n)) = part n" "part (snd (allow_file_request fe rq n)) = part n"
    "part (log_file_event fe ev p ds n) = part n"
  and statements: "part (snd (statement (UpsertTransferCheckpoint t cp) n)) = part n"
    "part (snd (statement (DeleteTransferCheckpoint f dir) n)) = part n"
    "part (snd (statement (UpdateTransferStatus f st) n)) = part n"
    "part (snd (statement (SaveFileMetadata meta) n)) = part n"
    "part (snd (statement (UpdateFileTimestampReceived t f t') n)) = part n"
    "part (snd (statement (EnsurePeerSettingsExist p) n)) = part n"
    "part (snd (statement (UpsertFolderTransfer t fo) n)) = part n"
    "part (snd (statement (UpdateFolderTransferStatus g st) n)) = part n"
begin

lemma part_snd: "f = (r, n1) \<Longrightarrow> part n1 = part (snd f)"
  by simp

lemma part_disk: "part (snd (run_disk df n)) = part n"
  by (simp add: run_disk_def fields split: prod.split)

lemma part_tables:
  "part (setInboundFolderTransfer fo n) = part n" "part (snd (beginPendingFileApproval f n)) = part n"
  "part (endPendingFileApproval f n) = part n" "part (snd (lookup_decision fe f n)) = part n"
  "part (rememberFileDecision fe f b ttl n) = part n" "part (clearRecentFileDecision f n) = part n"
  "part (emitFileProgress pr n) = part n" "part (set_status f st n) = part n" "part (folder_status g st n) = part n"
  by (simp_all add: setInboundFolderTransfer_def beginPendingFileApproval_def endPendingFileApproval_def fields
      lookup_decision_def rememberFileDecision_def clearRecentFileDecision_def emitFileProgress_def set_status_def
      folder_status_def statements Let_def split: option.split)

lemma part_report_some: "part (report_some rn) = part (snd rn)"
  by (simp add: report_some_def manager split: prod.split option.split)

lemma part_signed: "part (snd (sendSignedFileComplete fe i c n)) = part n"
  by (simp add: sendSignedFileComplete_def manager split: sum.split)

lemma part_respond: "part (respond fe b i rs n) = part n"
  by (simp add: respond_def Let_def manager part_report_some split: sum.split)

lemma part_answers:
  "part (sendChunkNack fe i f k msg n) = part n" "part (sendFolderTransferResponse fe i g st msg n) = part n"
  "part (reject_file fe b i f msg n) = part n" "part (accept_file fe i f k n) = part n"
  "part (answer_file fe i rq st k msg n) = part n"
  by (simp_all add: sendChunkNack_def sendFolderTransferResponse_def reject_file_def accept_file_def answer_file_def
      part_respond part_report_some manager split: sum.split option.split)

lemma part_stored:
  "part (removeTransferCheckpoint f dir n) = part n" "part (stamp_received fe f n) = part n"
  "part (snd (upsertFileMetadata meta n)) = part n"
  by (auto simp: removeTransferCheckpoint_def stamp_received_def upsertFileMetadata_def manager statements
      split: prod.split option.split dest!: part_snd)

lemma part_settings: "part (snd (getPeerSettingsSnapshot p n)) = part n"
  by (auto simp: getPeerSettingsSnapshot_def manager statements split: sum.split prod.split option.split dest!: part_snd)

lemmas part_basic = fields manager statements part_disk part_tables part_report_some part_signed part_respond
  part_answers part_stored part_settings

end

section \<open>The sending side\<close>

locale sending_frame = node_frame part for part :: "Node \<Rightarrow> 'a" +
  assumes sender: "part (n\<lparr>outboundFileTransfers := ts\<rparr>) = part n" "part (n\<lparr>outboundTransferQueue := q\<rparr>) = part n"
    "part (n\<lparr>activeOutboundTransfer := act\<rparr>) = part n" "part (n\<lparr>nd_runs := rs\<rparr>) = part n"
    "part (n\<lparr>outboundFileEventChans := c\<rparr>) = part n" "part (n\<lparr>outboundFolderEventChans := c'\<rparr>) = part n"
begin

lemma part_sender:
  "part (setOutboundTransfer ot n) = part n" "part (put_queue p ids n) = part n"
  "part (enqueueOutboundTransfer p f b n) = part n" "part (snd (removeQueuedOutboundTransfer p f n)) = part n"
  "part (finishOutboundTransfer p f n) = part n" "part (drop_run f n) = part n" "part (set_phase f ph n) = part n"
  "part (unregisterOutboundFileEventChannel f n) = part n" "part (registerOutboundFileEventChannel f n) = part n"
  "part (push_event f ev n) = part n" "part (snd (take_event f n)) = part n"
  "part (push_folder_response rsp n) = part n" "part (registerOutboundFolderEventChannel g n) = part n"
  "part (unregisterOutboundFolderEventChannel g n) = part n"
  by (simp_all add: sender setOutboundTransfer_def put_queue_def enqueueOutboundTransfer_def push_event_def
      removeQueuedOutboundTransfer_def finishOutboundTransfer_def drop_run_def set_phase_def take_event_def
      unregisterOutboundFileEventChannel_def registerOutboundFileEventChannel_def push_folder_response_def
      registerOutboundFolderEventChannel_def unregisterOutboundFolderEventChannel_def
      split: option.split list.split)

lemmas part_simps = part_basic sender part_sender

lemma part_start_next: "part (start_next p i q n) = part n"
  by (induction q arbitrary: n) (simp_all add: part_simps Let_def beginOutboundFileTransfer_def split: option.split)

lemma part_startNext: "part (startNextQueuedTransfer p n) = part n"
  by (simp add: startNextQueuedTransfer_def part_start_next split: option.split)

lemma part_drain: "part (startOutboundFileTransferDrain p n) = part n"
  by (simp add: startOutboundFileTransferDrain_def part_startNext)

lemma part_run_end: "part (run_end f err n) = part n"
  by (simp add: run_end_def Let_def part_simps part_startNext split: option.split)

lemma part_persist_out: "part (maybePersistOutboundCheckpoint fe f b n) = part n"
  by (auto simp: maybePersistOutboundCheckpoint_def Let_def part_simps split: option.split prod.split dest!: part_snd)

lemma part_attempt: "part (send_attempt fe f k a b s n) = part n"
  by (auto simp: send_attempt_def part_simps part_run_end split: option.split prod.split sum.split dest!: part_snd)

lemma part_next_chunk: "part (next_chunk fe f k s n) = part n"
  by (auto simp: next_chunk_def part_simps part_run_end part_attempt split: option.split prod.split sum.split
      dest!: part_snd)

lemma part_event: "part (run_event fe f ph ev n) = part n"
proof -
  have "part (run_rejected f msg b n) = part n" for msg b
    by (simp add: run_rejected_def Let_def part_simps part_run_end split: option.split)
  moreover have "part (chunk_delivered fe f k b s n) = part n" for k b s
    by (simp add: chunk_delivered_def Let_def part_simps part_next_chunk part_persist_out split: option.split)
  moreover have "part (run_completed fe f c n) = part n" for c
    by (simp add: run_completed_def Let_def part_simps part_run_end split: option.split)
  moreover have "part (run_accepted fe f k n) = part n" for k
    unfolding run_accepted_def Let_def
    by (auto simp: part_simps part_run_end part_next_chunk part_persist_out split: option.split prod.split sum.split
        dest!: part_snd)
  ultimately show ?thesis
    by (simp add: run_event_def part_attempt split: run_phase.split fileTransferEvent.split)
qed

lemma part_run_step: "part (run_step fe f w n) = part n"
proof -
  have "part (run_start fe f r n) = part n" for r
    unfolding run_start_def Let_def
    by (auto simp: part_simps part_run_end split: option.split prod.split sum.split dest!: part_snd)
  then show ?thesis
    unfolding run_step_def Let_def
    by (auto simp: part_simps part_run_end part_attempt part_event split: option.split wake.split run_phase.split prod.split
        dest!: part_snd)
qed

lemma part_sendFile: "part (snd (sendFileWithOptions fe peer path opts n)) = part n"
proof -
  have "part (queue_outbound t m) = part m" for t m
    by (simp add: queue_outbound_def part_startNext part_simps)
  then show ?thesis
    unfolding sendFileWithOptions_def
    by (auto simp: Let_def part_simps split: sum.split prod.split option.split bool.split dest!: part_snd)
qed

lemma part_send_files: "part (snd (send_folder_files p g fs queued n)) = part n"
proof (induction fs arbitrary: queued n)
  case (Cons x fs)
  have "sendFileWithOptions fe p path opts n = (r, m) \<Longrightarrow> part m = part n" for fe path opts r m
    using part_sendFile [of fe p path opts n] by simp
  with Cons.IH show ?case by (cases x) (simp split: prod.split sum.split)
qed simp

lemma part_folder_wait: "part (snd (folder_wait fes fo w n)) = part n"
proof -
  have files: "send_folder_files p g fs queued m = ((e, q), m') \<Longrightarrow> part m' = part m" for p g fs queued m e q m'
    using part_send_files [of p g fs queued m] by simp
  have answered: "part (snd (folder_answered fes fo rs m)) = part m" for rs m
    unfolding folder_answered_def Let_def
    by (auto simp: part_simps split: prod.split option.split dest!: files)
  then have "folder_answered fes fo rs m = (r, m') \<Longrightarrow> part m' = part m" for rs m r m' by (metis snd_conv)
  then show ?thesis
    unfolding folder_wait_def Let_def
    by (auto simp: part_simps split: wake.split option.split list.split prod.split)
qed

lemma part_SendFolder: "part (snd (SendFolder fe peer folderPath walk n)) = part n"
proof -
  have sent: "part (snd (case signFolderTransferRequest env rq m of Inl e \<Rightarrow> (Inl e, n1)
      | Inr request \<Rightarrow>
          (case send_to fe i (PFolderRequest request) (registerOutboundFolderEventChannel g n1) of
             (Some e, n3) \<Rightarrow> (Inl e, unregisterOutboundFolderEventChannel g n3)
           | (None, n3) \<Rightarrow> (Inr fo, n3)))) = part n1" for env rq m n1 i g and fo :: FolderSend
    by (auto simp: part_simps split: sum.split prod.split option.split dest!: part_snd)
  have st: "part m = part n" if "statement (UpsertFolderTransfer t fo) n = (e, m)" for t fo e m
    using statements(7) [of t fo n] that by simp
  show ?thesis
  proof (cases "buildFolderManifest folderPath walk")
    case (Inr mf)
    then obtain ms fs bytes where mf: "buildFolderManifest folderPath walk = Inr (ms, fs, bytes)" by (cases mf) auto
    show ?thesis
      unfolding SendFolder_def Let_def mf
      by (cases "live_conn peer n"; cases "os_Stat fe folderPath (nd_disk n)")
        (simp_all add: st sent split: bool.split prod.split option.split)
  qed (simp add: SendFolder_def split: sum.split bool.split prod.split)
qed

lemma part_Retry: "part (snd (RetryTransfer fe f n)) = part n"
  unfolding RetryTransfer_def Let_def
  by (simp add: part_simps part_startNext split: sum.split prod.split bool.split)

lemma part_restoreOutbound: "part (snd (restoreOutboundTransfer fe cp n)) = part n"
  unfolding restoreOutboundTransfer_def Let_def
  by (simp add: part_simps split: sum.split)

lemma part_cancel_outbound: "part (cancel_outbound fe f t n) = part n"
  by (simp add: cancel_outbound_def Let_def part_simps part_startNext split: option.split)

lemma part_handleFileResponse: "part (handleFileResponse fe i response n) = part n"
  by (simp add: handleFileResponse_def part_simps split: option.split)

lemma part_folder_response: "part (handleFolderTransferResponse fe i response n) = part n"
  by (simp add: handleFolderTransferResponse_def part_simps split: option.split)

end


section \<open>The receiving side\<close>

locale receiving_frame = node_frame part for part :: "Node \<Rightarrow> 'a" +
  assumes receiver: "part (n\<lparr>inboundFileTransfers := ts\<rparr>) = part n"
begin

lemma part_receiver:
  "part (setInboundTransfer it n) = part n" "part (removeInboundTransfer f n) = part n" "part (drop_inbound f n) = part n"
  by (simp_all add: setInboundTransfer_def removeInboundTransfer_def drop_inbound_def receiver part_basic)

lemmas part_inbound = part_basic receiver part_receiver

lemma part_persist: "part (maybePersistInboundCheckpoint fe f b n) = part n"
  unfolding maybePersistInboundCheckpoint_def
  by (auto simp: Let_def part_inbound split: option.split prod.split dest!: part_snd)

lemma part_store_rejected: "part (store_rejected rq g r p n) = part n"
  unfolding store_rejected_def
  by (auto simp: part_inbound split: option.split prod.split dest!: part_snd)

lemma part_finalize: "part (finalizeInboundFileRequest fe i rq g r p accept msg n) = part n"
proof -
  have temp: "prepare_temp fe p k m = (e, m') \<Longrightarrow> part m' = part m" for k m e m'
    unfolding prepare_temp_def by (auto simp: part_inbound split: option.splits prod.splits dest!: part_snd)
  show ?thesis
    unfolding finalizeInboundFileRequest_def start_inbound_def Let_def
    by (simp add: part_inbound part_persist part_store_rejected split: option.split prod.split sum.split)
      (auto simp: part_inbound dest!: temp)
qed

lemma part_decide_request: "part (decide_request fe i rq g r p settings n) = part n"
proof -
  have "beginPendingFileApproval f n = (b, m) \<Longrightarrow> part m = part n" for f b m by (auto simp: part_inbound dest!: part_snd)
  then show ?thesis
    by (auto simp: decide_request_def part_finalize part_inbound split: receive_decision.split prod.split bool.split)
qed

lemma part_admit_request: "part (admit_request fe i rq g r p settings n) = part n"
proof -
  have "lookup_decision fe f n = (b, m) \<Longrightarrow> part m = part n" for f b m by (auto simp: part_inbound dest!: part_snd)
  then show ?thesis
    by (auto simp: admit_request_def part_decide_request part_inbound part_store_rejected split: option.split prod.split)
qed

lemma part_target_request: "part (target_request fe i rq n) = part n"
proof -
  have "getPeerSettingsSnapshot p n = (g, m) \<Longrightarrow> part m = part n" for p g m by (auto simp: part_inbound dest!: part_snd)
  then show ?thesis
    by (auto simp: target_request_def Let_def part_admit_request part_inbound split: option.split prod.split sum.split)
qed

lemma part_handleFileRequest: "part (handleFileRequest fe i rq n) = part n"
proof -
  have "validate_sequence i s n = (e, m) \<Longrightarrow> part m = part n" for i s e m by (auto simp: part_inbound dest!: part_snd)
  moreover have "allow_file_request fe rq m = (b, m') \<Longrightarrow> part m' = part m" for b m m'
    by (auto simp: part_inbound dest!: part_snd)
  ultimately show ?thesis
    unfolding handleFileRequest_def Let_def
    by (simp add: part_target_request part_inbound split: option.split prod.split bool.split)
qed

lemma part_approval_decided: "part (approval_decided fe a decision n) = part n"
  by (auto simp: approval_decided_def Let_def part_inbound part_finalize split: sum.split)

lemma part_handleFileData: "part (handleFileData fe i data n) = part n"
proof -
  have "write_chunk fe k b t n = (e, m) \<Longrightarrow> part m = part n" for k b t e m
    unfolding write_chunk_def by (auto simp: part_inbound split: option.splits prod.splits dest!: part_snd)
  then show ?thesis
    unfolding handleFileData_def acknowledge_chunk_def Let_def
    by (auto simp: part_inbound part_persist part_report_some split: option.split prod.split sum.split)
qed

lemma part_complete_inbound: "part (complete_inbound fe i complete t n) = part n"
proof -
  have "part (fail_inbound fe i f s msg m) = part m" for f s msg m
    by (simp add: fail_inbound_def part_inbound)
  moreover have "part (finish_inbound fe i f t m) = part m" for f m
    by (simp add: finish_inbound_def part_inbound)
  moreover have "run_disk df n = (e, m) \<Longrightarrow> part m = part n" for df and e :: "go_error option" and m
    by (auto simp: part_inbound dest!: part_snd)
  ultimately show ?thesis
    unfolding complete_inbound_def Let_def by (simp add: part_inbound split: option.split prod.split sum.split)
qed

lemma part_record_canceled: "part (recordInboundCanceledBeforeApproval fe i complete n) = part n"
  by (simp add: recordInboundCanceledBeforeApproval_def Let_def part_inbound split: sum.split)

lemma part_cancel_inbound: "part (cancel_inbound fe f t n) = part n"
  unfolding cancel_inbound_def Let_def by (simp add: part_inbound split: option.split)

lemma part_handleFolderTransferRequest: "part (handleFolderTransferRequest fe i rq decision n) = part n"
proof -
  have tree: "part (snd (make_tree fe root es m)) = part m" for root es m
  proof (induction es arbitrary: m)
    case (Cons e es)
    have "run_disk df m = (r, m1) \<Longrightarrow> part m1 = part m" for df and r :: "go_error option" and m1
      by (auto simp: part_inbound dest!: part_snd)
    with Cons.IH show ?case by (simp split: sum.split option.split prod.split)
  qed simp
  have disk: "run_disk df m = (r, m1) \<Longrightarrow> part m1 = part m" for df and r :: "go_error option" and m m1
    by (auto simp: part_inbound dest!: part_snd)
  have made: "make_tree fe root es m = (r, m1) \<Longrightarrow> part m1 = part m" for root es m r m1
    using tree [of root es m] by simp
  have accept: "part (accept_folder fe i rq mf fs bs root m) = part m" for mf fs bs root m
    unfolding accept_folder_def Let_def
    by (auto simp: part_inbound disk dest!: made split: option.split prod.split)
  have "getPeerSettingsSnapshot p n = (g, m) \<Longrightarrow> part m = part n" for p g m by (auto simp: part_inbound dest!: part_snd)
  then have place: "part (place_folder fe i rq decision mf fs bs n) = part n" for mf fs bs
    unfolding place_folder_def Let_def
    by (auto simp: part_inbound accept split: prod.split sum.split)
  show ?thesis
    by (simp add: handleFolderTransferRequest_def part_inbound place split: option.split sum.split prod.split)
qed

lemma part_restore_folder: "part (restore_folder fe meta p n) = part n"
  by (simp add: restore_folder_def Let_def part_inbound)

lemma part_restoreInbound: "part (snd (restoreInboundTransfer fe cp n)) = part n"
proof -
  have disk: "run_disk df m = (r, m1) \<Longrightarrow> part m1 = part m" for df and r :: "go_error option" and m m1
    by (auto simp: part_inbound dest!: part_snd)
  show ?thesis
    unfolding restoreInboundTransfer_def Let_def
    by (auto simp: part_inbound part_restore_folder dest!: disk split: option.split sum.split prod.split)
qed

end

section \<open>Both sides\<close>

locale transfer_frame = sending_frame part + receiving_frame part for part :: "Node \<Rightarrow> 'a" +
  assumes cleaning: "part (snd (statement (DeleteFileMetadata f) n)) = part n"
begin

lemma part_handleFileComplete: "part (handleFileComplete fe i complete n) = part n"
proof -
  have "part (complete_outbound_late fe complete t n) = part n" for t
    by (simp add: complete_outbound_late_def part_simps)
  then show ?thesis
    unfolding handleFileComplete_def
    by (simp add: part_simps part_record_canceled part_complete_inbound split: option.split)
qed

lemma part_CancelTransfer: "part (snd (CancelTransfer fe f n)) = part n"
  unfolding CancelTransfer_def Let_def
  by (simp add: part_cancel_outbound part_simps part_cancel_inbound split: option.split sum.split)

lemma part_purge: "part (purgeInMemoryTransfer f n) = part n"
  by (simp add: purgeInMemoryTransfer_def Let_def part_simps receiver)

lemma part_clean: "part (clean_completed fe b meta n) = part n"
proof -
  have missing: "part (report_unless_missing what e rn) = part (snd rn)" for what e rn
    by (cases rn) (simp add: report_unless_missing_def part_simps split: option.split)
  show ?thesis
    unfolding clean_completed_def Let_def by (simp add: part_purge part_simps missing cleaning)
qed

lemma part_load: "part (snd (loadTransferCheckpoints fe n)) = part n"
proof -
  have one: "part (restore_checkpoint fe cp m) = part m" for cp m
    by (simp add: restore_checkpoint_def part_report_some part_restoreOutbound part_restoreInbound)
  have "part (foldl (\<lambda>m cp. restore_checkpoint fe cp m) m cps) = part m" for cps m
    by (induction cps arbitrary: m) (simp_all add: one)
  then show ?thesis by (simp add: loadTransferCheckpoints_def split: sum.split)
qed

end

end
