(* ===== verification/Identities.thy ===== *)
theory Identities
  imports Rekey Frames
begin

text \<open>
  Which operations of a device leave alone whom it knows: its own identity, the pinned keys, the keys in the store,
  the table of connections and the peer of every connection. Only connecting, adding, removing and key changes
  (theory \<open>Lifecycle\<close>) touch them; the operations on messages, session keys, transfers and events do not.
\<close>

definition stored_keys :: "Store \<Rightarrow> (string \<times> string) list" where
  "stored_keys s = map (\<lambda>p. (p_DeviceID p, p_Ed25519PublicKey p)) (st_peers s)"

definition mpart :: "Manager \<Rightarrow> _" where
  "mpart m = (mg_identity m, knownKeys m, stored_keys (mg_store m), connections m, (\<lambda>i. peerDeviceID (mg_heap m i)))"

lemma mpart_parts:
  assumes "mpart m' = mpart m"
  shows "mg_identity m' = mg_identity m" and "knownKeys m' = knownKeys m"
    and "stored_keys (mg_store m') = stored_keys (mg_store m)" and "connections m' = connections m"
    and "peer_of m' i = peer_of m i"
  using assms fun_cong [of "\<lambda>i. peerDeviceID (mg_heap m' i)" "\<lambda>i. peerDeviceID (mg_heap m i)" i]
  by (simp_all add: mpart_def peer_of_def)

section \<open>The store\<close>

text \<open>Statements that keep the keys of all peers.\<close>

lemma stored_keys_same: "st_peers s' = st_peers s \<Longrightarrow> stored_keys s' = stored_keys s"
  by (simp add: stored_keys_def)

lemma stored_keys_update_peer:
  "(\<And>p. p_DeviceID (f p) = p_DeviceID p \<and> p_Ed25519PublicKey (f p) = p_Ed25519PublicKey p) \<Longrightarrow>
   stored_keys (snd (update_peer i f s)) = stored_keys s"
  by (simp add: update_peer_def stored_keys_def tbl_update_def)

lemma stored_keys_messages:
  "stored_keys (snd (SaveMessage t row s)) = stored_keys s" "stored_keys (snd (UpdateDeliveryStatus i st s)) = stored_keys s"
  "stored_keys (snd (MarkDelivered i s)) = stored_keys s" "stored_keys (snd (InsertSeenID t i t' s)) = stored_keys s"
  "stored_keys (snd (PruneExpiredQueue c s)) = stored_keys s" "stored_keys (snd (PruneOldEntries c s)) = stored_keys s"
  "stored_keys (snd (DeleteMessagesOlderThan c s)) = stored_keys s"
  by (rule stored_keys_same,
      simp add: SaveMessage_def insert_message_def UpdateDeliveryStatus_def MarkDelivered_def set_delivery_status_def
        InsertSeenID_def PruneExpiredQueue_def PruneOldEntries_def DeleteMessagesOlderThan_def delete_messages_def Let_def
        split: option.split)+

lemma stored_keys_peers:
  "stored_keys (snd (UpdatePeerStatus p st t s)) = stored_keys s" "stored_keys (snd (UpdatePeerEndpoint p ip port t s)) = stored_keys s"
  "stored_keys (snd (UpdatePeerDeviceName p nm s)) = stored_keys s"
  by (simp_all add: UpdatePeerStatus_def UpdatePeerEndpoint_def UpdatePeerDeviceName_def stored_keys_update_peer
      split: option.split)

lemma stored_keys_log: "stored_keys (snd (LogSecurityEvent jv t ev s)) = stored_keys s"
  using chat_part_LogSecurityEvent [of jv t ev s] by (simp add: chat_part_def stored_keys_def)

lemma st_peers_settings:
  "st_peers (snd (EnsurePeerSettingsExist p s)) = st_peers s" "st_peers (snd (update_settings p f s)) = st_peers s"
  by (simp_all add: EnsurePeerSettingsExist_def update_settings_def)

lemma st_peers_rotation: "st_peers (snd (RecordKeyRotationEvent t ev s)) = st_peers s"
  by (simp only: RecordKeyRotationEvent_def Let_def split: option.split if_split) simp

lemma stored_keys_settings:
  "stored_keys (snd (EnsurePeerSettingsExist p s)) = stored_keys s" "stored_keys (snd (ResetPeerVerified p s)) = stored_keys s"
  "stored_keys (snd (RecordKeyRotationEvent t ev s)) = stored_keys s"
  by (rule stored_keys_same, simp add: st_peers_settings st_peers_rotation ResetPeerVerified_def split_beta split: option.split)+

lemma st_peers_files:
  "st_peers (snd (insert_file f s)) = st_peers s" "st_peers (snd (update_file i u s)) = st_peers s"
  "st_peers (snd (DeleteFileMetadata i s)) = st_peers s"
  by (simp_all add: insert_file_def update_file_def DeleteFileMetadata_def)

lemma st_peers_transfers:
  "st_peers (snd (SaveFileMetadata f s)) = st_peers s" "st_peers (snd (UpdateTransferStatus i st s)) = st_peers s"
  "st_peers (snd (UpdateFileTimestampReceived t i t' s)) = st_peers s"
  "st_peers (snd (UpdateFolderTransferStatus i st s)) = st_peers s"
  "st_peers (snd (DeleteTransferCheckpoint i dir s)) = st_peers s"
  by (simp only: SaveFileMetadata_def UpdateTransferStatus_def UpdateFileTimestampReceived_def
      UpdateFolderTransferStatus_def DeleteTransferCheckpoint_def Let_def split: option.split if_split,
      simp add: st_peers_files)+

lemma st_peers_upserts:
  "st_peers (snd (UpsertTransferCheckpoint t cp s)) = st_peers s" "st_peers (snd (UpsertFolderTransfer t fo s)) = st_peers s"
proof -
  show "st_peers (snd (UpsertTransferCheckpoint t cp s)) = st_peers s"
    by (simp only: UpsertTransferCheckpoint_def Let_def split: option.split if_split) simp
  define d1 where "d1 = (if d_TransferStatus fo = [] then fo\<lparr>d_TransferStatus := ''pending''\<rparr> else fo)"
  show "st_peers (snd (UpsertFolderTransfer t fo s)) = st_peers s"
    unfolding UpsertFolderTransfer_def d1_def [symmetric] by (simp add: Let_def split: option.split)
qed

lemmas stored_keys_files = st_peers_files(3) [THEN stored_keys_same] st_peers_transfers [THEN stored_keys_same]
  st_peers_upserts [THEN stored_keys_same]

lemmas stored_keys_kept = stored_keys_messages stored_keys_peers stored_keys_log stored_keys_settings stored_keys_files

section \<open>The manager\<close>

lemma peer_of_conn:
  "peerDeviceID (closeWithError e c) = peerDeviceID c" "peerDeviceID (Close c) = peerDeviceID c"
  "peerDeviceID (snd (SendMessage P J iv now p c)) = peerDeviceID c" "peerDeviceID (setState st c) = peerDeviceID c"
  "peerDeviceID (Disconnect P J iv now c) = peerDeviceID c" "peerDeviceID (snd (NextSendSequence c)) = peerDeviceID c"
  "peerDeviceID (snd (ValidateSequence w c)) = peerDeviceID c" "peerDeviceID (setRekeyInProgress b c) = peerDeviceID c"
  "peerDeviceID (snd (RotateSessionKey now key t c)) = peerDeviceID c" "peerDeviceID (c\<lparr>onRekeyNeeded := b\<rparr>) = peerDeviceID c"
proof -
  show send: "peerDeviceID (snd (SendMessage P J iv now p c)) = peerDeviceID c" for P J iv now p and c :: Conn
    by (rule session_part_eq(1)) simp
  show "peerDeviceID (Disconnect P J iv now c) = peerDeviceID c"
    by (simp add: Disconnect_def Close_def closeWithError_def Let_def send setState_def)
qed (simp_all add: closeWithError_def Close_def setState_def NextSendSequence_def ValidateSequence_def Let_def
    setRekeyInProgress_def RotateSessionKey_def)

lemma mpart_set_conn: "peerDeviceID c = peerDeviceID (mg_heap m i) \<Longrightarrow> mpart (set_conn i c m) = mpart m"
  by (auto simp: mpart_def set_conn_def)

lemma mpart_fields:
  "mpart (m\<lparr>localDeviceName := nm\<rparr>) = mpart m" "mpart (m\<lparr>outboundAddPending := oa\<rparr>) = mpart m"
  "mpart (m\<lparr>outboundAddResponse := ob\<rparr>) = mpart m" "mpart (m\<lparr>suppressReconnect := sr\<rparr>) = mpart m"
  "mpart (m\<lparr>reconnectWorkers := rw\<rparr>) = mpart m" "mpart (m\<lparr>lastAddRequestAt := la\<rparr>) = mpart m"
  "mpart (m\<lparr>fileRates := fr\<rparr>) = mpart m" "mpart (m\<lparr>pendingRekeyWaiters := pw\<rparr>) = mpart m"
  "mpart (m\<lparr>mg_waiter_seq := ws\<rparr>) = mpart m" "mpart (m\<lparr>mg_errors := es\<rparr>) = mpart m"
  "mpart (m\<lparr>mg_received := rc\<rparr>) = mpart m" "mpart (m\<lparr>mg_sent := ms\<rparr>) = mpart m"
  "mpart (m\<lparr>mg_overflow := ov\<rparr>) = mpart m" "mpart (m\<lparr>mg_stopped := b\<rparr>) = mpart m"
  by (simp_all add: mpart_def)

lemma mpart_snd: "f = (r, m1) \<Longrightarrow> mpart m1 = mpart (snd f)"
  by simp

lemma mpart_store: "stored_keys s = stored_keys (mg_store m) \<Longrightarrow> mpart (m\<lparr>mg_store := s\<rparr>) = mpart m"
  by (simp add: mpart_def)

lemma mpart_statements:
  "mpart (snd (on_store (SaveMessage t row) m)) = mpart m" "mpart (snd (on_store (UpdateDeliveryStatus i st) m)) = mpart m"
  "mpart (snd (on_store (MarkDelivered i) m)) = mpart m" "mpart (snd (on_store (InsertSeenID t i t') m)) = mpart m"
  "mpart (snd (on_store (UpdatePeerStatus p st t) m)) = mpart m" "mpart (snd (on_store (UpdatePeerEndpoint p ip port t) m)) = mpart m"
  "mpart (snd (on_store (UpdatePeerDeviceName p nm) m)) = mpart m" "mpart (snd (on_store (LogSecurityEvent jv t ev) m)) = mpart m"
  "mpart (snd (on_store (EnsurePeerSettingsExist p) m)) = mpart m" "mpart (snd (on_store (ResetPeerVerified p) m)) = mpart m"
  "mpart (snd (on_store (RecordKeyRotationEvent t k) m)) = mpart m"
  "mpart (snd (on_store (UpsertTransferCheckpoint t cp) m)) = mpart m" "mpart (snd (on_store (DeleteTransferCheckpoint f dir) m)) = mpart m"
  "mpart (snd (on_store (UpdateTransferStatus f st) m)) = mpart m" "mpart (snd (on_store (SaveFileMetadata meta) m)) = mpart m"
  "mpart (snd (on_store (UpdateFileTimestampReceived t f t') m)) = mpart m" "mpart (snd (on_store (UpsertFolderTransfer t fo) m)) = mpart m"
  "mpart (snd (on_store (UpdateFolderTransferStatus g st) m)) = mpart m" "mpart (snd (on_store (DeleteFileMetadata f) m)) = mpart m"
  by (simp_all add: on_store_def split_beta mpart_store stored_keys_kept)

lemma mpart_send: "mpart (snd (send env i p m)) = mpart m"
proof -
  obtain r c where c: "SendMessage (en_P env) (en_J env) (en_iv env) (en_now env) p (mg_heap m i) = (r, c)" by fastforce
  then have "peerDeviceID c = peerDeviceID (mg_heap m i)" using peer_of_conn(3) by (metis snd_conv)
  then show ?thesis by (simp add: send_def c Let_def mpart_fields mpart_set_conn)
qed

lemma mpart_basic:
  "mpart (reportError e m) = mpart m" "mpart (close_conn i m) = mpart m" "mpart (sendErrorMessage env i c t rel m) = mpart m"
  "mpart (markSuppressReconnect p m) = mpart m" "mpart (snd (consumeSuppressReconnect p m)) = mpart m"
  "mpart (startReconnect p m) = mpart m" "mpart (stopReconnect p m) = mpart m" "mpart (drop_waiter p w m) = mpart m"
  by (simp_all add: reportError_def mpart_fields close_conn_def mpart_set_conn peer_of_conn sendErrorMessage_def mpart_send
      markSuppressReconnect_def consumeSuppressReconnect_def startReconnect_def stopReconnect_def drop_waiter_def
      split: option.split prod.split)

lemma mpart_report_result: "mpart (report_result r m) = mpart m"
  by (simp add: report_result_def mpart_basic split: option.split)

lemma mpart_log: "mpart (logSecurityEvent env ev p sv ds m) = mpart m"
  by (simp add: logSecurityEvent_def Let_def split_beta mpart_statements mpart_basic split: option.split)

lemmas mpart_simps = mpart_fields mpart_statements mpart_send mpart_basic mpart_report_result mpart_log


section \<open>Messages\<close>

lemma mpart_evict: "mpart (snd (evict ms t k m)) = mpart m"
  by (induction ms arbitrary: t k m) (auto simp: Let_def split_beta mpart_simps split: option.split)

lemma mpart_after_evict: "mpart (after_evict env p k m) = mpart m"
  by (simp add: after_evict_def mpart_simps)

lemma mpart_enforce: "mpart (snd (enforceQueueLimits env p m)) = mpart m"
proof -
  define s where "s = snd (PruneExpiredQueue (env_ms env - maxQueueAge) (mg_store m))"
  have s: "mpart (m\<lparr>mg_store := s\<rparr>) = mpart m" by (simp add: s_def mpart_store stored_keys_kept)
  have e: "mpart m1 = mpart m" if "evict ms t k (m\<lparr>mg_store := s\<rparr>) = (v, m1)" for ms t k v m1
    using mpart_evict [of ms t k "m\<lparr>mg_store := s\<rparr>"] s that by simp
  show ?thesis
    unfolding enforceQueueLimits_def split_beta s_def [symmetric]
    by (auto simp: mpart_evict mpart_after_evict s split: sum.split evicted.split)
qed

lemma mpart_build: "mpart (snd (buildEncryptedMessage env i a b t m)) = mpart m"
  by (simp add: buildEncryptedMessage_def Let_def split_beta mpart_set_conn peer_of_conn split: sum.split)

lemma mpart_pending: "mpart (snd (sendPendingMessage env i p m)) = mpart m"
  by (simp add: sendPendingMessage_def Let_def split_beta mpart_build mpart_simps split: sum.split option.split)

lemma mpart_drain_loop: "mpart (snd (drain_loop env k i ps m)) = mpart m"
  by (induction ps arbitrary: k m) (auto simp: split_beta mpart_pending split: option.split)

lemma mpart_drain: "mpart (snd (drainPendingMessages env p i m)) = mpart m"
  by (simp add: drainPendingMessages_def split_beta mpart_enforce mpart_drain_loop split: sum.split option.split)

lemma mpart_SendTextMessage: "mpart (snd (SendTextMessage env a p c m)) = mpart m"
proof -
  have tried: "mpart (snd (try_send env p a c t m)) = mpart m" for t
    by (simp add: try_send_def split_beta mpart_build mpart_simps split: option.split sum.split)
  have save: "mpart (snd (save_outgoing env p a c t st sig m')) = mpart m'" for t st sig m'
    by (simp add: save_outgoing_def split_beta mpart_enforce mpart_simps split: option.split)
  have "mpart (snd (sendTextMessageWithID env p a c t m)) = mpart m" for t
    by (simp add: sendTextMessageWithID_def split_beta tried save split: sum.split)
  then show ?thesis by (simp add: SendTextMessage_def)
qed

lemma mpart_incoming: "mpart (handleIncomingEncryptedMessage env i msg m) = mpart m"
proof -
  have ack: "mpart (send_ack env i mid m') = mpart m'" for mid m'
    by (simp add: send_ack_def split_beta mpart_simps split: sum.split)
  have "mpart (deliver_message env i row m') = mpart m'" for row m'
    by (auto simp: deliver_message_def Let_def split_beta ack mpart_simps split: option.split)
  then have "mpart (open_message env i msg m') = mpart m'" for m'
    by (simp add: open_message_def mpart_simps split: sum.split option.split)
  then have "mpart (check_replay env i msg m') = mpart m'" for m'
    by (simp add: check_replay_def mpart_simps split: sum.split)
  moreover have "mpart (set_conn i c m) = mpart m" if "ValidateSequence w (mg_heap m i) = (r, c)" for w r c
    using that peer_of_conn(7) [of w "mg_heap m i"] by (intro mpart_set_conn) simp
  ultimately show ?thesis
    by (simp add: handleIncomingEncryptedMessage_def Let_def mpart_simps split: prod.split option.split)
qed

lemma mpart_ack: "mpart (handleAck env i ack m) = mpart m"
  by (simp add: handleAck_def apply_ack_def Let_def split_beta mpart_simps split: option.split sum.split)

lemma mpart_error: "mpart (handleProtocolError e m) = mpart m"
  by (simp add: handleProtocolError_def split_beta mpart_simps)

section \<open>Session keys\<close>

lemma mpart_rotate: "mpart (snd (rotate env i key t m)) = mpart m"
  by (simp add: rotate_def split_beta mpart_set_conn peer_of_conn)

lemma mpart_rekey_request: "mpart (handleRekeyRequest env i rq m) = mpart m"
proof -
  have "mpart (answer_rekey env i rq m) = mpart m"
    by (simp add: answer_rekey_def reject_rekey_def split_beta mpart_rotate mpart_simps split: sum.split option.split)
  then show ?thesis by (simp add: handleRekeyRequest_def reject_rekey_def Let_def mpart_simps split: option.split)
qed

lemma mpart_rekey_response: "mpart (handleRekeyResponse env i rs m) = mpart m"
  by (simp add: handleRekeyResponse_def deliver_response_def reject_rekey_def Let_def mpart_simps
      split: option.split prod.split)

lemma mpart_rekey_needed: "mpart (snd (onConnectionRekeyNeeded env i m)) = mpart m"
proof -
  have "mpart (snd (rekey_start env i m)) = mpart m"
    by (simp add: rekey_start_def Let_def split_beta mpart_simps split: sum.split option.split)
  then show ?thesis
    by (auto simp: onConnectionRekeyNeeded_def rekey_failed_def mpart_simps mpart_set_conn peer_of_conn
        split: prod.split rekey_started.split dest!: mpart_snd)
qed

lemma mpart_rekey_end: "mpart (onConnectionRekeyEnd env i eph w t ev m) = mpart m"
proof -
  have "mpart (snd (rekey_complete env i eph t' rs m)) = mpart m" for t' rs
    by (simp add: rekey_complete_def mpart_rotate split: sum.split)
  then have "mpart (snd (rekey_finish env i eph w t ev m)) = mpart m"
    by (simp add: rekey_finish_def split_beta mpart_simps split: rekey_wait.split sum.split)
  then show ?thesis
    by (auto simp: onConnectionRekeyEnd_def rekey_failed_def mpart_simps split: prod.split option.split dest!: mpart_snd)
qed

lemmas mpart_messages = mpart_drain mpart_SendTextMessage mpart_incoming mpart_ack mpart_error
lemmas mpart_sessions = mpart_rekey_request mpart_rekey_response mpart_rekey_needed mpart_rekey_end


section \<open>A node\<close>

definition npart where
  "npart n = mpart (nd_mgr n)"

lemma npart_run_mgr: "(\<And>m. mpart (snd (mf m)) = mpart m) \<Longrightarrow> npart (snd (run_mgr mf n)) = npart n"
  by (simp add: npart_def run_mgr_def split_beta)

lemma npart_on_mgr: "(\<And>m. mpart (mf m) = mpart m) \<Longrightarrow> npart (on_mgr mf n) = npart n"
  by (simp add: npart_def on_mgr_def)

interpretation identity: transfer_frame npart
proof unfold_locales
  show "npart (report e n) = npart n" for e n by (simp add: report_def npart_on_mgr mpart_simps)
  show "npart (snd (send_to fe i pk n)) = npart n" for fe i pk n by (simp add: send_to_def npart_run_mgr mpart_simps)
  show "npart (log_file_event fe ev p ds n) = npart n" for fe ev p ds n
    by (simp add: log_file_event_def npart_on_mgr mpart_simps)
  show "npart (snd (next_sequence i n)) = npart n" for i n
    unfolding next_sequence_def by (rule npart_run_mgr) (simp add: split_beta mpart_set_conn peer_of_conn)
  show "npart (snd (validate_sequence i w n)) = npart n" for i w n
    unfolding validate_sequence_def by (rule npart_run_mgr) (simp add: split_beta mpart_set_conn peer_of_conn)
  show "npart (snd (allow_file_request fe rq n)) = npart n" for fe rq n
    unfolding allow_file_request_def by (rule npart_run_mgr) (simp add: split_beta mpart_simps)
qed (simp_all add: statement_def npart_run_mgr npart_on_mgr mpart_simps, simp_all add: npart_def)

lemma npart_maintenance: "npart (runMaintenanceCleanup fe days_ago configured b n) = npart n"
proof -
  have prune: "npart (snd (run_mgr (\<lambda>m. (fst (PruneOldEntries c (mg_store m)), m\<lparr>mg_store := snd (PruneOldEntries c (mg_store m))\<rparr>)) k)) = npart k" for c k
    by (rule npart_run_mgr) (simp add: mpart_store stored_keys_kept)
  have delete: "npart (snd (run_mgr (\<lambda>m. (fst (DeleteMessagesOlderThan c (mg_store m)), m\<lparr>mg_store := snd (DeleteMessagesOlderThan c (mg_store m))\<rparr>)) k)) = npart k"
    for c k
    by (rule npart_run_mgr) (simp add: mpart_store stored_keys_kept)
  have clean: "npart (foldl (\<lambda>k f. clean_completed fe b f k) k fs) = npart k" for fs k
    by (induction fs arbitrary: k) (simp_all add: identity.part_clean)
  have "npart (clean_retained fe days_ago days b k) = npart k" for days k
    by (simp add: clean_retained_def Let_def split_beta clean delete identity.manager split: sum.split)
  then show ?thesis
    by (simp add: runMaintenanceCleanup_def Let_def split_beta prune identity.manager split: sum.split)
qed

end
