(* ===== verification/GoNet.thy ===== *)
theory GoNet
  imports Codec
begin

text \<open>
  The parts of Go's \<open>strconv\<close>, \<open>strings\<close> and \<open>net\<close> that the connection management, the configuration and the
  discovery use on texts: decimal numbers (\<open>Itoa\<close>, \<open>Atoi\<close>), the order-preserving removal of repeated
  entries, and addresses of the form host:port (\<open>JoinHostPort\<close>, \<open>SplitHostPort\<close>), with their round trips; texts
  without white space.
\<close>

section \<open>Decimal numbers\<close>

definition FormatInt :: "int \<Rightarrow> string" where
  "FormatInt n = (if n < 0 then CHR ''-'' # FormatUint (nat (- n)) else FormatUint (nat n))"

abbreviation "Itoa \<equiv> FormatInt"

definition is_digit :: "char \<Rightarrow> bool" where
  "is_digit c \<longleftrightarrow> 48 \<le> (of_char c :: nat) \<and> (of_char c :: nat) \<le> 57"

definition digits_value :: "string \<Rightarrow> int" where
  "digits_value s = foldl (\<lambda>v c. 10 * v + (of_char c - 48)) 0 s"

text \<open>\<open>strconv.Atoi\<close> where \<open>int\<close> has 64 bits: an optional sign, then decimal digits only, in range.\<close>

definition Atoi :: "string \<Rightarrow> int res" where
  "Atoi s =
     (let digits = (if s \<noteq> [] \<and> (hd s = CHR ''-'' \<or> hd s = CHR ''+'') then tl s else s);
          v = (if s \<noteq> [] \<and> hd s = CHR ''-'' then - digits_value digits else digits_value digits)
      in if digits = [] \<or> \<not> list_all is_digit digits then Inl (Err ''strconv.Atoi: invalid syntax'')
         else if \<not> is_int64 v then Inl (Err ''strconv.Atoi: value out of range'')
         else Inr v)"

lemma FormatUint_digits: "FormatUint n \<noteq> [] \<and> list_all is_digit (FormatUint n)"
proof (induction n rule: FormatUint.induct)
  case (1 n)
  then show ?case by (cases "n < 10") (simp_all add: FormatUint.simps [of n] is_digit_def [of "char_of _"])
qed

lemma digits_value_snoc: "digits_value (s @ [c]) = 10 * digits_value s + (of_char c - 48)"
  by (simp add: digits_value_def)

lemma int_digit: "n < 10 \<Longrightarrow> of_char (char_of (n + 48) :: char) = int n + 48"
  using of_nat_of_char [of "char_of (n + 48)", where 'a = int] by simp

lemma digits_value_FormatUint: "digits_value (FormatUint n) = int n"
proof (induction n rule: FormatUint.induct)
  case (1 n)
  show ?case
  proof (cases "n < 10")
    case True
    then have "FormatUint n = [char_of (n + 48)]" by (simp add: FormatUint.simps [of n])
    then show ?thesis using True by (simp add: digits_value_def int_digit)
  next
    case False
    then have "FormatUint n = FormatUint (n div 10) @ [char_of (n mod 10 + 48)]" by (simp add: FormatUint.simps [of n])
    moreover have "int n = 10 * int (n div 10) + int (n mod 10)" by (simp add: zdiv_int zmod_int)
    ultimately show ?thesis using 1 False by (simp add: digits_value_snoc int_digit)
  qed
qed

lemma not_digit: "is_digit c \<Longrightarrow> c \<noteq> CHR ''-'' \<and> c \<noteq> CHR ''+'' \<and> c \<noteq> CHR '':'' \<and> c \<noteq> CHR 0x5B \<and> c \<noteq> CHR 0x5D"
  by (auto simp: is_digit_def)

lemma Atoi_Itoa: "is_int64 n \<Longrightarrow> Atoi (Itoa n) = Inr n"
proof -
  assume n: "is_int64 n"
  have "hd (FormatUint k) \<noteq> CHR ''-'' \<and> hd (FormatUint k) \<noteq> CHR ''+''" for k
    using FormatUint_digits [of k] not_digit by (cases "FormatUint k") auto
  then show ?thesis using n FormatUint_digits
    by (auto simp: Atoi_def FormatInt_def digits_value_FormatUint Let_def)
qed

lemma FormatInt_inject: "FormatInt m = FormatInt n \<Longrightarrow> m = n"
proof -
  let ?v = "\<lambda>s. if hd s = CHR ''-'' then - digits_value (tl s) else digits_value s"
  have "?v (FormatInt k) = k" for k
  proof (cases "k < 0")
    case False
    obtain c s where "FormatUint (nat k) = c # s" "is_digit c"
      using FormatUint_digits [of "nat k"] by (cases "FormatUint (nat k)") auto
    then show ?thesis using False not_digit [of c] digits_value_FormatUint [of "nat k"] by (simp add: FormatInt_def)
  qed (simp add: FormatInt_def digits_value_FormatUint)
  then show "FormatInt m = FormatInt n \<Longrightarrow> m = n" by metis
qed

section \<open>Repeated entries\<close>

text \<open>The loops that copy a list and skip what is already in the set of seen entries.\<close>

fun keep_first :: "'a list \<Rightarrow> 'a list \<Rightarrow> 'a list" where
  "keep_first seen [] = []"
| "keep_first seen (x # xs) = (if x \<in> set seen then keep_first seen xs else x # keep_first (x # seen) xs)"

lemma set_keep_first [simp]: "set (keep_first seen xs) = set xs - set seen"
  by (induction xs arbitrary: seen) auto

lemma distinct_keep_first [simp]: "distinct (keep_first seen xs)"
  by (induction xs arbitrary: seen) auto

lemma keep_first_id: "distinct xs \<Longrightarrow> set xs \<inter> set seen = {} \<Longrightarrow> keep_first seen xs = xs"
  by (induction xs arbitrary: seen) auto

section \<open>Addresses\<close>

definition JoinHostPort :: "string \<Rightarrow> string \<Rightarrow> string" where
  "JoinHostPort host port =
     (if CHR '':'' \<in> set host then CHR 0x5B # host @ CHR 0x5D # CHR '':'' # port else host @ CHR '':'' # port)"

text \<open>The text up to the last colon, and the text after it.\<close>

definition last_colon :: "string \<Rightarrow> (string \<times> string) option" where
  "last_colon s =
     (if CHR '':'' \<in> set s
      then Some (rev (tl (dropWhile (\<lambda>c. c \<noteq> CHR '':'') (rev s))), rev (takeWhile (\<lambda>c. c \<noteq> CHR '':'') (rev s)))
      else None)"

definition SplitHostPort :: "string \<Rightarrow> (string \<times> string) res" where
  "SplitHostPort s =
     (case last_colon s of
        None \<Rightarrow> Inl (Err ''missing port in address'')
      | Some (before, port) \<Rightarrow>
          if hd s = CHR 0x5B then
            if CHR 0x5D \<notin> set s then Inl (Err ''missing ']' in address'')
            else let host = takeWhile (\<lambda>c. c \<noteq> CHR 0x5D) (tl s); rest = tl (dropWhile (\<lambda>c. c \<noteq> CHR 0x5D) (tl s))
              in if rest = [] then Inl (Err ''missing port in address'')
                 else if rest \<noteq> CHR '':'' # port then
                   Inl (Err (if hd rest = CHR '':'' then ''too many colons in address'' else ''missing port in address''))
                 else if CHR 0x5B \<in> set (tl s) then Inl (Err ''unexpected '[' in address'')
                 else if CHR 0x5D \<in> set port then Inl (Err ''unexpected ']' in address'')
                 else Inr (host, port)
          else if CHR '':'' \<in> set before then Inl (Err ''too many colons in address'')
          else if CHR 0x5B \<in> set s then Inl (Err ''unexpected '[' in address'')
          else if CHR 0x5D \<in> set s then Inl (Err ''unexpected ']' in address'')
          else Inr (before, port))"

lemma last_colon_append: "CHR '':'' \<notin> set p \<Longrightarrow> last_colon (b @ CHR '':'' # p) = Some (b, p)"
proof -
  assume p: "CHR '':'' \<notin> set p"
  then have "\<forall>c\<in>set (rev p). c \<noteq> CHR '':''" by auto
  then show ?thesis by (simp add: last_colon_def takeWhile_append dropWhile_append)
qed

lemma SplitHostPort_JoinHostPort:
  assumes "CHR 0x5B \<notin> set h" "CHR 0x5D \<notin> set h" "set p \<inter> {CHR '':'', CHR 0x5B, CHR 0x5D} = {}"
  shows "SplitHostPort (JoinHostPort h p) = Inr (h, p)"
proof (cases "CHR '':'' \<in> set h")
  case True
  have "\<forall>c\<in>set h. c \<noteq> CHR 0x5D" using assms(2) by auto
  moreover have "last_colon (CHR 0x5B # h @ CHR 0x5D # CHR '':'' # p) = Some (CHR 0x5B # h @ [CHR 0x5D], p)"
    using last_colon_append [of p "CHR 0x5B # h @ [CHR 0x5D]"] assms(3) by simp
  ultimately show ?thesis
    using assms True by (simp add: JoinHostPort_def SplitHostPort_def takeWhile_append dropWhile_append Let_def)
next
  case False
  have "hd (h @ CHR '':'' # p) \<noteq> CHR 0x5B" using assms(1) by (cases h) auto
  then show ?thesis
    using assms False last_colon_append [of p h] by (simp add: JoinHostPort_def SplitHostPort_def)
qed

lemma SplitHostPort_Itoa:
  "CHR 0x5B \<notin> set h \<Longrightarrow> CHR 0x5D \<notin> set h \<Longrightarrow> 0 \<le> n \<Longrightarrow> SplitHostPort (JoinHostPort h (Itoa n)) = Inr (h, Itoa n)"
  using FormatUint_digits [of "nat n"] not_digit
  by (intro SplitHostPort_JoinHostPort) (auto simp: FormatInt_def list_all_iff)

lemma JoinHostPort_nonempty [simp]: "JoinHostPort h p \<noteq> []"
  by (simp add: JoinHostPort_def)

section \<open>Visible characters and hexadecimal digits\<close>

definition visible :: "char \<Rightarrow> bool" where
  "visible c \<longleftrightarrow> 33 \<le> (of_char c :: nat) \<and> (of_char c :: nat) < 127"

lemma strip_visible:
  assumes "list_all (\<lambda>e. e = [] \<or> \<not> visible (hd e)) encs" "list_all visible s"
  shows "strip_first encs s = None"
proof -
  have none: "\<not> (e \<noteq> [] \<and> prefix e s)" if "e \<in> set encs" for e
    using assms that by (cases e; cases s) (auto simp: list_all_iff)
  then have "find (\<lambda>e. e \<noteq> [] \<and> prefix e s) encs = None" by (auto simp: find_None_iff)
  then show ?thesis by (simp add: strip_first_def)
qed

lemma TrimSpace_visible: "list_all visible s \<Longrightarrow> TrimSpace s = s"
proof -
  assume s: "list_all visible s"
  have "list_all (\<lambda>e. e = [] \<or> \<not> visible (hd e)) space_encodings"
    "list_all (\<lambda>e. e = [] \<or> \<not> visible (hd e)) space_rev_encodings"
    by (simp_all add: space_encodings_def space_rev_encodings_def visible_def)
  with s show ?thesis
    by (simp add: TrimSpace_def trim_front_fix strip_visible)
qed

lemma hex_digit_code: "n < 16 \<Longrightarrow> (of_char (hex_digit n) :: nat) = (if n < 10 then n + 48 else n + 87)"
  by (simp add: hex_digit_def)

lemma hex_encode_visible: "list_all visible (hex_encode s)" "ToLower (hex_encode s) = hex_encode s"
proof -
  have digit: "visible (hex_digit n) \<and> lower_char (hex_digit n) = hex_digit n" if "n < 16" for n
    using that by (simp add: visible_def lower_char_def hex_digit_code)
  have byte: "(of_char c :: nat) div 16 < 16" "(of_char c :: nat) mod 16 < 16" for c :: char
    using nat_of_char_less_256 [of c] by (auto simp: less_mult_imp_div_less)
  show "list_all visible (hex_encode s)" "ToLower (hex_encode s) = hex_encode s"
    by (induction s) (simp_all add: hex_encode_def ToLower_def digit byte)
qed

lemma hex_encode_inject: "hex_encode s = hex_encode t \<Longrightarrow> s = t"
proof (induction s arbitrary: t)
  case Nil
  then show ?case by (cases t) (simp_all add: hex_encode_def)
next
  case (Cons c s)
  then obtain d u where t: "t = d # u" by (cases t) (simp_all add: hex_encode_def)
  have digit: "hex_digit m = hex_digit n \<Longrightarrow> m = n" if "m < 16" "n < 16" for m n
  proof -
    assume "hex_digit m = hex_digit n"
    then have "(of_char (hex_digit m) :: nat) = of_char (hex_digit n)" by simp
    with that show "m = n" by (simp add: hex_digit_code split: if_splits)
  qed
  have byte: "(of_char b :: nat) div 16 < 16" "(of_char b :: nat) mod 16 < 16" for b :: char
    using nat_of_char_less_256 [of b] by (auto simp: less_mult_imp_div_less)
  have "(of_char c :: nat) div 16 = of_char d div 16" "(of_char c :: nat) mod 16 = of_char d mod 16"
    "hex_encode s = hex_encode u"
    using Cons.prems by (auto simp: hex_encode_def t intro!: digit byte)
  moreover from this have "(of_char c :: nat) = of_char d" by (metis div_mult_mod_eq)
  ultimately show ?case using Cons.IH [of u] by (simp add: t)
qed

end
