(* ===== verification/Endpoints.thy ===== *)
theory Endpoints
  imports GoNet Manager "HOL-Library.Product_Lexorder" "HOL-Library.Multiset"
begin

text \<open>
  Where a peer may be reached (\<open>src/network/peer_manager.go\<close>): the addresses discovery has seen it at, the
  last one it was connected at, and the health score of each, which orders the attempts to reconnect; the delay
  before an attempt. The jitter of the delay is floating-point arithmetic over a random number and enters as the
  function \<open>jitter\<close> from the base delay to the jittered one (\<open>None\<close>: the fraction is not positive).
\<close>

section \<open>Tables\<close>

record Endpoints =
  discoveredEndpoints :: "(string \<times> string list) list"
  endpointHealth :: "(string \<times> (string \<times> int) list) list"

definition no_endpoints :: Endpoints where
  "no_endpoints = \<lparr>discoveredEndpoints = [], endpointHealth = []\<rparr>"

definition discoveredEndpointsForPeer :: "string \<Rightarrow> Endpoints \<Rightarrow> string list" where
  "discoveredEndpointsForPeer peer es = (case map_of (discoveredEndpoints es) peer of None \<Rightarrow> [] | Some l \<Rightarrow> l)"

definition peer_scores :: "string \<Rightarrow> Endpoints \<Rightarrow> (string \<times> int) list" where
  "peer_scores peer es = (case map_of (endpointHealth es) peer of None \<Rightarrow> [] | Some l \<Rightarrow> l)"

definition endpointHealthScore :: "string \<Rightarrow> string \<Rightarrow> Endpoints \<Rightarrow> int" where
  "endpointHealthScore peer endpoint es = (case map_of (peer_scores peer es) endpoint of None \<Rightarrow> 0 | Some v \<Rightarrow> v)"

text \<open>Trimmed, without blanks, each one once.\<close>

definition clean_endpoints :: "string list \<Rightarrow> string list" where
  "clean_endpoints endpoints = keep_first [] (filter (\<lambda>e. e \<noteq> []) (map TrimSpace endpoints))"

definition setDiscoveredEndpoints :: "string \<Rightarrow> string list \<Rightarrow> Endpoints \<Rightarrow> Endpoints" where
  "setDiscoveredEndpoints peer endpoints es =
     (let cleaned = clean_endpoints endpoints in
      if cleaned = [] then es\<lparr>discoveredEndpoints := AList.delete peer (discoveredEndpoints es)\<rparr>
      else es\<lparr>discoveredEndpoints := AList.update peer cleaned (discoveredEndpoints es)\<rparr>)"

definition adjustEndpointHealth :: "string \<Rightarrow> string \<Rightarrow> int \<Rightarrow> Endpoints \<Rightarrow> Endpoints" where
  "adjustEndpointHealth peer endpoint delta es =
     (if peer = [] \<or> endpoint = [] \<or> delta = 0 then es
      else let v = endpointHealthScore peer endpoint es + delta in
        es\<lparr>endpointHealth := AList.update peer
             (AList.update endpoint (if v < 0 then 0 else v) (peer_scores peer es)) (endpointHealth es)\<rparr>)"

definition recordEndpointSuccess :: "string \<Rightarrow> string \<Rightarrow> Endpoints \<Rightarrow> Endpoints" where
  "recordEndpointSuccess peer endpoint = adjustEndpointHealth peer endpoint 1"

definition recordEndpointFailure :: "string \<Rightarrow> string \<Rightarrow> Endpoints \<Rightarrow> Endpoints" where
  "recordEndpointFailure peer endpoint = adjustEndpointHealth peer endpoint (- 1)"

section \<open>Order of attempts\<close>

text \<open>The comparison passed to \<open>sort.SliceStable\<close>, and the stable sort it gives.\<close>

definition healthier :: "string \<Rightarrow> Endpoints \<Rightarrow> string \<Rightarrow> string \<Rightarrow> bool" where
  "healthier peer es a b =
     (if endpointHealthScore peer a es = endpointHealthScore peer b es then a < b
      else endpointHealthScore peer b es < endpointHealthScore peer a es)"

definition rank :: "string \<Rightarrow> Endpoints \<Rightarrow> string \<Rightarrow> int \<times> string" where
  "rank peer es e = (- endpointHealthScore peer e es, e)"

definition sortEndpointsByHealth :: "string \<Rightarrow> Endpoints \<Rightarrow> string list \<Rightarrow> string list" where
  "sortEndpointsByHealth peer es candidates = sort_key (rank peer es) candidates"

definition resolvePeerAddresses :: "Store \<Rightarrow> string \<Rightarrow> Endpoints \<Rightarrow> string list res" where
  "resolvePeerAddresses s peer es =
     (case GetPeer peer s of
        Inl e \<Rightarrow> Inl e
      | Inr p \<Rightarrow>
          if p_Status p = ''blocked'' \<or> p_Status p = ''pending'' then Inl (Err ''peer is not reconnectable'')
          else let stored = (case (p_LastKnownIP p, p_LastKnownPort p) of
                               (Some ip, Some port) \<Rightarrow> [JoinHostPort ip (Itoa port)] | _ \<Rightarrow> []);
                   candidates = discoveredEndpointsForPeer peer es @ stored
            in if candidates = [] then Inl (Err ''peer has no known endpoint'')
               else Inr (sortEndpointsByHealth peer es (clean_endpoints candidates)))"

text \<open>\<open>addr\<close> is \<open>conn.RemoteAddr ().String ()\<close>, \<open>None\<close> for a nil address.\<close>

definition remoteEndpoint :: "string option \<Rightarrow> string \<times> int" where
  "remoteEndpoint addr =
     (case addr of
        None \<Rightarrow> ([], 0)
      | Some a \<Rightarrow>
          (case SplitHostPort a of
             Inl _ \<Rightarrow> ([], 0)
           | Inr (host, portText) \<Rightarrow> (case Atoi portText of Inl _ \<Rightarrow> ([], 0) | Inr port \<Rightarrow> (host, port))))"

definition buildEndpointCandidates :: "string list \<Rightarrow> int \<Rightarrow> string list" where
  "buildEndpointCandidates addresses port =
     (if port \<le> 0 then []
      else keep_first [] (map (\<lambda>host. JoinHostPort host (Itoa port)) (filter (\<lambda>h. h \<noteq> []) (map TrimSpace addresses))))"

section \<open>Delays\<close>

definition defaultReconnectBackoff :: "int list" where
  "defaultReconnectBackoff = [0, 5 * Second, 15 * Second, 60 * Second]"

definition backoffForAttempt :: "int list \<Rightarrow> (int \<Rightarrow> int) option \<Rightarrow> nat \<Rightarrow> int" where
  "backoffForAttempt backoff jitter attempt =
     (if backoff = [] then 0
      else let base = (if attempt < length backoff then backoff ! attempt else backoff ! (length backoff - 1)) in
        if base \<le> 0 then 0
        else case jitter of
               None \<Rightarrow> base
             | Some f \<Rightarrow> let delay = f base in if delay < 0 then 0 else delay)"

section \<open>Lemmas\<close>

lemma healthier_rank: "healthier peer es a b \<longleftrightarrow> rank peer es a < rank peer es b"
  by (auto simp: healthier_def rank_def less_prod_def)

lemma clean_endpoints_props:
  "distinct (clean_endpoints l)" "set (clean_endpoints l) = TrimSpace ` set l - {[]}"
  by (auto simp: clean_endpoints_def)

lemma sort_endpoints_props:
  "mset (sortEndpointsByHealth peer es l) = mset l" "set (sortEndpointsByHealth peer es l) = set l"
  "distinct (sortEndpointsByHealth peer es l) = distinct l"
  "sorted_wrt (\<lambda>a b. \<not> healthier peer es b a) (sortEndpointsByHealth peer es l)"
  using sorted_sort_key [of "rank peer es" l]
  by (simp_all add: sortEndpointsByHealth_def healthier_rank sorted_wrt_map not_less)

lemma score_adjusted:
  "endpointHealthScore p e (adjustEndpointHealth peer endpoint delta es) =
     (if p = peer \<and> e = endpoint \<and> peer \<noteq> [] \<and> endpoint \<noteq> [] then max 0 (endpointHealthScore p e es + delta)
      else endpointHealthScore p e es)" if "delta \<noteq> 0"
  using that by (auto simp: adjustEndpointHealth_def endpointHealthScore_def [of _ _ "_\<lparr>endpointHealth := _\<rparr>"]
      peer_scores_def [of _ "_\<lparr>endpointHealth := _\<rparr>"] update_conv' Let_def)
     (simp_all add: endpointHealthScore_def peer_scores_def)

lemma discovered_set:
  "discoveredEndpointsForPeer p (setDiscoveredEndpoints peer l es) =
     (if p = peer then clean_endpoints l else discoveredEndpointsForPeer p es)"
  by (simp add: discoveredEndpointsForPeer_def setDiscoveredEndpoints_def Let_def update_conv' delete_conv')

lemma backoff_nonneg: "0 \<le> backoffForAttempt backoff jitter attempt"
  by (simp add: backoffForAttempt_def Let_def split: option.split)

text \<open>The scores as a run of successes and failures at addresses of peers leaves them.\<close>

definition record_result :: "string \<times> string \<times> bool \<Rightarrow> Endpoints \<Rightarrow> Endpoints" where
  "record_result r es =
     (case r of (peer, endpoint, ok) \<Rightarrow> if ok then recordEndpointSuccess peer endpoint es else recordEndpointFailure peer endpoint es)"

lemma score_nonneg:
  "\<forall>p e. 0 \<le> endpointHealthScore p e es \<Longrightarrow> 0 \<le> endpointHealthScore p e (fold record_result rs es)"
proof (induction rs arbitrary: es)
  case (Cons r rs)
  obtain peer endpoint ok where r: "r = (peer, endpoint, ok)" by (cases r)
  have "0 \<le> endpointHealthScore p e (record_result r es)" for p e
    using Cons.prems by (simp add: r record_result_def recordEndpointSuccess_def recordEndpointFailure_def score_adjusted)
  then show ?case using Cons.IH by simp
qed simp

definition results_at :: "string \<Rightarrow> string \<Rightarrow> (string \<times> string \<times> bool) list \<Rightarrow> bool list" where
  "results_at p e rs = map (\<lambda>r. snd (snd r)) (filter (\<lambda>r. fst r = p \<and> fst (snd r) = e) rs)"

section \<open>Properties\<close>

text \<open>The score of an address is the saturating counter of its own results: one up for every connection made,
  one down, but not below zero, for every attempt that failed, whatever was recorded of other addresses and peers
  in between. Scores of the empty peer or address stay zero.\<close>

theorem endpoint_score_counts:
  "endpointHealthScore p e (fold record_result rs no_endpoints) =
     (if p = [] \<or> e = [] then 0
      else fold (\<lambda>ok v. if ok then v + 1 else max 0 (v - 1)) (results_at p e rs) 0)"
proof -
  let ?f = "\<lambda>(ok :: bool) (v :: int). if ok then v + 1 else max 0 (v - 1)"
  have "0 \<le> endpointHealthScore p e es \<Longrightarrow> endpointHealthScore p e (fold record_result rs es) =
     (if p = [] \<or> e = [] then endpointHealthScore p e es
      else fold ?f (results_at p e rs) (endpointHealthScore p e es))" for es
  proof (induction rs arbitrary: es)
    case (Cons r rs)
    obtain peer endpoint ok where r: "r = (peer, endpoint, ok)" by (cases r)
    have step: "endpointHealthScore p e (record_result r es) =
        (if p = peer \<and> e = endpoint \<and> p \<noteq> [] \<and> e \<noteq> [] then ?f ok (endpointHealthScore p e es)
         else endpointHealthScore p e es)"
      using Cons.prems
      by (auto simp: r record_result_def recordEndpointSuccess_def recordEndpointFailure_def score_adjusted)
    then have "0 \<le> endpointHealthScore p e (record_result r es)" using Cons.prems by auto
    from Cons.IH [OF this] show ?case by (simp add: step) (auto simp: results_at_def r)
  qed (simp add: results_at_def)
  moreover have "endpointHealthScore p e no_endpoints = 0"
    by (simp add: endpointHealthScore_def peer_scores_def no_endpoints_def)
  ultimately show ?thesis by simp
qed

text \<open>A peer that is stored and neither blocked nor pending, with an address discovered or remembered, is tried at
  every such address once, blanks trimmed, in falling order of health and alphabetically among equals; there is
  nothing to try for any other peer, and the error of the store is passed on.\<close>

theorem resolvePeerAddresses_outcome:
  "case GetPeer peer s of
     Inl e \<Rightarrow> resolvePeerAddresses s peer es = Inl e
   | Inr p \<Rightarrow>
       let known = discoveredEndpointsForPeer peer es @
             (case (p_LastKnownIP p, p_LastKnownPort p) of (Some ip, Some port) \<Rightarrow> [JoinHostPort ip (Itoa port)] | _ \<Rightarrow> [])
       in if p_Status p \<in> {''blocked'', ''pending''} \<or> known = [] then isl (resolvePeerAddresses s peer es)
          else \<exists>addresses. resolvePeerAddresses s peer es = Inr addresses \<and> distinct addresses \<and>
            set addresses = TrimSpace ` set known - {[]} \<and> sorted_wrt (\<lambda>a b. \<not> healthier peer es b a) addresses"
  by (simp add: resolvePeerAddresses_def Let_def clean_endpoints_props sort_endpoints_props split: sum.split)

end
