(* ===== verification/Device.thy ===== *)
theory Device
  imports Rekey FileSend Endpoints
begin

text \<open>
  The whole state of \<open>PeerManager\<close> (\<open>src/network/peer_manager.go\<close>) and the small operations of its life cycle.

  A \<open>Device\<close> is the node of theory \<open>FileTypes\<close> with the fields that only connecting, adding and reconnecting use,
  the listener (\<open>src/network/server.go\<close>), and its goroutines: \<open>dv_loops\<close> are the goroutines that read a connection,
  \<open>dv_workers\<close> those that reconnect to a peer, \<open>dv_drains\<close> those that send a peer's queue, \<open>dv_add_waits\<close> the calls
  of \<open>SendPeerAddRequest\<close> that wait, \<open>dv_closing\<close> those that close a connection after a removal was sent. A channel a
  goroutine waits on is a numbered box; \<open>outboundAddResponse\<close> and \<open>inboundAddPending\<close> hold the numbers. \<open>dv_remote\<close> is the
  text of a connection's remote address, \<open>dv_conns\<close> the number of connections made so far, \<open>dv_states\<close> records the
  calls of \<open>OnPeerRuntimeStateChanged\<close>. \<open>OnKeyChange\<close> is a function; what \<open>ApproveAddRequest\<close> and \<open>OnFileRequest\<close> answer is
  an argument of the operation that asks. A jitter fraction is a rational number. The empty connection state of a zero
  \<open>PeerRuntimeState\<close> stands as \<open>StateDisconnected\<close>.
\<close>

section \<open>Options\<close>

record PeerManagerOptions =
  pm_Identity :: LocalIdentity
  pm_ListenAddress :: string
  pm_ApproveAddRequest :: bool
  pm_OnKeyChange :: "(string \<Rightarrow> string \<Rightarrow> string \<Rightarrow> bool res) option"
  pm_ReconnectBackoff :: "int list"
  pm_MaxReconnectAttempts :: int
  pm_ReconnectJitterFraction :: rat
  pm_AddResponseTimeout :: int
  pm_AddRequestCooldown :: int
  pm_ConnectionTimeout :: int
  pm_KeepAliveInterval :: int
  pm_KeepAliveTimeout :: int
  pm_FrameReadTimeout :: int
  pm_RekeyInterval :: int
  pm_RekeyAfterBytes :: nat
  pm_RekeyResponseTimeout :: int
  pm_AutoRespondPing :: "bool option"
  pm_ConnectionRateLimitPerIP :: int
  pm_ConnectionRateLimitWindow :: int
  pm_FileRequestRateLimit :: int
  pm_FileRequestWindow :: int
  pm_FilesDir :: string
  pm_MaxReceiveFileSize :: int
  pm_GetDownloadDirectory :: "string option"
  pm_GetMaxReceiveFileSize :: "int option"
  pm_GetMessageRetentionDays :: "int option"
  pm_GetCleanupDownloadedFiles :: "bool option"
  pm_FileChunkSize :: int
  pm_FileResponseTimeout :: int
  pm_FileCompleteTimeout :: int
  pm_MaxChunkRetries :: int
  pm_OnFileRequest :: bool

section \<open>State\<close>

record PeerRuntimeState =
  ps_PeerDeviceID :: string
  ps_ConnectionState :: ConnectionState
  ps_Reconnecting :: bool
  ps_NextReconnectAt :: int

record AddRequestNotification =
  an_PeerDeviceID :: string
  an_PeerDeviceName :: string

text \<open>Where the goroutine of a connection stands: reading, waiting for the user's answer to an add request (the box it
  waits on), or waiting after the connection has ended.\<close>

datatype loop_phase = Receiving | Deciding nat | InGrace

text \<open>Where a reconnecting goroutine stands: before an attempt, waiting for the time of it, or trying addresses.\<close>

datatype worker_phase = Trying | Pausing | Dialing "string list"

record Worker =
  wk_peer :: string
  wk_attempt :: nat
  wk_phase :: worker_phase
  wk_canceled :: bool

record AddWait =
  aw_box :: nat
  aw_peer :: string
  aw_conn :: nat
  aw_response :: "PeerAddResponse option"

record Server =
  sr_options :: HandshakeOptions
  sr_rates :: ConnRates
  sr_incoming :: "nat list"
  sr_errs :: "go_error list"
  sr_closed :: bool

record Device =
  dv_node :: Node
  dv_options :: PeerManagerOptions
  dv_started :: bool
  dv_server :: "Server option"
  dv_endpoints :: Endpoints
  inboundAddPending :: "(string \<times> nat) list"
  dv_decisions :: "(nat \<times> bool) list"
  addRequests :: "AddRequestNotification list"
  dv_add_waits :: "AddWait list"
  activeDrains :: "string list"
  dv_drains :: "(string \<times> nat) list"
  runtimeStates :: "(string \<times> PeerRuntimeState) list"
  dv_states :: "PeerRuntimeState list"
  dv_loops :: "(nat \<times> loop_phase) list"
  dv_workers :: "Worker list"
  dv_closing :: "nat list"
  dv_remote :: "nat \<Rightarrow> string option"
  dv_conns :: nat
  dv_boxes :: nat

section \<open>A new manager\<close>

definition default_manager_options :: "PeerManagerOptions \<Rightarrow> PeerManagerOptions" where
  "default_manager_options opts =
     opts\<lparr>pm_AddResponseTimeout := or_default (pm_AddResponseTimeout opts) (15 * Second),
       pm_AddRequestCooldown := or_default (pm_AddRequestCooldown opts) (30 * Second),
       pm_ConnectionRateLimitPerIP := or_default (pm_ConnectionRateLimitPerIP opts) 5,
       pm_ConnectionRateLimitWindow := or_default (pm_ConnectionRateLimitWindow opts) (60 * Second),
       pm_ReconnectBackoff := (if pm_ReconnectBackoff opts = [] then defaultReconnectBackoff else pm_ReconnectBackoff opts),
       pm_MaxReconnectAttempts := or_default (pm_MaxReconnectAttempts opts) 50,
       pm_ReconnectJitterFraction :=
         (let f = (if pm_ReconnectJitterFraction opts \<le> 0 then 1 / 4 else pm_ReconnectJitterFraction opts) in if f > 1 then 1 else f),
       pm_FileRequestRateLimit := or_default (pm_FileRequestRateLimit opts) 5,
       pm_FileRequestWindow := or_default (pm_FileRequestWindow opts) (60 * Second),
       pm_FileChunkSize := or_default (pm_FileChunkSize opts) (256 * 1024),
       pm_FileResponseTimeout := or_default (pm_FileResponseTimeout opts) (10 * Second),
       pm_FileCompleteTimeout := or_default (pm_FileCompleteTimeout opts) (5 * 60 * Second),
       pm_MaxChunkRetries := or_default (pm_MaxChunkRetries opts) 3,
       pm_RekeyResponseTimeout := or_default (pm_RekeyResponseTimeout opts) (15 * Second),
       pm_FilesDir := (if pm_FilesDir opts = [] then ''./files'' else pm_FilesDir opts),
       pm_MaxReceiveFileSize := (if pm_MaxReceiveFileSize opts < 0 then 0 else pm_MaxReceiveFileSize opts)\<rparr>"

definition validate_manager_options :: "PeerManagerOptions \<Rightarrow> bool \<Rightarrow> go_error option" where
  "validate_manager_options opts has_store =
     (if \<not> has_store then Some (Err ''store is required'')
      else if id_DeviceID (pm_Identity opts) = [] then Some (Err ''identity.device_id is required'')
      else if id_DeviceName (pm_Identity opts) = [] then Some (Err ''identity.device_name is required'')
      else if length (id_Ed25519PrivateKey (pm_Identity opts)) \<noteq> PrivateKeySize then
        Some (Err ''identity.ed25519_private_key is invalid'')
      else if length (id_Ed25519PublicKey (pm_Identity opts)) \<noteq> PublicKeySize then
        Some (Err ''identity.ed25519_public_key is invalid'')
      else None)"

definition new_node :: "PeerManagerOptions \<Rightarrow> Store \<Rightarrow> Disk \<Rightarrow> (nat \<Rightarrow> Conn) \<Rightarrow> Node" where
  "new_node opts s disk heap =
     \<lparr>nd_mgr =
        \<lparr>mg_identity = pm_Identity opts, localDeviceName = id_DeviceName (pm_Identity opts), mg_store = s, mg_heap = heap,
         connections = [], knownKeys = [], outboundAddPending = [], outboundAddResponse = [], suppressReconnect = [],
         reconnectWorkers = [], lastAddRequestAt = [], addRequestCooldown = pm_AddRequestCooldown opts,
         fileRates = \<lparr>fileRequestHistory = [], fileRequestSeenIDs = []\<rparr>, pendingRekeyWaiters = [], mg_waiter_seq = 0,
         mg_errors = [], mg_received = [], mg_sent = [], mg_overflow = [], mg_stopped = False\<rparr>,
      nd_options =
        \<lparr>FilesDir = pm_FilesDir opts, MaxReceiveFileSize = pm_MaxReceiveFileSize opts,
         GetDownloadDirectory = pm_GetDownloadDirectory opts, GetMaxReceiveFileSize = pm_GetMaxReceiveFileSize opts,
         FileChunkSize = pm_FileChunkSize opts, FileResponseTimeout = pm_FileResponseTimeout opts,
         MaxChunkRetries = nat (pm_MaxChunkRetries opts), FileRequestRateLimit = pm_FileRequestRateLimit opts,
         FileRequestWindow = pm_FileRequestWindow opts, OnFileRequest = pm_OnFileRequest opts\<rparr>,
      nd_disk = disk, outboundFileTransfers = [], inboundFileTransfers = [], inboundFolderTransfers = [],
      pendingFileApprovals = [], recentFileDecisions = [], outboundFileEventChans = [], outboundFolderEventChans = [],
      outboundTransferQueue = [], activeOutboundTransfer = [], nd_progress = [], nd_approvals = [], nd_runs = []\<rparr>"

text \<open>The store may be nil. \<open>heap\<close> says what the numbers of connections not yet made stand for; nothing reads them.\<close>

definition NewPeerManager :: "PeerManagerOptions \<Rightarrow> Store option \<Rightarrow> Disk \<Rightarrow> (nat \<Rightarrow> Conn) \<Rightarrow> Device res" where
  "NewPeerManager options store disk heap =
     (case (validate_manager_options options (store \<noteq> None), store) of
        (Some e, _) \<Rightarrow> Inl e
      | (None, None) \<Rightarrow> Inl (Err ''store is required'')
      | (None, Some s) \<Rightarrow>
          let opts = default_manager_options options in
          Inr \<lparr>dv_node = new_node opts s disk heap, dv_options = opts, dv_started = False, dv_server = None,
               dv_endpoints = no_endpoints, inboundAddPending = [], dv_decisions = [], addRequests = [],
               dv_add_waits = [], activeDrains = [], dv_drains = [], runtimeStates = [], dv_states = [], dv_loops = [],
               dv_workers = [], dv_closing = [], dv_remote = (\<lambda>_. None), dv_conns = 0, dv_boxes = 0\<rparr>)"

section \<open>Acting on the node\<close>

abbreviation dv_mgr :: "Device \<Rightarrow> Manager" where
  "dv_mgr d \<equiv> nd_mgr (dv_node d)"

definition new_worker :: "string \<Rightarrow> Worker" where
  "new_worker peer = \<lparr>wk_peer = peer, wk_attempt = 0, wk_phase = Trying, wk_canceled = False\<rparr>"

text \<open>Whatever makes an entry in the map of reconnecting goroutines starts one.\<close>

definition put_node :: "Node \<Rightarrow> Device \<Rightarrow> Device" where
  "put_node n d =
     d\<lparr>dv_node := n,
       dv_workers := dv_workers d @
         map new_worker (filter (\<lambda>p. p \<notin> set (reconnectWorkers (dv_mgr d))) (reconnectWorkers (nd_mgr n)))\<rparr>"

definition on_node :: "(Node \<Rightarrow> Node) \<Rightarrow> Device \<Rightarrow> Device" where
  "on_node f d = put_node (f (dv_node d)) d"

definition run_node :: "(Node \<Rightarrow> 'r \<times> Node) \<Rightarrow> Device \<Rightarrow> 'r \<times> Device" where
  "run_node f d = (let (r, n) = f (dv_node d) in (r, put_node n d))"

definition on_manager :: "(Manager \<Rightarrow> Manager) \<Rightarrow> Device \<Rightarrow> Device" where
  "on_manager f = on_node (on_mgr f)"

definition run_manager :: "(Manager \<Rightarrow> 'r \<times> Manager) \<Rightarrow> Device \<Rightarrow> 'r \<times> Device" where
  "run_manager f = run_node (run_mgr f)"

definition dv_report :: "go_error \<Rightarrow> Device \<Rightarrow> Device" where
  "dv_report e = on_manager (reportError e)"

definition dv_statement :: "stmt \<Rightarrow> Device \<Rightarrow> go_error option \<times> Device" where
  "dv_statement f = run_manager (on_store f)"

definition dv_send :: "FileEnv \<Rightarrow> nat \<Rightarrow> Packet \<Rightarrow> Device \<Rightarrow> go_error option \<times> Device" where
  "dv_send fe i p = run_manager (send (fe_env fe) i p)"

definition dv_log :: "FileEnv \<Rightarrow> string \<Rightarrow> string \<Rightarrow> string \<Rightarrow> (string \<times> string) list \<Rightarrow> Device \<Rightarrow> Device" where
  "dv_log fe event peer severity details = on_manager (logSecurityEvent (fe_env fe) event peer severity details)"

text \<open>Report an error unless it is of the given kind.\<close>

definition dv_report_unless :: "go_error \<Rightarrow> go_error option \<Rightarrow> Device \<Rightarrow> Device" where
  "dv_report_unless kind r d =
     (case r of None \<Rightarrow> d | Some e \<Rightarrow> if errors_Is e kind then d else dv_report e d)"

section \<open>Runtime states\<close>

definition PeerConnectionState :: "string \<Rightarrow> Device \<Rightarrow> ConnectionState" where
  "PeerConnectionState peer d =
     (case getConnection peer (dv_mgr d) of None \<Rightarrow> StateDisconnected | Some i \<Rightarrow> conn_state (mg_heap (dv_mgr d) i))"

definition zero_state :: PeerRuntimeState where
  "zero_state = \<lparr>ps_PeerDeviceID = [], ps_ConnectionState = StateDisconnected, ps_Reconnecting = False, ps_NextReconnectAt = 0\<rparr>"

definition PeerRuntimeStateSnapshot :: "string \<Rightarrow> Device \<Rightarrow> PeerRuntimeState" where
  "PeerRuntimeStateSnapshot peer d =
     (if TrimSpace peer = [] then zero_state
      else let s = (case map_of (runtimeStates d) peer of None \<Rightarrow> zero_state | Some s \<Rightarrow> s) in
        if ps_PeerDeviceID s = [] then s\<lparr>ps_PeerDeviceID := peer, ps_ConnectionState := StateDisconnected\<rparr> else s)"

text \<open>\<open>reconnectAt\<close> is \<open>None\<close> for the zero time.\<close>

definition updateRuntimeState :: "string \<Rightarrow> ConnectionState \<Rightarrow> int option \<Rightarrow> Device \<Rightarrow> Device" where
  "updateRuntimeState peer state reconnectAt d =
     (if TrimSpace peer = [] then d
      else let new = \<lparr>ps_PeerDeviceID = peer, ps_ConnectionState = state, ps_Reconnecting = reconnectAt \<noteq> None,
                      ps_NextReconnectAt = (case reconnectAt of None \<Rightarrow> 0 | Some t \<Rightarrow> now_ms t)\<rparr>
        in if map_of (runtimeStates d) peer = Some new then d
           else d\<lparr>runtimeStates := AList.update peer new (runtimeStates d), dv_states := dv_states d @ [new]\<rparr>)"

section \<open>Reconnecting goroutines\<close>

definition dv_startReconnect :: "string \<Rightarrow> Device \<Rightarrow> Device" where
  "dv_startReconnect peer = on_manager (startReconnect peer)"

text \<open>The entry of the map belongs to the goroutine started last for the peer.\<close>

fun cancel_first :: "string \<Rightarrow> Worker list \<Rightarrow> Worker list" where
  "cancel_first peer [] = []"
| "cancel_first peer (w # ws) =
     (if wk_peer w = peer then w\<lparr>wk_canceled := True\<rparr> # ws else w # cancel_first peer ws)"

definition cancel_worker :: "string \<Rightarrow> Device \<Rightarrow> Device" where
  "cancel_worker peer d =
     (if peer \<in> set (reconnectWorkers (dv_mgr d))
      then d\<lparr>dv_workers := rev (cancel_first peer (rev (dv_workers d)))\<rparr> else d)"

definition idle_if_unconnected :: "string \<Rightarrow> Device \<Rightarrow> Device" where
  "idle_if_unconnected peer d =
     (if getConnection peer (dv_mgr d) = None then updateRuntimeState peer StateDisconnected None d else d)"

definition dv_stopReconnect :: "string \<Rightarrow> Device \<Rightarrow> Device" where
  "dv_stopReconnect peer d = idle_if_unconnected peer (on_manager (stopReconnect peer) (cancel_worker peer d))"

section \<open>Draining a queue\<close>

definition startQueueDrain :: "string \<Rightarrow> nat \<Rightarrow> Device \<Rightarrow> Device" where
  "startQueueDrain peer i d =
     (if peer = [] then d
      else if peer \<in> set (activeDrains d) then d
      else d\<lparr>activeDrains := List.insert peer (activeDrains d), dv_drains := dv_drains d @ [(peer, i)]\<rparr>)"

text \<open>A drain runs, and its goroutine ends.\<close>

definition queue_drained :: "(nat \<Rightarrow> Env) \<Rightarrow> string \<Rightarrow> nat \<Rightarrow> Device \<Rightarrow> Device" where
  "queue_drained envs peer i d =
     (let (r, d1) = run_manager (drainPendingMessages envs peer i) d;
          d2 = (case r of Some (Some e) \<Rightarrow> dv_report e d1 | _ \<Rightarrow> d1)
      in d2\<lparr>activeDrains := removeAll peer (activeDrains d2), dv_drains := remove1 (peer, i) (dv_drains d2)\<rparr>)"

section \<open>Names and the local row\<close>

definition identitySnapshot :: "Device \<Rightarrow> LocalIdentity" where
  "identitySnapshot d = (mg_identity (dv_mgr d))\<lparr>id_DeviceName := localDeviceName (dv_mgr d)\<rparr>"

definition dv_UpdateDeviceName :: "string \<Rightarrow> Device \<Rightarrow> go_error option \<times> Device" where
  "dv_UpdateDeviceName name d =
     (let deviceName = TrimSpace name in
      if deviceName = [] then (Some (Err ''device name is required''), d)
      else let d1 = on_manager (\<lambda>m. m\<lparr>localDeviceName := deviceName\<rparr>) d in
        case dv_statement (UpdatePeerDeviceName (local_id (dv_mgr d)) deviceName) d1 of
          (None, d2) \<Rightarrow> (None, d2)
        | (Some e, d2) \<Rightarrow> (if errors_Is e ErrNotFound then None else Some e, d2))"

definition local_row :: "FileEnv \<Rightarrow> Manager \<Rightarrow> Peer" where
  "local_row fe m =
     \<lparr>p_DeviceID = local_id m, p_DeviceName = localDeviceName m,
      p_Ed25519PublicKey = EncodeToString (id_Ed25519PublicKey (mg_identity m)),
      p_KeyFingerprint = KeyFingerprint (en_P (fe_env fe)) (id_Ed25519PublicKey (mg_identity m)),
      p_Status = ''blocked'', p_AddedTimestamp = fe_ms fe, p_LastSeenTimestamp = Some (fe_ms fe),
      p_LastKnownIP = None, p_LastKnownPort = None\<rparr>"

definition ensureLocalPeerRecord :: "FileEnv \<Rightarrow> Device \<Rightarrow> go_error option \<times> Device" where
  "ensureLocalPeerRecord fe d =
     (case GetPeer (local_id (dv_mgr d)) (mg_store (dv_mgr d)) of
        Inr _ \<Rightarrow> (None, d)
      | Inl e \<Rightarrow> if \<not> errors_Is e ErrNotFound then (Some e, d)
                else dv_statement (AddPeer (fe_ms fe) (local_row fe (dv_mgr d))) d)"

definition load_keys :: "Peer list \<Rightarrow> Manager \<Rightarrow> Manager" where
  "load_keys peers m =
     foldl (\<lambda>m p. if p_Ed25519PublicKey p \<noteq> [] then setKnownKey (p_DeviceID p) (p_Ed25519PublicKey p) m else m) m peers"

definition loadKnownPeers :: "Device \<Rightarrow> Device" where
  "loadKnownPeers d = on_manager (load_keys (ListPeers (mg_store (dv_mgr d)))) d"

end
