(* ===== verification/Lifecycle.thy ===== *)
theory Lifecycle
  imports Device FileReceive
begin

text \<open>
  The life cycle of peers in \<open>src/network/peer_manager.go\<close>: starting and stopping, accepting and dialling
  connections (with \<open>src/network/server.go\<close>), the goroutine of each connection, adding and removing peers, key
  changes, and reconnecting. A goroutine is a function per step between two points where it waits; what it is
  woken by is an argument. Wherever the code asks its user (\<open>ApproveAddRequest\<close>, \<open>OnFileRequest\<close>) the answer is the
  argument \<open>decision\<close>.
\<close>

section \<open>Keys\<close>

text \<open>The decision about a changed key, and what it leaves in the store and among the known keys.\<close>

definition handleKeyChangeDecision ::
    "Env \<Rightarrow> (string \<Rightarrow> string \<Rightarrow> string \<Rightarrow> bool res) option \<Rightarrow> string \<Rightarrow> string \<Rightarrow> string \<Rightarrow> Manager \<Rightarrow> bool res \<times> Manager" where
  "handleKeyChangeDecision env onKeyChange peer existing received m =
     (case (case onKeyChange of None \<Rightarrow> Inr False | Some f \<Rightarrow> f peer existing received) of
        Inl e \<Rightarrow> (Inl e, m)
      | Inr trust \<Rightarrow>
     (case fingerprintFromBase64 (en_P env) existing of
        Inl e \<Rightarrow> (Inl e, m)
      | Inr oldFingerprint \<Rightarrow>
     (case fingerprintFromBase64 (en_P env) received of
        Inl e \<Rightarrow> (Inl e, m)
      | Inr newFingerprint \<Rightarrow>
          let decision = (if trust then ''trusted'' else ''rejected'');
              severity = (if trust then ''info'' else ''warning'')
          in (case on_store (RecordKeyRotationEvent (env_ms env)
                     \<lparr>k_ID = 0, k_PeerDeviceID = peer, k_OldKeyFingerprint = oldFingerprint,
                      k_NewKeyFingerprint = newFingerprint, k_Decision = decision, k_Timestamp = env_ms env\<rparr>) m of
                (Some e, m1) \<Rightarrow> (Inl e, m1)
              | (None, m1) \<Rightarrow>
                  let m2 = logSecurityEvent env ''key_rotation_decision'' peer severity
                        [(''decision'', decision), (''old_key_fingerprint'', oldFingerprint),
                         (''new_key_fingerprint'', newFingerprint)] m1;
                      (r, m3) = on_store (ResetPeerVerified peer) m2;
                      accept = (if \<not> trust then (Inr False, m3)
                                else (case on_store (UpdatePeerIdentity peer received newFingerprint) m3 of
                                        (Some e, m4) \<Rightarrow> (Inl e, m4)
                                      | (None, m4) \<Rightarrow> (Inr True, setKnownKey peer received m4)))
                  in (case r of
                        Some e \<Rightarrow> if \<not> errors_Is e ErrNotFound then (Inl e, m3) else accept
                      | None \<Rightarrow> accept)))))"

section \<open>The row of a connected peer\<close>

definition new_peer_row :: "FileEnv \<Rightarrow> nat \<Rightarrow> string \<Rightarrow> string \<Rightarrow> Device \<Rightarrow> Peer" where
  "new_peer_row fe i status fingerprint d =
     (let c = mg_heap (dv_mgr d) i; (ip, port) = remoteEndpoint (dv_remote d i); known = ip \<noteq> [] \<and> port > 0
      in \<lparr>p_DeviceID = peerDeviceID c, p_DeviceName = peerDeviceName c, p_Ed25519PublicKey = peerPublicKey c,
          p_KeyFingerprint = fingerprint, p_Status = status, p_AddedTimestamp = fe_ms fe,
          p_LastSeenTimestamp = Some (fe_ms fe), p_LastKnownIP = (if known then Some ip else None),
          p_LastKnownPort = (if known then Some port else None)\<rparr>)"

definition add_connected_peer :: "FileEnv \<Rightarrow> nat \<Rightarrow> string \<Rightarrow> Device \<Rightarrow> go_error option \<times> Device" where
  "add_connected_peer fe i status d =
     (let c = mg_heap (dv_mgr d) i; peer = peerDeviceID c in
      case fingerprintFromBase64 (en_P (fe_env fe)) (peerPublicKey c) of
        Inl e \<Rightarrow> (Some e, d)
      | Inr fingerprint \<Rightarrow>
          (case dv_statement (AddPeer (fe_ms fe) (new_peer_row fe i status fingerprint d)) d of
             (Some e, d1) \<Rightarrow> (Some e, d1)
           | (None, d1) \<Rightarrow>
               (case dv_statement (EnsurePeerSettingsExist peer) d1 of
                  (Some e, d2) \<Rightarrow> (Some e, d2)
                | (None, d2) \<Rightarrow> (None, on_manager (setKnownKey peer (peerPublicKey c)) d2))))"

definition persistPeerConnection :: "FileEnv \<Rightarrow> nat \<Rightarrow> string \<Rightarrow> bool \<Rightarrow> Device \<Rightarrow> go_error option \<times> Device" where
  "persistPeerConnection fe i status createIfMissing d =
     (let c = mg_heap (dv_mgr d) i; peer = peerDeviceID c; (ip, port) = remoteEndpoint (dv_remote d i) in
      if peer = [] then (Some (Err ''peer ID is required''), d)
      else case GetPeer peer (mg_store (dv_mgr d)) of
        Inl e \<Rightarrow> if \<not> errors_Is e ErrNotFound then (Some e, d)
                 else if \<not> createIfMissing then (Some ErrNotFound, d)
                 else add_connected_peer fe i status d
      | Inr existing \<Rightarrow>
          let (r, d1) = dv_statement (UpdatePeerStatus peer status (fe_ms fe)) d in
          if (case r of None \<Rightarrow> False | Some e \<Rightarrow> \<not> errors_Is e ErrNotFound) then (r, d1)
          else
            let d2 = (if ip \<noteq> [] \<and> port > 0 then snd (dv_statement (UpdatePeerEndpoint peer ip port (fe_ms fe)) d1) else d1)
            in (None, if p_Ed25519PublicKey existing = [] \<and> peerPublicKey c \<noteq> []
                      then on_manager (setKnownKey peer (peerPublicKey c)) d2 else d2))"

section \<open>Connections\<close>

definition allow_rekeying :: "nat \<Rightarrow> Manager \<Rightarrow> Manager" where
  "allow_rekeying i m = set_conn i ((mg_heap m i)\<lparr>onRekeyNeeded := True\<rparr>) m"

definition replace_connection :: "string \<Rightarrow> nat \<Rightarrow> Manager \<Rightarrow> Manager" where
  "replace_connection peer i m =
     (let m1 = m\<lparr>connections := AList.update peer i (connections m)\<rparr> in
      case getConnection peer m of
        Some j \<Rightarrow> if j \<noteq> i then close_conn j m1 else m1
      | None \<Rightarrow> m1)"

definition registerConnection :: "FileEnv \<Rightarrow> nat \<Rightarrow> Device \<Rightarrow> Device" where
  "registerConnection fe i d =
     (let peer = peer_of (dv_mgr d) i in
      if peer = [] then on_manager (close_conn i) d
      else
        let d1 = on_manager (replace_connection peer i) (on_manager (allow_rekeying i) d);
            d2 = dv_stopReconnect peer d1;
            d3 = updateRuntimeState peer (conn_state (mg_heap (dv_mgr d2) i)) None d2;
            (r, d4) = persistPeerConnection fe i ''online'' False d3;
            d5 = startQueueDrain peer i (dv_report_unless ErrNotFound r d4);
            d6 = on_node (startOutboundFileTransferDrain peer) d5
        in d6\<lparr>dv_loops := dv_loops d6 @ [(i, Receiving)]\<rparr>)"

text \<open>A connection made by a handshake, with the text of its remote address.\<close>

definition make_connection :: "HandshakeOptions \<Rightarrow> Session \<Rightarrow> int \<Rightarrow> string option \<Rightarrow> Device \<Rightarrow> nat \<times> Device" where
  "make_connection opts session now remote d =
     (let i = dv_conns d in
      (i, on_manager (set_conn i (newPeerConnection opts session now)) d
            \<lparr>dv_conns := i + 1, dv_remote := (dv_remote d)(i := remote)\<rparr>))"

definition isHandshakeFailureError :: "go_error \<Rightarrow> bool" where
  "isHandshakeFailureError e \<longleftrightarrow>
     (if errors_Is e ErrKeyChanged then True
      else let msg = ToLower (error_text e) in
        if Contains msg ''accept connection'' then False else Contains msg ''handshake'' \<or> Contains msg ''key_changed'')"

text \<open>The options of a handshake; the listener keeps those it was started with.\<close>

definition handshake_options :: "(string \<Rightarrow> string \<Rightarrow> string \<Rightarrow> bool res) \<Rightarrow> Device \<Rightarrow> HandshakeOptions" where
  "handshake_options decide d =
     (let opts = dv_options d; m = dv_mgr d in
      \<lparr>o_Identity = identitySnapshot d,
       o_KnownPeerKeys = (\<lambda>p. case map_of (knownKeys m) p of None \<Rightarrow> [] | Some k \<Rightarrow> k),
       o_KnownPeerKeyLookup = Some (\<lambda>p. lookupKnownKey p m), o_OnKeyChangeDecision = Some decide,
       o_ConnectionTimeout = pm_ConnectionTimeout opts, o_KeepAliveInterval = pm_KeepAliveInterval opts,
       o_KeepAliveTimeout = pm_KeepAliveTimeout opts, o_FrameReadTimeout = pm_FrameReadTimeout opts,
       o_RekeyInterval = pm_RekeyInterval opts, o_RekeyAfterBytes = pm_RekeyAfterBytes opts,
       o_AutoRespondPing = pm_AutoRespondPing opts,
       o_ConnectionRateLimitPerIP = pm_ConnectionRateLimitPerIP opts,
       o_ConnectionRateLimitWindow = pm_ConnectionRateLimitWindow opts\<rparr>)"

text \<open>
  A handshake calls \<open>OnKeyChangeDecision\<close> at most once. \<open>asked\<close> tells whether and with what: it is run with a callback
  that answers with an error carrying its arguments, which no other step of a handshake returns.
\<close>

definition probe :: "string \<Rightarrow> string \<Rightarrow> string \<Rightarrow> bool res" where
  "probe peer existing received = Inl (Wrap peer (Wrap existing (Err received)))"

definition asked :: "go_error \<Rightarrow> (string \<times> string \<times> string) option" where
  "asked e =
     (case e of
        Wrap what (Wrap peer (Wrap existing (Err received))) \<Rightarrow>
          if what = ''key change decision'' then Some (peer, existing, received) else None
      | _ \<Rightarrow> None)"

definition decide_key :: "FileEnv \<Rightarrow> Device \<Rightarrow> string \<Rightarrow> string \<Rightarrow> string \<Rightarrow> bool res \<times> Manager" where
  "decide_key fe d peer existing received =
     handleKeyChangeDecision (fe_env fe) (pm_OnKeyChange (dv_options d)) peer existing received (dv_mgr d)"

definition after_question :: "FileEnv \<Rightarrow> (string \<times> string \<times> string) option \<Rightarrow> Device \<Rightarrow> Device" where
  "after_question fe question d =
     (case question of
        None \<Rightarrow> d
      | Some (peer, existing, received) \<Rightarrow> on_manager (\<lambda>_. snd (decide_key fe d peer existing received)) d)"

definition dialAndRegister :: "FileEnv \<Rightarrow> DialNet \<Rightarrow> string option \<Rightarrow> string \<Rightarrow> Device \<Rightarrow> nat res \<times> Device" where
  "dialAndRegister fe net remote address d =
     (let env = fe_env fe;
          run = (\<lambda>decide. Dial (en_P env) (en_J env) (handshake_options decide d) (env_ms env) (en_eph env) net);
          question = (case run probe of Inl e \<Rightarrow> asked e | Inr _ \<Rightarrow> None);
          d1 = after_question fe question d
      in case run (\<lambda>p old new. fst (decide_key fe d p old new)) of
           Inl e \<Rightarrow>
             (Inl e, if isHandshakeFailureError e
                     then dv_log fe ''handshake_failure'' [] ''warning''
                       [(''direction'', ''outbound''), (''address'', address), (''error'', error_text e)] d1
                     else d1)
         | Inr session \<Rightarrow>
             let (i, d2) = make_connection (handshake_options probe d) session (en_now env) remote d1
             in (Inr i, registerConnection fe i d2))"

definition Connect :: "FileEnv \<Rightarrow> DialNet \<Rightarrow> string option \<Rightarrow> string \<Rightarrow> Device \<Rightarrow> nat res \<times> Device" where
  "Connect fe net remote address d =
     (if \<not> dv_started d then (Inl (Err ''peer manager is not started''), d) else dialAndRegister fe net remote address d)"

section \<open>The listener\<close>

definition server_push :: "go_error \<Rightarrow> Server \<Rightarrow> Server" where
  "server_push e srv = (if length (sr_errs srv) < 16 then srv\<lparr>sr_errs := sr_errs srv @ [e]\<rparr> else srv)"

definition server_reportError :: "go_error \<Rightarrow> Server \<Rightarrow> Server" where
  "server_reportError e srv = (if errors_Is e ErrClosed then srv else server_push e srv)"

text \<open>\<open>listen\<close> is the error of \<open>net.Listen\<close>.\<close>

definition Listen :: "go_error option \<Rightarrow> HandshakeOptions \<Rightarrow> Server res" where
  "Listen listen options =
     (let opts = withDefaults options in
      case validateIdentity opts of
        Some e \<Rightarrow> Inl e
      | None \<Rightarrow>
          (case listen of
             Some e \<Rightarrow> Inl (Wrap ''listen'' e)
           | None \<Rightarrow> Inr \<lparr>sr_options = opts, sr_rates = \<lparr>connectionRates = [], lastRateLimiterPrune = None\<rparr>,
                         sr_incoming = [], sr_errs = [], sr_closed = False\<rparr>))"

definition on_server :: "(Server \<Rightarrow> Server) \<Rightarrow> Device \<Rightarrow> Device" where
  "on_server f d = d\<lparr>dv_server := map_option f (dv_server d)\<rparr>"

text \<open>\<open>tcp\<close> is the IP of a TCP address, \<open>text\<close> what any other address prints as.\<close>

definition remoteIPFromAddr :: "string option \<Rightarrow> string option \<Rightarrow> string" where
  "remoteIPFromAddr tcp text =
     (case tcp of
        Some ip \<Rightarrow> ip
      | None \<Rightarrow> (case text of
                   None \<Rightarrow> []
                 | Some a \<Rightarrow> (case SplitHostPort a of Inl _ \<Rightarrow> [] | Inr (host, port) \<Rightarrow> host)))"

definition onInboundConnectionRateLimited :: "FileEnv \<Rightarrow> string \<Rightarrow> Device \<Rightarrow> Device" where
  "onInboundConnectionRateLimited fe ip d =
     dv_log fe ''connection_rate_limit_triggered'' [] ''warning''
       [(''limit_type'', ''incoming_connections_per_ip''), (''remote_ip'', ip),
        (''limit_per_window'', Itoa (pm_ConnectionRateLimitPerIP (dv_options d))),
        (''window_seconds'', FormatInt (quo (pm_ConnectionRateLimitWindow (dv_options d)) Second))] d"

text \<open>The callbacks the listener was given read the present keys; the table of keys is the one of the start.\<close>

definition server_options :: "(string \<Rightarrow> string \<Rightarrow> string \<Rightarrow> bool res) option \<Rightarrow> Server \<Rightarrow> Device \<Rightarrow> HandshakeOptions" where
  "server_options decide srv d =
     (sr_options srv)\<lparr>o_KnownPeerKeyLookup := Some (\<lambda>p. lookupKnownKey p (dv_mgr d)), o_OnKeyChangeDecision := decide\<rparr>"

text \<open>Without a callback the listener refuses with \<open>key_changed\<close> just where it would ask.\<close>

definition server_question :: "FileEnv \<Rightarrow> ServerNet \<Rightarrow> string \<Rightarrow> Server \<Rightarrow> Device \<Rightarrow> (string \<times> string \<times> string) option" where
  "server_question fe net rawNonce srv d =
     (let env = fe_env fe; opts = server_options None srv d in
      case handleInboundConn (en_P env) (en_J env) opts (env_ms env) rawNonce (en_eph env) net of
        Replied e \<Rightarrow>
          if er_Code e \<noteq> ''key_changed'' then None
          else (case sn_handshake net (challenge_payload (en_J env) (generateHandshakeChallengeNonce rawNonce)) of
                  Inl _ \<Rightarrow> None
                | Inr payload \<Rightarrow>
                    (case json_Unmarshal (en_J env) payload of
                       Some (PHandshake h) \<Rightarrow>
                         Some (h_DeviceID h, existing_key (o_KnownPeerKeys opts) (o_KnownPeerKeyLookup opts) (h_DeviceID h),
                               h_Ed25519PublicKey h)
                     | _ \<Rightarrow> None))
      | _ \<Rightarrow> None)"

definition inbound_handshake :: "FileEnv \<Rightarrow> ServerNet \<Rightarrow> string \<Rightarrow> string option \<Rightarrow> Server \<Rightarrow> Device \<Rightarrow> Device" where
  "inbound_handshake fe net rawNonce remote srv d =
     (let env = fe_env fe;
          opts = server_options (Some (\<lambda>p old new. fst (decide_key fe d p old new))) srv d;
          d1 = after_question fe (server_question fe net rawNonce srv d) d
      in case handleInboundConn (en_P env) (en_J env) opts (env_ms env) rawNonce (en_eph env) net of
           Reported e \<Rightarrow> on_server (server_reportError e) d1
         | Replied _ \<Rightarrow> d1
         | Accepted _ session \<Rightarrow>
             let (i, d2) = make_connection opts session (en_now env) remote d1
             in if sr_closed srv then on_manager (close_conn i) d2
                else on_server (\<lambda>s. s\<lparr>sr_incoming := sr_incoming s @ [i]\<rparr>) d2)"

text \<open>One turn of the accept loop, and the handshake of the connection it accepts. A goroutine that waits to hand its
  connection over counts as being in the queue.\<close>

definition accept_failed :: "go_error \<Rightarrow> Device \<Rightarrow> Device" where
  "accept_failed e = on_server (\<lambda>srv. if sr_closed srv then srv else server_push (Wrap ''accept connection'' e) srv)"

definition accept_connection ::
    "FileEnv \<Rightarrow> ServerNet \<Rightarrow> string \<Rightarrow> string option \<Rightarrow> string option \<Rightarrow> Device \<Rightarrow> Device" where
  "accept_connection fe net rawNonce tcp remote d =
     (case dv_server d of
        None \<Rightarrow> d
      | Some srv \<Rightarrow>
          let ip = remoteIPFromAddr tcp remote;
              (allowed, rates) = allowInboundConnection (o_ConnectionRateLimitPerIP (sr_options srv))
                (o_ConnectionRateLimitWindow (sr_options srv)) ip (en_now (fe_env fe)) (sr_rates srv);
              d1 = d\<lparr>dv_server := Some (srv\<lparr>sr_rates := rates\<rparr>)\<rparr>
          in if \<not> allowed then onInboundConnectionRateLimited fe ip d1
             else inbound_handshake fe net rawNonce remote (srv\<lparr>sr_rates := rates\<rparr>) d1)"

text \<open>The two kinds of turns of \<open>serverLoop\<close>.\<close>

definition serverLoop_incoming :: "FileEnv \<Rightarrow> Device \<Rightarrow> Device" where
  "serverLoop_incoming fe d =
     (case dv_server d of
        None \<Rightarrow> d
      | Some srv \<Rightarrow>
          (case sr_incoming srv of
             [] \<Rightarrow> d
           | i # rest \<Rightarrow> registerConnection fe i (d\<lparr>dv_server := Some (srv\<lparr>sr_incoming := rest\<rparr>)\<rparr>)))"

definition serverLoop_error :: "FileEnv \<Rightarrow> Device \<Rightarrow> Device" where
  "serverLoop_error fe d =
     (case dv_server d of
        None \<Rightarrow> d
      | Some srv \<Rightarrow>
          (case sr_errs srv of
             [] \<Rightarrow> d
           | e # rest \<Rightarrow>
               let d1 = dv_report e (d\<lparr>dv_server := Some (srv\<lparr>sr_errs := rest\<rparr>)\<rparr>)
               in if isHandshakeFailureError e
                  then dv_log fe ''handshake_failure'' [] ''warning'' [(''direction'', ''inbound''), (''error'', error_text e)] d1
                  else d1))"

section \<open>Adding a peer\<close>

definition signed_add_response :: "FileEnv \<Rightarrow> bool \<Rightarrow> Device \<Rightarrow> PeerAddResponse res" where
  "signed_add_response fe accept d =
     signPeerAddResponse (fe_env fe)
       \<lparr>as_Status = (if accept then ''accepted'' else ''rejected''), as_DeviceID = local_id (dv_mgr d),
        as_DeviceName = localDeviceName (dv_mgr d), as_Timestamp = fe_ms fe, as_Signature = []\<rparr> (dv_mgr d)"

text \<open>The end of \<open>handlePeerAddRequest\<close>, once the decision is there.\<close>

definition answer_add_request :: "FileEnv \<Rightarrow> nat \<Rightarrow> bool \<Rightarrow> Device \<Rightarrow> Device" where
  "answer_add_request fe i accept d =
     (let peer = peer_of (dv_mgr d) i in
      case signed_add_response fe accept d of
        Inl e \<Rightarrow> dv_report e d
      | Inr response \<Rightarrow>
          (case dv_send fe i (PPeerAddResponse response) d of
             (Some e, d1) \<Rightarrow> dv_report e d1
           | (None, d1) \<Rightarrow>
               if accept then
                 (case persistPeerConnection fe i ''online'' True d1 of (None, d2) \<Rightarrow> d2 | (Some e, d2) \<Rightarrow> dv_report e d2)
               else on_manager (close_conn i) (on_manager (markSuppressReconnect peer) d1)))"

definition set_loop :: "nat \<Rightarrow> loop_phase \<Rightarrow> Device \<Rightarrow> Device" where
  "set_loop i phase d = d\<lparr>dv_loops := AList.update i phase (dv_loops d)\<rparr>"

definition end_loop :: "nat \<Rightarrow> Device \<Rightarrow> Device" where
  "end_loop i d = d\<lparr>dv_loops := AList.delete i (dv_loops d)\<rparr>"

text \<open>The user is to be asked: the goroutine of the connection waits on a fresh box. The notification is dropped when
  the channel is full.\<close>

definition ask_user :: "nat \<Rightarrow> PeerAddRequest \<Rightarrow> Device \<Rightarrow> Device" where
  "ask_user i request d =
     (let peer = peer_of (dv_mgr d) i; box = dv_boxes d in
      set_loop i (Deciding box)
        (d\<lparr>dv_boxes := box + 1, inboundAddPending := AList.update peer box (inboundAddPending d),
           addRequests := (if length (addRequests d) < 64
             then addRequests d @ [\<lparr>an_PeerDeviceID = peer, an_PeerDeviceName = ar_FromDeviceName request\<rparr>]
             else addRequests d)\<rparr>))"

definition handlePeerAddRequest :: "FileEnv \<Rightarrow> nat \<Rightarrow> PeerAddRequest \<Rightarrow> bool res \<Rightarrow> Device \<Rightarrow> Device" where
  "handlePeerAddRequest fe i request decision d =
     (let peer = peer_of (dv_mgr d) i in
      if peer = [] \<or> ar_FromDeviceID request = [] \<or> ar_FromDeviceName request = [] \<or> ar_Signature request = [] then d
      else if ar_FromDeviceID request \<noteq> peer then
        dv_report (Err ''rejecting peer_add_request: sender mismatch'') d
      else if \<not> withinTimestampSkew (en_now (fe_env fe)) (ar_Timestamp request) then
        dv_report (Err ''rejecting peer_add_request: timestamp outside skew'') d
      else
        let (allowed, d1) = run_manager (\<lambda>m. let (b, l) = allowAddRequest (addRequestCooldown m) peer (en_now (fe_env fe)) (lastAddRequestAt m)
               in (b, m\<lparr>lastAddRequestAt := l\<rparr>)) d
        in if \<not> allowed then
             dv_log fe ''connection_rate_limit_triggered'' peer ''warning''
               [(''limit_type'', ''peer_add_request_cooldown''),
                (''cooldown_seconds'', FormatInt (quo (addRequestCooldown (dv_mgr d)) Second))] d1
           else (case verifyPeerAddRequest (fe_env fe) i request (dv_mgr d1) of
             Some e \<Rightarrow>
               on_manager (sendErrorMessage (fe_env fe) i ''invalid_signature'' ''peer add request signature verification failed'' [])
                 (dv_log fe ''signature_verification_failed'' peer ''warning''
                   [(''message_type'', ''peer_add_request''), (''error'', error_text e)] (dv_report e d1))
           | None \<Rightarrow>
               if peer \<in> set (outboundAddPending (dv_mgr d1)) then answer_add_request fe i True d1
               else if pm_ApproveAddRequest (dv_options d1) then
                 (case decision of Inl e \<Rightarrow> dv_report e d1 | Inr accept \<Rightarrow> answer_add_request fe i accept d1)
               else ask_user i request d1))"

datatype add_wake = Decided | NoAnswer | Interrupted

text \<open>The waiting goroutine wakes: with the decision in its box, after the timeout, or because the manager stopped or the
  connection is gone. In the end its entry is removed, unless it has been replaced.\<close>

definition drop_pending :: "string \<Rightarrow> nat \<Rightarrow> Device \<Rightarrow> Device" where
  "drop_pending peer box d =
     (if map_of (inboundAddPending d) peer = Some box
      then d\<lparr>inboundAddPending := AList.delete peer (inboundAddPending d)\<rparr> else d)"

definition add_decided :: "FileEnv \<Rightarrow> nat \<Rightarrow> add_wake \<Rightarrow> Device \<Rightarrow> Device" where
  "add_decided fe i ev d =
     (case map_of (dv_loops d) i of
        Some (Deciding box) \<Rightarrow>
          let peer = peer_of (dv_mgr d) i; d1 = set_loop i Receiving d in
          (case ev of
             Decided \<Rightarrow>
               (case map_of (dv_decisions d) box of
                  Some accept \<Rightarrow> drop_pending peer box (answer_add_request fe i accept d1)
                | None \<Rightarrow> d)
           | NoAnswer \<Rightarrow> drop_pending peer box (answer_add_request fe i False d1)
           | Interrupted \<Rightarrow> drop_pending peer box d1)
      | _ \<Rightarrow> d)"

definition ApprovePeerAdd :: "string \<Rightarrow> bool \<Rightarrow> Device \<Rightarrow> go_error option \<times> Device" where
  "ApprovePeerAdd peer accept d =
     (case map_of (inboundAddPending d) peer of
        None \<Rightarrow> (Some (Err ''no pending add request for peer''), d)
      | Some box \<Rightarrow>
          let d1 = d\<lparr>inboundAddPending := AList.delete peer (inboundAddPending d)\<rparr> in
          if map_of (dv_decisions d) box = None
          then (None, d1\<lparr>dv_decisions := AList.update box accept (dv_decisions d)\<rparr>)
          else (Some (Err ''add request decision channel is full''), d1))"

definition set_wait :: "nat \<Rightarrow> (AddWait \<Rightarrow> AddWait) \<Rightarrow> Device \<Rightarrow> Device" where
  "set_wait box f d = d\<lparr>dv_add_waits := map (\<lambda>w. if aw_box w = box then f w else w) (dv_add_waits d)\<rparr>"

definition handlePeerAddResponse :: "FileEnv \<Rightarrow> nat \<Rightarrow> PeerAddResponse \<Rightarrow> Device \<Rightarrow> Device" where
  "handlePeerAddResponse fe i response d =
     (let peer = peer_of (dv_mgr d) i in
      if peer = [] \<or> as_DeviceID response = [] \<or> as_DeviceName response = [] \<or> as_Status response = [] \<or>
         as_Signature response = [] then d
      else if as_DeviceID response \<noteq> peer then dv_report (Err ''rejecting peer_add_response: sender mismatch'') d
      else if \<not> withinTimestampSkew (en_now (fe_env fe)) (as_Timestamp response) then
        dv_report (Err ''rejecting peer_add_response: timestamp outside skew'') d
      else case verifyPeerAddResponse (fe_env fe) i response (dv_mgr d) of
        Some e \<Rightarrow>
          dv_log fe ''signature_verification_failed'' peer ''warning''
            [(''message_type'', ''peer_add_response''), (''error'', error_text e)] (dv_report e d)
      | None \<Rightarrow>
          if \<not> stringsEqualFold (as_Status response) ''accepted'' \<and> \<not> stringsEqualFold (as_Status response) ''rejected'' then
            dv_report (Err ''rejecting peer_add_response: invalid status'') d
          else (case map_of (outboundAddResponse (dv_mgr d)) peer of
                  None \<Rightarrow> d
                | Some box \<Rightarrow>
                    set_wait box (\<lambda>w. if aw_response w = None then w\<lparr>aw_response := Some response\<rparr> else w) d))"

text \<open>The deferred cleanup of \<open>SendPeerAddRequest\<close>: whatever is registered for the peer goes.\<close>

definition forget_add :: "string \<Rightarrow> Manager \<Rightarrow> Manager" where
  "forget_add peer m =
     m\<lparr>outboundAddPending := removeAll peer (outboundAddPending m),
       outboundAddResponse := AList.delete peer (outboundAddResponse m)\<rparr>"

definition register_add :: "string \<Rightarrow> nat \<Rightarrow> Manager \<Rightarrow> Manager" where
  "register_add peer box m =
     m\<lparr>outboundAddPending := List.insert peer (outboundAddPending m),
       outboundAddResponse := AList.update peer box (outboundAddResponse m)\<rparr>"

text \<open>\<open>SendPeerAddRequest\<close> up to the point where it waits (the box it waits on), and from there on.\<close>

definition SendPeerAddRequest :: "FileEnv \<Rightarrow> string \<Rightarrow> Device \<Rightarrow> nat res \<times> Device" where
  "SendPeerAddRequest fe peer d =
     (case getConnection peer (dv_mgr d) of
        None \<Rightarrow> (Inl (Err ''no active connection for peer''), d)
      | Some i \<Rightarrow>
          let box = dv_boxes d;
              d1 = on_manager (register_add peer box) (d\<lparr>dv_boxes := box + 1\<rparr>);
              request = \<lparr>ar_FromDeviceID = local_id (dv_mgr d), ar_FromDeviceName = localDeviceName (dv_mgr d),
                         ar_Timestamp = fe_ms fe, ar_Signature = []\<rparr>
          in (case signPeerAddRequest (fe_env fe) request (dv_mgr d1) of
                Inl e \<Rightarrow> (Inl e, on_manager (forget_add peer) d1)
              | Inr request1 \<Rightarrow>
                  (case dv_send fe i (PPeerAddRequest request1) d1 of
                     (Some e, d2) \<Rightarrow> (Inl e, on_manager (forget_add peer) d2)
                   | (None, d2) \<Rightarrow>
                       (Inr box, d2\<lparr>dv_add_waits := dv_add_waits d2 @
                          [\<lparr>aw_box = box, aw_peer = peer, aw_conn = i, aw_response = None\<rparr>]\<rparr>))))"

datatype add_answer = Responded | AddTimedOut | AddStopped

definition add_request_ends :: "FileEnv \<Rightarrow> AddWait \<Rightarrow> add_answer \<Rightarrow> Device \<Rightarrow> bool res \<times> Device" where
  "add_request_ends fe w ev d =
     (let d1 = d\<lparr>dv_add_waits := remove1 w (dv_add_waits d)\<rparr>;
          (r, d2) =
            (case ev of
               Responded \<Rightarrow>
                 (case aw_response w of
                    None \<Rightarrow> (Inl (Err ''timed out waiting for peer_add_response''), d1)
                  | Some response \<Rightarrow>
                      if stringsEqualFold (as_Status response) ''accepted'' then
                        (case persistPeerConnection fe (aw_conn w) ''online'' True d1 of
                           (Some e, d2) \<Rightarrow> (Inl e, d2)
                         | (None, d2) \<Rightarrow> (Inr True, d2))
                      else (Inr False, d1))
             | AddTimedOut \<Rightarrow> (Inl (Err ''timed out waiting for peer_add_response''), d1)
             | AddStopped \<Rightarrow> (Inl (Err ''peer manager stopped''), d1))
      in (r, on_manager (forget_add (aw_peer w)) d2))"

section \<open>Removing and disconnecting\<close>

definition signed_remove :: "FileEnv \<Rightarrow> Manager \<Rightarrow> PeerRemove" where
  "signed_remove fe m =
     (let msg = \<lparr>pr_FromDeviceID = local_id m, pr_Timestamp = fe_ms fe, pr_Signature = []\<rparr>
      in case signPeerRemove (fe_env fe) msg m of Inl _ \<Rightarrow> msg | Inr msg1 \<Rightarrow> msg1)"

definition forget_peer :: "string \<Rightarrow> Device \<Rightarrow> Device" where
  "forget_peer peer d = on_manager (removeKnownKey peer) (snd (dv_statement (RemovePeer peer) d))"

definition SendPeerRemove :: "FileEnv \<Rightarrow> string \<Rightarrow> Device \<Rightarrow> Device" where
  "SendPeerRemove fe peer d =
     (let conn = getConnection peer (dv_mgr d);
          (sent, d1) = (case conn of
             None \<Rightarrow> (None, d)
           | Some i \<Rightarrow> dv_send fe i (PPeerRemove (signed_remove fe (dv_mgr d))) d);
          d2 = (case sent of None \<Rightarrow> d1 | Some e \<Rightarrow> dv_report e d1);
          d3 = updateRuntimeState peer StateDisconnecting None (on_manager (markSuppressReconnect peer) d2);
          d4 = forget_peer peer (dv_stopReconnect peer d3)
      in case conn of
           None \<Rightarrow> d4
         | Some i \<Rightarrow> if sent \<noteq> None then on_manager (close_conn i) d4 else d4\<lparr>dv_closing := dv_closing d4 @ [i]\<rparr>)"

text \<open>The goroutine that closes a connection 200 ms after the removal was sent; \<open>closes\<close> is false when the connection
  ended or the manager stopped first.\<close>

definition removal_closes :: "nat \<Rightarrow> bool \<Rightarrow> Device \<Rightarrow> Device" where
  "removal_closes i closes d =
     (let d1 = d\<lparr>dv_closing := remove1 i (dv_closing d)\<rparr> in if closes then on_manager (close_conn i) d1 else d1)"

definition SendPeerDisconnect :: "FileEnv \<Rightarrow> string \<Rightarrow> Device \<Rightarrow> go_error option \<times> Device" where
  "SendPeerDisconnect fe peer d =
     (case getConnection peer (dv_mgr d) of
        None \<Rightarrow> (Some (Err ''no active connection for peer''), d)
      | Some i \<Rightarrow>
          let env = fe_env fe;
              d1 = updateRuntimeState peer StateDisconnecting None (on_manager (markSuppressReconnect peer) d);
              d2 = on_manager (\<lambda>m. set_conn i (Disconnect (en_P env) (en_J env) (en_iv env) (en_now env) (mg_heap m i)) m) d1
          in (None, snd (dv_statement (UpdatePeerStatus peer ''offline'' (fe_ms fe)) d2)))"

definition handlePeerRemove :: "FileEnv \<Rightarrow> nat \<Rightarrow> PeerRemove \<Rightarrow> Device \<Rightarrow> bool \<times> Device" where
  "handlePeerRemove fe i msg d =
     (let peer = peer_of (dv_mgr d) i in
      if peer = [] \<or> pr_FromDeviceID msg = [] \<or> pr_Signature msg = [] then (False, d)
      else if pr_FromDeviceID msg \<noteq> peer then (False, dv_report (Err ''rejecting peer_remove: sender mismatch'') d)
      else if \<not> withinTimestampSkew (en_now (fe_env fe)) (pr_Timestamp msg) then
        (False, dv_report (Err ''rejecting peer_remove: timestamp outside skew'') d)
      else case verifyPeerRemove (fe_env fe) i msg (dv_mgr d) of
        Some e \<Rightarrow>
          (False, on_manager (sendErrorMessage (fe_env fe) i ''invalid_signature'' ''peer remove signature verification failed'' [])
             (dv_log fe ''signature_verification_failed'' peer ''warning''
               [(''message_type'', ''peer_remove''), (''error'', error_text e)] (dv_report e d)))
      | None \<Rightarrow>
          (True, on_manager (close_conn i)
             (forget_peer peer (dv_stopReconnect peer (on_manager (markSuppressReconnect peer) d)))))"

section \<open>The goroutine of a connection\<close>

text \<open>The handler of a packet; the result tells whether the loop ends.\<close>

fun handle_packet :: "FileEnv \<Rightarrow> nat \<Rightarrow> bool res \<Rightarrow> Packet \<Rightarrow> Device \<Rightarrow> bool \<times> Device" where
  "handle_packet fe i decision (PPeerAddRequest p) d = (False, handlePeerAddRequest fe i p decision d)"
| "handle_packet fe i decision (PPeerAddResponse p) d = (False, handlePeerAddResponse fe i p d)"
| "handle_packet fe i decision (PPeerRemove p) d = handlePeerRemove fe i p d"
| "handle_packet fe i decision (PMessage p) d = (False, on_manager (handleIncomingEncryptedMessage (fe_env fe) i p) d)"
| "handle_packet fe i decision (PRekeyRequest p) d = (False, on_manager (handleRekeyRequest (fe_env fe) i p) d)"
| "handle_packet fe i decision (PRekeyResponse p) d = (False, on_manager (handleRekeyResponse (fe_env fe) i p) d)"
| "handle_packet fe i decision (PAck p) d = (False, on_manager (handleAck (fe_env fe) i p) d)"
| "handle_packet fe i decision (PError p) d = (False, on_manager (handleProtocolError p) d)"
| "handle_packet fe i decision (PFileRequest p) d = (False, on_node (handleFileRequest fe i p) d)"
| "handle_packet fe i decision (PFileResponse p) d = (False, on_node (handleFileResponse fe i p) d)"
| "handle_packet fe i decision (PFileData p) d = (False, on_node (handleFileData fe i p) d)"
| "handle_packet fe i decision (PFileComplete p) d = (False, on_node (handleFileComplete fe i p) d)"
| "handle_packet fe i decision (PFolderRequest p) d = (False, on_node (handleFolderTransferRequest fe i p decision) d)"
| "handle_packet fe i decision (PFolderResponse p) d = (False, on_node (handleFolderTransferResponse fe i p) d)"
| "handle_packet fe i decision _ d = (False, d)"

text \<open>The message types the loop knows.\<close>

definition handled_types :: "string list" where
  "handled_types = [''peer_add_request'', ''peer_add_response'', ''peer_remove'', ''message'', ''rekey_request'',
     ''rekey_response'', ''ack'', ''error'', ''file_request'', ''file_response'', ''file_data'', ''file_complete'',
     ''folder_transfer_request'', ''folder_transfer_response'']"

definition loop_payload :: "FileEnv \<Rightarrow> nat \<Rightarrow> bool res \<Rightarrow> string \<Rightarrow> Device \<Rightarrow> bool \<times> Device" where
  "loop_payload fe i decision payload d =
     (case DecodeMessageType (en_J (fe_env fe)) payload of
        Inl _ \<Rightarrow> (False, d)
      | Inr t \<Rightarrow>
          if t \<notin> set handled_types then (False, d)
          else (case json_Unmarshal (en_J (fe_env fe)) payload of
                  None \<Rightarrow> (False, dv_report (Err ''invalid JSON'') d)
                | Some p \<Rightarrow> if packet_type p = t then handle_packet fe i decision p d
                             else (False, dv_report (Err ''invalid JSON'') d)))"

definition fail_rekey_waiter :: "string \<Rightarrow> Manager \<Rightarrow> Manager" where
  "fail_rekey_waiter peer m = m\<lparr>pendingRekeyWaiters := AList.delete peer (pendingRekeyWaiters m)\<rparr>"

definition drop_connection :: "string \<Rightarrow> Manager \<Rightarrow> Manager" where
  "drop_connection peer m = m\<lparr>connections := AList.delete peer (connections m)\<rparr>"

text \<open>What follows the loop, up to the grace period. A rekey that waits for an answer on the connection is failed: its
  goroutine is woken with an error.\<close>

definition loop_ends :: "FileEnv \<Rightarrow> nat \<Rightarrow> Device \<Rightarrow> Device" where
  "loop_ends fe i d =
     (let peer = peer_of (dv_mgr d) i;
          d1 = on_manager (fail_rekey_waiter peer) (on_manager (close_conn i) d);
          wasActive = getConnection peer (dv_mgr d1) = Some i;
          d2 = (if wasActive then on_manager (drop_connection peer) d1 else d1)
      in if peer = [] \<or> \<not> wasActive then end_loop i d2
         else
           let (r, d3) = dv_statement (UpdatePeerStatus peer ''offline'' (fe_ms fe)) d2;
               d4 = updateRuntimeState peer StateDisconnected None (dv_report_unless ErrNotFound r d3);
               (suppressed, d5) = run_manager (consumeSuppressReconnect peer) d4
           in if suppressed then end_loop i d5
              else if getConnection peer (dv_mgr d5) \<noteq> None then end_loop i d5
              else set_loop i InGrace d5)"

definition grace_ends :: "nat \<Rightarrow> Device \<Rightarrow> Device" where
  "grace_ends i d =
     (let peer = peer_of (dv_mgr d) i; d1 = end_loop i d in
      if mg_stopped (dv_mgr d) then d1
      else if getConnection peer (dv_mgr d) \<noteq> None then d1
      else case GetPeer peer (mg_store (dv_mgr d)) of
             Inl e \<Rightarrow> if errors_Is e ErrNotFound then d1 else dv_report e d1
           | Inr _ \<Rightarrow> dv_startReconnect peer d1)"

text \<open>One turn of \<open>connectionLoop\<close>: \<open>received\<close> is what \<open>ReceiveMessage\<close> returns.\<close>

definition connectionLoop_turn :: "FileEnv \<Rightarrow> nat \<Rightarrow> bool res \<Rightarrow> string res \<Rightarrow> Device \<Rightarrow> Device" where
  "connectionLoop_turn fe i decision received d =
     (case map_of (dv_loops d) i of
        Some Receiving \<Rightarrow>
          (case received of
             Inl _ \<Rightarrow> loop_ends fe i d
           | Inr payload \<Rightarrow> (case loop_payload fe i decision payload d of
                                 (True, d1) \<Rightarrow> loop_ends fe i d1
                               | (False, d1) \<Rightarrow> d1))
      | Some InGrace \<Rightarrow> grace_ends i d
      | _ \<Rightarrow> d)"

section \<open>Reconnecting\<close>

definition upd_worker :: "nat \<Rightarrow> (Worker \<Rightarrow> Worker) \<Rightarrow> Device \<Rightarrow> Device" where
  "upd_worker k f d = (if k < length (dv_workers d) then d\<lparr>dv_workers := (dv_workers d)[k := f (dv_workers d ! k)]\<rparr> else d)"

text \<open>The goroutine ends: its deferred function removes the peer's entry, whosever it is by then.\<close>

definition worker_ends :: "nat \<Rightarrow> string \<Rightarrow> Device \<Rightarrow> Device" where
  "worker_ends k peer d =
     idle_if_unconnected peer
       (on_manager (stopReconnect peer) (d\<lparr>dv_workers := take k (dv_workers d) @ drop (Suc k) (dv_workers d)\<rparr>))"

definition jitter_of :: "PeerManagerOptions \<Rightarrow> (int \<Rightarrow> int) \<Rightarrow> (int \<Rightarrow> int) option" where
  "jitter_of opts jitter = (if pm_ReconnectJitterFraction opts \<le> 0 then None else Some jitter)"

text \<open>The head of the loop: give up, or fix the time of the next attempt. \<open>jitter\<close> is the random change of a delay.\<close>

definition worker_pause :: "FileEnv \<Rightarrow> (int \<Rightarrow> int) \<Rightarrow> nat \<Rightarrow> Worker \<Rightarrow> Device \<Rightarrow> Device" where
  "worker_pause fe jitter k w d =
     (let opts = dv_options d; peer = wk_peer w in
      if pm_MaxReconnectAttempts opts > 0 \<and> int (wk_attempt w) \<ge> pm_MaxReconnectAttempts opts then
        worker_ends k peer
          (updateRuntimeState peer StateDisconnected None (dv_report (Err ''reconnect attempts exhausted for peer'') d))
      else
        let delay = backoffForAttempt (pm_ReconnectBackoff opts) (jitter_of opts jitter) (wk_attempt w)
        in upd_worker k (\<lambda>w. w\<lparr>wk_phase := Pausing\<rparr>)
             (updateRuntimeState peer StateDisconnected (Some (en_now (fe_env fe) + delay)) d))"

definition failed_attempt :: "Worker \<Rightarrow> Worker" where
  "failed_attempt w = w\<lparr>wk_attempt := wk_attempt w + 1, wk_phase := Trying\<rparr>"

text \<open>The timer: the peer's addresses are looked up.\<close>

definition worker_resolve :: "nat \<Rightarrow> Worker \<Rightarrow> Device \<Rightarrow> Device" where
  "worker_resolve k w d =
     (let d1 = updateRuntimeState (wk_peer w) StateConnecting None d in
      case resolvePeerAddresses (mg_store (dv_mgr d1)) (wk_peer w) (dv_endpoints d1) of
        Inl _ \<Rightarrow> upd_worker k failed_attempt d1
      | Inr addresses \<Rightarrow> upd_worker k (\<lambda>w. w\<lparr>wk_phase := Dialing addresses\<rparr>) d1)"

definition on_endpoints :: "(Endpoints \<Rightarrow> Endpoints) \<Rightarrow> Device \<Rightarrow> Device" where
  "on_endpoints f d = d\<lparr>dv_endpoints := f (dv_endpoints d)\<rparr>"

text \<open>One address is dialled. Another peer may answer there: its connection is registered before it is closed.\<close>

definition worker_dial :: "FileEnv \<Rightarrow> DialNet \<Rightarrow> string option \<Rightarrow> nat \<Rightarrow> Worker \<Rightarrow> string \<Rightarrow> string list \<Rightarrow> Device \<Rightarrow> Device" where
  "worker_dial fe net remote k w address rest d =
     (let peer = wk_peer w in
      case dialAndRegister fe net remote address d of
        (Inl e, d1) \<Rightarrow> upd_worker k (\<lambda>w. w\<lparr>wk_phase := Dialing rest\<rparr>) (on_endpoints (recordEndpointFailure peer address) d1)
      | (Inr i, d1) \<Rightarrow>
          if peer_of (dv_mgr d1) i \<noteq> peer then
            upd_worker k (\<lambda>w. w\<lparr>wk_phase := Dialing rest\<rparr>)
              (on_manager (close_conn i) (on_endpoints (recordEndpointFailure peer address) d1))
          else worker_ends k peer (on_endpoints (recordEndpointSuccess peer address) d1))"

text \<open>One step of the \<open>k\<close>-th reconnecting goroutine. A cancelled one ends where it waits for its timer.\<close>

definition worker_step :: "FileEnv \<Rightarrow> (int \<Rightarrow> int) \<Rightarrow> DialNet \<Rightarrow> string option \<Rightarrow> nat \<Rightarrow> Device \<Rightarrow> Device" where
  "worker_step fe jitter net remote k d =
     (if k \<ge> length (dv_workers d) then d
      else let w = dv_workers d ! k in
        case wk_phase w of
          Trying \<Rightarrow> worker_pause fe jitter k w d
        | Pausing \<Rightarrow> if wk_canceled w \<or> mg_stopped (dv_mgr d) then worker_ends k (wk_peer w) d else worker_resolve k w d
        | Dialing [] \<Rightarrow> upd_worker k failed_attempt d
        | Dialing (address # rest) \<Rightarrow> worker_dial fe net remote k w address rest d)"

section \<open>Discovered peers\<close>

definition first_endpoint :: "string list \<Rightarrow> (string \<times> int) option" where
  "first_endpoint endpoints =
     (case endpoints of
        [] \<Rightarrow> None
      | e # _ \<Rightarrow>
          (case SplitHostPort e of
             Inl _ \<Rightarrow> None
           | Inr (host, portText) \<Rightarrow>
               (case Atoi portText of Inl _ \<Rightarrow> None | Inr port \<Rightarrow> if port > 0 \<and> host \<noteq> [] then Some (host, port) else None)))"

definition NotifyPeerDiscoveredEndpoints :: "FileEnv \<Rightarrow> string \<Rightarrow> string \<Rightarrow> string list \<Rightarrow> int \<Rightarrow> Device \<Rightarrow> Device" where
  "NotifyPeerDiscoveredEndpoints fe deviceID deviceName addresses port d =
     (if deviceID = [] \<or> deviceID = local_id (dv_mgr d) then d
      else case GetPeer deviceID (mg_store (dv_mgr d)) of
        Inl _ \<Rightarrow> d
      | Inr peer \<Rightarrow>
          if p_Status peer = ''blocked'' then d
          else
            let d1 = (if TrimSpace deviceName \<noteq> [] \<and> deviceName \<noteq> p_DeviceName peer
                      then snd (dv_statement (UpdatePeerDeviceName deviceID deviceName) d) else d);
                endpoints = buildEndpointCandidates addresses port;
                d2 = on_endpoints (setDiscoveredEndpoints deviceID endpoints) d1;
                d3 = (case first_endpoint endpoints of
                        None \<Rightarrow> d2
                      | Some (host, p) \<Rightarrow> snd (dv_statement (UpdatePeerEndpoint deviceID host p (fe_ms fe)) d2))
            in (case getConnection deviceID (dv_mgr d3) of
                  Some i \<Rightarrow> if conn_state (mg_heap (dv_mgr d3) i) \<noteq> StateDisconnected then d3 else dv_startReconnect deviceID d3
                | None \<Rightarrow> dv_startReconnect deviceID d3))"

definition NotifyPeerDiscovered :: "FileEnv \<Rightarrow> string \<Rightarrow> string \<Rightarrow> string \<Rightarrow> int \<Rightarrow> Device \<Rightarrow> Device" where
  "NotifyPeerDiscovered fe deviceID deviceName ip port =
     NotifyPeerDiscoveredEndpoints fe deviceID deviceName (if TrimSpace ip = [] then [] else [ip]) port"

section \<open>Starting and stopping\<close>

definition cleanupDownloadedFilesEnabled :: "Device \<Rightarrow> bool" where
  "cleanupDownloadedFilesEnabled d = (case pm_GetCleanupDownloadedFiles (dv_options d) of None \<Rightarrow> False | Some b \<Rightarrow> b)"

definition dv_maintenance :: "FileEnv \<Rightarrow> (int \<Rightarrow> int) \<Rightarrow> Device \<Rightarrow> Device" where
  "dv_maintenance fe days_ago d =
     on_node (runMaintenanceCleanup fe days_ago (pm_GetMessageRetentionDays (dv_options d)) (cleanupDownloadedFilesEnabled d)) d"

definition reconnect_known :: "Device \<Rightarrow> Device" where
  "reconnect_known d =
     foldl (\<lambda>d p. if p_DeviceID p = local_id (dv_mgr d) then d
                  else if p_Status p = ''online'' \<or> hasPendingOutboundTransferForPeer (p_DeviceID p) (dv_node d)
                  then dv_startReconnect (p_DeviceID p) d else d)
       d (ListPeers (mg_store (dv_mgr d)))"

definition Start :: "FileEnv \<Rightarrow> (int \<Rightarrow> int) \<Rightarrow> go_error option \<Rightarrow> Device \<Rightarrow> go_error option \<times> Device" where
  "Start fe days_ago listen d =
     (if dv_started d then (None, d)
      else let d0 = d\<lparr>dv_started := True\<rparr> in
        case run_node (run_disk (os_MkdirAll fe (currentDownloadDirectory (dv_node d0)))) d0 of
          (Some e, d1) \<Rightarrow> (Some (Wrap ''create files dir'' e), d1)
        | (None, d1) \<Rightarrow>
        (case ensureLocalPeerRecord fe d1 of
           (Some e, d2) \<Rightarrow> (Some e, d2)
         | (None, d2) \<Rightarrow>
        (case run_node (loadTransferCheckpoints fe) (loadKnownPeers d2) of
           (Some e, d3) \<Rightarrow> (Some e, d3)
         | (None, d3) \<Rightarrow>
        (case Listen listen (handshake_options (\<lambda>p old new. fst (decide_key fe d3 p old new)) d3) of
           Inl e \<Rightarrow> (Some e, d3)
         | Inr srv \<Rightarrow> (None, reconnect_known (dv_maintenance fe days_ago (d3\<lparr>dv_server := Some srv\<rparr>)))))))"

text \<open>\<open>Stop\<close> up to the point where it waits for the goroutines.\<close>

definition close_all :: "Manager \<Rightarrow> Manager" where
  "close_all m = (foldl (\<lambda>m (_, i). close_conn i m) m (connections m))\<lparr>connections := []\<rparr>"

definition cancel_registered :: "Device \<Rightarrow> Device" where
  "cancel_registered d = foldl (\<lambda>d peer. cancel_worker peer d) d (reconnectWorkers (dv_mgr d))"

definition Stop :: "Device \<Rightarrow> Device" where
  "Stop d =
     (if \<not> dv_started d \<or> mg_stopped (dv_mgr d) then d
      else
        let d1 = on_manager (\<lambda>m. m\<lparr>mg_stopped := True\<rparr>) d;
            d2 = on_server (\<lambda>s. s\<lparr>sr_closed := True\<rparr>) d1;
            d3 = on_manager (\<lambda>m. m\<lparr>reconnectWorkers := []\<rparr>) (cancel_registered d2)
        in on_manager close_all d3)"

end
