(* ===== verification/KeyRing.thy ===== *)
theory KeyRing
  imports Identities Lifecycle
begin

text \<open>
  The keys a device has pinned (\<open>knownKeys\<close>) against those in its table of peers, both as association lists. A
  \<open>key_step\<close> is one change the program makes to the pair; every operation of the device makes at most one.
\<close>

section \<open>Changes of the pinned keys\<close>

type_synonym keys = "(string \<times> string) list"

inductive key_step :: "(string \<Rightarrow> string \<Rightarrow> string \<Rightarrow> bool) \<Rightarrow> keys \<times> keys \<Rightarrow> keys \<times> keys \<Rightarrow> bool"
  for consent where
  same: "key_step consent ks ks"
| add: "map_of S p = None \<Longrightarrow> p \<noteq> [] \<Longrightarrow> k \<noteq> [] \<Longrightarrow> key_step consent (K, S) (K, S @ [(p, k)])"
| pin: "map_of S p = None \<Longrightarrow> p \<noteq> [] \<Longrightarrow> k \<noteq> [] \<Longrightarrow> key_step consent (K, S) (AList.update p k K, S @ [(p, k)])"
| forget: "key_step consent (K, S) (AList.delete p K, S)"
| remove: "key_step consent (K, S) (AList.delete p K, filter (\<lambda>e. fst e \<noteq> p) S)"
| change: "consent p old k \<Longrightarrow> map_of K p = None \<or> map_of K p = Some old \<Longrightarrow> p \<in> fst ` set S \<Longrightarrow> k \<noteq> []
    \<Longrightarrow> key_step consent (K, S) (AList.update p k K, map (\<lambda>e. (fst e, if fst e = p then k else snd e)) S)"
| reload: "map_of K' = map_of K ++ map_of S \<Longrightarrow> key_step consent (K, S) (K', S)"
| reload_new: "map_of S p = None \<Longrightarrow> p \<noteq> [] \<Longrightarrow> k \<noteq> [] \<Longrightarrow> map_of K' = map_of K ++ map_of (S @ [(p, k)])
    \<Longrightarrow> key_step consent (K, S) (K', S @ [(p, k)])"

definition keys_ok :: "keys \<times> keys \<Rightarrow> bool" where
  "keys_ok ks \<longleftrightarrow> map_of (fst ks) \<subseteq>\<^sub>m map_of (snd ks) \<and> distinct (map fst (snd ks)) \<and>
     (\<forall>(p, k) \<in> set (snd ks). p \<noteq> [] \<and> k \<noteq> [])"

lemma map_of_change: "map_of (map (\<lambda>e. (fst e, if fst e = p then k else snd e)) S) q =
    (if q = p \<and> p \<in> fst ` set S then Some k else map_of S q)"
proof (induction S)
  case (Cons e S)
  then show ?case by (cases "q = p"; cases e) simp_all
qed simp

lemma map_of_snoc: "map_of S p = None \<Longrightarrow> map_of (S @ [(p, k)]) = (map_of S)(p \<mapsto> k)"
  by (auto simp: map_add_def fun_eq_iff split: option.split)

lemma keys_ok_step:
  assumes "key_step consent ks ks'" "keys_ok ks"
  shows "keys_ok ks'"
  using assms
proof (induction rule: key_step.induct)
  case (add S p k K)
  then have "p \<notin> fst ` set S" by (simp add: map_of_eq_None_iff)
  with add show ?case by (auto simp: keys_ok_def map_le_def dom_def map_of_snoc simp del: map_of_append)
next
  case (pin S p k K)
  then have "p \<notin> fst ` set S" by (simp add: map_of_eq_None_iff)
  with pin show ?case by (auto simp: keys_ok_def map_le_def dom_def update_conv' map_of_snoc simp del: map_of_append)
next
  case (reload_new S p k K' K)
  then have "p \<notin> fst ` set S" by (simp add: map_of_eq_None_iff)
  with reload_new show ?case
    by (auto simp: keys_ok_def map_le_def dom_def map_of_snoc map_add_def simp del: map_of_append split: option.splits if_splits)
next
  case (remove K S p)
  have "map_of (filter (\<lambda>e. fst e \<noteq> p) S) q = (if q = p then None else map_of S q)" for q
    by (induction S) auto
  with remove show ?case
    by (auto simp: keys_ok_def map_le_def dom_def delete_conv' distinct_map_filter)
next
  case (change p old k K S)
  have "map fst (map (\<lambda>e. (fst e, if fst e = p then k else snd e)) S) = map fst S" by simp
  with change show ?case
    by (auto simp: keys_ok_def map_le_def dom_def update_conv' map_of_change comp_def)
qed (auto simp: keys_ok_def map_le_def dom_def delete_conv' map_add_def split: option.splits)

lemma key_step_consent:
  assumes "key_step consent ks ks'" "keys_ok ks" "map_of (fst ks) p = Some k" "map_of (fst ks') p = Some k'" "k' \<noteq> k"
  shows "consent p k k'"
  using assms
proof (induction rule: key_step.induct)
  case (pin S q key K)
  then have "map_of K q = None" by (auto simp: keys_ok_def map_le_def dom_def)
  with pin show ?case by (auto simp: update_conv' split: if_splits)
next
  case (reload_new S q key K' K)
  then have "map_of S p = Some k" by (auto simp: keys_ok_def map_le_def dom_def)
  with reload_new show ?case by (auto simp: map_of_snoc map_add_def simp del: map_of_append split: if_splits)
next
  case (reload K' K S)
  then have "map_of S p = Some k" by (auto simp: keys_ok_def map_le_def dom_def)
  with reload show ?case by simp
qed (auto simp: update_conv' delete_conv' split: if_splits)

end
