(* ===== verification/KeySteps.thy ===== *)
theory KeySteps
  imports KeyRing
begin

text \<open>What each operation of a device does to its pinned keys and to the keys in its table of peers.\<close>

section \<open>What operations on a device do to its manager\<close>

lemma put_node_mgr [simp]: "dv_node (put_node n d) = n"
  by (simp add: put_node_def)

lemma manager_simps [simp]:
  "dv_node (on_node f d) = f (dv_node d)" "dv_mgr (on_manager g d) = g (dv_mgr d)"
  "dv_mgr (snd (run_manager h d)) = snd (h (dv_mgr d))" "fst (run_manager h d) = fst (h (dv_mgr d))"
  "dv_mgr (snd (dv_statement q d)) = snd (on_store q (dv_mgr d))" "fst (dv_statement q d) = fst (q (mg_store (dv_mgr d)))"
  "dv_mgr (snd (dv_send fe i p d)) = snd (send (fe_env fe) i p (dv_mgr d))"
  "dv_node (snd (run_node f' d)) = snd (f' (dv_node d))"
  by (simp_all add: on_node_def on_manager_def on_mgr_def run_manager_def run_node_def run_mgr_def dv_statement_def
      dv_send_def on_store_def split_beta)

definition keys :: "Manager \<Rightarrow> keys \<times> keys" where
  "keys m = (knownKeys m, stored_keys (mg_store m))"

lemma keys_same: "mpart m' = mpart m \<Longrightarrow> keys m' = keys m"
  using mpart_parts(2,3) [of m' m] by (simp add: keys_def)

lemma device_kept:
  "mpart (dv_mgr (dv_report e d)) = mpart (dv_mgr d)" "mpart (dv_mgr (dv_log fe ev p sv ds d)) = mpart (dv_mgr d)"
  "mpart (dv_mgr (dv_report_unless kind r d)) = mpart (dv_mgr d)" "dv_mgr (updateRuntimeState p st t d) = dv_mgr d"
  "mpart (dv_mgr (dv_startReconnect p d)) = mpart (dv_mgr d)" "dv_mgr (cancel_worker p d) = dv_mgr d"
  "dv_mgr (idle_if_unconnected p d) = dv_mgr d" "mpart (dv_mgr (dv_stopReconnect p d)) = mpart (dv_mgr d)"
  "dv_mgr (startQueueDrain p i d) = dv_mgr d" "dv_mgr (set_loop i ph d) = dv_mgr d" "dv_mgr (end_loop i d) = dv_mgr d"
  "dv_mgr (on_server f d) = dv_mgr d" "dv_mgr (on_endpoints g d) = dv_mgr d" "dv_mgr (upd_worker k h d) = dv_mgr d"
  "mpart (dv_mgr (worker_ends k p d)) = mpart (dv_mgr d)" "dv_mgr (set_wait box u d) = dv_mgr d"
  "dv_mgr (drop_pending p box d) = dv_mgr d" "dv_mgr (ask_user i rq d) = dv_mgr d"
  by (simp_all add: dv_report_def dv_log_def dv_report_unless_def updateRuntimeState_def dv_startReconnect_def
      cancel_worker_def idle_if_unconnected_def dv_stopReconnect_def startQueueDrain_def set_loop_def end_loop_def
      on_server_def on_endpoints_def upd_worker_def worker_ends_def set_wait_def drop_pending_def ask_user_def
      mpart_simps Let_def split: option.split)

section \<open>The statements that change keys\<close>

lemma map_of_stored: "map_of (stored_keys s) p = None \<longleftrightarrow> p \<notin> peer_ids s"
  by (auto simp: stored_keys_def map_of_eq_None_iff peer_ids_def image_iff)

lemma stored_keys_snoc:
  "stored_keys (s\<lparr>st_peers := st_peers s @ [p]\<rparr>) = stored_keys s @ [(p_DeviceID p, p_Ed25519PublicKey p)]"
  by (simp add: stored_keys_def)

lemma AddPeer_keys:
  assumes "AddPeer now p s = (None, s')"
  shows "p_DeviceID p \<noteq> [] \<and> p_Ed25519PublicKey p \<noteq> [] \<and> map_of (stored_keys s) (p_DeviceID p) = None \<and>
    stored_keys s' = stored_keys s @ [(p_DeviceID p, p_Ed25519PublicKey p)]"
  using assms
  by (auto simp: AddPeer_def Let_def insert_peer_def map_of_stored stored_keys_snoc split: if_splits option.splits)

lemma AddPeer_failed: "AddPeer now p s = (Some e, s') \<Longrightarrow> s' = s"
  by (auto simp: AddPeer_def Let_def insert_peer_def split: if_splits option.splits)

lemma RemovePeer_keys:
  "stored_keys (snd (RemovePeer p s)) = stored_keys s \<or>
   stored_keys (snd (RemovePeer p s)) = filter (\<lambda>e. fst e \<noteq> p) (stored_keys s)"
  by (auto simp: RemovePeer_def stored_keys_def tbl_delete_def filter_map comp_def)

lemma UpdatePeerIdentity_keys:
  assumes "UpdatePeerIdentity p k fp s = (r, s')"
  shows "r \<noteq> None \<and> stored_keys s' = stored_keys s \<or>
    r = None \<and> p \<in> fst ` set (stored_keys s) \<and> k \<noteq> [] \<and>
    stored_keys s' = map (\<lambda>e. (fst e, if fst e = p then k else snd e)) (stored_keys s)"
  using assms
  by (auto simp: UpdatePeerIdentity_def update_peer_def clear_verified_def stored_keys_def tbl_update_def rows_affected_def
      image_iff filter_empty_conv split: if_splits)

lemma GetPeer_keys:
  assumes "GetPeer p s = Inr row"
  shows "(p, p_Ed25519PublicKey row) \<in> set (stored_keys s)"
  using assms by (auto simp: GetPeer_def tbl_find_def stored_keys_def find_Some_iff split: option.splits)

section \<open>Adding, removing and changing peers\<close>

text \<open>Adding the peer of a connection stores its key, and pins it when its settings are there as well.\<close>

lemma key_add_connected: "key_step C (keys (dv_mgr d)) (keys (dv_mgr (snd (add_connected_peer fe i st d))))"
proof (cases "fingerprintFromBase64 (en_P (fe_env fe)) (peerPublicKey (mg_heap (dv_mgr d) i))")
  case (Inr fp)
  let ?m = "dv_mgr d"
  let ?p = "peerDeviceID (mg_heap ?m i)" and ?k = "peerPublicKey (mg_heap ?m i)"
  obtain r s where a: "AddPeer (fe_ms fe) (new_peer_row fe i st fp d) (mg_store ?m) = (r, s)" by fastforce
  obtain d1 where d1: "dv_statement (AddPeer (fe_ms fe) (new_peer_row fe i st fp d)) d = (r, d1)"
    and m1: "dv_mgr d1 = ?m\<lparr>mg_store := s\<rparr>"
    using a by (auto simp: dv_statement_def run_manager_def run_node_def run_mgr_def on_store_def put_node_def)
  show ?thesis
  proof (cases r)
    case (Some e)
    with a have "s = mg_store ?m" by (auto dest: AddPeer_failed)
    with Some d1 m1 Inr show ?thesis by (simp add: add_connected_peer_def Let_def keys_def key_step.same)
  next
    case None
    have row: "p_DeviceID (new_peer_row fe i st fp d) = ?p" "p_Ed25519PublicKey (new_peer_row fe i st fp d) = ?k"
      by (simp_all add: new_peer_row_def Let_def split_beta)
    note new = AddPeer_keys [OF a [unfolded None], unfolded row]
    obtain r2 d2 where d2: "dv_statement (EnsurePeerSettingsExist ?p) d1 = (r2, d2)" by fastforce
    then have "dv_mgr d2 = snd (on_store (EnsurePeerSettingsExist ?p) (dv_mgr d1))"
      using manager_simps(5) [of "EnsurePeerSettingsExist ?p" d1] by simp
    then have k2: "keys (dv_mgr d2) = (knownKeys ?m, stored_keys (mg_store ?m) @ [(?p, ?k)])"
      using new m1 keys_same [OF mpart_statements(9), of ?p "dv_mgr d1"] by (simp add: keys_def)
    have "keys (dv_mgr (snd (add_connected_peer fe i st d))) =
        (if r2 = None then (AList.update ?p ?k (knownKeys ?m), stored_keys (mg_store ?m) @ [(?p, ?k)]) else keys (dv_mgr d2))"
      using Inr d1 None d2 new k2
      by (auto simp: add_connected_peer_def Let_def setKnownKey_def keys_def split: option.split)
    with k2 new show ?thesis by (auto simp: keys_def intro: key_step.add key_step.pin)
  qed
qed (simp add: add_connected_peer_def Let_def key_step.same)

lemma keys_ok_row:
  "keys_ok (keys m) \<Longrightarrow> GetPeer p (mg_store m) = Inr row \<Longrightarrow> p_Ed25519PublicKey row \<noteq> []"
  by (auto simp: keys_ok_def keys_def dest!: GetPeer_keys)

lemma persist_kept:
  assumes "keys_ok (keys (dv_mgr d))" "GetPeer (peer_of (dv_mgr d) i) (mg_store (dv_mgr d)) = Inr row"
  shows "mpart (dv_mgr (snd (persistPeerConnection fe i st b d))) = mpart (dv_mgr d)"
proof -
  have "mpart (dv_mgr d1) = mpart (dv_mgr d)" if "dv_statement (UpdatePeerStatus p st t) d = (r, d1)" for p t r d1
    using manager_simps(5) [of "UpdatePeerStatus p st t" d] that by (simp add: mpart_simps)
  with keys_ok_row [OF assms] assms(2) show ?thesis
    unfolding persistPeerConnection_def Let_def
    by (auto simp: peer_of_def mpart_simps split: prod.split)
qed

lemma key_persist:
  assumes "keys_ok (keys (dv_mgr d))"
  shows "key_step C (keys (dv_mgr d)) (keys (dv_mgr (snd (persistPeerConnection fe i st b d))))"
proof (cases "GetPeer (peer_of (dv_mgr d) i) (mg_store (dv_mgr d))")
  case (Inr row)
  from keys_same [OF persist_kept [OF assms Inr]] show ?thesis by (simp add: key_step.same)
next
  case (Inl e)
  then show ?thesis
    unfolding persistPeerConnection_def Let_def
    by (auto simp: peer_of_def key_step.same key_add_connected split: prod.split)
qed

text \<open>Without permission to add a peer nothing changes.\<close>

lemma persist_known_kept:
  assumes "keys_ok (keys (dv_mgr d))"
  shows "mpart (dv_mgr (snd (persistPeerConnection fe i st False d))) = mpart (dv_mgr d)"
proof (cases "GetPeer (peer_of (dv_mgr d) i) (mg_store (dv_mgr d))")
  case (Inl e)
  then show ?thesis by (simp add: persistPeerConnection_def Let_def peer_of_def split: prod.split)
qed (rule persist_kept [OF assms])

lemma key_forget: "key_step C (keys (dv_mgr d)) (keys (dv_mgr (forget_peer p d)))"
  using RemovePeer_keys [of p "mg_store (dv_mgr d)"]
  by (auto simp: forget_peer_def removeKnownKey_def keys_def on_store_def split_beta intro: key_step.forget key_step.remove)


section \<open>Connections\<close>

lemma mpart_cong_connections:
  "mpart m' = mpart m \<Longrightarrow> mpart (m'\<lparr>connections := cs\<rparr>) = mpart (m\<lparr>connections := cs\<rparr>)"
  by (simp add: mpart_def)

lemma mpart_replace: "mpart (replace_connection p i m) = mpart (m\<lparr>connections := AList.update p i (connections m)\<rparr>)"
  by (simp add: replace_connection_def Let_def mpart_simps split: option.split)

lemma register_mpart:
  assumes "keys_ok (keys (dv_mgr d))"
  shows "mpart (dv_mgr (registerConnection fe i d)) =
    (if peer_of (dv_mgr d) i = [] then mpart (dv_mgr d)
     else mpart ((dv_mgr d)\<lparr>connections := AList.update (peer_of (dv_mgr d) i) i (connections (dv_mgr d))\<rparr>))"
proof (cases "peer_of (dv_mgr d) i = []")
  case False
  let ?p = "peer_of (dv_mgr d) i" and ?m = "dv_mgr d"
  define d1 where "d1 = on_manager (replace_connection ?p i) (on_manager (allow_rekeying i) d)"
  define d3 where "d3 = updateRuntimeState ?p (conn_state (mg_heap (dv_mgr (dv_stopReconnect ?p d1)) i)) None (dv_stopReconnect ?p d1)"
  have a: "mpart (allow_rekeying i ?m) = mpart ?m" by (simp add: allow_rekeying_def mpart_set_conn)
  have m1: "mpart (dv_mgr d1) = mpart (?m\<lparr>connections := AList.update ?p i (connections ?m)\<rparr>)"
    by (simp add: d1_def mpart_replace mpart_parts(4) [OF a] mpart_cong_connections [OF a])
  then have m3: "mpart (dv_mgr d3) = mpart (?m\<lparr>connections := AList.update ?p i (connections ?m)\<rparr>)"
    by (simp add: d3_def device_kept)
  then have "keys (dv_mgr d3) = keys ?m" using keys_same [OF m3] by (simp add: keys_def)
  then have "mpart (dv_mgr (snd (persistPeerConnection fe i ''online'' False d3))) = mpart (dv_mgr d3)"
    using assms by (intro persist_known_kept) simp
  moreover obtain r d4 where d4: "persistPeerConnection fe i ''online'' False d3 = (r, d4)" by fastforce
  ultimately have m4: "mpart (dv_mgr d4) = mpart (dv_mgr d3)" by simp
  have "npart (startOutboundFileTransferDrain p n) = npart n" for p n by (rule identity.part_drain)
  then have "mpart (dv_mgr (registerConnection fe i d)) = mpart (dv_mgr d3)"
    using False m4 by (simp add: registerConnection_def Let_def d1_def [symmetric] d3_def [symmetric] d4 device_kept npart_def)
  with False m3 show ?thesis by simp
qed (simp add: registerConnection_def Let_def mpart_simps)

lemma register_keys: "keys_ok (keys (dv_mgr d)) \<Longrightarrow> keys (dv_mgr (registerConnection fe i d)) = keys (dv_mgr d)"
  using register_mpart [of d fe i]
    keys_same [of "dv_mgr (registerConnection fe i d)" "dv_mgr d"]
    keys_same [of "dv_mgr (registerConnection fe i d)"
      "(dv_mgr d)\<lparr>connections := AList.update (peer_of (dv_mgr d) i) i (connections (dv_mgr d))\<rparr>"]
  by (simp add: keys_def split: if_splits)

section \<open>Key changes\<close>

text \<open>The answer of the user to a changed key.\<close>

definition consents :: "PeerManagerOptions \<Rightarrow> string \<Rightarrow> string \<Rightarrow> string \<Rightarrow> bool" where
  "consents opts peer old new \<longleftrightarrow> (\<exists>f. pm_OnKeyChange opts = Some f \<and> f peer old new = Inr True)"

lemma key_accept:
  assumes "map_of (knownKeys m) p = None \<or> map_of (knownKeys m) p = Some old" "consents opts p old new" "mpart m3 = mpart m"
  shows "key_step (consents opts) (keys m) (keys (snd (case on_store (UpdatePeerIdentity p new fp) m3 of
      (Some e, m4) \<Rightarrow> (Inl e, m4) | (None, m4) \<Rightarrow> (Inr True, setKnownKey p new m4))))"
proof -
  obtain r s where u: "UpdatePeerIdentity p new fp (mg_store m3) = (r, s)" by fastforce
  have "p \<noteq> []" if "r = None" using u that by (auto simp: UpdatePeerIdentity_def split: if_splits)
  moreover note key_step.change [where consent = "consents opts", OF assms(2,1)]
  ultimately show ?thesis
    using UpdatePeerIdentity_keys [OF u] mpart_parts(2,3) [OF assms(3)]
    by (cases r) (simp_all add: on_store_def u keys_def setKnownKey_def key_step.same)
qed

lemma key_decision:
  assumes "map_of (knownKeys m) p = None \<or> map_of (knownKeys m) p = Some old"
  shows "key_step (consents opts) (keys m) (keys (snd (handleKeyChangeDecision env (pm_OnKeyChange opts) p old new m)))"
proof (cases "(case pm_OnKeyChange opts of None \<Rightarrow> Inr False | Some f \<Rightarrow> f p old new) :: bool res")
  case answer: (Inr trust)
  have same: "key_step (consents opts) (keys m) (keys m')" if "mpart m' = mpart m" for m'
    using keys_same [OF that] by (simp add: key_step.same)
  show ?thesis
  proof (cases "fingerprintFromBase64 (en_P env) old")
    case ofp: (Inr ofp)
    show ?thesis
    proof (cases "fingerprintFromBase64 (en_P env) new")
      case nfp: (Inr nfp)
      define decision where "decision = (if trust then ''trusted'' else ''rejected'')"
      define severity where "severity = (if trust then ''info'' else ''warning'')"
      obtain r1 m1 where 1: "on_store (RecordKeyRotationEvent (env_ms env)
          \<lparr>k_ID = 0, k_PeerDeviceID = p, k_OldKeyFingerprint = ofp, k_NewKeyFingerprint = nfp,
           k_Decision = decision, k_Timestamp = env_ms env\<rparr>) m = (r1, m1)" by fastforce
      define m2 where "m2 = logSecurityEvent env ''key_rotation_decision'' p severity
          [(''decision'', decision), (''old_key_fingerprint'', ofp), (''new_key_fingerprint'', nfp)] m1"
      obtain r3 m3 where 3: "on_store (ResetPeerVerified p) m2 = (r3, m3)" by fastforce
      have m1: "mpart m1 = mpart m" using 1 mpart_statements(11) by (metis snd_conv)
      moreover have "mpart m3 = mpart m2" using 3 mpart_statements(10) by (metis snd_conv)
      ultimately have m3: "mpart m3 = mpart m" by (simp add: m2_def mpart_log)
      have "consents opts p old new" if trust
        using answer that by (auto simp: consents_def split: option.splits)
      then have accept: "key_step (consents opts) (keys m) (keys (snd (if \<not> trust then (Inr False, m3)
          else case on_store (UpdatePeerIdentity p new nfp) m3 of
            (Some e, m4) \<Rightarrow> (Inl e, m4) | (None, m4) \<Rightarrow> (Inr True, setKnownKey p new m4))))"
        using key_accept [OF assms _ m3, of opts new nfp] same [OF m3] by (cases trust) simp_all
      have "handleKeyChangeDecision env (pm_OnKeyChange opts) p old new m =
          (case r1 of Some e \<Rightarrow> (Inl e, m1) | None \<Rightarrow>
            if (case r3 of None \<Rightarrow> False | Some e \<Rightarrow> \<not> errors_Is e ErrNotFound) then (Inl (the r3), m3)
            else if \<not> trust then (Inr False, m3)
            else case on_store (UpdatePeerIdentity p new nfp) m3 of
              (Some e, m4) \<Rightarrow> (Inl e, m4) | (None, m4) \<Rightarrow> (Inr True, setKnownKey p new m4))"
        unfolding handleKeyChangeDecision_def answer ofp nfp sum.case Let_def decision_def [symmetric]
          severity_def [symmetric] 1 prod.case m2_def [symmetric] 3
        by (cases r1; cases r3) simp_all
      then show ?thesis
        using accept by (cases r1) (simp_all add: same m1 m3)
    qed (simp add: handleKeyChangeDecision_def answer ofp key_step.same)
  qed (simp add: handleKeyChangeDecision_def answer key_step.same)
qed (simp add: handleKeyChangeDecision_def key_step.same)

section \<open>Handshakes\<close>

text \<open>A handshake asks about the key the device has pinned for the peer, if it has one.\<close>

lemma asked_evaluate:
  assumes "evaluatePeerKey p new known lookup (Some probe) = Some e"
  shows "asked e = Some (p, existing_key known lookup p, new)"
  using assms by (auto simp: evaluatePeerKey_def Let_def probe_def asked_def split: if_splits)

lemma asked_other: "w \<noteq> ''key change decision'' \<Longrightarrow> asked (Wrap w e) = None" "asked (Err t) = None"
  "asked ErrInvalidMessageType = None" "asked ErrUnsupportedVersion = None" "asked ErrInvalidSignature = None"
  by (auto simp: asked_def split: go_error.split)

lemma not_asked:
  "DecodeMessageType J s = Inl e \<Longrightarrow> asked e = None" "asked (remote_error J s) = None"
  "BuildHandshakeMessage P J now i pub nonce = Inl e \<Longrightarrow> asked e = None"
  "VerifyHandshakeResponse P J rsp = Inl e \<Longrightarrow> asked e = None"
  by (auto simp: DecodeMessageType_def remote_error_def asked_other BuildHandshakeMessage_def buildHandshakeMessage_def
      signHandshake_def Let_def VerifyHandshakeResponse_def verifyHandshake_def
      split: option.splits sum.splits if_splits Packet.split)

lemma derive_not_asked: "deriveSessionKey P eph k a b nonce = Inl e \<Longrightarrow> asked e = None"
  by (auto simp: deriveSessionKey_def ephemeral_secret_def ParseX25519PublicKey_def ComputeX25519SharedSecret_def
      DeriveSessionKeyWithContext_def asked_other split: option.splits sum.splits if_splits)

lemma asked_dial_finish:
  assumes "dial_finish P J opts eph nonce payload = Inl e" "asked e = Some (p, old, new)"
    "o_OnKeyChangeDecision opts = Some probe"
  shows "old = existing_key (o_KnownPeerKeys opts) (o_KnownPeerKeyLookup opts) p"
  using assms
  by (auto simp: dial_finish_def asked_other not_asked asked_evaluate dest: derive_not_asked
      split: sum.splits if_splits option.splits Packet.splits)


lemma validateIdentity_not_asked: "validateIdentity opts = Some e \<Longrightarrow> asked e = None"
  by (auto simp: validateIdentity_def asked_other split: if_splits)

lemma dial_start_not_asked: "dial_start P J opts now eph payload = Inl e \<Longrightarrow> asked e = None"
  unfolding dial_start_def
  by (auto simp: asked_other not_asked split: sum.splits if_splits option.splits Packet.splits)

lemma Dial_error:
  assumes "Dial P J opts now eph net = Inl e"
  shows "asked e = None \<or> (\<exists>nonce payload. dial_finish P J (withDefaults opts) eph nonce payload = Inl e)"
proof (cases "validateIdentity (withDefaults opts)")
  case None
  note ids = this
  show ?thesis
  proof (cases "dn_challenge net")
    case (Inr payload)
    note read = this
    show ?thesis
    proof (cases "dial_start P J (withDefaults opts) now eph payload")
      case (Inl e')
      with assms ids read dial_start_not_asked [OF Inl] show ?thesis
        by (auto simp: Dial_def Let_def asked_other split: option.splits)
    next
      case (Inr started)
      with assms ids read show ?thesis
        by (cases started) (auto simp: Dial_def Let_def asked_other split: option.splits sum.splits)
    qed
  qed (use assms ids in \<open>auto simp: Dial_def Let_def asked_other split: option.splits\<close>)
qed (use assms validateIdentity_not_asked in \<open>auto simp: Dial_def Let_def\<close>)

lemma asked_Dial:
  assumes "Dial P J opts now eph net = Inl e" "asked e = Some (p, old, new)" "o_OnKeyChangeDecision opts = Some probe"
  shows "old = existing_key (o_KnownPeerKeys opts) (o_KnownPeerKeyLookup opts) p"
proof -
  from Dial_error [OF assms(1)] assms(2) obtain nonce payload
    where "dial_finish P J (withDefaults opts) eph nonce payload = Inl e" by auto
  from asked_dial_finish [OF this assms(2)] assms(3) show ?thesis by simp
qed

lemma keys_ok_known:
  assumes "keys_ok (keys m)" "map_of (knownKeys m) p = Some k"
  shows "p \<noteq> [] \<and> k \<noteq> []"
proof -
  have "map_of (stored_keys (mg_store m)) p = Some k"
    using assms by (auto simp: keys_ok_def keys_def map_le_def dom_def)
  then have "(p, k) \<in> set (stored_keys (mg_store m))" by (rule map_of_SomeD)
  then show ?thesis using assms(1) by (auto simp: keys_ok_def keys_def)
qed

lemma existing_known:
  assumes "keys_ok (keys m)"
  shows "map_of (knownKeys m) p = None \<or>
    map_of (knownKeys m) p = Some (existing_key known (Some (\<lambda>p. lookupKnownKey p m)) p)"
  using keys_ok_known [OF assms, of p]
  by (cases "map_of (knownKeys m) p") (auto simp: existing_key_def lookupKnownKey_def)

lemma key_question:
  assumes "keys_ok (keys (dv_mgr d))"
    and "\<And>p old new. question = Some (p, old, new) \<Longrightarrow> \<exists>known. old = existing_key known (Some (\<lambda>p. lookupKnownKey p (dv_mgr d))) p"
  shows "key_step (consents (dv_options d)) (keys (dv_mgr d)) (keys (dv_mgr (after_question fe question d)))"
proof (cases question)
  case (Some q)
  then obtain p old new where q: "question = Some (p, old, new)" by (cases q) auto
  from assms(2) [OF q] obtain known where "old = existing_key known (Some (\<lambda>p. lookupKnownKey p (dv_mgr d))) p" by blast
  with existing_known [OF assms(1), of p known]
  have "map_of (knownKeys (dv_mgr d)) p = None \<or> map_of (knownKeys (dv_mgr d)) p = Some old" by simp
  from key_decision [OF this] show ?thesis by (simp add: after_question_def q decide_key_def)
qed (simp add: after_question_def key_step.same)

lemma make_connection_mgr:
  "make_connection opts ss now remote d = (i, d1) \<Longrightarrow>
   i = dv_conns d \<and> dv_mgr d1 = set_conn i (newPeerConnection opts ss now) (dv_mgr d)"
  by (auto simp: make_connection_def Let_def)

lemma keys_set_conn [simp]:
  "keys (set_conn i c m) = keys m" "keys (close_conn i m) = keys m" "keys (markSuppressReconnect p m) = keys m"
  by (simp_all add: keys_def set_conn_def close_conn_def markSuppressReconnect_def)

lemma key_dial:
  assumes "keys_ok (keys (dv_mgr d))"
  shows "key_step (consents (dv_options d)) (keys (dv_mgr d)) (keys (dv_mgr (snd (dialAndRegister fe net remote address d))))"
proof -
  define run where "run = (\<lambda>decide. Dial (en_P (fe_env fe)) (en_J (fe_env fe)) (handshake_options decide d)
    (env_ms (fe_env fe)) (en_eph (fe_env fe)) net)"
  define question where "question = (case run probe of Inl e \<Rightarrow> asked e | Inr _ \<Rightarrow> None)"
  define d1 where "d1 = after_question fe question d"
  have opts: "o_OnKeyChangeDecision (handshake_options decide d) = Some decide"
    "o_KnownPeerKeyLookup (handshake_options decide d) = Some (\<lambda>p. lookupKnownKey p (dv_mgr d))" for decide
    by (simp_all add: handshake_options_def Let_def)
  have q: "\<exists>known. old = existing_key known (Some (\<lambda>p. lookupKnownKey p (dv_mgr d))) p" if "question = Some (p, old, new)" for p old new
    using that asked_Dial [of _ _ "handshake_options probe d", OF _ _ opts(1)] opts(2)
    by (fastforce simp: question_def run_def split: sum.splits)
  have step: "key_step (consents (dv_options d)) (keys (dv_mgr d)) (keys (dv_mgr d1))"
    unfolding d1_def by (rule key_question [OF assms q])
  then have ok: "keys_ok (keys (dv_mgr d1))" using assms keys_ok_step by blast
  have reg: "keys (dv_mgr (registerConnection fe i d2)) = keys (dv_mgr d1)"
    if "make_connection (handshake_options probe d) ss now remote d1 = (i, d2)" for ss now i d2
    using register_keys [of d2 fe i] make_connection_mgr [OF that] ok by simp
  have same: "keys (dv_mgr (dv_log fe ev p sv ds d1)) = keys (dv_mgr d1)" for ev p sv ds
    by (rule keys_same) (simp add: device_kept)
  have dial: "dialAndRegister fe net remote address d =
    (case run (\<lambda>p old new. fst (decide_key fe d p old new)) of
       Inl e \<Rightarrow> (Inl e, if isHandshakeFailureError e
           then dv_log fe ''handshake_failure'' [] ''warning''
             [(''direction'', ''outbound''), (''address'', address), (''error'', error_text e)] d1 else d1)
     | Inr ss \<Rightarrow> let (i, d2) = make_connection (handshake_options probe d) ss (en_now (fe_env fe)) remote d1
                in (Inr i, registerConnection fe i d2))"
    unfolding dialAndRegister_def Let_def d1_def question_def run_def by (rule refl)
  show ?thesis
  proof (cases "run (\<lambda>p old new. fst (decide_key fe d p old new))")
    case (Inl e)
    then show ?thesis using step same by (simp add: dial)
  next
    case (Inr ss)
    obtain i d2 where mk: "make_connection (handshake_options probe d) ss (en_now (fe_env fe)) remote d1 = (i, d2)" by fastforce
    show ?thesis using step reg [OF mk] by (simp add: dial Inr mk)
  qed
qed


lemma server_asked:
  assumes "server_question fe net rawNonce srv d = Some (p, old, new)"
  shows "\<exists>known. old = existing_key known (Some (\<lambda>p. lookupKnownKey p (dv_mgr d))) p"
  using assms
  by (auto simp: server_question_def server_options_def Let_def split: Inbound.splits if_splits sum.splits option.splits Packet.splits)

lemma key_accept_connection:
  assumes "keys_ok (keys (dv_mgr d))"
  shows "key_step (consents (dv_options d)) (keys (dv_mgr d)) (keys (dv_mgr (accept_connection fe net rawNonce tcp remote d)))"
proof -
  have shake: "key_step (consents (dv_options d)) (keys (dv_mgr d)) (keys (dv_mgr (inbound_handshake fe net rawNonce remote srv d)))"
    if "keys_ok (keys (dv_mgr d))" for srv and d
  proof -
    define d1 where "d1 = after_question fe (server_question fe net rawNonce srv d) d"
    have step: "key_step (consents (dv_options d)) (keys (dv_mgr d)) (keys (dv_mgr d1))"
      unfolding d1_def by (rule key_question [OF that server_asked])
    have "keys (dv_mgr d2) = keys (dv_mgr d1)" if "make_connection opts ss now remote d1 = (i, d2)" for opts ss now i d2
      using make_connection_mgr [OF that] by simp
    with step show ?thesis
      unfolding inbound_handshake_def Let_def d1_def [symmetric]
      by (auto simp: device_kept split: Inbound.split prod.split)
  qed
  have "mpart (dv_mgr (onInboundConnectionRateLimited fe ip d')) = mpart (dv_mgr d')" for ip d'
    by (simp add: onInboundConnectionRateLimited_def device_kept)
  note same = keys_same [OF this]
  show ?thesis
  proof (cases "dv_server d")
    case (Some srv)
    obtain allowed rates where a: "allowInboundConnection (o_ConnectionRateLimitPerIP (sr_options srv))
        (o_ConnectionRateLimitWindow (sr_options srv)) (remoteIPFromAddr tcp remote) (en_now (fe_env fe)) (sr_rates srv)
        = (allowed, rates)" by fastforce
    show ?thesis
      using shake [of "d\<lparr>dv_server := Some (srv\<lparr>sr_rates := rates\<rparr>)\<rparr>" "srv\<lparr>sr_rates := rates\<rparr>"] assms
      by (simp add: accept_connection_def Some a same key_step.same Let_def)
  qed (simp add: accept_connection_def key_step.same)
qed

lemma incoming_keys:
  "keys_ok (keys (dv_mgr d)) \<Longrightarrow> keys (dv_mgr (serverLoop_incoming fe d)) = keys (dv_mgr d)"
  by (simp add: serverLoop_incoming_def register_keys split: option.split list.split)

lemma server_kept: "mpart (dv_mgr (serverLoop_error fe d)) = mpart (dv_mgr d)"
  by (simp add: serverLoop_error_def Let_def device_kept split: option.split list.split)

section \<open>Adding and removing peers\<close>

lemma dv_send_kept: "dv_send fe i p d = (r, d1) \<Longrightarrow> mpart (dv_mgr d1) = mpart (dv_mgr d)"
  using manager_simps(7) [of fe i p d] by (simp add: mpart_send)

lemma key_after:
  assumes "mpart (dv_mgr d1) = mpart (dv_mgr d)" "key_step C (keys (dv_mgr d1)) ks"
  shows "key_step C (keys (dv_mgr d)) ks"
  using assms(2) keys_same [OF assms(1)] by simp

lemma key_kept: "mpart m1 = mpart m \<Longrightarrow> key_step C (keys m) (keys m1)"
  using keys_same [of m1 m] by (simp add: key_step.same)

lemma key_answer:
  assumes "keys_ok (keys (dv_mgr d))"
  shows "key_step C (keys (dv_mgr d)) (keys (dv_mgr (answer_add_request fe i accept d)))"
proof (cases "signed_add_response fe accept d")
  case (Inr rsp)
  obtain r d1 where s: "dv_send fe i (PPeerAddResponse rsp) d = (r, d1)" by fastforce
  note same = dv_send_kept [OF s]
  have ok: "keys_ok (keys (dv_mgr d1))" using assms keys_same [OF same] by simp
  obtain r2 d2 where p: "persistPeerConnection fe i ''online'' True d1 = (r2, d2)" by fastforce
  have "key_step C (keys (dv_mgr d)) (keys (dv_mgr d2))"
    using key_after [OF same key_persist [OF ok, of C fe i "''online''" True]] p by simp
  then show ?thesis
    using same keys_same [OF device_kept(1), of _ d2]
    by (auto simp: answer_add_request_def Let_def Inr s p device_kept mpart_simps intro: key_kept split: option.split)
qed (auto simp: answer_add_request_def device_kept intro: key_kept)

lemma answer_after:
  assumes "keys_ok (keys (dv_mgr d))" "mpart (dv_mgr d1) = mpart (dv_mgr d)"
  shows "key_step C (keys (dv_mgr d)) (keys (dv_mgr (answer_add_request fe i accept d1)))"
  using key_answer [of d1 C fe i accept] assms keys_same [OF assms(2)] by simp

lemma key_add_request:
  assumes "keys_ok (keys (dv_mgr d))"
  shows "key_step C (keys (dv_mgr d)) (keys (dv_mgr (handlePeerAddRequest fe i rq decision d)))"
proof -
  define f where "f = (\<lambda>m :: Manager. let (b, l) = allowAddRequest (addRequestCooldown m) (peer_of (dv_mgr d) i) (en_now (fe_env fe)) (lastAddRequestAt m)
     in (b, m\<lparr>lastAddRequestAt := l\<rparr>))"
  obtain allowed d1 where d1: "run_manager f d = (allowed, d1)" by fastforce
  have "mpart (snd (f m)) = mpart m" for m by (simp add: f_def split_beta mpart_simps)
  then have same: "mpart (dv_mgr d1) = mpart (dv_mgr d)"
    using manager_simps(3) [of f d] d1 by simp
  show ?thesis
    unfolding handlePeerAddRequest_def Let_def f_def [unfolded Let_def, symmetric] d1
    by (auto simp: key_step.same device_kept mpart_simps same split: option.split sum.split
        intro!: key_kept answer_after [OF assms same])
qed

lemma key_decided:
  assumes "keys_ok (keys (dv_mgr d))"
  shows "key_step C (keys (dv_mgr d)) (keys (dv_mgr (add_decided fe i ev d)))"
proof -
  have "key_step C (keys (dv_mgr d)) (keys (dv_mgr (answer_add_request fe i b (set_loop i Receiving d))))" for b
    by (rule answer_after [OF assms]) (simp add: device_kept)
  then show ?thesis
    by (simp add: add_decided_def Let_def device_kept key_step.same split: option.split loop_phase.split add_wake.split)
qed


lemma add_response_kept: "mpart (dv_mgr (handlePeerAddResponse fe i rsp d)) = mpart (dv_mgr d)"
  by (simp add: handlePeerAddResponse_def Let_def device_kept split: option.split)

lemma forget_add_kept: "mpart (forget_add p m) = mpart m" "mpart (register_add p box m) = mpart m"
  by (simp_all add: forget_add_def register_add_def mpart_simps)

lemma send_add_kept: "mpart (dv_mgr (snd (SendPeerAddRequest fe p d))) = mpart (dv_mgr d)"
proof (cases "getConnection p (dv_mgr d)")
  case (Some i)
  define d1 where "d1 = on_manager (register_add p (dv_boxes d)) (d\<lparr>dv_boxes := dv_boxes d + 1\<rparr>)"
  have 1: "mpart (dv_mgr d1) = mpart (dv_mgr d)" by (simp add: d1_def forget_add_kept)
  have 2: "mpart (dv_mgr d2) = mpart (dv_mgr d)" if "dv_send fe i q d1 = (r, d2)" for q r d2
    using dv_send_kept [OF that] 1 by simp
  show ?thesis
    unfolding SendPeerAddRequest_def Some option.case Let_def d1_def [symmetric]
    by (auto simp: forget_add_kept 1 2 split: sum.split prod.split option.split)
qed (simp add: SendPeerAddRequest_def)

lemma key_add_ends:
  assumes "keys_ok (keys (dv_mgr d))"
  shows "key_step C (keys (dv_mgr d)) (keys (dv_mgr (snd (add_request_ends fe w ev d))))"
proof -
  let ?d1 = "d\<lparr>dv_add_waits := remove1 w (dv_add_waits d)\<rparr>"
  have "key_step C (keys (dv_mgr d)) (keys (dv_mgr (snd (persistPeerConnection fe (aw_conn w) ''online'' True ?d1))))"
    using key_persist [of ?d1 C fe "aw_conn w" "''online''" True] assms by simp
  then have persist: "key_step C (keys (dv_mgr d)) (keys (dv_mgr d2))"
    if "persistPeerConnection fe (aw_conn w) ''online'' True ?d1 = (r, d2)" for r d2
    using that by simp
  have "keys (forget_add p m) = keys m" for p m by (rule keys_same) (simp add: forget_add_kept)
  then show ?thesis
    unfolding add_request_ends_def Let_def
    by (cases ev) (auto simp: key_step.same persist split: option.split prod.split)
qed

lemma stopped_kept: "mpart (dv_mgr (dv_stopReconnect p (updateRuntimeState p st t d))) = mpart (dv_mgr d)"
  by (simp add: device_kept)

lemma key_forget_after: "mpart (dv_mgr d1) = mpart (dv_mgr d) \<Longrightarrow> key_step C (keys (dv_mgr d)) (keys (dv_mgr (forget_peer p d1)))"
  by (rule key_after [OF _ key_forget])

lemma key_send_remove: "key_step C (keys (dv_mgr d)) (keys (dv_mgr (SendPeerRemove fe p d)))"
proof -
  obtain sent d1 where 1: "(case getConnection p (dv_mgr d) of None \<Rightarrow> (None, d)
      | Some i \<Rightarrow> dv_send fe i (PPeerRemove (signed_remove fe (dv_mgr d))) d) = (sent, d1)" by fastforce
  then have same: "mpart (dv_mgr d1) = mpart (dv_mgr d)" by (auto split: option.splits dest: dv_send_kept)
  show ?thesis
    unfolding SendPeerRemove_def Let_def 1
    by (auto simp: device_kept mpart_simps same split: option.split intro!: key_forget_after)
qed

lemma key_handle_remove: "key_step C (keys (dv_mgr d)) (keys (dv_mgr (snd (handlePeerRemove fe i msg d))))"
  by (auto simp: handlePeerRemove_def Let_def device_kept mpart_simps key_step.same split: option.split
      intro!: key_forget_after intro: key_kept)

lemma disconnect_kept: "mpart (dv_mgr (snd (SendPeerDisconnect fe p d))) = mpart (dv_mgr d)"
  by (simp add: SendPeerDisconnect_def Let_def device_kept mpart_simps mpart_set_conn peer_of_conn split: option.split)


section \<open>The goroutine of a connection\<close>

lemmas transfers_kept =
  identity.part_handleFileRequest [unfolded npart_def] identity.part_handleFileResponse [unfolded npart_def]
  identity.part_handleFileData [unfolded npart_def] identity.part_handleFileComplete [unfolded npart_def]
  identity.part_handleFolderTransferRequest [unfolded npart_def] identity.part_folder_response [unfolded npart_def]
  identity.part_run_step [unfolded npart_def] identity.part_sendFile [unfolded npart_def]
  identity.part_SendFolder [unfolded npart_def] identity.part_folder_wait [unfolded npart_def]
  identity.part_CancelTransfer [unfolded npart_def] identity.part_Retry [unfolded npart_def]
  identity.part_approval_decided [unfolded npart_def] identity.part_load [unfolded npart_def]
  identity.part_drain [unfolded npart_def] npart_maintenance [unfolded npart_def]

lemma key_packet:
  assumes "keys_ok (keys (dv_mgr d))"
  shows "key_step C (keys (dv_mgr d)) (keys (dv_mgr (snd (handle_packet fe i decision p d))))"
  by (cases p)
    (auto simp: key_step.same mpart_messages mpart_sessions key_handle_remove add_response_kept transfers_kept
      intro!: key_add_request [OF assms] key_kept)

lemma key_payload:
  assumes "keys_ok (keys (dv_mgr d))"
  shows "key_step C (keys (dv_mgr d)) (keys (dv_mgr (snd (loop_payload fe i decision payload d))))"
  using key_packet [OF assms]
  by (auto simp: loop_payload_def key_step.same device_kept intro!: key_kept split: sum.split option.split)

lemma loop_ends_keys: "keys (dv_mgr (loop_ends fe i d)) = keys (dv_mgr d)"
proof -
  have status: "mpart (dv_mgr d2) = mpart (dv_mgr d1)" if "dv_statement (UpdatePeerStatus p st t) d1 = (r, d2)" for p st t r d1 d2
    using manager_simps(5) [of "UpdatePeerStatus p st t" d1] that by (simp add: mpart_simps)
  have mark: "mpart (dv_mgr d2) = mpart (dv_mgr d1)" if "run_manager (consumeSuppressReconnect p) d1 = (r, d2)" for p r d1 d2
    using manager_simps(3) [of "consumeSuppressReconnect p" d1] that by (simp add: mpart_simps)
  have drop: "keys (drop_connection p m) = keys m" for p m by (simp add: drop_connection_def keys_def)
  have fail: "keys (fail_rekey_waiter p m) = keys m" for p m by (simp add: fail_rekey_waiter_def keys_def)
  show ?thesis
    unfolding loop_ends_def Let_def
    by (auto simp: device_kept drop fail split: prod.split dest!: status [THEN keys_same] mark [THEN keys_same]
        simp: keys_same [OF device_kept(3)])
qed

lemma grace_kept: "mpart (dv_mgr (grace_ends i d)) = mpart (dv_mgr d)"
  by (simp add: grace_ends_def Let_def device_kept split: sum.split)

lemma key_turn:
  assumes "keys_ok (keys (dv_mgr d))"
  shows "key_step C (keys (dv_mgr d)) (keys (dv_mgr (connectionLoop_turn fe i decision received d)))"
proof -
  have "key_step C (keys (dv_mgr d)) (keys (dv_mgr d1))" if "loop_payload fe i decision payload d = (b, d1)" for payload b d1
    using key_payload [OF assms, of C fe i decision payload] that by simp
  then show ?thesis
    by (auto simp: connectionLoop_turn_def loop_ends_keys key_step.same keys_same [OF grace_kept]
        split: option.split loop_phase.split sum.split prod.split bool.split)
qed

section \<open>Reconnecting\<close>

lemma key_worker:
  assumes "keys_ok (keys (dv_mgr d))"
  shows "key_step (consents (dv_options d)) (keys (dv_mgr d)) (keys (dv_mgr (worker_step fe jitter net remote k d)))"
proof -
  have pause: "mpart (dv_mgr (worker_pause fe jitter k w d)) = mpart (dv_mgr d)" for w
    by (simp add: worker_pause_def Let_def device_kept)
  have resolve: "mpart (dv_mgr (worker_resolve k w d)) = mpart (dv_mgr d)" for w
    by (simp add: worker_resolve_def Let_def device_kept split: sum.split)
  have dial: "key_step (consents (dv_options d)) (keys (dv_mgr d)) (keys (dv_mgr (worker_dial fe net remote k w a rest d)))" for w a rest
  proof -
    obtain r d1 where r: "dialAndRegister fe net remote a d = (r, d1)" by fastforce
    have "keys (dv_mgr (worker_dial fe net remote k w a rest d)) = keys (dv_mgr d1)"
      unfolding worker_dial_def Let_def r
      by (cases r) (simp_all add: device_kept keys_same [OF device_kept(15)])
    with key_dial [OF assms, of fe net remote a] r show ?thesis by simp
  qed
  show ?thesis
    by (auto simp: worker_step_def Let_def pause resolve dial device_kept key_step.same intro!: key_kept dial
        split: worker_phase.split list.split)
qed


section \<open>Starting\<close>

lemma stored_load_keys: "mg_store (load_keys ps m) = mg_store m"
proof -
  have "mg_store (foldl (\<lambda>m p. if p_Ed25519PublicKey p \<noteq> [] then setKnownKey (p_DeviceID p) (p_Ed25519PublicKey p) m else m) m ps)
      = mg_store m" by (induction ps arbitrary: m) (simp_all add: setKnownKey_def)
  then show ?thesis by (simp add: load_keys_def)
qed

lemma known_load_keys:
  assumes "distinct (map p_DeviceID ps)" "\<forall>p \<in> set ps. p_DeviceID p \<noteq> [] \<and> p_Ed25519PublicKey p \<noteq> []"
  shows "map_of (knownKeys (load_keys ps m)) =
    map_of (knownKeys m) ++ map_of (map (\<lambda>p. (p_DeviceID p, p_Ed25519PublicKey p)) ps)"
  using assms
proof (induction ps arbitrary: m)
  case Nil
  then show ?case by (simp add: load_keys_def)
next
  case (Cons p ps)
  let ?m = "setKnownKey (p_DeviceID p) (p_Ed25519PublicKey p) m"
  have "load_keys (p # ps) m = load_keys ps ?m" using Cons.prems by (simp add: load_keys_def)
  moreover have "map_of (map (\<lambda>p. (p_DeviceID p, p_Ed25519PublicKey p)) ps) (p_DeviceID p) = None"
    using Cons.prems by (auto simp: map_of_eq_None_iff)
  ultimately show ?case
    using Cons by (auto simp: setKnownKey_def update_conv' map_add_def fun_eq_iff split: option.split)
qed

lemma load_keys_known:
  assumes "keys_ok (keys m)"
  shows "map_of (knownKeys (load_keys (ListPeers (mg_store m)) m)) = map_of (knownKeys m) ++ map_of (stored_keys (mg_store m))"
proof -
  let ?s = "mg_store m" and ?f = "\<lambda>p. (p_DeviceID p, p_Ed25519PublicKey p)"
  have set: "set (ListPeers ?s) = set (st_peers ?s)" by (simp add: ListPeers_def)
  have mset: "mset (ListPeers ?s) = mset (st_peers ?s)" by (simp add: ListPeers_def)
  have d: "distinct (map p_DeviceID (st_peers ?s))"
    using assms by (simp add: keys_ok_def keys_def stored_keys_def comp_def)
  have "distinct (map p_DeviceID (ListPeers ?s))"
    using d mset by (metis mset_eq_imp_distinct_iff mset_map)
  moreover have "\<forall>p \<in> set (ListPeers ?s). p_DeviceID p \<noteq> [] \<and> p_Ed25519PublicKey p \<noteq> []"
    using assms set by (auto simp: keys_ok_def keys_def stored_keys_def)
  moreover have "map_of (map ?f (ListPeers ?s)) = map_of (stored_keys ?s)"
    using calculation(1) d set by (subst map_of_inject_set) (simp_all add: stored_keys_def comp_def)
  ultimately show ?thesis by (simp add: known_load_keys)
qed

lemma key_local_row:
  assumes "ensureLocalPeerRecord fe d = (r, d1)"
  shows "mpart (dv_mgr d1) = mpart (dv_mgr d) \<or>
    (\<exists>p k. p \<noteq> [] \<and> k \<noteq> [] \<and> map_of (stored_keys (mg_store (dv_mgr d))) p = None \<and>
      keys (dv_mgr d1) = (knownKeys (dv_mgr d), stored_keys (mg_store (dv_mgr d)) @ [(p, k)]))"
proof (cases "GetPeer (local_id (dv_mgr d)) (mg_store (dv_mgr d))")
  case (Inl e)
  obtain r2 s where a: "AddPeer (fe_ms fe) (local_row fe (dv_mgr d)) (mg_store (dv_mgr d)) = (r2, s)" by fastforce
  obtain d2 where d2: "dv_statement (AddPeer (fe_ms fe) (local_row fe (dv_mgr d))) d = (r2, d2)"
    and m2: "dv_mgr d2 = (dv_mgr d)\<lparr>mg_store := s\<rparr>"
    using a by (auto simp: dv_statement_def run_manager_def run_node_def run_mgr_def on_store_def put_node_def)
  have "d1 = (if \<not> errors_Is e ErrNotFound then d else d2)"
    using assms d2 by (simp add: ensureLocalPeerRecord_def Inl split: if_splits)
  then show ?thesis
    using m2 a AddPeer_failed [of "fe_ms fe" "local_row fe (dv_mgr d)" "mg_store (dv_mgr d)" _ s]
      AddPeer_keys [of "fe_ms fe" "local_row fe (dv_mgr d)" "mg_store (dv_mgr d)" s]
    by (cases r2) (auto simp: keys_def)
qed (use assms in \<open>simp add: ensureLocalPeerRecord_def\<close>)

lemma reconnect_known_kept: "mpart (dv_mgr (reconnect_known d)) = mpart (dv_mgr d)"
proof -
  have "mpart (dv_mgr (foldl (\<lambda>d p. if p_DeviceID p = local_id (dv_mgr d) then d
      else if p_Status p = ''online'' \<or> hasPendingOutboundTransferForPeer (p_DeviceID p) (dv_node d)
      then dv_startReconnect (p_DeviceID p) d else d) d ps)) = mpart (dv_mgr d)" for ps
    by (induction ps arbitrary: d) (auto simp: device_kept)
  then show ?thesis by (simp add: reconnect_known_def)
qed


lemma key_reloaded:
  assumes "keys_ok (keys m)" "ensureLocalPeerRecord fe d = (r, d2)" "mpart (dv_mgr d) = mpart m"
  shows "key_step C (keys m) (keys (dv_mgr d2)) \<and> key_step C (keys m) (keys (dv_mgr (loadKnownPeers d2)))"
proof -
  have "keys (dv_mgr (loadKnownPeers d2)) = (knownKeys (load_keys (ListPeers (mg_store (dv_mgr d2))) (dv_mgr d2)),
      stored_keys (mg_store (dv_mgr d2)))"
    by (simp add: loadKnownPeers_def keys_def stored_load_keys)
  moreover note load_keys_known [of "dv_mgr d2"]
  moreover have "keys (dv_mgr d2) = keys m \<or> (\<exists>p k. p \<noteq> [] \<and> k \<noteq> [] \<and> map_of (stored_keys (mg_store m)) p = None \<and>
      keys (dv_mgr d2) = (knownKeys m, stored_keys (mg_store m) @ [(p, k)]))"
    using key_local_row [OF assms(2)] keys_same [of "dv_mgr d2" m] mpart_parts(2,3) [OF assms(3)] assms(3) by auto
  moreover have "keys_ok (keys m)" by fact
  ultimately show ?thesis
  proof (elim disjE exE conjE)
    assume k: "keys (dv_mgr d2) = keys m" and ok: "keys_ok (keys m)"
      and load: "keys (dv_mgr (loadKnownPeers d2)) = (knownKeys (load_keys (ListPeers (mg_store (dv_mgr d2))) (dv_mgr d2)),
        stored_keys (mg_store (dv_mgr d2)))"
      and known: "keys_ok (keys (dv_mgr d2)) \<Longrightarrow> map_of (knownKeys (load_keys (ListPeers (mg_store (dv_mgr d2))) (dv_mgr d2))) =
        map_of (knownKeys (dv_mgr d2)) ++ map_of (stored_keys (mg_store (dv_mgr d2)))"
    from k have "knownKeys (dv_mgr d2) = knownKeys m" "stored_keys (mg_store (dv_mgr d2)) = stored_keys (mg_store m)"
      by (simp_all add: keys_def)
    with k ok load known show ?thesis by (auto simp: keys_def intro: key_step.same key_step.reload)
  next
    fix p k
    assume new: "p \<noteq> []" "k \<noteq> []" "map_of (stored_keys (mg_store m)) p = None"
      and k2: "keys (dv_mgr d2) = (knownKeys m, stored_keys (mg_store m) @ [(p, k)])" and ok: "keys_ok (keys m)"
      and load: "keys (dv_mgr (loadKnownPeers d2)) = (knownKeys (load_keys (ListPeers (mg_store (dv_mgr d2))) (dv_mgr d2)),
        stored_keys (mg_store (dv_mgr d2)))"
      and known: "keys_ok (keys (dv_mgr d2)) \<Longrightarrow> map_of (knownKeys (load_keys (ListPeers (mg_store (dv_mgr d2))) (dv_mgr d2))) =
        map_of (knownKeys (dv_mgr d2)) ++ map_of (stored_keys (mg_store (dv_mgr d2)))"
    have step: "key_step C (keys m) (keys (dv_mgr d2))" using key_step.add [OF new(3,1,2)] k2 by (simp add: keys_def)
    then have "keys_ok (keys (dv_mgr d2))" using ok keys_ok_step by blast
    moreover from k2 have "knownKeys (dv_mgr d2) = knownKeys m"
      "stored_keys (mg_store (dv_mgr d2)) = stored_keys (mg_store m) @ [(p, k)]" by (simp_all add: keys_def)
    ultimately show ?thesis
      using step known load key_step.reload_new [OF new(3,1,2)] by (simp add: keys_def)
  qed
qed

lemma key_start:
  assumes "keys_ok (keys (dv_mgr d))"
  shows "key_step C (keys (dv_mgr d)) (keys (dv_mgr (snd (Start fe days_ago listen d))))"
proof (cases "dv_started d")
  case False
  let ?d0 = "d\<lparr>dv_started := True\<rparr>"
  obtain r1 d1 where 1: "run_node (run_disk (os_MkdirAll fe (currentDownloadDirectory (dv_node ?d0)))) ?d0 = (r1, d1)" by fastforce
  then have "dv_node d1 = snd (run_disk (os_MkdirAll fe (currentDownloadDirectory (dv_node ?d0))) (dv_node d))"
    using manager_simps(8) [of "run_disk (os_MkdirAll fe (currentDownloadDirectory (dv_node ?d0)))" ?d0] by simp
  then have m1: "mpart (dv_mgr d1) = mpart (dv_mgr d)"
    using identity.part_disk by (simp add: npart_def)
  obtain r2 d2 where 2: "ensureLocalPeerRecord fe d1 = (r2, d2)" by fastforce
  note loaded = key_reloaded [OF assms 2 m1, of C]
  obtain r3 d3 where 3: "run_node (loadTransferCheckpoints fe) (loadKnownPeers d2) = (r3, d3)" by fastforce
  then have m3: "mpart (dv_mgr d3) = mpart (dv_mgr (loadKnownPeers d2))"
    using manager_simps(8) [of "loadTransferCheckpoints fe" "loadKnownPeers d2"] transfers_kept(14) by simp
  have step3: "key_step C (keys (dv_mgr d)) (keys (dv_mgr d3))" using loaded keys_same [OF m3] by simp
  have rest: "keys (dv_mgr (reconnect_known (dv_maintenance fe days_ago (d3\<lparr>dv_server := srv\<rparr>)))) = keys (dv_mgr d3)" for srv
    by (rule keys_same) (simp add: reconnect_known_kept dv_maintenance_def transfers_kept)
  show ?thesis
    unfolding Start_def Let_def 1 prod.case 2 3
    using False loaded step3 m1 rest key_kept [OF m1, of C]
    by (auto split: option.split sum.split)
qed (simp add: Start_def key_step.same)

end
