(* ===== verification/Assembly.thy ===== *)
theory Assembly
  imports FileReceive Rekey
begin

text \<open>
  What the receiving side promises. The abstract view of a transfer is a map from chunk numbers to bytes;
  \<open>assembled\<close> reads it off the set of received chunks and the temporary file, and receiving a chunk of the
  right length refines its update. On that rest the assembly of a file from its chunks in any order and
  with repetitions, and what may become of a transfer at its end.
\<close>

section \<open>Chunks of a file\<close>

definition chunk_at :: "int \<Rightarrow> string \<Rightarrow> int \<Rightarrow> string" where
  "chunk_at chunkSize content k = take (nat chunkSize) (drop (nat (k * chunkSize)) content)"

lemma chunkCount_bound:
  assumes "0 < cs" "0 \<le> k" "k < chunkCount filesize cs"
  shows "k * cs < filesize"
proof -
  have pos: "0 < filesize" using assms by (auto simp: chunkCount_def split: if_splits)
  have count: "chunkCount filesize cs = filesize div cs + (if filesize mod cs \<noteq> 0 then 1 else 0)"
    using pos assms(1) by (simp add: chunkCount_def quo_pos rem_pos)
  have split: "filesize div cs * cs + filesize mod cs = filesize" by simp
  show ?thesis
  proof (cases "k < filesize div cs")
    case True
    then have "(k + 1) * cs \<le> filesize div cs * cs" using assms(1) by (intro mult_right_mono) auto
    also have "\<dots> \<le> filesize" using split pos_mod_sign [OF assms(1), of filesize] by linarith
    finally show ?thesis using assms(1) by (simp add: distrib_right)
  next
    case False
    then have "k = filesize div cs" "filesize mod cs \<noteq> 0" using assms(3) count by (auto split: if_splits)
    moreover have "0 < filesize mod cs"
      using pos_mod_sign [OF assms(1), of filesize] calculation(2) by linarith
    ultimately have "k * cs + filesize mod cs = filesize" "0 < filesize mod cs" using split by simp_all
    then show ?thesis by linarith
  qed
qed

lemma chunkCount_covers:
  assumes "0 < cs" "0 \<le> i" "i < filesize"
  shows "i div cs < chunkCount filesize cs"
proof -
  have count: "chunkCount filesize cs = filesize div cs + (if filesize mod cs \<noteq> 0 then 1 else 0)"
    using assms by (simp add: chunkCount_def quo_pos rem_pos)
  have "i div cs \<le> filesize div cs" using assms by (intro zdiv_mono1) auto
  moreover have "i div cs < filesize div cs" if "filesize mod cs = 0"
  proof -
    have "filesize = filesize div cs * cs" using that by (metis add_0_right div_mult_mod_eq)
    moreover have "i div cs * cs \<le> i" using assms(1) by (metis add_increasing2 div_mult_mod_eq order_refl pos_mod_sign zle_iff_zadd)
    ultimately have "i div cs * cs < filesize div cs * cs" using assms(3) by linarith
    then show ?thesis using assms(1) by (simp add: mult_less_cancel_right)
  qed
  ultimately show ?thesis using count by (auto split: if_splits)
qed

text \<open>Writing inside the file changes exactly the bytes written.\<close>

lemma length_write_at: "off + length b \<le> length c \<Longrightarrow> length (write_at off b c) = length c"
  by (simp add: write_at_def)

lemma nth_write_at:
  "off + length b \<le> length c \<Longrightarrow> i < length c \<Longrightarrow>
    write_at off b c ! i = (if off \<le> i \<and> i < off + length b then b ! (i - off) else c ! i)"
  by (auto simp: write_at_def nth_append min_def)

lemma length_chunk_at:
  "0 < cs \<Longrightarrow> 0 \<le> k \<Longrightarrow> length (chunk_at cs c k) = min (nat cs) (length c - nat (k * cs))"
  by (simp add: chunk_at_def min.commute)

lemma nth_chunk_at:
  "0 < cs \<Longrightarrow> 0 \<le> k \<Longrightarrow> i < length (chunk_at cs c k) \<Longrightarrow> chunk_at cs c k ! i = c ! (nat (k * cs) + i)"
  by (cases "nat (k * cs) \<le> length c") (simp_all add: chunk_at_def)

lemma nat_chunk_le:
  assumes "0 < cs" "0 \<le> j" "j < (k :: int)"
  shows "nat (j * cs) + nat cs \<le> nat (k * cs)"
proof -
  have "(j + 1) * cs \<le> k * cs" using assms by (intro mult_right_mono) auto
  then show ?thesis using assms by (simp add: nat_add_distrib [symmetric] distrib_right)
qed

lemma chunk_at_write:
  assumes "0 < cs" "0 \<le> k" "0 \<le> j" "nat (k * cs) \<le> length c"
    and len: "length b = min (nat cs) (length c - nat (k * cs))"
  shows "chunk_at cs (write_at (nat (k * cs)) b c) j = (if j = k then b else chunk_at cs c j)"
proof -
  let ?w = "write_at (nat (k * cs)) b c"
  have fits: "nat (k * cs) + length b \<le> length c" and short: "length b \<le> nat cs"
    using assms(4) len by (auto simp: min_def split: if_splits)
  have lw: "length ?w = length c" by (rule length_write_at [OF fits])
  show ?thesis
  proof (rule nth_equalityI)
    show "length (chunk_at cs ?w j) = length (if j = k then b else chunk_at cs c j)"
      using assms lw by (simp add: length_chunk_at)
  next
    fix i assume i: "i < length (chunk_at cs ?w j)"
    then have "i < nat cs" and pos: "nat (j * cs) + i < length c"
      using assms(1,3) lw by (auto simp: length_chunk_at less_diff_conv add.commute)
    have here: "nat (k * cs) \<le> nat (j * cs) + i \<and> nat (j * cs) + i < nat (k * cs) + length b \<longleftrightarrow> j = k"
    proof (cases j k rule: linorder_cases)
      case less
      then show ?thesis using nat_chunk_le [OF assms(1,3) less] \<open>i < nat cs\<close> by simp
    next
      case equal
      then show ?thesis using \<open>i < nat cs\<close> pos len by simp
    next
      case greater
      then show ?thesis using nat_chunk_le [OF assms(1,2) greater] short by simp
    qed
    show "chunk_at cs ?w j ! i = (if j = k then b else chunk_at cs c j) ! i"
      using i assms lw here nth_write_at [OF fits pos] by (auto simp: nth_chunk_at length_chunk_at)
  qed
qed

section \<open>The sessions a node holds\<close>

text \<open>Identity, key and peer of every connection: no operation on files changes them.\<close>

definition sessions where
  "sessions n = (mg_identity (nd_mgr n), \<lambda>k. session_part (mg_heap (nd_mgr n) k))"

lemma sessions_same: "nd_mgr n' = nd_mgr n \<Longrightarrow> sessions n' = sessions n"
  by (simp add: sessions_def)

lemma sessions_on_mgr:
  "(\<And>m. mg_identity (f m) = mg_identity m \<and> (\<forall>k. session_part (mg_heap (f m) k) = session_part (mg_heap m k))) \<Longrightarrow>
    sessions (on_mgr f n) = sessions n"
  by (simp add: sessions_def on_mgr_def)

lemma sessions_run_disk [simp]: "sessions (snd (run_disk f n)) = sessions n"
  by (rule sessions_same) (simp add: run_disk_def split: prod.split)

lemma sessions_report [simp]: "sessions (report e n) = sessions n"
  by (simp add: report_def sessions_def on_mgr_def)

lemma sessions_report_some [simp]: "sessions (report_some rn) = sessions (snd rn)"
  by (cases rn) (simp add: report_some_def split: option.split)

lemma sessions_statement [simp]: "sessions (snd (statement f n)) = sessions n"
  by (simp add: sessions_def statement_def run_mgr_def on_store_def split: prod.split)

lemma sessions_set_status [simp]: "sessions (set_status i s n) = sessions n"
  by (simp add: set_status_def)

lemma sessions_send_to [simp]: "sessions (snd (send_to fe i p n)) = sessions n"
proof (cases "send (fe_env fe) i p (nd_mgr n)")
  case (Pair r m)
  then show ?thesis
    using send_heap(1) [OF Pair] send_frame(2) [OF Pair] by (simp add: sessions_def send_to_def run_mgr_def)
qed

lemma sessions_respond [simp]: "sessions (respond fe r i response n) = sessions n"
  by (simp add: respond_def Let_def split: sum.split)

lemma sessions_sendChunkNack [simp]: "sessions (sendChunkNack fe i fileID k msg n) = sessions n"
  by (simp add: sendChunkNack_def)

lemma sessions_emit [simp]: "sessions (emitFileProgress p n) = sessions n"
  by (rule sessions_same) simp

lemma sessions_setInbound [simp]: "sessions (setInboundTransfer t n) = sessions n"
  by (rule sessions_same) (simp add: setInboundTransfer_def)

lemma sessions_checkpoint [simp]: "sessions (maybePersistInboundCheckpoint fe fileID b n) = sessions n"
proof -
  have "sessions n2 = sessions n1" if "statement f n1 = (r, n2)" for f n1 r n2
    using sessions_statement [of f n1] that by simp
  then show ?thesis
    by (auto simp: maybePersistInboundCheckpoint_def Let_def split: option.split prod.split)
qed

lemma sessions_write_chunk [simp]: "sessions (snd (write_chunk fe k b t n)) = sessions n"
proof -
  have "sessions n2 = sessions n1" if "run_disk f n1 = (r, n2)" for f n1 and r :: "go_error option" and n2
    using sessions_run_disk [of f n1] that by simp
  then show ?thesis by (auto simp: write_chunk_def split: prod.split option.split)
qed

lemma sessions_handleFileData [simp]: "sessions (handleFileData fe i data n) = sessions n"
proof -
  have "sessions n' = sessions n" if "write_chunk fe k b t n = (r, n')" for k b t r n'
    using sessions_write_chunk [of fe k b t n] that by simp
  then show ?thesis
    by (auto simp: handleFileData_def acknowledge_chunk_def Let_def
        split: option.split sum.split prod.split)
qed

lemma open_chunk_cong:
  "sessions n' = sessions n \<Longrightarrow> it_TotalChunks t' = it_TotalChunks t \<Longrightarrow>
    open_chunk fe i data t' n' = open_chunk fe i data t n"
proof -
  assume s: "sessions n' = sessions n" and t: "it_TotalChunks t' = it_TotalChunks t"
  have "session_part (mg_heap (nd_mgr n') i) = session_part (mg_heap (nd_mgr n) i)"
    using s by (simp add: sessions_def) meson
  from session_part_eq(3) [OF this] show ?thesis by (simp only: open_chunk_def t)
qed

section \<open>Receiving a chunk refines an update of the assembled map\<close>

definition temp_content :: "inboundFileTransfer \<Rightarrow> Node \<Rightarrow> string option" where
  "temp_content t n = map_of (dk_files (nd_disk n)) (it_TempPath t)"

definition assembled :: "string \<Rightarrow> Node \<Rightarrow> int \<Rightarrow> string option" where
  "assembled fileID n k =
     (case getInboundTransfer fileID n of
        None \<Rightarrow> None
      | Some t \<Rightarrow>
          if k \<in> set (it_ReceivedChunks t)
          then map_option (\<lambda>c. chunk_at (it_ChunkSize t) c k) (temp_content t n) else None)"

definition inbound_wf :: "inboundFileTransfer \<Rightarrow> bool" where
  "inbound_wf t \<longleftrightarrow> 0 < it_ChunkSize t \<and> 0 \<le> it_Filesize t \<and> is_int64 (it_Filesize t) \<and>
     it_TotalChunks t = chunkCount (it_Filesize t) (it_ChunkSize t) \<and>
     set (it_ReceivedChunks t) \<subseteq> {0..<it_TotalChunks t} \<and>
     0 \<le> it_NextChunk t \<and> {0..<it_NextChunk t} \<subseteq> set (it_ReceivedChunks t) \<and>
     it_NextChunk t \<notin> set (it_ReceivedChunks t)"

lemma advance_spec:
  "{0..<k} \<subseteq> set rs \<Longrightarrow> k \<le> advance rs k \<and> {0..<advance rs k} \<subseteq> set rs \<and> advance rs k \<notin> set rs"
proof (induction rs k rule: advance.induct)
  case (1 rs k)
  show ?case
  proof (cases "k \<in> set rs")
    case True
    moreover have "{0..<k + 1} \<subseteq> insert k {0..<k}" by auto
    ultimately have "{0..<k + 1} \<subseteq> set rs" using "1.prems" by blast
    with "1.IH" True show ?thesis by (simp add: advance.simps [of rs k])
  next
    case False
    then show ?thesis using "1.prems" by (simp add: advance.simps [of rs k])
  qed
qed

lemma count_chunk_wf: "inbound_wf t \<Longrightarrow> 0 \<le> k \<Longrightarrow> k < it_TotalChunks t \<Longrightarrow> inbound_wf (count_chunk k len t)"
proof -
  assume t: "inbound_wf t" "0 \<le> k" "k < it_TotalChunks t"
  then have "{0..<it_NextChunk t} \<subseteq> set (k # it_ReceivedChunks t)" by (auto simp: inbound_wf_def)
  from advance_spec [OF this] t show ?thesis by (auto simp: count_chunk_def inbound_wf_def Let_def)
qed

lemma inbound_wf_checkpoint [simp]:
  "inbound_wf (t\<lparr>it_checkpointChunk := a, it_checkpointBytes := b\<rparr>) = inbound_wf t"
  by (simp add: inbound_wf_def)

lemma count_chunk_simps [simp]:
  "it_ChunkSize (count_chunk k len t) = it_ChunkSize t" "it_Filesize (count_chunk k len t) = it_Filesize t"
  "it_TotalChunks (count_chunk k len t) = it_TotalChunks t" "it_TempPath (count_chunk k len t) = it_TempPath t"
  "it_FinalPath (count_chunk k len t) = it_FinalPath t" "it_FileID (count_chunk k len t) = it_FileID t"
  "it_Checksum (count_chunk k len t) = it_Checksum t" "it_FromDeviceID (count_chunk k len t) = it_FromDeviceID t"
  "set (it_ReceivedChunks (count_chunk k len t)) = insert k (set (it_ReceivedChunks t))"
  by (auto simp: count_chunk_def Let_def)

lemma getInbound_set [simp]: "getInboundTransfer fileID (setInboundTransfer t n) = (if it_FileID t = fileID then Some t else getInboundTransfer fileID n)"
  by (auto simp: getInboundTransfer_def setInboundTransfer_def update_conv')

lemma setInbound_frame [simp]:
  "nd_disk (setInboundTransfer t n) = nd_disk n" "nd_mgr (setInboundTransfer t n) = nd_mgr n"
  "nd_options (setInboundTransfer t n) = nd_options n"
  "outboundFileTransfers (setInboundTransfer t n) = outboundFileTransfers n"
  by (simp_all add: setInboundTransfer_def)

lemma getInbound_cong: "inboundFileTransfers n' = inboundFileTransfers n \<Longrightarrow> getInboundTransfer fileID n' = getInboundTransfer fileID n"
  by (simp add: getInboundTransfer_def)

lemma getInbound_frames [simp]:
  "getInboundTransfer f (emitFileProgress p n) = getInboundTransfer f n"
  "getInboundTransfer f (report_some rn) = getInboundTransfer f (snd rn)"
  "getInboundTransfer f (report e n) = getInboundTransfer f n"
  "getInboundTransfer f (snd (statement s n)) = getInboundTransfer f n"
  "getInboundTransfer f (snd (send_to fe i pk n)) = getInboundTransfer f n"
  "getInboundTransfer f (sendChunkNack fe i fileID k msg n) = getInboundTransfer f n"
  "getInboundTransfer f (set_status fileID st n) = getInboundTransfer f n"
  by (rule getInbound_cong, simp)+

lemma checkpoint_inbound:
  assumes "getInboundTransfer fileID n = Some t" "it_FileID t = fileID"
  shows "\<exists>a b. getInboundTransfer fileID (maybePersistInboundCheckpoint fe fileID force n) =
    Some (t\<lparr>it_checkpointChunk := a, it_checkpointBytes := b\<rparr>)"
    and "nd_disk (maybePersistInboundCheckpoint fe fileID force n) = nd_disk n"
proof -
  let ?n = "maybePersistInboundCheckpoint fe fileID force n"
  let ?t = "t\<lparr>it_checkpointChunk := it_NextChunk t, it_checkpointBytes := it_BytesReceived t\<rparr>"
  let ?n1 = "setInboundTransfer ?t n"
  let ?cp = "\<lparr>c_FileID = it_FileID t, c_Direction = ''receive'', c_NextChunk = it_NextChunk t,
    c_BytesTransferred = it_BytesReceived t, c_TempPath = it_TempPath t, c_UpdatedAt = fe_ms fe\<rparr>"
  obtain r n2 where st: "statement (UpsertTransferCheckpoint (fe_ms fe) ?cp) ?n1 = (r, n2)" by fastforce
  have "parts n2 = parts ?n1"
    using parts_statement [of "UpsertTransferCheckpoint (fe_ms fe) ?cp" ?n1] unfolding st by (simp only: snd_conv)
  then have n2: "getInboundTransfer fileID n2 = Some ?t" "nd_disk n2 = nd_disk n"
    using assms(2) getInbound_cong [of n2 ?n1 fileID] by (simp_all add: parts_def)
  consider "?n = n" | "?n = n2" | e where "?n = report e n2"
    unfolding maybePersistInboundCheckpoint_def assms(1) option.case Let_def st prod.case
    by (cases r; fastforce split: if_splits)
  then have both: "getInboundTransfer fileID ?n \<in> {Some t, Some ?t} \<and> nd_disk ?n = nd_disk n"
    using n2 assms(1) by cases simp_all
  have "t = t\<lparr>it_checkpointChunk := it_checkpointChunk t, it_checkpointBytes := it_checkpointBytes t\<rparr>" by simp
  with both show "\<exists>a b. getInboundTransfer fileID ?n = Some (t\<lparr>it_checkpointChunk := a, it_checkpointBytes := b\<rparr>)"
    by (metis insertE singletonD)
  show "nd_disk ?n = nd_disk n" using both by blast
qed

lemma acknowledge_frame [simp]:
  "getInboundTransfer f (acknowledge_chunk fe i fileID k t n) = getInboundTransfer f n"
  "nd_disk (acknowledge_chunk fe i fileID k t n) = nd_disk n"
  by (auto simp: acknowledge_chunk_def split: sum.split)

lemma map_of_put_file [simp]: "map_of (dk_files (put_file p c d)) = (map_of (dk_files d))(p \<mapsto> c)"
  by (simp add: put_file_def update_conv')

lemma write_chunk_ok:
  assumes temp: "temp_content t n = Some content"
    and os: "os_refuse fe ''open'' (it_TempPath t) = None" "os_refuse fe ''write'' (it_TempPath t) = None"
    and off: "0 \<le> k * it_ChunkSize t" "is_int64 (k * it_ChunkSize t)" and "b \<noteq> []"
  shows "\<exists>n1. write_chunk fe k b t n = (None, n1) \<and>
    map_of (dk_files (nd_disk n1)) = (map_of (dk_files (nd_disk n)))
      (it_TempPath t \<mapsto> write_at (nat (k * it_ChunkSize t)) b content) \<and>
    inboundFileTransfers n1 = inboundFileTransfers n"
  using assms
  by (simp add: write_chunk_def run_disk_def os_OpenWrite_def os_WriteAt_def os_call_def temp_content_def wrap_int64_id)

text \<open>A chunk of the right length: all of a chunk, or the rest of the file.\<close>

definition fits :: "inboundFileTransfer \<Rightarrow> int \<Rightarrow> string \<Rightarrow> bool" where
  "fits t k bytes \<longleftrightarrow> int (length bytes) = min (it_ChunkSize t) (it_Filesize t - k * it_ChunkSize t)"

definition usable :: "FileEnv \<Rightarrow> string \<Rightarrow> bool" where
  "usable fe path \<longleftrightarrow> os_refuse fe ''open'' path = None \<and> os_refuse fe ''write'' path = None"

lemma chunk_offset:
  assumes "inbound_wf t" "0 \<le> k" "k < it_TotalChunks t"
  shows "0 \<le> k * it_ChunkSize t" "k * it_ChunkSize t < it_Filesize t" "is_int64 (k * it_ChunkSize t)"
proof -
  show pos: "0 \<le> k * it_ChunkSize t" using assms by (simp add: inbound_wf_def)
  show lt: "k * it_ChunkSize t < it_Filesize t"
    using assms chunkCount_bound [of "it_ChunkSize t" k "it_Filesize t"] by (simp add: inbound_wf_def)
  show "is_int64 (k * it_ChunkSize t)" using pos lt assms(1) by (auto simp: inbound_wf_def is_int64_def)
qed

lemma open_chunk_range: "open_chunk fe i data t n = Inr b \<Longrightarrow> 0 \<le> fd_ChunkIndex data \<and> fd_ChunkIndex data < it_TotalChunks t"
  by (auto simp: open_chunk_def split: if_splits)

lemma handleFileData_effect:
  assumes t: "getInboundTransfer (fd_FileID data) n = Some t" "it_FileID t = fd_FileID data" "fd_FileID data \<noteq> []"
    and wf: "inbound_wf t" and temp: "temp_content t n = Some content" and os: "usable fe (it_TempPath t)"
    and "open": "open_chunk fe i data t n = Inr bytes" and len: "fits t (fd_ChunkIndex data) bytes"
  shows "\<exists>a b. getInboundTransfer (fd_FileID data) (handleFileData fe i data n) =
      Some ((count_chunk (fd_ChunkIndex data) (length bytes) t)\<lparr>it_checkpointChunk := a, it_checkpointBytes := b\<rparr>)"
    and "map_of (dk_files (nd_disk (handleFileData fe i data n))) = (map_of (dk_files (nd_disk n)))
      (it_TempPath t \<mapsto> write_at (nat (fd_ChunkIndex data * it_ChunkSize t)) bytes content)"
proof -
  let ?k = "fd_ChunkIndex data" and ?f = "fd_FileID data"
  note range = open_chunk_range [OF "open"]
  note off = chunk_offset [OF wf range [THEN conjunct1] range [THEN conjunct2]]
  have "0 < int (length bytes)" using len off(2) wf by (simp add: fits_def inbound_wf_def)
  then have "bytes \<noteq> []" by auto
  then obtain n1 where n1: "write_chunk fe ?k bytes t n = (None, n1)"
    "map_of (dk_files (nd_disk n1)) = (map_of (dk_files (nd_disk n)))
      (it_TempPath t \<mapsto> write_at (nat (?k * it_ChunkSize t)) bytes content)"
    using write_chunk_ok [OF temp _ _ off(1,3)] os unfolding usable_def by blast
  let ?t1 = "count_chunk ?k (length bytes) t"
  let ?n2 = "maybePersistInboundCheckpoint fe ?f False (setInboundTransfer ?t1 n1)"
  have step: "handleFileData fe i data n = acknowledge_chunk fe i ?f ?k ?t1 ?n2"
    using t "open" n1(1) by (simp add: handleFileData_def Let_def)
  have in1: "getInboundTransfer ?f (setInboundTransfer ?t1 n1) = Some ?t1" "it_FileID ?t1 = ?f" using t(2) by simp_all
  show "\<exists>a b. getInboundTransfer ?f (handleFileData fe i data n) =
      Some (?t1\<lparr>it_checkpointChunk := a, it_checkpointBytes := b\<rparr>)"
    using checkpoint_inbound(1) [OF in1] by (simp add: step)
  show "map_of (dk_files (nd_disk (handleFileData fe i data n))) = (map_of (dk_files (nd_disk n)))
      (it_TempPath t \<mapsto> write_at (nat (?k * it_ChunkSize t)) bytes content)"
    using checkpoint_inbound(2) [OF in1] n1(2) by (simp add: step)
qed

lemma chunk_length:
  "0 \<le> off \<Longrightarrow> off < filesize \<Longrightarrow> 0 < cs \<Longrightarrow> int (length b) = min cs (filesize - off) \<Longrightarrow>
    int (length c) = filesize \<Longrightarrow> length b = min (nat cs) (length c - nat off)"
  by linarith

lemma chunk_length':
  "0 \<le> off \<Longrightarrow> off < filesize \<Longrightarrow> 0 < cs \<Longrightarrow> int (length c) = filesize \<Longrightarrow>
    int (min (nat cs) (length c - nat off)) = min cs (filesize - off)"
  by linarith

definition receiving :: "string \<Rightarrow> inboundFileTransfer \<Rightarrow> string \<Rightarrow> Node \<Rightarrow> bool" where
  "receiving fileID t content n \<longleftrightarrow> fileID \<noteq> [] \<and> getInboundTransfer fileID n = Some t \<and> it_FileID t = fileID \<and>
     inbound_wf t \<and> temp_content t n = Some content \<and> int (length content) = it_Filesize t"

definition same_file :: "inboundFileTransfer \<Rightarrow> inboundFileTransfer \<Rightarrow> bool" where
  "same_file t t' \<longleftrightarrow> it_FileID t' = it_FileID t \<and> it_FromDeviceID t' = it_FromDeviceID t \<and>
     it_Filesize t' = it_Filesize t \<and> it_ChunkSize t' = it_ChunkSize t \<and>
     it_TotalChunks t' = it_TotalChunks t \<and> it_TempPath t' = it_TempPath t \<and>
     it_FinalPath t' = it_FinalPath t \<and> it_Checksum t' = it_Checksum t"

lemma receiving_step:
  assumes r: "receiving (fd_FileID data) t content n" and os: "usable fe (it_TempPath t)"
    and "open": "open_chunk fe i data t n = Inr bytes" and len: "fits t (fd_ChunkIndex data) bytes"
  shows "\<exists>t'. receiving (fd_FileID data) t'
      (write_at (nat (fd_ChunkIndex data * it_ChunkSize t)) bytes content) (handleFileData fe i data n) \<and>
    same_file t t' \<and> set (it_ReceivedChunks t') = insert (fd_ChunkIndex data) (set (it_ReceivedChunks t))"
proof -
  let ?k = "fd_ChunkIndex data"
  note r' = r [unfolded receiving_def]
  note range = open_chunk_range [OF "open"]
  have off: "0 \<le> ?k * it_ChunkSize t" "?k * it_ChunkSize t < it_Filesize t"
    using chunk_offset [of t ?k] r' range by auto
  obtain a b where t': "getInboundTransfer (fd_FileID data) (handleFileData fe i data n) =
      Some ((count_chunk ?k (length bytes) t)\<lparr>it_checkpointChunk := a, it_checkpointBytes := b\<rparr>)"
    using handleFileData_effect(1) [of data n t content fe i bytes] r' os "open" len by blast
  have disk: "map_of (dk_files (nd_disk (handleFileData fe i data n))) = (map_of (dk_files (nd_disk n)))
      (it_TempPath t \<mapsto> write_at (nat (?k * it_ChunkSize t)) bytes content)"
    using handleFileData_effect(2) [of data n t content fe i bytes] r' os "open" len by blast
  have "nat (?k * it_ChunkSize t) + length bytes \<le> length content"
    using off len r' by (simp add: fits_def) linarith
  from length_write_at [OF this] show ?thesis
    using t' disk r' range count_chunk_wf [of t ?k "length bytes"]
    by (simp add: receiving_def temp_content_def same_file_def)
qed

section \<open>A file from its chunks\<close>

fun deliver :: "(FileEnv \<times> nat \<times> FileData) list \<Rightarrow> Node \<Rightarrow> Node" where
  "deliver [] n = n"
| "deliver ((fe, i, data) # ds) n = deliver ds (handleFileData fe i data n)"

definition chunk_index :: "FileEnv \<times> nat \<times> FileData \<Rightarrow> int" where
  "chunk_index = (\<lambda>(_, _, data). fd_ChunkIndex data)"

text \<open>Every delivery carries a chunk of the file \<open>F\<close>, sealed for the session it arrives on.\<close>

definition chunks_of :: "string \<Rightarrow> string \<Rightarrow> inboundFileTransfer \<Rightarrow> Node \<Rightarrow> (FileEnv \<times> nat \<times> FileData) list \<Rightarrow> bool" where
  "chunks_of fileID F t n ds \<longleftrightarrow>
     (\<forall>(fe, i, data) \<in> set ds. fd_FileID data = fileID \<and> usable fe (it_TempPath t) \<and>
        open_chunk fe i data t n = Inr (chunk_at (it_ChunkSize t) F (fd_ChunkIndex data)))"

definition agree :: "string \<Rightarrow> string \<Rightarrow> inboundFileTransfer \<Rightarrow> bool" where
  "agree F content t \<longleftrightarrow> (\<forall>k \<in> set (it_ReceivedChunks t). chunk_at (it_ChunkSize t) content k = chunk_at (it_ChunkSize t) F k)"

lemma same_file_trans: "same_file a b \<Longrightarrow> same_file b c \<Longrightarrow> same_file a c"
  by (simp add: same_file_def)

lemma chunks_of_later:
  assumes "chunks_of fileID F t n ds" "same_file t t'" "sessions n' = sessions n"
  shows "chunks_of fileID F t' n' ds"
  using assms open_chunk_cong [OF assms(3), of t' t] by (auto simp: chunks_of_def same_file_def)

lemma fits_chunk_at:
  assumes "inbound_wf t" "int (length F) = it_Filesize t" "0 \<le> k" "k < it_TotalChunks t"
  shows "fits t k (chunk_at (it_ChunkSize t) F k)"
proof -
  have "0 < it_ChunkSize t" using assms(1) by (simp add: inbound_wf_def)
  with chunk_offset [OF assms(1,3,4)] assms(2,3) show ?thesis
    unfolding fits_def by (simp only: length_chunk_at chunk_length')
qed

lemma deliver_chunks:
  "receiving fileID t content n \<Longrightarrow> int (length F) = it_Filesize t \<Longrightarrow> agree F content t \<Longrightarrow>
    chunks_of fileID F t n ds \<Longrightarrow>
    \<exists>t' content'. receiving fileID t' content' (deliver ds n) \<and> same_file t t' \<and> agree F content' t' \<and>
      set (it_ReceivedChunks t') = set (it_ReceivedChunks t) \<union> chunk_index ` set ds"
proof (induction ds arbitrary: t content n)
  case Nil
  then show ?case by (auto simp: same_file_def)
next
  case (Cons d ds)
  obtain fe i data where d: "d = (fe, i, data)" by (cases d)
  let ?k = "fd_ChunkIndex data" and ?c = "it_ChunkSize t"
  have here: "fd_FileID data = fileID" "usable fe (it_TempPath t)" and "open": "open_chunk fe i data t n = Inr (chunk_at ?c F ?k)"
    using Cons.prems(4) d by (auto simp: chunks_of_def)
  note range = open_chunk_range [OF "open"]
  have wf: "inbound_wf t" "0 < ?c" "int (length content) = it_Filesize t"
    using Cons.prems(1) by (auto simp: receiving_def inbound_wf_def)
  have fit: "fits t ?k (chunk_at ?c F ?k)" using fits_chunk_at [OF wf(1) Cons.prems(2)] range by blast
  let ?content = "write_at (nat (?k * ?c)) (chunk_at ?c F ?k) content"
  obtain t1 where t1: "receiving fileID t1 ?content (handleFileData fe i data n)" "same_file t t1"
    "set (it_ReceivedChunks t1) = insert ?k (set (it_ReceivedChunks t))"
    using receiving_step [OF _ here(2) "open" fit, of content] Cons.prems(1) here(1) by blast
  have off: "0 \<le> ?k * ?c" "?k * ?c < it_Filesize t" using chunk_offset [OF wf(1)] range by auto
  have F: "length F = length content" using Cons.prems(2) wf(3) by simp
  have "chunk_at ?c ?content j = (if j = ?k then chunk_at ?c F ?k else chunk_at ?c content j)"
    if "j \<in> insert ?k (set (it_ReceivedChunks t))" for j
  proof (rule chunk_at_write [OF wf(2)])
    show "0 \<le> ?k" using range by blast
    show "0 \<le> j" using that range wf(1) by (auto simp: inbound_wf_def)
    show "nat (?k * ?c) \<le> length content" using off wf(3) by simp
    show "length (chunk_at ?c F ?k) = min (nat ?c) (length content - nat (?k * ?c))"
      using range by (simp add: length_chunk_at wf(2) F)
  qed
  then have "agree F ?content t1" using Cons.prems(3) t1(2,3) by (auto simp: agree_def same_file_def)
  moreover have "chunks_of fileID F t n ds" using Cons.prems(4) by (simp add: chunks_of_def)
  note chunks_of_later [OF this t1(2) sessions_handleFileData, of fe i data]
  moreover have "int (length F) = it_Filesize t1" using Cons.prems(2) t1(2) by (simp add: same_file_def)
  ultimately obtain t' content' where t': "receiving fileID t' content' (deliver ds (handleFileData fe i data n))"
    "same_file t1 t'" "agree F content' t'"
    "set (it_ReceivedChunks t') = set (it_ReceivedChunks t1) \<union> chunk_index ` set ds"
    using Cons.IH [OF t1(1)] by blast
  have "set (it_ReceivedChunks t') = set (it_ReceivedChunks t) \<union> chunk_index ` set (d # ds)"
    by (simp add: t'(4) t1(3) d chunk_index_def)
  moreover have "deliver (d # ds) n = deliver ds (handleFileData fe i data n)" by (simp add: d)
  ultimately show ?case using t'(1,3) same_file_trans [OF t1(2) t'(2)] by metis
qed

lemma agree_all:
  assumes "inbound_wf t" "int (length content) = it_Filesize t" "length F = length content"
    and "agree F content t" "{0..<it_TotalChunks t} \<subseteq> set (it_ReceivedChunks t)"
  shows "content = F"
proof (rule nth_equalityI)
  show "length content = length F" using assms(3) by simp
next
  fix i assume i: "i < length content"
  let ?c = "it_ChunkSize t"
  have c: "0 < ?c" using assms(1) by (simp add: inbound_wf_def)
  define k where "k = int i div ?c"
  have k: "0 \<le> k" "k < it_TotalChunks t"
    using chunkCount_covers [of ?c "int i" "it_Filesize t"] i c assms(1,2)
    by (auto simp: k_def inbound_wf_def pos_imp_zdiv_nonneg_iff)
  let ?r = "nat (int i mod ?c)"
  have "int i = k * ?c + int i mod ?c" by (simp add: k_def)
  moreover have "0 \<le> int i mod ?c" "int i mod ?c < ?c" using c by simp_all
  moreover have "0 \<le> k * ?c" using k(1) c by simp
  ultimately have pos: "nat (k * ?c) + ?r = i" "?r < nat ?c" by linarith+
  have eq: "chunk_at ?c content k = chunk_at ?c F k" using assms(4,5) k by (auto simp: agree_def)
  have r: "?r < length (chunk_at ?c content k)" using pos i c k(1) by (simp add: length_chunk_at)
  show "content ! i = F ! i"
    using nth_chunk_at [OF c k(1) r] nth_chunk_at [OF c k(1) r [unfolded eq]] eq pos(1) by simp
qed

lemma all_received: "inbound_wf t \<Longrightarrow> {0..<it_TotalChunks t} \<subseteq> set (it_ReceivedChunks t) \<Longrightarrow> it_NextChunk t = it_TotalChunks t"
proof -
  assume wf: "inbound_wf t" and all: "{0..<it_TotalChunks t} \<subseteq> set (it_ReceivedChunks t)"
  have "\<not> it_NextChunk t < it_TotalChunks t" using wf all by (auto simp: inbound_wf_def)
  moreover have "\<not> it_TotalChunks t < it_NextChunk t"
  proof
    assume less: "it_TotalChunks t < it_NextChunk t"
    have "0 \<le> it_TotalChunks t" using wf by (auto simp: inbound_wf_def chunkCount_def quo_pos pos_imp_zdiv_nonneg_iff)
    then have "it_TotalChunks t \<in> set (it_ReceivedChunks t)" using wf less by (auto simp: inbound_wf_def)
    then show False using wf by (auto simp: inbound_wf_def)
  qed
  ultimately show ?thesis by simp
qed

section \<open>Properties\<close>

lemma chunk_stored:
  assumes "receiving (fd_FileID data) t content n" and "usable fe (it_TempPath t)"
    and "open_chunk fe i data t n = Inr bytes" and "fits t (fd_ChunkIndex data) bytes"
  shows "assembled (fd_FileID data) (handleFileData fe i data n) =
    (assembled (fd_FileID data) n)(fd_ChunkIndex data \<mapsto> bytes)"
proof
  fix j
  let ?k = "fd_ChunkIndex data" and ?c = "it_ChunkSize t"
  obtain t' where t': "receiving (fd_FileID data) t' (write_at (nat (?k * ?c)) bytes content) (handleFileData fe i data n)"
    "same_file t t'" "set (it_ReceivedChunks t') = insert ?k (set (it_ReceivedChunks t))"
    using receiving_step [OF assms] by blast
  note r = assms(1) [unfolded receiving_def] and r' = t'(1) [unfolded receiving_def]
  have cs: "0 < ?c" using r by (simp add: inbound_wf_def)
  note range = open_chunk_range [OF assms(3)]
  have off: "0 \<le> ?k * ?c" "?k * ?c < it_Filesize t" using chunk_offset [of t ?k] r range by auto
  have len: "length bytes = min (nat ?c) (length content - nat (?k * ?c))"
    by (rule chunk_length) (use assms(4) off r cs in \<open>simp_all add: fits_def\<close>)
  have "chunk_at ?c (write_at (nat (?k * ?c)) bytes content) j = (if j = ?k then bytes else chunk_at ?c content j)"
    if "j \<in> insert ?k (set (it_ReceivedChunks t))"
    using that cs range off r len by (intro chunk_at_write) (auto simp: inbound_wf_def)
  then show "assembled (fd_FileID data) (handleFileData fe i data n) j =
      ((assembled (fd_FileID data) n)(?k \<mapsto> bytes)) j"
    using t'(2,3) r r' by (auto simp: assembled_def same_file_def)
qed

text \<open>C32: Receiving a chunk refines an update of a map: reading the transfer table and the temporary file back
  as a map from chunk numbers to bytes, the handler puts the chunk's bytes under its number and changes no
  other chunk, whether or not the chunk was received before.\<close>

theorem handleFileData_refines:
  assumes "receiving (fd_FileID data) t content n" and "usable fe (it_TempPath t)"
    and "open_chunk fe i data t n = Inr bytes" and "fits t (fd_ChunkIndex data) bytes"
  shows "assembled (fd_FileID data) (handleFileData fe i data n) =
    (assembled (fd_FileID data) n)(fd_ChunkIndex data \<mapsto> bytes)"
  by (rule chunk_stored [OF assms])

text \<open>C33: A file comes out whole whatever order its chunks arrive in, however often, and on whatever connections:
  once every chunk of it has been delivered, or was there from before a restart, the temporary file is the
  file that was sent and the transfer counts all its chunks.\<close>

theorem file_assembled:
  assumes "receiving fileID t content n" "int (length F) = it_Filesize t" "agree F content t"
    and "chunks_of fileID F t n ds"
    and "{0..<it_TotalChunks t} \<subseteq> set (it_ReceivedChunks t) \<union> chunk_index ` set ds"
  shows "\<exists>t'. receiving fileID t' F (deliver ds n) \<and> same_file t t' \<and> it_NextChunk t' = it_TotalChunks t"
proof -
  obtain t' content' where t': "receiving fileID t' content' (deliver ds n)" "same_file t t'" "agree F content' t'"
    "set (it_ReceivedChunks t') = set (it_ReceivedChunks t) \<union> chunk_index ` set ds"
    using deliver_chunks [OF assms(1-4)] by blast
  have wf: "inbound_wf t'" "int (length content') = it_Filesize t'" using t'(1) by (auto simp: receiving_def)
  have all: "{0..<it_TotalChunks t'} \<subseteq> set (it_ReceivedChunks t')"
    using assms(5) t'(2,4) by (simp add: same_file_def)
  have "length F = length content'" using assms(2) t'(2) wf(2) by (simp add: same_file_def)
  from agree_all [OF wf this t'(3) all] all_received [OF wf(1) all] show ?thesis
    using t'(1,2) by (auto simp: same_file_def)
qed

section \<open>A concrete transfer\<close>

definition sample_fe :: FileEnv where
  "sample_fe = \<lparr>fe_env = sample_env 9, os_refuse = (\<lambda>_ _. None), mime_TypeByExtension = (\<lambda>_. []), uuid_NewString = (\<lambda>k. if k = 0 then ''u'' else ''v'')\<rparr>"

definition sample_node :: "Manager \<Rightarrow> Node" where
  "sample_node m = \<lparr>nd_mgr = m,
     nd_options = \<lparr>FilesDir = ''/in'', MaxReceiveFileSize = 0, GetDownloadDirectory = None,
       GetMaxReceiveFileSize = None, FileChunkSize = 2, FileResponseTimeout = 10 * Second, MaxChunkRetries = 3,
       FileRequestRateLimit = 5, FileRequestWindow = 60 * Second, OnFileRequest = False\<rparr>,
     nd_disk = \<lparr>dk_files = [], dk_dirs = []\<rparr>, outboundFileTransfers = [], inboundFileTransfers = [],
     inboundFolderTransfers = [], pendingFileApprovals = [], recentFileDecisions = [], outboundFileEventChans = [],
     outboundFolderEventChans = [], outboundTransferQueue = [], activeOutboundTransfer = [], nd_progress = [],
     nd_approvals = [], nd_runs = []\<rparr>"

text \<open>The file \<open>abc\<close> in chunks of two bytes, of which nothing has arrived.\<close>

definition sample_inbound :: inboundFileTransfer where
  "sample_inbound = \<lparr>it_FileID = ''f'', it_FromDeviceID = ''a'', it_Filename = ''n'', it_Filesize = 3,
     it_Filetype = [], it_Checksum = hex_encode (sha256_Sum sample_prims ''abc''), it_ChunkSize = 2,
     it_TotalChunks = 2, it_TempPath = ''/in/f_n.part'', it_FinalPath = ''/in/f_n'', it_ReceivedChunks = [],
     it_NextChunk = 0, it_BytesReceived = 0, it_checkpointChunk = 0, it_checkpointBytes = 0\<rparr>"

definition sample_receiver :: Node where
  "sample_receiver = (sample_node bob)\<lparr>inboundFileTransfers := [(''f'', sample_inbound)],
     nd_disk := \<lparr>dk_files = [(''/in/f_n.part'', replicate 3 CHR 0x00)], dk_dirs = []\<rparr>\<rparr>"

definition sample_data :: "int \<Rightarrow> string \<Rightarrow> FileData" where
  "sample_data k b = \<lparr>fd_FileID = ''f'', fd_ChunkIndex = k, fd_TotalChunks = 2, fd_ChunkSize = int (length b),
     fd_EncryptedData = EncodeToString (b @ replicate 16 CHR ''k''),
     fd_IV = EncodeToString (replicate 12 CHR ''i''), fd_Timestamp = 9\<rparr>"

lemma sample_open:
  assumes "0 \<le> k" "k < it_TotalChunks t" "sessionKey (mg_heap (nd_mgr n) i) = replicate 32 CHR ''k''"
  shows "open_chunk sample_fe i (sample_data k b) t n = Inr b"
  using assms
  by (simp add: open_chunk_def sample_data_def sample_fe_def DecodeString_EncodeToString Decrypt_def
      del: EncodeToString.simps replicate.simps)
     (simp add: sample_prims_def del: EncodeToString.simps)

lemma sample_usable: "usable sample_fe path"
  by (simp add: usable_def sample_fe_def)

lemma sample_receiving: "receiving ''f'' sample_inbound (replicate 3 CHR 0x00) sample_receiver"
proof -
  have "chunkCount 3 2 = 2" by (simp add: chunkCount_def quo_pos rem_pos)
  then show ?thesis
    by (simp add: receiving_def sample_receiver_def getInboundTransfer_def temp_content_def inbound_wf_def
        sample_inbound_def is_int64_def)
qed

lemma sample_receiver_key: "sessionKey (mg_heap (nd_mgr sample_receiver) i) = replicate 32 CHR ''k''"
  by (simp add: sample_receiver_def sample_node_def del: replicate.simps)

theorem handleFileData_refines_witness:
  "assembled ''f'' (handleFileData sample_fe 0 (sample_data 1 ''c'') sample_receiver) =
    (assembled ''f'' sample_receiver)(1 \<mapsto> ''c'')"
proof -
  have id: "fd_FileID (sample_data 1 ''c'') = ''f''" "fd_ChunkIndex (sample_data 1 ''c'') = 1"
    by (simp_all add: sample_data_def del: EncodeToString.simps)
  have "open_chunk sample_fe 0 (sample_data 1 ''c'') sample_inbound sample_receiver = Inr ''c''"
    by (rule sample_open) (simp_all add: sample_inbound_def sample_receiver_key del: replicate.simps)
  moreover have "usable sample_fe (it_TempPath sample_inbound)" by (rule sample_usable)
  moreover have "fits sample_inbound 1 ''c''" by (simp add: fits_def sample_inbound_def)
  ultimately show ?thesis
    using handleFileData_refines [of "sample_data 1 ''c''" sample_inbound "replicate 3 CHR 0x00" sample_receiver]
      sample_receiving by (simp only: id)
qed

theorem file_assembled_witness:
  "\<exists>t'. receiving ''f'' t' ''abc''
      (deliver [(sample_fe, 0, sample_data 1 ''c''), (sample_fe, 0, sample_data 1 ''c''),
                (sample_fe, 0, sample_data 0 ''ab'')] sample_receiver) \<and> it_NextChunk t' = 2"
proof -
  let ?ds = "[(sample_fe, 0, sample_data 1 ''c''), (sample_fe, 0, sample_data 1 ''c''),
    (sample_fe, 0 :: nat, sample_data 0 ''ab'')]"
  have id: "fd_FileID (sample_data k b) = ''f''" "fd_ChunkIndex (sample_data k b) = k" for k b
    by (simp_all add: sample_data_def del: EncodeToString.simps)
  have two: "it_TotalChunks sample_inbound = 2" "it_ChunkSize sample_inbound = 2" "it_ReceivedChunks sample_inbound = []"
    "it_Filesize sample_inbound = 3"
    by (simp_all add: sample_inbound_def)
  have opens: "open_chunk sample_fe 0 (sample_data k b) sample_inbound sample_receiver = Inr b" if "0 \<le> k" "k < 2" for k b
    by (rule sample_open) (use that two sample_receiver_key in simp_all)
  have "chunks_of ''f'' ''abc'' sample_inbound sample_receiver ?ds"
    by (simp add: chunks_of_def id opens two chunk_at_def sample_usable)
  moreover have "{0..<2} = {0, 1 :: int}" by auto
  then have "{0..<it_TotalChunks sample_inbound} \<subseteq> set (it_ReceivedChunks sample_inbound) \<union> chunk_index ` set ?ds"
    by (simp add: two chunk_index_def id)
  moreover have "agree ''abc'' (replicate 3 CHR 0x00) sample_inbound" by (simp add: agree_def two)
  ultimately show ?thesis
    using file_assembled [OF sample_receiving, of "''abc''" ?ds] two by auto
qed

section \<open>What becomes of a transfer at its end\<close>

lemma disk_frames [simp]:
  "nd_disk (drop_inbound f n) = nd_disk n" "nd_disk (fail_inbound fe i f st msg n) = nd_disk n"
  "nd_disk (finish_inbound fe i f t n) = nd_disk n" "nd_disk (push_event f ev n) = nd_disk n"
  "nd_disk (log_file_event fe e p d n) = nd_disk n" "nd_disk (complete_outbound_late fe c ot n) = nd_disk n"
  "nd_disk (recordInboundCanceledBeforeApproval fe i c n) = nd_disk n"
  by (simp_all add: drop_inbound_def removeInboundTransfer_def fail_inbound_def finish_inbound_def push_event_def
      log_file_event_def complete_outbound_late_def setOutboundTransfer_def recordInboundCanceledBeforeApproval_def
      Let_def split: option.split sum.split)

lemma map_of_delete_file: "map_of (AList.delete p fs) = (map_of fs)(p := None)"
  by (simp add: delete_conv')

text \<open>What the renaming does to the files: nothing, or the checked content moves to its final path.\<close>

lemma rename_files:
  assumes "run_disk (os_Rename fe old new) n = (r, n1)"
  shows "map_of (dk_files (nd_disk n1)) = map_of (dk_files (nd_disk n)) \<or>
    (\<exists>c. map_of (dk_files (nd_disk n)) old = Some c \<and>
      map_of (dk_files (nd_disk n1)) = (map_of (dk_files (nd_disk n)))(old := None, new := Some c))"
  using assms
  by (auto simp: run_disk_def os_Rename_def os_call_def map_of_delete_file split: option.splits if_splits prod.splits)

text \<open>C38: The end of a transfer changes the files of this device in one way only: the temporary file of the
  transfer named moves to its final path, and only when the message is signed by the peer of the connection,
  claims completion, and the SHA-256 sum of the temporary file is the one the request announced.\<close>

theorem completed_file_is_checked:
  assumes "map_of (dk_files (nd_disk (handleFileComplete fe i complete n))) \<noteq> map_of (dk_files (nd_disk n))"
  shows "\<exists>t content. getInboundTransfer (fc_FileID complete) n = Some t \<and>
    verifyFileComplete (fe_env fe) i complete (nd_mgr n) = None \<and> fc_Status complete = ''complete'' \<and>
    temp_content t n = Some content \<and>
    EqualFold (hex_encode (sha256_Sum (en_P (fe_env fe)) content)) (it_Checksum t) \<and>
    map_of (dk_files (nd_disk (handleFileComplete fe i complete n))) =
      (map_of (dk_files (nd_disk n)))(it_TempPath t := None, it_FinalPath t := Some content)"
proof -
  have v: "verifyFileComplete (fe_env fe) i complete (nd_mgr n) = None"
    using assms by (auto simp: handleFileComplete_def split: if_splits option.splits)
  obtain t where t: "getInboundTransfer (fc_FileID complete) n = Some t"
    using assms by (auto simp: handleFileComplete_def v split: if_splits option.splits)
  then have step: "nd_disk (handleFileComplete fe i complete n) = nd_disk (complete_inbound fe i complete t n)"
    using assms by (auto simp: handleFileComplete_def v split: if_splits)
  have st: "fc_Status complete = ''complete''"
    using assms step by (auto simp: complete_inbound_def Let_def split: if_splits)
  obtain content where c: "temp_content t n = Some content" "os_refuse fe ''read'' (it_TempPath t) = None"
    using assms step st by (auto simp: complete_inbound_def fileChecksumHex_def os_ReadFile_def temp_content_def
        split: option.splits sum.splits)
  then have sum: "fileChecksumHex fe (it_TempPath t) n = Inr (hex_encode (sha256_Sum (en_P (fe_env fe)) content))"
    by (simp add: fileChecksumHex_def os_ReadFile_def temp_content_def)
  have eq: "EqualFold (hex_encode (sha256_Sum (en_P (fe_env fe)) content)) (it_Checksum t)"
    using assms step st sum by (auto simp: complete_inbound_def split: if_splits)
  obtain r n1 where n1: "run_disk (os_Rename fe (it_TempPath t) (it_FinalPath t)) n = (r, n1)" by fastforce
  have "nd_disk (complete_inbound fe i complete t n) = nd_disk n1"
    using st sum eq by (simp add: complete_inbound_def n1 Let_def split: option.split)
  then show ?thesis
    using rename_files [OF n1] assms step t v st c(1) eq by (auto simp: temp_content_def)
qed

definition sample_complete :: FileComplete where
  "sample_complete = \<lparr>fc_FileID = ''f'', fc_Status = ''complete'', fc_Message = [], fc_Timestamp = 9,
     fc_Signature = EncodeToString (replicate 64 CHR ''1'')\<rparr>"

definition sample_received :: Node where
  "sample_received = sample_receiver\<lparr>nd_disk := \<lparr>dk_files = [(''/in/f_n.part'', ''abc'')], dk_dirs = []\<rparr>\<rparr>"

lemma sample_verifies:
  assumes "peerPublicKey (mg_heap m i) = EncodeToString (replicate 32 k)"
  shows "verify_packet (sample_env t) i p (EncodeToString (replicate 64 k)) m = None"
proof -
  have "json_Marshal sample_json p \<noteq> []" using sample_json_ok by (auto simp: json_ok_def)
  then show ?thesis
    using assms
    by (simp add: verify_packet_def decodePeerPublicKey_def DecodeString_EncodeToString PublicKeySize_def
        Verify_def SignatureSize_def del: EncodeToString.simps replicate.simps)
       (simp add: sample_prims_def del: EncodeToString.simps replicate.simps)
qed

lemma EqualFold_refl [simp]: "EqualFold s s"
  by (simp add: EqualFold_def)

lemma sample_stored:
  "map_of (dk_files (nd_disk (handleFileComplete sample_fe 0 sample_complete sample_received))) =
    [''/in/f_n'' \<mapsto> ''abc'']"
proof -
  have env: "fe_env sample_fe = sample_env 9" "os_refuse sample_fe = (\<lambda>_ _. None)" by (simp_all add: sample_fe_def)
  have id: "fc_FileID sample_complete = ''f''" "fc_Status sample_complete = ''complete''" "fc_Signature sample_complete \<noteq> []"
    by (simp_all add: sample_complete_def EncodeToString_neq_Nil del: EncodeToString.simps replicate.simps)
  have v: "verifyFileComplete (fe_env sample_fe) 0 sample_complete (nd_mgr sample_received) = None"
    using id(3) sample_verifies [of "nd_mgr sample_received" 0 "CHR ''1''"]
    by (simp add: verifyFileComplete_def env)
       (simp add: sample_complete_def sample_received_def sample_receiver_def sample_node_def
         del: EncodeToString.simps replicate.simps)
  have t: "getInboundTransfer ''f'' sample_received = Some sample_inbound"
    by (simp add: sample_received_def sample_receiver_def getInboundTransfer_def)
  have disk: "nd_disk sample_received = \<lparr>dk_files = [(''/in/f_n.part'', ''abc'')], dk_dirs = []\<rparr>"
    by (simp add: sample_received_def)
  have sum: "fileChecksumHex sample_fe (it_TempPath sample_inbound) sample_received = Inr (it_Checksum sample_inbound)"
    by (simp add: fileChecksumHex_def os_ReadFile_def env disk sample_inbound_def)
  have "handleFileComplete sample_fe 0 sample_complete sample_received =
      complete_inbound sample_fe 0 sample_complete sample_inbound sample_received"
    by (simp add: handleFileComplete_def v t id)
  then show ?thesis
    by (simp add: complete_inbound_def id sum run_disk_def os_Rename_def os_call_def env disk is_dir_def Let_def)
       (simp add: sample_inbound_def fun_eq_iff)
qed

theorem completed_file_is_checked_witness:
  "temp_content sample_inbound sample_received = Some ''abc'' \<and>
   EqualFold (hex_encode (sha256_Sum sample_prims ''abc'')) (it_Checksum sample_inbound) \<and>
   map_of (dk_files (nd_disk (handleFileComplete sample_fe 0 sample_complete sample_received))) ''/in/f_n'' = Some ''abc''"
proof -
  have old: "map_of (dk_files (nd_disk sample_received)) = [''/in/f_n.part'' \<mapsto> ''abc'']"
    by (simp add: sample_received_def)
  have new: "map_of (dk_files (nd_disk (handleFileComplete sample_fe 0 sample_complete sample_received))) ''/in/f_n.part'' = None"
    by (simp add: sample_stored)
  then have "map_of (dk_files (nd_disk (handleFileComplete sample_fe 0 sample_complete sample_received))) \<noteq>
      map_of (dk_files (nd_disk sample_received))"
    by (metis old fun_upd_same option.distinct(1))
  from completed_file_is_checked [OF this] obtain t content where
    "getInboundTransfer (fc_FileID sample_complete) sample_received = Some t" "temp_content t sample_received = Some content"
    "EqualFold (hex_encode (sha256_Sum (en_P (fe_env sample_fe)) content)) (it_Checksum t)" by blast
  moreover have "getInboundTransfer (fc_FileID sample_complete) sample_received = Some sample_inbound"
    by (simp add: sample_received_def sample_receiver_def getInboundTransfer_def sample_complete_def
        del: EncodeToString.simps replicate.simps)
  moreover have "temp_content sample_inbound sample_received = Some ''abc''"
    by (simp add: temp_content_def old) (simp add: sample_inbound_def)
  ultimately show ?thesis by (simp add: sample_stored) (simp add: sample_fe_def)
qed

end
