(* ===== verification/DeviceSystem.thy ===== *)
theory DeviceSystem
  imports KeySteps Assembly
begin

text \<open>
  The device as a state machine: \<open>device_step\<close> has one constructor per operation of the user, per turn of a goroutine
  and per packet, so a sequence of steps is any interleaving of them. The properties hold in every state reached from
  a new manager.
\<close>

section \<open>Remaining operations\<close>

lemma peer_of_readLoop: "peerDeviceID (rl_conn (readLoop_step P J iv now frame l)) = peerDeviceID (rl_conn l)"
  by (simp add: readLoop_step_def stop_with_def count_malformed_def dispatch_frame_def Let_def peer_of_conn ackPong_def
      touchActivity_def split: sum.split)

lemma peer_of_keepAlive: "peerDeviceID (snd (keepAliveLoop_tick P J iv now c)) = peerDeviceID c"
proof -
  have "peerDeviceID (triggerRekeyIfNeeded now c) = peerDeviceID c" by (simp add: triggerRekeyIfNeeded_def)
  then show ?thesis
    by (simp add: keepAliveLoop_tick_def Let_def peer_of_conn setWaitingPong_def split_beta split: option.split)
qed

text \<open>\<open>readLoop\<close> and \<open>keepAliveLoop\<close> of a connection; \<open>malformed\<close> is the counter of the former.\<close>

definition read_frame :: "Env \<Rightarrow> nat \<Rightarrow> string res \<Rightarrow> nat \<Rightarrow> Manager \<Rightarrow> Manager" where
  "read_frame env i frame malformed m =
     set_conn i (rl_conn (readLoop_step (en_P env) (en_J env) (en_iv env) (en_now env) frame
       \<lparr>rl_conn = mg_heap m i, rl_malformed = malformed, rl_running = True\<rparr>)) m"

definition keep_alive :: "Env \<Rightarrow> nat \<Rightarrow> Manager \<Rightarrow> Manager" where
  "keep_alive env i m =
     set_conn i (snd (keepAliveLoop_tick (en_P env) (en_J env) (en_iv env) (en_now env) (mg_heap m i))) m"

lemma conn_kept: "mpart (read_frame env i frame malformed m) = mpart m" "mpart (keep_alive env i m) = mpart m"
  by (simp_all add: read_frame_def keep_alive_def mpart_set_conn peer_of_readLoop peer_of_keepAlive)

lemma notify_kept: "mpart (dv_mgr (NotifyPeerDiscoveredEndpoints fe p nm as port d)) = mpart (dv_mgr d)"
  by (simp add: NotifyPeerDiscoveredEndpoints_def Let_def device_kept mpart_simps
      split: sum.split option.split prod.split)

lemma close_all_keys: "keys (close_all m) = keys m"
proof -
  have "keys (foldl (\<lambda>m (_, i). close_conn i m) m cs) = keys m" for cs by (induction cs arbitrary: m) auto
  then show ?thesis by (simp add: close_all_def keys_def)
qed

lemma stop_keys: "keys (dv_mgr (Stop d)) = keys (dv_mgr d)"
proof -
  have "dv_mgr (foldl (\<lambda>d p. cancel_worker p d) d ps) = dv_mgr d" for ps d
    by (induction ps arbitrary: d) (simp_all add: device_kept)
  then have "dv_mgr (cancel_registered d') = dv_mgr d'" for d' by (simp add: cancel_registered_def)
  then show ?thesis by (simp add: Stop_def Let_def close_all_keys device_kept) (simp add: keys_def)
qed

lemma drained_kept: "mpart (dv_mgr (queue_drained envs p i d)) = mpart (dv_mgr d)"
proof -
  have "mpart (dv_mgr d1) = mpart (dv_mgr d)" if "run_manager (drainPendingMessages envs p i) d = (r, d1)" for r d1
    using manager_simps(3) [of "drainPendingMessages envs p i" d] that by (simp add: mpart_drain)
  then show ?thesis by (auto simp: queue_drained_def Let_def device_kept split: prod.split option.split)
qed

lemma rename_kept: "mpart (dv_mgr (snd (dv_UpdateDeviceName nm d))) = mpart (dv_mgr d)"
proof -
  have "mpart (dv_mgr d2) = mpart (dv_mgr d1)" if "dv_statement (UpdatePeerDeviceName p n) d1 = (r, d2)" for p n r d1 d2
    using manager_simps(5) [of "UpdatePeerDeviceName p n" d1] that by (simp add: mpart_simps)
  then show ?thesis by (auto simp: dv_UpdateDeviceName_def Let_def mpart_simps split: prod.split option.split)
qed

section \<open>Steps of a device\<close>

inductive device_step :: "Device \<Rightarrow> Device \<Rightarrow> bool" where
  start: "device_step d (snd (Start fe days_ago listen d))"
| stop: "device_step d (Stop d)"
| connect: "device_step d (snd (Connect fe net remote address d))"
| accept: "device_step d (accept_connection fe inbound_net rawNonce tcp remote d)"
| accept_fails: "device_step d (accept_failed e d)"
| incoming: "device_step d (serverLoop_incoming fe d)"
| server_error: "device_step d (serverLoop_error fe d)"
| turn: "device_step d (connectionLoop_turn fe i decision received d)"
| decided: "device_step d (add_decided fe i ev d)"
| approve: "device_step d (snd (ApprovePeerAdd peer accept d))"
| add_request: "device_step d (snd (SendPeerAddRequest fe peer d))"
| add_request_end: "w \<in> set (dv_add_waits d) \<Longrightarrow> device_step d (snd (add_request_ends fe w ans d))"
| remove_peer: "device_step d (SendPeerRemove fe peer d)"
| removal_close: "device_step d (removal_closes i closes d)"
| disconnect: "device_step d (snd (SendPeerDisconnect fe peer d))"
| worker: "device_step d (worker_step fe jitter net remote k d)"
| discovered: "device_step d (NotifyPeerDiscoveredEndpoints fe peer name addresses port d)"
| drained: "device_step d (queue_drained envs peer i d)"
| rename: "device_step d (snd (dv_UpdateDeviceName name d))"
| maintenance: "device_step d (dv_maintenance fe days_ago d)"
| send_text: "device_step d (snd (run_manager (SendTextMessage env messageID peer content) d))"
| rekey_needed: "device_step d (snd (run_manager (onConnectionRekeyNeeded env i) d))"
| rekey_end: "device_step d (on_manager (onConnectionRekeyEnd env i eph w' epoch wait) d)"
| frame: "device_step d (on_manager (read_frame env i received malformed) d)"
| tick: "device_step d (on_manager (keep_alive env i) d)"
| transfer: "device_step d (on_node (run_step fe fileID wake) d)"
| send_file: "device_step d (snd (run_node (sendFileWithOptions fe peer path opts) d))"
| send_folder: "device_step d (snd (run_node (SendFolder fe peer path walk) d))"
| folder_answer: "device_step d (snd (run_node (folder_wait fes fo wake) d))"
| cancel: "device_step d (snd (run_node (CancelTransfer fe fileID) d))"
| retry: "device_step d (snd (run_node (RetryTransfer fe fileID) d))"
| approval: "device_step d (on_node (approval_decided fe a decision) d)"
| disk: "device_step d (on_node (\<lambda>n. n\<lparr>nd_disk := files\<rparr>) d)"

lemma key_device_step:
  assumes "device_step d d'" "keys_ok (keys (dv_mgr d))"
  shows "key_step (consents (dv_options d)) (keys (dv_mgr d)) (keys (dv_mgr d'))"
  using assms
proof (induction rule: device_step.induct)
  case (connect d fe net remote address)
  then show ?case by (simp add: Connect_def key_step.same key_dial)
next
  case (accept_fails d e)
  then show ?case by (simp add: accept_failed_def device_kept key_step.same)
next
  case (approve d peer accept)
  then show ?case by (simp add: ApprovePeerAdd_def Let_def key_step.same split: option.split)
next
  case (removal_close d i closes)
  then show ?case by (simp add: removal_closes_def Let_def key_step.same)
next
  case (maintenance d fe days_ago)
  then show ?case by (intro key_kept) (simp add: dv_maintenance_def transfers_kept)
qed (simp_all add: key_start stop_keys key_step.same key_accept_connection incoming_keys key_turn key_decided key_add_ends
    key_send_remove key_worker keys_same [OF server_kept] keys_same [OF send_add_kept] keys_same [OF disconnect_kept]
    keys_same [OF notify_kept] keys_same [OF drained_kept] keys_same [OF rename_kept] keys_same [OF mpart_SendTextMessage]
    keys_same [OF mpart_rekey_needed] keys_same [OF mpart_rekey_end] keys_same [OF conn_kept(1)] keys_same [OF conn_kept(2)]
    transfers_kept [THEN keys_same])

lemma keys_ok_reached: "device_step\<^sup>*\<^sup>* d0 d \<Longrightarrow> keys_ok (keys (dv_mgr d0)) \<Longrightarrow> keys_ok (keys (dv_mgr d))"
  by (induction rule: rtranclp_induct) (auto dest: key_device_step keys_ok_step)

text \<open>A new manager over a table of peers as \<open>AddPeer\<close> fills it.\<close>

definition peers_keyed :: "Store \<Rightarrow> bool" where
  "peers_keyed s \<longleftrightarrow> distinct (map p_DeviceID (st_peers s)) \<and>
     (\<forall>p \<in> set (st_peers s). p_DeviceID p \<noteq> [] \<and> p_Ed25519PublicKey p \<noteq> [])"

lemma keys_ok_new:
  assumes "NewPeerManager options (Some s) disk heap = Inr d" "peers_keyed s"
  shows "keys_ok (keys (dv_mgr d))"
  using assms
  by (auto simp: NewPeerManager_def Let_def new_node_def keys_ok_def keys_def stored_keys_def peers_keyed_def comp_def
      split: option.splits)

section \<open>A started device\<close>

definition sample_manager_options :: PeerManagerOptions where
  "sample_manager_options =
     \<lparr>pm_Identity = sample_identity ''a'' CHR ''1'', pm_ListenAddress = '':0'', pm_ApproveAddRequest = False,
      pm_OnKeyChange = None, pm_ReconnectBackoff = [], pm_MaxReconnectAttempts = 2, pm_ReconnectJitterFraction = 0,
      pm_AddResponseTimeout = 0, pm_AddRequestCooldown = 0, pm_ConnectionTimeout = 0, pm_KeepAliveInterval = 0,
      pm_KeepAliveTimeout = 0, pm_FrameReadTimeout = 0, pm_RekeyInterval = 0, pm_RekeyAfterBytes = 0,
      pm_RekeyResponseTimeout = 0, pm_AutoRespondPing = None, pm_ConnectionRateLimitPerIP = 0,
      pm_ConnectionRateLimitWindow = 0, pm_FileRequestRateLimit = 0, pm_FileRequestWindow = 0, pm_FilesDir = ''/in'',
      pm_MaxReceiveFileSize = 0, pm_GetDownloadDirectory = None, pm_GetMaxReceiveFileSize = None,
      pm_GetMessageRetentionDays = None, pm_GetCleanupDownloadedFiles = None, pm_FileChunkSize = 0,
      pm_FileResponseTimeout = 0, pm_FileCompleteTimeout = 0, pm_MaxChunkRetries = 0, pm_OnFileRequest = False\<rparr>"

lemma sample_new:
  "\<exists>d. NewPeerManager sample_manager_options (Some two_peers) \<lparr>dk_files = [], dk_dirs = []\<rparr> heap = Inr d \<and>
     \<not> dv_started d \<and> mg_store (dv_mgr d) = two_peers \<and> knownKeys (dv_mgr d) = [] \<and> connections (dv_mgr d) = [] \<and>
     mg_identity (dv_mgr d) = sample_identity ''a'' CHR ''1'' \<and> localDeviceName (dv_mgr d) = ''n'' \<and> nd_disk (dv_node d) = \<lparr>dk_files = [], dk_dirs = []\<rparr> \<and>
     dv_options d = default_manager_options sample_manager_options"
  by (simp add: NewPeerManager_def validate_manager_options_def sample_manager_options_def sample_identity_def
      PrivateKeySize_def PublicKeySize_def Let_def new_node_def default_manager_options_def del: replicate.simps)

lemma two_peers_keyed: "peers_keyed two_peers"
  by (simp add: peers_keyed_def two_peers_def)

lemma put_node_fields [simp]:
  "dv_started (put_node n d) = dv_started d" "dv_server (put_node n d) = dv_server d" "dv_options (put_node n d) = dv_options d"
  "dv_conns (put_node n d) = dv_conns d" "dv_loops (put_node n d) = dv_loops d"
  by (simp_all add: put_node_def)

lemma manager_fields [simp]:
  "dv_started (on_manager g d) = dv_started d" "dv_server (on_manager g d) = dv_server d"
  "dv_options (on_manager g d) = dv_options d"
  "dv_started (snd (dv_statement q d)) = dv_started d" "dv_server (snd (dv_statement q d)) = dv_server d"
  "dv_started (snd (run_node f d)) = dv_started d" "dv_server (snd (run_node f d)) = dv_server d"
  by (simp_all add: on_manager_def on_node_def dv_statement_def run_manager_def run_node_def split_beta)

lemma local_row_fields:
  assumes "ensureLocalPeerRecord fe d = (r, d1)"
  shows "dv_started d1 = dv_started d \<and> dv_server d1 = dv_server d"
proof -
  have "d1 = d \<or> d1 = snd (dv_statement (AddPeer (fe_ms fe) (local_row fe (dv_mgr d))) d)"
    using assms by (auto simp: ensureLocalPeerRecord_def split: sum.splits if_splits)
  then show ?thesis by auto
qed

text \<open>What \<open>Start\<close> does when \<open>net.Listen\<close> fails.\<close>

lemma Start_fails:
  assumes "\<not> dv_started d" "Start fe days_ago listen d = (Some e, d')"
  shows "dv_started d' \<and> dv_server d' = dv_server d"
proof -
  let ?d0 = "d\<lparr>dv_started := True\<rparr>"
  obtain r1 d1 where 1: "run_node (run_disk (os_MkdirAll fe (currentDownloadDirectory (dv_node ?d0)))) ?d0 = (r1, d1)" by fastforce
  then have f1: "dv_started d1 \<and> dv_server d1 = dv_server d"
    using manager_fields(6,7) [of "run_disk (os_MkdirAll fe (currentDownloadDirectory (dv_node ?d0)))" ?d0] by simp
  obtain r2 d2 where 2: "ensureLocalPeerRecord fe d1 = (r2, d2)" by fastforce
  have f2: "dv_started d2 \<and> dv_server d2 = dv_server d" using local_row_fields [OF 2] f1 by simp
  obtain r3 d3 where 3: "run_node (loadTransferCheckpoints fe) (loadKnownPeers d2) = (r3, d3)" by fastforce
  then have f3: "dv_started d3 \<and> dv_server d3 = dv_server d"
    using manager_fields(6,7) [of "loadTransferCheckpoints fe" "loadKnownPeers d2"] f2 by (simp add: loadKnownPeers_def)
  from assms show ?thesis
    unfolding Start_def Let_def 1 prod.case 2 3
    using f1 f2 f3 by (auto split: if_splits option.splits sum.splits)
qed

lemma load_keys_identity:
  "mg_identity (load_keys ps m) = mg_identity m \<and> localDeviceName (load_keys ps m) = localDeviceName m"
proof -
  let ?f = "\<lambda>m p. if p_Ed25519PublicKey p \<noteq> [] then setKnownKey (p_DeviceID p) (p_Ed25519PublicKey p) m else m"
  have "mg_identity (foldl ?f m ps) = mg_identity m \<and> localDeviceName (foldl ?f m ps) = localDeviceName m"
    by (induction ps arbitrary: m) (simp_all add: setKnownKey_def)
  then show ?thesis by (simp add: load_keys_def)
qed

text \<open>A device over the table \<open>two_peers\<close> whose listener could not be opened.\<close>

lemma sample_started:
  fixes heap :: "nat \<Rightarrow> Conn"
  obtains d0 d where "NewPeerManager sample_manager_options (Some two_peers) \<lparr>dk_files = [], dk_dirs = []\<rparr> heap = Inr d0"
    "Start sample_fe days_ago (Some EOF) d0 = (Some (Wrap ''listen'' EOF), d)" "\<not> dv_started d0"
    "map_of (knownKeys (dv_mgr d)) ''b'' = Some ''k''" "mg_store (dv_mgr d) = two_peers" "pm_OnKeyChange (dv_options d) = None"
proof -
  obtain d where d: "NewPeerManager sample_manager_options (Some two_peers) \<lparr>dk_files = [], dk_dirs = []\<rparr> heap = Inr d"
    "\<not> dv_started d" "mg_store (dv_mgr d) = two_peers" "knownKeys (dv_mgr d) = []" "mg_identity (dv_mgr d) = sample_identity ''a'' CHR ''1''"
    "localDeviceName (dv_mgr d) = ''n''" "nd_disk (dv_node d) = \<lparr>dk_files = [], dk_dirs = []\<rparr>" "dv_options d = default_manager_options sample_manager_options"
    using sample_new [of heap] by blast
  let ?d0 = "d\<lparr>dv_started := True\<rparr>"
  let ?mk = "run_disk (os_MkdirAll sample_fe (currentDownloadDirectory (dv_node ?d0)))"
  define d1 where "d1 = snd (run_node ?mk ?d0)"
  have "fst (run_node ?mk ?d0) = None"
    by (simp add: run_node_def run_disk_def os_MkdirAll_def os_call_def sample_fe_def d(7) split_beta)
  then have 1: "run_node ?mk ?d0 = (None, d1)" by (simp add: d1_def prod_eq_iff)
  have m1: "dv_mgr d1 = dv_mgr d" by (simp add: d1_def run_disk_def split_beta)
  have 2: "ensureLocalPeerRecord sample_fe d1 = (None, d1)"
    by (simp add: ensureLocalPeerRecord_def m1 d(3,5) GetPeer_def two_peers_def tbl_find_def
        local_id_def sample_identity_def)
  have 3: "run_node (loadTransferCheckpoints sample_fe) (loadKnownPeers d1) = (None, put_node (dv_node (loadKnownPeers d1)) (loadKnownPeers d1))"
    by (simp add: run_node_def loadTransferCheckpoints_def nd_store_def loadKnownPeers_def stored_load_keys m1 d(3)
        two_peers_def empty_store_def ListTransferCheckpoints_def)
  define d3 where "d3 = put_node (dv_node (loadKnownPeers d1)) (loadKnownPeers d1)"
  have m3: "dv_mgr d3 = load_keys (ListPeers two_peers) (dv_mgr d)" by (simp add: d3_def loadKnownPeers_def m1 d(3))
  have "Listen (Some EOF) (handshake_options decide d3) = Inl (Wrap ''listen'' EOF)" for decide
    by (simp add: Listen_def handshake_options_def identitySnapshot_def Let_def validateIdentity_def m3 load_keys_identity
        d(5,6) sample_identity_def)
  then have start: "Start sample_fe days_ago (Some EOF) d = (Some (Wrap ''listen'' EOF), d3)"
    unfolding Start_def Let_def 1 prod.case 2 3 d3_def [symmetric] using d(2) by simp
  have "keys_ok (keys (dv_mgr d))" by (rule keys_ok_new [OF d(1) two_peers_keyed])
  from load_keys_known [OF this] have "map_of (knownKeys (dv_mgr d3)) ''b'' = Some ''k''"
    by (simp add: m3 d(3,4) two_peers_def stored_keys_def)
  moreover have "mg_store (dv_mgr d3) = two_peers" by (simp add: m3 stored_load_keys d(3))
  moreover have "dv_options d3 = dv_options d" by (simp add: d3_def loadKnownPeers_def d1_def run_node_def split_beta)
  then have "pm_OnKeyChange (dv_options d3) = None"
    by (simp add: d(8) default_manager_options_def sample_manager_options_def)
  ultimately show thesis using that [OF d(1) start d(2)] by blast
qed

section \<open>Pinned keys\<close>

lemma reached_keys_ok:
  assumes "NewPeerManager options (Some s) disk heap = Inr d0" "peers_keyed s" "device_step\<^sup>*\<^sup>* d0 d"
  shows "keys_ok (keys (dv_mgr d))"
  using keys_ok_reached [OF assms(3) keys_ok_new [OF assms(1,2)]] .

text \<open>C9: In every state the device can reach, whatever the order of connections, packets, timers and operations of the
  user, the key it has pinned for a peer is the key its table of peers stores for that peer; in particular no key is
  pinned for a peer that is not in the table.\<close>

theorem pinned_key_is_stored:
  assumes "NewPeerManager options (Some s) disk heap = Inr d0" "peers_keyed s" "device_step\<^sup>*\<^sup>* d0 d"
    and "map_of (knownKeys (dv_mgr d)) peer = Some key"
  shows "key \<noteq> [] \<and> (\<exists>row. GetPeer peer (mg_store (dv_mgr d)) = Inr row \<and> p_Ed25519PublicKey row = key)"
proof -
  let ?m = "dv_mgr d"
  have ok: "keys_ok (keys ?m)" by (rule reached_keys_ok [OF assms(1-3)])
  then have stored: "map_of (stored_keys (mg_store ?m)) peer = Some key" and distinct: "distinct (map fst (stored_keys (mg_store ?m)))"
    using assms(4) by (auto simp: keys_ok_def keys_def map_le_def dom_def)
  then have "peer \<in> peer_ids (mg_store ?m)" using map_of_stored [of "mg_store ?m" peer] by auto
  then obtain row where row: "GetPeer peer (mg_store ?m) = Inr row"
    by (cases "GetPeer peer (mg_store ?m)") (auto simp: GetPeer_def tbl_find_def peer_ids_def find_None_iff split: option.splits)
  have "p_Ed25519PublicKey row = key"
    using map_of_is_SomeI [OF distinct GetPeer_keys [OF row]] stored by simp
  with row keys_ok_known [OF ok assms(4)] show ?thesis by blast
qed

theorem pinned_key_is_stored_witness:
  "\<exists>d row. map_of (knownKeys (dv_mgr d)) ''b'' = Some ''k'' \<and> GetPeer ''b'' (mg_store (dv_mgr d)) = Inr row \<and> p_Ed25519PublicKey row = ''k''"
proof -
  obtain heap :: "nat \<Rightarrow> Conn" where True by simp
  obtain d0 d where d: "NewPeerManager sample_manager_options (Some two_peers) \<lparr>dk_files = [], dk_dirs = []\<rparr> heap = Inr d0"
    "Start sample_fe id (Some EOF) d0 = (Some (Wrap ''listen'' EOF), d)" "map_of (knownKeys (dv_mgr d)) ''b'' = Some ''k''"
    by (rule sample_started [of heap id])
  have "device_step d0 d" using device_step.start [of d0 sample_fe id "Some EOF"] d(2) by simp
  with pinned_key_is_stored [OF d(1) two_peers_keyed _ d(3)] d(3) show ?thesis by blast
qed



section \<open>A failed start\<close>

text \<open>C27: When \<open>Start\<close> fails, a second call reports success and does nothing: the device counts as started, with the
  listener it had before, which for a new manager is none.\<close>

theorem failed_start_stays_started:
  assumes "\<not> dv_started d" "Start fe days_ago listen d = (Some e, d')"
  shows "Start fe' days_ago' listen' d' = (None, d') \<and> dv_server d' = dv_server d"
  using Start_fails [OF assms] by (simp add: Start_def)

theorem failed_start_stays_started_witness:
  "\<exists>d. Start sample_fe id None d = (None, d) \<and> dv_server d = None"
proof -
  obtain heap :: "nat \<Rightarrow> Conn" where True by simp
  obtain d0 d where d: "NewPeerManager sample_manager_options (Some two_peers) \<lparr>dk_files = [], dk_dirs = []\<rparr> heap = Inr d0"
    "Start sample_fe id (Some EOF) d0 = (Some (Wrap ''listen'' EOF), d)" "\<not> dv_started d0"
    by (rule sample_started [of heap id])
  have "dv_server d0 = None" using d(1) by (auto simp: NewPeerManager_def Let_def split: option.splits)
  with failed_start_stays_started [OF d(3,2), of sample_fe id None] show ?thesis by metis
qed

end
