(* ===== verification/TransferQueue.thy ===== *)
theory TransferQueue
  imports Frames
begin

text \<open>
  The invariant of the outbound queue. Per peer at most one transfer is active, a transfer is active exactly
  while its goroutine runs, and no file is queued twice. \<open>qinv X\<close> is the invariant with the transfers of \<open>X\<close>
  exempt: those whose goroutine is being started or has just returned.
\<close>

section \<open>The invariant\<close>

definition run_ok :: "Node \<Rightarrow> Run \<Rightarrow> bool" where
  "run_ok n r \<longleftrightarrow> rn_FileID r \<noteq> [] \<and>
     (\<exists>t. getOutboundTransfer (rn_FileID r) n = Some t \<and> ot_Running t \<and>
        active_of (ot_PeerDeviceID t) n = rn_FileID r) \<and>
     (rn_phase r = Starting \<or> map_of (outboundFileEventChans n) (rn_FileID r) \<noteq> None)"

definition run_ids :: "Node \<Rightarrow> string list" where
  "run_ids n = map rn_FileID (nd_runs n)"

definition active_ok :: "string set \<Rightarrow> Node \<Rightarrow> string \<Rightarrow> bool" where
  "active_ok X n p \<longleftrightarrow> active_of p n = [] \<or>
     p \<noteq> [] \<and> active_of p n \<in> set (run_ids n) \<union> X \<and>
     (\<exists>t. getOutboundTransfer (active_of p n) n = Some t \<and> ot_PeerDeviceID t = p)"

definition queue_ok :: "Node \<Rightarrow> string \<Rightarrow> bool" where
  "queue_ok n p \<longleftrightarrow> distinct (queue_of p n) \<and>
     (\<forall>f \<in> set (queue_of p n). TrimSpace f \<noteq> [] \<and> TrimSpace p \<noteq> [] \<and>
        (\<exists>t. getOutboundTransfer f n = Some t \<and> ot_PeerDeviceID t = p))"

definition qinv :: "string set \<Rightarrow> Node \<Rightarrow> bool" where
  "qinv X n \<longleftrightarrow>
     (\<forall>f t. getOutboundTransfer f n = Some t \<longrightarrow> ot_FileID t = f \<and> (ot_Running t \<longrightarrow> f \<in> set (run_ids n) \<union> X)) \<and>
     distinct (run_ids n) \<and> (\<forall>r \<in> set (nd_runs n). rn_FileID r \<in> X \<or> run_ok n r) \<and>
     (\<forall>p. active_ok X n p) \<and> (\<forall>p. queue_ok n p)"

lemmas qinv_defs = qinv_def run_ok_def active_ok_def queue_ok_def

lemma qinvD:
  assumes "qinv X n"
  shows "getOutboundTransfer f n = Some t \<Longrightarrow> ot_FileID t = f"
    "getOutboundTransfer f n = Some t \<Longrightarrow> ot_Running t \<Longrightarrow> f \<in> set (run_ids n) \<union> X"
    "distinct (run_ids n)" "r \<in> set (nd_runs n) \<Longrightarrow> rn_FileID r \<notin> X \<Longrightarrow> run_ok n r"
    "active_ok X n p" "queue_ok n p"
  using assms unfolding qinv_def by blast+

lemma qinvI:
  assumes "\<And>f t. getOutboundTransfer f n = Some t \<Longrightarrow> ot_FileID t = f"
    "\<And>f t. getOutboundTransfer f n = Some t \<Longrightarrow> ot_Running t \<Longrightarrow> f \<in> set (run_ids n) \<union> X"
    "distinct (run_ids n)" "\<And>r. r \<in> set (nd_runs n) \<Longrightarrow> rn_FileID r \<notin> X \<Longrightarrow> run_ok n r"
    "\<And>p. active_ok X n p" "\<And>p. queue_ok n p"
  shows "qinv X n"
  using assms unfolding qinv_def by blast

definition qpart where
  "qpart n = (outboundFileTransfers n, nd_runs n, activeOutboundTransfer n, outboundTransferQueue n,
     outboundFileEventChans n)"

lemma qpart_parts: "parts n' = parts n \<Longrightarrow> qpart n' = qpart n"
  by (simp add: parts_def qpart_def)

lemma qpart_funs:
  assumes "qpart n' = qpart n"
  shows "getOutboundTransfer f n' = getOutboundTransfer f n" "run_ids n' = run_ids n" "nd_runs n' = nd_runs n"
    "active_of p n' = active_of p n" "queue_of p n' = queue_of p n"
    "outboundFileEventChans n' = outboundFileEventChans n" "get_run f n' = get_run f n"
  using assms by (simp_all add: qpart_def getOutboundTransfer_def run_ids_def active_of_def queue_of_def get_run_def)

lemma qinv_cong: "qpart n' = qpart n \<Longrightarrow> qinv X n' = qinv X n"
  by (simp add: qinv_defs qpart_funs [of n' n])

section \<open>Reading after writing\<close>

lemma queue_of_put [simp]: "queue_of p (put_queue p' q n) = (if p = p' then q else queue_of p n)"
  by (auto simp: queue_of_def put_queue_def update_conv' delete_conv')

lemma put_queue_frame [simp]:
  "getOutboundTransfer f (put_queue p q n) = getOutboundTransfer f n" "run_ids (put_queue p q n) = run_ids n"
  "nd_runs (put_queue p q n) = nd_runs n" "active_of p' (put_queue p q n) = active_of p' n"
  "outboundFileEventChans (put_queue p q n) = outboundFileEventChans n"
  "outboundFileTransfers (put_queue p q n) = outboundFileTransfers n"
  "activeOutboundTransfer (put_queue p q n) = activeOutboundTransfer n"
  by (simp_all add: put_queue_def getOutboundTransfer_def run_ids_def active_of_def)

lemma setOutbound_frame [simp]:
  "getOutboundTransfer f (setOutboundTransfer t n) = (if f = ot_FileID t then Some t else getOutboundTransfer f n)"
  "run_ids (setOutboundTransfer t n) = run_ids n" "nd_runs (setOutboundTransfer t n) = nd_runs n"
  "active_of p (setOutboundTransfer t n) = active_of p n" "queue_of p (setOutboundTransfer t n) = queue_of p n"
  "outboundFileEventChans (setOutboundTransfer t n) = outboundFileEventChans n"
  by (auto simp: setOutboundTransfer_def getOutboundTransfer_def run_ids_def active_of_def queue_of_def update_conv')

lemma qinv_set:
  assumes "qinv X n" "getOutboundTransfer (ot_FileID t') n = Some t" "ot_PeerDeviceID t' = ot_PeerDeviceID t"
    and "ot_Running t' = ot_Running t \<or> ot_FileID t' \<in> X"
  shows "qinv X (setOutboundTransfer t' n)"
proof (rule qinvI)
  note D = qinvD [OF assms(1)]
  let ?n = "setOutboundTransfer t' n"
  show "ot_FileID u = f" if "getOutboundTransfer f ?n = Some u" for f u
    using that D(1) by (auto split: if_splits)
  show "f \<in> set (run_ids ?n) \<union> X" if "getOutboundTransfer f ?n = Some u" "ot_Running u" for f u
    using that D(2) [of f] D(2) [OF assms(2)] assms(4) by (auto split: if_splits)
  show "distinct (run_ids ?n)" using D(3) by simp
  show "run_ok ?n r" if "r \<in> set (nd_runs ?n)" "rn_FileID r \<notin> X" for r
  proof -
    have "run_ok n r" using that D(4) by simp
    then show ?thesis using that(2) assms(2-4) unfolding run_ok_def by auto
  qed
  show "active_ok X ?n p" for p
    using D(5) [of p] assms(2,3) unfolding active_ok_def by auto
  show "queue_ok ?n p" for p
    using D(6) [of p] assms(2,3) unfolding queue_ok_def by auto
qed

lemma qinv_mono: "qinv X n \<Longrightarrow> X \<subseteq> Y \<Longrightarrow> qinv Y n"
  unfolding qinv_def active_ok_def by blast

lemma qinv_put_queue:
  assumes "qinv X n" "\<And>p'. queue_ok n p' \<Longrightarrow> queue_ok (put_queue p q n) p'"
  shows "qinv X (put_queue p q n)"
proof -
  have same: "run_ok (put_queue p q n) r = run_ok n r" "active_ok X (put_queue p q n) p' = active_ok X n p'" for r p'
    by (simp_all add: run_ok_def active_ok_def)
  have "\<forall>p'. queue_ok (put_queue p q n) p'" using assms(2) qinvD(6) [OF assms(1)] by blast
  then show ?thesis using assms(1) unfolding qinv_def same by simp
qed

lemma enqueue_parts:
  "qpart (enqueueOutboundTransfer p f b n) = qpart n \<or>
    TrimSpace p \<noteq> [] \<and> TrimSpace f \<noteq> [] \<and> f \<notin> set (queue_of p n) \<and>
    (\<exists>q. set q = insert f (set (queue_of p n)) \<and> distinct q = distinct (queue_of p n) \<and>
      enqueueOutboundTransfer p f b n = put_queue p q n)"
proof (cases "TrimSpace p = [] \<or> TrimSpace f = [] \<or> f \<in> set (queue_of p n)")
  case False
  then show ?thesis
    by (intro disjI2 conjI exI [of _ "if b then f # queue_of p n else queue_of p n @ [f]"])
       (auto simp: enqueueOutboundTransfer_def)
qed (simp add: enqueueOutboundTransfer_def)

lemma enqueue_frame:
  "getOutboundTransfer g (enqueueOutboundTransfer p f b n) = getOutboundTransfer g n"
  "run_ids (enqueueOutboundTransfer p f b n) = run_ids n"
  by (simp_all add: enqueueOutboundTransfer_def)

lemma qinv_enqueue:
  assumes "qinv X n" "getOutboundTransfer f n = Some t" "ot_PeerDeviceID t = p"
  shows "qinv X (enqueueOutboundTransfer p f b n)"
  using enqueue_parts [of p f b n]
proof (elim disjE conjE exE)
  fix q
  assume q: "TrimSpace p \<noteq> []" "TrimSpace f \<noteq> []" "f \<notin> set (queue_of p n)" "set q = insert f (set (queue_of p n))"
    "distinct q = distinct (queue_of p n)" "enqueueOutboundTransfer p f b n = put_queue p q n"
  have "queue_ok (put_queue p q n) p'" if "queue_ok n p'" for p'
    using that q assms(2,3) by (auto simp: queue_ok_def)
  then show ?thesis unfolding q(6) by (rule qinv_put_queue [OF assms(1)])
qed (simp add: qinv_cong assms(1))

lemma qinv_removeQueued: "qinv X n \<Longrightarrow> qinv X (snd (removeQueuedOutboundTransfer p f n))"
proof -
  assume inv: "qinv X n"
  have "queue_ok (put_queue p (removeAll f (queue_of p n)) n) p'" if "queue_ok n p'" for p'
    using that by (auto simp: queue_ok_def distinct_removeAll)
  then show ?thesis
    using inv qinv_put_queue [OF inv] unfolding removeQueuedOutboundTransfer_def by simp
qed

section \<open>Finishing and starting\<close>

lemma finish_frame [simp]:
  "getOutboundTransfer f (finishOutboundTransfer p g n) = getOutboundTransfer f n"
  "run_ids (finishOutboundTransfer p g n) = run_ids n" "nd_runs (finishOutboundTransfer p g n) = nd_runs n"
  "queue_of p' (finishOutboundTransfer p g n) = queue_of p' n"
  "outboundFileEventChans (finishOutboundTransfer p g n) = outboundFileEventChans n"
  by (simp_all add: finishOutboundTransfer_def getOutboundTransfer_def run_ids_def queue_of_def)

lemma active_of_finish:
  "active_of p' (finishOutboundTransfer p g n) =
    (if p' = p \<and> p \<noteq> [] \<and> g \<noteq> [] \<and> active_of p n = g then [] else active_of p' n)"
  by (auto simp: finishOutboundTransfer_def active_of_def delete_conv')

text \<open>A transfer whose goroutine is gone may be taken off as the active one.\<close>

lemma qinv_finish:
  assumes "qinv {f} n" "f \<notin> set (run_ids n)" "getOutboundTransfer f n = Some t" "\<not> ot_Running t"
  shows "qinv {} (finishOutboundTransfer (ot_PeerDeviceID t) f n)"
proof (rule qinvI)
  note D = qinvD [OF assms(1)]
  let ?n = "finishOutboundTransfer (ot_PeerDeviceID t) f n"
  show "ot_FileID u = g" if "getOutboundTransfer g ?n = Some u" for g u using that D(1) by simp
  show "g \<in> set (run_ids ?n) \<union> {}" if "getOutboundTransfer g ?n = Some u" "ot_Running u" for g u
    using that D(2) [of g u] assms(3,4) by auto
  show "distinct (run_ids ?n)" using D(3) by simp
  show "run_ok ?n r" if r: "r \<in> set (nd_runs ?n)" "rn_FileID r \<notin> {}" for r
  proof -
    have id: "rn_FileID r \<noteq> f" using r(1) assms(2) by (auto simp: run_ids_def)
    then have "run_ok n r" using r(1) D(4) [of r] by simp
    then show ?thesis using id by (auto simp: run_ok_def active_of_finish)
  qed
  show "active_ok {} ?n p" for p
    using D(5) [of p] assms(2,3) by (auto simp: active_ok_def active_of_finish)
  show "queue_ok ?n p" for p using D(6) [of p] by (simp add: queue_ok_def)
qed

lemma qinv_finish_missing:
  assumes "qinv X n" "getOutboundTransfer f n = None"
  shows "finishOutboundTransfer p f n = n"
proof -
  have "active_of p n = [] \<or> active_of p n \<noteq> f"
    using qinvD(5) [OF assms(1), of p] assms(2) unfolding active_ok_def by force
  then show ?thesis unfolding finishOutboundTransfer_def by (metis (full_types))
qed

lemma qinv_finish_over:
  assumes "qinv {} n" "getOutboundTransfer f n = Some t" "\<not> ot_Running t" "f \<notin> set (run_ids n)"
  shows "qinv {} (finishOutboundTransfer (ot_PeerDeviceID t) f n)"
  using qinv_finish [OF qinv_mono [OF assms(1)] assms(4,2,3)] by simp

text \<open>The loop that starts the next transfer of a peer.\<close>

lemma begin_frame:
  "beginOutboundFileTransfer t i n =
    (if ot_Running t \<or> is_over t then n
     else (setOutboundTransfer (t\<lparr>ot_Running := True, ot_run_canceled := False\<rparr>) n)
       \<lparr>nd_runs := nd_runs n @ [\<lparr>rn_FileID = ot_FileID t, rn_conn = i, rn_phase = Starting\<rparr>]\<rparr>)"
  by (simp add: beginOutboundFileTransfer_def Let_def)

definition activate :: "string \<Rightarrow> string \<Rightarrow> Node \<Rightarrow> Node" where
  "activate p f n = n\<lparr>activeOutboundTransfer := AList.update p f (activeOutboundTransfer n)\<rparr>"

lemma activate_frame [simp]:
  "getOutboundTransfer g (activate p f n) = getOutboundTransfer g n" "run_ids (activate p f n) = run_ids n"
  "nd_runs (activate p f n) = nd_runs n" "queue_of p' (activate p f n) = queue_of p' n"
  "outboundFileEventChans (activate p f n) = outboundFileEventChans n"
  "active_of p' (activate p f n) = (if p' = p then f else active_of p' n)"
  by (auto simp: activate_def getOutboundTransfer_def run_ids_def queue_of_def active_of_def update_conv')

lemma qinv_activate:
  assumes "qinv {} n" "active_of p n = []" "getOutboundTransfer f n = Some t" "ot_PeerDeviceID t = p" "p \<noteq> []"
  shows "qinv {f} (activate p f n)"
proof (rule qinvI)
  note D = qinvD [OF assms(1)]
  show "ot_FileID u = g" if "getOutboundTransfer g (activate p f n) = Some u" for g u using that D(1) by simp
  show "g \<in> set (run_ids (activate p f n)) \<union> {f}"
    if "getOutboundTransfer g (activate p f n) = Some u" "ot_Running u" for g u
    using that D(2) by auto
  show "distinct (run_ids (activate p f n))" using D(3) by simp
  show "run_ok (activate p f n) r" if r: "r \<in> set (nd_runs (activate p f n))" for r
  proof -
    have "run_ok n r" using r D(4) by simp
    then show ?thesis using assms(2) by (auto simp: run_ok_def)
  qed
  show "active_ok {f} (activate p f n) q" for q
    using D(5) [of q] assms(3-5) by (auto simp: active_ok_def)
  show "queue_ok (activate p f n) q" for q using D(6) [of q] by (simp add: queue_ok_def)
qed

text \<open>With no active transfer, the head of the queue has no goroutine.\<close>

lemma queue_head_idle:
  assumes "qinv {} n" "active_of p n = []" "f \<in> set (queue_of p n)"
  shows "\<exists>t. getOutboundTransfer f n = Some t \<and> ot_PeerDeviceID t = p \<and> ot_FileID t = f \<and> \<not> ot_Running t \<and>
    f \<notin> set (run_ids n) \<and> p \<noteq> [] \<and> f \<noteq> []"
proof -
  note D = qinvD [OF assms(1)]
  have ne: "p \<noteq> []" "f \<noteq> []" using D(6) [of p] assms(3) by (auto simp: queue_ok_def)
  obtain t where t: "getOutboundTransfer f n = Some t" "ot_PeerDeviceID t = p"
    using D(6) [of p] assms(3) by (auto simp: queue_ok_def)
  have "f \<notin> set (run_ids n)"
  proof
    assume "f \<in> set (run_ids n)"
    then obtain r where "r \<in> set (nd_runs n)" "rn_FileID r = f" by (auto simp: run_ids_def)
    then have "active_of p n = f" using D(4) [of r] t by (auto simp: run_ok_def)
    then show False using assms(2) ne by simp
  qed
  with t ne D(1,2) [OF t(1)] show ?thesis by auto
qed

lemma qinv_begin:
  assumes "qinv {f} n" "f \<notin> set (run_ids n)" "getOutboundTransfer f n = Some t" "active_of (ot_PeerDeviceID t) n = f"
    and "f \<noteq> []" "\<not> ot_Running t" "\<not> is_over t"
  shows "qinv {} (beginOutboundFileTransfer t i n)"
proof -
  note D = qinvD [OF assms(1)]
  have id: "ot_FileID t = f" using D(1) [OF assms(3)] .
  let ?t = "t\<lparr>ot_Running := True, ot_run_canceled := False\<rparr>"
  let ?r = "\<lparr>rn_FileID = f, rn_conn = i, rn_phase = Starting\<rparr>"
  define n' where "n' = (setOutboundTransfer ?t n)\<lparr>nd_runs := nd_runs n @ [?r]\<rparr>"
  have fr: "getOutboundTransfer g n' = (if g = f then Some ?t else getOutboundTransfer g n)"
    "run_ids n' = run_ids n @ [f]" "nd_runs n' = nd_runs n @ [?r]" "active_of p n' = active_of p n"
    "queue_of p n' = queue_of p n" "outboundFileEventChans n' = outboundFileEventChans n" for g p
    using id
    by (simp_all add: n'_def getOutboundTransfer_def run_ids_def active_of_def queue_of_def setOutboundTransfer_def
        update_conv')
  have "qinv {} n'"
  proof (rule qinvI)
    show "ot_FileID u = g" if "getOutboundTransfer g n' = Some u" for g u
      using that D(1) id by (auto simp: fr split: if_splits)
    show "g \<in> set (run_ids n') \<union> {}" if "getOutboundTransfer g n' = Some u" "ot_Running u" for g u
      using that D(2) [of g u] by (auto simp: fr split: if_splits)
    show "distinct (run_ids n')" using D(3) assms(2) by (simp add: fr)
    show "run_ok n' r" if r: "r \<in> set (nd_runs n')" for r
    proof (cases "r = ?r")
      case True
      then show ?thesis using assms(4,5) by (simp add: run_ok_def fr)
    next
      case False
      then have "r \<in> set (nd_runs n)" "rn_FileID r \<noteq> f" using r assms(2) by (auto simp: fr run_ids_def)
      then show ?thesis using D(4) [of r] by (auto simp: run_ok_def fr)
    qed
    show "active_ok {} n' p" for p using D(5) [of p] assms(3) by (auto simp: active_ok_def fr)
    show "queue_ok n' p" for p using D(6) [of p] assms(3) by (auto simp: queue_ok_def fr)
  qed
  then show ?thesis using assms(6,7) id by (simp add: begin_frame n'_def)
qed

lemma queue_tail:
  assumes "qinv {} n" "queue_of p n = f # q"
  shows "qinv {} (put_queue p q n)"
proof (rule qinv_put_queue [OF assms(1)])
  fix p'
  show "queue_ok n p' \<Longrightarrow> queue_ok (put_queue p q n) p'"
    using assms(2) by (auto simp: queue_ok_def)
qed

lemma qinv_start_next:
  "qinv {} n \<Longrightarrow> queue_of p n = q \<Longrightarrow> qinv {} (start_next p i q n)"
proof (induction q arbitrary: n)
  case Nil
  have "queue_ok n p' \<Longrightarrow> queue_ok (put_queue p [] n) p'" for p' by (auto simp: queue_ok_def)
  then show ?case using Nil qinv_put_queue [OF Nil(1)] by simp
next
  case (Cons f q)
  show ?case
  proof (cases "active_of p n = []")
    case True
    let ?n1 = "put_queue p q n"
    have n1: "qinv {} ?n1" by (rule queue_tail [OF Cons.prems])
    obtain t where t: "getOutboundTransfer f n = Some t" "ot_PeerDeviceID t = p" "\<not> ot_Running t"
      "f \<notin> set (run_ids n)" "p \<noteq> []" "f \<noteq> []"
      using queue_head_idle [OF Cons.prems(1) True, of f] Cons.prems(2) by auto
    let ?n2 = "activate p f ?n1"
    have n2: "qinv {f} ?n2" using qinv_activate [OF n1, of p f t] t True by simp
    have step: "start_next p i (f # q) n =
        (if is_over t then start_next p i q (finishOutboundTransfer p f ?n2) else beginOutboundFileTransfer t i ?n2)"
      using True t(1) by (simp add: Let_def activate_def [symmetric])
    show ?thesis
    proof (cases "is_over t")
      case True
      have "qinv {} (finishOutboundTransfer p f ?n2)"
        using qinv_finish [OF n2, of t] t by simp
      with Cons.IH [of "finishOutboundTransfer p f ?n2"] True show ?thesis unfolding step by simp
    next
      case False
      have "qinv {} (beginOutboundFileTransfer t i ?n2)"
        using qinv_begin [OF n2, of t i] t False by simp
      with False show ?thesis unfolding step by simp
    qed
  next
    case False
    then show ?thesis using Cons.prems by simp
  qed
qed

lemma qinv_startNext: "qinv {} n \<Longrightarrow> qinv {} (startNextQueuedTransfer p n)"
  by (simp add: startNextQueuedTransfer_def qinv_start_next split: option.split)

section \<open>The end of a goroutine\<close>

lemma drop_run_frame [simp]:
  "getOutboundTransfer g (drop_run f n) = getOutboundTransfer g n" "active_of p (drop_run f n) = active_of p n"
  "queue_of p (drop_run f n) = queue_of p n" "outboundFileEventChans (drop_run f n) = outboundFileEventChans n"
  "set (run_ids (drop_run f n)) = set (run_ids n) - {f}"
  "set (nd_runs (drop_run f n)) = {r \<in> set (nd_runs n). rn_FileID r \<noteq> f}"
  by (auto simp: drop_run_def getOutboundTransfer_def active_of_def queue_of_def run_ids_def)

lemma unregister_frame [simp]:
  "getOutboundTransfer g (unregisterOutboundFileEventChannel f n) = getOutboundTransfer g n"
  "active_of p (unregisterOutboundFileEventChannel f n) = active_of p n"
  "queue_of p (unregisterOutboundFileEventChannel f n) = queue_of p n"
  "nd_runs (unregisterOutboundFileEventChannel f n) = nd_runs n"
  "run_ids (unregisterOutboundFileEventChannel f n) = run_ids n"
  "map_of (outboundFileEventChans (unregisterOutboundFileEventChannel f n)) =
    (map_of (outboundFileEventChans n))(f := None)"
  by (simp_all add: unregisterOutboundFileEventChannel_def getOutboundTransfer_def active_of_def queue_of_def
      run_ids_def delete_conv')

lemma qinv_drop:
  assumes "qinv {f} n0"
  shows "qinv {f} (drop_run f (unregisterOutboundFileEventChannel f n0))"
proof (rule qinvI)
  note D = qinvD [OF assms]
  let ?n = "drop_run f (unregisterOutboundFileEventChannel f n0)"
  show "ot_FileID u = g" if "getOutboundTransfer g ?n = Some u" for g u using that D(1) by simp
  show "g \<in> set (run_ids ?n) \<union> {f}" if "getOutboundTransfer g ?n = Some u" "ot_Running u" for g u
    using that D(2) by auto
  show "distinct (run_ids ?n)" using D(3) by (simp add: drop_run_def run_ids_def distinct_map_filter)
  show "run_ok ?n r" if "r \<in> set (nd_runs ?n)" "rn_FileID r \<notin> {f}" for r
    using that D(4) [of r] by (auto simp: run_ok_def)
  show "active_ok {f} ?n p" for p using D(5) [of p] by (auto simp: active_ok_def)
  show "queue_ok ?n p" for p using D(6) [of p] by (simp add: queue_ok_def)
qed

lemma qpart_frames:
  "qpart (report e n) = qpart n" "qpart (set_status f st n) = qpart n" "qpart (emitFileProgress pr n) = qpart n"
  "qpart (removeTransferCheckpoint f d n) = qpart n" "qpart (stamp_received fe f n) = qpart n"
  "qpart (snd (statement q n)) = qpart n" "qpart (snd (send_to fe i pk n)) = qpart n"
  "qpart (snd (sendSignedFileComplete fe i c n)) = qpart n" "qpart (snd (upsertFileMetadata meta n)) = qpart n"
  "qpart (report_some rn) = qpart (snd rn)" "qpart (snd (run_mgr mf n)) = qpart n" "qpart (on_mgr mg n) = qpart n"
  by (simp_all add: qpart_def)

lemma qinv_run_end:
  assumes "qinv {f} n0"
  shows "qinv {} (run_end f err n0)"
proof -
  define n where "n = drop_run f (unregisterOutboundFileEventChannel f n0)"
  have n: "qinv {f} n" "f \<notin> set (run_ids n)" using qinv_drop [OF assms] by (simp_all add: n_def)
  show ?thesis
  proof (cases "getOutboundTransfer f n")
    case None
    have "qinv {} n"
    proof (rule qinvI)
      note D = qinvD [OF n(1)]
      show "g \<in> set (run_ids n) \<union> {}" if "getOutboundTransfer g n = Some u" "ot_Running u" for g u
        using that D(2) [OF that] None by auto
      show "run_ok n r" if "r \<in> set (nd_runs n)" for r
        using D(4) [of r] that n(2) by (auto simp: run_ids_def)
      show "active_ok {} n p" for p using D(5) [of p] None by (auto simp: active_ok_def)
    qed (use qinvD [OF n(1)] in auto)
    then show ?thesis using None by (simp add: run_end_def n_def [symmetric])
  next
    case (Some t)
    have id: "ot_FileID t = f" using qinvD(1) [OF n(1) Some] .
    let ?n1 = "setOutboundTransfer (t\<lparr>ot_Running := False\<rparr>) n"
    have n1: "qinv {f} ?n1" using qinv_set [OF n(1), of "t\<lparr>ot_Running := False\<rparr>" t] Some id by simp
    let ?n2 = "case err of Some e \<Rightarrow> if errors_Is e ContextCanceled then ?n1 else report (Wrap ''file transfer'' e) ?n1
      | None \<Rightarrow> ?n1"
    let ?n3 = "if \<not> is_over t then enqueueOutboundTransfer (ot_PeerDeviceID t) f True (set_status f ''pending'' ?n2)
      else if ot_Canceled t then
        emitFileProgress (send_progress t (ot_BytesSent t) 0 (ot_TotalChunks t) ''canceled'' True)
          (removeTransferCheckpoint f ''send'' (set_status f ''canceled'' ?n2))
      else ?n2"
    have step: "run_end f err n0 =
        startNextQueuedTransfer (ot_PeerDeviceID t) (finishOutboundTransfer (ot_PeerDeviceID t) f ?n3)"
      using Some by (simp add: run_end_def n_def [symmetric] Let_def)
    have q2: "qpart ?n2 = qpart ?n1" by (simp add: qpart_frames split: option.split)
    let ?t = "t\<lparr>ot_Running := False\<rparr>"
    have t2: "getOutboundTransfer f m = Some ?t" if "qpart m = qpart ?n1" for m
      using qpart_funs(1) [OF that, of f] id by simp
    have n3: "qinv {f} ?n3 \<and> getOutboundTransfer f ?n3 = Some ?t \<and> run_ids ?n3 = run_ids n"
    proof (cases "is_over t")
      case True
      then have "qpart ?n3 = qpart ?n1" using q2 by (simp add: qpart_frames)
      then show ?thesis using n1 qinv_cong [of ?n3 ?n1] t2 [of ?n3] qpart_funs(2) [of ?n3 ?n1] by simp
    next
      case False
      let ?m = "set_status f ''pending'' ?n2"
      have m: "qpart ?m = qpart ?n1" using q2 by (simp only: qpart_frames)
      have "qinv {f} (enqueueOutboundTransfer (ot_PeerDeviceID t) f True ?m)"
        using qinv_enqueue [of "{f}" ?m f ?t] n1 qinv_cong [OF m] t2 [OF m] by simp
      then show ?thesis
        using False t2 [OF m] qpart_funs(2) [OF m] by (simp add: enqueue_frame)
    qed
    have "qinv {} (finishOutboundTransfer (ot_PeerDeviceID ?t) f ?n3)"
      by (rule qinv_finish) (use n3 n(2) in simp_all)
    then show ?thesis unfolding step using qinv_startNext by simp
  qed
qed

end
