(* ===== verification/TransferRuns.thy ===== *)
theory TransferRuns
  imports TransferQueue
begin

text \<open>
  Every operation of the file transfers keeps the invariant of the outbound queue: the steps of the goroutine
  of a transfer, the handlers of the receiving side, cancelling, retrying, restoring and purging.
\<close>

section \<open>The steps of a goroutine\<close>

text \<open>\<open>attached f n\<close>: the invariant holds and the channel of \<open>f\<close> is registered, as it is while its goroutine waits.\<close>

definition attached :: "string \<Rightarrow> Node \<Rightarrow> bool" where
  "attached f n \<longleftrightarrow> qinv {} n \<and> map_of (outboundFileEventChans n) f \<noteq> None"

lemma attached_inv: "attached f n \<Longrightarrow> qinv {} n"
  by (simp add: attached_def)

lemma attached_cong: "qpart n' = qpart n \<Longrightarrow> attached f n' = attached f n"
  by (simp add: attached_def qinv_cong [of n' n] qpart_funs(6) [of n' n])

lemma attached_set:
  assumes "attached f n" "getOutboundTransfer (ot_FileID t') n = Some t" "ot_PeerDeviceID t' = ot_PeerDeviceID t"
    and "ot_Running t' = ot_Running t"
  shows "attached f (setOutboundTransfer t' n)"
  using assms qinv_set [of "{}" n t' t] by (simp add: attached_def)

lemma run_end_ok: "qinv {} n \<Longrightarrow> qinv {} (run_end f err n)"
  by (rule qinv_run_end) (erule qinv_mono, simp)

lemma set_phase_frame [simp]:
  "getOutboundTransfer g (set_phase f ph n) = getOutboundTransfer g n" "active_of p (set_phase f ph n) = active_of p n"
  "queue_of p (set_phase f ph n) = queue_of p n" "outboundFileEventChans (set_phase f ph n) = outboundFileEventChans n"
  "run_ids (set_phase f ph n) = run_ids n"
  "nd_runs (set_phase f ph n) = map (\<lambda>r. if rn_FileID r = f then r\<lparr>rn_phase := ph\<rparr> else r) (nd_runs n)"
  by (simp_all add: set_phase_def getOutboundTransfer_def active_of_def queue_of_def run_ids_def)

lemma set_phase_ok:
  assumes "attached f n"
  shows "qinv {} (set_phase f ph n)"
proof (rule qinvI)
  note D = qinvD [OF attached_inv [OF assms]]
  show "run_ok (set_phase f ph n) r" if "r \<in> set (nd_runs (set_phase f ph n))" for r
  proof -
    obtain r0 where r0: "r0 \<in> set (nd_runs n)" "r = (if rn_FileID r0 = f then r0\<lparr>rn_phase := ph\<rparr> else r0)"
      using \<open>r \<in> _\<close> by auto
    have "run_ok n r0" using D(4) [OF r0(1)] by simp
    then show ?thesis using assms r0(2) by (auto simp: run_ok_def attached_def)
  qed
  show "active_ok {} (set_phase f ph n) p" for p using D(5) [of p] by (simp add: active_ok_def)
  show "queue_ok (set_phase f ph n) p" for p using D(6) [of p] by (simp add: queue_ok_def)
qed (use qinvD [OF attached_inv [OF assms]] in auto)

lemma attached_frames:
  "attached f (report e n) = attached f n" "attached f (set_status g st n) = attached f n"
  "attached f (emitFileProgress pr n) = attached f n" "attached f (removeTransferCheckpoint g d n) = attached f n"
  "attached f (stamp_received fe g n) = attached f n" "attached f (snd (statement q n)) = attached f n"
  "attached f (snd (send_to fe i pk n)) = attached f n" "attached f (snd (sendSignedFileComplete fe i c n)) = attached f n"
  by (rule attached_cong, simp only: qpart_frames)+

lemma attached_end: "attached f n \<Longrightarrow> qinv {} (run_end g err n)"
  by (rule run_end_ok) (rule attached_inv)

lemma attached_statement: "statement q n = (r, n1) \<Longrightarrow> attached f n1 = attached f n"
  using attached_frames(6) [of f q n] by simp

lemma attached_send:
  "send_to fe j pk n = (e, n1) \<Longrightarrow> attached f n1 = attached f n"
  "sendSignedFileComplete fe j c n = (e, n1) \<Longrightarrow> attached f n1 = attached f n"
  using attached_frames(7) [of f fe j pk n] attached_frames(8) [of f fe j c n] by simp_all

lemma send_attempt_ok: "attached f n \<Longrightarrow> qinv {} (send_attempt fe f k attempt bytes sent n)"
  unfolding send_attempt_def
  by (auto simp: attached_inv attached_send split: option.split sum.split prod.split
      intro!: attached_end [of f] set_phase_ok)

lemma next_chunk_ok: "attached f n \<Longrightarrow> qinv {} (next_chunk fe f k sent n)"
  unfolding next_chunk_def
  by (auto simp: attached_inv attached_send split: option.split sum.split prod.split
      intro!: attached_end [of f] set_phase_ok send_attempt_ok)

lemma attached_persist:
  assumes "attached f n"
  shows "attached f (maybePersistOutboundCheckpoint fe g b n)"
proof (cases "getOutboundTransfer g n")
  case (Some t)
  let ?n1 = "setOutboundTransfer (t\<lparr>ot_checkpointChunk := ot_NextChunk t, ot_checkpointBytes := ot_BytesSent t\<rparr>) n"
  have "attached f ?n1"
    using attached_set [OF assms, of "t\<lparr>ot_checkpointChunk := ot_NextChunk t, ot_checkpointBytes := ot_BytesSent t\<rparr>" t]
      qinvD(1) [OF attached_inv [OF assms] Some] Some by simp
  then show ?thesis
    using assms Some unfolding maybePersistOutboundCheckpoint_def
    by (simp add: Let_def attached_frames attached_statement split: option.split prod.split)
qed (use assms in \<open>simp add: maybePersistOutboundCheckpoint_def\<close>)

lemma attached_update:
  assumes "attached f n" "getOutboundTransfer g n = Some t" "ot_FileID t' = ot_FileID t"
    "ot_PeerDeviceID t' = ot_PeerDeviceID t" "ot_Running t' = ot_Running t"
  shows "attached f (setOutboundTransfer t' n)"
  using attached_set [OF assms(1), of t' t] assms qinvD(1) [OF attached_inv [OF assms(1)] assms(2)] by simp

lemma chunk_delivered_ok: "attached f n \<Longrightarrow> qinv {} (chunk_delivered fe f k bytes sent n)"
  unfolding chunk_delivered_def
  by (auto simp: attached_inv Let_def intro!: next_chunk_ok attached_persist attached_update
      simp: attached_frames split: option.split)

lemma run_rejected_ok: "attached f n \<Longrightarrow> qinv {} (run_rejected f msg b n)"
  unfolding run_rejected_def
  by (auto simp: attached_inv Let_def attached_frames split: option.split
      intro!: attached_end [of f] attached_update)

lemma run_accepted_ok:
  assumes "attached f n"
  shows "qinv {} (run_accepted fe f k n)"
proof -
  define n1 where "n1 = (case statement (UpdateTransferStatus f ''accepted'') n of
                  (None, n1) \<Rightarrow> n1
                | (Some e, n1) \<Rightarrow> if errors_Is e ErrNotFound then n1 else report e n1)"
  have "attached f n1"
    using assms by (auto simp: n1_def attached_frames attached_statement split: prod.split option.split)
  then show ?thesis
    unfolding run_accepted_def n1_def [symmetric] Let_def
    by (auto simp: attached_inv split: option.split prod.split sum.split
        intro!: next_chunk_ok attached_end [of f] attached_persist attached_update)
qed

lemma run_completed_ok:
  assumes "attached f n"
  shows "qinv {} (run_completed fe f complete n)"
proof (cases "getOutboundTransfer f n")
  case (Some t)
  have id: "ot_FileID t = f" using qinvD(1) [OF attached_inv [OF assms] Some] .
  show ?thesis
  proof (cases "fc_Status complete = ''complete''")
    case True
    let ?n1 = "setOutboundTransfer (t\<lparr>ot_Done := True, ot_Running := False\<rparr>) n"
    have n1: "qinv {f} ?n1"
      using qinv_set [OF qinv_mono [OF attached_inv [OF assms], of "{f}"], of "t\<lparr>ot_Done := True, ot_Running := False\<rparr>" t]
        id Some by simp
    show ?thesis
      using True Some unfolding run_completed_def
      by (simp add: Let_def) (rule qinv_run_end, simp only: qpart_frames n1 qinv_cong [of _ ?n1])
  next
    case False
    with Some assms show ?thesis
      unfolding run_completed_def
      by (auto simp: Let_def attached_frames intro!: attached_end [of f] attached_update)
  qed
qed (use attached_inv [OF assms] in \<open>simp add: run_completed_def\<close>)

lemma run_event_ok: "attached f n \<Longrightarrow> qinv {} (run_event fe f ph ev n)"
  unfolding run_event_def
  by (auto simp: attached_inv split: run_phase.split fileTransferEvent.split
      intro: run_accepted_ok run_rejected_ok chunk_delivered_ok send_attempt_ok run_completed_ok)

text \<open>Channels may gain, lose and change events, as long as they stay registered.\<close>

lemma qinv_chans:
  assumes "qinv X n" "\<And>f. map_of (outboundFileEventChans n) f \<noteq> None \<Longrightarrow> map_of c f \<noteq> None"
  shows "qinv X (n\<lparr>outboundFileEventChans := c\<rparr>)"
proof -
  let ?n = "n\<lparr>outboundFileEventChans := c\<rparr>"
  have same: "getOutboundTransfer f ?n = getOutboundTransfer f n" "run_ids ?n = run_ids n" "nd_runs ?n = nd_runs n"
    "active_ok X ?n p = active_ok X n p" "queue_ok ?n p = queue_ok n p" for f p
    by (simp_all add: getOutboundTransfer_def run_ids_def active_ok_def active_of_def queue_ok_def queue_of_def)
  have "run_ok n r \<Longrightarrow> run_ok ?n r" for r
    using assms(2) by (auto simp: run_ok_def active_of_def same)
  then show ?thesis using assms(1) unfolding qinv_def same by blast
qed

lemma qinv_take_event: "qinv X n \<Longrightarrow> qinv X (snd (take_event f n))"
  unfolding take_event_def
  by (auto split: option.split list.split intro!: qinv_chans simp: update_conv')

lemma attached_take_event: "attached f n \<Longrightarrow> take_event g n = (ev, n1) \<Longrightarrow> attached f n1"
  using qinv_take_event [of "{}" n g]
  by (auto simp: attached_def take_event_def update_conv' split: option.splits list.splits)

lemma attached_register:
  assumes "qinv {} n"
  shows "attached f (registerOutboundFileEventChannel f n)"
  using assms qinv_chans [OF assms, of "AList.update f [] (outboundFileEventChans n)"]
  by (auto simp: attached_def registerOutboundFileEventChannel_def update_conv')

lemma run_start_ok:
  assumes "qinv {} n"
  shows "qinv {} (run_start fe f r n)"
proof -
  let ?n = "registerOutboundFileEventChannel f n"
  have n: "attached f ?n" by (rule attached_register [OF assms])
  have n1: "attached f n1" if "next_sequence i ?n = (s, n1)" for i s n1
    using n attached_cong [of "snd (next_sequence i ?n)" ?n f] that by (simp add: next_sequence_def qpart_frames)
  show ?thesis
    using n n1 unfolding run_start_def Let_def
    by (auto simp: attached_inv attached_send split: option.split sum.split prod.split
        intro!: attached_end [of f] set_phase_ok)
qed

lemma get_run_attached:
  assumes "qinv {} n" "get_run f n = Some r" "rn_phase r \<noteq> Starting"
  shows "attached f n"
proof -
  have "r \<in> set (nd_runs n)" "rn_FileID r = f"
    using assms(2) by (auto simp: get_run_def find_Some_iff)
  then show ?thesis using qinvD(4) [OF assms(1), of r] assms by (auto simp: run_ok_def attached_def)
qed

lemma qinv_run_step:
  assumes "qinv {} n"
  shows "qinv {} (run_step fe f w n)"
proof (cases "get_run f n")
  case (Some r)
  have at: "attached f n" if "rn_phase r \<noteq> Starting" by (rule get_run_attached [OF assms Some that])
  have ev: "qinv {} (run_event fe f (rn_phase r) ev n1)" if "take_event f n = (ev', n1)" "rn_phase r \<noteq> Starting" for ev ev' n1
    by (rule run_event_ok) (rule attached_take_event [OF at that(1)], rule that)
  have ev0: "qinv {} n1" if "take_event f n = (ev', n1)" for ev' n1
    using qinv_take_event [OF assms, of f] that by simp
  show ?thesis
  proof (cases "rn_phase r = Starting")
    case True
    then show ?thesis using assms Some unfolding run_step_def
      by (simp add: run_start_ok split: option.split wake.split)
  next
    case False
    note a = at [OF False]
    show ?thesis
      using Some False a ev [OF _ False] ev0 unfolding run_step_def
      by (auto simp: assms Let_def split: option.split wake.split run_phase.split prod.split
          intro!: attached_end [of f] send_attempt_ok)
  qed
qed (use assms in \<open>simp add: run_step_def\<close>)

section \<open>The receiving side leaves the queue alone\<close>

interpretation qpart: receiving_frame qpart
  by unfold_locales
    (auto simp: qpart_def next_sequence_def validate_sequence_def allow_file_request_def log_file_event_def)

lemmas qpart_simps = qpart_frames qpart.part_inbound

lemmas qpart_snd = qpart.part_snd

lemma qpart_folder_channels:
  "qpart (push_folder_response response n) = qpart n" "qpart (registerOutboundFolderEventChannel d n) = qpart n"
  "qpart (unregisterOutboundFolderEventChannel d n) = qpart n" "qpart (folder_status d st n) = qpart n"
  "qpart (n\<lparr>outboundFolderEventChans := c\<rparr>) = qpart n"
  by (auto simp: qpart_def push_folder_response_def registerOutboundFolderEventChannel_def folder_status_def
      unregisterOutboundFolderEventChannel_def split: option.split)

lemma qpart_handleFolderTransferResponse: "qpart (handleFolderTransferResponse fe i response n) = qpart n"
  by (simp add: handleFolderTransferResponse_def qpart_simps qpart_folder_channels split: option.split)

section \<open>Events and operations of the user\<close>

lemma qinv_push_event: "qinv X n \<Longrightarrow> qinv X (push_event f ev n)"
  unfolding push_event_def by (auto split: option.split intro!: qinv_chans simp: update_conv')

lemma qinv_handleFileResponse: "qinv X n \<Longrightarrow> qinv X (handleFileResponse fe i response n)"
  unfolding handleFileResponse_def
  by (simp add: qinv_push_event qinv_cong [OF qpart_frames(1)] qinv_cong [OF qpart_frames(12)]
      qinv_cong [OF qpart.manager(7)] split: option.split)

text \<open>The end of a transfer may come in while its goroutine has not yet begun; that instant is left out.\<close>

definition starting :: "string \<Rightarrow> Node \<Rightarrow> bool" where
  "starting f n \<longleftrightarrow> list_ex (\<lambda>r. rn_FileID r = f \<and> rn_phase r = Starting) (nd_runs n)"

lemma idle_without_channel:
  assumes "qinv {} n" "map_of (outboundFileEventChans n) f = None" "\<not> starting f n"
  shows "f \<notin> set (run_ids n)"
proof
  assume "f \<in> set (run_ids n)"
  then obtain r where r: "r \<in> set (nd_runs n)" "rn_FileID r = f" by (auto simp: run_ids_def)
  then show False using qinvD(4) [OF assms(1) r(1)] assms(2,3) by (auto simp: run_ok_def starting_def list_ex_iff)
qed

lemma qinv_handleFileComplete:
  assumes "qinv {} n" "\<not> starting (fc_FileID complete) n"
  shows "qinv {} (handleFileComplete fe i complete n)"
proof -
  let ?f = "fc_FileID complete"
  have late: "qinv {} (complete_outbound_late fe complete t n)"
    if t: "getOutboundTransfer ?f n = Some t" and "map_of (outboundFileEventChans n) ?f = None" for t
  proof -
    have id: "ot_FileID t = ?f" by (rule qinvD(1) [OF assms(1) t])
    have "?f \<notin> set (run_ids n)" using idle_without_channel [OF assms(1) that(2) assms(2)] .
    then have "\<not> ot_Running t" using qinvD(2) [OF assms(1) t] by auto
    then have "qinv {} (setOutboundTransfer (t\<lparr>ot_Done := True, ot_Running := False\<rparr>) n)"
      using qinv_set [OF assms(1), of "t\<lparr>ot_Done := True, ot_Running := False\<rparr>" t] t id by simp
    then show ?thesis
      using assms(1) by (simp add: complete_outbound_late_def qinv_cong [OF qpart_frames(2)]
          qinv_cong [OF qpart_frames(3)] qinv_cong [OF qpart_frames(4)] qinv_cong [OF qpart_frames(5)])
  qed
  show ?thesis
    using assms(1) late unfolding handleFileComplete_def
    by (simp add: qinv_push_event qinv_cong [OF qpart_frames(1)] qinv_cong [OF qpart_frames(12)]
        qinv_cong [OF qpart.manager(7)] qinv_cong [OF qpart.part_complete_inbound] qinv_cong [OF qpart.part_record_canceled]
        split: option.split)
qed

text \<open>A new transfer.\<close>

lemma qinv_new:
  assumes "qinv X n" "getOutboundTransfer (ot_FileID t) n = None" "\<not> ot_Running t"
  shows "qinv X (setOutboundTransfer t n)"
proof (rule qinvI)
  note D = qinvD [OF assms(1)]
  let ?n = "setOutboundTransfer t n"
  have other: "getOutboundTransfer f n = Some u \<Longrightarrow> f \<noteq> ot_FileID t" for f u using assms(2) by auto
  show "ot_FileID u = f" if "getOutboundTransfer f ?n = Some u" for f u using that D(1) by (auto split: if_splits)
  show "f \<in> set (run_ids ?n) \<union> X" if "getOutboundTransfer f ?n = Some u" "ot_Running u" for f u
    using that D(2) assms(3) by (auto split: if_splits)
  show "distinct (run_ids ?n)" using D(3) by simp
  show "run_ok ?n r" if "r \<in> set (nd_runs ?n)" "rn_FileID r \<notin> X" for r
    using D(4) [of r] that other by (auto simp: run_ok_def)
  show "active_ok X ?n p" for p using D(5) [of p] other by (auto simp: active_ok_def)
  show "queue_ok ?n p" for p using D(6) [of p] other by (fastforce simp: queue_ok_def)
qed

lemma qinv_queue_outbound:
  assumes "qinv {} n" "getOutboundTransfer (ot_FileID t) n = None" "\<not> ot_Running t"
  shows "qinv {} (queue_outbound t n)"
  unfolding queue_outbound_def
  by (rule qinv_startNext) (rule qinv_enqueue [OF qinv_new [OF assms]], simp_all)

lemma qinv_sendFile:
  assumes "qinv {} n" "so_FileID opts = []" "getOutboundTransfer (uuid_NewString fe 0) n = None"
  shows "qinv {} (snd (sendFileWithOptions fe peer path opts n))"
proof -
  have id: "ot_FileID (new_outbound fe peer path opts r k c m) = uuid_NewString fe 0"
    "\<not> ot_Running (new_outbound fe peer path opts r k c m)" for r k c m
    using assms(2) by (simp_all add: new_outbound_def or_new_def Let_def)
  have "qinv {} n1 \<and> getOutboundTransfer f n1 = getOutboundTransfer f n" if "upsertFileMetadata meta n = (e, n1)" for meta e n1 f
    using qpart_frames(9) [of meta n] that assms(1) qinv_cong [of n1 n] qpart_funs(1) [of n1 n] by simp
  then show ?thesis
    using assms unfolding sendFileWithOptions_def
    by (simp add: Let_def id qinv_queue_outbound split: sum.split prod.split option.split bool.split)
qed

lemma qinv_frames:
  "qinv X (report e n) = qinv X n" "qinv X (set_status f st n) = qinv X n" "qinv X (emitFileProgress pr n) = qinv X n"
  "qinv X (removeTransferCheckpoint f d n) = qinv X n" "qinv X (snd (statement q n)) = qinv X n"
  "qinv X (snd (sendSignedFileComplete fe i c n)) = qinv X n" "qinv X (snd (run_disk df n)) = qinv X n"
  "qinv X (drop_inbound f n) = qinv X n"
  by (rule qinv_cong, simp add: qpart_simps)+

lemma qinv_cancel_outbound:
  assumes "qinv {} n" "getOutboundTransfer f n = Some t"
  shows "qinv {} (cancel_outbound fe f t n)"
proof -
  let ?t = "t\<lparr>ot_Canceled := True, ot_Done := \<not> ot_Running t\<rparr>"
  define n1 where "n1 = snd (removeQueuedOutboundTransfer (ot_PeerDeviceID t) f (setOutboundTransfer ?t n))"
  define n2 where "n2 = (case getConnection (ot_PeerDeviceID t) (nd_mgr n1) of None \<Rightarrow> n1
      | Some i \<Rightarrow> snd (sendSignedFileComplete fe i (file_complete fe f ''failed'' fileCancelMessageBySender) n1))"
  have cancel: "cancel_outbound fe f t n = (if is_over t then n
      else if ot_Running t then setOutboundTransfer (?t\<lparr>ot_run_canceled := True\<rparr>) n2
      else emitFileProgress (send_progress t (ot_BytesSent t) 0 (ot_TotalChunks t) ''canceled'' True)
        (startNextQueuedTransfer (ot_PeerDeviceID t) (finishOutboundTransfer (ot_PeerDeviceID t) f
          (removeTransferCheckpoint f ''send'' (set_status f ''canceled'' n1)))))"
    by (simp only: cancel_outbound_def Let_def n1_def n2_def)
  have id: "ot_FileID t = f" by (rule qinvD(1) [OF assms])
  have n1: "qinv {} n1"
    unfolding n1_def by (rule qinv_removeQueued, rule qinv_set [OF assms(1)]) (use assms(2) id in simp_all)
  have get: "getOutboundTransfer f n1 = Some ?t" "run_ids n1 = run_ids n"
    using id by (simp_all add: n1_def removeQueuedOutboundTransfer_def)
  show ?thesis
  proof (cases "ot_Running t")
    case True
    have n2: "qpart n2 = qpart n1" by (simp add: n2_def qpart_frames split: option.split)
    have "qinv {} (setOutboundTransfer (?t\<lparr>ot_run_canceled := True\<rparr>) n2)"
      by (rule qinv_set [of "{}" n2 _ ?t]) (use n1 qinv_cong [OF n2] qpart_funs(1) [OF n2] get id in simp_all)
    with True assms(1) show ?thesis unfolding cancel by simp
  next
    case False
    have idle: "f \<notin> set (run_ids n)"
    proof
      assume "f \<in> set (run_ids n)"
      then obtain r where "r \<in> set (nd_runs n)" "rn_FileID r = f" by (auto simp: run_ids_def)
      then show False using qinvD(4) [OF assms(1), of r] assms(2) False by (auto simp: run_ok_def)
    qed
    let ?n2 = "removeTransferCheckpoint f ''send'' (set_status f ''canceled'' n1)"
    have q: "qpart ?n2 = qpart n1" by (simp only: qpart_frames)
    have "qinv {} (finishOutboundTransfer (ot_PeerDeviceID ?t) f ?n2)"
      by (rule qinv_finish_over)
        (use n1 False idle get qpart_funs(1,2) [OF q] in \<open>simp_all add: qinv_frames\<close>)
    with False assms(1) qinv_startNext show ?thesis unfolding cancel by (simp add: qinv_frames)
  qed
qed

lemma qinv_CancelTransfer: "qinv {} n \<Longrightarrow> qinv {} (snd (CancelTransfer fe f n))"
  unfolding CancelTransfer_def Let_def
  by (simp add: qinv_cancel_outbound qinv_cong [OF qpart.part_cancel_inbound] qinv_frames split: option.split sum.split)

lemma GetFileByID_key: "GetFileByID f s = Inr meta \<Longrightarrow> f_FileID meta = f"
  by (auto simp: GetFileByID_def dest!: tbl_find_SomeD split: option.splits if_splits)

lemma qinv_RetryTransfer:
  assumes "qinv {} n"
  shows "qinv {} (snd (RetryTransfer fe f0 n))"
proof -
  define f where "f = TrimSpace f0"
  have pick: "qinv {} (setOutboundTransfer t n) \<and> ot_FileID t = f"
    if "GetFileByID f s = Inr meta" "t = (case getOutboundTransfer f n of Some t \<Rightarrow> t | None \<Rightarrow> outbound_of_meta meta p c 0 0)"
    for s meta p c t
  proof (cases "getOutboundTransfer f n")
    case None
    have "f_FileID meta = f" by (rule GetFileByID_key [OF that(1)])
    with None that(2) show ?thesis using qinv_new [OF assms, of t] by (simp add: outbound_of_meta_def)
  next
    case (Some u)
    with that(2) show ?thesis using qinv_set [OF assms, of t t] qinvD(1) [OF assms Some] by simp
  qed
  have restart: "qinv {} (startNextQueuedTransfer (ot_PeerDeviceID t) (enqueueOutboundTransfer (ot_PeerDeviceID t) f False
      (set_status f ''pending'' (removeTransferCheckpoint f ''send''
        (setOutboundTransfer (restart_outbound t) (setOutboundTransfer t n))))))"
    if "qinv {} (setOutboundTransfer t n)" "ot_FileID t = f" for t
  proof -
    let ?n = "setOutboundTransfer (restart_outbound t) (setOutboundTransfer t n)"
    have r: "ot_FileID (restart_outbound t) = f" "ot_PeerDeviceID (restart_outbound t) = ot_PeerDeviceID t"
      "ot_Running (restart_outbound t) = ot_Running t"
      using that(2) by (simp_all add: restart_outbound_def)
    have "qinv {} ?n" by (rule qinv_set [OF that(1), of _ t]) (use r that(2) in simp_all)
    moreover have "getOutboundTransfer f (set_status f ''pending'' (removeTransferCheckpoint f ''send'' ?n)) = Some (restart_outbound t)"
      using qpart_funs(1) [of "set_status f ''pending'' (removeTransferCheckpoint f ''send'' ?n)" ?n f] r(1)
      by (simp add: qpart_frames)
    ultimately show ?thesis
      by (intro qinv_startNext qinv_enqueue [where t = "restart_outbound t"]) (simp_all add: qinv_frames r)
  qed
  show ?thesis
    unfolding RetryTransfer_def f_def [symmetric] Let_def
    using assms pick restart [OF conjunct1 [OF pick] conjunct2 [OF pick]]
    by (simp split: sum.split prod.split bool.split)
qed

lemma qinv_restoreOutbound:
  assumes "qinv {} n" "getOutboundTransfer (c_FileID cp) n = None"
  shows "qinv {} (snd (restoreOutboundTransfer fe cp n))"
proof -
  have new: "getOutboundTransfer (ot_FileID (outbound_of_meta meta p c k b)) n = None"
    "qinv {} (enqueueOutboundTransfer (ot_PeerDeviceID (outbound_of_meta meta p c k b))
      (ot_FileID (outbound_of_meta meta p c k b)) False (setOutboundTransfer (outbound_of_meta meta p c k b) n))"
    if "GetFileByID (c_FileID cp) s = Inr meta" for s meta p c k b
  proof -
    let ?t = "outbound_of_meta meta p c k b"
    have id: "ot_FileID ?t = c_FileID cp" "\<not> ot_Running ?t"
      using GetFileByID_key [OF that(1)] by (simp_all add: outbound_of_meta_def)
    show "getOutboundTransfer (ot_FileID ?t) n = None"
      "qinv {} (enqueueOutboundTransfer (ot_PeerDeviceID ?t) (ot_FileID ?t) False (setOutboundTransfer ?t n))"
      using id assms qinv_new [OF assms(1), of ?t] by (simp_all add: qinv_enqueue [where t = ?t])
  qed
  show ?thesis
  proof (cases "GetFileByID (c_FileID cp) (nd_store n)")
    case (Inr meta)
    then show ?thesis
      unfolding restoreOutboundTransfer_def Let_def
      using assms(1) by (simp add: qinv_frames new [OF Inr] split: sum.split)
  qed (use assms(1) in \<open>simp add: restoreOutboundTransfer_def qinv_frames\<close>)
qed

lemma in_queue: "qinv X n \<Longrightarrow> f \<in> set (queue_of p n) \<Longrightarrow> \<exists>t. getOutboundTransfer f n = Some t \<and> ot_PeerDeviceID t = p"
  using qinvD(6) [of X n p] by (auto simp: queue_ok_def)

lemma is_active: "qinv X n \<Longrightarrow> active_of p n = f \<Longrightarrow> f \<noteq> [] \<Longrightarrow>
    \<exists>t. getOutboundTransfer f n = Some t \<and> ot_PeerDeviceID t = p \<and> f \<in> set (run_ids n) \<union> X"
  using qinvD(5) [of X n p] by (auto simp: active_ok_def)

lemma removeQueued_frame:
  "getOutboundTransfer g (snd (removeQueuedOutboundTransfer p f n)) = getOutboundTransfer g n"
  "nd_runs (snd (removeQueuedOutboundTransfer p f n)) = nd_runs n"
  "active_of p' (snd (removeQueuedOutboundTransfer p f n)) = active_of p' n"
  "outboundFileEventChans (snd (removeQueuedOutboundTransfer p f n)) = outboundFileEventChans n"
  "queue_of p' (snd (removeQueuedOutboundTransfer p f n)) =
    (if p' = p \<and> TrimSpace p \<noteq> [] \<and> TrimSpace f \<noteq> [] then removeAll f (queue_of p n) else queue_of p' n)"
  by (auto simp: removeQueuedOutboundTransfer_def)

text \<open>A transfer without a goroutine may be forgotten.\<close>

lemma qinv_purge:
  assumes "qinv {} n" "TrimSpace f0 \<notin> set (run_ids n)"
  shows "qinv {} (purgeInMemoryTransfer f0 n)"
proof (cases "TrimSpace f0 = []")
  case False
  note D = qinvD [OF assms(1)]
  define f where "f = TrimSpace f0"
  define n1 where "n1 = n\<lparr>outboundFileTransfers := AList.delete f (outboundFileTransfers n),
    inboundFileTransfers := AList.delete f (inboundFileTransfers n),
    outboundFileEventChans := AList.delete f (outboundFileEventChans n)\<rparr>"
  define peer where "peer = (case getOutboundTransfer f n of None \<Rightarrow> [] | Some t \<Rightarrow> ot_PeerDeviceID t)"
  define n2 where "n2 = (if peer = [] then n1
    else finishOutboundTransfer peer f (snd (removeQueuedOutboundTransfer peer f n1)))"
  have n1: "getOutboundTransfer g n1 = (if g = f then None else getOutboundTransfer g n)" "nd_runs n1 = nd_runs n"
    "active_of p n1 = active_of p n" "queue_of p n1 = queue_of p n"
    "map_of (outboundFileEventChans n1) g = (if g = f then None else map_of (outboundFileEventChans n) g)" for g p
    by (simp_all add: n1_def getOutboundTransfer_def active_of_def queue_of_def delete_conv')
  have f: "TrimSpace f \<noteq> []" "f \<noteq> []" "f \<notin> set (run_ids n)" using False assms(2) by (simp_all add: f_def)
  have inactive: "active_of p n \<noteq> f" for p using is_active [OF assms(1), of p f] f by blast
  have elsewhere: "f \<notin> set (queue_of p n)" if "p \<noteq> peer \<or> TrimSpace p = []" for p
    using in_queue [OF assms(1), of f p] that D(6) [of p] by (auto simp: peer_def queue_ok_def)
  have n2: "getOutboundTransfer g n2 = (if g = f then None else getOutboundTransfer g n)" "nd_runs n2 = nd_runs n"
    "active_of p n2 = active_of p n"
    "map_of (outboundFileEventChans n2) g = (if g = f then None else map_of (outboundFileEventChans n) g)"
    "set (queue_of p n2) = set (queue_of p n) - {f}" "distinct (queue_of p n) \<Longrightarrow> distinct (queue_of p n2)" for g p
    using elsewhere [of p] inactive f
    by (auto simp: n2_def n1 removeQueued_frame active_of_finish distinct_removeAll)
  have "qinv {} n2"
  proof (rule qinvI)
    show "run_ok n2 r" if "r \<in> set (nd_runs n2)" for r
      using D(4) [of r] that f(3) by (auto simp: run_ok_def n2 run_ids_def)
    show "active_ok {} n2 p" for p using D(5) [of p] inactive [of p] by (auto simp: active_ok_def n2 run_ids_def)
    show "queue_ok n2 p" for p using D(6) [of p] n2(6) [of p] by (auto simp: queue_ok_def n2(1,5))
  qed (use D(1-3) in \<open>auto simp: n2 run_ids_def split: if_splits\<close>)
  moreover have "purgeInMemoryTransfer f0 n = n2"
    using f by (simp only: purgeInMemoryTransfer_def f_def [symmetric] Let_def n1_def n2_def peer_def if_False)
  ultimately show ?thesis by simp
qed (use assms in \<open>simp add: purgeInMemoryTransfer_def\<close>)

lemma qinv_clean_completed:
  assumes "qinv {} n" "TrimSpace (f_FileID f) \<notin> set (run_ids n)"
  shows "qinv {} (clean_completed fe b f n)"
proof -
  have "qpart (report_unless_missing what missing rn) = qpart (snd rn)" for what missing rn
    by (cases rn) (simp add: report_unless_missing_def qpart_frames split: option.split)
  then have "qpart (removeTransferCheckpoint (f_FileID f) ''receive'' (removeTransferCheckpoint (f_FileID f) ''send''
      (report_unless_missing ''maintenance: delete file metadata'' ErrNotFound (statement (DeleteFileMetadata (f_FileID f))
        (if b \<and> f_ToDeviceID f = nd_id n \<and> TrimSpace (f_StoredPath f) \<noteq> [] then
           report_unless_missing ''maintenance: delete file'' ErrNotExist (run_disk (os_Remove fe (f_StoredPath f)) n)
         else n))))) = qpart n"
    by (simp add: qpart_simps)
  note q = this
  show ?thesis
    unfolding clean_completed_def Let_def
    by (rule qinv_purge) (use assms qinv_cong [OF q] qpart_funs(2) [OF q] in simp_all)
qed

end
