(* ===== verification/TransferSystem.thy ===== *)
theory TransferSystem
  imports TransferRuns Assembly
begin

text \<open>
  A device's transfers as a transition system: \<open>transfer_step\<close> has one rule per thing that can happen, a packet
  handled, a user's wish, a goroutine woken, a change elsewhere in the program. The invariant of the queue holds
  in every reachable state.
\<close>

section \<open>Steps\<close>

text \<open>Queueing a file adds no other transfer.\<close>

lemma start_next_None:
  "\<forall>f t. getOutboundTransfer f n = Some t \<longrightarrow> ot_FileID t = f \<Longrightarrow> getOutboundTransfer g n = None
    \<Longrightarrow> getOutboundTransfer g (start_next p i q n) = None"
proof (induction q arbitrary: n)
  case (Cons f q)
  let ?n = "activate p f (put_queue p q n)"
  have "getOutboundTransfer g (start_next p i q (finishOutboundTransfer p f ?n)) = None"
    by (rule Cons.IH) (use Cons.prems in simp_all)
  moreover have "getOutboundTransfer g (beginOutboundFileTransfer t i ?n) = None" if "getOutboundTransfer f n = Some t" for t
    using Cons.prems that by (auto simp: begin_frame getOutboundTransfer_def setOutboundTransfer_def update_conv'
        activate_def put_queue_def)
  ultimately show ?case
    using Cons.prems by (simp add: Let_def activate_def [symmetric] split: option.split)
qed simp

lemma sendFile_None:
  assumes "qinv {} n" "getOutboundTransfer g n = None" "g \<noteq> uuid_NewString fe 0" "so_FileID opts = []"
    "getOutboundTransfer (uuid_NewString fe 0) n = None"
  shows "getOutboundTransfer g (snd (sendFileWithOptions fe peer path opts n)) = None"
proof -
  have queued: "getOutboundTransfer g (queue_outbound t n1) = None"
    if n1: "upsertFileMetadata meta n = (e, n1)" and "ot_FileID t = uuid_NewString fe 0" for t n1 meta e
  proof -
    have q: "qpart n1 = qpart n" using qpart_frames(9) [of meta n] n1 by simp
    let ?n2 = "enqueueOutboundTransfer (ot_PeerDeviceID t) (ot_FileID t) False (setOutboundTransfer t n1)"
    have "\<forall>f u. getOutboundTransfer f ?n2 = Some u \<longrightarrow> ot_FileID u = f" "getOutboundTransfer g ?n2 = None"
      using qinvD(1) [OF assms(1)] assms(2,3) that(2) by (auto simp: enqueue_frame qpart_funs(1) [OF q] split: if_splits)
    then show ?thesis
      by (simp add: queue_outbound_def startNextQueuedTransfer_def start_next_None split: option.split)
  qed
  have "ot_FileID (new_outbound fe peer path opts r k c m) = uuid_NewString fe 0" for r k c m
    using assms(4) by (simp add: new_outbound_def or_new_def Let_def)
  moreover have "getOutboundTransfer g n1 = None" if "upsertFileMetadata meta n = (e, n1)" for meta e n1
    using qpart_funs(1) [of n1 n g] qpart_frames(9) [of meta n] that assms(2) by simp
  ultimately show ?thesis
    using assms(2) queued unfolding sendFileWithOptions_def
    by (simp add: Let_def split: sum.split prod.split option.split bool.split)
qed

definition fresh_ids :: "FileEnv list \<Rightarrow> Node \<Rightarrow> bool" where
  "fresh_ids fes n \<longleftrightarrow> distinct (map (\<lambda>fe. uuid_NewString fe 0) fes) \<and>
     list_all (\<lambda>fe. getOutboundTransfer (uuid_NewString fe 0) n = None) fes"

lemma qinv_send_folder_files:
  "qinv {} n \<Longrightarrow> fresh_ids (map fst fs) n \<Longrightarrow> qinv {} (snd (send_folder_files peer folder fs queued n))"
proof (induction fs arbitrary: queued n)
  case (Cons x fs)
  obtain fe f where x: "x = (fe, f)" by force
  let ?opts = "no_options\<lparr>so_FolderID := folder, so_RelativePath := mf_RelativePath f\<rparr>"
  let ?n = "snd (sendFileWithOptions fe peer (mf_AbsolutePath f) ?opts n)"
  have opts: "so_FileID ?opts = []" by (simp add: no_options_def)
  have free: "getOutboundTransfer (uuid_NewString fe 0) n = None" using Cons.prems(2) by (simp add: fresh_ids_def x)
  have n: "qinv {} ?n" by (rule qinv_sendFile [OF Cons.prems(1) opts free])
  have "getOutboundTransfer (uuid_NewString (fst y) 0) ?n = None" if "y \<in> set fs" for y
  proof (rule sendFile_None [OF Cons.prems(1) _ _ opts free])
    show "getOutboundTransfer (uuid_NewString (fst y) 0) n = None" "uuid_NewString (fst y) 0 \<noteq> uuid_NewString fe 0"
      using Cons.prems(2) that by (auto simp: fresh_ids_def x list_all_iff image_iff)
  qed
  then have "fresh_ids (map fst fs) ?n"
    using Cons.prems(2) by (simp add: fresh_ids_def x list_all_iff)
  from Cons.IH [OF n this] n show ?case
    by (simp add: x split: prod.split sum.split) (metis snd_conv)
qed simp

lemma fresh_ids_cong: "qpart n' = qpart n \<Longrightarrow> fresh_ids fes n' = fresh_ids fes n"
  by (simp add: fresh_ids_def qpart_funs(1) [of n' n])

lemma qinv_folder_wait:
  assumes "qinv {} n" "fresh_ids (map fes [0..<length (fo_files fo)]) n"
  shows "qinv {} (snd (folder_wait fes fo w n))"
proof -
  have answered: "qinv {} (snd (folder_answered fes fo response m))" if m: "qpart m = qpart n" for response m
  proof -
    let ?m = "folder_status (fo_FolderID fo) ''accepted'' m"
    let ?fs = "map (\<lambda>k. (fes k, fo_files fo ! k)) [0..<length (fo_files fo)]"
    have q: "qpart ?m = qpart n" using m by (simp add: qpart_folder_channels)
    have files: "qinv {} (snd (send_folder_files (fo_peer fo) (fo_FolderID fo) ?fs [] ?m))"
      by (rule qinv_send_folder_files)
        (use assms fresh_ids_cong [OF q] qinv_cong [OF q] in \<open>simp_all add: comp_def\<close>)
    then show ?thesis
      using qinv_cong [OF m] assms(1) unfolding folder_answered_def Let_def
      by (auto simp: qinv_cong [OF qpart_folder_channels(4)] split: prod.split option.split)
  qed
  then have "folder_answered fes fo response m = (r, n2) \<Longrightarrow> qpart m = qpart n \<Longrightarrow> qinv {} n2" for response m r n2
    by (metis snd_conv)
  then show ?thesis
    unfolding folder_wait_def Let_def
    using assms(1) by (auto simp: qinv_cong [OF qpart_folder_channels(3)] qinv_cong [OF qpart_folder_channels(5)]
        qpart_folder_channels split: wake.split option.split list.split prod.split)
qed

text \<open>What a device can do with its transfers: packets, users, timers and the rest of the program, in any order.\<close>

inductive transfer_step :: "Node \<Rightarrow> Node \<Rightarrow> bool" where
  manager: "transfer_step n (on_mgr f n)"
| disk: "transfer_step n (n\<lparr>nd_disk := d\<rparr>)"
| run: "transfer_step n (run_step fe fileID w n)"
| drain: "transfer_step n (startOutboundFileTransferDrain peer n)"
| send_file: "so_FileID opts = [] \<Longrightarrow> getOutboundTransfer (uuid_NewString fe 0) n = None
    \<Longrightarrow> transfer_step n (snd (sendFileWithOptions fe peer path opts n))"
| cancel: "transfer_step n (snd (CancelTransfer fe fileID n))"
| retry: "transfer_step n (snd (RetryTransfer fe fileID n))"
| file_request: "transfer_step n (handleFileRequest fe i request n)"
| approval: "transfer_step n (approval_decided fe a decision n)"
| file_response: "transfer_step n (handleFileResponse fe i response n)"
| file_data: "transfer_step n (handleFileData fe i data n)"
| file_complete: "\<not> starting (fc_FileID complete) n \<Longrightarrow> transfer_step n (handleFileComplete fe i complete n)"
| folder_request: "transfer_step n (handleFolderTransferRequest fe i folder decision n)"
| folder_response: "transfer_step n (handleFolderTransferResponse fe i answer n)"
| send_folder: "transfer_step n (snd (SendFolder fe peer path walk n))"
| folder_wait: "fresh_ids (map fes [0..<length (fo_files fo)]) n
    \<Longrightarrow> transfer_step n (snd (folder_wait fes fo w n))"
| restore_outbound: "getOutboundTransfer (c_FileID cp) n = None
    \<Longrightarrow> transfer_step n (snd (restoreOutboundTransfer fe cp n))"
| restore_inbound: "transfer_step n (snd (restoreInboundTransfer fe cp n))"
| clean: "TrimSpace (f_FileID meta) \<notin> set (run_ids n) \<Longrightarrow> transfer_step n (clean_completed fe b meta n)"

lemma qpart_SendFolder: "qpart (snd (SendFolder fe peer folderPath walk n)) = qpart n"
proof -
  have st: "statement q n = (e, m) \<Longrightarrow> qpart m = qpart n" for q e m by (auto simp: qpart_simps dest!: qpart_snd)
  have send: "send_to fe i p n0 = (e, m) \<Longrightarrow> qpart m = qpart n0" for i p n0 e m by (auto simp: qpart_simps dest!: qpart_snd)
  have sent: "qpart (snd (case signFolderTransferRequest env rq m of Inl e \<Rightarrow> (Inl e, n1)
      | Inr request \<Rightarrow>
          (case send_to fe i (PFolderRequest request) (registerOutboundFolderEventChannel d n1) of
             (Some e, n3) \<Rightarrow> (Inl e, unregisterOutboundFolderEventChannel d n3)
           | (None, n3) \<Rightarrow> (Inr fo, n3)))) = qpart n1" for env rq m n1 i d and fo :: FolderSend
    by (simp add: send qpart_folder_channels split: sum.split prod.split option.split)
  show ?thesis
  proof (cases "buildFolderManifest folderPath walk")
    case (Inr mf)
    then obtain ms fs bytes where mf: "buildFolderManifest folderPath walk = Inr (ms, fs, bytes)" by (cases mf) auto
    show ?thesis
      unfolding SendFolder_def Let_def mf
      by (cases "live_conn peer n"; cases "os_Stat fe folderPath (nd_disk n)")
        (simp_all add: st sent split: bool.split prod.split option.split)
  qed (simp add: SendFolder_def split: sum.split bool.split prod.split)
qed

lemma qinv_step: "transfer_step n n' \<Longrightarrow> qinv {} n \<Longrightarrow> qinv {} n'"
proof (induction rule: transfer_step.induct)
  case (disk n d)
  have "qpart (n\<lparr>nd_disk := d\<rparr>) = qpart n" by (simp add: qpart_def)
  from qinv_cong [OF this] disk show ?case by simp
next
  case (drain n peer)
  then show ?case by (simp add: startOutboundFileTransferDrain_def qinv_startNext)
qed (simp_all add: qinv_cong [OF qpart_frames(12)] qinv_run_step qinv_sendFile qinv_CancelTransfer qinv_RetryTransfer
    qinv_cong [OF qpart.part_handleFileRequest] qinv_cong [OF qpart.part_approval_decided] qinv_handleFileResponse
    qinv_cong [OF qpart.part_handleFileData] qinv_handleFileComplete qinv_cong [OF qpart.part_handleFolderTransferRequest]
    qinv_cong [OF qpart_handleFolderTransferResponse] qinv_cong [OF qpart_SendFolder] qinv_folder_wait qinv_restoreOutbound
    qinv_cong [OF qpart.part_restoreInbound] qinv_clean_completed)


section \<open>The queue\<close>

definition idle_node :: "Node \<Rightarrow> bool" where
  "idle_node n \<longleftrightarrow> outboundFileTransfers n = [] \<and> nd_runs n = [] \<and> activeOutboundTransfer n = [] \<and>
     outboundTransferQueue n = [] \<and> outboundFileEventChans n = []"

lemma qinv_reachable:
  assumes "transfer_step\<^sup>*\<^sup>* n0 n" "idle_node n0"
  shows "qinv {} n"
  using assms(1)
proof (induction rule: rtranclp_induct)
  case base
  from assms(2) show ?case
    by (auto simp: idle_node_def intro!: qinvI simp: getOutboundTransfer_def run_ids_def active_ok_def active_of_def
        queue_ok_def queue_of_def)
next
  case (step n n')
  then show ?case using qinv_step by blast
qed


definition sample_sender :: Node where
  "sample_sender = (sample_node alice)\<lparr>nd_disk := \<lparr>dk_files = [(''/f'', ''abc'')], dk_dirs = []\<rparr>\<rparr>"

lemma sample_upsert:
  assumes "ot_FileID t \<noteq> []" "ot_Filename t \<noteq> []" "ot_SourcePath t \<noteq> []" "ot_Checksum t \<noteq> []"
  shows "\<exists>m. upsertFileMetadata (outbound_meta t sample_sender) sample_sender = (None, sample_sender\<lparr>nd_mgr := m\<rparr>) \<and>
    connections m = [(''b'', 0)] \<and> mg_heap m = mg_heap alice"
  using assms
  by (simp add: upsertFileMetadata_def statement_def run_mgr_def on_store_def SaveFileMetadata_def outbound_meta_def
      sample_sender_def sample_node_def insert_file_def validateTransferStatus_def two_peers_def empty_store_def
      sample_manager_def split_beta Let_def)

lemma live_conn_frames:
  "live_conn p (report e n) = live_conn p n" "live_conn p (set_status f st n) = live_conn p n"
  "live_conn p (setOutboundTransfer t n) = live_conn p n" "live_conn p (put_queue p' q n) = live_conn p n"
  "live_conn p (drop_run f n) = live_conn p n" "live_conn p (unregisterOutboundFileEventChannel f n) = live_conn p n"
  "live_conn p (finishOutboundTransfer p' f n) = live_conn p n"
  by (simp_all add: live_conn_def report_def on_mgr_def reportError_def getConnection_def set_status_def statement_def
      run_mgr_def on_store_def split_beta setOutboundTransfer_def put_queue_def drop_run_def
      unregisterOutboundFileEventChannel_def finishOutboundTransfer_def cong: option.case_cong)

lemma live_conn_enqueue: "live_conn p (enqueueOutboundTransfer p' f b n) = live_conn p n"
  by (simp add: enqueueOutboundTransfer_def live_conn_frames)

abbreviation "sample_sending \<equiv> snd (sendFileWithOptions sample_fe ''b'' ''/f'' no_options sample_sender)"

lemma sample_queued:
  "\<exists>t. nd_runs sample_sending = [\<lparr>rn_FileID = ''u'', rn_conn = 0, rn_phase = Starting\<rparr>] \<and>
    getOutboundTransfer ''u'' sample_sending = Some t \<and> \<not> is_over t \<and> ot_PeerDeviceID t = ''b'' \<and>
    queue_of ''b'' sample_sending = [] \<and> live_conn ''b'' sample_sending = Some 0"
proof -
  define t where "t = new_outbound sample_fe ''b'' ''/f'' no_options [] 3
    (hex_encode (sha256_Sum sample_prims ''abc'')) sample_sender"
  have base: "Base ''/f'' = ''f''" by code_simp
  have trim: "TrimSpace ''/f'' \<noteq> []" "TrimSpace ''b'' \<noteq> []" "TrimSpace ''u'' \<noteq> []" "TrimSpace [] = []" by code_simp+
  have t: "ot_FileID t = ''u''" "ot_Filename t = ''f''" "ot_SourcePath t = ''/f''" "ot_Checksum t \<noteq> []"
    "ot_PeerDeviceID t = ''b''" "\<not> ot_Running t" "\<not> is_over t"
    by (simp_all add: t_def new_outbound_def or_new_def no_options_def sample_fe_def base Let_def is_over_def)
       (simp add: sample_prims_def hex_encode_def)
  have stat: "os_Stat sample_fe ''/f'' (nd_disk sample_sender) = Inr (False, 3)"
    and checksum: "fileChecksumHex sample_fe ''/f'' sample_sender = Inr (hex_encode (sha256_Sum sample_prims ''abc''))"
    by (simp_all add: os_Stat_def fileChecksumHex_def os_ReadFile_def sample_sender_def sample_fe_def)
  have rel: "send_relative_path no_options = Inr []" and override: "so_ChecksumOverride no_options = []"
    by (simp_all add: send_relative_path_def no_options_def trim)
  obtain m where m: "upsertFileMetadata (outbound_meta t sample_sender) sample_sender = (None, sample_sender\<lparr>nd_mgr := m\<rparr>)"
    "connections m = [(''b'', 0)]" "mg_heap m = mg_heap alice"
    using sample_upsert [of t] t by auto
  have "snd (sendFileWithOptions sample_fe ''b'' ''/f'' no_options sample_sender) = queue_outbound t (sample_sender\<lparr>nd_mgr := m\<rparr>)"
    unfolding sendFileWithOptions_def stat checksum rel
    using m(1) by (simp add: trim override Let_def t_def [symmetric])
  moreover have "nd_runs (queue_outbound t (sample_sender\<lparr>nd_mgr := m\<rparr>)) =
      [\<lparr>rn_FileID = ''u'', rn_conn = 0, rn_phase = Starting\<rparr>] \<and>
    getOutboundTransfer ''u'' (queue_outbound t (sample_sender\<lparr>nd_mgr := m\<rparr>)) =
      Some (t\<lparr>ot_Running := True, ot_run_canceled := False\<rparr>) \<and>
    queue_of ''b'' (queue_outbound t (sample_sender\<lparr>nd_mgr := m\<rparr>)) = [] \<and>
    live_conn ''b'' (queue_outbound t (sample_sender\<lparr>nd_mgr := m\<rparr>)) = Some 0"
  proof -
    let ?n1 = "setOutboundTransfer t (sample_sender\<lparr>nd_mgr := m\<rparr>)"
    let ?n2 = "put_queue ''b'' [''u''] ?n1"
    have "queue_of ''b'' ?n1 = []" "active_of ''b'' ?n2 = []" "nd_runs ?n1 = []"
      by (simp_all add: queue_of_def active_of_def setOutboundTransfer_def put_queue_def sample_sender_def sample_node_def)
    moreover have "live_conn ''b'' ?n2 = Some 0"
      by (simp add: live_conn_def getConnection_def m put_queue_def setOutboundTransfer_def sample_manager_def newPeerConnection_def)
    moreover have "queue_outbound t (sample_sender\<lparr>nd_mgr := m\<rparr>) =
        (setOutboundTransfer (t\<lparr>ot_Running := True, ot_run_canceled := False\<rparr>) (activate ''b'' ''u'' (put_queue ''b'' [] ?n2)))
          \<lparr>nd_runs := [\<lparr>rn_FileID = ''u'', rn_conn = 0, rn_phase = Starting\<rparr>]\<rparr>"
      using calculation by (simp add: queue_outbound_def enqueueOutboundTransfer_def startNextQueuedTransfer_def t trim Let_def
          activate_def [symmetric] begin_frame)
    moreover have "getOutboundTransfer f (k\<lparr>nd_runs := rs\<rparr>) = getOutboundTransfer f k"
      "queue_of p (k\<lparr>nd_runs := rs\<rparr>) = queue_of p k" "live_conn p (k\<lparr>nd_runs := rs\<rparr>) = live_conn p k"
      "live_conn p (activate p' f' k) = live_conn p k" for f p k rs p' f'
      by (simp_all add: getOutboundTransfer_def queue_of_def live_conn_def activate_def getConnection_def cong: option.case_cong)
    ultimately show ?thesis by (simp add: t live_conn_frames)
  qed
  moreover have "\<not> is_over (t\<lparr>ot_Running := True, ot_run_canceled := False\<rparr>)" using t(7) by (simp add: is_over_def)
  ultimately show ?thesis using t(5) by simp
qed

lemma sample_idle: "idle_node sample_sender"
  by (simp add: idle_node_def sample_sender_def sample_node_def)

lemma sample_free: "getOutboundTransfer f sample_sender = None"
  by (simp add: getOutboundTransfer_def sample_sender_def sample_node_def)

lemma sample_reachable: "transfer_step\<^sup>*\<^sup>* sample_sender sample_sending"
  by (rule r_into_rtranclp, rule transfer_step.send_file) (simp_all add: no_options_def sample_free)


section \<open>A transfer that fails\<close>

lemma find_last: "f \<notin> rn_FileID ` set rs \<Longrightarrow> rn_FileID x = f \<Longrightarrow> find (\<lambda>r. rn_FileID r = f) (rs @ [x]) = Some x"
  by (induction rs) auto

text \<open>The head of the queue of a connected peer with nothing active starts.\<close>

lemma start_head:
  assumes "queue_of p n = f # q" "active_of p n = []" "live_conn p n = Some i" "TrimSpace p \<noteq> []"
    and "getOutboundTransfer f n = Some t" "\<not> is_over t" "\<not> ot_Running t" "ot_FileID t = f" "f \<notin> set (run_ids n)"
  shows "get_run f (startNextQueuedTransfer p n) = Some \<lparr>rn_FileID = f, rn_conn = i, rn_phase = Starting\<rparr> \<and>
    queue_of p (startNextQueuedTransfer p n) = q"
proof -
  let ?n = "activate p f (put_queue p q n)" and ?r = "\<lparr>rn_FileID = f, rn_conn = i, rn_phase = Starting\<rparr>"
  let ?t = "t\<lparr>ot_Running := True, ot_run_canceled := False\<rparr>"
  have step: "startNextQueuedTransfer p n = (setOutboundTransfer ?t ?n)\<lparr>nd_runs := nd_runs n @ [?r]\<rparr>"
    using assms(1-8) unfolding startNextQueuedTransfer_def
    by (simp add: Let_def activate_def [symmetric] begin_frame)
  have "find (\<lambda>r. rn_FileID r = f) (nd_runs n @ [?r]) = Some ?r"
    using assms(9) by (simp add: run_ids_def find_last)
  moreover have "queue_of p (m\<lparr>nd_runs := rs\<rparr>) = queue_of p m" for m rs by (simp add: queue_of_def)
  ultimately show ?thesis unfolding step by (simp add: get_run_def)
qed

text \<open>C37: A goroutine that returns an error, be it for good because the source file is gone, puts its file at the
  head of the queue and starts it again at once: with a live connection a new goroutine of the same file is
  starting when the old one has returned, and every other file of the queue goes on waiting.\<close>

theorem failed_transfer_runs_again:
  assumes "transfer_step\<^sup>*\<^sup>* n0 n" "idle_node n0" "get_run f n = Some r" "getOutboundTransfer f n = Some t"
    and "\<not> is_over t" "f \<notin> set (queue_of (ot_PeerDeviceID t) n)" "live_conn (ot_PeerDeviceID t) n = Some i"
    and "TrimSpace f \<noteq> []" "TrimSpace (ot_PeerDeviceID t) \<noteq> []"
  shows "get_run f (run_end f (Some e) n) = Some \<lparr>rn_FileID = f, rn_conn = i, rn_phase = Starting\<rparr> \<and>
    queue_of (ot_PeerDeviceID t) (run_end f (Some e) n) = queue_of (ot_PeerDeviceID t) n"
proof -
  let ?p = "ot_PeerDeviceID t" and ?t = "t\<lparr>ot_Running := False\<rparr>"
  note D = qinvD [OF qinv_reachable [OF assms(1,2)]]
  have r: "r \<in> set (nd_runs n)" "rn_FileID r = f" using assms(3) by (auto simp: get_run_def find_Some_iff)
  have id: "ot_FileID t = f" by (rule D(1) [OF assms(4)])
  have active: "active_of ?p n = f" "f \<noteq> []" using D(4) [OF r(1)] r(2) assms(4) by (auto simp: run_ok_def)
  have peer: "?p \<noteq> []" using assms(9) by auto
  define n1 where "n1 = setOutboundTransfer ?t (drop_run f (unregisterOutboundFileEventChannel f n))"
  define n2 where "n2 = set_status f ''pending''
    (if errors_Is e ContextCanceled then n1 else report (Wrap ''file transfer'' e) n1)"
  define n3 where "n3 = finishOutboundTransfer ?p f (enqueueOutboundTransfer ?p f True n2)"
  have q2: "qpart n2 = qpart n1" by (simp add: n2_def qpart_frames)
  have n1: "getOutboundTransfer f n1 = Some ?t" "active_of ?p n1 = f" "queue_of ?p n1 = queue_of ?p n" "f \<notin> set (run_ids n1)"
    using id active(1) by (simp_all add: n1_def)
  have e2: "enqueueOutboundTransfer ?p f True n2 = put_queue ?p (f # queue_of ?p n) n2"
    using assms(6,8,9) n1(3) qpart_funs(5) [OF q2] by (simp add: enqueueOutboundTransfer_def)
  have "run_end f (Some e) n = startNextQueuedTransfer ?p n3"
    using assms(4,5) unfolding run_end_def n3_def n2_def n1_def by (simp add: Let_def)
  moreover have "get_run f (startNextQueuedTransfer ?p n3) = Some \<lparr>rn_FileID = f, rn_conn = i, rn_phase = Starting\<rparr> \<and>
      queue_of ?p (startNextQueuedTransfer ?p n3) = queue_of ?p n"
  proof (rule start_head [where t = ?t])
    show "live_conn ?p n3 = Some i"
      using assms(7) by (simp add: n3_def n2_def n1_def live_conn_frames live_conn_enqueue)
    show "active_of ?p n3 = []"
      using n1(2) qpart_funs(4) [OF q2] peer active(2) by (simp add: n3_def e2 active_of_finish)
    show "f \<notin> set (run_ids n3)" using n1(4) qpart_funs(2) [OF q2] by (simp add: n3_def e2)
  qed (use assms(5,9) id n1(1) qpart_funs(1) [OF q2] in \<open>simp_all add: n3_def e2 is_over_def\<close>)
  ultimately show ?thesis by simp
qed

theorem failed_transfer_runs_again_witness:
  "get_run ''u'' (run_end ''u'' (Some ErrNotExist) sample_sending) =
    Some \<lparr>rn_FileID = ''u'', rn_conn = 0, rn_phase = Starting\<rparr>"
proof -
  obtain t where t: "nd_runs sample_sending = [\<lparr>rn_FileID = ''u'', rn_conn = 0, rn_phase = Starting\<rparr>]"
    "getOutboundTransfer ''u'' sample_sending = Some t" "\<not> is_over t" "ot_PeerDeviceID t = ''b''"
    "queue_of ''b'' sample_sending = []" "live_conn ''b'' sample_sending = Some 0"
    using sample_queued by blast
  have trim: "TrimSpace ''u'' \<noteq> []" "TrimSpace ''b'' \<noteq> []" by code_simp+
  show ?thesis
    using failed_transfer_runs_again [OF sample_reachable sample_idle _ t(2,3), of _ 0 ErrNotExist] t trim
    by (simp add: get_run_def)
qed

end
