(* ===== verification/TransferTables.thy ===== *)
theory TransferTables
  imports TransferSystem
begin

text \<open>
  The table of inbound transfers stays well typed under every step: the sending side does not touch it, and each
  handler of the receiving side keeps the bookkeeping of chunks consistent.
\<close>

section \<open>Well-typed tables\<close>

definition inbound_ok :: "inboundFileTransfer \<Rightarrow> bool" where
  "inbound_ok t \<longleftrightarrow> 0 < it_ChunkSize t \<and> it_TotalChunks t = chunkCount (it_Filesize t) (it_ChunkSize t) \<and>
     set (it_ReceivedChunks t) \<subseteq> {0..<it_TotalChunks t} \<and>
     0 \<le> it_NextChunk t \<and> {0..<it_NextChunk t} \<subseteq> set (it_ReceivedChunks t) \<and>
     it_NextChunk t \<notin> set (it_ReceivedChunks t)"

definition tables_ok :: "Node \<Rightarrow> bool" where
  "tables_ok n \<longleftrightarrow> 0 < FileChunkSize (nd_options n) \<and>
     (\<forall>f t. getInboundTransfer f n = Some t \<longrightarrow> it_FileID t = f \<and> inbound_ok t)"

definition ipart where
  "ipart n = (inboundFileTransfers n, nd_options n)"

lemma ipart_get: "ipart n' = ipart n \<Longrightarrow> getInboundTransfer f n' = getInboundTransfer f n"
  by (simp add: ipart_def getInboundTransfer_def)

lemma tables_cong: "ipart n' = ipart n \<Longrightarrow> tables_ok n' = tables_ok n"
  by (simp add: tables_ok_def ipart_get [of n' n]) (simp add: ipart_def)

text \<open>The sending side leaves the inbound table alone.\<close>

interpretation ipart: sending_frame ipart
  by unfold_locales
    (auto simp: ipart_def next_sequence_def validate_sequence_def allow_file_request_def log_file_event_def)

lemma ipart_cleaned: "ipart (snd (statement q n)) = ipart n"
  by (simp add: ipart_def)

lemma ipart_on_mgr: "ipart (on_mgr f n) = ipart n"
  by (simp add: ipart_def)

lemma ipart_pairs:
  "statement q n = (e, m) \<Longrightarrow> ipart m = ipart n" "lookup_decision fe f n = (d, m) \<Longrightarrow> ipart m = ipart n"
  "getPeerSettingsSnapshot p n = (g, m) \<Longrightarrow> ipart m = ipart n" "run_disk df n = (x, m) \<Longrightarrow> ipart m = ipart n"
  "beginPendingFileApproval f n = (b, m) \<Longrightarrow> ipart m = ipart n" "validate_sequence i w n = (e, m) \<Longrightarrow> ipart m = ipart n"
  "allow_file_request fe rq n = (b, m) \<Longrightarrow> ipart m = ipart n" "upsertFileMetadata meta n = (e, m) \<Longrightarrow> ipart m = ipart n"
  by (auto simp: ipart.part_simps ipart_cleaned dest!: ipart.part_snd)

section \<open>The inbound table\<close>

lemma tables_set: "tables_ok n \<Longrightarrow> inbound_ok t \<Longrightarrow> tables_ok (setInboundTransfer t n)"
  by (auto simp: tables_ok_def getInboundTransfer_def setInboundTransfer_def update_conv')

lemma tables_delete: "tables_ok n \<Longrightarrow> tables_ok (n\<lparr>inboundFileTransfers := AList.delete f (inboundFileTransfers n)\<rparr>)"
  by (auto simp: tables_ok_def getInboundTransfer_def delete_conv')

lemma tables_drop: "tables_ok n \<Longrightarrow> tables_ok (drop_inbound f n)"
  using tables_delete [of n f] tables_cong [OF ipart.part_stored(1)]
  by (simp add: drop_inbound_def removeInboundTransfer_def)

lemma inbound_ok_checkpoint [simp]: "inbound_ok (t\<lparr>it_checkpointChunk := a, it_checkpointBytes := b\<rparr>) = inbound_ok t"
  by (simp add: inbound_ok_def)

lemma inbound_ok_count:
  assumes "inbound_ok t" "0 \<le> k" "k < it_TotalChunks t"
  shows "inbound_ok (count_chunk k len t)"
proof -
  have "{0..<it_NextChunk t} \<subseteq> set (k # it_ReceivedChunks t)" using assms(1) by (auto simp: inbound_ok_def)
  from advance_spec [OF this] assms show ?thesis by (auto simp: count_chunk_def inbound_ok_def Let_def)
qed

lemma chunkCount_nonneg: "0 \<le> chunkCount k c"
  by (auto simp: chunkCount_def quo_pos pos_imp_zdiv_nonneg_iff)

lemma clamp_range: "0 \<le> hi \<Longrightarrow> 0 \<le> clamp v hi \<and> clamp v hi \<le> hi"
  by (simp add: clamp_def Let_def)

lemma inbound_ok_new: "0 < c \<Longrightarrow> inbound_ok (new_inbound rq p c)"
  by (simp add: inbound_ok_def new_inbound_def)

lemma inbound_ok_restored: "tables_ok n \<Longrightarrow> inbound_ok (restored_inbound n meta cp tp fp)"
  using clamp_range [OF chunkCount_nonneg, of "c_NextChunk cp" "f_Filesize meta" "FileChunkSize (nd_options n)"]
  by (simp add: inbound_ok_def restored_inbound_def tables_ok_def Let_def image_int_atLeastLessThan)

lemma tables_persist:
  assumes "tables_ok n"
  shows "tables_ok (maybePersistInboundCheckpoint fe f b n)"
proof (cases "getInboundTransfer f n")
  case (Some t)
  then have "inbound_ok t" using assms by (simp add: tables_ok_def)
  then have "tables_ok (setInboundTransfer (t\<lparr>it_checkpointChunk := it_NextChunk t, it_checkpointBytes := it_BytesReceived t\<rparr>) n)"
    by (intro tables_set assms) simp
  with Some assms show ?thesis
    unfolding maybePersistInboundCheckpoint_def
    by (auto simp: Let_def tables_cong [OF ipart.manager(1)] split: option.split prod.split dest!: ipart_pairs(1) tables_cong)
qed (use assms in \<open>simp add: maybePersistInboundCheckpoint_def\<close>)

lemma ipart_store_rejected: "ipart (store_rejected rq d r p n) = ipart n"
  unfolding store_rejected_def
  by (auto simp: ipart.part_simps split: option.split prod.split dest!: ipart_pairs)

lemma tables_same: "ipart m = ipart n \<Longrightarrow> tables_ok n \<Longrightarrow> tables_ok m"
  using tables_cong [of m n] by simp

lemma tables_start_inbound:
  assumes "tables_ok n"
  shows "tables_ok (start_inbound fe i rq d r p n)"
proof -
  let ?n1 = "setInboundTransfer (new_inbound rq p (FileChunkSize (nd_options n))) n"
  let ?n2 = "report_some (upsertFileMetadata (request_meta rq d r p ''pending'') ?n1)"
  have "tables_ok ?n1" by (rule tables_set [OF assms inbound_ok_new]) (use assms in \<open>simp add: tables_ok_def\<close>)
  then have "tables_ok ?n2" by (rule tables_same [rotated]) (simp add: ipart.part_simps)
  then have "tables_ok (maybePersistInboundCheckpoint fe (fq_FileID rq) True ?n2)" by (rule tables_persist)
  then show ?thesis
    by (rule tables_same [rotated]) (simp add: start_inbound_def Let_def ipart.part_answers ipart.part_simps)
qed

lemma tables_finalize:
  assumes "tables_ok n"
  shows "tables_ok (finalizeInboundFileRequest fe i rq d r p accept msg n)"
proof -
  have temp: "prepare_temp fe p k m = (e, m') \<Longrightarrow> ipart m' = ipart m" for k m e m'
    unfolding prepare_temp_def by (auto split: option.splits prod.splits dest!: ipart_pairs(4))
  have keep: "tables_ok m" if "ipart m = ipart n" for m using that assms by (rule tables_same)
  show ?thesis
    unfolding finalizeInboundFileRequest_def Let_def
    by (auto simp: ipart.part_simps ipart.part_answers ipart_store_rejected split: option.split prod.split sum.split
        intro!: tables_start_inbound simp: keep dest!: temp)
qed

lemma tables_decide:
  assumes "tables_ok n"
  shows "tables_ok (decide_request fe i rq d r p settings n)"
proof -
  have keep: "tables_ok m" if "ipart m = ipart n" for m using that assms by (rule tables_same)
  show ?thesis
    using assms ipart_pairs(5)
    by (auto simp: decide_request_def ipart.part_simps split: receive_decision.split prod.split bool.split
        intro!: tables_finalize simp: keep)
qed

lemma tables_admit:
  assumes "tables_ok n"
  shows "tables_ok (admit_request fe i rq d r p settings n)"
proof -
  have keep: "tables_ok m" if "ipart m = ipart n" for m using that assms by (rule tables_same)
  show ?thesis
    using ipart_pairs(2)
    by (auto simp: admit_request_def ipart.part_simps ipart_store_rejected split: option.split prod.split
        intro!: tables_decide simp: keep)
qed

lemma tables_target:
  assumes "tables_ok n"
  shows "tables_ok (target_request fe i rq n)"
proof -
  have keep: "tables_ok m" if "ipart m = ipart n" for m using that assms by (rule tables_same)
  show ?thesis
    using ipart_pairs(3)
    by (auto simp: target_request_def Let_def ipart.part_simps split: option.split prod.split sum.split
        intro!: tables_admit simp: keep)
qed

lemma tables_handleFileRequest:
  assumes "tables_ok n"
  shows "tables_ok (handleFileRequest fe i rq n)"
proof -
  have keep: "ipart m = ipart n \<Longrightarrow> tables_ok m" for m by (rule tables_same [OF _ assms])
  have seq: "ipart m = ipart n" if "validate_sequence i s n = (e, m)" for s e m
    using ipart_pairs(6) [OF that] .
  have allow: "ipart m' = ipart m" if "allow_file_request fe rq m = (b, m')" for b m m'
    using ipart_pairs(7) [OF that] .
  have target: "ipart m = ipart n \<Longrightarrow> tables_ok (target_request fe i rq m)" for m
    by (rule tables_target) (rule keep)
  show ?thesis
    unfolding handleFileRequest_def Let_def
    by (auto simp: assms keep ipart.part_simps split: option.split prod.split bool.split
        dest!: seq allow intro!: target)
qed

lemma tables_handleFileData:
  assumes "tables_ok n"
  shows "tables_ok (handleFileData fe i data n)"
proof (cases "fd_FileID data = [] \<or> getInboundTransfer (fd_FileID data) n = None")
  case True
  then show ?thesis using assms by (auto simp: handleFileData_def tables_cong [OF ipart.part_answers(1)])
next
  case False
  then obtain t where t: "getInboundTransfer (fd_FileID data) n = Some t" by blast
  then have ok: "inbound_ok t" using assms by (simp add: tables_ok_def)
  have keep: "ipart m = ipart n \<Longrightarrow> tables_ok m" for m by (rule tables_same [OF _ assms])
  have written: "ipart m = ipart n" if "write_chunk fe k b t n = (e, m)" for k b e m
    using that unfolding write_chunk_def by (auto split: option.splits prod.splits dest!: ipart_pairs(4))
  have ack: "tables_ok (acknowledge_chunk fe i f k t' m)" if "tables_ok m" for f k t' m
    by (rule tables_same [OF _ that]) (simp add: acknowledge_chunk_def Let_def ipart.part_simps split: sum.split)
  show ?thesis
    using False t open_chunk_range [of fe i data t n] ok unfolding handleFileData_def Let_def
    by (auto simp: ipart.part_simps split: sum.split prod.split option.split dest!: written
        intro!: ack tables_persist tables_set inbound_ok_count simp: keep)
qed

lemma tables_complete_inbound:
  assumes "tables_ok n"
  shows "tables_ok (complete_inbound fe i complete t n)"
proof -
  have fail: "tables_ok (fail_inbound fe i f st msg m)" if "ipart m = ipart n" for f st msg m
    unfolding fail_inbound_def
    by (rule tables_same [OF _ tables_drop [OF tables_same [OF that assms]]])
      (simp add: ipart.part_simps drop_inbound_def removeInboundTransfer_def ipart_def)
  have finish: "tables_ok (finish_inbound fe i f t m)" if "ipart m = ipart n" for f m
    unfolding finish_inbound_def
    by (rule tables_same [OF _ tables_drop [OF tables_same [OF that assms]]])
      (simp add: ipart.part_simps drop_inbound_def removeInboundTransfer_def ipart_def)
  show ?thesis
    unfolding complete_inbound_def Let_def
    by (auto simp: tables_cong [OF ipart.part_tables(7)] ipart.part_simps split: sum.split prod.split option.split
        intro!: fail finish dest!: ipart_pairs(4))
qed

lemma tables_handleFileComplete:
  assumes "tables_ok n"
  shows "tables_ok (handleFileComplete fe i complete n)"
proof -
  have keep: "ipart m = ipart n \<Longrightarrow> tables_ok m" for m by (rule tables_same [OF _ assms])
  have recorded: "ipart (recordInboundCanceledBeforeApproval fe i complete n) = ipart n"
    by (simp add: recordInboundCanceledBeforeApproval_def Let_def ipart.part_simps split: sum.split)
  have late: "ipart (complete_outbound_late fe complete t n) = ipart n" for t
    by (simp add: complete_outbound_late_def ipart.part_simps)
  show ?thesis
    unfolding handleFileComplete_def
    by (auto simp: assms ipart.part_simps recorded late tables_complete_inbound split: option.split simp: keep)
qed

lemma tables_approval: "tables_ok n \<Longrightarrow> tables_ok (approval_decided fe a decision n)"
proof -
  assume ok: "tables_ok n"
  have keep: "ipart m = ipart n \<Longrightarrow> tables_ok m" for m by (rule tables_same [OF _ ok])
  show ?thesis
    unfolding approval_decided_def Let_def
    by (auto simp: tables_cong [OF ipart.part_tables(3)] ipart.part_simps split: sum.split intro!: tables_finalize simp: keep)
qed

lemma ipart_folder_request: "ipart (handleFolderTransferRequest fe i rq decision n) = ipart n"
proof -
  have made: "ipart (snd (make_tree fe root es m)) = ipart m" for root es m
  proof (induction es arbitrary: m)
    case (Cons e es)
    then show ?case by (auto split: sum.split option.split prod.split dest!: ipart_pairs(4))
  qed simp
  have tree: "make_tree fe root es m = (r, m1) \<Longrightarrow> ipart m1 = ipart m" for root es m r m1
    using made [of root es m] by simp
  have accept: "ipart (accept_folder fe i rq mf fs bs root m) = ipart m" for mf fs bs root m
    unfolding accept_folder_def Let_def
    by (auto simp: ipart.part_simps split: option.split prod.split dest!: tree ipart_pairs(4))
  have place: "ipart (place_folder fe i rq decision mf fs bs n) = ipart n" for mf fs bs
    unfolding place_folder_def Let_def
    by (auto simp: ipart.part_simps accept split: prod.split sum.split dest!: ipart_pairs(3))
  show ?thesis
    by (simp add: handleFolderTransferRequest_def ipart.part_simps place split: option.split sum.split prod.split)
qed

lemma tables_restoreInbound:
  assumes "tables_ok n"
  shows "tables_ok (snd (restoreInboundTransfer fe cp n))"
proof -
  have keep: "ipart m = ipart n \<Longrightarrow> tables_ok m" for m by (rule tables_same [OF _ assms])
  have folder: "ipart (restore_folder fe meta p m) = ipart m" for meta p m
    by (simp add: restore_folder_def Let_def ipart.part_simps)
  have restored: "tables_ok (setInboundTransfer (restored_inbound m meta cp tp fp) (restore_folder fe meta fp m))"
    if "ipart m = ipart n" for m meta tp fp
    using that by (intro tables_set inbound_ok_restored keep) (simp_all add: folder)
  show ?thesis
  proof (cases "GetFileByID (c_FileID cp) (nd_store n)")
    case (Inr meta)
    define fp where "fp = TrimSpace (f_StoredPath meta)"
    define tp where "tp = (if TrimSpace (c_TempPath cp) = [] then fp @ ''.part'' else TrimSpace (c_TempPath cp))"
    obtain e1 n1 where 1: "run_disk (os_MkdirAll fe (Dir tp)) n = (e1, n1)" by fastforce
    obtain e2 n2 where 2: "run_disk (os_Create fe tp) n1 = (e2, n2)" by fastforce
    obtain e3 n3 where 3: "run_disk (os_Truncate fe tp (f_Filesize meta)) n2 = (e3, n3)" by fastforce
    have same: "ipart n1 = ipart n" "ipart n2 = ipart n" "ipart n3 = ipart n"
      using ipart_pairs(4) [OF 1] ipart_pairs(4) [OF 2] ipart_pairs(4) [OF 3] by simp_all
    have "restoreInboundTransfer fe cp n =
      (if isTerminalTransferStatus (f_TransferStatus meta) \<or> tp = [] \<or> fp = [] then
         (None, removeTransferCheckpoint (c_FileID cp) ''receive'' n)
       else case e1 of
         Some e \<Rightarrow> (Some (Wrap ''restore inbound checkpoint: create temp dir'' e), n1)
       | None \<Rightarrow> (case e2 of
           Some e \<Rightarrow> (Some (Wrap ''restore inbound checkpoint: open temp file'' e), n2)
         | None \<Rightarrow> (case e3 of
             Some e \<Rightarrow> (Some (Wrap ''restore inbound checkpoint: truncate temp file'' e), n3)
           | None \<Rightarrow> (None, setInboundTransfer (restored_inbound n3 meta cp tp fp) (restore_folder fe meta fp n3)))))"
      unfolding restoreInboundTransfer_def Inr sum.case Let_def fp_def [symmetric] tp_def [symmetric] 1 prod.case 2 3
      by (simp only: split: option.split)
    then show ?thesis
      using restored [OF same(3)] by (simp add: keep same ipart.part_simps split: option.split)
  qed (simp add: restoreInboundTransfer_def keep ipart.part_simps)
qed

lemma tables_cancel: "tables_ok n \<Longrightarrow> tables_ok (snd (CancelTransfer fe f n))"
proof -
  assume ok: "tables_ok n"
  have keep: "ipart m = ipart n \<Longrightarrow> tables_ok m" for m by (rule tables_same [OF _ ok])
  have inbound: "tables_ok (cancel_inbound fe f' t n)" for f' t
    unfolding cancel_inbound_def Let_def
    by (rule tables_same [OF _ tables_drop [OF ok, of f']]) (simp add: ipart.part_simps split: option.split)
  show ?thesis
    unfolding CancelTransfer_def Let_def
    by (simp add: keep ipart.part_cancel_outbound ipart.part_simps inbound split: option.split sum.split)
qed

lemma tables_clean: "tables_ok n \<Longrightarrow> tables_ok (clean_completed fe b meta n)"
proof -
  assume ok: "tables_ok n"
  have missing: "ipart (report_unless_missing what e rn) = ipart (snd rn)" for what e rn
    by (cases rn) (simp add: report_unless_missing_def ipart.part_simps split: option.split)
  have purge: "tables_ok (purgeInMemoryTransfer f m)" if "tables_ok m" for f m
  proof -
    let ?d = "m\<lparr>inboundFileTransfers := AList.delete (TrimSpace f) (inboundFileTransfers m)\<rparr>"
    have "tables_ok ?d" by (rule tables_delete [OF that])
    moreover have "ipart (purgeInMemoryTransfer f m) = (if TrimSpace f = [] then ipart m else ipart ?d)"
      by (simp add: purgeInMemoryTransfer_def Let_def ipart.part_simps) (simp add: ipart_def)
    ultimately show ?thesis using that tables_same by (metis (full_types))
  qed
  show ?thesis
    unfolding clean_completed_def Let_def
    by (rule purge, rule tables_same [OF _ ok]) (simp add: ipart.part_simps missing ipart_cleaned)
qed

lemma tables_step: "transfer_step n n' \<Longrightarrow> tables_ok n \<Longrightarrow> tables_ok n'"
proof (induction rule: transfer_step.induct)
  case (disk n d)
  have "ipart (n\<lparr>nd_disk := d\<rparr>) = ipart n" by (simp add: ipart_def)
  from tables_same [OF this] disk show ?case by simp
next
  case (drain n peer)
  then show ?case by (simp add: startOutboundFileTransferDrain_def tables_cong [OF ipart.part_startNext])
qed (simp_all add: tables_cong [OF ipart_on_mgr] tables_cong [OF ipart.part_run_step] tables_cong [OF ipart.part_sendFile]
    tables_cancel tables_cong [OF ipart.part_Retry] tables_handleFileRequest tables_approval
    tables_cong [OF ipart.part_handleFileResponse] tables_handleFileData tables_handleFileComplete
    tables_cong [OF ipart_folder_request] tables_cong [OF ipart.part_folder_response] tables_cong [OF ipart.part_SendFolder]
    tables_cong [OF ipart.part_folder_wait] tables_cong [OF ipart.part_restoreOutbound] tables_restoreInbound tables_clean)

text \<open>C36: Every operation keeps the table of inbound transfers well typed, so in every reachable state a transfer is
  stored under its own identifier, its number of chunks is what its size and chunk size give, only chunks it has
  are marked as received, and the chunk it asks for when resumed is the least one that is missing, or the number of
  chunks when none is.\<close>

theorem inbound_transfers_typed:
  assumes "transfer_step\<^sup>*\<^sup>* n0 n" "tables_ok n0" "getInboundTransfer f n = Some t"
  shows "it_FileID t = f \<and> it_TotalChunks t = chunkCount (it_Filesize t) (it_ChunkSize t) \<and>
    set (it_ReceivedChunks t) \<subseteq> {0..<it_TotalChunks t} \<and>
    it_NextChunk t = Min ({0..it_TotalChunks t} - set (it_ReceivedChunks t))"
proof -
  have "tables_ok n" using assms(1,2) by (induction rule: rtranclp_induct) (auto intro: tables_step)
  then have t: "it_FileID t = f" "inbound_ok t" using assms(3) by (auto simp: tables_ok_def)
  note ok = t(2) [unfolded inbound_ok_def]
  have total: "0 \<le> it_TotalChunks t" using ok chunkCount_nonneg by simp
  have "it_NextChunk t \<le> it_TotalChunks t"
  proof (rule ccontr)
    assume "\<not> it_NextChunk t \<le> it_TotalChunks t"
    then have "it_TotalChunks t \<in> {0..<it_NextChunk t}" using total by simp
    then have "it_TotalChunks t \<in> set (it_ReceivedChunks t)" using ok by blast
    then have "it_TotalChunks t \<in> {0..<it_TotalChunks t}" using ok by blast
    then show False by simp
  qed
  then have "Min ({0..it_TotalChunks t} - set (it_ReceivedChunks t)) = it_NextChunk t"
    using ok by (intro Min_eqI) (auto simp: not_le [symmetric])
  from this [symmetric] t(1) ok show ?thesis by (elim conjE) (intro conjI, assumption+)
qed

theorem inbound_transfers_typed_witness:
  "\<exists>t. getInboundTransfer ''f'' (handleFileData sample_fe 0 (sample_data 1 ''c'') sample_receiver) = Some t \<and>
    it_NextChunk t = Min ({0..it_TotalChunks t} - set (it_ReceivedChunks t))"
proof -
  have id: "fd_FileID (sample_data 1 ''c'') = ''f''" "fd_ChunkIndex (sample_data 1 ''c'') = 1"
    by (simp_all add: sample_data_def del: EncodeToString.simps)
  have "open_chunk sample_fe 0 (sample_data 1 ''c'') sample_inbound sample_receiver = Inr ''c''"
    by (rule sample_open) (simp_all add: sample_inbound_def sample_receiver_key del: replicate.simps)
  moreover have "fits sample_inbound 1 ''c''" by (simp add: fits_def sample_inbound_def)
  ultimately obtain t where t: "getInboundTransfer ''f'' (handleFileData sample_fe 0 (sample_data 1 ''c'') sample_receiver) = Some t"
    using receiving_step [of "sample_data 1 ''c''" sample_inbound "replicate 3 CHR 0x00" sample_receiver sample_fe 0 "''c''"]
      sample_receiving sample_usable by (auto simp: id receiving_def)
  have "inbound_ok sample_inbound" "tables_ok sample_receiver"
    using sample_receiving
    by (auto simp: receiving_def inbound_wf_def inbound_ok_def tables_ok_def sample_receiver_def sample_node_def
        getInboundTransfer_def split: if_splits)
  moreover have "transfer_step\<^sup>*\<^sup>* sample_receiver (handleFileData sample_fe 0 (sample_data 1 ''c'') sample_receiver)"
    by (rule r_into_rtranclp, rule transfer_step.file_data)
  ultimately show ?thesis using inbound_transfers_typed [OF _ _ t] t by blast
qed

end
