(* ===== verification/FileRoundtrip.thy ===== *)
theory FileRoundtrip
  imports TransferTables
begin

text \<open>
  What a sending goroutine puts on the wire (\<open>runOutboundFileTransfer\<close> of src/network/file_transfer.go) is what the
  receiving handler (\<open>handleFileData\<close>) puts in place: the two ends of one session composed.
\<close>

section \<open>What a goroutine sends\<close>

definition sent_packets :: "Node \<Rightarrow> (nat \<times> Packet) list" where
  "sent_packets n = mg_sent (nd_mgr n)"

lemma sent_frames:
  "sent_packets (report e n) = sent_packets n" "sent_packets (set_status f st n) = sent_packets n"
  "sent_packets (emitFileProgress pr n) = sent_packets n" "sent_packets (setOutboundTransfer t n) = sent_packets n"
  "sent_packets (put_queue p q n) = sent_packets n" "sent_packets (finishOutboundTransfer p f n) = sent_packets n"
  "sent_packets (drop_run f n) = sent_packets n" "sent_packets (unregisterOutboundFileEventChannel f n) = sent_packets n"
  "sent_packets (set_phase f ph n) = sent_packets n" "sent_packets (enqueueOutboundTransfer p f b n) = sent_packets n"
  by (simp_all add: sent_packets_def report_def on_mgr_def reportError_def set_status_def statement_def run_mgr_def
      on_store_def split_beta setOutboundTransfer_def put_queue_def finishOutboundTransfer_def drop_run_def
      unregisterOutboundFileEventChannel_def set_phase_def enqueueOutboundTransfer_def)

lemma sent_statement: "sent_packets (snd (statement q n)) = sent_packets n"
  by (simp add: sent_packets_def statement_def run_mgr_def on_store_def split_beta)

lemma sent_removeCheckpoint: "sent_packets (removeTransferCheckpoint f d n) = sent_packets n"
  using sent_statement [of "DeleteTransferCheckpoint f d" n]
  by (auto simp: removeTransferCheckpoint_def sent_frames split: prod.split option.split)

lemma sent_startNext: "sent_packets (startNextQueuedTransfer p n) = sent_packets n"
proof -
  have "sent_packets (start_next p i q n) = sent_packets n" for i q
  proof (induction q arbitrary: n)
    case (Cons f q)
    have "sent_packets (beginOutboundFileTransfer t i m) = sent_packets m" "sent_packets (activate p f m) = sent_packets m" for t m
      by (simp_all add: begin_frame sent_packets_def setOutboundTransfer_def activate_def)
    with Cons.IH show ?case
      by (simp add: Let_def activate_def [symmetric] sent_frames split: option.split)
  qed (simp add: sent_frames)
  then show ?thesis by (simp add: startNextQueuedTransfer_def split: option.split)
qed

lemma sent_run_end: "sent_packets (run_end f err n) = sent_packets n"
  by (simp add: run_end_def Let_def sent_frames sent_removeCheckpoint sent_startNext split: option.split)

lemma sent_send_to:
  "send_to fe i p n = (r, n1) \<Longrightarrow> sent_packets n1 = (if r = None then sent_packets n @ [(i, p)] else sent_packets n)"
  by (auto simp: send_to_def run_mgr_def send_def sent_packets_def set_conn_def split_beta Let_def)

text \<open>A chunk on the wire is the sealed content of the file at its place.\<close>

lemma next_chunk_sends:
  assumes "get_run f n = Some r" "getOutboundTransfer f n = Some t" "os_ReadFile fe (ot_SourcePath t) (nd_disk n) = Inr F"
    and "0 \<le> k" "k < ot_TotalChunks t" "0 < ot_ChunkSize t" "is_int64 (k * ot_ChunkSize t)"
    and "sent_packets (next_chunk fe f k sent n) = sent_packets n @ [(j, PFileData data)]"
  shows "\<exists>ct iv. Encrypt (en_P (fe_env fe)) (en_content_iv (fe_env fe)) (sessionKey (mg_heap (nd_mgr n) (rn_conn r)))
      (chunk_at (ot_ChunkSize t) F k) = Inr (ct, iv) \<and>
    data = \<lparr>fd_FileID = f, fd_ChunkIndex = k, fd_TotalChunks = ot_TotalChunks t,
      fd_ChunkSize = int (length (chunk_at (ot_ChunkSize t) F k)), fd_EncryptedData = EncodeToString ct,
      fd_IV = EncodeToString iv, fd_Timestamp = fe_ms fe\<rparr>"
proof -
  have chunk: "readFileChunk F (wrap_int64 (k * ot_ChunkSize t)) (ot_ChunkSize t) =
      (if chunk_at (ot_ChunkSize t) F k = [] then Inl EOF else Inr (chunk_at (ot_ChunkSize t) F k))"
    using assms(4,6,7) by (simp add: readFileChunk_def wrap_int64_id chunk_at_def Let_def not_less)
  have attempt: "sent_packets (send_attempt fe f k 0 b sent n) = sent_packets n @ [(j, PFileData data)] \<Longrightarrow>
    \<exists>ct iv. Encrypt (en_P (fe_env fe)) (en_content_iv (fe_env fe)) (sessionKey (mg_heap (nd_mgr n) (rn_conn r))) b = Inr (ct, iv) \<and>
    data = \<lparr>fd_FileID = f, fd_ChunkIndex = k, fd_TotalChunks = ot_TotalChunks t, fd_ChunkSize = int (length b),
      fd_EncryptedData = EncodeToString ct, fd_IV = EncodeToString iv, fd_Timestamp = fe_ms fe\<rparr>" for b
    using assms(1,2) unfolding send_attempt_def
    by (auto simp: sent_run_end sent_frames split: if_splits sum.splits prod.splits option.splits dest!: sent_send_to)
  have "sent_packets (send_attempt fe f k 0 (chunk_at (ot_ChunkSize t) F k) sent n) = sent_packets n @ [(j, PFileData data)]"
    using assms(8) assms(1-3,5) chunk unfolding next_chunk_def
    by (auto simp: sent_run_end split: if_splits)
  from attempt [OF this] show ?thesis by blast
qed

text \<open>C34: A chunk a sender's goroutine puts on the wire is, handled by the other end of the session, chunk \<open>k\<close> of the
  sender's file, whatever has arrived before: what is sealed, numbered and measured on one side is opened, placed
  and counted on the other.\<close>

theorem sent_chunk_received:
  assumes "get_run f n = Some r" "getOutboundTransfer f n = Some t" "os_ReadFile fe (ot_SourcePath t) (nd_disk n) = Inr F"
    and "0 \<le> k" "k < ot_TotalChunks t"
    and "sent_packets (next_chunk fe f k sent n) = sent_packets n @ [(j, PFileData data)]"
    and "prims_ok (en_P (fe_env fe))" "en_P (fe_env fe') = en_P (fe_env fe)" "length (en_content_iv (fe_env fe)) = 12"
    and "sessionKey (mg_heap (nd_mgr m) i) = sessionKey (mg_heap (nd_mgr n) (rn_conn r))"
    and "receiving f t' content m" "usable fe' (it_TempPath t')"
    and "it_Filesize t' = int (length F)" "it_ChunkSize t' = ot_ChunkSize t" "it_TotalChunks t' = ot_TotalChunks t"
  shows "assembled f (handleFileData fe' i data m) = (assembled f m)(k \<mapsto> chunk_at (ot_ChunkSize t) F k)"
proof -
  have wf: "inbound_wf t'" using assms(11) by (simp add: receiving_def)
  have cs: "0 < ot_ChunkSize t" "is_int64 (k * ot_ChunkSize t)"
    using wf chunk_offset(3) [OF wf assms(4)] assms(5,14,15) by (auto simp: inbound_wf_def)
  obtain ct iv where ct: "Encrypt (en_P (fe_env fe)) (en_content_iv (fe_env fe))
      (sessionKey (mg_heap (nd_mgr n) (rn_conn r))) (chunk_at (ot_ChunkSize t) F k) = Inr (ct, iv)"
    and data: "data = \<lparr>fd_FileID = f, fd_ChunkIndex = k, fd_TotalChunks = ot_TotalChunks t,
      fd_ChunkSize = int (length (chunk_at (ot_ChunkSize t) F k)), fd_EncryptedData = EncodeToString ct,
      fd_IV = EncodeToString iv, fd_Timestamp = fe_ms fe\<rparr>"
    using next_chunk_sends [OF assms(1-5) cs assms(6)] by blast
  have opened: "open_chunk fe' i data t' m = Inr (chunk_at (ot_ChunkSize t) F k)"
    using assms(4,5,8,10,15) Decrypt_Encrypt [OF assms(7,9) ct]
    by (simp add: open_chunk_def data DecodeString_EncodeToString del: EncodeToString.simps)
  have id: "fd_FileID data = f" "fd_ChunkIndex data = k" by (simp_all add: data)
  have "fits t' k (chunk_at (ot_ChunkSize t) F k)"
    using fits_chunk_at [OF wf _ assms(4), of F] assms(5,13-15) by simp
  with chunk_stored [of data t' content m fe' i "chunk_at (ot_ChunkSize t) F k"] opened assms(11,12)
  show ?thesis by (simp add: id)
qed

section \<open>A concrete chunk\<close>

definition sample_chunk :: FileData where
  "sample_chunk = \<lparr>fd_FileID = ''f'', fd_ChunkIndex = 0, fd_TotalChunks = 2, fd_ChunkSize = 2,
     fd_EncryptedData = EncodeToString (''ab'' @ replicate 16 CHR ''k''),
     fd_IV = EncodeToString (replicate 12 CHR ''c''), fd_Timestamp = 9\<rparr>"

definition chunk_fe :: FileEnv where
  "chunk_fe = sample_fe\<lparr>fe_env := short_env 9 (CHR ''e'') [PFileData sample_chunk]\<rparr>"

definition sample_outbound :: outboundFileTransfer where
  "sample_outbound = \<lparr>ot_FileID = ''f'', ot_MessageID = ''m'', ot_PeerDeviceID = ''b'', ot_FolderID = [],
     ot_RelativePath = [], ot_SourcePath = ''/f'', ot_Filename = ''f'', ot_Filesize = 3, ot_Filetype = [],
     ot_Checksum = ''c'', ot_ChunkSize = 2, ot_TotalChunks = 2, ot_NextChunk = 0, ot_BytesSent = 0,
     ot_Running = True, ot_Done = False, ot_Rejected = False, ot_Canceled = False, ot_run_canceled = False,
     ot_checkpointChunk = 0, ot_checkpointBytes = 0\<rparr>"

definition sample_source :: Node where
  "sample_source = sample_sender\<lparr>outboundFileTransfers := [(''f'', sample_outbound)],
     nd_runs := [\<lparr>rn_FileID = ''f'', rn_conn = 0, rn_phase = AwaitAccept\<rparr>]\<rparr>"

lemma sample_source_simps:
  "get_run ''f'' sample_source = Some \<lparr>rn_FileID = ''f'', rn_conn = 0, rn_phase = AwaitAccept\<rparr>"
  "getOutboundTransfer ''f'' sample_source = Some sample_outbound"
  "os_ReadFile chunk_fe ''/f'' (nd_disk sample_source) = Inr ''abc''"
  "nd_mgr sample_source = alice"
  by (simp_all add: sample_source_def sample_sender_def sample_node_def get_run_def getOutboundTransfer_def os_ReadFile_def
      chunk_fe_def sample_fe_def)

lemma sample_chunk_sent:
  "sent_packets (next_chunk chunk_fe ''f'' 0 0 sample_source) = sent_packets sample_source @ [(0, PFileData sample_chunk)]"
proof -
  let ?r = "\<lparr>rn_FileID = ''f'', rn_conn = 0, rn_phase = AwaitAccept\<rparr>"
  have key: "sessionKey (mg_heap alice 0) = replicate 32 CHR ''k''" by simp
  have out: "ot_TotalChunks sample_outbound = 2" "ot_ChunkSize sample_outbound = 2" "ot_SourcePath sample_outbound = ''/f''"
    "ot_run_canceled sample_outbound = False"
    by (simp_all add: sample_outbound_def)
  have running: "\<not> run_canceled sample_outbound sample_source"
    by (simp add: run_canceled_def out sample_source_simps sample_manager_def)
  have seal: "Encrypt (en_P (fe_env chunk_fe)) (en_content_iv (fe_env chunk_fe)) (sessionKey (mg_heap alice 0)) ''ab'' =
      Inr (''ab'' @ replicate 16 CHR ''k'', replicate 12 CHR ''c'')"
    unfolding key by (simp add: chunk_fe_def sample_env_def Encrypt_def sample_prims_def)
  obtain r n1 where sent: "send_to chunk_fe 0 (PFileData sample_chunk) sample_source = (r, n1)" by fastforce
  have "fst (send (fe_env chunk_fe) 0 (PFileData sample_chunk) alice) = None"
    unfolding chunk_fe_def by simp (rule short_send, simp_all add: sample_manager_def newPeerConnection_def)
  then have "r = None" using sent by (simp add: send_to_def run_mgr_def sample_source_simps split_beta)
  then have "sent_packets n1 = sent_packets sample_source @ [(0, PFileData sample_chunk)]"
    using sent_send_to [OF sent] by simp
  moreover have "next_chunk chunk_fe ''f'' 0 0 sample_source = set_phase ''f'' (AwaitChunk 0 0 ''ab'' 0) n1"
  proof -
    have read: "readFileChunk ''abc'' (wrap_int64 (0 * 2)) 2 = Inr ''ab''" by (simp add: readFileChunk_def wrap_int64_def)
    have retries: "MaxChunkRetries (nd_options sample_source) = 3"
      by (simp add: sample_source_def sample_sender_def sample_node_def)
    have packet: "\<lparr>fd_FileID = ''f'', fd_ChunkIndex = 0, fd_TotalChunks = 2, fd_ChunkSize = int (length ''ab''),
        fd_EncryptedData = EncodeToString (''ab'' @ replicate 16 CHR ''k''),
        fd_IV = EncodeToString (replicate 12 CHR ''c''), fd_Timestamp = fe_ms chunk_fe\<rparr> = sample_chunk"
      by (simp add: sample_chunk_def fe_ms_def chunk_fe_def del: EncodeToString.simps replicate.simps)
    have "send_attempt chunk_fe ''f'' 0 0 ''ab'' 0 sample_source = set_phase ''f'' (AwaitChunk 0 0 ''ab'' 0) n1"
      unfolding send_attempt_def sample_source_simps option.case prod.case retries Run.simps seal sum.case out packet sent
        \<open>r = None\<close> by simp
    then show ?thesis
      unfolding next_chunk_def sample_source_simps option.case prod.case out read sum.case using running by simp
  qed
  ultimately show ?thesis by (simp add: sent_frames)
qed

theorem sent_chunk_received_witness:
  "assembled ''f'' (handleFileData sample_fe 0 sample_chunk sample_receiver) = (assembled ''f'' sample_receiver)(0 \<mapsto> ''ab'')"
proof -
  have "assembled ''f'' (handleFileData sample_fe 0 sample_chunk sample_receiver) =
      (assembled ''f'' sample_receiver)(0 \<mapsto> chunk_at (ot_ChunkSize sample_outbound) ''abc'' 0)"
  proof (rule sent_chunk_received [OF sample_source_simps(1,2) _ _ _ sample_chunk_sent])
    show "os_ReadFile chunk_fe (ot_SourcePath sample_outbound) (nd_disk sample_source) = Inr ''abc''"
      using sample_source_simps(3) by (simp add: sample_outbound_def)
    show "sessionKey (mg_heap (nd_mgr sample_receiver) 0) =
        sessionKey (mg_heap (nd_mgr sample_source) (rn_conn \<lparr>rn_FileID = ''f'', rn_conn = 0, rn_phase = AwaitAccept\<rparr>))"
      by (simp add: sample_receiver_key sample_source_simps del: replicate.simps)
    show "receiving ''f'' sample_inbound (replicate 3 CHR 0x00) sample_receiver" by (rule sample_receiving)
    show "usable sample_fe (it_TempPath sample_inbound)" by (rule sample_usable)
  qed (simp_all add: sample_outbound_def sample_inbound_def chunk_fe_def sample_fe_def sample_env_def sample_prims_ok)
  then show ?thesis by (simp add: chunk_at_def sample_outbound_def)
qed

end
