(* ===== verification/Config.thy ===== *)
theory Config
  imports FileTypes Messaging "HOL-Library.Countable"
begin

text \<open>
  The settings of a device and their file (\<open>src/config/config.go\<close>): where they are stored, how they are
  read and written, and how missing or invalid values are replaced. The process environment, the host name, the
  identifier \<open>uuid.NewString\<close> draws and \<open>encoding/json\<close> are parameters; the disk is the one of theory \<open>FileTypes\<close>.
\<close>

record DeviceConfig =
  cf_DeviceID :: string
  cf_DeviceName :: string
  cf_PortMode :: string
  cf_ListeningPort :: int
  cf_DownloadDirectory :: string
  cf_MaxReceiveFileSize :: int
  cf_NotificationsEnabled :: bool
  cf_MessageRetentionDays :: int
  cf_CleanupDownloadedFiles :: bool
  cf_Ed25519PrivateKeyPath :: string
  cf_Ed25519PublicKeyPath :: string
  cf_KeyFingerprint :: string

text \<open>\<open>cj_Fields\<close> are the keys of the object a text holds, \<open>None\<close> when it is not an object.\<close>

record ConfigJson =
  cj_MarshalIndent :: "DeviceConfig \<Rightarrow> string res"
  cj_Unmarshal :: "string \<Rightarrow> DeviceConfig res"
  cj_Fields :: "string \<Rightarrow> string list res"

record ConfigEnv =
  ce_goos :: string
  ce_Getenv :: "string \<Rightarrow> string"
  ce_UserHomeDir :: "string res"
  ce_Hostname :: "string res"
  ce_uuid :: string
  ce_json :: ConfigJson
  ce_fe :: FileEnv

section \<open>Places\<close>

definition ResolveDataDir :: "ConfigEnv \<Rightarrow> string res" where
  "ResolveDataDir env =
     (if ce_Getenv env ''P2P_CHAT_DATA_DIR'' \<noteq> [] then Inr (ce_Getenv env ''P2P_CHAT_DATA_DIR'')
      else case ce_UserHomeDir env of
             Inl e \<Rightarrow> Inl (Wrap ''resolve user home'' e)
           | Inr home \<Rightarrow>
               Inr (if ce_goos env = ''windows'' then
                      let base = ce_Getenv env ''APPDATA''
                      in filepath_Join [if base = [] then filepath_Join [home, ''AppData'', ''Roaming''] else base, ''p2p-chat'']
                    else if ce_goos env = ''darwin'' then filepath_Join [home, ''Library'', ''Application Support'', ''p2p-chat'']
                    else
                      let base = ce_Getenv env ''XDG_CONFIG_HOME''
                      in filepath_Join [if base = [] then filepath_Join [home, ''.config''] else base, ''p2p-chat'']))"

definition ConfigPath :: "string \<Rightarrow> string" where
  "ConfigPath dataDir = filepath_Join [dataDir, ''config.json'']"

fun make_dirs :: "FileEnv \<Rightarrow> string list \<Rightarrow> Disk \<Rightarrow> go_error option \<times> Disk" where
  "make_dirs fe [] d = (None, d)"
| "make_dirs fe (dir # dirs) d =
     (case os_MkdirAll fe dir d of
        (Some e, d1) \<Rightarrow> (Some (Wrap ''create directory'' e), d1)
      | (None, d1) \<Rightarrow> make_dirs fe dirs d1)"

definition EnsureDataDirectories :: "FileEnv \<Rightarrow> string \<Rightarrow> Disk \<Rightarrow> go_error option \<times> Disk" where
  "EnsureDataDirectories fe dataDir =
     make_dirs fe [dataDir, filepath_Join [dataDir, ''keys''], filepath_Join [dataDir, ''files'']]"

section \<open>The file\<close>

definition Load :: "ConfigEnv \<Rightarrow> string \<Rightarrow> Disk \<Rightarrow> DeviceConfig res" where
  "Load env path d =
     (case os_ReadFile (ce_fe env) path d of
        Inl e \<Rightarrow> Inl (Wrap ''read config'' e)
      | Inr raw \<Rightarrow>
          (case cj_Unmarshal (ce_json env) raw of
             Inl e \<Rightarrow> Inl (Wrap ''parse config'' e)
           | Inr cfg \<Rightarrow> Inr cfg))"

definition os_WriteFile :: "FileEnv \<Rightarrow> string \<Rightarrow> string \<Rightarrow> Disk \<Rightarrow> go_error option \<times> Disk" where
  "os_WriteFile fe path content =
     os_call fe ''write'' path
       (\<lambda>d. if is_dir d path then (Some (Err ''is a directory''), d) else (None, put_file path content d))"

definition Save :: "ConfigEnv \<Rightarrow> string \<Rightarrow> DeviceConfig \<Rightarrow> Disk \<Rightarrow> go_error option \<times> Disk" where
  "Save env path cfg d =
     (case cj_MarshalIndent (ce_json env) cfg of
        Inl e \<Rightarrow> (Some (Wrap ''marshal config'' e), d)
      | Inr raw \<Rightarrow>
          (case os_WriteFile (ce_fe env) path (raw @ [CHR 0x0A]) d of
             (Some e, d1) \<Rightarrow> (Some (Wrap ''write config'' e), d1)
           | (None, d1) \<Rightarrow> (None, d1)))"

definition hasLegacyX25519PathField :: "ConfigEnv \<Rightarrow> string \<Rightarrow> Disk \<Rightarrow> bool res" where
  "hasLegacyX25519PathField env path d =
     (case os_ReadFile (ce_fe env) path d of
        Inl e \<Rightarrow> Inl (Wrap ''read config for migration'' e)
      | Inr raw \<Rightarrow>
          (case cj_Fields (ce_json env) raw of
             Inl e \<Rightarrow> Inl (Wrap ''parse config for migration'' e)
           | Inr keys \<Rightarrow> Inr (''x25519_private_key_path'' \<in> set keys)))"

definition configFieldPresence :: "ConfigEnv \<Rightarrow> string \<Rightarrow> Disk \<Rightarrow> string list res" where
  "configFieldPresence env path d =
     (case os_ReadFile (ce_fe env) path d of
        Inl e \<Rightarrow> Inl (Wrap ''read config for field presence'' e)
      | Inr raw \<Rightarrow>
          (case cj_Fields (ce_json env) raw of
             Inl e \<Rightarrow> Inl (Wrap ''parse config for field presence'' e)
           | Inr keys \<Rightarrow> Inr keys))"

section \<open>Values\<close>

definition normalizeMessageRetentionDays :: "int \<Rightarrow> int" where
  "normalizeMessageRetentionDays days = (if days \<in> {0, 30, 90, 365} then days else 0)"

definition normalizePortMode :: "string \<Rightarrow> string" where
  "normalizePortMode mode =
     (if mode = ''automatic'' then ''automatic'' else if mode = ''fixed'' then ''fixed'' else [])"

definition default_name :: "ConfigEnv \<Rightarrow> string" where
  "default_name env =
     (case ce_Hostname env of Inr host \<Rightarrow> if host \<noteq> [] then host else ''P2P Chat Device'' | Inl _ \<Rightarrow> ''P2P Chat Device'')"

definition private_key_path :: "string \<Rightarrow> string" where
  "private_key_path dataDir = filepath_Join [filepath_Join [dataDir, ''keys''], ''ed25519_private.pem'']"

definition public_key_path :: "string \<Rightarrow> string" where
  "public_key_path dataDir = filepath_Join [filepath_Join [dataDir, ''keys''], ''ed25519_public.pem'']"

definition defaultConfig :: "ConfigEnv \<Rightarrow> string \<Rightarrow> DeviceConfig" where
  "defaultConfig env dataDir =
     \<lparr>cf_DeviceID = ce_uuid env, cf_DeviceName = default_name env, cf_PortMode = ''automatic'', cf_ListeningPort = 0,
      cf_DownloadDirectory = filepath_Join [dataDir, ''files''], cf_MaxReceiveFileSize = 0, cf_NotificationsEnabled = True,
      cf_MessageRetentionDays = 0, cf_CleanupDownloadedFiles = False, cf_Ed25519PrivateKeyPath = private_key_path dataDir,
      cf_Ed25519PublicKeyPath = public_key_path dataDir, cf_KeyFingerprint = []\<rparr>"

text \<open>One replacement: under its condition the field is set and the configuration counts as updated.\<close>

definition set_if ::
    "(DeviceConfig \<Rightarrow> bool) \<Rightarrow> (DeviceConfig \<Rightarrow> DeviceConfig) \<Rightarrow> bool \<times> DeviceConfig \<Rightarrow> bool \<times> DeviceConfig" where
  "set_if missing repair uc = (if missing (snd uc) then (True, repair (snd uc)) else uc)"

definition port_mode :: "DeviceConfig \<Rightarrow> string" where
  "port_mode c =
     (if normalizePortMode (cf_PortMode c) \<noteq> [] then normalizePortMode (cf_PortMode c)
      else if cf_ListeningPort c > 0 then ''fixed'' else ''automatic'')"

text \<open>\<open>None\<close> is a nil map of present keys.\<close>

definition normalizeDefaults ::
    "ConfigEnv \<Rightarrow> string \<Rightarrow> string list option \<Rightarrow> DeviceConfig \<Rightarrow> bool \<times> DeviceConfig" where
  "normalizeDefaults env dataDir present c0 =
     fold (\<lambda>(missing, repair). set_if missing repair)
       [(\<lambda>c. cf_DeviceID c = [], \<lambda>c. c\<lparr>cf_DeviceID := ce_uuid env\<rparr>),
        (\<lambda>c. cf_DeviceName c = [], \<lambda>c. c\<lparr>cf_DeviceName := default_name env\<rparr>),
        (\<lambda>c. cf_PortMode c \<noteq> port_mode c, \<lambda>c. c\<lparr>cf_PortMode := port_mode c\<rparr>),
        (\<lambda>c. cf_PortMode c = ''fixed'' \<and> cf_ListeningPort c = 0, \<lambda>c. c\<lparr>cf_ListeningPort := 9999\<rparr>),
        (\<lambda>c. cf_PortMode c = ''automatic'' \<and> cf_ListeningPort c < 0, \<lambda>c. c\<lparr>cf_ListeningPort := 0\<rparr>),
        (\<lambda>c. cf_Ed25519PrivateKeyPath c = [], \<lambda>c. c\<lparr>cf_Ed25519PrivateKeyPath := private_key_path dataDir\<rparr>),
        (\<lambda>c. cf_Ed25519PublicKeyPath c = [], \<lambda>c. c\<lparr>cf_Ed25519PublicKeyPath := public_key_path dataDir\<rparr>),
        (\<lambda>c. cf_DownloadDirectory c = [], \<lambda>c. c\<lparr>cf_DownloadDirectory := filepath_Join [dataDir, ''files'']\<rparr>),
        (\<lambda>c. cf_MaxReceiveFileSize c < 0, \<lambda>c. c\<lparr>cf_MaxReceiveFileSize := 0\<rparr>),
        (\<lambda>_. case present of None \<Rightarrow> True | Some keys \<Rightarrow> ''notifications_enabled'' \<notin> set keys,
           \<lambda>c. c\<lparr>cf_NotificationsEnabled := True\<rparr>),
        (\<lambda>c. cf_MessageRetentionDays c \<noteq> normalizeMessageRetentionDays (cf_MessageRetentionDays c),
           \<lambda>c. c\<lparr>cf_MessageRetentionDays := normalizeMessageRetentionDays (cf_MessageRetentionDays c)\<rparr>)]
       (False, c0)"

section \<open>Start-up\<close>

definition create_config :: "ConfigEnv \<Rightarrow> string \<Rightarrow> Disk \<Rightarrow> (DeviceConfig \<times> string) res \<times> Disk" where
  "create_config env dataDir d =
     (let cfg = defaultConfig env dataDir in
      case Save env (ConfigPath dataDir) cfg d of
        (Some e, d1) \<Rightarrow> (Inl e, d1)
      | (None, d1) \<Rightarrow> (Inr (cfg, ConfigPath dataDir), d1))"

definition complete_config :: "ConfigEnv \<Rightarrow> string \<Rightarrow> DeviceConfig \<Rightarrow> Disk \<Rightarrow> (DeviceConfig \<times> string) res \<times> Disk" where
  "complete_config env dataDir cfg d =
     (let path = ConfigPath dataDir in
      case hasLegacyX25519PathField env path d of
        Inl e \<Rightarrow> (Inl e, d)
      | Inr legacy \<Rightarrow>
          (case configFieldPresence env path d of
             Inl e \<Rightarrow> (Inl e, d)
           | Inr keys \<Rightarrow>
               (case normalizeDefaults env dataDir (Some keys) cfg of
                  (updated, cfg1) \<Rightarrow>
                    if updated \<or> legacy then
                      (case Save env path cfg1 d of
                         (Some e, d1) \<Rightarrow> (Inl e, d1)
                       | (None, d1) \<Rightarrow> (Inr (cfg1, path), d1))
                    else (Inr (cfg1, path), d))))"

definition LoadOrCreate :: "ConfigEnv \<Rightarrow> Disk \<Rightarrow> (DeviceConfig \<times> string) res \<times> Disk" where
  "LoadOrCreate env d =
     (case ResolveDataDir env of
        Inl e \<Rightarrow> (Inl e, d)
      | Inr dataDir \<Rightarrow>
          (case EnsureDataDirectories (ce_fe env) dataDir d of
             (Some e, d1) \<Rightarrow> (Inl e, d1)
           | (None, d1) \<Rightarrow>
               (case Load env (ConfigPath dataDir) d1 of
                  Inl e \<Rightarrow> if \<not> errors_Is e ErrNotExist then (Inl e, d1) else create_config env dataDir d1
                | Inr cfg \<Rightarrow> complete_config env dataDir cfg d1)))"

section \<open>Lemmas\<close>

text \<open>The configuration a completed one has to be, field by field.\<close>

definition completed :: "ConfigEnv \<Rightarrow> string \<Rightarrow> string list option \<Rightarrow> DeviceConfig \<Rightarrow> DeviceConfig" where
  "completed env dataDir present c =
     \<lparr>cf_DeviceID = (if cf_DeviceID c = [] then ce_uuid env else cf_DeviceID c),
      cf_DeviceName = (if cf_DeviceName c = [] then default_name env else cf_DeviceName c),
      cf_PortMode = port_mode c,
      cf_ListeningPort =
        (if port_mode c = ''fixed'' then (if cf_ListeningPort c = 0 then 9999 else cf_ListeningPort c)
         else max 0 (cf_ListeningPort c)),
      cf_DownloadDirectory = (if cf_DownloadDirectory c = [] then filepath_Join [dataDir, ''files''] else cf_DownloadDirectory c),
      cf_MaxReceiveFileSize = max 0 (cf_MaxReceiveFileSize c),
      cf_NotificationsEnabled =
        (case present of None \<Rightarrow> True | Some keys \<Rightarrow> ''notifications_enabled'' \<notin> set keys \<or> cf_NotificationsEnabled c),
      cf_MessageRetentionDays = normalizeMessageRetentionDays (cf_MessageRetentionDays c),
      cf_CleanupDownloadedFiles = cf_CleanupDownloadedFiles c,
      cf_Ed25519PrivateKeyPath =
        (if cf_Ed25519PrivateKeyPath c = [] then private_key_path dataDir else cf_Ed25519PrivateKeyPath c),
      cf_Ed25519PublicKeyPath =
        (if cf_Ed25519PublicKeyPath c = [] then public_key_path dataDir else cf_Ed25519PublicKeyPath c),
      cf_KeyFingerprint = cf_KeyFingerprint c\<rparr>"

lemma port_mode_cases: "port_mode c = ''fixed'' \<or> port_mode c = ''automatic''"
  by (simp add: port_mode_def normalizePortMode_def)

lemma set_if_pair: "set_if P f (u, c) = (u \<or> P c, if P c then f c else c)"
  by (simp add: set_if_def)

lemma if_field:
  "(if b then c\<lparr>cf_DeviceID := s\<rparr> else c) = c\<lparr>cf_DeviceID := if b then s else cf_DeviceID c\<rparr>"
  "(if b then c\<lparr>cf_DeviceName := s\<rparr> else c) = c\<lparr>cf_DeviceName := if b then s else cf_DeviceName c\<rparr>"
  "(if b then c\<lparr>cf_PortMode := s\<rparr> else c) = c\<lparr>cf_PortMode := if b then s else cf_PortMode c\<rparr>"
  "(if b then c\<lparr>cf_ListeningPort := k\<rparr> else c) = c\<lparr>cf_ListeningPort := if b then k else cf_ListeningPort c\<rparr>"
  "(if b then c\<lparr>cf_ListeningPort := k\<rparr> else c\<lparr>cf_ListeningPort := l\<rparr>) = c\<lparr>cf_ListeningPort := if b then k else l\<rparr>"
  "(if b then c\<lparr>cf_DownloadDirectory := s\<rparr> else c) = c\<lparr>cf_DownloadDirectory := if b then s else cf_DownloadDirectory c\<rparr>"
  "(if b then c\<lparr>cf_MaxReceiveFileSize := k\<rparr> else c) = c\<lparr>cf_MaxReceiveFileSize := if b then k else cf_MaxReceiveFileSize c\<rparr>"
  "(if b then c\<lparr>cf_NotificationsEnabled := v\<rparr> else c) = c\<lparr>cf_NotificationsEnabled := if b then v else cf_NotificationsEnabled c\<rparr>"
  "(if b then c\<lparr>cf_MessageRetentionDays := k\<rparr> else c) = c\<lparr>cf_MessageRetentionDays := if b then k else cf_MessageRetentionDays c\<rparr>"
  "(if b then c\<lparr>cf_Ed25519PrivateKeyPath := s\<rparr> else c) = c\<lparr>cf_Ed25519PrivateKeyPath := if b then s else cf_Ed25519PrivateKeyPath c\<rparr>"
  "(if b then c\<lparr>cf_Ed25519PublicKeyPath := s\<rparr> else c) = c\<lparr>cf_Ed25519PublicKeyPath := if b then s else cf_Ed25519PublicKeyPath c\<rparr>"
  by (simp_all split: if_split)

lemma if_port_mode: "(if cf_PortMode c \<noteq> port_mode c then port_mode c else cf_PortMode c) = port_mode c"
  by simp

lemma normalizeDefaults_chain:
  "snd (normalizeDefaults env dataDir present c) =
     c\<lparr>cf_DeviceID := if cf_DeviceID c = [] then ce_uuid env else cf_DeviceID c,
       cf_DeviceName := if cf_DeviceName c = [] then default_name env else cf_DeviceName c,
       cf_PortMode := port_mode c,
       cf_ListeningPort := if port_mode c = ''automatic'' \<and>
           (if port_mode c = ''fixed'' \<and> cf_ListeningPort c = 0 then 9999 else cf_ListeningPort c) < 0 then 0
         else if port_mode c = ''fixed'' \<and> cf_ListeningPort c = 0 then 9999 else cf_ListeningPort c,
       cf_Ed25519PrivateKeyPath :=
         if cf_Ed25519PrivateKeyPath c = [] then private_key_path dataDir else cf_Ed25519PrivateKeyPath c,
       cf_Ed25519PublicKeyPath := if cf_Ed25519PublicKeyPath c = [] then public_key_path dataDir else cf_Ed25519PublicKeyPath c,
       cf_DownloadDirectory := if cf_DownloadDirectory c = [] then filepath_Join [dataDir, ''files''] else cf_DownloadDirectory c,
       cf_MaxReceiveFileSize := if cf_MaxReceiveFileSize c < 0 then 0 else cf_MaxReceiveFileSize c,
       cf_NotificationsEnabled := if (case present of None \<Rightarrow> True | Some keys \<Rightarrow> ''notifications_enabled'' \<notin> set keys)
         then True else cf_NotificationsEnabled c,
       cf_MessageRetentionDays :=
         if cf_MessageRetentionDays c \<noteq> normalizeMessageRetentionDays (cf_MessageRetentionDays c)
         then normalizeMessageRetentionDays (cf_MessageRetentionDays c) else cf_MessageRetentionDays c\<rparr>"
proof -
  have mode: "port_mode (c\<lparr>cf_DeviceID := i, cf_DeviceName := n\<rparr>) = port_mode c" for i n
    by (simp add: port_mode_def)
  show ?thesis
    by (simp add: normalizeDefaults_def set_if_pair if_field mode if_port_mode split del: if_split cong del: if_weak_cong)
qed


lemma normalizeDefaults_completed: "snd (normalizeDefaults env dataDir present c) = completed env dataDir present c"
proof (rule DeviceConfig.equality)
  have "port_mode c = ''fixed'' \<or> port_mode c = ''automatic''" by (rule port_mode_cases)
  then show "cf_ListeningPort (snd (normalizeDefaults env dataDir present c)) = cf_ListeningPort (completed env dataDir present c)"
    by (auto simp: normalizeDefaults_chain completed_def)
qed (simp_all add: normalizeDefaults_chain completed_def split: option.split)

text \<open>Something is missing exactly when completing changes the configuration, or the notification setting is absent.\<close>

lemma normalizeDefaults_updated:
  "fst (normalizeDefaults env dataDir present c) \<longleftrightarrow>
     cf_DeviceID c = [] \<or> cf_DeviceName c = [] \<or> cf_PortMode c \<noteq> port_mode c \<or>
     cf_PortMode c = ''fixed'' \<and> cf_ListeningPort c = 0 \<or> cf_PortMode c = ''automatic'' \<and> cf_ListeningPort c < 0 \<or>
     cf_Ed25519PrivateKeyPath c = [] \<or> cf_Ed25519PublicKeyPath c = [] \<or> cf_DownloadDirectory c = [] \<or>
     cf_MaxReceiveFileSize c < 0 \<or> (case present of None \<Rightarrow> True | Some keys \<Rightarrow> ''notifications_enabled'' \<notin> set keys) \<or>
     cf_MessageRetentionDays c \<noteq> normalizeMessageRetentionDays (cf_MessageRetentionDays c)"
proof -
  have mode: "port_mode (c\<lparr>cf_DeviceID := i, cf_DeviceName := n\<rparr>) = port_mode c" for i n
    by (simp add: port_mode_def)
  show ?thesis
    by (simp add: normalizeDefaults_def set_if_pair if_field mode if_port_mode split del: if_split cong del: if_weak_cong)
      (auto split: if_splits)
qed

section \<open>What start-up gives\<close>

definition config_valid :: "DeviceConfig \<Rightarrow> bool" where
  "config_valid c \<longleftrightarrow> cf_DeviceID c \<noteq> [] \<and> cf_DeviceName c \<noteq> [] \<and>
     (cf_PortMode c = ''fixed'' \<and> cf_ListeningPort c \<noteq> 0 \<or> cf_PortMode c = ''automatic'' \<and> 0 \<le> cf_ListeningPort c) \<and>
     cf_DownloadDirectory c \<noteq> [] \<and> 0 \<le> cf_MaxReceiveFileSize c \<and> cf_MessageRetentionDays c \<in> {0, 30, 90, 365} \<and>
     cf_Ed25519PrivateKeyPath c \<noteq> [] \<and> cf_Ed25519PublicKeyPath c \<noteq> []"

lemma clean_parts_nonempty: "list_all (\<lambda>c. c \<noteq> []) (clean_parts path)"
proof -
  have "list_all (\<lambda>c. c \<noteq> []) acc \<Longrightarrow> list_all (\<lambda>c. c \<noteq> []) (foldl (clean_push r) acc cs)" for r acc cs
  proof (induction cs arbitrary: acc)
    case (Cons c cs)
    then have "list_all (\<lambda>c. c \<noteq> []) (clean_push r acc c)" by (auto simp: clean_push_def split: list.split)
    then show ?case using Cons.IH by simp
  qed simp
  then show ?thesis by (simp add: clean_parts_def)
qed

lemma Clean_nonempty [simp]: "Clean path \<noteq> []"
proof -
  have "cs \<noteq> [] \<Longrightarrow> list_all (\<lambda>c. c \<noteq> []) cs \<Longrightarrow> strings_Join cs ''/'' \<noteq> []" for cs
    by (cases "(cs, ''/'')" rule: strings_Join.cases) auto
  then show ?thesis using clean_parts_nonempty [of path] by (simp add: Clean_def path_of_def)
qed

lemma filepath_Join_nonempty: "b \<noteq> [] \<Longrightarrow> filepath_Join [a, b] \<noteq> []"
  by (simp add: filepath_Join_def)

lemma updated_iff:
  "fst (normalizeDefaults env dataDir (Some keys) c) \<longleftrightarrow> \<not> config_valid c \<or> ''notifications_enabled'' \<notin> set keys"
  by (auto simp: normalizeDefaults_updated config_valid_def port_mode_def normalizePortMode_def
      normalizeMessageRetentionDays_def split: if_splits)

lemma default_name_nonempty [simp]: "default_name env \<noteq> []"
  by (simp add: default_name_def split: sum.split)

lemma completed_valid: "ce_uuid env \<noteq> [] \<Longrightarrow> config_valid (completed env dataDir present c)"
  using port_mode_cases [of c]
  by (auto simp: config_valid_def completed_def normalizeMessageRetentionDays_def private_key_path_def public_key_path_def
      filepath_Join_nonempty)

lemma completed_id: "config_valid c \<Longrightarrow> ''notifications_enabled'' \<in> set keys \<Longrightarrow> completed env dataDir (Some keys) c = c"
  by (auto intro!: DeviceConfig.equality simp: config_valid_def completed_def port_mode_def normalizePortMode_def
      normalizeMessageRetentionDays_def)

lemma default_valid: "ce_uuid env \<noteq> [] \<Longrightarrow> config_valid (defaultConfig env dataDir)"
  by (simp add: config_valid_def defaultConfig_def private_key_path_def public_key_path_def filepath_Join_nonempty)

text \<open>What \<open>encoding/json\<close> promises of a written configuration: it reads back, and has the keys of the struct.\<close>

definition config_json_ok :: "ConfigJson \<Rightarrow> bool" where
  "config_json_ok J \<longleftrightarrow>
     (\<forall>c raw. cj_MarshalIndent J c = Inr raw \<longrightarrow> cj_Unmarshal J (raw @ [CHR 0x0A]) = Inr c \<and>
        (\<exists>keys. cj_Fields J (raw @ [CHR 0x0A]) = Inr keys \<and> ''notifications_enabled'' \<in> set keys \<and>
           ''x25519_private_key_path'' \<notin> set keys))"

lemma make_dirs_done:
  "make_dirs fe dirs d = (None, d1) \<Longrightarrow>
     dk_files d1 = dk_files d \<and> set (dk_dirs d) \<subseteq> set (dk_dirs d1) \<and> (\<forall>dir \<in> set dirs. is_dir d1 dir \<and> map_of (dk_files d) dir = None)"
proof (induction dirs arbitrary: d)
  case (Cons dir dirs)
  obtain d2 where "os_MkdirAll fe dir d = (None, d2)" and rest: "make_dirs fe dirs d2 = (None, d1)"
    using Cons.prems by (auto split: prod.splits option.splits)
  then have d2: "dk_files d2 = dk_files d" "set (dk_dirs d2) = insert dir (set (dk_dirs d))" "map_of (dk_files d) dir = None"
    by (auto simp: os_MkdirAll_def os_call_def split: option.splits if_splits)
  from Cons.IH [OF rest] d2 show ?case by (auto simp: is_dir_def)
qed simp

lemma make_dirs_again:
  "\<forall>op p. os_refuse fe op p = None \<Longrightarrow> \<forall>dir \<in> set dirs. is_dir d dir \<and> map_of (dk_files d) dir = None \<Longrightarrow>
   make_dirs fe dirs d = (None, d)"
  by (induction dirs) (auto simp: os_MkdirAll_def os_call_def is_dir_def List.insert_def)

text \<open>A complete configuration that is on the disk is found again as it is.\<close>

lemma stored_config_found:
  assumes "\<forall>op p. os_refuse (ce_fe env) op p = None" "ResolveDataDir env = Inr dataDir"
    and "\<forall>dir \<in> {dataDir, filepath_Join [dataDir, ''keys''], filepath_Join [dataDir, ''files'']}.
      is_dir d dir \<and> map_of (dk_files d) dir = None"
    and "map_of (dk_files d) (ConfigPath dataDir) = Some raw" "cj_Unmarshal (ce_json env) raw = Inr c"
    and "cj_Fields (ce_json env) raw = Inr keys" "''notifications_enabled'' \<in> set keys"
    and "''x25519_private_key_path'' \<notin> set keys" "config_valid c"
  shows "LoadOrCreate env d = (Inr (c, ConfigPath dataDir), d)"
proof -
  have "make_dirs (ce_fe env) [dataDir, filepath_Join [dataDir, ''keys''], filepath_Join [dataDir, ''files'']] d = (None, d)"
    using assms(1,3) by (intro make_dirs_again) auto
  moreover have "normalizeDefaults env dataDir (Some keys) c = (False, c)"
    using updated_iff [of env dataDir keys c] assms(7,9) normalizeDefaults_completed [of env dataDir "Some keys" c]
    by (cases "normalizeDefaults env dataDir (Some keys) c") (simp add: completed_id)
  ultimately show ?thesis
    using assms by (simp add: LoadOrCreate_def EnsureDataDirectories_def Load_def complete_config_def os_ReadFile_def
        hasLegacyX25519PathField_def configFieldPresence_def Let_def del: make_dirs.simps)
qed

lemma Save_done:
  "Save env path c d = (None, d') \<Longrightarrow>
   \<exists>raw. cj_MarshalIndent (ce_json env) c = Inr raw \<and> d' = put_file path (raw @ [CHR 0x0A]) d \<and> \<not> is_dir d path"
  by (auto simp: Save_def os_WriteFile_def os_call_def split: sum.splits option.splits prod.splits if_splits)

text \<open>What a successful start leaves: the directories, and either the file as it was read or the one just written.\<close>

lemma LoadOrCreate_done:
  assumes "LoadOrCreate env d = (Inr (c, path), d')" "ce_uuid env \<noteq> []"
  obtains dataDir d1 where "ResolveDataDir env = Inr dataDir" "path = ConfigPath dataDir" "config_valid c"
    "EnsureDataDirectories (ce_fe env) dataDir d = (None, d1)"
    "Save env path c d1 = (None, d') \<or>
     d' = d1 \<and> (\<exists>raw keys. map_of (dk_files d1) path = Some raw \<and> cj_Unmarshal (ce_json env) raw = Inr c \<and>
       cj_Fields (ce_json env) raw = Inr keys \<and> ''notifications_enabled'' \<in> set keys \<and>
       ''x25519_private_key_path'' \<notin> set keys)"
proof -
  obtain dataDir where dir: "ResolveDataDir env = Inr dataDir"
    using assms(1) by (auto simp: LoadOrCreate_def split: sum.splits)
  obtain d1 where d1: "EnsureDataDirectories (ce_fe env) dataDir d = (None, d1)"
    using assms(1) by (auto simp: LoadOrCreate_def dir split: prod.splits option.splits)
  show ?thesis
  proof (cases "Load env (ConfigPath dataDir) d1")
    case (Inl e)
    then have "create_config env dataDir d1 = (Inr (c, path), d')"
      using assms(1) by (simp add: LoadOrCreate_def dir d1 split: if_splits)
    then have "path = ConfigPath dataDir" "config_valid c" "Save env path c d1 = (None, d')"
      using assms(2) by (auto simp: create_config_def Let_def default_valid split: prod.splits option.splits)
    with that dir d1 show ?thesis by blast
  next
    case (Inr cfg)
    then obtain raw where raw: "map_of (dk_files d1) (ConfigPath dataDir) = Some raw" "cj_Unmarshal (ce_json env) raw = Inr cfg"
      by (auto simp: Load_def os_ReadFile_def split: sum.splits option.splits)
    have complete: "complete_config env dataDir cfg d1 = (Inr (c, path), d')"
      using assms(1) Inr by (simp add: LoadOrCreate_def dir d1)
    then obtain keys where keys: "cj_Fields (ce_json env) raw = Inr keys"
      and read: "hasLegacyX25519PathField env (ConfigPath dataDir) d1 = Inr (''x25519_private_key_path'' \<in> set keys)"
        "configFieldPresence env (ConfigPath dataDir) d1 = Inr keys"
      using raw by (auto simp: complete_config_def hasLegacyX25519PathField_def configFieldPresence_def os_ReadFile_def
          Let_def split: sum.splits option.splits)
    obtain updated where n: "normalizeDefaults env dataDir (Some keys) cfg = (updated, completed env dataDir (Some keys) cfg)"
      using normalizeDefaults_completed by (metis prod.collapse)
    have u: "updated \<longleftrightarrow> \<not> config_valid cfg \<or> ''notifications_enabled'' \<notin> set keys"
      using updated_iff [of env dataDir keys cfg] n by simp
    have "path = ConfigPath dataDir" and c: "c = completed env dataDir (Some keys) cfg"
      and saved: "if updated \<or> ''x25519_private_key_path'' \<in> set keys then Save env path c d1 = (None, d') else d' = d1"
      using complete by (auto simp: complete_config_def read n Let_def split: if_splits prod.splits option.splits)
    moreover have "config_valid c" unfolding c using assms(2) by (rule completed_valid)
    moreover have "c = cfg" if "\<not> updated" using that u c completed_id [of cfg keys env dataDir] by simp
    ultimately show ?thesis using that [OF dir _ _ d1] raw keys u by (auto split: if_splits)
  qed
qed


section \<open>A concrete start\<close>

definition config_fields :: "DeviceConfig \<Rightarrow> string \<times> string \<times> string \<times> int \<times> string \<times> int \<times> bool \<times> int \<times> bool \<times> string \<times> string \<times> string" where
  "config_fields c = (cf_DeviceID c, cf_DeviceName c, cf_PortMode c, cf_ListeningPort c, cf_DownloadDirectory c,
     cf_MaxReceiveFileSize c, cf_NotificationsEnabled c, cf_MessageRetentionDays c, cf_CleanupDownloadedFiles c,
     cf_Ed25519PrivateKeyPath c, cf_Ed25519PublicKeyPath c, cf_KeyFingerprint c)"

fun config_of :: "string \<times> string \<times> string \<times> int \<times> string \<times> int \<times> bool \<times> int \<times> bool \<times> string \<times> string \<times> string \<Rightarrow> DeviceConfig" where
  "config_of (i, n, m, p, d, s, b, r, u, k, q, f) =
     \<lparr>cf_DeviceID = i, cf_DeviceName = n, cf_PortMode = m, cf_ListeningPort = p, cf_DownloadDirectory = d,
      cf_MaxReceiveFileSize = s, cf_NotificationsEnabled = b, cf_MessageRetentionDays = r, cf_CleanupDownloadedFiles = u,
      cf_Ed25519PrivateKeyPath = k, cf_Ed25519PublicKeyPath = q, cf_KeyFingerprint = f\<rparr>"

definition counted_json :: ConfigJson where
  "counted_json =
     \<lparr>cj_MarshalIndent = (\<lambda>c. Inr (replicate (to_nat (config_fields c)) CHR ''x'')),
      cj_Unmarshal = (\<lambda>s. Inr (config_of (from_nat (length s - 1)))),
      cj_Fields = (\<lambda>s. Inr [''notifications_enabled''])\<rparr>"

lemma counted_json_ok: "config_json_ok counted_json"
  by (simp add: config_json_ok_def counted_json_def config_fields_def)

definition sample_config_env :: "string \<Rightarrow> ConfigEnv" where
  "sample_config_env uuid =
     \<lparr>ce_goos = ''linux'', ce_Getenv = (\<lambda>v. if v = ''P2P_CHAT_DATA_DIR'' then ''/d'' else []), ce_UserHomeDir = Inr ''/h'',
      ce_Hostname = Inr uuid, ce_uuid = uuid, ce_json = counted_json,
      ce_fe = \<lparr>fe_env = sample_env 0, os_refuse = (\<lambda>_ _. None), mime_TypeByExtension = (\<lambda>_. []), uuid_NewString = (\<lambda>_. uuid)\<rparr>\<rparr>"

lemma sample_first_start:
  "\<exists>d. LoadOrCreate (sample_config_env ''u'') \<lparr>dk_files = [], dk_dirs = []\<rparr> =
     (Inr (defaultConfig (sample_config_env ''u'') ''/d'', ''/d/config.json''), d) \<and>
     fst ` set (dk_files d) = {''/d/config.json''} \<and> \<not> is_dir d ''/d/config.json''"
proof -
  have paths: "ConfigPath ''/d'' = ''/d/config.json''" "filepath_Join [''/d'', ''keys''] = ''/d/keys''"
    "filepath_Join [''/d'', ''files''] = ''/d/files''" by code_simp+
  show ?thesis
    by (simp add: LoadOrCreate_def ResolveDataDir_def EnsureDataDirectories_def Load_def create_config_def Save_def os_WriteFile_def
        os_MkdirAll_def os_call_def os_ReadFile_def is_dir_def paths sample_config_env_def counted_json_def List.insert_def put_file_def Let_def)
qed


end
