(* ===== verification/Discovery.thy ===== *)
theory Discovery
  imports GoNet Manager Paths "HOL-Library.Product_Lexorder"
begin

text \<open>
  Discovery on the local network (\<open>src/discovery/mdns.go\<close>, \<open>peer_scanner.go\<close>): the service a device broadcasts with
  its hourly token, and the scanner that turns what other devices broadcast into a table of peers and a stream of
  events. mDNS itself (\<open>zeroconf\<close>) is a parameter: \<open>register\<close> is the error a registration returns, and a scan is the
  list of entries a browse delivered. A registration stays on the air until its server is shut down. HMAC-SHA256 is
  the parameter \<open>hmac\<close>. A Go map is the list of its entries in the order \<open>range\<close> visits them, and the getter
  \<open>KnownPeerProvider\<close> is the list it returns. Times are nanoseconds; 0 is the zero time.
\<close>

section \<open>Configuration\<close>

record KnownPeerIdentity =
  kp_DeviceID :: string
  kp_Ed25519PublicKey :: string

record DiscoveryConfig =
  dc_Service :: string
  dc_Domain :: string
  dc_Version :: int
  dc_RefreshInterval :: int
  dc_ScanTimeout :: int
  dc_PeerStaleAfter :: int
  dc_TTL :: "32 word"
  dc_SelfDeviceID :: string
  dc_DeviceName :: string
  dc_ListeningPort :: int
  dc_Ed25519PublicKey :: string
  dc_KnownPeers :: "KnownPeerIdentity list option"

definition default_stale :: "int \<Rightarrow> 32 word \<Rightarrow> int" where
  "default_stale refresh ttl =
     (let s = 30 * Second; ttlBased = int (unat ttl) * Second * 2;
          s1 = (if ttlBased > s then ttlBased else s)
      in if refresh > 0 then (if wrap_int64 (refresh * 6) > s1 then wrap_int64 (refresh * 6) else s1) else s1)"

definition with_defaults :: "DiscoveryConfig \<Rightarrow> DiscoveryConfig" where
  "with_defaults c =
     (let refresh = or_default (dc_RefreshInterval c) (10 * Second); ttl = (if dc_TTL c = 0 then 120 else dc_TTL c)
      in c\<lparr>dc_Service := if dc_Service c = [] then ''_p2pchat._tcp'' else dc_Service c,
           dc_Domain := if dc_Domain c = [] then ''local.'' else dc_Domain c,
           dc_Version := if dc_Version c = 0 then 1 else dc_Version c,
           dc_RefreshInterval := refresh,
           dc_ScanTimeout := or_default (dc_ScanTimeout c) (5 * Second),
           dc_TTL := ttl,
           dc_PeerStaleAfter := if dc_PeerStaleAfter c \<le> 0 then default_stale refresh ttl else dc_PeerStaleAfter c\<rparr>)"

definition validateForScan :: "DiscoveryConfig \<Rightarrow> go_error option" where
  "validateForScan c = (if TrimSpace (dc_SelfDeviceID c) = [] then Some (Err ''self device ID is required'') else None)"

definition validateForBroadcast :: "DiscoveryConfig \<Rightarrow> go_error option" where
  "validateForBroadcast c =
     (if TrimSpace (dc_SelfDeviceID c) = [] then Some (Err ''self device ID is required'')
      else if TrimSpace (dc_DeviceName c) = [] then Some (Err ''device name is required'')
      else if dc_ListeningPort c \<le> 0 then Some (Err ''listening port must be > 0'')
      else if dc_Ed25519PublicKey c = [] then Some (Err ''ed25519 public key is required'')
      else None)"

section \<open>Tokens\<close>

record TokenPrims =
  tp_sha256 :: "string \<Rightarrow> string"
  tp_hmac :: "string \<Rightarrow> string \<Rightarrow> string"

definition Hour :: int where "Hour = 3600 * Second"

text \<open>\<open>now.UTC().Unix() / 3600\<close>: seconds are rounded down, the division truncates.\<close>

definition hour_bucket :: "int \<Rightarrow> int" where
  "hour_bucket now = quo (now div Second) 3600"

definition deriveDiscoveryTokenKey :: "TokenPrims \<Rightarrow> string \<Rightarrow> string" where
  "deriveDiscoveryTokenKey P key = tp_sha256 P (''gosend-discovery-token-v1'' @ ''|'' @ key)"

definition ComputeDiscoveryToken :: "TokenPrims \<Rightarrow> string \<Rightarrow> string \<Rightarrow> int \<Rightarrow> string" where
  "ComputeDiscoveryToken P deviceID key now =
     (let deviceID = TrimSpace deviceID in
      if deviceID = [] \<or> key = [] then []
      else hex_encode (tp_hmac P (deriveDiscoveryTokenKey P key) (deviceID @ ''|'' @ FormatInt (hour_bucket now))))"

definition VerifyDiscoveryToken :: "TokenPrims \<Rightarrow> string \<Rightarrow> string \<Rightarrow> string \<Rightarrow> int \<Rightarrow> bool" where
  "VerifyDiscoveryToken P token deviceID key now =
     (let expected = ComputeDiscoveryToken P deviceID key now in
      if expected = [] \<or> TrimSpace token = [] then False
      else ToLower (TrimSpace token) = expected)"

fun verify_offsets :: "TokenPrims \<Rightarrow> string \<Rightarrow> string \<Rightarrow> string \<Rightarrow> int \<Rightarrow> int list \<Rightarrow> bool" where
  "verify_offsets P token deviceID key now [] = False"
| "verify_offsets P token deviceID key now (off # offs) =
     (if VerifyDiscoveryToken P token deviceID key (now + off * Hour) then True
      else verify_offsets P token deviceID key now offs)"

definition verifyTokenWithHourSkew :: "TokenPrims \<Rightarrow> string \<Rightarrow> string \<Rightarrow> string \<Rightarrow> int \<Rightarrow> int \<Rightarrow> bool" where
  "verifyTokenWithHourSkew P token deviceID key now skew = verify_offsets P token deviceID key now [- skew..skew]"

fun first_known :: "TokenPrims \<Rightarrow> string \<Rightarrow> int \<Rightarrow> KnownPeerIdentity list \<Rightarrow> string option" where
  "first_known P token now [] = None"
| "first_known P token now (k # ks) =
     (let deviceID = TrimSpace (kp_DeviceID k) in
      if deviceID = [] then first_known P token now ks
      else case DecodeString (TrimSpace (kp_Ed25519PublicKey k)) of
             Inl _ \<Rightarrow> first_known P token now ks
           | Inr key \<Rightarrow>
               if key = [] then first_known P token now ks
               else if verifyTokenWithHourSkew P token deviceID key now 1 then Some deviceID
               else first_known P token now ks)"

definition resolveKnownPeerByToken :: "TokenPrims \<Rightarrow> string \<Rightarrow> DiscoveryConfig \<Rightarrow> int \<Rightarrow> string option" where
  "resolveKnownPeerByToken P token cfg now =
     (if TrimSpace token = [] then None
      else case dc_KnownPeers cfg of None \<Rightarrow> None | Some known \<Rightarrow> first_known P (TrimSpace token) now known)"

section \<open>The broadcaster and the service\<close>

record Registration =
  rg_instance :: string
  rg_service :: string
  rg_domain :: string
  rg_port :: int
  rg_text :: "string list"

record Zeroconf =
  zc_refuse :: "Registration \<Rightarrow> go_error option"

definition StartBroadcaster ::
    "TokenPrims \<Rightarrow> Zeroconf \<Rightarrow> int \<Rightarrow> DiscoveryConfig \<Rightarrow> Registration list \<Rightarrow> Registration res \<times> Registration list" where
  "StartBroadcaster P zc now config air =
     (let cfg = with_defaults config in
      case validateForBroadcast cfg of
        Some e \<Rightarrow> (Inl e, air)
      | None \<Rightarrow>
          let token = ComputeDiscoveryToken P (dc_SelfDeviceID cfg) (dc_Ed25519PublicKey cfg) now in
          if token = [] then (Inl (Err ''failed to derive discovery token''), air)
          else let reg = \<lparr>rg_instance = dc_DeviceName cfg, rg_service = dc_Service cfg, rg_domain = dc_Domain cfg,
                          rg_port = dc_ListeningPort cfg,
                          rg_text = [''discovery_token='' @ token, ''version='' @ Itoa (dc_Version cfg)]\<rparr>
            in case zc_refuse zc reg of
                 Some e \<Rightarrow> (Inl (Wrap ''register mDNS service'' e), air)
               | None \<Rightarrow> (Inr reg, air @ [reg]))"

definition stop_broadcast :: "Registration option \<Rightarrow> Registration list \<Rightarrow> Registration list" where
  "stop_broadcast b air = (case b of None \<Rightarrow> air | Some reg \<Rightarrow> remove1 reg air)"

section \<open>What the scanner reads\<close>

record ServiceEntry =
  se_Instance :: string
  se_HostName :: string
  se_Port :: int
  se_Text :: "string list"
  se_AddrIPv4 :: "string option list"
  se_AddrIPv6 :: "string option list"

record DiscoveredPeer =
  dp_DeviceID :: string
  dp_DeviceName :: string
  dp_DiscoveryToken :: string
  dp_Version :: int
  dp_HostName :: string
  dp_Port :: int
  dp_Addresses :: "string list"
  dp_LastSeen :: int

text \<open>\<open>strings.SplitN (entry, "=", 2)\<close>: what stands before and after the first equals sign.\<close>

definition key_value :: "string \<Rightarrow> (string \<times> string) option" where
  "key_value entry =
     (if CHR ''='' \<in> set entry
      then Some (takeWhile (\<lambda>c. c \<noteq> CHR ''='') entry, tl (dropWhile (\<lambda>c. c \<noteq> CHR ''='') entry)) else None)"

fun txtToMap :: "string list \<Rightarrow> (string \<times> string) list" where
  "txtToMap [] = []"
| "txtToMap (entry # rest) =
     (case key_value entry of
        None \<Rightarrow> txtToMap rest
      | Some (k, v) \<Rightarrow>
          if TrimSpace k = [] then txtToMap rest
          else (case map_of (txtToMap rest) (TrimSpace k) of
                  None \<Rightarrow> (TrimSpace k, TrimSpace v) # txtToMap rest
                | Some _ \<Rightarrow> txtToMap rest))"

definition txt_get :: "string \<Rightarrow> (string \<times> string) list \<Rightarrow> string" where
  "txt_get k txt = (case map_of txt k of None \<Rightarrow> [] | Some v \<Rightarrow> v)"

definition unescapeMDNSInstanceName :: "string \<Rightarrow> string" where
  "unescapeMDNSInstanceName s = TrimSpace (filter (\<lambda>c. c \<noteq> CHR 0x5C) s)"

definition syntheticUnknownDeviceID :: "TokenPrims \<Rightarrow> ServiceEntry \<Rightarrow> string list \<Rightarrow> string" where
  "syntheticUnknownDeviceID P entry addresses =
     (let value = TrimSpace (TrimSpace (se_Instance entry) @ ''|'' @ TrimSpace (se_HostName entry) @ ''|'' @
            Itoa (se_Port entry) @ ''|'' @ strings_Join addresses '','')
      in if value = [] then [] else ''unknown-'' @ hex_encode (take 8 (tp_sha256 P value)))"

definition entry_addresses :: "ServiceEntry \<Rightarrow> string list" where
  "entry_addresses entry =
     sort (keep_first [] (filter (\<lambda>a. a \<noteq> []) (List.map_filter id (se_AddrIPv4 entry @ se_AddrIPv6 entry))))"

definition entry_version :: "(string \<times> string) list \<Rightarrow> int" where
  "entry_version txt =
     (if txt_get ''version'' txt \<noteq> [] then (case Atoi (txt_get ''version'' txt) of Inr v \<Rightarrow> v | Inl _ \<Rightarrow> 0) else 0)"

definition entry_name :: "ServiceEntry \<Rightarrow> string" where
  "entry_name entry =
     (let raw = TrimSpace (se_Instance entry);
          name = unescapeMDNSInstanceName (if raw = [] then TrimSpace (se_HostName entry) else raw)
      in if name = [] then ''Unknown Peer'' else name)"

text \<open>\<open>LastSeen\<close> is set by the caller.\<close>

definition parseEntry :: "TokenPrims \<Rightarrow> DiscoveryConfig \<Rightarrow> int \<Rightarrow> ServiceEntry \<Rightarrow> DiscoveredPeer option" where
  "parseEntry P cfg now entry =
     (let txt = txtToMap (se_Text entry);
          token = TrimSpace (txt_get ''discovery_token'' txt);
          addresses = entry_addresses entry;
          matched = resolveKnownPeerByToken P token cfg now;
          deviceID = (case matched of None \<Rightarrow> [] | Some i \<Rightarrow> i)
      in if deviceID = dc_SelfDeviceID cfg then None
         else if matched = None \<and> token \<noteq> [] \<and> dc_Ed25519PublicKey cfg \<noteq> [] \<and>
                 verifyTokenWithHourSkew P token (dc_SelfDeviceID cfg) (dc_Ed25519PublicKey cfg) now 1 then None
         else let deviceID = (if deviceID = [] then syntheticUnknownDeviceID P entry addresses else deviceID) in
           if deviceID = [] then None
           else Some \<lparr>dp_DeviceID = deviceID, dp_DeviceName = entry_name entry, dp_DiscoveryToken = token,
                      dp_Version = entry_version txt, dp_HostName = se_HostName entry, dp_Port = se_Port entry,
                      dp_Addresses = addresses, dp_LastSeen = 0\<rparr>)"

section \<open>The table of peers\<close>

datatype EventType = EventPeerUpserted | EventPeerRemoved

record Event =
  ev_Type :: EventType
  ev_Peer :: DiscoveredPeer

record PeerScanner =
  sc_cfg :: DiscoveryConfig
  sc_peers :: "(string \<times> DiscoveredPeer) list"
  sc_events :: "Event list"
  sc_started :: bool
  sc_stopped :: bool

definition event_capacity :: nat where "event_capacity = 128"

definition NewPeerScanner :: "DiscoveryConfig \<Rightarrow> PeerScanner res" where
  "NewPeerScanner config =
     (let cfg = with_defaults config in
      case validateForScan cfg of
        Some e \<Rightarrow> Inl e
      | None \<Rightarrow> Inr \<lparr>sc_cfg = cfg, sc_peers = [], sc_events = [], sc_started = False, sc_stopped = False\<rparr>)"

definition emitEvent :: "Event \<Rightarrow> PeerScanner \<Rightarrow> PeerScanner" where
  "emitEvent ev s = (if length (sc_events s) < event_capacity then s\<lparr>sc_events := sc_events s @ [ev]\<rparr> else s)"

definition peersEqual :: "DiscoveredPeer \<Rightarrow> DiscoveredPeer \<Rightarrow> bool" where
  "peersEqual a b \<longleftrightarrow> dp_DeviceID a = dp_DeviceID b \<and> dp_DeviceName a = dp_DeviceName b \<and>
     dp_DiscoveryToken a = dp_DiscoveryToken b \<and> dp_Version a = dp_Version b \<and> dp_HostName a = dp_HostName b \<and>
     dp_Port a = dp_Port b \<and> dp_Addresses a = dp_Addresses b"

text \<open>The entries a browse delivered, each parsed at the time it arrived: the last one of a device counts.\<close>

fun collect :: "TokenPrims \<Rightarrow> DiscoveryConfig \<Rightarrow> (int \<times> ServiceEntry) list \<Rightarrow> (string \<times> DiscoveredPeer) list \<Rightarrow>
    (string \<times> DiscoveredPeer) list" where
  "collect P cfg [] collected = collected"
| "collect P cfg ((now, entry) # entries) collected =
     (case parseEntry P cfg now entry of
        None \<Rightarrow> collect P cfg entries collected
      | Some peer \<Rightarrow>
          collect P cfg entries (AList.update (dp_DeviceID peer) (peer\<lparr>dp_LastSeen := now\<rparr>) collected))"

text \<open>The first loop of \<open>applySnapshot\<close> over the new peers, and the second over the merged table.\<close>

fun upsert_peers :: "(string \<times> DiscoveredPeer) list \<Rightarrow> (string \<times> DiscoveredPeer) list \<Rightarrow> PeerScanner \<times> (string \<times> DiscoveredPeer) list \<Rightarrow>
    PeerScanner \<times> (string \<times> DiscoveredPeer) list" where
  "upsert_peers previous [] sm = sm"
| "upsert_peers previous ((i, peer) # rest) (s, merged) =
     upsert_peers previous rest
       (if (case map_of previous i of None \<Rightarrow> True | Some old \<Rightarrow> \<not> peersEqual old peer)
        then emitEvent \<lparr>ev_Type = EventPeerUpserted, ev_Peer = peer\<rparr> s else s, AList.update i peer merged)"

definition stays :: "int \<Rightarrow> int \<Rightarrow> DiscoveredPeer \<Rightarrow> bool" where
  "stays now staleAfter peer \<longleftrightarrow> dp_LastSeen peer \<noteq> 0 \<and> now - dp_LastSeen peer < staleAfter"

fun drop_stale :: "int \<Rightarrow> (string \<times> DiscoveredPeer) list \<Rightarrow> (string \<times> DiscoveredPeer) list \<Rightarrow>
    PeerScanner \<times> (string \<times> DiscoveredPeer) list \<Rightarrow> PeerScanner \<times> (string \<times> DiscoveredPeer) list" where
  "drop_stale now new [] sm = sm"
| "drop_stale now new ((i, peer) # rest) (s, merged) =
     drop_stale now new rest
       (if map_of new i \<noteq> None then (s, merged)
        else if stays now (dc_PeerStaleAfter (sc_cfg s)) peer then (s, merged)
        else (emitEvent \<lparr>ev_Type = EventPeerRemoved, ev_Peer = peer\<rparr> s, AList.delete i merged))"

definition applySnapshot :: "int \<Rightarrow> (string \<times> DiscoveredPeer) list \<Rightarrow> PeerScanner \<Rightarrow> PeerScanner" where
  "applySnapshot now new s =
     (case upsert_peers (sc_peers s) new (s, sc_peers s) of
        (s1, merged) \<Rightarrow> (case drop_stale now new merged (s1, merged) of (s2, kept) \<Rightarrow> s2\<lparr>sc_peers := kept\<rparr>))"

text \<open>\<open>browse\<close> is the error of the browse and the entries collected before the scan window closed, with their times.\<close>

definition runScan :: "TokenPrims \<Rightarrow> int \<Rightarrow> go_error option \<times> (int \<times> ServiceEntry) list \<Rightarrow> PeerScanner \<Rightarrow> go_error option \<times> PeerScanner" where
  "runScan P now browse s =
     (case browse of (err, entries) \<Rightarrow>
        if (case err of None \<Rightarrow> False | Some e \<Rightarrow> \<not> errors_Is e DeadlineExceeded \<and> \<not> errors_Is e ContextCanceled)
        then (err, s)
        else (None, applySnapshot now (collect P (sc_cfg s) entries []) s))"

definition scanner_ListPeers :: "PeerScanner \<Rightarrow> DiscoveredPeer list" where
  "scanner_ListPeers s = sort_key (\<lambda>p. (dp_DeviceName p, dp_DeviceID p)) (map snd (sc_peers s))"

section \<open>The service\<close>

record Service =
  sv_cfg :: DiscoveryConfig
  sv_Broadcaster :: "Registration option"
  sv_Scanner :: PeerScanner

definition scanner_start :: "PeerScanner \<Rightarrow> PeerScanner" where
  "scanner_start s = s\<lparr>sc_started := True\<rparr>"

definition scanner_stop :: "PeerScanner \<Rightarrow> PeerScanner" where
  "scanner_stop s = s\<lparr>sc_stopped := True\<rparr>"

definition service_start ::
    "TokenPrims \<Rightarrow> Zeroconf \<Rightarrow> int \<Rightarrow> DiscoveryConfig \<Rightarrow> Registration list \<Rightarrow> Service res \<times> Registration list" where
  "service_start P zc now config air =
     (let cfg = with_defaults config in
      case StartBroadcaster P zc now cfg air of
        (Inl e, air1) \<Rightarrow> (Inl e, air1)
      | (Inr broadcaster, air1) \<Rightarrow>
          (case NewPeerScanner cfg of
             Inl e \<Rightarrow> (Inl e, stop_broadcast (Some broadcaster) air1)
           | Inr scanner \<Rightarrow>
               (Inr \<lparr>sv_cfg = cfg, sv_Broadcaster = Some broadcaster, sv_Scanner = scanner_start scanner\<rparr>, air1)))"

definition service_stop :: "Service \<Rightarrow> Registration list \<Rightarrow> Service \<times> Registration list" where
  "service_stop s air = (s\<lparr>sv_Scanner := scanner_stop (sv_Scanner s)\<rparr>, stop_broadcast (sv_Broadcaster s) air)"

definition service_UpdateDeviceName ::
    "TokenPrims \<Rightarrow> Zeroconf \<Rightarrow> int \<Rightarrow> string \<Rightarrow> Service \<Rightarrow> Registration list \<Rightarrow> go_error option \<times> Service \<times> Registration list" where
  "service_UpdateDeviceName P zc now name s air =
     (let deviceName = TrimSpace name in
      if deviceName = [] then (Some (Err ''device name is required''), s, air)
      else if dc_DeviceName (sv_cfg s) = deviceName then (None, s, air)
      else let cfg = (sv_cfg s)\<lparr>dc_DeviceName := deviceName\<rparr> in
        case StartBroadcaster P zc now cfg air of
          (Inl e, air1) \<Rightarrow> (Some e, s, air1)
        | (Inr broadcaster, air1) \<Rightarrow>
            (None, s\<lparr>sv_Broadcaster := Some broadcaster, sv_cfg := cfg\<rparr>, stop_broadcast (sv_Broadcaster s) air1))"

section \<open>Lemmas\<close>

lemma emitEvent_frame [simp]: "sc_peers (emitEvent ev s) = sc_peers s" "sc_cfg (emitEvent ev s) = sc_cfg s"
  by (simp_all add: emitEvent_def)

lemma verify_skew_1:
  "verifyTokenWithHourSkew P token i key now 1 \<longleftrightarrow>
     VerifyDiscoveryToken P token i key (now - Hour) \<or> VerifyDiscoveryToken P token i key now \<or>
     VerifyDiscoveryToken P token i key (now + Hour)"
  by (simp add: verifyTokenWithHourSkew_def upto.simps)

text \<open>A table of peers: every peer once, under its own identifier.\<close>

definition keyed :: "(string \<times> DiscoveredPeer) list \<Rightarrow> bool" where
  "keyed peers \<longleftrightarrow> distinct (map fst peers) \<and> (\<forall>(i, p) \<in> set peers. dp_DeviceID p = i)"

lemma keyed_id: "keyed peers \<Longrightarrow> map_of peers i = Some p \<Longrightarrow> dp_DeviceID p = i"
  by (auto simp: keyed_def dest: map_of_SomeD)

lemma keyed_update: "keyed peers \<Longrightarrow> dp_DeviceID p = i \<Longrightarrow> keyed (AList.update i p peers)"
proof -
  assume k: "keyed peers" and i: "dp_DeviceID p = i"
  have "\<forall>(j, q) \<in> set (AList.update i p peers). dp_DeviceID q = j"
    using k i by (induction peers) (auto simp: keyed_def)
  then show ?thesis using k by (simp add: keyed_def distinct_update)
qed

lemma keyed_collect: "keyed c \<Longrightarrow> keyed (collect P cfg entries c)"
proof (induction entries arbitrary: c)
  case (Cons e entries)
  obtain now entry where e: "e = (now, entry)" by (cases e)
  show ?case
  proof (cases "parseEntry P cfg now entry")
    case (Some peer)
    then show ?thesis using Cons by (simp add: e keyed_update)
  qed (use Cons e in simp)
qed simp

lemma upsert_merged:
  "distinct (map fst new) \<Longrightarrow> map_of (snd (upsert_peers previous new (s, merged))) k =
     (case map_of new k of Some p \<Rightarrow> Some p | None \<Rightarrow> map_of merged k)"
proof (induction new arbitrary: s merged)
  case (Cons x new)
  obtain i peer where x: "x = (i, peer)" by (cases x)
  have "map_of new i = None" using Cons.prems by (auto simp: x map_of_eq_None_iff)
  then show ?case using Cons by (auto simp: x update_conv' split: option.split)
qed simp

lemma upsert_keyed:
  "keyed new \<Longrightarrow> keyed merged \<Longrightarrow> keyed (snd (upsert_peers previous new (s, merged)))"
proof (induction new arbitrary: s merged)
  case (Cons x new)
  obtain i peer where x: "x = (i, peer)" by (cases x)
  have "keyed new" "dp_DeviceID peer = i" using Cons.prems(1) by (auto simp: keyed_def x)
  with Cons show ?case by (simp add: x keyed_update)
qed simp

lemma upsert_cfg [simp]: "sc_cfg (fst (upsert_peers previous new sm)) = sc_cfg (fst sm)"
  by (induction previous new sm rule: upsert_peers.induct) simp_all

lemma drop_kept:
  "distinct (map fst peers) \<Longrightarrow>
   map_of (snd (drop_stale now new peers (s, merged))) i =
     (case map_of peers i of
        Some p \<Rightarrow> if map_of new i = None \<and> \<not> stays now (dc_PeerStaleAfter (sc_cfg s)) p then None else map_of merged i
      | None \<Rightarrow> map_of merged i)"
proof (induction peers arbitrary: s merged)
  case (Cons x peers)
  obtain j peer where x: "x = (j, peer)" by (cases x)
  have "map_of peers j = None" using Cons.prems by (auto simp: x map_of_eq_None_iff)
  with Cons show ?case by (auto simp: x delete_conv' split: option.split)
qed simp

lemma drop_keyed: "keyed merged \<Longrightarrow> keyed (snd (drop_stale now new peers (s, merged)))"
proof (induction peers arbitrary: s merged)
  case (Cons x peers)
  obtain j peer where x: "x = (j, peer)" by (cases x)
  have "keyed (AList.delete j merged)"
    using Cons.prems by (auto simp: keyed_def AList.delete_eq distinct_map_filter)
  with Cons show ?case by (simp add: x)
qed simp

lemma fst_applySnapshot:
  "sc_events (applySnapshot now new s) =
     sc_events (fst (drop_stale now new (snd (upsert_peers (sc_peers s) new (s, sc_peers s))) (upsert_peers (sc_peers s) new (s, sc_peers s))))"
  "sc_peers (applySnapshot now new s) =
     snd (drop_stale now new (snd (upsert_peers (sc_peers s) new (s, sc_peers s))) (upsert_peers (sc_peers s) new (s, sc_peers s)))"
  by (simp_all add: applySnapshot_def split_beta)

text \<open>Who is listed after a scan.\<close>

lemma applySnapshot_peers:
  assumes "keyed (sc_peers s)" "keyed new"
  shows "map_of (sc_peers (applySnapshot now new s)) i =
     (case map_of new i of
        Some p \<Rightarrow> Some p
      | None \<Rightarrow> (case map_of (sc_peers s) i of
                   Some p \<Rightarrow> if stays now (dc_PeerStaleAfter (sc_cfg s)) p then Some p else None
                 | None \<Rightarrow> None))"
    and "keyed (sc_peers (applySnapshot now new s))"
proof -
  define up where "up = upsert_peers (sc_peers s) new (s, sc_peers s)"
  have d: "distinct (map fst new)" using assms(2) by (simp add: keyed_def)
  have k: "keyed (snd up)" unfolding up_def by (rule upsert_keyed [OF assms(2,1)])
  then have "distinct (map fst (snd up))" by (simp add: keyed_def)
  from drop_kept [OF this, of now new "fst up" "snd up" i] upsert_merged [OF d, of "sc_peers s" s "sc_peers s" i]
  show "map_of (sc_peers (applySnapshot now new s)) i = (case map_of new i of Some p \<Rightarrow> Some p
      | None \<Rightarrow> (case map_of (sc_peers s) i of
                   Some p \<Rightarrow> if stays now (dc_PeerStaleAfter (sc_cfg s)) p then Some p else None
                 | None \<Rightarrow> None))"
    unfolding fst_applySnapshot(2) up_def [symmetric]
    by (auto simp: up_def [symmetric] split: option.splits) (simp_all add: up_def)
  show "keyed (sc_peers (applySnapshot now new s))"
    using drop_keyed [OF k, of now new "snd up" "fst up"] unfolding fst_applySnapshot(2) up_def [symmetric] by simp
qed

section \<open>Events\<close>

text \<open>What a reader of the events keeps: a peer as last announced. The time it was last seen is not announced.\<close>

definition forget_seen :: "DiscoveredPeer \<Rightarrow> DiscoveredPeer" where
  "forget_seen p = p\<lparr>dp_LastSeen := 0\<rparr>"

definition apply_event :: "Event \<Rightarrow> (string \<Rightarrow> DiscoveredPeer option) \<Rightarrow> string \<Rightarrow> DiscoveredPeer option" where
  "apply_event ev view =
     (case ev_Type ev of
        EventPeerUpserted \<Rightarrow> view(dp_DeviceID (ev_Peer ev) \<mapsto> ev_Peer ev)
      | EventPeerRemoved \<Rightarrow> view(dp_DeviceID (ev_Peer ev) := None))"

definition mirrors :: "(string \<Rightarrow> DiscoveredPeer option) \<Rightarrow> (string \<times> DiscoveredPeer) list \<Rightarrow> bool" where
  "mirrors view peers \<longleftrightarrow> map_option forget_seen \<circ> view = map_option forget_seen \<circ> map_of peers"

text \<open>The events of a step, when none was dropped.\<close>

definition emitted :: "PeerScanner \<Rightarrow> Event list \<Rightarrow> PeerScanner \<Rightarrow> bool" where
  "emitted s evs s' \<longleftrightarrow> sc_events s' = sc_events s @ evs"

lemma peersEqual_forget: "peersEqual a b \<longleftrightarrow> forget_seen a = forget_seen b"
  by (cases a; cases b) (auto simp: peersEqual_def forget_seen_def)

lemma events_grow:
  "prefix (sc_events (fst sm)) (sc_events (fst (upsert_peers previous new sm)))"
  "prefix (sc_events (fst sm)) (sc_events (fst (drop_stale now new peers sm)))"
proof -
  have grow: "prefix (sc_events s) (sc_events (emitEvent ev s))" for ev s by (simp add: emitEvent_def)
  show "prefix (sc_events (fst sm)) (sc_events (fst (upsert_peers previous new sm)))"
  proof (induction previous new sm rule: upsert_peers.induct)
    case (2 previous i peer rest s merged)
    then show ?case using grow [of s] by (auto intro: prefix_order.trans split: if_splits)
  qed simp
  show "prefix (sc_events (fst sm)) (sc_events (fst (drop_stale now new peers sm)))"
  proof (induction now new peers sm rule: drop_stale.induct)
    case (2 now new i peer rest s merged)
    then show ?case using grow [of s] by (auto intro: prefix_order.trans split: if_splits)
  qed simp
qed

lemma emit_one:
  "prefix (sc_events (emitEvent ev s)) l \<Longrightarrow> length l < event_capacity \<Longrightarrow> sc_events (emitEvent ev s) = sc_events s @ [ev]"
  by (auto simp: emitEvent_def split: if_splits dest: prefix_length_le)

lemma upsert_events:
  assumes "length (sc_events (fst (upsert_peers previous new (s, merged)))) < event_capacity" "keyed new"
    and "mirrors view merged" "\<forall>i \<in> set (map fst new). map_of merged i = map_of previous i"
  shows "\<exists>evs. emitted s evs (fst (upsert_peers previous new (s, merged))) \<and>
    mirrors (fold apply_event evs view) (snd (upsert_peers previous new (s, merged)))"
  using assms
proof (induction new arbitrary: s merged view)
  case Nil
  then show ?case by (auto simp: emitted_def)
next
  case (Cons x new)
  obtain i peer where x: "x = (i, peer)" by (cases x)
  let ?ev = "\<lparr>ev_Type = EventPeerUpserted, ev_Peer = peer\<rparr>"
  define fresh where "fresh = (case map_of previous i of None \<Rightarrow> True | Some old \<Rightarrow> \<not> peersEqual old peer)"
  define s1 where "s1 = (if fresh then emitEvent ?ev s else s)"
  define evs1 where "evs1 = (if fresh then [?ev] else [])"
  let ?merged = "AList.update i peer merged"
  have step: "upsert_peers previous (x # new) (s, merged) = upsert_peers previous new (s1, ?merged)"
    by (simp add: x s1_def fresh_def)
  have id: "dp_DeviceID peer = i" and new: "keyed new" "i \<notin> set (map fst new)"
    using Cons.prems(2) by (auto simp: keyed_def x)
  have one: "emitted s evs1 s1"
    using emit_one [of ?ev s, OF _ Cons.prems(1)] events_grow(1) [of "(s1, ?merged)" previous new]
    by (auto simp: emitted_def step s1_def evs1_def)
  have view: "mirrors (fold apply_event evs1 view) ?merged"
    using Cons.prems(3,4) id
    by (auto simp: mirrors_def apply_event_def fun_eq_iff update_conv' x peersEqual_forget evs1_def fresh_def split: option.splits)
  have "\<forall>k \<in> set (map fst new). map_of ?merged k = map_of previous k"
    using Cons.prems(4) new(2) by (auto simp: update_conv')
  from Cons.IH [OF Cons.prems(1) [unfolded step] new(1) view this] obtain evs where
    "emitted s1 evs (fst (upsert_peers previous new (s1, ?merged)))"
    "mirrors (fold apply_event evs (fold apply_event evs1 view)) (snd (upsert_peers previous new (s1, ?merged)))" by blast
  with one show ?case unfolding step by (intro exI [of _ "evs1 @ evs"]) (simp add: emitted_def)
qed

lemma drop_events:
  assumes "length (sc_events (fst (drop_stale now new peers (s, merged)))) < event_capacity"
    and "\<forall>(i, p) \<in> set peers. dp_DeviceID p = i" "mirrors view merged"
  shows "\<exists>evs. emitted s evs (fst (drop_stale now new peers (s, merged))) \<and>
    mirrors (fold apply_event evs view) (snd (drop_stale now new peers (s, merged)))"
  using assms
proof (induction peers arbitrary: s merged view)
  case Nil
  then show ?case by (auto simp: emitted_def)
next
  case (Cons x peers)
  obtain i peer where x: "x = (i, peer)" by (cases x)
  let ?ev = "\<lparr>ev_Type = EventPeerRemoved, ev_Peer = peer\<rparr>"
  define gone where "gone \<longleftrightarrow> map_of new i = None \<and> \<not> stays now (dc_PeerStaleAfter (sc_cfg s)) peer"
  define s1 where "s1 = (if gone then emitEvent ?ev s else s)"
  define evs1 where "evs1 = (if gone then [?ev] else [])"
  define merged1 where "merged1 = (if gone then AList.delete i merged else merged)"
  have step: "drop_stale now new (x # peers) (s, merged) = drop_stale now new peers (s1, merged1)"
    by (simp add: x s1_def gone_def merged1_def)
  have id: "dp_DeviceID peer = i" and rest: "\<forall>(i, p) \<in> set peers. dp_DeviceID p = i"
    using Cons.prems(2) by (auto simp: x)
  have one: "emitted s evs1 s1"
    using emit_one [of ?ev s, OF _ Cons.prems(1)] events_grow(2) [of "(s1, merged1)" now new peers]
    by (auto simp: emitted_def step s1_def evs1_def)
  have view: "mirrors (fold apply_event evs1 view) merged1"
    using Cons.prems(3) id
    by (auto simp: mirrors_def apply_event_def fun_eq_iff delete_conv' x evs1_def merged1_def)
  from Cons.IH [OF Cons.prems(1) [unfolded step] rest view] obtain evs where
    "emitted s1 evs (fst (drop_stale now new peers (s1, merged1)))"
    "mirrors (fold apply_event evs (fold apply_event evs1 view)) (snd (drop_stale now new peers (s1, merged1)))" by blast
  with one show ?case unfolding step by (intro exI [of _ "evs1 @ evs"]) (simp add: emitted_def)
qed

lemma applySnapshot_events:
  assumes "keyed (sc_peers s)" "keyed new" "length (sc_events (applySnapshot now new s)) < event_capacity"
    and "mirrors view (sc_peers s)"
  shows "\<exists>evs. emitted s evs (applySnapshot now new s) \<and> mirrors (fold apply_event evs view) (sc_peers (applySnapshot now new s))"
proof -
  obtain s1 merged where up: "upsert_peers (sc_peers s) new (s, sc_peers s) = (s1, merged)" by fastforce
  obtain s2 kept where dr: "drop_stale now new merged (s1, merged) = (s2, kept)" by fastforce
  have result: "sc_events (applySnapshot now new s) = sc_events s2" "sc_peers (applySnapshot now new s) = kept"
    by (simp_all add: applySnapshot_def up dr)
  have "prefix (sc_events s1) (sc_events s2)" using events_grow(2) [of "(s1, merged)" now new merged] by (simp add: dr)
  then have "length (sc_events s1) < event_capacity" using assms(3) result(1) by (auto dest: prefix_length_le)
  then obtain evs1 where evs1: "emitted s evs1 s1" "mirrors (fold apply_event evs1 view) merged"
    using upsert_events [of "sc_peers s" new s "sc_peers s" view] assms(2,4) by (auto simp: up)
  have "keyed merged" using upsert_keyed [OF assms(2,1), of "sc_peers s" s] by (simp add: up)
  then have "\<forall>(i, p) \<in> set merged. dp_DeviceID p = i" by (simp add: keyed_def)
  then obtain evs2 where "emitted s1 evs2 s2" "mirrors (fold apply_event evs2 (fold apply_event evs1 view)) kept"
    using drop_events [of now new merged s1 merged "fold apply_event evs1 view"] assms(3) result(1) evs1(2) by (auto simp: dr)
  with evs1(1) show ?thesis by (intro exI [of _ "evs1 @ evs2"]) (simp add: emitted_def result)
qed

section \<open>Properties\<close>

definition known_peers :: "DiscoveryConfig \<Rightarrow> KnownPeerIdentity list" where
  "known_peers cfg = (case dc_KnownPeers cfg of None \<Rightarrow> [] | Some known \<Rightarrow> known)"

text \<open>A token made for a device with its public key within an hour of \<open>now\<close>.\<close>

definition genuine_token :: "TokenPrims \<Rightarrow> string \<Rightarrow> string \<Rightarrow> string \<Rightarrow> int \<Rightarrow> bool" where
  "genuine_token P token deviceID key now \<longleftrightarrow>
     ToLower token \<in> ComputeDiscoveryToken P deviceID key ` {now - Hour, now, now + Hour} \<and> token \<noteq> []"

lemma first_known_Some:
  "first_known P token now known = Some i \<Longrightarrow>
   \<exists>k \<in> set known. \<exists>key. i = TrimSpace (kp_DeviceID k) \<and> i \<noteq> [] \<and> DecodeString (TrimSpace (kp_Ed25519PublicKey k)) = Inr key \<and>
     key \<noteq> [] \<and> verifyTokenWithHourSkew P token i key now 1"
  by (induction known) (auto simp: Let_def split: if_splits sum.splits)

lemma first_known_None:
  "first_known P token now known = None \<Longrightarrow> k \<in> set known \<Longrightarrow> TrimSpace (kp_DeviceID k) \<noteq> [] \<Longrightarrow>
   DecodeString (TrimSpace (kp_Ed25519PublicKey k)) = Inr key \<Longrightarrow> key \<noteq> [] \<Longrightarrow>
   \<not> verifyTokenWithHourSkew P token (TrimSpace (kp_DeviceID k)) key now 1"
  by (induction known) (auto simp: Let_def split: if_splits sum.splits)

lemma ToLower_Nil [simp]: "ToLower s = [] \<longleftrightarrow> s = []"
  by (simp add: ToLower_def)

lemma verify_genuine:
  "TrimSpace token = token \<Longrightarrow> verifyTokenWithHourSkew P token i key now 1 \<longleftrightarrow> genuine_token P token i key now"
  by (auto simp: verify_skew_1 VerifyDiscoveryToken_def genuine_token_def Let_def)

text \<open>C22: An entry is listed under the identifier of a known peer only if it carries a token made with the public key of
  that peer within an hour of now; an entry is never listed under the device's own identifier on the strength of a
  token, and every other one is listed under an identifier derived from what it says of itself.\<close>

theorem parseEntry_identity:
  assumes "parseEntry P cfg now entry = Some p"
  shows "(\<exists>k \<in> set (known_peers cfg). \<exists>key. dp_DeviceID p = TrimSpace (kp_DeviceID k) \<and> dp_DeviceID p \<noteq> dc_SelfDeviceID cfg \<and>
       DecodeString (TrimSpace (kp_Ed25519PublicKey k)) = Inr key \<and>
       genuine_token P (dp_DiscoveryToken p) (dp_DeviceID p) key now) \<or>
     dp_DeviceID p = syntheticUnknownDeviceID P entry (dp_Addresses p) \<and>
       (dc_Ed25519PublicKey cfg = [] \<or>
        \<not> genuine_token P (dp_DiscoveryToken p) (dc_SelfDeviceID cfg) (dc_Ed25519PublicKey cfg) now)"
proof -
  define token where "token = TrimSpace (txt_get ''discovery_token'' (txtToMap (se_Text entry)))"
  have trim: "TrimSpace token = token" by (simp add: token_def)
  have p: "dp_DiscoveryToken p = token" "dp_Addresses p = entry_addresses entry"
    using assms by (auto simp: parseEntry_def token_def [symmetric] Let_def split: option.splits if_splits)
  show ?thesis
  proof (cases "resolveKnownPeerByToken P token cfg now")
    case None
    then have "dp_DeviceID p = syntheticUnknownDeviceID P entry (entry_addresses entry)"
      "token = [] \<or> dc_Ed25519PublicKey cfg = [] \<or>
        \<not> verifyTokenWithHourSkew P token (dc_SelfDeviceID cfg) (dc_Ed25519PublicKey cfg) now 1"
      using assms by (auto simp: parseEntry_def token_def [symmetric] Let_def split: if_splits)
    then show ?thesis using p by (auto simp: verify_genuine [OF trim] genuine_token_def)
  next
    case (Some i)
    then have "first_known P token now (known_peers cfg) = Some i"
      by (auto simp: resolveKnownPeerByToken_def known_peers_def trim split: if_splits option.splits)
    from first_known_Some [OF this] have "dp_DeviceID p = i" "i \<noteq> dc_SelfDeviceID cfg"
      using assms Some by (auto simp: parseEntry_def token_def [symmetric] Let_def split: if_splits)
    with first_known_Some [OF \<open>first_known P token now (known_peers cfg) = Some i\<close>] p show ?thesis
      by (auto simp: verify_genuine [OF trim])
  qed
qed

definition sample_tokens :: TokenPrims where
  "sample_tokens = \<lparr>tp_sha256 = (\<lambda>m. take 32 (m @ replicate 32 CHR ''h'')), tp_hmac = (\<lambda>k m. m)\<rparr>"

definition sample_discovery :: DiscoveryConfig where
  "sample_discovery = with_defaults
     \<lparr>dc_Service = [], dc_Domain = [], dc_Version = 0, dc_RefreshInterval = 0, dc_ScanTimeout = 0, dc_PeerStaleAfter = 0,
      dc_TTL = 0, dc_SelfDeviceID = ''a'', dc_DeviceName = ''A'', dc_ListeningPort = 9, dc_Ed25519PublicKey = ''j'',
      dc_KnownPeers = Some [\<lparr>kp_DeviceID = ''b'', kp_Ed25519PublicKey = ''aw==''\<rparr>]\<rparr>"

definition sample_entry :: ServiceEntry where
  "sample_entry =
     \<lparr>se_Instance = ''B'', se_HostName = ''b.local'', se_Port = 7, se_Text = [''discovery_token=627c30''],
      se_AddrIPv4 = [Some ''1''], se_AddrIPv6 = []\<rparr>"

definition sample_peer :: DiscoveredPeer where
  "sample_peer =
     \<lparr>dp_DeviceID = ''b'', dp_DeviceName = ''B'', dp_DiscoveryToken = ''627c30'', dp_Version = 0, dp_HostName = ''b.local'',
      dp_Port = 7, dp_Addresses = [''1''], dp_LastSeen = 0\<rparr>"

lemma sample_parsed: "parseEntry sample_tokens sample_discovery 0 sample_entry = Some sample_peer"
proof -
  have pairs: "txtToMap (se_Text sample_entry) = [(''discovery_token'', ''627c30'')]" by code_simp
  have trims: "TrimSpace ''b'' = ''b''" "TrimSpace ''aw=='' = ''aw==''" "TrimSpace ''627c30'' = ''627c30''" by code_simp+
  have token: "hex_encode ''b|0'' = ''627c30''" by (simp add: hex_encode_def hex_digit_def) code_simp
  have lower: "ToLower ''627c30'' = ''627c30''" by (simp add: ToLower_def lower_char_def)
  have "EncodeToString ''k'' = ''aw==''" by (simp add: b64_quad_def b64_char_def) code_simp
  then have key: "DecodeString ''aw=='' = Inr ''k''" using DecodeString_EncodeToString [of "''k''"] by (simp only:)
  have zero: "FormatInt 0 = ''0''" by code_simp
  have "ComputeDiscoveryToken sample_tokens ''b'' ''k'' 0 = ''627c30''"
    using token by (simp add: ComputeDiscoveryToken_def trims hour_bucket_def quo_def zero sample_tokens_def)
  then have "verifyTokenWithHourSkew sample_tokens ''627c30'' ''b'' ''k'' 0 1"
    by (simp add: verify_skew_1 VerifyDiscoveryToken_def trims lower)
  then have known: "resolveKnownPeerByToken sample_tokens ''627c30'' sample_discovery 0 = Some ''b''"
    by (simp add: resolveKnownPeerByToken_def trims key sample_discovery_def with_defaults_def Let_def)
  have rest: "entry_addresses sample_entry = [''1'']" "entry_name sample_entry = ''B''" by code_simp+
  show ?thesis
    unfolding parseEntry_def Let_def pairs
    by (simp add: txt_get_def trims known rest entry_version_def sample_peer_def)
      (simp add: sample_discovery_def with_defaults_def Let_def sample_entry_def)
qed

theorem parseEntry_identity_witness:
  "\<exists>key. DecodeString ''aw=='' = Inr key \<and> genuine_token sample_tokens ''627c30'' ''b'' key 0"
proof -
  have trim: "TrimSpace ''b'' = ''b''" "TrimSpace ''aw=='' = ''aw==''" by code_simp+
  have "dp_DeviceID sample_peer \<noteq> syntheticUnknownDeviceID sample_tokens sample_entry (dp_Addresses sample_peer)" by code_simp
  then show ?thesis
    using parseEntry_identity [OF sample_parsed]
    by (simp add: known_peers_def sample_discovery_def with_defaults_def Let_def trim sample_peer_def)
qed

text \<open>A reader of the scanner's events sees the scanner's table: when a scan has dropped no event, applying the events
  it emitted to a copy of the table as it was announced before gives the table as it is after, up to the times of
  the last sightings.\<close>

theorem scan_events_mirror:
  assumes "runScan P now browse s = (None, s')" "keyed (sc_peers s)" "mirrors view (sc_peers s)"
    and "length (sc_events s') < event_capacity"
  shows "\<exists>evs. sc_events s' = sc_events s @ evs \<and> mirrors (fold apply_event evs view) (sc_peers s') \<and> keyed (sc_peers s')"
proof -
  obtain err entries where browse: "browse = (err, entries)" by force
  have s': "s' = applySnapshot now (collect P (sc_cfg s) entries []) s"
    using assms(1) by (auto simp: runScan_def browse split: if_splits)
  have new: "keyed (collect P (sc_cfg s) entries [])" by (rule keyed_collect) (simp add: keyed_def)
  show ?thesis
    using applySnapshot_events [OF assms(2) new _ assms(3), of now] applySnapshot_peers(2) [OF assms(2) new, of now]
      assms(4) s' by (auto simp: emitted_def)
qed

definition sample_scanner :: PeerScanner where
  "sample_scanner = \<lparr>sc_cfg = sample_discovery, sc_peers = [], sc_events = [], sc_started = True, sc_stopped = False\<rparr>"

theorem scan_events_mirror_witness:
  "\<exists>evs. mirrors (fold apply_event evs Map.empty)
     (sc_peers (snd (runScan sample_tokens 5 (Some DeadlineExceeded, [(0, sample_entry)]) sample_scanner)))"
proof -
  let ?s = "applySnapshot 5 [(''b'', sample_peer)] sample_scanner"
  have run: "runScan sample_tokens 5 (Some DeadlineExceeded, [(0, sample_entry)]) sample_scanner = (None, ?s)"
    using sample_parsed by (simp add: runScan_def sample_scanner_def) (simp add: sample_peer_def)
  have "length (sc_events ?s) < event_capacity"
    by (simp add: applySnapshot_def sample_scanner_def emitEvent_def event_capacity_def)
  moreover have "keyed (sc_peers sample_scanner)" "mirrors Map.empty (sc_peers sample_scanner)"
    by (simp_all add: keyed_def mirrors_def sample_scanner_def)
  ultimately have "\<exists>evs. mirrors (fold apply_event evs Map.empty) (sc_peers ?s)"
    using scan_events_mirror [OF run] by blast
  then show ?thesis by (simp add: run)
qed

section \<open>A broadcast grows stale\<close>

lemma hour_bucket_shift:
  assumes "0 \<le> now" "0 \<le> now + Hour * k"
  shows "hour_bucket (now + Hour * k) = hour_bucket now + k"
proof -
  have "(now + Hour * k) div Second = now div Second + 3600 * k"
  proof -
    have "now + Hour * k = now + (3600 * k) * 1000000000" by (simp add: Hour_def Second_def)
    then have "(now + Hour * k) div Second = (now + (3600 * k) * 1000000000) div 1000000000" by (simp only: Second_def)
    also have "\<dots> = now div 1000000000 + 3600 * k" by simp
    finally show ?thesis by (simp only: Second_def)
  qed
  moreover have "0 \<le> now div Second" "0 \<le> (now + Hour * k) div Second" using assms by (simp_all add: Second_def)
  ultimately show ?thesis by (simp add: hour_bucket_def quo_pos)
qed

lemma hour_bucket_neg: "now < 0 \<Longrightarrow> hour_bucket now \<le> 0"
  by (simp add: hour_bucket_def quo_def sgn_if Second_def) (simp add: pos_imp_zdiv_nonneg_iff)

text \<open>The token a registration carries, as a scanner reads it.\<close>

definition token_of :: "Registration \<Rightarrow> string" where
  "token_of reg = TrimSpace (txt_get ''discovery_token'' (txtToMap (rg_text reg)))"

lemma trim_keys: "TrimSpace ''discovery_token'' = ''discovery_token''" "TrimSpace ''version'' = ''version''"
  by (rule TrimSpace_visible, simp add: visible_def)+

lemma token_of_registration:
  "rg_text reg = [''discovery_token='' @ hex_encode h, ''version='' @ v] \<Longrightarrow> token_of reg = hex_encode h"
  by (simp add: token_of_def key_value_def txt_get_def trim_keys TrimSpace_visible [OF hex_encode_visible(1)])

lemma broadcast_token:
  assumes "StartBroadcaster P zc t0 cfg air = (Inr reg, air')"
  shows "TrimSpace (dc_SelfDeviceID cfg) \<noteq> [] \<and> dc_Ed25519PublicKey cfg \<noteq> [] \<and>
    token_of reg = ComputeDiscoveryToken P (dc_SelfDeviceID cfg) (dc_Ed25519PublicKey cfg) t0"
proof -
  have same: "dc_SelfDeviceID (with_defaults cfg) = dc_SelfDeviceID cfg" "dc_Ed25519PublicKey (with_defaults cfg) = dc_Ed25519PublicKey cfg"
    by (simp_all add: with_defaults_def Let_def)
  have valid: "TrimSpace (dc_SelfDeviceID cfg) \<noteq> []" "dc_Ed25519PublicKey cfg \<noteq> []"
    using assms by (auto simp: StartBroadcaster_def validateForBroadcast_def same Let_def split: if_splits)
  have "rg_text reg = [''discovery_token='' @ ComputeDiscoveryToken P (dc_SelfDeviceID cfg) (dc_Ed25519PublicKey cfg) t0,
      ''version='' @ Itoa (dc_Version (with_defaults cfg))]"
    using assms by (auto simp: StartBroadcaster_def same Let_def split: if_splits option.splits)
  with valid show ?thesis using token_of_registration by (simp add: ComputeDiscoveryToken_def Let_def)
qed

text \<open>The code of an hour under the key of the device.\<close>

definition hour_mac :: "TokenPrims \<Rightarrow> DiscoveryConfig \<Rightarrow> int \<Rightarrow> string" where
  "hour_mac P cfg h =
     tp_hmac P (deriveDiscoveryTokenKey P (dc_Ed25519PublicKey cfg)) (TrimSpace (dc_SelfDeviceID cfg) @ ''|'' @ FormatInt h)"

text \<open>C28: The token is made once, when the broadcast starts. Two hours of the clock later no scanner takes it for genuine
  any more, provided the codes of the hours a scanner tries differ from that of the hour of the start: the device is no longer recognised by those who know it.\<close>

theorem broadcast_token_expires:
  assumes "StartBroadcaster P zc t0 cfg air = (Inr reg, air')" "0 \<le> t0" "hour_bucket t0 + 1 < hour_bucket now"
    and "\<forall>h \<in> {hour_bucket now - 1 .. hour_bucket now + 1}. hour_mac P cfg h \<noteq> hour_mac P cfg (hour_bucket t0)"
  shows "\<not> genuine_token P (token_of reg) (dc_SelfDeviceID cfg) (dc_Ed25519PublicKey cfg) now"
proof
  let ?h = "\<lambda>t. hour_mac P cfg (hour_bucket t)"
  note b = broadcast_token [OF assms(1)]
  have token: "ComputeDiscoveryToken P (dc_SelfDeviceID cfg) (dc_Ed25519PublicKey cfg) t = hex_encode (?h t)" for t
    using b by (simp add: ComputeDiscoveryToken_def hour_mac_def Let_def)
  have "0 \<le> hour_bucket t0" using assms(2) by (simp add: hour_bucket_def quo_pos Second_def)
  then have late: "2 \<le> hour_bucket now" using assms(3) by simp
  then have "0 \<le> now" using hour_bucket_neg [of now] by (cases "now < 0") auto
  moreover have "Hour \<le> now"
  proof (rule ccontr)
    assume "\<not> Hour \<le> now"
    then have "hour_bucket now \<le> 0" using \<open>0 \<le> now\<close> by (simp add: hour_bucket_def quo_pos Second_def Hour_def)
    with late show False by simp
  qed
  ultimately have "hour_bucket (now - Hour) = hour_bucket now - 1" "hour_bucket (now + Hour) = hour_bucket now + 1"
    using hour_bucket_shift [of now "- 1"] hour_bucket_shift [of now 1] by (simp_all add: Hour_def Second_def)
  moreover assume "genuine_token P (token_of reg) (dc_SelfDeviceID cfg) (dc_Ed25519PublicKey cfg) now"
  then have "\<exists>t \<in> {now - Hour, now, now + Hour}. hex_encode (?h t0) = hex_encode (?h t)"
    using b by (auto simp: genuine_token_def token hex_encode_visible)
  then have "\<exists>t \<in> {now - Hour, now, now + Hour}. ?h t = ?h t0" by (metis hex_encode_inject)
  ultimately show False using assms(4) by auto
qed

theorem broadcast_token_expires_witness:
  "\<exists>reg. StartBroadcaster sample_tokens \<lparr>zc_refuse = \<lambda>_. None\<rparr> 0 sample_discovery [] = (Inr reg, [reg]) \<and>
     \<not> genuine_token sample_tokens (token_of reg) ''a'' ''j'' (2 * Hour)"
proof -
  have trim: "TrimSpace ''a'' = ''a''" "TrimSpace ''A'' = ''A''" by code_simp+
  have self: "dc_SelfDeviceID sample_discovery = ''a''" "dc_Ed25519PublicKey sample_discovery = ''j''"
    "dc_DeviceName (with_defaults sample_discovery) = ''A''" "dc_ListeningPort (with_defaults sample_discovery) = 9"
    "dc_SelfDeviceID (with_defaults sample_discovery) = ''a''" "dc_Ed25519PublicKey (with_defaults sample_discovery) = ''j''"
    by (simp_all add: sample_discovery_def with_defaults_def Let_def)
  have "validateForBroadcast (with_defaults sample_discovery) = None"
    "ComputeDiscoveryToken sample_tokens ''a'' ''j'' 0 \<noteq> []"
    by (simp_all add: validateForBroadcast_def self trim ComputeDiscoveryToken_def sample_tokens_def hex_encode_def)
  then obtain reg where reg: "StartBroadcaster sample_tokens \<lparr>zc_refuse = \<lambda>_. None\<rparr> 0 sample_discovery [] = (Inr reg, [reg])"
    by (simp add: StartBroadcaster_def Let_def self)
  have "\<not> genuine_token sample_tokens (token_of reg) (dc_SelfDeviceID sample_discovery) (dc_Ed25519PublicKey sample_discovery) (2 * Hour)"
    by (rule broadcast_token_expires [OF reg])
      (auto simp: hour_mac_def hour_bucket_def quo_def Hour_def Second_def sample_tokens_def dest: FormatInt_inject)
  with reg show ?thesis by (auto simp: self)
qed

end
