(* ===== verification/UiTransfers.thy ===== *)
theory UiTransfers
  imports FileTypes GoNet "HOL-Library.Product_Lexorder"
begin

text \<open>
  The transfers the user interface shows (\<open>src/ui/chat_window.go\<close>, \<open>main_window.go\<close>): the table of live transfers,
  what an update of it keeps of the entry before, how the files of the store and the live table become the list of a
  conversation, and the list of the transfer queue. The table is an association list under the file's identifier; the
  lists made of it are sorted by keys that end in the identifier, so the iteration order of Go's map does not show.
  As in theory \<open>FileTypes\<close> the floating-point speed and the estimate made of it are left out.
\<close>

record chatFileEntry =
  cfe_FileID :: string
  cfe_FolderID :: string
  cfe_RelativePath :: string
  cfe_PeerDeviceID :: string
  cfe_Direction :: string
  cfe_Filename :: string
  cfe_Filesize :: int
  cfe_Filetype :: string
  cfe_StoredPath :: string
  cfe_AddedAt :: int
  cfe_BytesTransferred :: int
  cfe_TotalBytes :: int
  cfe_Status :: string
  cfe_CompletedAt :: int
  cfe_TransferCompleted :: bool

type_synonym Transfers = "(string \<times> chatFileEntry) list"

definition no_entry :: chatFileEntry where
  "no_entry =
     \<lparr>cfe_FileID = [], cfe_FolderID = [], cfe_RelativePath = [], cfe_PeerDeviceID = [], cfe_Direction = [],
      cfe_Filename = [], cfe_Filesize = 0, cfe_Filetype = [], cfe_StoredPath = [], cfe_AddedAt = 0,
      cfe_BytesTransferred = 0, cfe_TotalBytes = 0, cfe_Status = [], cfe_CompletedAt = 0, cfe_TransferCompleted = False\<rparr>"

section \<open>Updating the table\<close>

definition or_text :: "string \<Rightarrow> string \<Rightarrow> string" where "or_text a b = (if a = [] then b else a)"
definition or_number :: "int \<Rightarrow> int \<Rightarrow> int" where "or_number a b = (if a = 0 then b else a)"

definition final_statuses :: "string set" where
  "final_statuses = {''rejected'', ''failed'', ''complete'', ''canceled''}"

definition entry_status :: "chatFileEntry \<Rightarrow> string" where
  "entry_status e = ToLower (TrimSpace (cfe_Status e))"

definition is_final :: "chatFileEntry \<Rightarrow> bool" where
  "is_final e \<longleftrightarrow> entry_status e \<in> final_statuses"

definition is_active :: "chatFileEntry \<Rightarrow> bool" where
  "is_active e \<longleftrightarrow> entry_status e \<in> {''pending'', ''accepted''}"

text \<open>What an update leaves open is taken from the entry before; \<open>keep_texts\<close> is the part both merges share.\<close>

definition keep_texts :: "chatFileEntry \<Rightarrow> chatFileEntry \<Rightarrow> chatFileEntry" where
  "keep_texts old e =
     e\<lparr>cfe_FolderID := or_text (cfe_FolderID e) (cfe_FolderID old),
       cfe_RelativePath := or_text (cfe_RelativePath e) (cfe_RelativePath old),
       cfe_PeerDeviceID := or_text (cfe_PeerDeviceID e) (cfe_PeerDeviceID old),
       cfe_Direction := or_text (cfe_Direction e) (cfe_Direction old),
       cfe_Filename := or_text (cfe_Filename e) (cfe_Filename old),
       cfe_Filesize := or_number (cfe_Filesize e) (cfe_Filesize old),
       cfe_Filetype := or_text (cfe_Filetype e) (cfe_Filetype old),
       cfe_StoredPath := or_text (cfe_StoredPath e) (cfe_StoredPath old),
       cfe_TotalBytes := or_number (cfe_TotalBytes e) (cfe_TotalBytes old)\<rparr>"

definition kept_bytes :: "chatFileEntry \<Rightarrow> chatFileEntry \<Rightarrow> int" where
  "kept_bytes old e =
     (if cfe_BytesTransferred e \<noteq> 0 then cfe_BytesTransferred e
      else if entry_status e = ''accepted'' \<and> \<not> cfe_TransferCompleted old \<and> EqualFold (cfe_Status old) ''accepted''
           then cfe_BytesTransferred old
      else if \<not> is_active e then cfe_BytesTransferred old
      else 0)"

definition keep_known :: "chatFileEntry \<Rightarrow> chatFileEntry \<Rightarrow> chatFileEntry" where
  "keep_known old entry =
     (let e = (keep_texts old entry)\<lparr>cfe_Status := or_text (cfe_Status entry) (cfe_Status old)\<rparr>
      in e\<lparr>cfe_BytesTransferred := kept_bytes old e,
           cfe_TransferCompleted :=
             (if is_final e then True else if is_active e then False
              else if \<not> cfe_TransferCompleted e then cfe_TransferCompleted old else True),
           cfe_CompletedAt := (if is_active e then 0 else or_number (cfe_CompletedAt e) (cfe_CompletedAt old)),
           cfe_AddedAt := or_number (cfe_AddedAt e) (cfe_AddedAt old)\<rparr>)"

definition stamp_completed :: "int \<Rightarrow> chatFileEntry \<Rightarrow> chatFileEntry" where
  "stamp_completed now e =
     (let e1 = (if cfe_TransferCompleted e \<and> cfe_CompletedAt e = 0 then e\<lparr>cfe_CompletedAt := now\<rparr> else e)
      in if \<not> cfe_TransferCompleted e1 then e1\<lparr>cfe_CompletedAt := 0\<rparr> else e1)"

definition upsertFileTransfer :: "int \<Rightarrow> chatFileEntry \<Rightarrow> Transfers \<Rightarrow> Transfers" where
  "upsertFileTransfer now entry table =
     (if cfe_FileID entry = [] then table
      else
        let e = (case map_of table (cfe_FileID entry) of
                   Some old \<Rightarrow> keep_known old entry
                 | None \<Rightarrow> if cfe_AddedAt entry = 0 then entry\<lparr>cfe_AddedAt := now\<rparr> else entry)
        in AList.update (cfe_FileID entry) (stamp_completed now e) table)"

definition clear_completed :: "Transfers \<Rightarrow> Transfers" where
  "clear_completed table =
     filter (\<lambda>(_, e). \<not> (EqualFold (cfe_Status e) ''complete'' \<and> cfe_TransferCompleted e)) table"

definition forget_transfers :: "string \<Rightarrow> Transfers \<Rightarrow> Transfers" where
  "forget_transfers peerID table = filter (\<lambda>(_, e). cfe_PeerDeviceID e \<noteq> peerID) table"

section \<open>The files of a conversation\<close>

definition other_end :: "string \<Rightarrow> FileMetadata \<Rightarrow> string" where
  "other_end localID meta = (if f_FromDeviceID meta = localID then f_ToDeviceID meta else f_FromDeviceID meta)"

definition folded_final :: "string \<Rightarrow> bool" where
  "folded_final s \<longleftrightarrow>
     EqualFold s ''complete'' \<or> EqualFold s ''failed'' \<or> EqualFold s ''rejected'' \<or> EqualFold s ''canceled''"

definition chatFileEntryFromMetadata :: "string \<Rightarrow> FileMetadata \<Rightarrow> chatFileEntry" where
  "chatFileEntryFromMetadata localID meta =
     (let addedAt = (case f_TimestampReceived meta of None \<Rightarrow> 0 | Some t \<Rightarrow> t);
          final = folded_final (f_TransferStatus meta)
      in \<lparr>cfe_FileID = f_FileID meta, cfe_FolderID = f_FolderID meta, cfe_RelativePath = f_RelativePath meta,
          cfe_PeerDeviceID = other_end localID meta,
          cfe_Direction = (if f_FromDeviceID meta = localID then ''send'' else ''receive''),
          cfe_Filename = f_Filename meta, cfe_Filesize = f_Filesize meta, cfe_Filetype = f_Filetype meta,
          cfe_StoredPath = f_StoredPath meta, cfe_AddedAt = addedAt,
          cfe_BytesTransferred = (if EqualFold (f_TransferStatus meta) ''complete'' then f_Filesize meta else 0),
          cfe_TotalBytes = f_Filesize meta, cfe_Status = f_TransferStatus meta,
          cfe_CompletedAt = (if final then addedAt else 0), cfe_TransferCompleted = final\<rparr>)"

definition mergeChatFileEntry :: "chatFileEntry \<Rightarrow> chatFileEntry \<Rightarrow> chatFileEntry" where
  "mergeChatFileEntry base live =
     (let m0 = keep_texts live base;
          m1 = (if cfe_BytesTransferred live > cfe_BytesTransferred m0
                then m0\<lparr>cfe_BytesTransferred := cfe_BytesTransferred live\<rparr> else m0);
          m2 = (if entry_status live \<noteq> [] \<and> (is_active live \<or> \<not> is_final m1)
                then m1\<lparr>cfe_Status := cfe_Status live\<rparr> else m1);
          m3 = (if is_active live
                then m2\<lparr>cfe_TransferCompleted := False, cfe_CompletedAt := 0, cfe_BytesTransferred := cfe_BytesTransferred live\<rparr>
                else m2);
          m4 = (if cfe_TransferCompleted live \<or> is_final live \<or>
                   is_final base \<and> \<not> is_active live \<and> \<not> cfe_TransferCompleted live
                then m3\<lparr>cfe_TransferCompleted := True\<rparr> else m3);
          m5 = (if \<not> cfe_TransferCompleted m4 then m4\<lparr>cfe_CompletedAt := 0\<rparr>
                else if cfe_CompletedAt m4 = 0 then m4\<lparr>cfe_CompletedAt := cfe_CompletedAt live\<rparr> else m4)
      in m5\<lparr>cfe_AddedAt := or_number (cfe_AddedAt m5) (cfe_AddedAt live)\<rparr>)"

text \<open>The loop over the rows of the store takes a live entry out of the copy of the table when it has used it.\<close>

fun merge_stored :: "string \<Rightarrow> string \<Rightarrow> FileMetadata list \<Rightarrow> Transfers \<Rightarrow> Transfers \<Rightarrow> Transfers \<times> Transfers" where
  "merge_stored localID peerID [] live merged = (live, merged)"
| "merge_stored localID peerID (meta # metas) live merged =
     (let entry = chatFileEntryFromMetadata localID meta; i = cfe_FileID entry in
      if cfe_PeerDeviceID entry \<noteq> peerID then merge_stored localID peerID metas live merged
      else case map_of live i of
        Some l \<Rightarrow> merge_stored localID peerID metas (AList.delete i live) (AList.update i (mergeChatFileEntry entry l) merged)
      | None \<Rightarrow> merge_stored localID peerID metas live (AList.update i entry merged))"

definition shown_live :: "string \<Rightarrow> Transfers \<Rightarrow> string \<times> chatFileEntry \<Rightarrow> bool" where
  "shown_live peerID merged = (\<lambda>(i, e).
     cfe_PeerDeviceID e = peerID \<and> map_of merged i = None \<and>
     \<not> (folded_final (cfe_Status e) \<and> cfe_TransferCompleted e))"

definition mergeChatFilesForPeer :: "string \<Rightarrow> string \<Rightarrow> FileMetadata list \<Rightarrow> Transfers \<Rightarrow> chatFileEntry list" where
  "mergeChatFilesForPeer localID peerID files table =
     (if TrimSpace peerID = [] then []
      else
        let (live, merged) = merge_stored localID peerID files table [];
            all = merged @ filter (shown_live peerID merged) live
        in sort_key (\<lambda>e. (cfe_AddedAt e, cfe_FileID e)) (map snd all))"

definition fileTransfersForPeer :: "string \<Rightarrow> Transfers \<Rightarrow> chatFileEntry list" where
  "fileTransfersForPeer peerID table =
     (if peerID = [] then []
      else sort_key (\<lambda>e. (cfe_AddedAt e, cfe_FileID e)) (filter (\<lambda>e. cfe_PeerDeviceID e = peerID) (map snd table)))"

section \<open>The queue\<close>

definition transferQueueCategory :: "chatFileEntry \<Rightarrow> string" where
  "transferQueueCategory e =
     (let status = entry_status e in
      if EqualFold status ''complete'' \<or> cfe_TransferCompleted e \<and> EqualFold status ''accepted'' then ''done''
      else if EqualFold status ''failed'' \<or> EqualFold status ''rejected'' \<or> EqualFold status ''canceled'' then ''issues''
      else ''active'')"

definition transferQueueSortBucket :: "chatFileEntry \<Rightarrow> int" where
  "transferQueueSortBucket e =
     (if transferQueueCategory e = ''active'' then 0 else if transferQueueCategory e = ''issues'' then 1 else 2)"

definition transferQueueStatusText :: "chatFileEntry \<Rightarrow> string" where
  "transferQueueStatusText e =
     (let status = entry_status e in
      if EqualFold status ''complete'' \<or> cfe_TransferCompleted e \<and> EqualFold status ''accepted'' then ''Complete''
      else if EqualFold status ''failed'' then ''Failed''
      else if EqualFold status ''rejected'' then ''Rejected''
      else if EqualFold status ''canceled'' then ''Canceled''
      else if EqualFold status ''pending'' then ''Queued''
      else ''Transferring'')"

definition recently :: "int \<Rightarrow> chatFileEntry \<Rightarrow> bool" where
  "recently now e =
     (transferQueueCategory e = ''active'' \<or>
      (let completedAt = or_number (cfe_CompletedAt e) (cfe_AddedAt e)
       in \<not> (completedAt > 0 \<and> wrap_int64 (now - completedAt) > 30000)))"

definition transferQueueEntriesSnapshot :: "int \<Rightarrow> Transfers \<Rightarrow> chatFileEntry list" where
  "transferQueueEntriesSnapshot now table =
     sort_key (\<lambda>e. (transferQueueSortBucket e, - cfe_AddedAt e, cfe_FileID e)) (filter (recently now) (map snd table))"

section \<open>A report of the network\<close>

text \<open>The update \<open>handleFileProgress\<close> makes of a report and of what the store knows of the file.\<close>

definition reported_entry :: "FileProgress \<Rightarrow> chatFileEntry" where
  "reported_entry p =
     no_entry\<lparr>cfe_FileID := fp_FileID p, cfe_PeerDeviceID := fp_PeerDeviceID p, cfe_Direction := fp_Direction p,
       cfe_BytesTransferred := fp_BytesTransferred p, cfe_TotalBytes := fp_TotalBytes p,
       cfe_Status := (if TrimSpace (fp_Status p) \<noteq> [] then TrimSpace (fp_Status p) else ''accepted''),
       cfe_TransferCompleted := fp_TransferCompleted p\<rparr>"

definition with_metadata :: "string \<Rightarrow> FileMetadata \<Rightarrow> chatFileEntry \<Rightarrow> chatFileEntry" where
  "with_metadata localID meta e0 =
     (let e = e0\<lparr>cfe_PeerDeviceID := or_text (cfe_PeerDeviceID e0) (other_end localID meta),
                 cfe_Filename := f_Filename meta, cfe_Filesize := f_Filesize meta, cfe_Filetype := f_Filetype meta,
                 cfe_StoredPath := f_StoredPath meta, cfe_FolderID := f_FolderID meta,
                 cfe_RelativePath := f_RelativePath meta\<rparr>;
          retry = (EqualFold (cfe_Status e) ''pending'' \<and> \<not> cfe_TransferCompleted e);
          status = f_TransferStatus meta;
          e1 = (if \<not> retry \<and> (folded_final status \<or> \<not> (EqualFold status ''pending'' \<and> cfe_BytesTransferred e > 0))
                then e\<lparr>cfe_Status := status\<rparr> else e)
      in if \<not> retry \<and> status \<in> final_statuses then e1\<lparr>cfe_TransferCompleted := True\<rparr> else e1)"

definition progress_entry :: "int \<Rightarrow> string \<Rightarrow> Store \<Rightarrow> FileProgress \<Rightarrow> chatFileEntry" where
  "progress_entry now localID s p =
     (let e1 = (case GetFileByID (fp_FileID p) s of Inl _ \<Rightarrow> reported_entry p | Inr meta \<Rightarrow> with_metadata localID meta (reported_entry p));
          e2 = (if cfe_TransferCompleted e1
                then e1\<lparr>cfe_Status := (if TrimSpace (cfe_Status e1) = [] then ''complete'' else cfe_Status e1), cfe_CompletedAt := now\<rparr>
                else e1)
      in if cfe_TotalBytes e2 = 0 then e2\<lparr>cfe_TotalBytes := cfe_Filesize e2\<rparr> else e2)"

section \<open>The table is consistent\<close>

definition entry_ok :: "string \<Rightarrow> chatFileEntry \<Rightarrow> bool" where
  "entry_ok i e \<longleftrightarrow> i \<noteq> [] \<and> cfe_FileID e = i \<and> (cfe_CompletedAt e \<noteq> 0 \<longleftrightarrow> cfe_TransferCompleted e)"

definition table_ok :: "Transfers \<Rightarrow> bool" where
  "table_ok table \<longleftrightarrow> distinct (map fst table) \<and> (\<forall>(i, e) \<in> set table. entry_ok i e)"

lemma stamp_completed_id [simp]: "cfe_FileID (stamp_completed now e) = cfe_FileID e"
  by (simp add: stamp_completed_def Let_def)

lemma keep_known_id [simp]: "cfe_FileID (keep_known old e) = cfe_FileID e"
  by (simp add: keep_known_def keep_texts_def Let_def)

lemma stamp_completed_ok: "now \<noteq> 0 \<Longrightarrow> cfe_FileID e = i \<Longrightarrow> i \<noteq> [] \<Longrightarrow> entry_ok i (stamp_completed now e)"
  by (simp add: entry_ok_def) (simp add: stamp_completed_def Let_def)

lemma table_ok_empty: "table_ok []"
  by (simp add: table_ok_def)

lemma set_AList_update: "set (AList.update i e table) \<subseteq> insert (i, e) (set table)"
  by (induction table) auto

lemma table_ok_update: "table_ok table \<Longrightarrow> entry_ok i e \<Longrightarrow> table_ok (AList.update i e table)"
  using set_AList_update [of i e table] by (auto simp: table_ok_def distinct_update)

lemma table_ok_filter: "table_ok table \<Longrightarrow> table_ok (filter P table)"
  by (auto simp: table_ok_def distinct_map_filter)

lemma table_ok_upsert: "table_ok table \<Longrightarrow> now \<noteq> 0 \<Longrightarrow> table_ok (upsertFileTransfer now entry table)"
  by (auto simp: upsertFileTransfer_def Let_def intro!: table_ok_update stamp_completed_ok split: option.split)

lemma table_ok_clear: "table_ok table \<Longrightarrow> table_ok (clear_completed table)"
  by (simp add: clear_completed_def table_ok_filter)

lemma table_ok_forget: "table_ok table \<Longrightarrow> table_ok (forget_transfers peerID table)"
  by (simp add: forget_transfers_def table_ok_filter)

lemma table_ok_lookup: "table_ok table \<Longrightarrow> map_of table i = Some e \<Longrightarrow> cfe_FileID e = i"
  by (auto simp: table_ok_def entry_ok_def dest!: map_of_SomeD)

section \<open>The list of a conversation\<close>

lemma merge_entry_id [simp]: "cfe_FileID (mergeChatFileEntry base live) = cfe_FileID base"
  by (simp add: mergeChatFileEntry_def keep_texts_def Let_def)

lemma entry_of_metadata [simp]:
  "cfe_FileID (chatFileEntryFromMetadata localID meta) = f_FileID meta"
  "cfe_PeerDeviceID (chatFileEntryFromMetadata localID meta) = other_end localID meta"
  by (simp_all add: chatFileEntryFromMetadata_def Let_def)

text \<open>What is shown of a stored file.\<close>

definition stored_entry :: "string \<Rightarrow> Transfers \<Rightarrow> FileMetadata \<Rightarrow> chatFileEntry" where
  "stored_entry localID table meta =
     (let entry = chatFileEntryFromMetadata localID meta
      in case map_of table (f_FileID meta) of None \<Rightarrow> entry | Some live \<Rightarrow> mergeChatFileEntry entry live)"

lemma stored_entry_id [simp]: "cfe_FileID (stored_entry localID table meta) = f_FileID meta"
  by (simp add: stored_entry_def Let_def split: option.split)

lemma AList_update_fresh: "i \<notin> fst ` set t \<Longrightarrow> AList.update i e t = t @ [(i, e)]"
  by (induction t) auto

lemma merge_stored_eq:
  fixes localID peerID :: string
  assumes "distinct (map f_FileID metas)" "f_FileID ` set metas \<inter> fst ` set merged = {}" "distinct (map fst live)"
  defines "mine \<equiv> filter (\<lambda>m. other_end localID m = peerID) metas"
  shows "merge_stored localID peerID metas live merged =
    (filter (\<lambda>(i, _). i \<notin> f_FileID ` set mine) live,
     merged @ map (\<lambda>m. (f_FileID m, stored_entry localID live m)) mine)"
  using assms(1-3) unfolding mine_def
proof (induction metas arbitrary: live merged)
  case (Cons meta metas)
  let ?i = "f_FileID meta" and ?e = "chatFileEntryFromMetadata localID meta"
  let ?mine = "filter (\<lambda>m. other_end localID m = peerID) metas"
  have fresh: "?i \<notin> fst ` set merged" "?i \<notin> f_FileID ` set metas" using Cons.prems by auto
  show ?case
  proof (cases "other_end localID meta = peerID")
    case True
    have later: "stored_entry localID (AList.delete ?i live) m = stored_entry localID live m" if "m \<in> set ?mine" for m
    proof -
      have "f_FileID m \<noteq> ?i" using that fresh(2) by (metis filter_is_subset image_eqI subsetD)
      then show ?thesis by (simp add: stored_entry_def)
    qed
    have step: "merge_stored localID peerID (meta # metas) live merged =
      merge_stored localID peerID metas (AList.delete ?i live) (merged @ [(?i, stored_entry localID live meta)])"
    proof (cases "map_of live ?i")
      case None
      then have "AList.delete ?i live = live" by (simp add: map_of_eq_None_iff)
      then show ?thesis using True fresh(1) None by (simp add: stored_entry_def AList_update_fresh)
    next
      case (Some l)
      then show ?thesis using True fresh(1) by (simp add: stored_entry_def AList_update_fresh Let_def)
    qed
    have "filter (\<lambda>(i, _). i \<notin> f_FileID ` set ?mine) (AList.delete ?i live) =
      filter (\<lambda>(i, _). i \<notin> insert ?i (f_FileID ` set ?mine)) live"
      by (simp add: AList.delete_eq) (auto intro: filter_cong)
    moreover have "distinct (map fst (AList.delete ?i live))" using Cons.prems(3) by (simp add: distinct_delete)
    ultimately show ?thesis
      using Cons.IH [of "merged @ [(?i, stored_entry localID live meta)]" "AList.delete ?i live"] Cons.prems fresh True
      by (auto simp: step simp del: merge_stored.simps cong: map_cong intro!: map_cong later)
  next
    case False
    then show ?thesis using Cons by (simp add: Let_def)
  qed
qed simp

lemma sorted_conversation:
  fixes k :: "chatFileEntry \<Rightarrow> int \<times> string"
  shows "sorted (map k (sort_key k es)) \<and> set (sort_key k es) = set es \<and>
    (distinct (map f es) \<longrightarrow> distinct (map f (sort_key k es)))"
  by (simp add: distinct_map)

text \<open>C40: What a conversation shows of files is sorted by the time they were added and then by identifier, no file
  twice: every stored file exchanged with the peer, updated by its live entry if there is one, and the live entries
  of the peer that are not stored, unless they are over.\<close>

theorem mergeChatFiles_outcome:
  assumes "distinct (map f_FileID files)" "table_ok table" "TrimSpace peerID \<noteq> []"
  shows "let shown = mergeChatFilesForPeer localID peerID files table;
             mine = {m \<in> set files. other_end localID m = peerID}
    in sorted (map (\<lambda>e. (cfe_AddedAt e, cfe_FileID e)) shown) \<and> distinct (map cfe_FileID shown) \<and>
       set shown = stored_entry localID table ` mine \<union>
         {e \<in> snd ` set table. cfe_PeerDeviceID e = peerID \<and> cfe_FileID e \<notin> f_FileID ` mine \<and>
            \<not> (folded_final (cfe_Status e) \<and> cfe_TransferCompleted e)}"
proof -
  define mine where "mine = filter (\<lambda>m. other_end localID m = peerID) files"
  define stored where "stored = map (\<lambda>m. (f_FileID m, stored_entry localID table m)) mine"
  define rest where "rest = filter (\<lambda>(i, _). i \<notin> f_FileID ` set mine) table"
  have keys: "distinct (map fst table)" "\<And>i e. (i, e) \<in> set table \<Longrightarrow> cfe_FileID e = i"
    using assms(2) by (auto simp: table_ok_def entry_ok_def)
  have parts: "merge_stored localID peerID files table [] = (rest, stored)"
    using merge_stored_eq [OF assms(1) _ keys(1), of "[]" localID peerID] by (simp add: mine_def stored_def rest_def)
  define live where "live = filter (shown_live peerID stored) rest"
  have "map_of stored i = None" if "(i, e) \<in> set rest" for i e
    using that by (auto simp: rest_def stored_def map_of_eq_None_iff)
  then have set_live: "set live = {(i, e) \<in> set table. i \<notin> f_FileID ` set mine \<and> cfe_PeerDeviceID e = peerID \<and>
      \<not> (folded_final (cfe_Status e) \<and> cfe_TransferCompleted e)}"
    by (auto simp: live_def shown_live_def rest_def)
  have ids: "map (\<lambda>x. cfe_FileID (snd x)) live = map fst live"
    using keys(2) set_live by (intro map_cong) auto
  have "distinct (map fst live)" using keys(1) by (simp add: live_def rest_def distinct_map_filter)
  moreover have "distinct (map f_FileID mine)" using assms(1) by (simp add: mine_def distinct_map_filter)
  moreover have disjoint: "fst ` set live \<inter> f_FileID ` set mine = {}" using set_live by auto
  ultimately have "distinct (map cfe_FileID (map snd (stored @ live)))"
  proof -
    have "map cfe_FileID (map snd (stored @ live)) = map f_FileID mine @ map fst live"
      by (simp add: stored_def comp_def ids)
    then show ?thesis using \<open>distinct (map fst live)\<close> \<open>distinct (map f_FileID mine)\<close> disjoint
      by (simp only: distinct_append set_map) (simp add: Int_commute)
  qed
  moreover have "set (map snd (stored @ live)) = stored_entry localID table ` set mine \<union>
      {e \<in> snd ` set table. cfe_PeerDeviceID e = peerID \<and> cfe_FileID e \<notin> f_FileID ` set mine \<and>
        \<not> (folded_final (cfe_Status e) \<and> cfe_TransferCompleted e)}"
  proof -
    have "snd ` set stored = stored_entry localID table ` set mine" by (simp add: stored_def image_image)
    moreover have "e \<in> snd ` set live \<longleftrightarrow> e \<in> snd ` set table \<and> cfe_PeerDeviceID e = peerID \<and> cfe_FileID e \<notin> f_FileID ` set mine \<and>
        \<not> (folded_final (cfe_Status e) \<and> cfe_TransferCompleted e)" for e
      unfolding image_iff [where f = snd] set_live using keys(2) by force
    ultimately show ?thesis by (simp only: set_map set_append image_Un) blast
  qed
  ultimately show ?thesis
    using assms(3) sorted_conversation [where es = "map snd (stored @ live)" and f = cfe_FileID]
    by (simp add: mergeChatFilesForPeer_def parts live_def [symmetric] Let_def del: map_append) (simp add: mine_def)
qed

definition sample_file :: FileMetadata where
  "sample_file =
     \<lparr>f_FileID = ''f'', f_MessageID = [], f_FolderID = [], f_RelativePath = [], f_FromDeviceID = ''a'', f_ToDeviceID = ''b'',
      f_Filename = ''x'', f_Filesize = 3, f_Filetype = [], f_StoredPath = ''/x'', f_Checksum = [],
      f_TimestampReceived = Some 7, f_TransferStatus = ''complete''\<rparr>"

definition sample_live :: Transfers where
  "sample_live =
     [(''f'', no_entry\<lparr>cfe_FileID := ''f'', cfe_PeerDeviceID := ''b'', cfe_Status := ''accepted'', cfe_BytesTransferred := 2\<rparr>),
      (''g'', no_entry\<lparr>cfe_FileID := ''g'', cfe_PeerDeviceID := ''b'', cfe_Status := ''pending'', cfe_AddedAt := 9\<rparr>)]"

theorem mergeChatFiles_outcome_witness:
  "distinct (map cfe_FileID (mergeChatFilesForPeer ''a'' ''b'' [sample_file] sample_live)) \<and>
   (\<exists>e \<in> set (mergeChatFilesForPeer ''a'' ''b'' [sample_file] sample_live). cfe_FileID e = ''g'')"
proof -
  have "table_ok sample_live" by (auto simp: table_ok_def sample_live_def entry_ok_def no_entry_def)
  moreover have "TrimSpace ''b'' \<noteq> []" by code_simp
  moreover have "other_end ''a'' sample_file = ''b''" by (simp add: other_end_def sample_file_def)
  moreover have "f_FileID sample_file = ''f''" by (simp add: sample_file_def)
  moreover have "\<exists>e \<in> snd ` set sample_live. cfe_PeerDeviceID e = ''b'' \<and> cfe_FileID e = ''g'' \<and> \<not> cfe_TransferCompleted e"
    by (simp add: sample_live_def no_entry_def)
  ultimately show ?thesis
    using mergeChatFiles_outcome [of "[sample_file]" sample_live "''b''" "''a''"] by (auto simp: Let_def)
qed

section \<open>Finished transfers\<close>

lemma final_status_text:
  assumes "s \<in> final_statuses"
  shows "ToLower s = s" "TrimSpace s = s" "s \<noteq> []" "folded_final s"
proof -
  have "list_all (\<lambda>s. ToLower s = s \<and> TrimSpace s = s \<and> s \<noteq> [] \<and> folded_final s) [''rejected'', ''failed'', ''complete'', ''canceled'']"
    by code_simp
  then show "ToLower s = s" "TrimSpace s = s" "s \<noteq> []" "folded_final s"
    using assms by (auto simp: final_statuses_def)
qed

lemma final_category: "entry_status e \<in> final_statuses \<Longrightarrow> transferQueueCategory e \<noteq> ''active''"
  using final_status_text(1)
  by (auto simp: transferQueueCategory_def Let_def final_statuses_def EqualFold_def)

text \<open>C39: Once the store holds a file as complete, failed, rejected or canceled, no report of the network brings it back to
  life, unless the report announces a retry: whatever the report says and whatever the table held, the entry ends up
  with the status of the store, completed now, and no longer among the active transfers of the queue.\<close>

theorem finished_transfer_stays_finished:
  assumes "GetFileByID (fp_FileID p) s = Inr meta" "f_TransferStatus meta \<in> final_statuses"
    and "EqualFold (TrimSpace (fp_Status p)) ''pending'' \<longrightarrow> fp_TransferCompleted p"
    and "fp_FileID p \<noteq> []" "now \<noteq> 0"
  shows "\<exists>e. map_of (upsertFileTransfer now (progress_entry now localID s p) table) (fp_FileID p) = Some e \<and>
    cfe_Status e = f_TransferStatus meta \<and> cfe_TransferCompleted e \<and> cfe_CompletedAt e = now \<and>
    transferQueueCategory e \<noteq> ''active''"
proof -
  let ?status = "f_TransferStatus meta"
  note st = final_status_text [OF assms(2)]
  define x where "x = progress_entry now localID s p"
  have retry: "EqualFold (cfe_Status (reported_entry p)) ''pending'' \<longrightarrow> fp_TransferCompleted p"
  proof -
    have "\<not> EqualFold ''accepted'' ''pending''" by code_simp
    then show ?thesis using assms(3) by (simp add: reported_entry_def)
  qed
  have x: "cfe_FileID x = fp_FileID p" "cfe_Status x = ?status" "cfe_TransferCompleted x" "cfe_CompletedAt x = now"
    using retry assms(1,2) st by (auto simp: x_def progress_entry_def with_metadata_def reported_entry_def Let_def)
  have final: "is_final y" if "cfe_Status y = ?status" for y
    using that assms(2) st by (simp add: is_final_def entry_status_def)
  have active: "\<not> is_active y" if "cfe_Status y = ?status" for y
    using that assms(2) st by (auto simp: is_active_def entry_status_def final_statuses_def)
  define e where "e = stamp_completed now (case map_of table (fp_FileID p) of Some old \<Rightarrow> keep_known old x
      | None \<Rightarrow> if cfe_AddedAt x = 0 then x\<lparr>cfe_AddedAt := now\<rparr> else x)"
  have kept: "cfe_Status (keep_known old x) = ?status \<and> cfe_TransferCompleted (keep_known old x) \<and>
      cfe_CompletedAt (keep_known old x) = now" for old
    using x st(3) assms(5) final active by (simp add: keep_known_def keep_texts_def or_text_def or_number_def Let_def)
  have e: "cfe_Status e = ?status" "cfe_TransferCompleted e" "cfe_CompletedAt e = now"
    using x kept assms(5) by (simp_all add: e_def stamp_completed_def Let_def split: option.split)
  moreover have "map_of (upsertFileTransfer now x table) (fp_FileID p) = Some e"
    using x(1) assms(4) by (simp add: upsertFileTransfer_def Let_def e_def update_conv')
  moreover have "transferQueueCategory e \<noteq> ''active''"
    using final [OF e(1)] by (intro final_category) (simp add: is_final_def)
  ultimately show ?thesis by (auto simp: x_def)
qed

definition sample_progress :: FileProgress where
  "sample_progress =
     \<lparr>fp_FileID = ''f'', fp_PeerDeviceID = ''b'', fp_Direction = ''send'', fp_BytesTransferred = 2, fp_TotalBytes = 3,
      fp_ChunkIndex = 0, fp_TotalChunks = 1, fp_Status = [], fp_TransferCompleted = False\<rparr>"

theorem finished_transfer_stays_finished_witness:
  "\<exists>e. map_of (upsertFileTransfer 5 (progress_entry 5 ''a'' (empty_store\<lparr>st_files := [sample_file]\<rparr>) sample_progress) sample_live) ''f'' = Some e \<and>
     cfe_Status e = ''complete'' \<and> cfe_TransferCompleted e \<and> cfe_CompletedAt e = 5"
proof -
  have "GetFileByID (fp_FileID sample_progress) (empty_store\<lparr>st_files := [sample_file]\<rparr>) = Inr sample_file"
    by (simp add: GetFileByID_def tbl_find_def sample_progress_def sample_file_def empty_store_def)
  moreover have "f_TransferStatus sample_file \<in> final_statuses" by (simp add: sample_file_def final_statuses_def)
  moreover have "\<not> EqualFold (TrimSpace (fp_Status sample_progress)) ''pending''"
    by (simp add: sample_progress_def EqualFold_def ToLower_def TrimSpace_Nil)
  ultimately show ?thesis
    using finished_transfer_stays_finished [of sample_progress "empty_store\<lparr>st_files := [sample_file]\<rparr>" sample_file 5 "''a''" sample_live]
    by (auto simp: sample_progress_def sample_file_def)
qed

end
