(* ===== verification/UiText.thy ===== *)
theory UiText
  imports UiTransfers Config Crypto
begin

text \<open>
  What the user interface writes and reads as text: sizes (\<open>formatBytes\<close> of \<open>src/ui/main_window.go\<close>), the state of a
  message and of a transfer (\<open>chat_window.go\<close>), names and fingerprints, and the forms of \<open>settings.go\<close> with the
  values they show and the values they are read back as.
\<close>

section \<open>Sizes\<close>

text \<open>The nearest integer to \<open>n / d\<close>, a tie to the even one: the rounding of a \<open>float64\<close> and of \<open>%.1f\<close>.\<close>

definition round_div :: "int \<Rightarrow> int \<Rightarrow> int" where
  "round_div n d = (let q = n div d; r = n mod d in if 2 * r < d \<or> 2 * r = d \<and> even q then q else q + 1)"

fun bit_length :: "nat \<Rightarrow> nat" where
  "bit_length n = (if n = 0 then 0 else Suc (bit_length (n div 2)))"

declare bit_length.simps [simp del]

text \<open>\<open>float64(n)\<close> for \<open>n \<ge> 0\<close>: 53 significant bits.\<close>

definition to_float64 :: "int \<Rightarrow> int" where
  "to_float64 n =
     (let b = bit_length (nat n) in if b \<le> 53 then n else round_div n (2 ^ (b - 53)) * 2 ^ (b - 53))"

text \<open>The loop: \<open>n\<close> is what is left of the size, \<open>div\<close> the unit and \<open>exp\<close> its number.\<close>

function unit_loop :: "int \<Rightarrow> int \<Rightarrow> nat \<Rightarrow> int \<times> nat" where
  "unit_loop n d e = (if n < 1024 then (d, e) else unit_loop (n div 1024) (d * 1024) (Suc e))"
  by auto
termination by (relation "measure (\<lambda>(n, _, _). nat n)") auto

declare unit_loop.simps [simp del]

definition fixed1 :: "int \<Rightarrow> string" where
  "fixed1 tenths = Itoa (tenths div 10) @ ''.'' @ Itoa (tenths mod 10)"

definition unit_names :: "string list" where
  "unit_names = [''KB'', ''MB'', ''GB'', ''TB'']"

definition formatBytes :: "int \<Rightarrow> string" where
  "formatBytes n =
     (if n < 0 then ''0 B''
      else if n < 1024 then Itoa n @ '' B''
      else
        let (d, e) = unit_loop (n div 1024) 1024 0;
            e1 = (if e \<ge> length unit_names then length unit_names - 1 else e)
        in fixed1 (round_div (10 * to_float64 n) d) @ '' '' @ unit_names ! e1)"

section \<open>Messages and transfers\<close>

definition valueOrDefault :: "string \<Rightarrow> string \<Rightarrow> string" where
  "valueOrDefault v fallback = (if TrimSpace v = [] then fallback else v)"

definition isTextMessage :: "Message \<Rightarrow> bool" where
  "isTextMessage m \<longleftrightarrow> (let ct = TrimSpace (ToLower (m_ContentType m)) in ct = [] \<or> ct = ''text'')"

definition isOutgoingMessage :: "string \<Rightarrow> Message \<Rightarrow> bool" where
  "isOutgoingMessage localID m \<longleftrightarrow> TrimSpace localID \<noteq> [] \<and> m_FromDeviceID m = localID"

text \<open>The sender shown above a message.\<close>

definition sender_label :: "string \<Rightarrow> string \<Rightarrow> Message \<Rightarrow> string" where
  "sender_label localID peerDisplayName m =
     (if isOutgoingMessage localID m then ''You''
      else if TrimSpace peerDisplayName \<noteq> [] then peerDisplayName else ''Peer'')"

text \<open>The marks are check marks, a cross and an ellipsis, in UTF-8.\<close>

definition check_mark :: string where "check_mark = [CHR 0xE2, CHR 0x9C, CHR 0x93]"
definition cross_mark :: string where "cross_mark = [CHR 0xE2, CHR 0x9C, CHR 0x97]"
definition ellipsis :: string where "ellipsis = [CHR 0xE2, CHR 0x80, CHR 0xA6]"

definition deliveryStatusMark :: "string \<Rightarrow> string" where
  "deliveryStatusMark status =
     (let s = ToLower status in
      if s = ''delivered'' then check_mark @ check_mark
      else if s = ''failed'' then cross_mark else if s = ''pending'' then ellipsis else check_mark)"

text \<open>\<open>percent\<close> is \<open>fmt.Sprintf\<close> of \<open>%.0f%%\<close> at the quotient of its arguments as floating-point numbers.\<close>

definition fileTransferStatusText :: "(int \<Rightarrow> int \<Rightarrow> string) \<Rightarrow> chatFileEntry \<Rightarrow> string" where
  "fileTransferStatusText percent e =
     (let s = ToLower (cfe_Status e); sending = EqualFold (cfe_Direction e) ''send'' in
      if s = ''rejected'' then ''Rejected''
      else if s = ''failed'' then ''Failed''
      else if s = ''canceled'' then ''Canceled''
      else if s = ''complete'' then ''Complete''
      else if s = ''accepted'' then
        if cfe_TransferCompleted e then ''Complete'' else if sending then ''Sending'' else ''Receiving''
      else if cfe_TransferCompleted e then ''Complete''
      else if EqualFold (cfe_Status e) ''pending'' then ''Waiting''
      else if cfe_TotalBytes e > 0 then
        (if sending then ''Sending ('' else ''Receiving ('') @ percent (cfe_BytesTransferred e) (cfe_TotalBytes e) @ '')''
      else ''Waiting'')"

definition isImageFile :: "string \<Rightarrow> bool" where
  "isImageFile filename \<longleftrightarrow> ToLower (Ext filename) \<in>
     {''.png'', ''.jpg'', ''.jpeg'', ''.gif'', ''.bmp'', ''.svg'', ''.webp'', ''.tiff'', ''.tif''}"

text \<open>The rows of a conversation, before they are drawn: messages and files by time, a message before a file.\<close>

datatype row = MessageRow Message | FileRow chatFileEntry

fun row_key :: "row \<Rightarrow> int \<times> int \<times> string" where
  "row_key (MessageRow m) = (m_TimestampSent m, 0, [])"
| "row_key (FileRow f) = (if cfe_AddedAt f \<le> 0 then 0 else cfe_AddedAt f, 1, cfe_FileID f)"

definition buildConversationRows :: "Message list \<Rightarrow> chatFileEntry list \<Rightarrow> row list" where
  "buildConversationRows messages files = sort_key row_key (map MessageRow messages @ map FileRow files)"

section \<open>Peers\<close>

text \<open>An identifier too long for its place, as the chat header (6 and 4 bytes, above 12) and the list of discovered
  peers (8 and 4, above 18) cut it.\<close>

definition shorten :: "nat \<Rightarrow> nat \<Rightarrow> string \<Rightarrow> string" where
  "shorten limit front s = (if length s > limit then take front s @ ''...'' @ drop (length s - 4) s else s)"

definition ui_fingerprintFromBase64 :: "Prims \<Rightarrow> string \<Rightarrow> string" where
  "ui_fingerprintFromBase64 P key =
     (case DecodeString key of
        Inr raw \<Rightarrow> if length raw \<noteq> PublicKeySize
          then (if length key > 16 then take 16 key @ ''...'' else key)
          else FormatFingerprint (KeyFingerprint P raw)
      | Inl _ \<Rightarrow> (if length key > 16 then take 16 key @ ''...'' else key))"

text \<open>The text of a notification, cut to 180 bytes.\<close>

definition notification_text :: "string \<Rightarrow> string" where
  "notification_text content0 =
     (let trimmed = TrimSpace content0; content = (if trimmed = [] then ''New message'' else trimmed)
      in if length content > 180 then take 177 content @ ''...'' else content)"

section \<open>Choices of the settings\<close>

definition maxSizePresetValues :: "(string \<times> int) list" where
  "maxSizePresetValues =
     [(''100 MB'', 100 * 1024 * 1024), (''500 MB'', 500 * 1024 * 1024),
      (''1 GB'', 1024 * 1024 * 1024), (''5 GB'', 5 * 1024 * 1024 * 1024)]"

definition messageRetentionValues :: "(string \<times> int) list" where
  "messageRetentionValues = [(''Keep forever'', 0), (''30 days'', 30), (''90 days'', 90), (''1 year'', 365)]"

definition selectMaxSizePreset :: "int \<Rightarrow> bool \<Rightarrow> string" where
  "selectMaxSizePreset n allowGlobalDefault =
     (if n = 0 then if allowGlobalDefault then ''Use global default'' else ''Unlimited''
      else case find (\<lambda>(_, v). v = n) maxSizePresetValues of Some (label, _) \<Rightarrow> label | None \<Rightarrow> ''Custom'')"

text \<open>\<open>strconv.ParseInt(_, 10, 64)\<close> accepts what \<open>Atoi\<close> accepts, \<open>int\<close> having 64 bits.\<close>

definition parseMaxSizeSelection :: "string \<Rightarrow> string \<Rightarrow> bool \<Rightarrow> int res" where
  "parseMaxSizeSelection selected customText allowGlobalDefault =
     (if selected = ''Use global default'' then
        if \<not> allowGlobalDefault then Inl (Err ''invalid max file size selection'') else Inr 0
      else if selected = ''Unlimited'' then
        if allowGlobalDefault then Inl (Err ''invalid max file size selection'') else Inr 0
      else if selected = ''Custom'' then
        (case Atoi (TrimSpace customText) of
           Inl _ \<Rightarrow> Inl (Err ''custom max file size must be a non-negative byte value'')
         | Inr v \<Rightarrow>
             if v < 0 then Inl (Err ''custom max file size must be a non-negative byte value'')
             else if allowGlobalDefault \<and> v = 0 then
               Inl (Err ''custom max file size must be greater than 0, or use global default'')
             else Inr v)
      else case map_of maxSizePresetValues selected of
        None \<Rightarrow> Inl (Err ''invalid max file size selection'') | Some v \<Rightarrow> Inr v)"

definition selectRetentionPreset :: "int \<Rightarrow> string" where
  "selectRetentionPreset days =
     (if days = 30 then ''30 days'' else if days = 90 then ''90 days'' else if days = 365 then ''1 year'' else ''Keep forever'')"

definition parseRetentionSelection :: "string \<Rightarrow> int res" where
  "parseRetentionSelection selected =
     (case map_of messageRetentionValues selected of None \<Rightarrow> Inl (Err ''invalid retention selection'') | Some d \<Rightarrow> Inr d)"

section \<open>Sizes are shown to a twentieth of their unit\<close>

lemma unit_loop_outcome:
  "1 \<le> n \<Longrightarrow> \<exists>j. unit_loop n d e = (d * 1024 ^ j, e + j) \<and> 1024 ^ j \<le> n \<and> n < 1024 ^ Suc j"
proof (induction n d e rule: unit_loop.induct)
  case (1 n d e)
  show ?case
  proof (cases "n < 1024")
    case True
    then show ?thesis using 1(2) by (intro exI [of _ 0]) (simp add: unit_loop.simps [of n])
  next
    case False
    then have "1 \<le> n div 1024" by simp
    from 1(1) [OF False this] obtain j where j: "unit_loop (n div 1024) (d * 1024) (Suc e) = (d * 1024 * 1024 ^ j, Suc e + j)"
      "1024 ^ j \<le> n div 1024" "n div 1024 < 1024 ^ Suc j" by blast
    have "1024 ^ Suc j \<le> n" using j(2) by simp
    moreover have "n < 1024 ^ Suc (Suc j)" using j(3) by simp
    ultimately show ?thesis using False j(1) by (intro exI [of _ "Suc j"]) (simp add: unit_loop.simps [of n])
  qed
qed

lemma bit_length_le: "n < 2 ^ k \<Longrightarrow> bit_length n \<le> k"
proof (induction k arbitrary: n)
  case (Suc k)
  then have "bit_length (n div 2) \<le> k" by simp
  then show ?case by (simp add: bit_length.simps [of n])
qed (simp add: bit_length.simps)

lemma to_float64_exact: "0 \<le> n \<Longrightarrow> n < 2 ^ 53 \<Longrightarrow> to_float64 n = n"
proof -
  assume "0 \<le> n" "n < 2 ^ 53"
  then have "nat n < 2 ^ 53" by (simp add: nat_less_iff)
  from bit_length_le [OF this] show ?thesis by (simp add: to_float64_def Let_def)
qed

lemma round_div_error: "0 < d \<Longrightarrow> 2 * \<bar>round_div n d * d - n\<bar> \<le> d"
proof -
  assume d: "0 < d"
  define q r where "q = n div d" and "r = n mod d"
  have "n = q * d + r" "0 \<le> r" "r < d" using d by (simp_all add: q_def r_def)
  then show ?thesis
    by (auto simp: round_div_def Let_def q_def [symmetric] r_def [symmetric] algebra_simps)
qed

text \<open>A size from one kibibyte on is shown in the largest unit it reaches, with one digit, off by no more than a
  twentieth of that unit. The names of the units end at TB, though, so a size from one pebibyte on is shown in
  pebibytes under the name TB.\<close>

theorem formatBytes_outcome:
  assumes "1024 \<le> n" "n < 2 ^ 53"
  shows "\<exists>e tenths. 1024 ^ Suc e \<le> n \<and> n < 1024 ^ Suc (Suc e) \<and>
    2 * \<bar>tenths * 1024 ^ Suc e - 10 * n\<bar> \<le> 1024 ^ Suc e \<and>
    formatBytes n = fixed1 tenths @ '' '' @ (if e < 4 then [''KB'', ''MB'', ''GB'', ''TB''] ! e else ''TB'')"
proof -
  have "1 \<le> n div 1024" using assms(1) by simp
  from unit_loop_outcome [OF this, of 1024 0] obtain e where e: "unit_loop (n div 1024) 1024 0 = (1024 * 1024 ^ e, e)"
    "1024 ^ e \<le> n div 1024" "n div 1024 < 1024 ^ Suc e" by auto
  have f: "to_float64 n = n" using assms by (simp add: to_float64_exact)
  define tenths where "tenths = round_div (10 * n) (1024 ^ Suc e)"
  have "formatBytes n = fixed1 tenths @ '' '' @ (if e < 4 then [''KB'', ''MB'', ''GB'', ''TB''] ! e else ''TB'')"
    using assms(1) e(1) by (simp add: formatBytes_def f tenths_def unit_names_def)
  moreover have "2 * \<bar>tenths * 1024 ^ Suc e - 10 * n\<bar> \<le> 1024 ^ Suc e"
    unfolding tenths_def by (rule round_div_error) simp
  moreover have "1024 ^ Suc e \<le> n" using e(2) by simp
  moreover have "n < 1024 ^ Suc (Suc e)" using e(3) by simp
  ultimately show ?thesis by blast
qed

theorem formatBytes_outcome_witness:
  "\<exists>tenths. 2 * \<bar>tenths * 1024 - 15360\<bar> \<le> 1024 \<and> formatBytes 1536 = fixed1 tenths @ '' KB''"
proof -
  obtain e tenths where e: "1024 ^ Suc e \<le> (1536 :: int)" "2 * \<bar>tenths * 1024 ^ Suc e - 10 * 1536\<bar> \<le> 1024 ^ Suc e"
    "formatBytes 1536 = fixed1 tenths @ '' '' @ (if e < 4 then [''KB'', ''MB'', ''GB'', ''TB''] ! e else ''TB'')"
    using formatBytes_outcome [of 1536] by auto
  have "e = 0"
  proof (cases e)
    case (Suc k)
    have "(1 :: int) \<le> 1024 ^ k" by simp
    moreover have "1048576 * 1024 ^ k \<le> (1536 :: int)" using e(1) by (simp add: Suc)
    ultimately show ?thesis by linarith
  qed simp
  then show ?thesis using e(2,3) by auto
qed

section \<open>Choices are read back\<close>

lemma TrimSpace_Itoa: "0 \<le> n \<Longrightarrow> TrimSpace (Itoa n) = Itoa n"
proof (rule TrimSpace_visible)
  assume "0 \<le> n"
  moreover have "is_digit c \<Longrightarrow> visible c" for c by (simp add: is_digit_def visible_def)
  ultimately show "list_all visible (Itoa n)"
    using FormatUint_digits [of "nat n"] by (auto simp: FormatInt_def list_all_iff)
qed

text \<open>What a settings dialog shows for a value is read back as that value: every size limit, by a preset or as a
  custom number of bytes, and every number of days, up to the normalisation start-up applies anyway.\<close>

theorem settings_choices_read_back:
  assumes "0 \<le> n" "is_int64 n"
  shows "parseMaxSizeSelection (selectMaxSizePreset n global) (Itoa n) global = Inr n \<and>
    parseRetentionSelection (selectRetentionPreset days) = Inr (normalizeMessageRetentionDays days)"
proof
  show "parseMaxSizeSelection (selectMaxSizePreset n global) (Itoa n) global = Inr n"
    using assms TrimSpace_Itoa [OF assms(1)]
    by (auto simp: selectMaxSizePreset_def parseMaxSizeSelection_def maxSizePresetValues_def Atoi_Itoa)
  show "parseRetentionSelection (selectRetentionPreset days) = Inr (normalizeMessageRetentionDays days)"
    by (simp add: selectRetentionPreset_def parseRetentionSelection_def messageRetentionValues_def normalizeMessageRetentionDays_def)
qed

theorem settings_choices_read_back_witness:
  "parseMaxSizeSelection (selectMaxSizePreset 5 False) ''5'' False = Inr 5"
proof -
  have "Itoa 5 = ''5''" by code_simp
  then show ?thesis using settings_choices_read_back [of 5 False] by (simp add: is_int64_def)
qed

end
