(* ===== verification/Controller.thy ===== *)
theory Controller
  imports Lifecycle Discovery UiText
begin

text \<open>
  The controller of the user interface (\<open>src/ui\<close>): what it remembers and what its handlers do to that and to the
  peer manager, the discovery service, the store and the settings below it. The widgets are not modelled: a
  handler that reads an entry field takes its text as an argument, and what a label shows is a field of the
  record. Speed and remaining time are left out, as in theory \<open>FileTypes\<close>. The manager and the service are the
  \<open>Device\<close> and the \<open>Service\<close> of the theories imported; a controller exists only once both have started, so the
  checks for nil managers do not appear.
\<close>

section \<open>State\<close>

record UiEnv =
  ue_ce :: ConfigEnv
  ue_stamp :: string

abbreviation ue_fe :: "UiEnv \<Rightarrow> FileEnv" where "ue_fe ue \<equiv> ce_fe (ue_ce ue)"
abbreviation ue_ms :: "UiEnv \<Rightarrow> int" where "ue_ms ue \<equiv> fe_ms (ue_fe ue)"

record TransferProgress =
  tp_FileID :: string
  tp_Filename :: string
  tp_BytesTransferred :: int
  tp_TotalBytes :: int
  tp_Completed :: bool
  tp_Failed :: bool

text \<open>
  A request for a file waits in \<open>promptFileRequestDecision\<close> as a \<open>Prompt\<close>, numbered in the order of the calls:
  whether its window has been drawn (it is \<open>Gone\<close> when nothing is pending any more at that time), what its \<open>respond\<close>
  was first called with, and whether the call has returned.
  \<open>pt_dismiss\<close> is the prompt whose \<open>dismiss\<close> an entry of \<open>filePromptPending\<close> holds.
\<close>

record FileRequestNotification =
  fn_FileID :: string
  fn_FromDeviceID :: string
  fn_Filename :: string
  fn_Filesize :: int
  fn_Filetype :: string
  fn_Checksum :: string
  fn_IsFolder :: bool
  fn_FolderID :: string
  fn_TotalFiles :: int

record filePromptDecision =
  pd_Accept :: bool
  pd_RemoteCanceled :: bool

record filePromptState =
  pt_dismiss :: "nat option"
  pt_cancelRequested :: bool

datatype window = Unseen | Shown | Gone

record Prompt =
  pr_request :: FileRequestNotification
  pr_window :: window
  pr_decision :: "filePromptDecision option"
  pr_returned :: bool

record Controller =
  ct_device :: Device
  ct_service :: Service
  ct_air :: "Registration list"
  ct_cfg :: DeviceConfig
  ct_cfgPath :: string
  ct_dataDir :: string
  ct_identity :: LocalIdentity
  ct_listenPort :: int
  ct_peers :: "Peer list"
  ct_peerSettings :: "(string \<times> PeerSettings) list"
  ct_selected :: string
  ct_discovered :: "(string \<times> DiscoveredPeer) list"
  ct_rows :: "DiscoveredPeer list"
  ct_discoverySelect :: string
  ct_chatMessages :: "Message list"
  ct_chatFiles :: "chatFileEntry list"
  ct_transfers :: Transfers
  ct_searchQuery :: string
  ct_searchVisible :: bool
  ct_filesOnly :: bool
  ct_header :: "string \<times> string"
  ct_runtime :: "(string \<times> PeerRuntimeState) list"
  ct_foreground :: bool
  ct_pending :: "(string \<times> filePromptState) list"
  ct_prompts :: "Prompt list"
  ct_refreshing :: bool
  ct_status :: string
  ct_hint :: string
  ct_label :: string
  ct_log :: "string list"
  ct_notifications :: "(string \<times> string) list"
  ct_progress :: "(string \<times> TransferProgress) list"
  ct_stopped :: bool

abbreviation ct_store :: "Controller \<Rightarrow> Store" where "ct_store c \<equiv> mg_store (dv_mgr (ct_device c))"
abbreviation ct_localID :: "Controller \<Rightarrow> string" where "ct_localID c \<equiv> cf_DeviceID (ct_cfg c)"

definition on_device :: "(Device \<Rightarrow> Device) \<Rightarrow> Controller \<Rightarrow> Controller" where
  "on_device f c = c\<lparr>ct_device := f (ct_device c)\<rparr>"

definition run_device :: "(Device \<Rightarrow> 'r \<times> Device) \<Rightarrow> Controller \<Rightarrow> 'r \<times> Controller" where
  "run_device f c = (let (r, d) = f (ct_device c) in (r, c\<lparr>ct_device := d\<rparr>))"

definition ui_statement :: "stmt \<Rightarrow> Controller \<Rightarrow> go_error option \<times> Controller" where
  "ui_statement f = run_device (dv_statement f)"

section \<open>The status line and the log\<close>

definition maxRuntimeLogLines :: nat where "maxRuntimeLogLines = 500"

definition status_text :: "string \<Rightarrow> string" where
  "status_text message = (if TrimSpace message = [] then ''Ready'' else message)"

definition applyStatusLabel :: "string \<Rightarrow> Controller \<Rightarrow> Controller" where
  "applyStatusLabel message c = c\<lparr>ct_label := status_text message\<rparr>"

definition setStatus :: "UiEnv \<Rightarrow> string \<Rightarrow> Controller \<Rightarrow> Controller" where
  "setStatus ue message0 c =
     (let message = status_text message0;
          lines = ct_log c @ [ue_stamp ue @ '' '' @ message];
          kept = (if length lines > maxRuntimeLogLines then drop (length lines - maxRuntimeLogLines) lines else lines)
      in applyStatusLabel (if TrimSpace (ct_hint c) \<noteq> [] then ct_hint c else message)
           (c\<lparr>ct_status := message, ct_log := kept\<rparr>))"

definition failed :: "UiEnv \<Rightarrow> string \<Rightarrow> go_error \<Rightarrow> Controller \<Rightarrow> Controller" where
  "failed ue what e = setStatus ue (what @ '' failed: '' @ error_text e)"

definition setHoverHint :: "string \<Rightarrow> Controller \<Rightarrow> Controller" where
  "setHoverHint message0 c =
     (let message = TrimSpace message0
      in applyStatusLabel (if message \<noteq> [] then message else ct_status c) (c\<lparr>ct_hint := message\<rparr>))"

section \<open>Known peers\<close>

definition peerByID :: "string \<Rightarrow> Controller \<Rightarrow> Peer option" where
  "peerByID deviceID c = (if TrimSpace deviceID = [] then None else find (\<lambda>p. p_DeviceID p = deviceID) (ct_peers c))"

definition peerSettingsByID :: "string \<Rightarrow> Controller \<Rightarrow> PeerSettings option" where
  "peerSettingsByID deviceID c = (if TrimSpace deviceID = [] then None else map_of (ct_peerSettings c) deviceID)"

definition custom_name :: "PeerSettings option \<Rightarrow> string" where
  "custom_name settings = (case settings of None \<Rightarrow> [] | Some g \<Rightarrow> TrimSpace (g_CustomName g))"

definition peerDisplayName :: "Peer \<Rightarrow> Controller \<Rightarrow> string" where
  "peerDisplayName peer c =
     (let custom = custom_name (peerSettingsByID (p_DeviceID peer) c) in if custom \<noteq> [] then custom else p_DeviceName peer)"

text \<open>With the fallbacks of the chat header, the transcript and the dialogs.\<close>

definition full_name :: "Peer \<Rightarrow> Controller \<Rightarrow> string" where
  "full_name peer c =
     (let n1 = peerDisplayName peer c;
          n2 = (if TrimSpace n1 = [] then p_DeviceName peer else n1)
      in if TrimSpace n2 = [] then p_DeviceID peer else n2)"

definition peerTrustLevel :: "string \<Rightarrow> Controller \<Rightarrow> string" where
  "peerTrustLevel deviceID c =
     (case peerSettingsByID deviceID c of
        None \<Rightarrow> ''normal'' | Some g \<Rightarrow> if g_TrustLevel g = [] then ''normal'' else g_TrustLevel g)"

definition transferPeerName :: "string \<Rightarrow> Controller \<Rightarrow> string" where
  "transferPeerName deviceID c =
     (let fallback = (if TrimSpace deviceID \<noteq> [] then deviceID else ''Unknown Peer'') in
      case peerByID deviceID c of
        None \<Rightarrow> fallback
      | Some peer \<Rightarrow>
          let name = peerDisplayName peer c
          in if TrimSpace name \<noteq> [] then name
             else if TrimSpace (p_DeviceName peer) \<noteq> [] then p_DeviceName peer else fallback)"

definition isKnownPeer :: "string \<Rightarrow> Controller \<Rightarrow> bool" where
  "isKnownPeer deviceID c \<longleftrightarrow> TrimSpace deviceID \<noteq> [] \<and> (\<exists>p \<in> set (ct_peers c). p_DeviceID p = deviceID)"

section \<open>Connection states\<close>

definition runtimeStateForPeer :: "string \<Rightarrow> Controller \<Rightarrow> PeerRuntimeState" where
  "runtimeStateForPeer peer c =
     (if TrimSpace peer = [] then zero_state
      else
        let known = (case map_of (ct_runtime c) peer of
                       Some s \<Rightarrow> s
                     | None \<Rightarrow> zero_state\<lparr>ps_PeerDeviceID := peer, ps_ConnectionState := StateDisconnected\<rparr>);
            state = known\<lparr>ps_ConnectionState := PeerConnectionState peer (ct_device c)\<rparr>;
            snapshot = PeerRuntimeStateSnapshot peer (ct_device c)
        in if ps_PeerDeviceID snapshot = [] then state
           else if ps_Reconnecting snapshot then
             state\<lparr>ps_Reconnecting := True, ps_NextReconnectAt := ps_NextReconnectAt snapshot\<rparr>
           else if ps_Reconnecting state \<and> ps_NextReconnectAt snapshot = 0 then
             state\<lparr>ps_Reconnecting := False, ps_NextReconnectAt := 0\<rparr>
           else state)"

definition peersOnlineCount :: "Controller \<Rightarrow> nat" where
  "peersOnlineCount c =
     length (filter (\<lambda>p. ps_ConnectionState (runtimeStateForPeer (p_DeviceID p) c) \<in> {StateReady, StateIdle}) (ct_peers c))"

text \<open>\<open>seconds\<close> is \<open>String\<close> of a duration rounded to seconds.\<close>

definition peerStatePresentation :: "(int \<Rightarrow> string) \<Rightarrow> int \<Rightarrow> Peer \<Rightarrow> PeerRuntimeState \<Rightarrow> string" where
  "peerStatePresentation seconds now peer state =
     (let stored = (if EqualFold (p_Status peer) ''online'' then ''Online'' else ''Offline'') in
      if ps_Reconnecting state \<and> ps_NextReconnectAt state > 0 then
        ''Reconnecting in '' @ seconds (max 0 (ps_NextReconnectAt state - now)) @ ''...''
      else case ps_ConnectionState state of
        StateConnecting \<Rightarrow> ''Connecting...''
      | StateDisconnecting \<Rightarrow> ''Disconnecting...''
      | StateReady \<Rightarrow> ''Online''
      | StateIdle \<Rightarrow> ''Online''
      | _ \<Rightarrow> stored)"

section \<open>The conversation\<close>

definition refreshChatView :: "UiEnv \<Rightarrow> Controller \<Rightarrow> Controller" where
  "refreshChatView ue c =
     (let peer = ct_selected c in
      if peer = [] then c\<lparr>ct_chatMessages := [], ct_chatFiles := []\<rparr>
      else
        let query = TrimSpace (ct_searchQuery c) in
        case (if ct_filesOnly c then Inr []
              else if query \<noteq> [] then SearchMessages peer query 2000 0 (ct_store c)
              else GetMessages peer 2000 0 (ct_store c)) of
          Inl e \<Rightarrow> failed ue ''Load messages'' e c
        | Inr messages \<Rightarrow>
            (case (if query \<noteq> [] then SearchFilesForPeer peer query 2000 0 (ct_store c)
                   else ListFilesForPeer peer 2000 0 (ct_store c)) of
               Inl e \<Rightarrow> failed ue ''Load files'' e c
             | Inr files \<Rightarrow>
                 c\<lparr>ct_chatMessages := messages,
                   ct_chatFiles := mergeChatFilesForPeer (ct_localID c) peer files (ct_transfers c)\<rparr>))"

definition refreshChatForPeer :: "UiEnv \<Rightarrow> string \<Rightarrow> Controller \<Rightarrow> Controller" where
  "refreshChatForPeer ue peer c = (if peer = [] \<or> ct_selected c \<noteq> peer then c else refreshChatView ue c)"

text \<open>The rows shown, or none while nothing is there.\<close>

definition renderChatTranscript :: "Controller \<Rightarrow> row list" where
  "renderChatTranscript c = buildConversationRows (ct_chatMessages c) (ct_chatFiles c)"

definition updateChatHeader :: "Controller \<Rightarrow> Controller" where
  "updateChatHeader c =
     (case (if ct_selected c = [] then None else peerByID (ct_selected c) c) of
        Some peer \<Rightarrow> c\<lparr>ct_header := (full_name peer c, shorten 12 6 (ct_selected c))\<rparr>
      | None \<Rightarrow>
          c\<lparr>ct_header := (''Select a peer to start chatting'', []), ct_searchVisible := False, ct_searchQuery := [],
            ct_filesOnly := False\<rparr>)"

definition handlePeerRuntimeStateChanged :: "PeerRuntimeState \<Rightarrow> Controller \<Rightarrow> Controller" where
  "handlePeerRuntimeStateChanged state c =
     (if TrimSpace (ps_PeerDeviceID state) = [] then c
      else updateChatHeader (c\<lparr>ct_runtime := AList.update (ps_PeerDeviceID state) state (ct_runtime c)\<rparr>))"

definition toggleChatSearch :: "UiEnv \<Rightarrow> Controller \<Rightarrow> Controller" where
  "toggleChatSearch ue c =
     (if ct_selected c = [] then c
      else
        let visible = \<not> ct_searchVisible c;
            c1 = c\<lparr>ct_searchVisible := visible\<rparr>
        in refreshChatView ue (if visible then c1 else c1\<lparr>ct_searchQuery := [], ct_filesOnly := False\<rparr>))"

text \<open>The fields of the search bar.\<close>

definition search_changed :: "UiEnv \<Rightarrow> string \<Rightarrow> Controller \<Rightarrow> Controller" where
  "search_changed ue v c = refreshChatView ue (c\<lparr>ct_searchQuery := TrimSpace v\<rparr>)"

definition files_only_changed :: "UiEnv \<Rightarrow> bool \<Rightarrow> Controller \<Rightarrow> Controller" where
  "files_only_changed ue checked c = refreshChatView ue (c\<lparr>ct_filesOnly := checked\<rparr>)"

section \<open>Discovered peers\<close>

definition listDiscoveredSnapshot :: "Controller \<Rightarrow> DiscoveredPeer list" where
  "listDiscoveredSnapshot c = sort_key (\<lambda>p. (dp_DeviceName p, dp_DeviceID p)) (map snd (ct_discovered c))"

definition discoveryPeerByIndex :: "int \<Rightarrow> Controller \<Rightarrow> DiscoveredPeer option" where
  "discoveryPeerByIndex index c =
     (if index < 0 \<or> index \<ge> int (length (ct_rows c)) then None else Some (ct_rows c ! nat index))"

definition discoveryPeerByDeviceID :: "string \<Rightarrow> Controller \<Rightarrow> DiscoveredPeer option" where
  "discoveryPeerByDeviceID deviceID c =
     (let i = TrimSpace deviceID in if i = [] then None else find (\<lambda>p. dp_DeviceID p = i) (ct_rows c))"

fun index_of :: "('a \<Rightarrow> bool) \<Rightarrow> 'a list \<Rightarrow> int \<Rightarrow> int" where
  "index_of P [] i = - 1"
| "index_of P (x # xs) i = (if P x then i else index_of P xs (i + 1))"

definition discoveryIndexByDeviceID :: "string \<Rightarrow> Controller \<Rightarrow> int" where
  "discoveryIndexByDeviceID deviceID c =
     (let i = TrimSpace deviceID in if i = [] then - 1 else index_of (\<lambda>p. dp_DeviceID p = i) (ct_rows c) 0)"

definition refreshDiscoveryRows :: "Controller \<Rightarrow> Controller" where
  "refreshDiscoveryRows c =
     (let c1 = c\<lparr>ct_rows := listDiscoveredSnapshot c\<rparr>
      in if ct_discoverySelect c1 \<noteq> [] \<and> discoveryPeerByDeviceID (ct_discoverySelect c1) c1 = None
         then c1\<lparr>ct_discoverySelect := []\<rparr> else c1)"

definition canAddDiscoveredPeer :: "DiscoveredPeer option \<Rightarrow> Controller \<Rightarrow> bool" where
  "canAddDiscoveredPeer peer c \<longleftrightarrow>
     (case peer of None \<Rightarrow> False | Some p \<Rightarrow> \<not> isKnownPeer (dp_DeviceID p) c \<and> dp_Addresses p \<noteq> [])"

definition add_enabled :: "Controller \<Rightarrow> bool" where
  "add_enabled c \<longleftrightarrow> canAddDiscoveredPeer (discoveryPeerByDeviceID (ct_discoverySelect c) c) c"

text \<open>The dialog: opened, a row of its list selected, and closed.\<close>

definition showDiscoveryDialog :: "Controller \<Rightarrow> Controller" where
  "showDiscoveryDialog c = refreshDiscoveryRows (c\<lparr>ct_discoverySelect := []\<rparr>)"

definition discovery_selected :: "int \<Rightarrow> Controller \<Rightarrow> Controller" where
  "discovery_selected index c =
     c\<lparr>ct_discoverySelect := (case discoveryPeerByIndex index c of None \<Rightarrow> [] | Some p \<Rightarrow> dp_DeviceID p)\<rparr>"

definition closeDiscoveryDialog :: "Controller \<Rightarrow> Controller" where
  "closeDiscoveryDialog c = c\<lparr>ct_discoverySelect := []\<rparr>"

definition discoveryDisplayName :: "DiscoveredPeer \<Rightarrow> Controller \<Rightarrow> string" where
  "discoveryDisplayName peer c =
     (let name = TrimSpace (dp_DeviceName peer);
          known = (case peerByID (dp_DeviceID peer) c of None \<Rightarrow> [] | Some k \<Rightarrow> TrimSpace (peerDisplayName k c));
          peerID = TrimSpace (dp_DeviceID peer)
      in if name \<noteq> [] \<and> name \<noteq> ''...'' \<and> \<not> EqualFold name ''unknown peer'' then name
         else if known \<noteq> [] then known
         else if name \<noteq> [] then name
         else if peerID = [] then ''Unknown peer''
         else shorten 18 8 peerID)"

definition discoveredPeerAddress :: "DiscoveredPeer \<Rightarrow> string res" where
  "discoveredPeerAddress peer =
     (if dp_Port peer \<le> 0 then Inl (Err ''peer has invalid port'')
      else case filter (\<lambda>a. a \<noteq> []) (map TrimSpace (dp_Addresses peer)) of
        [] \<Rightarrow> Inl (Err ''peer has no reachable addresses'')
      | a # _ \<Rightarrow> Inr (JoinHostPort a (Itoa (dp_Port peer))))"

definition tryReconnectDiscoveredPeer :: "UiEnv \<Rightarrow> DiscoveredPeer \<Rightarrow> Controller \<Rightarrow> Controller" where
  "tryReconnectDiscoveredPeer ue peer c =
     (if dp_Addresses peer = [] \<or> dp_Port peer \<le> 0 \<or> \<not> isKnownPeer (dp_DeviceID peer) c then c
      else on_device (NotifyPeerDiscoveredEndpoints (ue_fe ue) (dp_DeviceID peer) (dp_DeviceName peer)
             (dp_Addresses peer) (dp_Port peer)) c)"

definition reconnectDiscoveredKnownPeers :: "UiEnv \<Rightarrow> Controller \<Rightarrow> Controller" where
  "reconnectDiscoveredKnownPeers ue c = fold (tryReconnectDiscoveredPeer ue) (listDiscoveredSnapshot c) c"

text \<open>One turn of \<open>discoveryEventLoop\<close>: the oldest event of the scanner's channel.\<close>

definition note_event :: "Event \<Rightarrow> Controller \<Rightarrow> Controller" where
  "note_event ev c =
     (let i = dp_DeviceID (ev_Peer ev) in
      c\<lparr>ct_discovered := (case ev_Type ev of
          EventPeerUpserted \<Rightarrow> AList.update i (ev_Peer ev) (ct_discovered c)
        | EventPeerRemoved \<Rightarrow> AList.delete i (ct_discovered c))\<rparr>)"

definition on_scanner :: "(PeerScanner \<Rightarrow> PeerScanner) \<Rightarrow> Controller \<Rightarrow> Controller" where
  "on_scanner f c = c\<lparr>ct_service := (ct_service c)\<lparr>sv_Scanner := f (sv_Scanner (ct_service c))\<rparr>\<rparr>"

definition discoveryEventLoop_turn :: "UiEnv \<Rightarrow> Controller \<Rightarrow> Controller" where
  "discoveryEventLoop_turn ue c =
     (case sc_events (sv_Scanner (ct_service c)) of
        [] \<Rightarrow> c
      | ev # rest \<Rightarrow>
          let c1 = refreshDiscoveryRows (note_event ev (on_scanner (\<lambda>s. s\<lparr>sc_events := rest\<rparr>) c))
          in if ev_Type ev = EventPeerUpserted then tryReconnectDiscoveredPeer ue (ev_Peer ev) c1 else c1)"

definition syncDiscoveredFromScanner :: "Controller \<Rightarrow> Controller" where
  "syncDiscoveredFromScanner c =
     refreshDiscoveryRows
       (c\<lparr>ct_discovered := fold (\<lambda>p. AList.update (dp_DeviceID p) p) (scanner_ListPeers (sv_Scanner (ct_service c))) []\<rparr>)"

text \<open>\<open>refreshDiscovery\<close> up to the scan it asks for, and from the end of that scan on.\<close>

definition refreshDiscovery_start :: "UiEnv \<Rightarrow> Controller \<Rightarrow> Controller" where
  "refreshDiscovery_start ue c =
     (if ct_refreshing c then setStatus ue ''Discovery refresh already in progress'' c else c\<lparr>ct_refreshing := True\<rparr>)"

definition refreshDiscovery_end :: "UiEnv \<Rightarrow> go_error option \<Rightarrow> Controller \<Rightarrow> Controller" where
  "refreshDiscovery_end ue r c =
     (let c1 = (case r of
          Some e \<Rightarrow>
            if errors_Is e DeadlineExceeded
            then setStatus ue ''Discovery refresh timed out; a previous scan may still be in progress'' c
            else failed ue ''Discovery refresh'' e c
        | None \<Rightarrow> setStatus ue ''Discovery refreshed'' (syncDiscoveredFromScanner c))
      in c1\<lparr>ct_refreshing := False\<rparr>)"

text \<open>What discovery may match tokens against: the peers of the store and the device itself.\<close>

definition discoveryKnownPeers :: "LocalIdentity \<Rightarrow> Store \<Rightarrow> KnownPeerIdentity list" where
  "discoveryKnownPeers identity s =
     map (\<lambda>p. \<lparr>kp_DeviceID = TrimSpace (p_DeviceID p), kp_Ed25519PublicKey = TrimSpace (p_Ed25519PublicKey p)\<rparr>)
       (filter (\<lambda>p. TrimSpace (p_DeviceID p) \<noteq> [] \<and> TrimSpace (p_Ed25519PublicKey p) \<noteq> []) (StorePeers.ListPeers s)) @
     [\<lparr>kp_DeviceID = id_DeviceID identity, kp_Ed25519PublicKey = EncodeToString (id_Ed25519PublicKey identity)\<rparr>]"

section \<open>The list of peers\<close>

text \<open>The loop that loads the settings of the peers: a failure is shown and the peer goes without.\<close>

fun load_settings :: "UiEnv \<Rightarrow> Peer list \<Rightarrow> Controller \<Rightarrow> (string \<times> PeerSettings) list \<times> Controller" where
  "load_settings ue [] c = ([], c)"
| "load_settings ue (p # ps) c =
     (case ui_statement (EnsurePeerSettingsExist (p_DeviceID p)) c of
        (Some e, c1) \<Rightarrow> load_settings ue ps (failed ue ''Ensure peer settings'' e c1)
      | (None, c1) \<Rightarrow>
          (case GetPeerSettings (p_DeviceID p) (ct_store c1) of
             Inl e \<Rightarrow> load_settings ue ps (failed ue ''Load peer settings'' e c1)
           | Inr g \<Rightarrow> apfst (\<lambda>gs. (p_DeviceID p, g) # gs) (load_settings ue ps c1)))"

definition sorted_name :: "(string \<times> PeerSettings) list \<Rightarrow> Peer \<Rightarrow> string" where
  "sorted_name settings p =
     (let custom = custom_name (map_of settings (p_DeviceID p)) in if custom \<noteq> [] then custom else TrimSpace (p_DeviceName p))"

definition refreshPeersFromStore :: "UiEnv \<Rightarrow> Controller \<Rightarrow> Controller" where
  "refreshPeersFromStore ue c =
     (let others = filter (\<lambda>p. p_DeviceID p \<noteq> ct_localID c) (StorePeers.ListPeers (ct_store c));
          (settings, c1) = load_settings ue others c;
          peers = sort_key (\<lambda>p. (sorted_name settings p, p_DeviceID p)) others;
          selected = (if ct_selected c1 \<in> p_DeviceID ` set peers then ct_selected c1 else []);
          c2 = updateChatHeader (c1\<lparr>ct_peers := peers, ct_peerSettings := settings, ct_selected := selected\<rparr>)
      in refreshDiscoveryRows (if selected = [] then refreshChatView ue c2 else c2))"

definition peerByIndex :: "int \<Rightarrow> Controller \<Rightarrow> Peer option" where
  "peerByIndex index c =
     (if index < 0 \<or> index \<ge> int (length (ct_peers c)) then None else Some (ct_peers c ! nat index))"

definition selectPeerByIndex :: "UiEnv \<Rightarrow> int \<Rightarrow> Controller \<Rightarrow> Controller" where
  "selectPeerByIndex ue index c =
     (case peerByIndex index c of
        None \<Rightarrow> c
      | Some p \<Rightarrow> refreshChatView ue (updateChatHeader (c\<lparr>ct_selected := p_DeviceID p\<rparr>)))"

text \<open>Adding a discovered peer: up to the request sent, and from the answer on. \<open>Inr\<close> carries the peer asked.\<close>

definition addDiscoveredPeer ::
    "UiEnv \<Rightarrow> DialNet \<Rightarrow> string option \<Rightarrow> DiscoveredPeer \<Rightarrow> Controller \<Rightarrow> string option \<times> Controller" where
  "addDiscoveredPeer ue net remote peer c =
     (case discoveredPeerAddress peer of
        Inl e \<Rightarrow> (None, setStatus ue (error_text e) c)
      | Inr address \<Rightarrow>
          (let c1 = setStatus ue (''Connecting to '' @ valueOrDefault (dp_DeviceName peer) (dp_DeviceID peer)) c in
           case run_device (Connect (ue_fe ue) net remote address) c1 of
             (Inl e, c2) \<Rightarrow> (None, failed ue ''Connect'' e c2)
           | (Inr i, c2) \<Rightarrow>
               let target = or_text (peer_of (dv_mgr (ct_device c2)) i) (dp_DeviceID peer)
               in (case run_device (SendPeerAddRequest (ue_fe ue) target) c2 of
                     (Inl e, c3) \<Rightarrow> (None, failed ue ''Send add request'' e c3)
                   | (Inr _, c3) \<Rightarrow> (Some target, c3))))"

definition add_answered :: "UiEnv \<Rightarrow> DiscoveredPeer \<Rightarrow> string \<Rightarrow> AddWait \<Rightarrow> add_answer \<Rightarrow> Controller \<Rightarrow> Controller" where
  "add_answered ue peer target w ans c =
     (case run_device (add_request_ends (ue_fe ue) w ans) c of
        (Inl e, c1) \<Rightarrow> failed ue ''Send add request'' e c1
      | (Inr False, c1) \<Rightarrow> setStatus ue (''Peer request rejected by '' @ valueOrDefault (dp_DeviceName peer) target) c1
      | (Inr True, c1) \<Rightarrow>
          setStatus ue (''Added peer '' @ valueOrDefault (dp_DeviceName peer) target) (refreshPeersFromStore ue c1))"

text \<open>The end of a prompt for a peer that wants to be added; no answer means that the program stops.\<close>

definition promptIncomingPeerAddRequest ::
    "UiEnv \<Rightarrow> AddRequestNotification \<Rightarrow> bool option \<Rightarrow> Controller \<Rightarrow> bool res \<times> Controller" where
  "promptIncomingPeerAddRequest ue req answer c =
     (let n = TrimSpace (an_PeerDeviceName req); i = TrimSpace (an_PeerDeviceID req);
          name = (if n \<noteq> [] then n else if i \<noteq> [] then i else ''Unknown peer'') in
      case answer of
        None \<Rightarrow> (Inl (Err ''application is shutting down''), c)
      | Some accept \<Rightarrow>
          (Inr accept, setStatus ue ((if accept then ''Accepted peer request from '' else ''Rejected peer request from '') @ name) c))"

text \<open>One turn of \<open>pendingAddRequestLoop\<close>, and the two loops that only show.\<close>

definition pendingAddRequestLoop_turn :: "UiEnv \<Rightarrow> AddRequestNotification \<Rightarrow> bool option \<Rightarrow> Controller \<Rightarrow> Controller" where
  "pendingAddRequestLoop_turn ue req answer c =
     (let (accept, c1) =
            (case promptIncomingPeerAddRequest ue req answer c of
               (Inl e, c0) \<Rightarrow> (False, failed ue ''Peer add prompt'' e c0)
             | (Inr a, c0) \<Rightarrow> (a, c0));
          (e, c2) = run_device (ApprovePeerAdd (an_PeerDeviceID req) accept) c1
      in refreshPeersFromStore ue (case e of Some err \<Rightarrow> failed ue ''Approve peer add'' err c2 | None \<Rightarrow> c2))"

definition managerErrorLoop_turn :: "UiEnv \<Rightarrow> go_error \<Rightarrow> Controller \<Rightarrow> Controller" where
  "managerErrorLoop_turn ue e = setStatus ue (error_text e)"

definition pollLoop_tick :: "UiEnv \<Rightarrow> Controller \<Rightarrow> Controller" where
  "pollLoop_tick ue c = refreshChatView ue (refreshPeersFromStore ue c)"

section \<open>Notifications\<close>

definition shouldSendNotification :: "string \<Rightarrow> Controller \<Rightarrow> bool" where
  "shouldSendNotification peer c \<longleftrightarrow>
     cf_NotificationsEnabled (ct_cfg c) \<and>
     \<not> (case (case peerSettingsByID peer c of
               Some g \<Rightarrow> Some g
             | None \<Rightarrow> (case GetPeerSettings peer (ct_store c) of Inr g \<Rightarrow> Some g | Inl _ \<Rightarrow> None)) of
          Some g \<Rightarrow> g_NotificationsMuted g | None \<Rightarrow> False) \<and>
     (ct_selected c \<noteq> peer \<or> \<not> ct_foreground c)"

definition sendDesktopNotification :: "string \<Rightarrow> string \<Rightarrow> Controller \<Rightarrow> Controller" where
  "sendDesktopNotification title content c = c\<lparr>ct_notifications := ct_notifications c @ [(title, content)]\<rparr>"

definition maybeNotifyIncomingMessage :: "Message \<Rightarrow> Controller \<Rightarrow> Controller" where
  "maybeNotifyIncomingMessage message c =
     (let peer = TrimSpace (m_FromDeviceID message) in
      if peer = [] \<or> \<not> shouldSendNotification peer c then c
      else sendDesktopNotification (''New message from '' @ transferPeerName peer c) (notification_text (m_Content message)) c)"

definition maybeNotifyIncomingFileRequest :: "FileRequestNotification \<Rightarrow> Controller \<Rightarrow> Controller" where
  "maybeNotifyIncomingFileRequest req c =
     (let peer = TrimSpace (fn_FromDeviceID req) in
      if peer = [] \<or> \<not> shouldSendNotification peer c then c
      else
        let name0 = TrimSpace (fn_Filename req);
            name = (if name0 = [] then if fn_IsFolder req then ''Unnamed folder'' else ''Unnamed file'' else name0);
            sender = transferPeerName peer c
        in if fn_IsFolder req
           then sendDesktopNotification ''Incoming folder request''
                  (sender @ '' wants to send folder '' @ name @ '' ('' @ Itoa (fn_TotalFiles req) @ '' file(s))'') c
           else sendDesktopNotification ''Incoming file request'' (sender @ '' wants to send '' @ name) c)"

definition handleIncomingMessage :: "UiEnv \<Rightarrow> Message \<Rightarrow> Controller \<Rightarrow> Controller" where
  "handleIncomingMessage ue message c =
     maybeNotifyIncomingMessage message (refreshPeersFromStore ue (refreshChatView ue c))"

section \<open>Prompts for files\<close>

definition upd_prompt :: "nat \<Rightarrow> (Prompt \<Rightarrow> Prompt) \<Rightarrow> Controller \<Rightarrow> Controller" where
  "upd_prompt k f c = (if k < length (ct_prompts c) then c\<lparr>ct_prompts := (ct_prompts c)[k := f (ct_prompts c ! k)]\<rparr> else c)"

definition ui_upsert :: "UiEnv \<Rightarrow> chatFileEntry \<Rightarrow> Controller \<Rightarrow> Controller" where
  "ui_upsert ue entry c = c\<lparr>ct_transfers := upsertFileTransfer (ue_ms ue) entry (ct_transfers c)\<rparr>"

text \<open>The call up to the window it asks for; a second call for the same identifier returns at once.\<close>

definition prompt_open :: "FileRequestNotification \<Rightarrow> Controller \<Rightarrow> nat res \<times> Controller" where
  "prompt_open req c =
     (if map_of (ct_pending c) (fn_FileID req) \<noteq> None then (Inl ErrFileRequestDismissed, c)
      else (Inr (length (ct_prompts c)),
        maybeNotifyIncomingFileRequest req
          (c\<lparr>ct_pending := AList.update (fn_FileID req) \<lparr>pt_dismiss = None, pt_cancelRequested = False\<rparr> (ct_pending c),
             ct_prompts := ct_prompts c @
               [\<lparr>pr_request = req, pr_window = Unseen, pr_decision = None, pr_returned = False\<rparr>]\<rparr>)))"

text \<open>\<open>respond\<close> of prompt \<open>k\<close>: only its first call counts.\<close>

definition prompt_respond :: "nat \<Rightarrow> filePromptDecision \<Rightarrow> Controller \<Rightarrow> Controller" where
  "prompt_respond k result c =
     (if k \<ge> length (ct_prompts c) \<or> pr_decision (ct_prompts c ! k) \<noteq> None then c
      else upd_prompt k (\<lambda>p. p\<lparr>pr_decision := Some result\<rparr>)
             (c\<lparr>ct_pending := AList.delete (fn_FileID (pr_request (ct_prompts c ! k))) (ct_pending c)\<rparr>))"

definition prompt_dismiss :: "nat \<Rightarrow> bool \<Rightarrow> Controller \<Rightarrow> Controller" where
  "prompt_dismiss k remoteCanceled = prompt_respond k \<lparr>pd_Accept = False, pd_RemoteCanceled = remoteCanceled\<rparr>"

text \<open>The window is drawn, unless the sender has canceled before.\<close>

definition prompt_draw :: "nat \<Rightarrow> Controller \<Rightarrow> Controller" where
  "prompt_draw k c =
     (if k \<ge> length (ct_prompts c) \<or> pr_window (ct_prompts c ! k) \<noteq> Unseen then c
      else
        let i = fn_FileID (pr_request (ct_prompts c ! k)) in
        case map_of (ct_pending c) i of
             None \<Rightarrow> upd_prompt k (\<lambda>p. p\<lparr>pr_window := Gone\<rparr>) c
           | Some st \<Rightarrow>
               let c1 = upd_prompt k (\<lambda>p. p\<lparr>pr_window := Shown\<rparr>)
                          (c\<lparr>ct_pending := AList.update i (st\<lparr>pt_dismiss := Some k\<rparr>) (ct_pending c)\<rparr>)
               in if pt_cancelRequested st then prompt_dismiss k True c1 else c1)"

text \<open>The buttons of the window.\<close>

definition prompt_click :: "nat \<Rightarrow> bool \<Rightarrow> Controller \<Rightarrow> Controller" where
  "prompt_click k accept c =
     (if k < length (ct_prompts c) \<and> pr_window (ct_prompts c ! k) = Shown
      then prompt_respond k \<lparr>pd_Accept = accept, pd_RemoteCanceled = False\<rparr> c else c)"

definition dismissPendingFilePrompt :: "string \<Rightarrow> Controller \<Rightarrow> bool \<times> Controller" where
  "dismissPendingFilePrompt fileID0 c =
     (let fileID = TrimSpace fileID0 in
      if fileID = [] then (False, c)
      else case map_of (ct_pending c) fileID of
        None \<Rightarrow> (False, c)
      | Some st \<Rightarrow>
          (True, case pt_dismiss st of
             None \<Rightarrow> c\<lparr>ct_pending := AList.update fileID (st\<lparr>pt_cancelRequested := True\<rparr>) (ct_pending c)\<rparr>
           | Some k \<Rightarrow> prompt_dismiss k True c))"

text \<open>The update of the table for a decided request.\<close>

definition prompt_entry :: "UiEnv \<Rightarrow> FileRequestNotification \<Rightarrow> string \<Rightarrow> bool \<Rightarrow> chatFileEntry" where
  "prompt_entry ue req status ended =
     no_entry\<lparr>cfe_FileID := fn_FileID req, cfe_PeerDeviceID := fn_FromDeviceID req, cfe_Direction := ''receive'',
       cfe_Filename := fn_Filename req, cfe_Filesize := fn_Filesize req, cfe_Filetype := fn_Filetype req,
       cfe_AddedAt := ue_ms ue, cfe_Status := status, cfe_TransferCompleted := ended\<rparr>"

text \<open>
  The call of prompt \<open>k\<close> goes on when a decision is there, or when the program stops (\<open>stopping\<close>, which \<open>select\<close> may
  choose although a decision is there); \<open>None\<close> while it waits.
\<close>

definition prompt_return :: "UiEnv \<Rightarrow> bool \<Rightarrow> nat \<Rightarrow> Controller \<Rightarrow> bool res option \<times> Controller" where
  "prompt_return ue stopping k c =
     (if k \<ge> length (ct_prompts c) \<or> pr_returned (ct_prompts c ! k) then (None, c)
      else
        let p = ct_prompts c ! k; req = pr_request p; c1 = upd_prompt k (\<lambda>p. p\<lparr>pr_returned := True\<rparr>) c in
        if ct_stopped c \<and> stopping then
          (Some (Inl (Err ''application is shutting down'')), c1\<lparr>ct_pending := AList.delete (fn_FileID req) (ct_pending c)\<rparr>)
        else case pr_decision p of
          None \<Rightarrow> (None, c)
        | Some result \<Rightarrow>
            if pd_RemoteCanceled result then
              (Some (Inl ErrFileRequestDismissed),
               refreshChatForPeer ue (fn_FromDeviceID req)
                 (if fn_IsFolder req then c1 else ui_upsert ue (prompt_entry ue req ''canceled'' True) c1))
            else
              (Some (Inr (pd_Accept result)),
               refreshChatForPeer ue (fn_FromDeviceID req)
                 (if fn_IsFolder req then c1
                  else ui_upsert ue (prompt_entry ue req (if pd_Accept result then ''accepted'' else ''rejected'') False) c1)))"

section \<open>Progress\<close>

definition UpdateProgress :: "TransferProgress \<Rightarrow> (string \<times> TransferProgress) list \<Rightarrow> (string \<times> TransferProgress) list" where
  "UpdateProgress p table = (if tp_FileID p = [] then table else AList.update (tp_FileID p) p table)"

definition Progress :: "string \<Rightarrow> (string \<times> TransferProgress) list \<Rightarrow> TransferProgress option" where
  "Progress fileID table = (if fileID = [] then None else map_of table fileID)"

text \<open>The first selected path; the picker is the system's, its result an argument.\<close>

definition PickFile :: "string list res \<Rightarrow> string res" where
  "PickFile picked = (case picked of Inl e \<Rightarrow> Inl e | Inr [] \<Rightarrow> Inl (Err ''no file selected'') | Inr (p # _) \<Rightarrow> Inr p)"

definition withdraw_reported :: "chatFileEntry \<Rightarrow> Controller \<Rightarrow> Controller" where
  "withdraw_reported reported c =
     (if EqualFold (cfe_Direction reported) ''receive'' \<and> EqualFold (cfe_Status reported) ''canceled''
      then snd (dismissPendingFilePrompt (cfe_FileID reported) c) else c)"

definition shown_progress :: "chatFileEntry \<Rightarrow> TransferProgress" where
  "shown_progress e =
     \<lparr>tp_FileID = cfe_FileID e, tp_Filename = cfe_Filename e, tp_BytesTransferred = cfe_BytesTransferred e,
      tp_TotalBytes = cfe_TotalBytes e, tp_Completed = cfe_TransferCompleted e,
      tp_Failed = (EqualFold (cfe_Status e) ''failed'' \<or> EqualFold (cfe_Status e) ''rejected'')\<rparr>"

definition note_progress :: "UiEnv \<Rightarrow> chatFileEntry \<Rightarrow> Controller \<Rightarrow> Controller" where
  "note_progress ue e c =
     (let c1 = ui_upsert ue e c; c2 = c1\<lparr>ct_progress := UpdateProgress (shown_progress e) (ct_progress c1)\<rparr>
      in if cfe_PeerDeviceID e \<noteq> [] \<and> cfe_TransferCompleted e then refreshChatForPeer ue (cfe_PeerDeviceID e) c2 else c2)"

definition handleFileProgress :: "UiEnv \<Rightarrow> FileProgress \<Rightarrow> Controller \<Rightarrow> Controller" where
  "handleFileProgress ue p c =
     (let c1 = withdraw_reported (reported_entry p) c
      in note_progress ue (progress_entry (ue_ms ue) (ct_localID c1) (ct_store c1) p) c1)"

text \<open>The transfers of a peer that run now, of which the bar of the list of peers shows the mean of the fractions.\<close>

definition running_transfers :: "string \<Rightarrow> Transfers \<Rightarrow> chatFileEntry list" where
  "running_transfers peer table =
     (if TrimSpace peer = [] then []
      else filter (\<lambda>e. cfe_PeerDeviceID e = peer \<and> \<not> cfe_TransferCompleted e \<and> EqualFold (cfe_Status e) ''accepted'')
             (map snd table))"

end
