(* ===== verification/UserActions.thy ===== *)
theory UserActions
  imports Controller
begin

text \<open>
  What the user does in the interface (\<open>src/ui\<close>): sending messages, files and folders, canceling and repeating
  transfers, the settings of the device and of a peer, new keys, and the start and the end of the controller. A dialog
  is the record of what its fields hold (\<open>SettingsForm\<close>, \<open>PeerForm\<close>); the handler of its Save button takes it. The
  goroutines started by a handler are the operations here; what such a goroutine waits for ends one operation
  and starts another. The paths of key files live on the separate file system of theory \<open>Crypto\<close>.
\<close>

section \<open>Messages and files\<close>

definition run_at_manager :: "(Manager \<Rightarrow> 'r \<times> Manager) \<Rightarrow> Controller \<Rightarrow> 'r \<times> Controller" where
  "run_at_manager f = run_device (run_manager f)"

definition run_at_node :: "(Node \<Rightarrow> 'r \<times> Node) \<Rightarrow> Controller \<Rightarrow> 'r \<times> Controller" where
  "run_at_node f = run_device (run_node f)"

text \<open>\<open>None\<close> in the middle of the result of \<open>SendTextMessage\<close> is a queue limit that cannot be met.\<close>

definition sendCurrentMessage :: "UiEnv \<Rightarrow> string \<Rightarrow> Controller \<Rightarrow> Controller" where
  "sendCurrentMessage ue text0 c =
     (let peer = ct_selected c; content = TrimSpace text0 in
      if peer = [] then setStatus ue ''Select a peer before sending a message'' c
      else if content = [] then c
      else case run_at_manager (SendTextMessage (fe_env (ue_fe ue)) (uuid_NewString (ue_fe ue) 0) peer content) c of
        (Some (Some e), c1) \<Rightarrow> failed ue ''Send message'' e c1
      | (_, c1) \<Rightarrow> refreshChatForPeer ue peer c1)"

text \<open>
  The goroutine of \<open>queuePathsForPeer\<close>: the paths still to send, what it has counted, and the folder whose answer
  it waits for.
\<close>

record Queueing =
  qp_peer :: string
  qp_paths :: "string list"
  qp_files :: nat
  qp_folders :: nat
  qp_waits :: "(string \<times> FolderSend) option"

definition queuePathsForPeer :: "string \<Rightarrow> string list \<Rightarrow> Queueing option" where
  "queuePathsForPeer peer paths =
     (if TrimSpace peer = [] then None
      else Some \<lparr>qp_peer = peer, qp_paths = paths, qp_files = 0, qp_folders = 0, qp_waits = None\<rparr>)"

definition queued_entry :: "UiEnv \<Rightarrow> string \<Rightarrow> string \<Rightarrow> string \<Rightarrow> int \<Rightarrow> string \<Rightarrow> chatFileEntry" where
  "queued_entry ue fileID peer filename n path =
     no_entry\<lparr>cfe_FileID := fileID, cfe_PeerDeviceID := peer, cfe_Direction := ''send'', cfe_Filename := filename,
       cfe_Filesize := n, cfe_StoredPath := path, cfe_AddedAt := ue_ms ue, cfe_Status := ''pending'', cfe_TotalBytes := n,
       cfe_BytesTransferred := 0\<rparr>"

text \<open>One turn of the loop, or, without paths left, what comes after it (\<open>Inr\<close>). \<open>walk\<close> are the entries
  \<open>filepath.WalkDir\<close> visits, should the path be a folder.\<close>

definition queue_turn :: "UiEnv \<Rightarrow> WalkEntry list res \<Rightarrow> Queueing \<Rightarrow> Controller \<Rightarrow> Queueing option \<times> Controller" where
  "queue_turn ue walk q c =
     (case qp_waits q of Some _ \<Rightarrow> (Some q, c) | None \<Rightarrow>
      (case qp_paths q of
         [] \<Rightarrow>
           (None, setStatus ue
              (if qp_folders q > 0
               then ''Queued '' @ Itoa (int (qp_files q)) @ '' file(s) from '' @ Itoa (int (qp_folders q)) @ '' folder(s)''
               else ''Queued '' @ Itoa (int (qp_files q)) @ '' file(s)'')
              (refreshChatForPeer ue (qp_peer q) c))
       | rawPath # rest \<Rightarrow>
           let path = TrimSpace rawPath; q1 = q\<lparr>qp_paths := rest\<rparr> in
           if path = [] then (Some q1, c)
           else case os_Stat (ue_fe ue) path (nd_disk (dv_node (ct_device c))) of
             Inl e \<Rightarrow> (Some q1, failed ue ''Read path'' e c)
           | Inr (True, _) \<Rightarrow>
               (case run_at_node (SendFolder (ue_fe ue) (qp_peer q) path walk) c of
                  (Inl e, c1) \<Rightarrow> (Some q1, failed ue ''Send folder'' e c1)
                | (Inr fo, c1) \<Rightarrow> (Some (q1\<lparr>qp_waits := Some (path, fo)\<rparr>), c1))
           | Inr (False, n) \<Rightarrow>
               (case run_at_node (SendFile (ue_fe ue) (qp_peer q) path) c of
                  (Inl e, c1) \<Rightarrow> (Some q1, failed ue ''Send file'' e c1)
                | (Inr fileID, c1) \<Rightarrow>
                    (Some (q1\<lparr>qp_files := Suc (qp_files q)\<rparr>),
                     ui_upsert ue (queued_entry ue fileID (qp_peer q) (Base path) n path) c1))))"

definition folder_file_entry :: "UiEnv \<Rightarrow> string \<Rightarrow> string \<Rightarrow> FileMetadata \<Rightarrow> string \<Rightarrow> chatFileEntry" where
  "folder_file_entry ue peer folderID meta fileID =
     (queued_entry ue fileID peer (f_Filename meta) (f_Filesize meta) (f_StoredPath meta))
       \<lparr>cfe_FolderID := folderID, cfe_RelativePath := f_RelativePath meta\<rparr>"

text \<open>The inner loop over the files of an accepted folder.\<close>

fun queue_folder_files :: "UiEnv \<Rightarrow> string \<Rightarrow> string list \<Rightarrow> Queueing \<Rightarrow> Controller \<Rightarrow> Queueing \<times> Controller" where
  "queue_folder_files ue folderID [] q c = (q, c)"
| "queue_folder_files ue folderID (i # ids) q c =
     (case GetFileByID i (ct_store c) of
        Inl _ \<Rightarrow> queue_folder_files ue folderID ids q c
      | Inr meta \<Rightarrow>
          queue_folder_files ue folderID ids (q\<lparr>qp_files := Suc (qp_files q)\<rparr>)
            (ui_upsert ue (folder_file_entry ue (qp_peer q) folderID meta i) c))"

text \<open>What wakes the goroutine while \<open>SendFolder\<close> waits; \<open>fes\<close> are the times of the files it then sends.\<close>

definition queue_wake :: "UiEnv \<Rightarrow> (nat \<Rightarrow> FileEnv) \<Rightarrow> wake \<Rightarrow> Queueing \<Rightarrow> Controller \<Rightarrow> Queueing \<times> Controller" where
  "queue_wake ue fes w q c =
     (case qp_waits q of None \<Rightarrow> (q, c) | Some (path, fo) \<Rightarrow>
      (let q1 = q\<lparr>qp_waits := None\<rparr> in
       case run_at_node (folder_wait fes fo w) c of
         (None, c1) \<Rightarrow> (q, c1)
       | (Some (Inl e), c1) \<Rightarrow> (q1, failed ue ''Send folder'' e c1)
       | (Some (Inr (folderID, ids)), c1) \<Rightarrow>
           let q2 = q1\<lparr>qp_folders := Suc (qp_folders q)\<rparr> in
           if ids = [] then (q2, setStatus ue (''Folder accepted with no files to transfer: '' @ Base path) c1)
           else queue_folder_files ue folderID ids q2 c1))"

text \<open>
  The pickers. \<open>reply\<close> is what the user answers in a dialog for files or folders, of the system first, and of the
  toolkit when the one of the system does not work; the system's may panic.
\<close>

datatype reply = Chosen string | Dismissed | Broken go_error
datatype native_reply = Replied reply | Panicked string

definition errFilePickerCancelled :: go_error where
  "errFilePickerCancelled = Err ''file picker canceled''"

definition pick_native :: "string \<Rightarrow> native_reply \<Rightarrow> string res" where
  "pick_native what r =
     (case r of
        Panicked m \<Rightarrow> Inl (Err (''native '' @ what @ '' picker failed: '' @ m))
      | Replied Dismissed \<Rightarrow> Inl errFilePickerCancelled
      | Replied (Broken e) \<Rightarrow> Inl e
      | Replied (Chosen path0) \<Rightarrow>
          let path = TrimSpace path0 in if path = [] then Inl errFilePickerCancelled else Inr path)"

text \<open>\<open>None\<close>: the program stops while the dialog of the toolkit is open.\<close>

definition pick_toolkit :: "reply option \<Rightarrow> string res" where
  "pick_toolkit r =
     (case r of
        None \<Rightarrow> Inl (Err ''application is shutting down'')
      | Some Dismissed \<Rightarrow> Inl errFilePickerCancelled
      | Some (Broken e) \<Rightarrow> Inl e
      | Some (Chosen path) \<Rightarrow> if TrimSpace path = [] then Inl errFilePickerCancelled else Inr path)"

definition pick_path :: "string \<Rightarrow> native_reply \<Rightarrow> reply option \<Rightarrow> string res" where
  "pick_path what native toolkit =
     (case pick_native what native of
        Inr path \<Rightarrow> Inr path
      | Inl e \<Rightarrow> if errors_Is e errFilePickerCancelled then Inl e else pick_toolkit toolkit)"

definition pickFilePath :: "native_reply \<Rightarrow> reply option \<Rightarrow> string list res" where
  "pickFilePath native toolkit = map_sum id (\<lambda>path. [path]) (pick_path ''file'' native toolkit)"

definition pickFolderPath :: "native_reply \<Rightarrow> reply option \<Rightarrow> string res" where
  "pickFolderPath = pick_path ''folder''"

text \<open>A Browse button beside an entry with a folder: the text of the entry afterwards.\<close>

definition folder_browsed :: "UiEnv \<Rightarrow> string \<Rightarrow> string res \<Rightarrow> string \<Rightarrow> Controller \<Rightarrow> string \<times> Controller" where
  "folder_browsed ue what picked shown c =
     (case picked of
        Inl e \<Rightarrow> (shown, if e = errFilePickerCancelled then c else failed ue (''Select '' @ what) e c)
      | Inr path \<Rightarrow> (path, c))"

text \<open>The button beside the input field, and files dropped on the chat area.\<close>

definition attachFileToCurrentPeer ::
    "UiEnv \<Rightarrow> string list res \<Rightarrow> Controller \<Rightarrow> Queueing option \<times> Controller" where
  "attachFileToCurrentPeer ue picked c =
     (if ct_selected c = [] then (None, setStatus ue ''Select a peer before attaching a file'' c)
      else case picked of
        Inl e \<Rightarrow> (None, if e = errFilePickerCancelled then c else failed ue ''Pick file'' e c)
      | Inr paths \<Rightarrow> (if paths = [] then None else queuePathsForPeer (ct_selected c) paths, c))"

definition attachFolderToCurrentPeer ::
    "UiEnv \<Rightarrow> string res \<Rightarrow> Controller \<Rightarrow> Queueing option \<times> Controller" where
  "attachFolderToCurrentPeer ue picked c =
     (if ct_selected c = [] then (None, setStatus ue ''Select a peer before attaching a folder'' c)
      else case picked of
        Inl e \<Rightarrow> (None, if e = errFilePickerCancelled then c else failed ue ''Pick folder'' e c)
      | Inr path \<Rightarrow> (if path = [] then None else queuePathsForPeer (ct_selected c) [path], c))"

definition handleWindowDropped :: "UiEnv \<Rightarrow> bool \<Rightarrow> string option list \<Rightarrow> Controller \<Rightarrow> Queueing option \<times> Controller" where
  "handleWindowDropped ue inside items c =
     (if items = [] \<or> \<not> inside then (None, c)
      else if ct_selected c = [] then (None, setStatus ue ''Select a peer before dropping files'' c)
      else
        let paths = filter (\<lambda>p. p \<noteq> []) (map TrimSpace (List.map_filter (\<lambda>i. i) items))
        in (if paths = [] then None else queuePathsForPeer (ct_selected c) paths, c))"

section \<open>Transfers\<close>

text \<open>The goroutine a confirmed dialog starts, and the one of the retry button.\<close>

definition cancelTransferFromUI :: "UiEnv \<Rightarrow> string \<Rightarrow> Controller \<Rightarrow> Controller" where
  "cancelTransferFromUI ue fileID0 c =
     (let fileID = TrimSpace fileID0 in
      if fileID = [] then c
      else case run_at_node (CancelTransfer (ue_fe ue) fileID) c of
        (Some e, c1) \<Rightarrow> failed ue ''Cancel transfer'' e c1
      | (None, c1) \<Rightarrow>
          setStatus ue ''Transfer canceled''
            (case GetFileByID fileID (ct_store c1) of
               Inl _ \<Rightarrow> refreshChatView ue c1
             | Inr meta \<Rightarrow>
                 let peer = (if f_FromDeviceID meta \<noteq> ct_localID c1 then f_FromDeviceID meta else f_ToDeviceID meta)
                 in refreshChatForPeer ue peer
                      (ui_upsert ue (no_entry\<lparr>cfe_FileID := fileID, cfe_PeerDeviceID := peer, cfe_Status := ''canceled'',
                         cfe_TransferCompleted := True, cfe_CompletedAt := ue_ms ue\<rparr>) c1)))"

definition retryTransferFromUI :: "UiEnv \<Rightarrow> string \<Rightarrow> Controller \<Rightarrow> Controller" where
  "retryTransferFromUI ue fileID0 c =
     (let fileID = TrimSpace fileID0 in
      if fileID = [] then c
      else case run_at_node (RetryTransfer (ue_fe ue) fileID) c of
        (Some e, c1) \<Rightarrow> failed ue ''Retry transfer'' e c1
      | (None, c1) \<Rightarrow>
          setStatus ue ''Transfer re-queued''
            (case GetFileByID fileID (ct_store c1) of
               Inl _ \<Rightarrow> refreshChatView ue c1
             | Inr meta \<Rightarrow>
                 let peer = (if f_FromDeviceID meta \<noteq> ct_localID c1 then f_FromDeviceID meta else f_ToDeviceID meta)
                 in refreshChatForPeer ue peer
                      (ui_upsert ue (no_entry\<lparr>cfe_FileID := fileID, cfe_PeerDeviceID := peer,
                         cfe_Filename := f_Filename meta, cfe_Filesize := f_Filesize meta, cfe_StoredPath := f_StoredPath meta,
                         cfe_AddedAt := (case f_TimestampReceived meta of None \<Rightarrow> 0 | Some t \<Rightarrow> t),
                         cfe_Status := ''pending''\<rparr>) c1)))"

definition clearCompletedTransfers :: "UiEnv \<Rightarrow> Controller \<Rightarrow> Controller" where
  "clearCompletedTransfers ue c = refreshChatView ue (c\<lparr>ct_transfers := clear_completed (ct_transfers c)\<rparr>)"

text \<open>The goroutine a confirmed dialog starts.\<close>

definition clearPeerHistory :: "UiEnv \<Rightarrow> string \<Rightarrow> Controller \<Rightarrow> Controller" where
  "clearPeerHistory ue peer c =
     (let deleting = (\<lambda>del m. let (r, s) = del peer (mg_store m) in (r, m\<lparr>mg_store := s\<rparr>)) in
      case run_at_manager (deleting DeleteMessagesForPeer) c of
        (Inl e, c1) \<Rightarrow> failed ue ''Clear messages'' e c1
      | (Inr _, c1) \<Rightarrow>
          (case run_at_manager (deleting DeleteFileMetadataForPeer) c1 of
             (Inl e, c2) \<Rightarrow> failed ue ''Clear file history'' e c2
           | (Inr _, c2) \<Rightarrow>
               setStatus ue ''Chat history cleared''
                 (refreshChatForPeer ue peer (c2\<lparr>ct_transfers := forget_transfers peer (ct_transfers c2)\<rparr>))))"

section \<open>Settings of the device\<close>

definition ui_currentDownloadDirectory :: "Controller \<Rightarrow> string" where
  "ui_currentDownloadDirectory c =
     (let path = TrimSpace (cf_DownloadDirectory (ct_cfg c)) in
      if path \<noteq> [] then path
      else if TrimSpace (ct_dataDir c) \<noteq> [] then filepath_Join [ct_dataDir c, ''files''] else [])"

definition ui_currentMaxReceiveFileSize :: "Controller \<Rightarrow> int" where
  "ui_currentMaxReceiveFileSize c = max 0 (cf_MaxReceiveFileSize (ct_cfg c))"

definition ui_currentMessageRetentionDays :: "Controller \<Rightarrow> int" where
  "ui_currentMessageRetentionDays c =
     (if cf_MessageRetentionDays (ct_cfg c) \<in> {30, 90, 365} then cf_MessageRetentionDays (ct_cfg c) else 0)"

definition ui_cleanupDownloadedFilesEnabled :: "Controller \<Rightarrow> bool" where
  "ui_cleanupDownloadedFilesEnabled c = cf_CleanupDownloadedFiles (ct_cfg c)"

text \<open>The manager holds these functions as getters; in the model its options hold what they return, so whatever writes
  the configuration sets them.\<close>

definition with_getters :: "Controller \<Rightarrow> PeerManagerOptions \<Rightarrow> PeerManagerOptions" where
  "with_getters c opts =
     opts\<lparr>pm_GetDownloadDirectory := Some (ui_currentDownloadDirectory c),
       pm_GetMaxReceiveFileSize := Some (ui_currentMaxReceiveFileSize c),
       pm_GetMessageRetentionDays := Some (ui_currentMessageRetentionDays c),
       pm_GetCleanupDownloadedFiles := Some (ui_cleanupDownloadedFilesEnabled c)\<rparr>"

definition set_cfg :: "DeviceConfig \<Rightarrow> Controller \<Rightarrow> Controller" where
  "set_cfg cfg c0 =
     (let c = c0\<lparr>ct_cfg := cfg\<rparr> in
      on_device (\<lambda>d. d\<lparr>dv_options := with_getters c (dv_options d),
          dv_node := (dv_node d)\<lparr>nd_options := (nd_options (dv_node d))
            \<lparr>GetDownloadDirectory := Some (ui_currentDownloadDirectory c),
             GetMaxReceiveFileSize := Some (ui_currentMaxReceiveFileSize c)\<rparr>\<rparr>\<rparr>) c)"

record SettingsForm =
  sf_name :: string
  sf_fixed :: bool
  sf_port :: string
  sf_download :: string
  sf_maxSize :: string
  sf_maxCustom :: string
  sf_notifications :: bool
  sf_retention :: string
  sf_cleanup :: bool

text \<open>The entry for a custom size shows the bytes of a preset, too.\<close>

definition showSettingsDialog :: "Controller \<Rightarrow> SettingsForm" where
  "showSettingsDialog c =
     (let cfg = ct_cfg c in
      \<lparr>sf_name = cf_DeviceName cfg, sf_fixed = (cf_PortMode cfg = ''fixed''),
       sf_port = (if cf_ListeningPort cfg > 0 then Itoa (cf_ListeningPort cfg) else []),
       sf_download = ui_currentDownloadDirectory c,
       sf_maxSize = selectMaxSizePreset (cf_MaxReceiveFileSize cfg) False,
       sf_maxCustom = Itoa (cf_MaxReceiveFileSize cfg), sf_notifications = cf_NotificationsEnabled cfg,
       sf_retention = selectRetentionPreset (cf_MessageRetentionDays cfg), sf_cleanup = cf_CleanupDownloadedFiles cfg\<rparr>)"

text \<open>How the Save button of a dialog ends: with an error box, the dialog staying, or closed, perhaps with a notice.\<close>

datatype saved = Refused go_error | Closed "string option"

definition form_port :: "SettingsForm \<Rightarrow> int res" where
  "form_port form =
     (if \<not> sf_fixed form then Inr 0
      else case Atoi (TrimSpace (sf_port form)) of
        Inl _ \<Rightarrow> Inl (Err ''port must be a positive number when mode is Fixed'')
      | Inr p \<Rightarrow> if p \<le> 0 then Inl (Err ''port must be a positive number when mode is Fixed'') else Inr p)"

text \<open>The configuration a form stands for, with the directory made on the way.\<close>

definition form_config :: "UiEnv \<Rightarrow> SettingsForm \<Rightarrow> Controller \<Rightarrow> DeviceConfig res \<times> Controller" where
  "form_config ue form c =
     (if TrimSpace (sf_name form) = [] then (Inl (Err ''device name is required''), c)
      else case form_port form of Inl e \<Rightarrow> (Inl e, c) | Inr port \<Rightarrow>
      (let downloadDir = TrimSpace (sf_download form) in
       if downloadDir = [] then (Inl (Err ''download location is required''), c)
       else case run_at_node (run_disk (os_MkdirAll (ue_fe ue) downloadDir)) c of
         (Some e, c1) \<Rightarrow> (Inl (Wrap ''create download location'' e), c1)
       | (None, c1) \<Rightarrow>
           (case parseMaxSizeSelection (sf_maxSize form) (sf_maxCustom form) False of
              Inl e \<Rightarrow> (Inl e, c1)
            | Inr limit \<Rightarrow>
                (case parseRetentionSelection (sf_retention form) of
                   Inl e \<Rightarrow> (Inl e, c1)
                 | Inr days \<Rightarrow>
                     (Inr ((ct_cfg c)\<lparr>cf_DeviceName := TrimSpace (sf_name form),
                        cf_PortMode := (if sf_fixed form then ''fixed'' else ''automatic''), cf_ListeningPort := port,
                        cf_DownloadDirectory := downloadDir, cf_MaxReceiveFileSize := limit,
                        cf_NotificationsEnabled := sf_notifications form, cf_MessageRetentionDays := days,
                        cf_CleanupDownloadedFiles := sf_cleanup form\<rparr>), c1)))))"

text \<open>What follows when only the name, and not the port, has changed.\<close>

definition ui_service :: "(Service \<Rightarrow> Registration list \<Rightarrow> 'r \<times> Service \<times> Registration list) \<Rightarrow> Controller \<Rightarrow> 'r \<times> Controller" where
  "ui_service f c = (let (r, s, air) = f (ct_service c) (ct_air c) in (r, c\<lparr>ct_service := s, ct_air := air\<rparr>))"

definition apply_name :: "UiEnv \<Rightarrow> TokenPrims \<Rightarrow> Zeroconf \<Rightarrow> string \<Rightarrow> Controller \<Rightarrow> saved \<times> Controller" where
  "apply_name ue P zc name c =
     (case run_device (dv_UpdateDeviceName name) c of
        (Some e, c1) \<Rightarrow>
          (Closed (Some ''Restart Recommended''),
           failed ue ''Device name updated in config; runtime update'' e c1)
      | (None, c1) \<Rightarrow>
          (case ui_service (service_UpdateDeviceName P zc (en_now (fe_env (ue_fe ue))) name) c1 of
             (Some e, c2) \<Rightarrow>
               (Closed (Some ''Restart Recommended''), failed ue ''Device name updated in config; mDNS update'' e c2)
           | (None, c2) \<Rightarrow>
               (Closed None, setStatus ue ''Settings saved'' (c2\<lparr>ct_identity := (ct_identity c2)\<lparr>id_DeviceName := name\<rparr>\<rparr>))))"

text \<open>The Save button.\<close>

definition saveSettings :: "UiEnv \<Rightarrow> TokenPrims \<Rightarrow> Zeroconf \<Rightarrow> SettingsForm \<Rightarrow> Controller \<Rightarrow> saved \<times> Controller" where
  "saveSettings ue P zc form c =
     (case form_config ue form c of
        (Inl e, c1) \<Rightarrow> (Refused e, c1)
      | (Inr cfg, c1) \<Rightarrow>
          let old = ct_cfg c1;
              nameChanged = (cf_DeviceName old \<noteq> cf_DeviceName cfg);
              portChanged = (cf_PortMode old \<noteq> cf_PortMode cfg \<or> cf_ListeningPort old \<noteq> cf_ListeningPort cfg)
          in if cfg = old then (Closed None, setStatus ue ''Settings saved'' c1)
             else case run_at_node (run_disk (Save (ue_ce ue) (ct_cfgPath c1) cfg)) (set_cfg cfg c1) of
               (Some e, c2) \<Rightarrow> (Refused e, c2)
             | (None, c2) \<Rightarrow>
                 if nameChanged \<and> \<not> portChanged then apply_name ue P zc (cf_DeviceName cfg) c2
                 else if portChanged then
                   (Closed (Some ''Restart Required''),
                    setStatus ue ''Settings saved. Restart required to apply port changes.'' c2)
                 else (Closed None, setStatus ue ''Settings saved'' c2))"

section \<open>Settings of a peer\<close>

record PeerForm =
  pf_customName :: string
  pf_autoAccept :: bool
  pf_trusted :: bool
  pf_muted :: bool
  pf_verified :: bool
  pf_maxSize :: string
  pf_maxCustom :: string
  pf_useGlobalDirectory :: bool
  pf_directory :: string

definition peer_form :: "PeerSettings \<Rightarrow> PeerForm" where
  "peer_form g =
     \<lparr>pf_customName = g_CustomName g, pf_autoAccept = g_AutoAcceptFiles g, pf_trusted = (g_TrustLevel g = ''trusted''),
      pf_muted = g_NotificationsMuted g, pf_verified = g_Verified g,
      pf_maxSize = selectMaxSizePreset (g_MaxFileSize g) True, pf_maxCustom = Itoa (g_MaxFileSize g),
      pf_useGlobalDirectory = (TrimSpace (g_DownloadDirectory g) = []), pf_directory = g_DownloadDirectory g\<rparr>"

text \<open>\<open>Inr\<close> is the dialog shown, with the peer it is for; \<open>Inl\<close> an error box or, \<open>None\<close>, a line of status.\<close>

definition showSelectedPeerSettingsDialog :: "UiEnv \<Rightarrow> Controller \<Rightarrow> (go_error option + string \<times> PeerForm) \<times> Controller" where
  "showSelectedPeerSettingsDialog ue c =
     (if ct_selected c = [] then (Inl None, setStatus ue ''Select a peer first'' c)
      else case peerByID (ct_selected c) c of
        None \<Rightarrow> (Inl None, setStatus ue ''Selected peer no longer exists'' c)
      | Some peer \<Rightarrow>
          (case ui_statement (EnsurePeerSettingsExist (ct_selected c)) c of
             (Some e, c1) \<Rightarrow> (Inl (Some (Wrap ''load peer settings'' e)), c1)
           | (None, c1) \<Rightarrow>
               (case GetPeerSettings (ct_selected c) (ct_store c1) of
                  Inl e \<Rightarrow> (Inl (Some (Wrap ''load peer settings'' e)), c1)
                | Inr g \<Rightarrow> (Inr (p_DeviceID peer, peer_form g), c1))))"

definition form_settings :: "string \<Rightarrow> PeerForm \<Rightarrow> int \<Rightarrow> string \<Rightarrow> PeerSettings" where
  "form_settings peer form limit directory =
     \<lparr>g_PeerDeviceID = peer, g_AutoAcceptFiles = pf_autoAccept form, g_MaxFileSize = limit,
      g_DownloadDirectory = directory, g_CustomName = TrimSpace (pf_customName form),
      g_TrustLevel = (if pf_trusted form then ''trusted'' else ''normal''), g_NotificationsMuted = pf_muted form,
      g_Verified = pf_verified form\<rparr>"

definition peer_directory :: "UiEnv \<Rightarrow> PeerForm \<Rightarrow> Controller \<Rightarrow> string res \<times> Controller" where
  "peer_directory ue form c =
     (let directory = TrimSpace (pf_directory form) in
      if pf_useGlobalDirectory form then (Inr [], c)
      else if directory = [] then (Inl (Err ''peer download directory is required when override is enabled''), c)
      else case run_at_node (run_disk (os_MkdirAll (ue_fe ue) directory)) c of
        (Some e, c1) \<Rightarrow> (Inl (Wrap ''create peer download directory'' e), c1)
      | (None, c1) \<Rightarrow> (Inr directory, c1))"

definition savePeerSettings :: "UiEnv \<Rightarrow> string \<Rightarrow> PeerForm \<Rightarrow> Controller \<Rightarrow> saved \<times> Controller" where
  "savePeerSettings ue peer form c =
     (case parseMaxSizeSelection (pf_maxSize form) (pf_maxCustom form) True of
        Inl e \<Rightarrow> (Refused e, c)
      | Inr limit \<Rightarrow>
          (case peer_directory ue form c of
             (Inl e, c1) \<Rightarrow> (Refused e, c1)
           | (Inr directory, c1) \<Rightarrow>
               (case ui_statement (UpdatePeerSettings (form_settings peer form limit directory)) c1 of
                  (Some e, c2) \<Rightarrow> (Refused e, c2)
                | (None, c2) \<Rightarrow>
                    (Closed None, setStatus ue ''Peer settings saved''
                       (refreshChatForPeer ue peer (refreshPeersFromStore ue c2))))))"

section \<open>Keys\<close>

text \<open>\<open>fresh\<close> is what \<open>ed25519.GenerateKey\<close> makes. The label of the dialog shows the fingerprint of the result.\<close>

definition resetKeys ::
    "UiEnv \<Rightarrow> (string \<Rightarrow> bool) \<Rightarrow> string res \<Rightarrow> Controller \<times> FS \<Rightarrow> string option \<times> Controller \<times> FS" where
  "resetKeys ue writable fresh = (\<lambda>(c, fs).
     let P = en_P (fe_env (ue_fe ue)) in
     case fresh of
       Inl e \<Rightarrow> (None, failed ue ''Generate Ed25519 key'' e c, fs)
     | Inr private \<Rightarrow>
         let public = ed25519_Public P private in
         (case SaveEd25519PrivateKey P writable (cf_Ed25519PrivateKeyPath (ct_cfg c)) private fs of
            (Some e, fs1) \<Rightarrow> (None, failed ue ''Save Ed25519 private key'' e c, fs1)
          | (None, fs1) \<Rightarrow>
              (case SaveEd25519PublicKey P writable (cf_Ed25519PublicKeyPath (ct_cfg c)) public fs1 of
                 (Some e, fs2) \<Rightarrow> (None, failed ue ''Save Ed25519 public key'' e c, fs2)
               | (None, fs2) \<Rightarrow>
                   let cfg = (ct_cfg c)\<lparr>cf_KeyFingerprint := KeyFingerprint P public\<rparr> in
                   (case run_at_node (run_disk (Save (ue_ce ue) (ct_cfgPath c) cfg)) (set_cfg cfg c) of
                      (Some e, c1) \<Rightarrow> (None, failed ue ''Save config'' e c1, fs2)
                    | (None, c1) \<Rightarrow>
                        (Some (FormatFingerprint (cf_KeyFingerprint cfg)),
                         setStatus ue ''Keys reset. Restart required.'' c1, fs2)))))"

text \<open>What the manager is told of a changed key, once the user has answered or the program stops.\<close>

definition key_prompt_answered :: "UiEnv \<Rightarrow> string \<Rightarrow> bool option \<Rightarrow> Controller \<Rightarrow> bool res \<times> Controller" where
  "key_prompt_answered ue peer answer c =
     (let name = (case peerByID peer c of None \<Rightarrow> peer | Some p \<Rightarrow> if p_DeviceName p \<noteq> [] then p_DeviceName p else peer) in
      case answer of
        None \<Rightarrow> (Inl (Err ''application is shutting down''), c)
      | Some trust \<Rightarrow>
          (Inr trust, setStatus ue ((if trust then ''Trusted new key for '' else ''Rejected key change for '') @ name) c))"

text \<open>The text of the box with the fingerprint of the selected peer.\<close>

definition showSelectedPeerFingerprint :: "Controller \<Rightarrow> string option" where
  "showSelectedPeerFingerprint c =
     (case (if ct_selected c = [] then None else peerByID (ct_selected c) c) of
        None \<Rightarrow> None
      | Some peer \<Rightarrow>
          let nl = [CHR 0x0A]; custom = custom_name (peerSettingsByID (p_DeviceID peer) c) in
          Some (full_name peer c @ nl @ nl @ ''Device ID: '' @ p_DeviceID peer @ nl @
            ''Fingerprint: '' @ FormatFingerprint (p_KeyFingerprint peer) @
            (case peerSettingsByID (p_DeviceID peer) c of
               None \<Rightarrow> []
             | Some g \<Rightarrow>
                 if custom \<noteq> [] \<and> g_CustomName g \<noteq> p_DeviceName peer
                 then nl @ ''Device Name: '' @ valueOrDefault (p_DeviceName peer) (p_DeviceID peer) else [])))"

section \<open>Start and end\<close>

record RunOptions =
  ro_Config :: "DeviceConfig option"
  ro_ConfigPath :: string
  ro_DataDir :: string
  ro_Store :: "Store option"
  ro_Identity :: LocalIdentity

definition validate_run :: "RunOptions \<Rightarrow> go_error option" where
  "validate_run o1 =
     (if ro_Config o1 = None then Some (Err ''config is required'')
      else if ro_ConfigPath o1 = [] then Some (Err ''config path is required'')
      else if ro_DataDir o1 = [] then Some (Err ''data dir is required'')
      else if ro_Store o1 = None then Some (Err ''store is required'')
      else if id_DeviceID (ro_Identity o1) = [] \<or> id_DeviceName (ro_Identity o1) = [] then
        Some (Err ''identity device fields are required'')
      else if length (id_Ed25519PrivateKey (ro_Identity o1)) \<noteq> PrivateKeySize then
        Some (Err ''identity Ed25519 private key is invalid'')
      else if length (id_Ed25519PublicKey (ro_Identity o1)) \<noteq> PublicKeySize then
        Some (Err ''identity Ed25519 public key is invalid'')
      else None)"

definition listeningPortFromAddr :: "string option \<Rightarrow> int res" where
  "listeningPortFromAddr addr =
     (case addr of
        None \<Rightarrow> Inl (Err ''missing listen address'')
      | Some a \<Rightarrow>
          (case SplitHostPort a of
             Inl e \<Rightarrow> Inl (Wrap ''parse listen address'' e)
           | Inr (_, portText) \<Rightarrow>
               (case Atoi portText of
                  Inl _ \<Rightarrow> Inl (Err ''invalid listen port'')
                | Inr port \<Rightarrow> if port \<le> 0 then Inl (Err ''invalid listen port'') else Inr port)))"

definition requested_port :: "DeviceConfig \<Rightarrow> int" where
  "requested_port cfg =
     (if cf_PortMode cfg = ''automatic'' \<or> cf_ListeningPort cfg \<le> 0 then 0 else cf_ListeningPort cfg)"

text \<open>\<open>answer\<close> is what the user says to a changed key; the other callbacks are the operations of these theories.\<close>

definition base_options :: "LocalIdentity \<Rightarrow> int \<Rightarrow> (string \<Rightarrow> string \<Rightarrow> string \<Rightarrow> bool res) \<Rightarrow> PeerManagerOptions" where
  "base_options identity port answer =
     \<lparr>pm_Identity = identity, pm_ListenAddress = JoinHostPort ''0.0.0.0'' (Itoa port),
      pm_ApproveAddRequest = False, pm_OnKeyChange = Some answer, pm_ReconnectBackoff = [],
      pm_MaxReconnectAttempts = 0, pm_ReconnectJitterFraction = 0, pm_AddResponseTimeout = 0, pm_AddRequestCooldown = 0,
      pm_ConnectionTimeout = 0, pm_KeepAliveInterval = 0, pm_KeepAliveTimeout = 0, pm_FrameReadTimeout = 0,
      pm_RekeyInterval = 0, pm_RekeyAfterBytes = 0, pm_RekeyResponseTimeout = 0, pm_AutoRespondPing = None,
      pm_ConnectionRateLimitPerIP = 0, pm_ConnectionRateLimitWindow = 0, pm_FileRequestRateLimit = 0,
      pm_FileRequestWindow = 0, pm_FilesDir = [], pm_MaxReceiveFileSize = 0, pm_GetDownloadDirectory = None,
      pm_GetMaxReceiveFileSize = None, pm_GetMessageRetentionDays = None, pm_GetCleanupDownloadedFiles = None,
      pm_FileChunkSize = 0, pm_FileResponseTimeout = 0, pm_FileCompleteTimeout = 0, pm_MaxChunkRetries = 0,
      pm_OnFileRequest = True\<rparr>"

definition manager_options :: "(string \<Rightarrow> string \<Rightarrow> string \<Rightarrow> bool res) \<Rightarrow> Controller \<Rightarrow> PeerManagerOptions" where
  "manager_options answer c =
     with_getters c
       ((base_options (ct_identity c) (requested_port (ct_cfg c)) answer)
         \<lparr>pm_FilesDir := ui_currentDownloadDirectory c, pm_MaxReceiveFileSize := ui_currentMaxReceiveFileSize c\<rparr>)"

definition discovery_config :: "int \<Rightarrow> Controller \<Rightarrow> DiscoveryConfig" where
  "discovery_config port c =
     \<lparr>dc_Service = [], dc_Domain = [], dc_Version = 0, dc_RefreshInterval = 0, dc_ScanTimeout = 0, dc_PeerStaleAfter = 0,
      dc_TTL = 0, dc_SelfDeviceID = cf_DeviceID (ct_cfg c), dc_DeviceName = cf_DeviceName (ct_cfg c),
      dc_ListeningPort = port, dc_Ed25519PublicKey = id_Ed25519PublicKey (ct_identity c),
      dc_KnownPeers = Some (discoveryKnownPeers (ct_identity c) (ct_store c))\<rparr>"

text \<open>
  What the outside does while the services start: the error of \<open>net.Listen\<close> and the address it is given, and mDNS.
\<close>

record Outside =
  ou_listen :: "go_error option"
  ou_addr :: "string option"
  ou_tokens :: TokenPrims
  ou_zeroconf :: Zeroconf
  ou_days_ago :: "int \<Rightarrow> int"
  ou_heap :: "nat \<Rightarrow> Conn"
  ou_answer :: "string \<Rightarrow> string \<Rightarrow> string \<Rightarrow> bool res"

text \<open>The fields \<open>ct_device\<close> and \<open>ct_service\<close> of the argument are not read but for the store and the disk.\<close>

definition startServices :: "UiEnv \<Rightarrow> Outside \<Rightarrow> Controller \<Rightarrow> go_error option \<times> Controller" where
  "startServices ue ou c =
     (case NewPeerManager (manager_options (ou_answer ou) c) (Some (ct_store c)) (nd_disk (dv_node (ct_device c))) (ou_heap ou) of
        Inl e \<Rightarrow> (Some (Wrap ''create peer manager'' e), c)
      | Inr d \<Rightarrow>
     (case Start (ue_fe ue) (ou_days_ago ou) (ou_listen ou) d of
        (Some e, d1) \<Rightarrow> (Some (Wrap ''start peer manager'' e), c\<lparr>ct_device := d1\<rparr>)
      | (None, d1) \<Rightarrow>
     (case listeningPortFromAddr (ou_addr ou) of
        Inl e \<Rightarrow> (Some (Wrap ''resolve active listening port'' e), c\<lparr>ct_device := Stop d1\<rparr>)
      | Inr port \<Rightarrow>
          let c1 = c\<lparr>ct_device := d1, ct_listenPort := port\<rparr> in
          (case service_start (ou_tokens ou) (ou_zeroconf ou) (en_now (fe_env (ue_fe ue))) (discovery_config port c1) (ct_air c1) of
             (Inl e, air1) \<Rightarrow> (Some (Wrap ''start discovery'' e), c1\<lparr>ct_device := Stop d1, ct_air := air1\<rparr>)
           | (Inr s, air1) \<Rightarrow> (None, c1\<lparr>ct_service := s, ct_air := air1\<rparr>)))))"

text \<open>From the services on, where everything worked.\<close>

definition services_started :: "UiEnv \<Rightarrow> Controller \<Rightarrow> Controller" where
  "services_started ue c =
     (let c1 = refreshChatView ue (reconnectDiscoveredKnownPeers ue (syncDiscoveredFromScanner (refreshPeersFromStore ue c)))
      in setStatus ue (if ct_listenPort c1 > 0 then ''Ready (listening on '' @ Itoa (ct_listenPort c1) @ '')'' else ''Ready'') c1)"

text \<open>Up to the wait for the loops; the store is closed after it.\<close>

definition shutdown :: "Controller \<Rightarrow> Controller" where
  "shutdown c =
     (if ct_stopped c then c
      else
        let (s, air) = service_stop (ct_service c) (ct_air c)
        in c\<lparr>ct_stopped := True, ct_device := Stop (ct_device c), ct_service := s, ct_air := air\<rparr>)"

text \<open>
  The controller before anything is started. Its device \<open>d\<close> holds the store and the disk, the service \<open>s\<close> nothing: both
  are replaced when the services start.
\<close>

definition initial_controller :: "RunOptions \<Rightarrow> DeviceConfig \<Rightarrow> Device \<Rightarrow> Service \<Rightarrow> Registration list \<Rightarrow> Controller" where
  "initial_controller opts cfg d s air =
     \<lparr>ct_device = d, ct_service = s, ct_air = air, ct_cfg = cfg, ct_cfgPath = ro_ConfigPath opts,
      ct_dataDir = ro_DataDir opts, ct_identity = ro_Identity opts, ct_listenPort = 0, ct_peers = [],
      ct_peerSettings = [], ct_selected = [], ct_discovered = [], ct_rows = [], ct_discoverySelect = [],
      ct_chatMessages = [], ct_chatFiles = [], ct_transfers = [], ct_searchQuery = [], ct_searchVisible = False,
      ct_filesOnly = False, ct_header = (''Select a peer to start chatting'', []), ct_runtime = [],
      ct_foreground = True, ct_pending = [], ct_prompts = [], ct_refreshing = False, ct_status = ''Starting...'', ct_hint = [],
      ct_label = ''Starting...'', ct_log = [], ct_notifications = [], ct_progress = [], ct_stopped = False\<rparr>"

text \<open>When the services fail, what was started of them is stopped already, and \<open>shutdown\<close> finds neither of them.\<close>

definition newController :: "UiEnv \<Rightarrow> Outside \<Rightarrow> Controller \<Rightarrow> (go_error + Controller) \<times> Controller" where
  "newController ue ou c =
     (case startServices ue ou c of
        (Some e, c1) \<Rightarrow> (Inl e, c1\<lparr>ct_stopped := True\<rparr>)
      | (None, c1) \<Rightarrow> let c2 = services_started ue c1 in (Inr c2, c2))"

text \<open>\<open>Run\<close> up to the moment its window is shown; the closing of the window is \<open>shutdown\<close>.\<close>

definition ui_Run ::
    "UiEnv \<Rightarrow> Outside \<Rightarrow> RunOptions \<Rightarrow> Device \<Rightarrow> Service \<Rightarrow> Registration list \<Rightarrow> (go_error + Controller) \<times> Controller option" where
  "ui_Run ue ou opts d s air =
     (case (validate_run opts, ro_Config opts) of
        (None, Some cfg) \<Rightarrow> apsnd Some (newController ue ou (initial_controller opts cfg d s air))
      | (Some e, _) \<Rightarrow> (Inl e, None)
      | (None, None) \<Rightarrow> (Inl (Err ''config is required''), None))"

definition setAppForeground :: "bool \<Rightarrow> Controller \<Rightarrow> Controller" where
  "setAppForeground foreground c = c\<lparr>ct_foreground := foreground\<rparr>"

section \<open>A concrete controller\<close>

definition sample_device :: "Store \<Rightarrow> Device" where
  "sample_device s =
     (let opts = default_manager_options (base_options (sample_identity ''a'' CHR ''1'') 0 (\<lambda>_ _ _. Inr False)) in
      \<lparr>dv_node = new_node opts s \<lparr>dk_files = [], dk_dirs = []\<rparr> (\<lambda>_. sample_conn), dv_options = opts, dv_started = True,
       dv_server = None, dv_endpoints = no_endpoints, inboundAddPending = [], dv_decisions = [], addRequests = [],
       dv_add_waits = [], activeDrains = [], dv_drains = [], runtimeStates = [], dv_states = [], dv_loops = [],
       dv_workers = [], dv_closing = [], dv_remote = (\<lambda>_. None), dv_conns = 0, dv_boxes = 0\<rparr>)"

definition sample_cfg :: DeviceConfig where
  "sample_cfg =
     \<lparr>cf_DeviceID = ''a'', cf_DeviceName = ''n'', cf_PortMode = ''automatic'', cf_ListeningPort = 0,
      cf_DownloadDirectory = ''/in'', cf_MaxReceiveFileSize = 0, cf_NotificationsEnabled = True, cf_MessageRetentionDays = 30,
      cf_CleanupDownloadedFiles = False, cf_Ed25519PrivateKeyPath = ''/k'', cf_Ed25519PublicKeyPath = ''/p'',
      cf_KeyFingerprint = []\<rparr>"

definition sample_ui :: Controller where
  "sample_ui =
     \<lparr>ct_device = sample_device empty_store,
      ct_service = \<lparr>sv_cfg = sample_discovery, sv_Broadcaster = None, sv_Scanner = sample_scanner\<rparr>, ct_air = [],
      ct_cfg = sample_cfg, ct_cfgPath = ''/config.json'', ct_dataDir = ''/d'', ct_identity = sample_identity ''a'' CHR ''1'',
      ct_listenPort = 0, ct_peers = [], ct_peerSettings = [], ct_selected = [], ct_discovered = [], ct_rows = [],
      ct_discoverySelect = [], ct_chatMessages = [], ct_chatFiles = [], ct_transfers = [], ct_searchQuery = [],
      ct_searchVisible = False, ct_filesOnly = False, ct_header = ([], []), ct_runtime = [], ct_foreground = True,
      ct_pending = [], ct_prompts = [], ct_refreshing = False, ct_status = [], ct_hint = [], ct_label = [], ct_log = [],
      ct_notifications = [], ct_progress = [], ct_stopped = False\<rparr>"

definition sample_ue :: UiEnv where
  "sample_ue =
     \<lparr>ue_ce = (sample_config_env ''u'')\<lparr>ce_fe := (ce_fe (sample_config_env ''u''))\<lparr>fe_env := sample_env 9\<rparr>\<rparr>, ue_stamp = ''0''\<rparr>"

end
