(* ===== verification/Database.thy ===== *)
theory Database
  imports FileTypes
begin

text \<open>
  Opening the database (\<open>src/storage/database.go\<close>): the migrations that bring the schema up to date, in one
  transaction, the write-ahead log and closing. A schema is the tables with the names of their columns, the indexes
  and \<open>PRAGMA user_version\<close>; SQLite itself is a parameter: \<open>DbEnv\<close> says which of its calls fail for reasons of its
  own, and a statement that is not refused does what its documentation says. Constraints of columns are part of the
  store model (\<open>store_wf\<close> of theory \<open>StoreTypes\<close>).
\<close>

datatype migration =
    CreateTable string "string list"
  | CreateIndex string string "string list"
  | AddColumn string string

record Schema =
  sm_tables :: "(string \<times> string list) list"
  sm_indexes :: "string list"
  sm_version :: int

definition empty_schema :: Schema where
  "empty_schema = \<lparr>sm_tables = [], sm_indexes = [], sm_version = 0\<rparr>"

definition migrations :: "migration list" where
  "migrations =
     [CreateTable ''peers'' [''device_id'', ''device_name'', ''ed25519_public_key'', ''key_fingerprint'', ''status'',
        ''added_timestamp'', ''last_seen_timestamp'', ''last_known_ip'', ''last_known_port''],
      CreateTable ''messages'' [''message_id'', ''from_device_id'', ''to_device_id'', ''content'', ''content_type'',
        ''timestamp_sent'', ''timestamp_received'', ''is_read'', ''delivery_status'', ''signature''],
      CreateTable ''files'' [''file_id'', ''message_id'', ''from_device_id'', ''to_device_id'', ''filename'', ''filesize'',
        ''filetype'', ''stored_path'', ''checksum'', ''timestamp_received'', ''transfer_status''],
      CreateTable ''seen_message_ids'' [''message_id'', ''received_at''],
      CreateIndex ''idx_messages_peer_time'' ''messages'' [''to_device_id'', ''delivery_status'', ''timestamp_sent''],
      CreateIndex ''idx_seen_message_received_at'' ''seen_message_ids'' [''received_at''],
      CreateTable ''key_rotation_events'' [''id'', ''peer_device_id'', ''old_key_fingerprint'', ''new_key_fingerprint'',
        ''decision'', ''timestamp''],
      CreateIndex ''idx_key_rotation_events_peer_time'' ''key_rotation_events'' [''peer_device_id'', ''timestamp'', ''id''],
      CreateTable ''security_events'' [''id'', ''event_type'', ''peer_device_id'', ''details'', ''severity'', ''timestamp''],
      CreateIndex ''idx_security_events_time'' ''security_events'' [''timestamp'', ''id''],
      CreateIndex ''idx_security_events_type'' ''security_events'' [''event_type'', ''timestamp'', ''id''],
      CreateIndex ''idx_security_events_peer'' ''security_events'' [''peer_device_id'', ''timestamp'', ''id''],
      CreateTable ''peer_settings'' [''peer_device_id'', ''auto_accept_files'', ''max_file_size'', ''download_directory'',
        ''custom_name'', ''trust_level''],
      CreateTable ''transfer_checkpoints'' [''file_id'', ''direction'', ''next_chunk'', ''bytes_transferred'',
        ''temp_path'', ''updated_at''],
      CreateIndex ''idx_transfer_checkpoints_updated_at'' ''transfer_checkpoints'' [''updated_at'', ''file_id'', ''direction''],
      AddColumn ''files'' ''folder_id'',
      AddColumn ''files'' ''relative_path'',
      CreateTable ''folder_transfers'' [''folder_id'', ''from_device_id'', ''to_device_id'', ''folder_name'', ''root_path'',
        ''total_files'', ''total_size'', ''transfer_status'', ''timestamp''],
      CreateIndex ''idx_folder_transfers_peer_time'' ''folder_transfers''
        [''to_device_id'', ''from_device_id'', ''timestamp'', ''folder_id''],
      AddColumn ''peer_settings'' ''notifications_muted'',
      AddColumn ''peer_settings'' ''verified'',
      CreateIndex ''idx_messages_peer_content'' ''messages'' [''from_device_id'', ''to_device_id'', ''content''],
      CreateIndex ''idx_files_peer_status_time'' ''files''
        [''to_device_id'', ''from_device_id'', ''transfer_status'', ''timestamp_received'', ''file_id'']]"

text \<open>\<open>CREATE \<dots> IF NOT EXISTS\<close> does nothing when the name is taken; \<open>ADD COLUMN\<close> does not forgive a repetition.\<close>

fun exec :: "migration \<Rightarrow> Schema \<Rightarrow> Schema res" where
  "exec (CreateTable t cols) s =
     Inr (if map_of (sm_tables s) t = None then s\<lparr>sm_tables := sm_tables s @ [(t, cols)]\<rparr> else s)"
| "exec (CreateIndex i t cols) s =
     (if i \<in> set (sm_indexes s) then Inr s
      else case map_of (sm_tables s) t of
        None \<Rightarrow> Inl (Err ''no such table'')
      | Some known \<Rightarrow> if set cols \<subseteq> set known then Inr (s\<lparr>sm_indexes := sm_indexes s @ [i]\<rparr>) else Inl (Err ''no such column''))"
| "exec (AddColumn t col) s =
     (case map_of (sm_tables s) t of
        None \<Rightarrow> Inl (Err ''no such table'')
      | Some known \<Rightarrow>
          if col \<in> set known then Inl (Err ''duplicate column name'')
          else Inr (s\<lparr>sm_tables := AList.update t (known @ [col]) (sm_tables s)\<rparr>))"

record DbEnv =
  de_Open :: "go_error option"
  de_Ping :: "go_error option"
  de_JournalMode :: "string res"
  de_ReadVersion :: "go_error option"
  de_Begin :: "go_error option"
  de_Exec :: "nat \<Rightarrow> go_error option"
  de_SetVersion :: "nat \<Rightarrow> go_error option"
  de_Commit :: "go_error option"
  de_Checkpoint :: "go_error option"
  de_Close :: "go_error option"

section \<open>Migrations\<close>

text \<open>The loop of the transaction, from migration \<open>i\<close> on.\<close>

fun migrate :: "DbEnv \<Rightarrow> nat \<Rightarrow> migration list \<Rightarrow> Schema \<Rightarrow> Schema res" where
  "migrate env i [] s = Inr s"
| "migrate env i (m # ms) s =
     (case (case de_Exec env i of Some e \<Rightarrow> Inl e | None \<Rightarrow> exec m s) of
        Inl e \<Rightarrow> Inl (Wrap ''apply migration'' e)
      | Inr s1 \<Rightarrow>
          (case de_SetVersion env i of
             Some e \<Rightarrow> Inl (Wrap ''set schema version'' e)
           | None \<Rightarrow> migrate env (Suc i) ms (s1\<lparr>sm_version := int i + 1\<rparr>)))"

text \<open>
  What does not commit is rolled back. The outer \<open>None\<close> is the panic at a negative index, for a database whose
  version another program has made negative.
\<close>

definition applyMigrations :: "DbEnv \<Rightarrow> Schema \<Rightarrow> go_error option option \<times> Schema" where
  "applyMigrations env s =
     (case de_ReadVersion env of
        Some e \<Rightarrow> (Some (Some (Wrap ''read schema version'' e)), s)
      | None \<Rightarrow>
          if sm_version s \<ge> int (length migrations) then (Some None, s)
          else case de_Begin env of
            Some e \<Rightarrow> (Some (Some (Wrap ''begin migration transaction'' e)), s)
          | None \<Rightarrow>
              if sm_version s < 0 then (None, s)
              else case migrate env (nat (sm_version s)) (drop (nat (sm_version s)) migrations) s of
                Inl e \<Rightarrow> (Some (Some e), s)
              | Inr s1 \<Rightarrow>
                  (case de_Commit env of
                     Some e \<Rightarrow> (Some (Some (Wrap ''commit migration transaction'' e)), s)
                   | None \<Rightarrow> (Some None, s1)))"

section \<open>Opening and closing\<close>

text \<open>A handle: \<open>dh_db\<close> is false once \<open>db\<close> is nil, \<open>dh_loop\<close> says whether the loop of checkpoints runs.\<close>

record Handle =
  dh_db :: bool
  dh_loop :: bool
  dh_closed :: bool

definition enableWALMode :: "DbEnv \<Rightarrow> go_error option" where
  "enableWALMode env =
     (case de_JournalMode env of
        Inl e \<Rightarrow> Some (Wrap ''enable WAL mode'' e)
      | Inr mode \<Rightarrow> if \<not> EqualFold mode ''wal'' then Some (Err ''enable WAL mode: unexpected journal mode'') else None)"

definition checkpointWAL :: "DbEnv \<Rightarrow> go_error option" where
  "checkpointWAL env = (case de_Checkpoint env of Some e \<Rightarrow> Some (Wrap ''wal checkpoint truncate'' e) | None \<Rightarrow> None)"

definition startWALCheckpointLoop :: "int \<Rightarrow> Handle \<Rightarrow> Handle" where
  "startWALCheckpointLoop interval h = (if interval \<le> 0 then h else h\<lparr>dh_loop := True\<rparr>)"

definition DefaultWALCheckpointInterval :: int where
  "DefaultWALCheckpointInterval = 24 * 3600 * 1000000000"

definition OpenPath :: "DbEnv \<Rightarrow> Schema \<Rightarrow> Handle res option \<times> Schema" where
  "OpenPath env s =
     (case de_Open env of
        Some e \<Rightarrow> (Some (Inl (Wrap ''open sqlite database'' e)), s)
      | None \<Rightarrow>
     (case de_Ping env of
        Some e \<Rightarrow> (Some (Inl (Wrap ''ping sqlite database'' e)), s)
      | None \<Rightarrow>
     (case enableWALMode env of
        Some e \<Rightarrow> (Some (Inl e), s)
      | None \<Rightarrow>
     (case applyMigrations env s of
        (None, s1) \<Rightarrow> (None, s1)
      | (Some (Some e), s1) \<Rightarrow> (Some (Inl e), s1)
      | (Some None, s1) \<Rightarrow>
     (case checkpointWAL env of
        Some e \<Rightarrow> (Some (Inl e), s1)
      | None \<Rightarrow>
          (Some (Inr (startWALCheckpointLoop DefaultWALCheckpointInterval
                        \<lparr>dh_db = True, dh_loop = False, dh_closed = False\<rparr>)), s1))))))"

definition db_Open :: "FileEnv \<Rightarrow> DbEnv \<Rightarrow> string \<Rightarrow> Disk \<times> Schema \<Rightarrow> (Handle \<times> string) res option \<times> Disk \<times> Schema" where
  "db_Open fe env dataDir = (\<lambda>(d, s).
     case os_MkdirAll fe dataDir d of
       (Some e, d1) \<Rightarrow> (Some (Inl (Wrap ''create storage directory'' e)), d1, s)
     | (None, d1) \<Rightarrow>
         (case OpenPath env s of
            (None, s1) \<Rightarrow> (None, d1, s1)
          | (Some (Inl e), s1) \<Rightarrow> (Some (Inl e), d1, s1)
          | (Some (Inr h), s1) \<Rightarrow> (Some (Inr (h, filepath_Join [dataDir, ''app.db''])), d1, s1)))"

definition db_Close :: "DbEnv \<Rightarrow> Handle \<Rightarrow> go_error option \<times> Handle" where
  "db_Close env h =
     (if \<not> dh_db h \<or> dh_closed h then (None, h)
      else (de_Close env, h\<lparr>dh_db := False, dh_loop := False, dh_closed := True\<rparr>))"

section \<open>Reaching the current schema\<close>

text \<open>The schema the first \<open>k\<close> migrations make, as every released version of the program left it.\<close>

definition quiet :: DbEnv where
  "quiet = \<lparr>de_Open = None, de_Ping = None, de_JournalMode = Inr ''wal'', de_ReadVersion = None, de_Begin = None,
     de_Exec = \<lambda>_. None, de_SetVersion = \<lambda>_. None, de_Commit = None, de_Checkpoint = None, de_Close = None\<rparr>"

definition schema_at :: "nat \<Rightarrow> Schema res" where
  "schema_at k = migrate quiet 0 (take k migrations) empty_schema"

definition columns :: "string \<Rightarrow> Schema \<Rightarrow> string list" where
  "columns t s = (case map_of (sm_tables s) t of None \<Rightarrow> [] | Some cols \<Rightarrow> cols)"

text \<open>The columns the statements of the program name (\<open>peers.go\<close>, \<open>messages.go\<close>, \<open>files.go\<close>, \<open>security_events.go\<close>).\<close>

definition complete_schema :: "Schema \<Rightarrow> bool" where
  "complete_schema s \<longleftrightarrow> sm_version s = 23 \<and> length (sm_tables s) = 9 \<and> length (sm_indexes s) = 10 \<and>
     columns ''files'' s = [''file_id'', ''message_id'', ''from_device_id'', ''to_device_id'', ''filename'', ''filesize'',
        ''filetype'', ''stored_path'', ''checksum'', ''timestamp_received'', ''transfer_status'', ''folder_id'', ''relative_path''] \<and>
     columns ''peer_settings'' s = [''peer_device_id'', ''auto_accept_files'', ''max_file_size'', ''download_directory'',
        ''custom_name'', ''trust_level'', ''notifications_muted'', ''verified''] \<and>
     columns ''transfer_checkpoints'' s = [''file_id'', ''direction'', ''next_chunk'', ''bytes_transferred'', ''temp_path'', ''updated_at''] \<and>
     (\<forall>(t, cols) \<in> set (sm_tables s). distinct cols)"

lemma migrate_quiet: "migrate env i ms s = Inr s' \<Longrightarrow> migrate quiet i ms s = Inr s'"
  by (induction env i ms s rule: migrate.induct) (auto simp: quiet_def split: sum.splits option.splits)

lemma migrate_append:
  "migrate env i (ms @ ns) s = (case migrate env i ms s of Inl e \<Rightarrow> Inl e | Inr s1 \<Rightarrow> migrate env (i + length ms) ns s1)"
  by (induction env i ms s rule: migrate.induct) (auto split: sum.splits option.splits)

lemma exec_version: "exec m s = Inr s' \<Longrightarrow> sm_version s' = sm_version s"
  by (cases m) (auto split: if_splits option.splits)

lemma migrate_version: "migrate env i ms s = Inr s' \<Longrightarrow> sm_version s = int i \<Longrightarrow> sm_version s' = int i + int (length ms)"
  by (induction env i ms s rule: migrate.induct) (auto split: sum.splits option.splits)

text \<open>All of the migrations, run one after the other on an empty database.\<close>

lemma schema_complete: "\<exists>s. schema_at (length migrations) = Inr s \<and> complete_schema s"
proof -
  have "case migrate quiet 0 migrations empty_schema of Inl _ \<Rightarrow> False | Inr s \<Rightarrow> complete_schema s" by code_simp
  then show ?thesis by (cases "migrate quiet 0 migrations empty_schema") (auto simp: schema_at_def)
qed

lemma schema_at_rest:
  assumes "k \<le> length migrations" "schema_at k = Inr s"
  shows "sm_version s = int k" "migrate quiet k (drop k migrations) s = schema_at (length migrations)"
proof -
  have "sm_version empty_schema = int 0" by (simp add: empty_schema_def)
  then show "sm_version s = int k"
    using migrate_version [of quiet 0 "take k migrations" empty_schema s] assms by (simp add: schema_at_def)
  show "migrate quiet k (drop k migrations) s = schema_at (length migrations)"
    using migrate_append [of quiet 0 "take k migrations" "drop k migrations" empty_schema] assms by (simp add: schema_at_def)
qed

lemma applyMigrations_quiet:
  assumes "k \<le> length migrations" "schema_at k = Inr s"
  shows "\<exists>s'. applyMigrations quiet s = (Some None, s')"
proof -
  obtain s' where "schema_at (length migrations) = Inr s'" using schema_complete by blast
  then show ?thesis using schema_at_rest [OF assms] by (simp add: applyMigrations_def) (simp add: quiet_def)
qed

lemma applied_current:
  assumes "k \<le> length migrations" "schema_at k = Inr s" "applyMigrations env s = (Some None, s')"
  shows "schema_at (length migrations) = Inr s'" "complete_schema s'"
proof -
  obtain full where full: "schema_at (length migrations) = Inr full" "complete_schema full" using schema_complete by blast
  have v: "sm_version s = int k" by (rule schema_at_rest [OF assms(1,2)])
  have "s' = full"
  proof (cases "k = length migrations")
    case True
    then show ?thesis using assms(2,3) full v by (auto simp: applyMigrations_def split: option.splits)
  next
    case False
    then have "migrate env k (drop k migrations) s = Inr s'"
      using assms(1,3) v by (auto simp: applyMigrations_def split: option.splits sum.splits)
    then show ?thesis using migrate_quiet schema_at_rest(2) [OF assms(1,2)] full(1) by fastforce
  qed
  with full show "schema_at (length migrations) = Inr s'" "complete_schema s'" by simp_all
qed

text \<open>C13: Whatever version of the program left the database, opening it brings the schema up to date or leaves it as it
  was: the migrations either all take effect, giving the one current schema with every column the statements name, or
  fail with an error and roll back; when SQLite refuses nothing they take effect, and a second run changes nothing.\<close>

theorem migrations_all_or_nothing:
  assumes "k \<le> length migrations" "schema_at k = Inr s"
  shows "(\<exists>e. applyMigrations env s = (Some (Some e), s)) \<or>
    (\<exists>s'. applyMigrations env s = (Some None, s') \<and> applyMigrations quiet s = (Some None, s') \<and>
       applyMigrations quiet s' = (Some None, s') \<and> complete_schema s')"
proof -
  obtain r where quiet_run: "applyMigrations quiet s = (Some None, r)" using applyMigrations_quiet [OF assms] by blast
  have again: "applyMigrations quiet s' = (Some None, s')" if "schema_at (length migrations) = Inr s'" for s'
    using schema_at_rest(1) [OF order.refl that] by (simp add: applyMigrations_def) (simp add: quiet_def)
  have "(\<exists>e. applyMigrations env s = (Some (Some e), s)) \<or> (\<exists>s'. applyMigrations env s = (Some None, s'))"
    using schema_at_rest(1) [OF assms] by (auto simp: applyMigrations_def split: option.splits sum.splits)
  moreover have "r = s'" if "applyMigrations env s = (Some None, s')" for s'
    using applied_current(1) [OF assms that] applied_current(1) [OF assms quiet_run] by simp
  ultimately show ?thesis using applied_current [OF assms] again quiet_run by blast
qed

theorem migrations_all_or_nothing_witness:
  "\<exists>s s'. schema_at 15 = Inr s \<and> columns ''files'' s \<noteq> columns ''files'' s' \<and>
     applyMigrations quiet s = (Some None, s') \<and> complete_schema s'"
proof -
  have "case schema_at 15 of Inl _ \<Rightarrow> False | Inr s \<Rightarrow> length (columns ''files'' s) = 11" by code_simp
  then obtain s where s: "schema_at 15 = Inr s" "length (columns ''files'' s) = 11" by (auto split: sum.splits)
  have "15 \<le> length migrations" by (simp add: migrations_def)
  from migrations_all_or_nothing [OF this s(1), of quiet] applyMigrations_quiet [OF this s(1)]
  obtain s' where "applyMigrations quiet s = (Some None, s')" "complete_schema s'" by auto
  then show ?thesis using s by (intro exI [of _ s] exI [of _ s']) (auto simp: complete_schema_def)
qed

end
