(* ===== verification/Program.thy ===== *)
theory Program
  imports UserActions Database
begin

text \<open>
  The start of the program (\<open>src/main.go\<close>): settings, key pair, fingerprint, database, and the options the interface
  is run with. \<open>fatal\<close> is the line \<open>log.Fatalf\<close> writes before the program ends. The rows in the database are an
  argument; opening it does not touch them.
\<close>

record World =
  wo_disk :: Disk
  wo_keys :: FS
  wo_schema :: Schema

definition fatal :: "string \<Rightarrow> go_error \<Rightarrow> string" where
  "fatal what e = ''startup failed while '' @ what @ '': '' @ error_text e"

text \<open>The fingerprint is stored when it is not the one stored already.\<close>

definition persist_fingerprint :: "ConfigEnv \<Rightarrow> string \<Rightarrow> string \<Rightarrow> DeviceConfig \<Rightarrow> Disk \<Rightarrow> DeviceConfig res \<times> Disk" where
  "persist_fingerprint env path fingerprint cfg d =
     (if cf_KeyFingerprint cfg = fingerprint then (Inr cfg, d)
      else
        let cfg1 = cfg\<lparr>cf_KeyFingerprint := fingerprint\<rparr> in
        case Save env path cfg1 d of (Some e, d1) \<Rightarrow> (Inl e, d1) | (None, d1) \<Rightarrow> (Inr cfg1, d1))"

text \<open>\<open>None\<close> is the panic of a database with a negative version.\<close>

definition main_options ::
    "ConfigEnv \<Rightarrow> (string \<Rightarrow> bool) \<Rightarrow> string \<Rightarrow> DbEnv \<Rightarrow> Store \<Rightarrow> World \<Rightarrow> (string + RunOptions) option \<times> World" where
  "main_options env writable fresh db rows w =
     (let P = en_P (fe_env (ce_fe env)) in
      case LoadOrCreate env (wo_disk w) of
        (Inl e, d1) \<Rightarrow> (Some (Inl (fatal ''loading config'' e)), w\<lparr>wo_disk := d1\<rparr>)
      | (Inr (cfg, path), d1) \<Rightarrow>
     (case EnsureEd25519KeyPair P writable fresh (cf_Ed25519PrivateKeyPath cfg) (cf_Ed25519PublicKeyPath cfg) (wo_keys w) of
        (Inl e, fs1) \<Rightarrow> (Some (Inl (fatal ''preparing Ed25519 keypair'' e)), w\<lparr>wo_disk := d1, wo_keys := fs1\<rparr>)
      | (Inr (private, public), fs1) \<Rightarrow>
     (case persist_fingerprint env path (KeyFingerprint P public) cfg d1 of
        (Inl e, d2) \<Rightarrow> (Some (Inl (fatal ''persisting key fingerprint'' e)), w\<lparr>wo_disk := d2, wo_keys := fs1\<rparr>)
      | (Inr cfg1, d2) \<Rightarrow>
     (case db_Open (ce_fe env) db (Dir path) (d2, wo_schema w) of
        (None, d3, s1) \<Rightarrow> (None, w\<lparr>wo_disk := d3, wo_keys := fs1, wo_schema := s1\<rparr>)
      | (Some (Inl e), d3, s1) \<Rightarrow>
          (Some (Inl (fatal ''opening database'' e)), w\<lparr>wo_disk := d3, wo_keys := fs1, wo_schema := s1\<rparr>)
      | (Some (Inr _), d3, s1) \<Rightarrow>
          (Some (Inr \<lparr>ro_Config = Some cfg1, ro_ConfigPath = path, ro_DataDir = Dir path, ro_Store = Some rows,
             ro_Identity = \<lparr>id_DeviceID = cf_DeviceID cfg1, id_DeviceName = cf_DeviceName cfg1,
               id_Ed25519PrivateKey = private, id_Ed25519PublicKey = public\<rparr>\<rparr>),
           w\<lparr>wo_disk := d3, wo_keys := fs1, wo_schema := s1\<rparr>)))))"

section \<open>What a successful start hands to the interface\<close>

lemma load_key_length: "load_key P t n path fs = Inr k \<Longrightarrow> length k = n"
  by (auto simp: load_key_def split: sum.splits option.splits prod.splits if_splits)

lemma key_pair_loaded:
  assumes "prims_ok P" "priv \<noteq> pub" "EnsureEd25519KeyPair P w fresh priv pub fs = (Inr (sk, pk), fs1)"
  shows "LoadEd25519PrivateKey P priv fs1 = Inr sk \<and> LoadEd25519PublicKey P pub fs1 = Inr pk \<and>
    length sk = PrivateKeySize \<and> length pk = PublicKeySize"
proof -
  have again: "EnsureEd25519KeyPair P (\<lambda>_. False) fresh priv pub fs1 = (Inr (sk, pk), fs1)"
    using EnsureEd25519KeyPair_stable [OF assms, of "\<lambda>_. False" fresh] by blast
  then have "LoadEd25519PrivateKey P priv fs1 = Inr sk" "LoadEd25519PublicKey P pub fs1 = Inr pk"
    by (auto simp: EnsureEd25519KeyPair_def SaveEd25519PublicKey_def SaveEd25519PrivateKey_def save_key_def Let_def
        split: sum.splits if_splits prod.splits option.splits)
  then show ?thesis by (auto simp: LoadEd25519PrivateKey_def LoadEd25519PublicKey_def dest: load_key_length)
qed

text \<open>The disk holds, under the path, a text that reads as the configuration.\<close>

definition config_on_disk :: "ConfigEnv \<Rightarrow> string \<Rightarrow> DeviceConfig \<Rightarrow> Disk \<Rightarrow> bool" where
  "config_on_disk env path cfg d \<longleftrightarrow> (\<exists>raw. map_of (dk_files d) path = Some raw \<and> cj_Unmarshal (ce_json env) raw = Inr cfg)"

lemma Save_on_disk:
  "config_json_ok (ce_json env) \<Longrightarrow> Save env path cfg d = (None, d') \<Longrightarrow> config_on_disk env path cfg d'"
  using Save_done [of env path cfg d d'] by (auto simp: config_json_ok_def config_on_disk_def put_file_def update_conv')

lemma LoadOrCreate_on_disk:
  assumes "LoadOrCreate env d = (Inr (cfg, path), d1)" "ce_uuid env \<noteq> []" "config_json_ok (ce_json env)"
  shows "config_valid cfg \<and> path \<noteq> [] \<and> config_on_disk env path cfg d1"
proof -
  obtain dataDir d0 where "path = ConfigPath dataDir" "config_valid cfg"
    and left: "Save env path cfg d0 = (None, d1) \<or>
     d1 = d0 \<and> (\<exists>raw keys. map_of (dk_files d0) path = Some raw \<and> cj_Unmarshal (ce_json env) raw = Inr cfg \<and>
       cj_Fields (ce_json env) raw = Inr keys \<and> ''notifications_enabled'' \<in> set keys \<and>
       ''x25519_private_key_path'' \<notin> set keys)"
    using LoadOrCreate_done [OF assms(1,2)] by metis
  moreover from left have "config_on_disk env path cfg d1"
    using Save_on_disk [OF assms(3)] by (auto simp: config_on_disk_def)
  ultimately show ?thesis by (simp add: ConfigPath_def filepath_Join_nonempty)
qed

lemma fingerprint_persisted:
  assumes "persist_fingerprint env path fp cfg d = (Inr cfg1, d1)" "config_on_disk env path cfg d" "config_json_ok (ce_json env)"
  shows "cfg1 = cfg\<lparr>cf_KeyFingerprint := fp\<rparr> \<and> config_on_disk env path cfg1 d1"
  using assms Save_on_disk [OF assms(3)]
  by (auto simp: persist_fingerprint_def Let_def split: if_splits prod.splits option.splits)

lemma db_Open_files: "db_Open fe db dir (d, s) = (r, d', s') \<Longrightarrow> dk_files d' = dk_files d"
  by (auto simp: db_Open_def os_MkdirAll_def os_call_def split: prod.splits option.splits sum.splits if_splits)

lemma db_Open_schema:
  assumes "k \<le> length migrations" "schema_at k = Inr s" "db_Open fe db dir (d, s) = (Some (Inr h), d', s')"
  shows "complete_schema s'"
proof -
  have "applyMigrations db s = (Some None, s')"
    using assms(3) by (auto simp: db_Open_def OpenPath_def Let_def split: prod.splits option.splits sum.splits if_splits)
  then show ?thesis by (rule applied_current(2) [OF assms(1,2)])
qed

text \<open>C25: When the start of the program succeeds, the interface accepts the options it is run with; the settings are
  valid and what the disk holds, with the fingerprint of the key in use; both key files hold the pair in use, and the
  public key is the one of the private key; the device presents itself under the identifier and the name of the
  settings; and the database, whichever released version left it, has the current schema.\<close>

theorem program_start:
  assumes run: "main_options env writable fresh db rows w = (Some (Inr o1), w')"
    and laws: "prims_ok (en_P (fe_env (ce_fe env)))" "config_json_ok (ce_json env)" "ce_uuid env \<noteq> []"
    and schema: "k \<le> length migrations" "schema_at k = Inr (wo_schema w)"
    and cfg: "ro_Config o1 = Some cfg" "cf_Ed25519PrivateKeyPath cfg \<noteq> cf_Ed25519PublicKeyPath cfg"
  shows "let P = en_P (fe_env (ce_fe env)); me = ro_Identity o1
    in validate_run o1 = None \<and> config_valid cfg \<and> config_on_disk env (ro_ConfigPath o1) cfg (wo_disk w') \<and>
       cf_KeyFingerprint cfg = KeyFingerprint P (id_Ed25519PublicKey me) \<and>
       LoadEd25519PrivateKey P (cf_Ed25519PrivateKeyPath cfg) (wo_keys w') = Inr (id_Ed25519PrivateKey me) \<and>
       LoadEd25519PublicKey P (cf_Ed25519PublicKeyPath cfg) (wo_keys w') = Inr (id_Ed25519PublicKey me) \<and>
       id_Ed25519PublicKey me = ed25519_Public P (id_Ed25519PrivateKey me) \<and>
       id_DeviceID me = cf_DeviceID cfg \<and> id_DeviceName me = cf_DeviceName cfg \<and> complete_schema (wo_schema w')"
proof -
  let ?P = "en_P (fe_env (ce_fe env))"
  obtain cfg0 path d1 sk pk fs1 d2 d3 s1 h where
    load: "LoadOrCreate env (wo_disk w) = (Inr (cfg0, path), d1)"
    and keys: "EnsureEd25519KeyPair ?P writable fresh (cf_Ed25519PrivateKeyPath cfg0) (cf_Ed25519PublicKeyPath cfg0)
      (wo_keys w) = (Inr (sk, pk), fs1)"
    and fp: "persist_fingerprint env path (KeyFingerprint ?P pk) cfg0 d1 = (Inr cfg, d2)"
    and db: "db_Open (ce_fe env) db (Dir path) (d2, wo_schema w) = (Some (Inr h), d3, s1)"
    and w': "w' = w\<lparr>wo_disk := d3, wo_keys := fs1, wo_schema := s1\<rparr>"
    and o1: "o1 = \<lparr>ro_Config = Some cfg, ro_ConfigPath = path, ro_DataDir = Dir path, ro_Store = Some rows,
      ro_Identity = \<lparr>id_DeviceID = cf_DeviceID cfg, id_DeviceName = cf_DeviceName cfg,
        id_Ed25519PrivateKey = sk, id_Ed25519PublicKey = pk\<rparr>\<rparr>"
    using run cfg(1) by (auto simp: main_options_def Let_def split: prod.splits sum.splits option.splits)
  note start = LoadOrCreate_on_disk [OF load laws(3,2)]
  have stored: "cfg = cfg0\<lparr>cf_KeyFingerprint := KeyFingerprint ?P pk\<rparr>" "config_on_disk env path cfg d2"
    using fingerprint_persisted [OF fp _ laws(2)] start by blast+
  have paths: "cf_Ed25519PrivateKeyPath cfg0 \<noteq> cf_Ed25519PublicKeyPath cfg0" using cfg(2) stored(1) by simp
  note loaded = key_pair_loaded [OF laws(1) paths keys]
  have "pk = ed25519_Public ?P sk" using EnsureEd25519KeyPair_stable [OF laws(1) paths keys] by blast
  moreover have "config_valid cfg" using start stored(1) by (simp add: config_valid_def)
  moreover have "config_on_disk env path cfg d3" using stored(2) db_Open_files [OF db] by (simp add: config_on_disk_def)
  moreover have "complete_schema s1" by (rule db_Open_schema [OF schema db])
  moreover have "validate_run o1 = None"
    using loaded start \<open>config_valid cfg\<close> by (simp add: validate_run_def o1 config_valid_def Dir_def)
  ultimately show ?thesis using loaded stored(1) by (simp add: o1 w' Let_def)
qed

definition sample_world :: World where
  "sample_world = \<lparr>wo_disk = \<lparr>dk_files = [], dk_dirs = []\<rparr>, wo_keys = (\<lambda>_. Inl ErrNotExist), wo_schema = empty_schema\<rparr>"

definition started_config :: DeviceConfig where
  "started_config = (defaultConfig (sample_config_env ''u'') ''/d'')\<lparr>cf_KeyFingerprint := KeyFingerprint sample_prims (replicate 32 CHR ''a'')\<rparr>"

lemma sample_fingerprint:
  assumes "fst ` set (dk_files d) = {''/d/config.json''}" "\<not> is_dir d ''/d/config.json''"
  shows "\<exists>d2. persist_fingerprint (sample_config_env ''u'') ''/d/config.json'' (KeyFingerprint sample_prims (replicate 32 CHR ''a''))
      (defaultConfig (sample_config_env ''u'') ''/d'') d = (Inr started_config, d2) \<and>
    fst ` set (dk_files d2) = {''/d/config.json''}"
proof -
  let ?cfg = "defaultConfig (sample_config_env ''u'') ''/d''" and ?fp = "KeyFingerprint sample_prims (replicate 32 CHR ''a'')"
  show ?thesis
  proof (cases "cf_KeyFingerprint ?cfg = ?fp")
    case True
    then have "started_config = ?cfg" by (simp add: started_config_def flip: True)
    then show ?thesis using assms(1) True by (simp add: persist_fingerprint_def)
  next
    case False
    obtain raw d2 where d2: "Save (sample_config_env ''u'') ''/d/config.json'' started_config d = (None, d2)"
      "d2 = put_file ''/d/config.json'' raw d"
      using assms(2) by (simp add: Save_def os_WriteFile_def os_call_def sample_config_env_def counted_json_def)
    have "fst ` set (dk_files d2) = {''/d/config.json''}"
      using assms(1) by (simp add: d2(2) put_file_def dom_update)
    then show ?thesis using False d2(1) by (simp add: persist_fingerprint_def started_config_def [symmetric] Let_def)
  qed
qed

lemma sample_db:
  assumes "''/d'' \<notin> fst ` set (dk_files d)"
  shows "\<exists>h d1 s1. db_Open (ce_fe (sample_config_env ''u'')) quiet ''/d'' (d, empty_schema) = (Some (Inr h), d1, s1)"
proof -
  have "schema_at 0 = Inr empty_schema" by (simp add: schema_at_def)
  then obtain s1 where "applyMigrations quiet empty_schema = (Some None, s1)" using applyMigrations_quiet [of 0] by blast
  moreover have "enableWALMode quiet = None" by code_simp
  moreover have "de_Open quiet = None" "de_Ping quiet = None" "checkpointWAL quiet = None"
    by (simp_all add: quiet_def checkpointWAL_def)
  moreover have "map_of (dk_files d) ''/d'' = None" using assms by (simp add: map_of_eq_None_iff)
  ultimately show ?thesis
    by (simp add: db_Open_def OpenPath_def os_MkdirAll_def os_call_def sample_config_env_def Let_def)
qed

lemma sample_program_start:
  "\<exists>o1 w'. main_options (sample_config_env ''u'') (\<lambda>_. True) (replicate 64 CHR ''a'') quiet empty_store sample_world =
    (Some (Inr o1), w') \<and> ro_Config o1 = Some started_config"
proof -
  let ?env = "sample_config_env ''u''" and ?cfg = "defaultConfig (sample_config_env ''u'') ''/d''"
  let ?sk = "replicate 64 CHR ''a''" and ?pk = "replicate 32 CHR ''a''"
  obtain d where load: "LoadOrCreate ?env \<lparr>dk_files = [], dk_dirs = []\<rparr> = (Inr (?cfg, ''/d/config.json''), d)"
    and d: "fst ` set (dk_files d) = {''/d/config.json''}" "\<not> is_dir d ''/d/config.json''" using sample_first_start by blast
  have P: "en_P (fe_env (ce_fe ?env)) = sample_prims" by (simp add: sample_config_env_def sample_env_def)
  obtain fs where keys: "EnsureEd25519KeyPair sample_prims (\<lambda>_. True) ?sk (cf_Ed25519PrivateKeyPath ?cfg)
      (cf_Ed25519PublicKeyPath ?cfg) (\<lambda>_. Inl ErrNotExist) = (Inr (?sk, ?pk), fs)"
    by (simp add: EnsureEd25519KeyPair_def LoadEd25519PrivateKey_def load_key_def SaveEd25519PrivateKey_def
        SaveEd25519PublicKey_def save_key_def PrivateKeySize_def PublicKeySize_def sample_prims_def Let_def)
  obtain d2 where fp: "persist_fingerprint ?env ''/d/config.json'' (KeyFingerprint sample_prims ?pk) ?cfg d = (Inr started_config, d2)"
    and d2: "fst ` set (dk_files d2) = {''/d/config.json''}" using sample_fingerprint [OF d] by blast
  have "''/d'' \<notin> fst ` set (dk_files d2)" by (simp add: d2)
  from sample_db [OF this] obtain h d3 s1 where db: "db_Open (ce_fe ?env) quiet ''/d'' (d2, empty_schema) = (Some (Inr h), d3, s1)"
    by blast
  have "Dir ''/d/config.json'' = ''/d''" by code_simp
  then show ?thesis by (simp add: main_options_def load P keys fp db sample_world_def Let_def)
qed

theorem program_start_witness:
  "\<exists>o1 w'. main_options (sample_config_env ''u'') (\<lambda>_. True) (replicate 64 CHR ''a'') quiet empty_store sample_world =
    (Some (Inr o1), w') \<and> validate_run o1 = None \<and> complete_schema (wo_schema w')"
proof -
  obtain o1 w' where run: "main_options (sample_config_env ''u'') (\<lambda>_. True) (replicate 64 CHR ''a'') quiet empty_store sample_world =
    (Some (Inr o1), w')" "ro_Config o1 = Some started_config" using sample_program_start by blast
  have P: "en_P (fe_env (ce_fe (sample_config_env ''u''))) = sample_prims" by (simp add: sample_config_env_def sample_env_def)
  have "private_key_path ''/d'' \<noteq> public_key_path ''/d''" by code_simp
  then have paths: "cf_Ed25519PrivateKeyPath started_config \<noteq> cf_Ed25519PublicKeyPath started_config"
    by (simp add: started_config_def defaultConfig_def)
  have "schema_at 0 = Inr (wo_schema sample_world)" by (simp add: schema_at_def sample_world_def)
  from program_start [OF run(1) _ _ _ _ this run(2) paths] show ?thesis
    using run(1) by (auto simp: P sample_prims_ok sample_config_env_def [of "''u''"] counted_json_ok Let_def)
qed

end
