(* ===== verification/UiSteps.thy ===== *)
theory UiSteps
  imports UserActions
begin

text \<open>
  The interface as a sequence of events (\<open>ui_event\<close>): what the user, the network, the store's poll and the toolkit make
  happen, each at a time of its own. What every event keeps of the table of transfers and of the prompts for files is
  shown once for all sequences.
\<close>

section \<open>What the helpers leave alone\<close>

definition same_ui :: "Controller \<Rightarrow> Controller \<Rightarrow> bool" where
  "same_ui c c' \<longleftrightarrow> ct_prompts c' = ct_prompts c \<and> ct_pending c' = ct_pending c \<and> ct_stopped c' = ct_stopped c \<and>
     (table_ok (ct_transfers c) \<longrightarrow> table_ok (ct_transfers c'))"

named_theorems same_ui

lemma same_ui_refl [same_ui]: "same_ui c c"
  by (simp add: same_ui_def)

lemma same_ui_trans: "same_ui a b \<Longrightarrow> same_ui b c \<Longrightarrow> same_ui a c"
  by (simp add: same_ui_def)

lemma same_ui_setStatus [same_ui]: "same_ui c0 c \<Longrightarrow> same_ui c0 (setStatus ue m c)"
  by (simp add: same_ui_def setStatus_def applyStatusLabel_def Let_def)

lemma same_ui_failed [same_ui]: "same_ui c0 c \<Longrightarrow> same_ui c0 (failed ue w e c)"
  by (simp add: failed_def same_ui)

lemma same_ui_refreshChatView [same_ui]: "same_ui c0 c \<Longrightarrow> same_ui c0 (refreshChatView ue c)"
  by (auto simp: refreshChatView_def Let_def same_ui split: sum.split)
    (simp_all add: same_ui_def)

lemma same_ui_refreshChatForPeer [same_ui]: "same_ui c0 c \<Longrightarrow> same_ui c0 (refreshChatForPeer ue p c)"
  by (simp add: refreshChatForPeer_def same_ui)

lemma same_ui_updateChatHeader [same_ui]: "same_ui c0 c \<Longrightarrow> same_ui c0 (updateChatHeader c)"
  by (simp add: updateChatHeader_def same_ui_def split: option.split)

lemma same_ui_refreshDiscoveryRows [same_ui]: "same_ui c0 c \<Longrightarrow> same_ui c0 (refreshDiscoveryRows c)"
  by (simp add: refreshDiscoveryRows_def same_ui_def Let_def)

lemma same_ui_run: "run_device f c = (r, c1) \<Longrightarrow> same_ui c0 c \<Longrightarrow> same_ui c0 c1"
  by (auto simp: run_device_def same_ui_def split: prod.splits)

lemma same_ui_runs:
  "run_device f c = (r, c1) \<Longrightarrow> same_ui c c1"
  "run_at_manager g c = (r, c1) \<Longrightarrow> same_ui c c1"
  "run_at_node h c = (r, c1) \<Longrightarrow> same_ui c c1"
  "ui_statement k c = (r', c1) \<Longrightarrow> same_ui c c1"
  by (auto simp: run_at_manager_def run_at_node_def ui_statement_def intro: same_ui_run same_ui_refl)

lemma same_ui_load_settings: "same_ui c0 c \<Longrightarrow> same_ui c0 (snd (load_settings ue ps c))"
proof (induction ue ps c rule: load_settings.induct)
  case (2 ue p ps c)
  obtain r c2 where r: "ui_statement (EnsurePeerSettingsExist (p_DeviceID p)) c = (r, c2)" by fastforce
  have "same_ui c0 c2" by (rule same_ui_run [OF r [unfolded ui_statement_def] 2(4)])
  then show ?case using 2 r by (cases r) (auto simp: same_ui split: sum.split)
qed simp

lemma same_ui_refreshPeersFromStore [same_ui]: "same_ui c0 c \<Longrightarrow> same_ui c0 (refreshPeersFromStore ue c)"
proof -
  assume c: "same_ui c0 c"
  obtain gs c1 where l: "load_settings ue (filter (\<lambda>p. p_DeviceID p \<noteq> ct_localID c) (StorePeers.ListPeers (ct_store c))) c = (gs, c1)"
    by fastforce
  have "same_ui c0 c1" using same_ui_load_settings [OF c] l by (metis snd_conv)
  then have "same_ui c0 (c1\<lparr>ct_peers := ps, ct_peerSettings := gs, ct_selected := i\<rparr>)" for ps i
    by (simp add: same_ui_def)
  then show ?thesis by (simp add: refreshPeersFromStore_def l Let_def same_ui)
qed

lemma same_ui_notify [same_ui]:
  "same_ui c0 c \<Longrightarrow> same_ui c0 (maybeNotifyIncomingMessage m c)"
  "same_ui c0 c \<Longrightarrow> same_ui c0 (maybeNotifyIncomingFileRequest req c)"
  by (simp_all add: maybeNotifyIncomingMessage_def maybeNotifyIncomingFileRequest_def sendDesktopNotification_def same_ui_def Let_def)

lemma same_ui_upsert [same_ui]: "ue_ms ue \<noteq> 0 \<Longrightarrow> same_ui c0 c \<Longrightarrow> same_ui c0 (ui_upsert ue e c)"
  by (simp add: ui_upsert_def same_ui_def table_ok_upsert)

lemma same_ui_clear [same_ui]:
  "same_ui c0 c \<Longrightarrow> same_ui c0 (c\<lparr>ct_transfers := clear_completed (ct_transfers c)\<rparr>)"
  "same_ui c0 c \<Longrightarrow> same_ui c0 (c\<lparr>ct_transfers := forget_transfers peer (ct_transfers c)\<rparr>)"
  by (simp_all add: same_ui_def table_ok_clear table_ok_forget)

section \<open>Events\<close>

datatype ui_event =
    PromptOpened FileRequestNotification
  | PromptDrawn nat
  | PromptClicked nat bool
  | PromptReturned bool nat
  | Reported FileProgress
  | Arrived Message
  | Polled
  | PeerSelected int
  | MessageSent string
  | QueueTurn "WalkEntry list res" Queueing
  | QueueWoken "nat \<Rightarrow> FileEnv" wake Queueing
  | CancelPressed string
  | RetryPressed string
  | CompletedCleared
  | HistoryCleared string
  | Stopped

fun ui_act :: "UiEnv \<Rightarrow> ui_event \<Rightarrow> Controller \<Rightarrow> Controller" where
  "ui_act ue (PromptOpened req) c = snd (prompt_open req c)"
| "ui_act ue (PromptDrawn k) c = prompt_draw k c"
| "ui_act ue (PromptClicked k accept) c = prompt_click k accept c"
| "ui_act ue (PromptReturned stopping k) c = snd (prompt_return ue stopping k c)"
| "ui_act ue (Reported p) c = handleFileProgress ue p c"
| "ui_act ue (Arrived m) c = handleIncomingMessage ue m c"
| "ui_act ue Polled c = pollLoop_tick ue c"
| "ui_act ue (PeerSelected i) c = selectPeerByIndex ue i c"
| "ui_act ue (MessageSent text) c = sendCurrentMessage ue text c"
| "ui_act ue (QueueTurn walk q) c = snd (queue_turn ue walk q c)"
| "ui_act ue (QueueWoken fes w q) c = snd (queue_wake ue fes w q c)"
| "ui_act ue (CancelPressed i) c = cancelTransferFromUI ue i c"
| "ui_act ue (RetryPressed i) c = retryTransferFromUI ue i c"
| "ui_act ue CompletedCleared c = clearCompletedTransfers ue c"
| "ui_act ue (HistoryCleared peer) c = clearPeerHistory ue peer c"
| "ui_act ue Stopped c = shutdown c"

fun ui_run :: "(UiEnv \<times> ui_event) list \<Rightarrow> Controller \<Rightarrow> Controller" where
  "ui_run [] c = c"
| "ui_run ((ue, ev) # evs) c = ui_run evs (ui_act ue ev c)"

section \<open>Prompts\<close>

definition waiting :: "Controller \<Rightarrow> nat \<Rightarrow> bool" where
  "waiting c k \<longleftrightarrow> k < length (ct_prompts c) \<and> pr_decision (ct_prompts c ! k) = None"

definition asks :: "Controller \<Rightarrow> nat \<Rightarrow> string" where
  "asks c k = fn_FileID (pr_request (ct_prompts c ! k))"

definition window_of :: "Controller \<Rightarrow> nat \<Rightarrow> window" where
  "window_of c k = pr_window (ct_prompts c ! k)"

text \<open>Until the program stops: the pending entries are those of the waiting prompts, no two for one file, an entry
  leads to the window of its prompt once that is drawn, and only a prompt whose window was drawn is decided.\<close>

definition prompts_ok :: "Controller \<Rightarrow> bool" where
  "prompts_ok c \<longleftrightarrow>
     (\<forall>j k. waiting c j \<and> waiting c k \<and> asks c j = asks c k \<longrightarrow> j = k) \<and>
     (\<forall>i. map_of (ct_pending c) i = None \<longleftrightarrow> (\<forall>k. waiting c k \<longrightarrow> asks c k \<noteq> i)) \<and>
     (\<forall>k st. waiting c k \<and> map_of (ct_pending c) (asks c k) = Some st \<longrightarrow>
        window_of c k \<noteq> Gone \<and> pt_dismiss st = (if window_of c k = Shown then Some k else None)) \<and>
     (\<forall>k. k < length (ct_prompts c) \<and> window_of c k = Unseen \<longrightarrow> waiting c k)"

lemma same_prompts:
  assumes "same_ui c c'"
  shows "waiting c' = waiting c" "asks c' = asks c" "window_of c' = window_of c" "prompts_ok c' = prompts_ok c"
  using assms by (simp_all add: same_ui_def waiting_def asks_def window_of_def prompts_ok_def fun_eq_iff)

lemma respond_effect:
  assumes "waiting c k"
  shows "waiting (prompt_respond k r c) j \<longleftrightarrow> waiting c j \<and> j \<noteq> k" "asks (prompt_respond k r c) j = asks c j"
    "window_of (prompt_respond k r c) j = window_of c j"
    "map_of (ct_pending (prompt_respond k r c)) i = (if i = asks c k then None else map_of (ct_pending c) i)"
    "ct_stopped (prompt_respond k r c) = ct_stopped c" "length (ct_prompts (prompt_respond k r c)) = length (ct_prompts c)"
    "pr_decision (ct_prompts (prompt_respond k r c) ! k) = Some r"
  using assms by (auto simp: prompt_respond_def waiting_def asks_def window_of_def upd_prompt_def nth_list_update delete_conv')

lemma respond_idle: "\<not> waiting c k \<Longrightarrow> prompt_respond k r c = c"
  by (auto simp: prompt_respond_def waiting_def)

lemma prompts_ok_parts:
  assumes "prompts_ok c"
  shows "waiting c j \<Longrightarrow> waiting c k \<Longrightarrow> asks c j = asks c k \<Longrightarrow> j = k"
    "map_of (ct_pending c) i = None \<longleftrightarrow> (\<forall>k. waiting c k \<longrightarrow> asks c k \<noteq> i)"
    "waiting c k \<Longrightarrow> map_of (ct_pending c) (asks c k) = Some st \<Longrightarrow>
      window_of c k \<noteq> Gone \<and> pt_dismiss st = (if window_of c k = Shown then Some k else None)"
    "k < length (ct_prompts c) \<Longrightarrow> window_of c k = Unseen \<Longrightarrow> waiting c k"
  using assms unfolding prompts_ok_def by (elim conjE, blast)+

lemma prompts_okI:
  assumes "\<And>j k. waiting c j \<Longrightarrow> waiting c k \<Longrightarrow> asks c j = asks c k \<Longrightarrow> j = k"
    and "\<And>i. map_of (ct_pending c) i = None \<longleftrightarrow> (\<forall>k. waiting c k \<longrightarrow> asks c k \<noteq> i)"
    and "\<And>k st. waiting c k \<Longrightarrow> map_of (ct_pending c) (asks c k) = Some st \<Longrightarrow>
      window_of c k \<noteq> Gone \<and> pt_dismiss st = (if window_of c k = Shown then Some k else None)"
    and "\<And>k. k < length (ct_prompts c) \<Longrightarrow> window_of c k = Unseen \<Longrightarrow> waiting c k"
  shows "prompts_ok c"
  unfolding prompts_ok_def by (intro conjI allI impI; (elim conjE)?; (rule assms(1,2,4) conjunct1 [OF assms(3)] conjunct2 [OF assms(3)]; assumption)?)

lemma respond_ok:
  assumes "prompts_ok c" "window_of c k \<noteq> Unseen"
  shows "prompts_ok (prompt_respond k r c)"
proof (cases "waiting c k")
  case True
  note effect = respond_effect [OF True]
  show ?thesis
  proof (rule prompts_okI)
    fix i
    show "map_of (ct_pending (prompt_respond k r c)) i = None \<longleftrightarrow>
      (\<forall>j. waiting (prompt_respond k r c) j \<longrightarrow> asks (prompt_respond k r c) j \<noteq> i)"
      using prompts_ok_parts(1) [OF assms(1) _ True] prompts_ok_parts(2) [OF assms(1), of i] by (auto simp: effect)
  qed (use prompts_ok_parts [OF assms(1)] assms(2) in \<open>auto simp: effect split: if_splits\<close>)
qed (simp add: respond_idle assms)

lemma open_ok:
  assumes "prompts_ok c"
  shows "prompts_ok (snd (prompt_open req c))"
proof (cases "map_of (ct_pending c) (fn_FileID req)")
  case None
  define c1 where "c1 = c\<lparr>ct_pending := AList.update (fn_FileID req) \<lparr>pt_dismiss = None, pt_cancelRequested = False\<rparr> (ct_pending c),
    ct_prompts := ct_prompts c @ [\<lparr>pr_request = req, pr_window = Unseen, pr_decision = None, pr_returned = False\<rparr>]\<rparr>"
  let ?n = "length (ct_prompts c)"
  have fresh: "\<not> (waiting c k \<and> asks c k = fn_FileID req)" for k using prompts_ok_parts(2) [OF assms] None by blast
  have n: "\<not> waiting c ?n" by (simp add: waiting_def)
  have w: "waiting c1 k \<longleftrightarrow> waiting c k \<or> k = ?n" for k by (auto simp: waiting_def c1_def nth_append)
  have a: "waiting c k \<Longrightarrow> asks c1 k = asks c k" "waiting c k \<Longrightarrow> window_of c1 k = window_of c k" for k
    by (simp_all add: waiting_def asks_def window_of_def c1_def nth_append)
  have new: "asks c1 ?n = fn_FileID req" "window_of c1 ?n = Unseen" by (simp_all add: asks_def window_of_def c1_def)
  have p: "map_of (ct_pending c1) i = (if i = fn_FileID req then Some \<lparr>pt_dismiss = None, pt_cancelRequested = False\<rparr>
      else map_of (ct_pending c) i)" for i by (simp add: c1_def update_conv')
  have "prompts_ok c1"
  proof (rule prompts_okI)
    fix j k assume "waiting c1 j" "waiting c1 k" "asks c1 j = asks c1 k"
    then show "j = k" using prompts_ok_parts(1) [OF assms, of j k] fresh [of j] fresh [of k] a new(1) by (auto simp: w)
  next
    fix i
    show "map_of (ct_pending c1) i = None \<longleftrightarrow> (\<forall>k. waiting c1 k \<longrightarrow> asks c1 k \<noteq> i)"
      using prompts_ok_parts(2) [OF assms, of i] a(1) new(1) by (auto simp: w p)
  next
    fix k st assume k: "waiting c1 k" "map_of (ct_pending c1) (asks c1 k) = Some st"
    then show "window_of c1 k \<noteq> Gone \<and> pt_dismiss st = (if window_of c1 k = Shown then Some k else None)"
      using prompts_ok_parts(3) [OF assms, of k st] fresh [of k] a [of k] new by (auto simp: w p split: if_splits)
  next
    fix k assume "k < length (ct_prompts c1)" "window_of c1 k = Unseen"
    then have "k < length (ct_prompts c) \<and> window_of c k = Unseen \<or> k = ?n"
      by (auto simp: c1_def window_of_def nth_append less_Suc_eq)
    then show "waiting c1 k" using prompts_ok_parts(4) [OF assms, of k] by (auto simp: w)
  qed
  then show ?thesis using None by (simp add: prompt_open_def c1_def same_prompts(4) [OF same_ui_notify(2) [OF same_ui_refl]])
qed (simp add: prompt_open_def assms)

text \<open>A change to the entry of a waiting prompt and to its window.\<close>

lemma entry_changed:
  assumes "prompts_ok c" "waiting c k" "window_of c1 k \<noteq> Gone" "pt_dismiss st = (if window_of c1 k = Shown then Some k else None)"
    and "\<And>j. waiting c1 j = waiting c j" "\<And>j. asks c1 j = asks c j" "\<And>j. j \<noteq> k \<Longrightarrow> window_of c1 j = window_of c j"
    and "\<And>i. map_of (ct_pending c1) i = (if i = asks c k then Some st else map_of (ct_pending c) i)"
    and "length (ct_prompts c1) = length (ct_prompts c)"
  shows "prompts_ok c1"
proof (rule prompts_okI)
  fix i
  show "map_of (ct_pending c1) i = None \<longleftrightarrow> (\<forall>j. waiting c1 j \<longrightarrow> asks c1 j \<noteq> i)"
    using prompts_ok_parts(2) [OF assms(1), of i] assms(2,5,6,8) by auto
next
  fix j st1 assume j: "waiting c1 j" "map_of (ct_pending c1) (asks c1 j) = Some st1"
  show "window_of c1 j \<noteq> Gone \<and> pt_dismiss st1 = (if window_of c1 j = Shown then Some j else None)"
  proof (cases "j = k")
    case True
    then show ?thesis using j assms(2-8) by (simp split: if_splits)
  next
    case False
    then have "asks c j \<noteq> asks c k" using prompts_ok_parts(1) [OF assms(1), of j k] j(1) assms(2,5) by auto
    then show ?thesis using j prompts_ok_parts(3) [OF assms(1), of j st1] assms(5-8) False by simp
  qed
next
  fix j assume "j < length (ct_prompts c1)" "window_of c1 j = Unseen"
  then show "waiting c1 j" using prompts_ok_parts(4) [OF assms(1), of j] assms(2,5,7,9) by (cases "j = k") auto
qed (use prompts_ok_parts(1) [OF assms(1)] assms(5,6) in auto)

lemma window_changed:
  assumes "k < length (ct_prompts c)" "c1 = upd_prompt k (\<lambda>p. p\<lparr>pr_window := v\<rparr>) (c\<lparr>ct_pending := pending\<rparr>)"
  shows "waiting c1 j = waiting c j" "asks c1 j = asks c j" "j \<noteq> k \<Longrightarrow> window_of c1 j = window_of c j" "window_of c1 k = v"
    "ct_pending c1 = pending" "length (ct_prompts c1) = length (ct_prompts c)"
  using assms by (auto simp: upd_prompt_def waiting_def asks_def window_of_def nth_list_update)

text \<open>Drawing the window of a waiting prompt.\<close>

definition shown :: "nat \<Rightarrow> filePromptState \<Rightarrow> Controller \<Rightarrow> Controller" where
  "shown k st c = upd_prompt k (\<lambda>p. p\<lparr>pr_window := Shown\<rparr>)
     (c\<lparr>ct_pending := AList.update (asks c k) (st\<lparr>pt_dismiss := Some k\<rparr>) (ct_pending c)\<rparr>)"

lemma drawn_entry:
  assumes "prompts_ok c" "k < length (ct_prompts c)" "window_of c k = Unseen"
  obtains st where "waiting c k" "map_of (ct_pending c) (asks c k) = Some st"
    "prompt_draw k c = (if pt_cancelRequested st then prompt_dismiss k True (shown k st c) else shown k st c)"
    "prompts_ok (shown k st c)" "window_of (shown k st c) k = Shown" "waiting (shown k st c) k"
proof -
  have k: "waiting c k" using prompts_ok_parts(4) [OF assms] .
  obtain st where st: "map_of (ct_pending c) (asks c k) = Some st"
    using prompts_ok_parts(2) [OF assms(1), of "asks c k"] k by (cases "map_of (ct_pending c) (asks c k)") auto
  note changed = window_changed [OF assms(2) shown_def [of k st c]]
  have "prompts_ok (shown k st c)"
    by (rule entry_changed [OF assms(1) k, where st = "st\<lparr>pt_dismiss := Some k\<rparr>"]) (simp_all add: changed update_conv')
  moreover have "prompt_draw k c = (if pt_cancelRequested st then prompt_dismiss k True (shown k st c) else shown k st c)"
    using assms(2,3) st by (simp add: prompt_draw_def window_of_def asks_def shown_def Let_def)
  ultimately show ?thesis using that [OF k st] k by (simp add: changed)
qed

lemma draw_ok:
  assumes "prompts_ok c"
  shows "prompts_ok (prompt_draw k c)"
proof (cases "k < length (ct_prompts c) \<and> window_of c k = Unseen")
  case True
  then obtain st where
    "prompt_draw k c = (if pt_cancelRequested st then prompt_dismiss k True (shown k st c) else shown k st c)"
    "prompts_ok (shown k st c)" "window_of (shown k st c) k = Shown"
    using drawn_entry [OF assms] by metis
  then show ?thesis by (simp add: prompt_dismiss_def respond_ok)
next
  case False
  then have "prompt_draw k c = c" by (auto simp: prompt_draw_def window_of_def)
  then show ?thesis by (simp add: assms)
qed

lemma click_ok: "prompts_ok c \<Longrightarrow> prompts_ok (prompt_click k accept c)"
  by (simp add: prompt_click_def respond_ok window_of_def)

text \<open>A withdrawal finds the prompt that waits for its file.\<close>

lemma withdrawn:
  assumes "prompts_ok c" "waiting c k" "TrimSpace (asks c k) = asks c k" "asks c k \<noteq> []"
  obtains st where "map_of (ct_pending c) (asks c k) = Some st"
    "dismissPendingFilePrompt (asks c k) c =
      (True, if window_of c k = Shown then prompt_dismiss k True c
             else c\<lparr>ct_pending := AList.update (asks c k) (st\<lparr>pt_cancelRequested := True\<rparr>) (ct_pending c)\<rparr>)"
    "window_of c k \<noteq> Gone" "pt_dismiss st = (if window_of c k = Shown then Some k else None)"
proof -
  obtain st where st: "map_of (ct_pending c) (asks c k) = Some st"
    using prompts_ok_parts(2) [OF assms(1), of "asks c k"] assms(2) by (cases "map_of (ct_pending c) (asks c k)") auto
  show ?thesis
    using that [OF st] prompts_ok_parts(3) [OF assms(1,2) st] assms(3,4) st by (simp add: dismissPendingFilePrompt_def Let_def)
qed

lemma dismiss_ok:
  assumes "prompts_ok c"
  shows "prompts_ok (snd (dismissPendingFilePrompt i c))"
proof (cases "TrimSpace i = [] \<or> map_of (ct_pending c) (TrimSpace i) = None")
  case False
  then obtain k where k: "waiting c k" "asks c k = TrimSpace i"
    using prompts_ok_parts(2) [OF assms, of "TrimSpace i"] by auto
  have same: "dismissPendingFilePrompt i c = dismissPendingFilePrompt (asks c k) c"
    by (simp add: dismissPendingFilePrompt_def k(2))
  obtain st where st: "map_of (ct_pending c) (asks c k) = Some st"
    "dismissPendingFilePrompt (asks c k) c =
      (True, if window_of c k = Shown then prompt_dismiss k True c
             else c\<lparr>ct_pending := AList.update (asks c k) (st\<lparr>pt_cancelRequested := True\<rparr>) (ct_pending c)\<rparr>)"
    "window_of c k \<noteq> Gone" "pt_dismiss st = (if window_of c k = Shown then Some k else None)"
    using withdrawn [OF assms k(1)] False k(2) by (metis TrimSpace_idem)
  show ?thesis
  proof (cases "window_of c k = Shown")
    case True
    then show ?thesis by (simp add: same st(2) prompt_dismiss_def respond_ok assms)
  next
    case False
    let ?c1 = "c\<lparr>ct_pending := AList.update (asks c k) (st\<lparr>pt_cancelRequested := True\<rparr>) (ct_pending c)\<rparr>"
    have "prompts_ok ?c1"
      by (rule entry_changed [OF assms k(1), where st = "st\<lparr>pt_cancelRequested := True\<rparr>"])
        (use st False in \<open>simp_all add: waiting_def asks_def window_of_def update_conv'\<close>)
    then show ?thesis using False by (simp add: same st(2))
  qed
qed (auto simp: dismissPendingFilePrompt_def assms Let_def)

section \<open>What every event keeps\<close>

lemma same_ui_queue_files:
  "ue_ms ue \<noteq> 0 \<Longrightarrow> same_ui c0 c \<Longrightarrow> same_ui c0 (snd (queue_folder_files ue folderID ids q c))"
  by (induction ue folderID ids q c rule: queue_folder_files.induct) (auto simp: same_ui split: sum.split)

lemma same_ui_queue_turn: "ue_ms ue \<noteq> 0 \<Longrightarrow> same_ui c (snd (queue_turn ue walk q c))"
  by (auto simp: queue_turn_def Let_def same_ui split: list.split option.split sum.split prod.split bool.split dest!: same_ui_runs)

lemma same_ui_queue_wake: "ue_ms ue \<noteq> 0 \<Longrightarrow> same_ui c (snd (queue_wake ue fes w q c))"
  by (auto simp: queue_wake_def Let_def same_ui same_ui_queue_files
      split: list.split option.split sum.split prod.split dest!: same_ui_runs)

lemma same_ui_sendCurrentMessage: "same_ui c (sendCurrentMessage ue text0 c)"
  by (auto simp: sendCurrentMessage_def Let_def same_ui split: option.split prod.split dest!: same_ui_runs)

lemma same_ui_cancel: "ue_ms ue \<noteq> 0 \<Longrightarrow> same_ui c (cancelTransferFromUI ue i c)"
  by (auto simp: cancelTransferFromUI_def Let_def same_ui split: option.split prod.split sum.split dest!: same_ui_runs)

lemma same_ui_retry: "ue_ms ue \<noteq> 0 \<Longrightarrow> same_ui c (retryTransferFromUI ue i c)"
  by (auto simp: retryTransferFromUI_def Let_def same_ui split: option.split prod.split sum.split dest!: same_ui_runs)

lemma same_ui_history: "same_ui c (clearPeerHistory ue peer c)"
  by (auto simp: clearPeerHistory_def Let_def same_ui split: prod.split sum.split dest!: same_ui_runs intro: same_ui_trans
      intro!: same_ui_setStatus same_ui_failed same_ui_refreshChatForPeer same_ui_clear)

lemma same_ui_select: "same_ui c (selectPeerByIndex ue i c)"
proof -
  have "same_ui c (c\<lparr>ct_selected := p\<rparr>)" for p by (simp add: same_ui_def)
  then show ?thesis by (simp add: selectPeerByIndex_def same_ui split: option.split)
qed

fun is_prompt_event :: "ui_event \<Rightarrow> bool" where
  "is_prompt_event (PromptOpened _) = True"
| "is_prompt_event (PromptDrawn _) = True"
| "is_prompt_event (PromptClicked _ _) = True"
| "is_prompt_event (PromptReturned _ _) = True"
| "is_prompt_event (Reported _) = True"
| "is_prompt_event Stopped = True"
| "is_prompt_event _ = False"

lemma same_ui_act: "ue_ms ue \<noteq> 0 \<Longrightarrow> \<not> is_prompt_event ev \<Longrightarrow> same_ui c (ui_act ue ev c)"
  by (cases ev)
    (simp_all add: handleIncomingMessage_def pollLoop_tick_def clearCompletedTransfers_def same_ui same_ui_select
      same_ui_sendCurrentMessage same_ui_queue_turn same_ui_queue_wake same_ui_cancel same_ui_retry same_ui_history)

text \<open>Which prompts have been answered with yes.\<close>

definition accepted :: "Controller \<Rightarrow> nat set" where
  "accepted c = {k. k < length (ct_prompts c) \<and> (\<exists>d. pr_decision (ct_prompts c ! k) = Some d \<and> pd_Accept d)}"

lemma same_accepted: "same_ui c c' \<Longrightarrow> accepted c' = accepted c"
  by (simp add: same_ui_def accepted_def)

lemma respond_accepted: "accepted (prompt_respond k r c) \<subseteq> accepted c \<union> (if pd_Accept r then {k} else {})"
  by (auto simp: prompt_respond_def accepted_def upd_prompt_def nth_list_update split: if_splits)

lemma respond_same [simp]:
  "ct_stopped (prompt_respond k r c) = ct_stopped c" "ct_transfers (prompt_respond k r c) = ct_transfers c"
  by (simp_all add: prompt_respond_def upd_prompt_def)

lemma dismiss_effect:
  "accepted (prompt_dismiss k b c) \<subseteq> accepted c" "ct_stopped (prompt_dismiss k b c) = ct_stopped c"
  "ct_transfers (prompt_dismiss k b c) = ct_transfers c"
  using respond_accepted [of k _ c] by (fastforce simp: prompt_dismiss_def)+

lemma draw_effect:
  "accepted (prompt_draw k c) \<subseteq> accepted c" "ct_stopped (prompt_draw k c) = ct_stopped c"
  "ct_transfers (prompt_draw k c) = ct_transfers c"
proof -
  have upd: "accepted (upd_prompt k (\<lambda>p. p\<lparr>pr_window := v\<rparr>) c) = accepted c"
    "ct_stopped (upd_prompt k f c) = ct_stopped c" "ct_transfers (upd_prompt k f c) = ct_transfers c" for v f c
    by (auto simp: accepted_def upd_prompt_def nth_list_update)
  have pend: "accepted (c\<lparr>ct_pending := t\<rparr>) = accepted c" for t by (simp add: accepted_def)
  show "accepted (prompt_draw k c) \<subseteq> accepted c" "ct_stopped (prompt_draw k c) = ct_stopped c"
    "ct_transfers (prompt_draw k c) = ct_transfers c"
    using dismiss_effect [of k True "upd_prompt k (\<lambda>p. p\<lparr>pr_window := Shown\<rparr>) (c\<lparr>ct_pending := t\<rparr>)" for t]
    by (auto simp: prompt_draw_def Let_def upd pend split: option.split)
qed

lemma withdraw_effect:
  "accepted (snd (dismissPendingFilePrompt i c)) \<subseteq> accepted c" "ct_stopped (snd (dismissPendingFilePrompt i c)) = ct_stopped c"
  "ct_transfers (snd (dismissPendingFilePrompt i c)) = ct_transfers c"
  using dismiss_effect [of _ True c] by (auto simp: dismissPendingFilePrompt_def accepted_def Let_def split: option.split)

text \<open>A return marks the prompt; before the program stops that is all it does to the prompts.\<close>

lemma returned_ok:
  assumes "prompts_ok c" "\<not> ct_stopped c" "ue_ms ue \<noteq> 0"
  shows "prompts_ok (snd (prompt_return ue stopping k c)) \<and> ct_stopped (snd (prompt_return ue stopping k c)) = ct_stopped c"
proof -
  let ?c1 = "upd_prompt k (\<lambda>p. p\<lparr>pr_returned := True\<rparr>) c"
  have "prompts_ok ?c1 = prompts_ok c"
  proof -
    have "waiting ?c1 = waiting c" "asks ?c1 = asks c" "window_of ?c1 = window_of c" "ct_pending ?c1 = ct_pending c"
      "length (ct_prompts ?c1) = length (ct_prompts c)"
      by (auto simp: fun_eq_iff upd_prompt_def waiting_def asks_def window_of_def nth_list_update)
    then show ?thesis by (simp only: prompts_ok_def)
  qed
  moreover have "same_ui ?c1 c' \<Longrightarrow> prompts_ok c' = prompts_ok ?c1 \<and> ct_stopped c' = ct_stopped c" for c'
    using same_prompts(4) [of ?c1 c'] by (simp add: same_ui_def upd_prompt_def)
  moreover have "snd (prompt_return ue stopping k c) = c \<or> same_ui ?c1 (snd (prompt_return ue stopping k c))"
    using assms(2,3) by (auto simp: prompt_return_def Let_def same_ui split: option.split)
  ultimately show ?thesis using assms(1) by metis
qed

lemma returned_effect:
  assumes "ue_ms ue \<noteq> 0"
  shows "accepted (snd (prompt_return ue stopping k c)) = accepted c"
    "table_ok (ct_transfers c) \<Longrightarrow> table_ok (ct_transfers (snd (prompt_return ue stopping k c)))"
    "fst (prompt_return ue stopping k c) = Some (Inr True) \<Longrightarrow> k \<in> accepted c"
    "ct_stopped (snd (prompt_return ue stopping k c)) = ct_stopped c"
proof -
  let ?c1 = "upd_prompt k (\<lambda>p. p\<lparr>pr_returned := True\<rparr>) c"
  have marked: "accepted ?c1 = accepted c" "ct_transfers ?c1 = ct_transfers c" "ct_stopped ?c1 = ct_stopped c"
    by (auto simp: accepted_def upd_prompt_def nth_list_update)
  have kept: "accepted c' = accepted ?c1 \<and> ct_stopped c' = ct_stopped ?c1 \<and>
      (table_ok (ct_transfers ?c1) \<longrightarrow> table_ok (ct_transfers c'))" if "same_ui ?c1 c'" for c'
    using that same_accepted [OF that] unfolding same_ui_def by blast
  have "snd (prompt_return ue stopping k c) = c \<or> same_ui ?c1 (snd (prompt_return ue stopping k c)) \<or>
      snd (prompt_return ue stopping k c) = ?c1\<lparr>ct_pending := AList.delete (asks c k) (ct_pending c)\<rparr>"
    using assms by (auto simp: prompt_return_def asks_def Let_def same_ui split: option.split)
  then show "accepted (snd (prompt_return ue stopping k c)) = accepted c"
    "table_ok (ct_transfers c) \<Longrightarrow> table_ok (ct_transfers (snd (prompt_return ue stopping k c)))"
    "ct_stopped (snd (prompt_return ue stopping k c)) = ct_stopped c"
    using kept marked by (elim disjE; simp add: accepted_def)+
  show "fst (prompt_return ue stopping k c) = Some (Inr True) \<Longrightarrow> k \<in> accepted c"
    by (auto simp: prompt_return_def accepted_def Let_def split: if_splits option.splits)
qed

lemma reported_frame:
  assumes "ue_ms ue \<noteq> 0"
  shows "same_ui (withdraw_reported (reported_entry p) c) (handleFileProgress ue p c)"
proof -
  have progress: "same_ui c0 (c1\<lparr>ct_progress := t\<rparr>)" if "same_ui c0 c1" for c0 c1 t using that by (simp add: same_ui_def)
  have "same_ui c0 c1 \<Longrightarrow> same_ui c0 (note_progress ue e c1)" for e c0 c1
    using assms by (simp add: note_progress_def Let_def same_ui progress)
  then show ?thesis by (simp add: handleFileProgress_def Let_def same_ui_refl)
qed

lemma withdraw_reported_effect:
  "accepted (withdraw_reported e c) \<subseteq> accepted c" "ct_stopped (withdraw_reported e c) = ct_stopped c"
  "ct_transfers (withdraw_reported e c) = ct_transfers c" "prompts_ok c \<Longrightarrow> prompts_ok (withdraw_reported e c)"
  using withdraw_effect by (simp_all add: withdraw_reported_def dismiss_ok)

lemma shutdown_effect: "accepted (shutdown c) = accepted c" "ct_stopped (shutdown c)" "ct_transfers (shutdown c) = ct_transfers c"
  by (simp_all add: shutdown_def accepted_def split: prod.split)

lemma open_effect:
  "accepted (snd (prompt_open req c)) = accepted c" "ct_stopped (snd (prompt_open req c)) = ct_stopped c"
  "table_ok (ct_transfers c) \<Longrightarrow> table_ok (ct_transfers (snd (prompt_open req c)))"
proof -
  define c1 where "c1 = c\<lparr>ct_pending := AList.update (fn_FileID req) \<lparr>pt_dismiss = None, pt_cancelRequested = False\<rparr> (ct_pending c),
    ct_prompts := ct_prompts c @ [\<lparr>pr_request = req, pr_window = Unseen, pr_decision = None, pr_returned = False\<rparr>]\<rparr>"
  have c1: "accepted c1 = accepted c" "ct_stopped c1 = ct_stopped c" "ct_transfers c1 = ct_transfers c"
    by (auto simp: c1_def accepted_def nth_append split: if_splits)
  have kept: "accepted c' = accepted c \<and> ct_stopped c' = ct_stopped c \<and>
      (table_ok (ct_transfers c) \<longrightarrow> table_ok (ct_transfers c'))" if "same_ui c1 c'" for c'
    using that same_accepted [OF that] c1 by (simp add: same_ui_def)
  have "snd (prompt_open req c) = c \<or> same_ui c1 (snd (prompt_open req c))"
    by (simp add: prompt_open_def c1_def same_ui)
  then show "accepted (snd (prompt_open req c)) = accepted c" "ct_stopped (snd (prompt_open req c)) = ct_stopped c"
    "table_ok (ct_transfers c) \<Longrightarrow> table_ok (ct_transfers (snd (prompt_open req c)))"
    using kept by (elim disjE; simp)+
qed

lemma click_effect:
  "accepted (prompt_click k b c) \<subseteq> accepted c \<union> (if b then {k} else {})" "ct_stopped (prompt_click k b c) = ct_stopped c"
  "ct_transfers (prompt_click k b c) = ct_transfers c"
  using respond_accepted [of k "\<lparr>pd_Accept = b, pd_RemoteCanceled = False\<rparr>" c] by (auto simp: prompt_click_def)

definition ui_ok :: "Controller \<Rightarrow> bool" where
  "ui_ok c \<longleftrightarrow> table_ok (ct_transfers c) \<and> (\<not> ct_stopped c \<longrightarrow> prompts_ok c)"

lemma same_ui_ok: "same_ui c c' \<Longrightarrow> ui_ok c \<Longrightarrow> ui_ok c'"
  using same_prompts(4) [of c c'] by (auto simp: ui_ok_def same_ui_def)

lemma ui_act_ok:
  assumes "ui_ok c" "ue_ms ue \<noteq> 0"
  shows "ui_ok (ui_act ue ev c)"
proof (cases "is_prompt_event ev")
  case True
  then show ?thesis
  proof (cases ev)
    case (PromptOpened req)
    then show ?thesis using assms open_effect open_ok [of c req] by (simp add: ui_ok_def)
  next
    case (PromptDrawn k)
    then show ?thesis using assms draw_effect [of k c] draw_ok [of c k] by (simp add: ui_ok_def)
  next
    case (PromptClicked k b)
    then show ?thesis using assms click_effect [of k b c] click_ok [of c k b] by (simp add: ui_ok_def)
  next
    case (PromptReturned stopping k)
    then show ?thesis
      using assms returned_effect(2,4) [OF assms(2)] returned_ok [of c ue stopping k] by (auto simp: ui_ok_def)
  next
    case (Reported p)
    have "ui_ok (withdraw_reported (reported_entry p) c)"
      using assms(1) withdraw_reported_effect by (simp add: ui_ok_def)
    then show ?thesis using same_ui_ok [OF reported_frame [OF assms(2)]] by (simp add: Reported)
  next
    case Stopped
    then show ?thesis using assms(1) shutdown_effect [of c] by (simp add: ui_ok_def)
  qed simp_all
qed (use assms same_ui_act same_ui_ok in blast)

lemma ui_act_accepted:
  assumes "ue_ms ue \<noteq> 0"
  shows "accepted (ui_act ue ev c) \<subseteq> accepted c \<union> {k. ev = PromptClicked k True}"
proof (cases "is_prompt_event ev")
  case True
  then show ?thesis
  proof (cases ev)
    case (PromptClicked k b)
    then show ?thesis using click_effect(1) [of k b c] by (cases b) auto
  next
    case (Reported p)
    then show ?thesis
      using same_accepted [OF reported_frame [OF assms, of p c]] withdraw_reported_effect(1) [of "reported_entry p" c] by auto
  qed (use open_effect draw_effect returned_effect(1) [OF assms] shutdown_effect in auto)
qed (use same_accepted [OF same_ui_act [OF assms]] in blast)

lemma ui_run_ok: "ui_ok c \<Longrightarrow> \<forall>(ue, ev) \<in> set evs. ue_ms ue \<noteq> 0 \<Longrightarrow> ui_ok (ui_run evs c)"
  by (induction evs c rule: ui_run.induct) (auto simp: ui_act_ok)

lemma ui_run_accepted:
  "\<forall>(ue, ev) \<in> set evs. ue_ms ue \<noteq> 0 \<Longrightarrow> accepted (ui_run evs c) \<subseteq> accepted c \<union> {k. PromptClicked k True \<in> snd ` set evs}"
proof (induction evs c rule: ui_run.induct)
  case (2 ue ev evs c)
  then show ?case using ui_act_accepted [of ue ev c] by fastforce
qed simp

text \<open>Whether its window has been drawn or not, a waiting prompt that is withdrawn ends as canceled by the sender.\<close>

lemma withdrawn_decided:
  assumes "prompts_ok c" "waiting c k" "TrimSpace (asks c k) = asks c k" "asks c k \<noteq> []"
  shows "pr_decision (ct_prompts (prompt_draw k (snd (dismissPendingFilePrompt (asks c k) c))) ! k) =
    Some \<lparr>pd_Accept = False, pd_RemoteCanceled = True\<rparr>"
proof -
  let ?r = "\<lparr>pd_Accept = False, pd_RemoteCanceled = True\<rparr>"
  obtain st where st: "map_of (ct_pending c) (asks c k) = Some st" "window_of c k \<noteq> Gone"
    and w: "dismissPendingFilePrompt (asks c k) c = (True, if window_of c k = Shown then prompt_dismiss k True c
      else c\<lparr>ct_pending := AList.update (asks c k) (st\<lparr>pt_cancelRequested := True\<rparr>) (ct_pending c)\<rparr>)"
    using withdrawn [OF assms] by metis
  show ?thesis
  proof (cases "window_of c k = Shown")
    case True
    note effect = respond_effect [OF assms(2), of ?r]
    have "prompt_draw k (prompt_respond k ?r c) = prompt_respond k ?r c"
      using effect(3) [of k] True by (simp add: prompt_draw_def window_of_def)
    then show ?thesis using True effect(7) by (simp add: w prompt_dismiss_def)
  next
    case False
    let ?c1 = "c\<lparr>ct_pending := AList.update (asks c k) (st\<lparr>pt_cancelRequested := True\<rparr>) (ct_pending c)\<rparr>"
    have c1: "snd (dismissPendingFilePrompt (asks c k) c) = ?c1" using False by (simp add: w)
    have "prompts_ok ?c1" using dismiss_ok [OF assms(1), of "asks c k"] by (simp add: c1)
    moreover have "k < length (ct_prompts ?c1)" using assms(2) by (simp add: waiting_def)
    moreover have "window_of ?c1 k = Unseen" using False st(2) by (cases "window_of c k") (simp_all add: window_of_def)
    ultimately obtain st1 where "map_of (ct_pending ?c1) (asks ?c1 k) = Some st1" "waiting (shown k st1 ?c1) k"
      "prompt_draw k ?c1 = (if pt_cancelRequested st1 then prompt_dismiss k True (shown k st1 ?c1) else shown k st1 ?c1)"
      using drawn_entry by metis
    moreover from this(1) have "pt_cancelRequested st1" by (auto simp: asks_def update_conv')
    ultimately show ?thesis using respond_effect(7) [of "shown k st1 ?c1" k ?r] by (simp only: c1 prompt_dismiss_def if_True)
  qed
qed


definition sample_request :: FileRequestNotification where
  "sample_request =
     \<lparr>fn_FileID = ''f'', fn_FromDeviceID = [], fn_Filename = ''x'', fn_Filesize = 3, fn_Filetype = [], fn_Checksum = [],
      fn_IsFolder = False, fn_FolderID = [], fn_TotalFiles = 1\<rparr>"


end
