(* ===== verification/UiViews.thy ===== *)
theory UiViews
  imports UserActions Program
begin

text \<open>
  Two things the interface promises about the parts below it: its list of discovered devices follows the table of the
  scanner, and the settings it saves are the ones in force, on disk, and shown again.
\<close>

section \<open>The discovered devices\<close>

abbreviation ct_scanner :: "Controller \<Rightarrow> PeerScanner" where "ct_scanner c \<equiv> sv_Scanner (ct_service c)"

text \<open>The scanner scans and drops no event, the event loop takes one event, or the list is read from the scanner as
  a whole.\<close>

inductive view_step :: "Controller \<Rightarrow> Controller \<Rightarrow> bool" where
  scan: "runScan P now browse (ct_scanner c) = (r, s) \<Longrightarrow> length (sc_events s) < event_capacity \<Longrightarrow>
    view_step c (on_scanner (\<lambda>_. s) c)"
| turn: "view_step c (discoveryEventLoop_turn ue c)"
| sync: "view_step c (syncDiscoveredFromScanner c)"

inductive_cases view_stepE: "view_step c c'"

definition follows :: "Controller \<Rightarrow> bool" where
  "follows c \<longleftrightarrow> keyed (sc_peers (ct_scanner c)) \<and>
     mirrors (fold apply_event (sc_events (ct_scanner c)) (map_of (ct_discovered c))) (sc_peers (ct_scanner c))"

lemma rows_frame [simp]:
  "ct_service (refreshDiscoveryRows c) = ct_service c" "ct_discovered (refreshDiscoveryRows c) = ct_discovered c"
  by (simp_all add: refreshDiscoveryRows_def Let_def)

lemma reconnect_frame [simp]:
  "ct_service (tryReconnectDiscoveredPeer ue p c) = ct_service c" "ct_discovered (tryReconnectDiscoveredPeer ue p c) = ct_discovered c"
  by (simp_all add: tryReconnectDiscoveredPeer_def on_device_def)

lemma note_event_view: "map_of (ct_discovered (note_event ev c)) = apply_event ev (map_of (ct_discovered c))"
  by (auto simp: note_event_def apply_event_def update_conv' delete_conv Let_def split: EventType.split)

lemma turn_effect:
  assumes "sc_events (ct_scanner c) = ev # evs"
  shows "sc_events (ct_scanner (discoveryEventLoop_turn ue c)) = evs"
    "sc_peers (ct_scanner (discoveryEventLoop_turn ue c)) = sc_peers (ct_scanner c)"
    "map_of (ct_discovered (discoveryEventLoop_turn ue c)) = apply_event ev (map_of (ct_discovered c))"
proof -
  define c1 where "c1 = on_scanner (\<lambda>s. s\<lparr>sc_events := evs\<rparr>) c"
  have c1: "ct_discovered c1 = ct_discovered c" "sc_events (ct_scanner c1) = evs" "sc_peers (ct_scanner c1) = sc_peers (ct_scanner c)"
    by (simp_all add: c1_def on_scanner_def)
  have note1: "ct_service (note_event ev c1) = ct_service c1" by (simp add: note_event_def Let_def)
  have "discoveryEventLoop_turn ue c = (let c2 = refreshDiscoveryRows (note_event ev c1)
      in if ev_Type ev = EventPeerUpserted then tryReconnectDiscoveredPeer ue (ev_Peer ev) c2 else c2)"
    by (simp add: discoveryEventLoop_turn_def assms c1_def)
  then show "sc_events (ct_scanner (discoveryEventLoop_turn ue c)) = evs"
    "sc_peers (ct_scanner (discoveryEventLoop_turn ue c)) = sc_peers (ct_scanner c)"
    "map_of (ct_discovered (discoveryEventLoop_turn ue c)) = apply_event ev (map_of (ct_discovered c))"
    using note_event_view [of ev c1] by (simp_all add: Let_def note1 c1)
qed

lemma turn_idle: "sc_events (ct_scanner c) = [] \<Longrightarrow> discoveryEventLoop_turn ue c = c"
  by (simp add: discoveryEventLoop_turn_def)

text \<open>Events say what becomes of the devices they name, whatever was there before.\<close>

lemma replay:
  "fold apply_event evs v i = fold apply_event evs w i \<or>
   fold apply_event evs v i = v i \<and> fold apply_event evs w i = w i"
proof (induction evs arbitrary: v w)
  case (Cons ev evs)
  have "apply_event ev v i = apply_event ev w i \<or> apply_event ev v i = v i \<and> apply_event ev w i = w i"
    by (auto simp: apply_event_def split: EventType.split)
  moreover have "fold apply_event evs v i = fold apply_event evs w i" if "v i = w i" for v w
    using Cons.IH [of v w] that by metis
  ultimately show ?case using Cons.IH [of "apply_event ev v" "apply_event ev w"] by (metis fold_simps(2))
qed simp

lemma collected_view:
  "distinct (map dp_DeviceID ps) \<Longrightarrow> map_of (fold (\<lambda>p. AList.update (dp_DeviceID p) p) ps t) i =
     (case map_of (map (\<lambda>p. (dp_DeviceID p, p)) ps) i of Some p \<Rightarrow> Some p | None \<Rightarrow> map_of t i)"
proof (induction ps arbitrary: t)
  case (Cons p ps)
  have "map_of (map (\<lambda>p. (dp_DeviceID p, p)) ps) (dp_DeviceID p) = None"
    using Cons.prems by (auto simp: map_of_eq_None_iff)
  then show ?case using Cons by (auto simp: update_conv' split: option.split)
qed simp

lemma synced_view:
  assumes "keyed peers"
  shows "map_of (fold (\<lambda>p. AList.update (dp_DeviceID p) p) (sort_key k (map snd peers)) []) = map_of peers"
proof -
  have ids: "map (\<lambda>x. dp_DeviceID (snd x)) peers = map fst peers" using assms by (auto simp: keyed_def)
  have peers: "(\<lambda>x. (dp_DeviceID (snd x), snd x)) ` set peers = set peers"
    using assms by (force simp: keyed_def)
  let ?ps = "sort_key k (map snd peers)"
  have "distinct (map dp_DeviceID (map snd peers))" using assms by (simp add: keyed_def comp_def ids)
  then have dist: "distinct (map dp_DeviceID ?ps)" by (simp only: distinct_map distinct_sort set_sort)
  have "map_of (map (\<lambda>p. (dp_DeviceID p, p)) ?ps) = map_of peers"
  proof (rule map_of_inject_set [THEN iffD2])
    show "distinct (map fst (map (\<lambda>p. (dp_DeviceID p, p)) ?ps))" using dist by (simp add: comp_def)
    show "distinct (map fst peers)" using assms by (simp add: keyed_def)
    show "set (map (\<lambda>p. (dp_DeviceID p, p)) ?ps) = set peers" using peers by (simp add: image_image)
  qed
  then show ?thesis using collected_view [OF dist, of "[]"] by (auto simp: fun_eq_iff split: option.split)
qed

lemma follows_scan:
  assumes "follows c" "runScan P now browse (ct_scanner c) = (r, s)" "length (sc_events s) < event_capacity"
  shows "follows (on_scanner (\<lambda>_. s) c)"
proof (cases r)
  case None
  obtain evs where "sc_events s = sc_events (ct_scanner c) @ evs" "keyed (sc_peers s)"
    "mirrors (fold apply_event evs (fold apply_event (sc_events (ct_scanner c)) (map_of (ct_discovered c)))) (sc_peers s)"
    using scan_events_mirror [of P now browse "ct_scanner c" s] assms None by (auto simp: follows_def)
  then show ?thesis by (simp add: follows_def on_scanner_def)
next
  case (Some e)
  then have "s = ct_scanner c" using assms(2) by (auto simp: runScan_def split: prod.splits if_splits)
  then show ?thesis using assms(1) by (simp add: follows_def on_scanner_def)
qed

lemma follows_turn: "follows c \<Longrightarrow> follows (discoveryEventLoop_turn ue c)"
proof (cases "sc_events (ct_scanner c)")
  case (Cons ev evs)
  assume "follows c"
  then show ?thesis using turn_effect [OF Cons, of ue] by (simp add: follows_def Cons)
qed (simp add: turn_idle)

lemma follows_sync: "follows c \<Longrightarrow> follows (syncDiscoveredFromScanner c)"
proof -
  assume c: "follows c"
  let ?evs = "sc_events (ct_scanner c)" and ?peers = "sc_peers (ct_scanner c)"
  have view: "map_of (ct_discovered (syncDiscoveredFromScanner c)) = map_of ?peers"
    "ct_service (syncDiscoveredFromScanner c) = ct_service c"
    using c synced_view [of ?peers] by (simp_all add: syncDiscoveredFromScanner_def scanner_ListPeers_def follows_def)
  have "map_option forget_seen (fold apply_event ?evs (map_of ?peers) i) = map_option forget_seen (map_of ?peers i)" for i
    using replay [of ?evs "map_of ?peers" i "map_of (ct_discovered c)"] c
    by (auto simp: follows_def mirrors_def fun_eq_iff)
  then show ?thesis using c by (simp add: follows_def view mirrors_def fun_eq_iff)
qed

lemma follows_reachable: "view_step\<^sup>*\<^sup>* c0 c \<Longrightarrow> follows c0 \<Longrightarrow> follows c"
  by (induction rule: rtranclp_induct) (auto elim!: view_stepE intro: follows_scan follows_turn follows_sync)

lemma drained:
  "follows c \<Longrightarrow> length ues = length (sc_events (ct_scanner c)) \<Longrightarrow>
   follows (fold discoveryEventLoop_turn ues c) \<and> sc_events (ct_scanner (fold discoveryEventLoop_turn ues c)) = [] \<and>
   sc_peers (ct_scanner (fold discoveryEventLoop_turn ues c)) = sc_peers (ct_scanner c)"
proof (induction ues arbitrary: c)
  case (Cons ue ues)
  then obtain ev evs where evs: "sc_events (ct_scanner c) = ev # evs" by (cases "sc_events (ct_scanner c)") auto
  have "length ues = length (sc_events (ct_scanner (discoveryEventLoop_turn ue c)))"
    using Cons.prems(2) turn_effect(1) [OF evs] by (simp add: evs)
  then show ?case using Cons.IH [OF follows_turn [OF Cons.prems(1), of ue]] turn_effect(2) [OF evs] by simp
qed simp

text \<open>C23: However scans, turns of the event loop and whole refreshes of the list interleave, as long as no event is dropped,
  the list of discovered devices loses nothing: as many turns as events wait bring it to the scanner's table, up to the
  times of the last sightings, with every device once. A refresh that overtakes events does no harm.\<close>

theorem discovered_devices_follow:
  assumes "view_step\<^sup>*\<^sup>* c0 c" "sc_peers (ct_scanner c0) = []" "sc_events (ct_scanner c0) = []" "ct_discovered c0 = []"
    and "length ues = length (sc_events (ct_scanner c))"
  shows "let c' = fold discoveryEventLoop_turn ues c
    in sc_events (ct_scanner c') = [] \<and> sc_peers (ct_scanner c') = sc_peers (ct_scanner c) \<and>
       mirrors (map_of (ct_discovered c')) (sc_peers (ct_scanner c)) \<and> keyed (sc_peers (ct_scanner c))"
proof -
  have "follows c0" using assms(2-4) by (simp add: follows_def keyed_def mirrors_def)
  from drained [OF follows_reachable [OF assms(1) this] assms(5)] show ?thesis by (auto simp: follows_def Let_def)
qed

theorem discovered_devices_follow_witness:
  "\<exists>c. view_step\<^sup>*\<^sup>* sample_ui c \<and> length (sc_events (ct_scanner c)) = 1 \<and>
     mirrors (map_of (ct_discovered (discoveryEventLoop_turn sample_ue c))) (sc_peers (ct_scanner c))"
proof -
  let ?s = "applySnapshot 5 [(''b'', sample_peer)] sample_scanner"
  have scanner: "ct_scanner sample_ui = sample_scanner" by (simp add: sample_ui_def)
  have run: "runScan sample_tokens 5 (None, [(0, sample_entry)]) sample_scanner = (None, ?s)"
    using sample_parsed by (simp add: runScan_def sample_scanner_def) (simp add: sample_peer_def)
  have one: "length (sc_events ?s) = 1"
    by (simp add: applySnapshot_def sample_scanner_def emitEvent_def event_capacity_def)
  define c where "c = on_scanner (\<lambda>_. ?s) sample_ui"
  have c: "ct_scanner c = ?s" by (simp add: c_def on_scanner_def)
  have "view_step sample_ui c"
    unfolding c_def by (rule scan [of sample_tokens 5 "(None, [(0, sample_entry)])" _ None]) (simp_all add: scanner run one event_capacity_def)
  then have reach: "view_step\<^sup>*\<^sup>* sample_ui c" by simp
  have "sc_peers sample_scanner = []" "sc_events sample_scanner = []" "ct_discovered sample_ui = []"
    by (simp_all add: sample_scanner_def sample_ui_def)
  then have "mirrors (map_of (ct_discovered (discoveryEventLoop_turn sample_ue c))) (sc_peers (ct_scanner c))"
    using discovered_devices_follow [OF reach, of "[sample_ue]"] by (simp add: scanner c one Let_def)
  then show ?thesis using reach one by (intro exI [of _ c]) (simp add: c)
qed

section \<open>Saved settings\<close>

abbreviation ct_disk :: "Controller \<Rightarrow> Disk" where "ct_disk c \<equiv> nd_disk (dv_node (ct_device c))"

text \<open>What the manager is told to use is what the configuration says.\<close>

definition getters_current :: "Controller \<Rightarrow> bool" where
  "getters_current c \<longleftrightarrow> with_getters c (dv_options (ct_device c)) = dv_options (ct_device c) \<and>
     GetDownloadDirectory (nd_options (dv_node (ct_device c))) = Some (ui_currentDownloadDirectory c) \<and>
     GetMaxReceiveFileSize (nd_options (dv_node (ct_device c))) = Some (ui_currentMaxReceiveFileSize c)"

text \<open>The configuration is the one the form stands for.\<close>

definition stands_for :: "SettingsForm \<Rightarrow> DeviceConfig \<Rightarrow> bool" where
  "stands_for form cfg \<longleftrightarrow> cf_DeviceName cfg = TrimSpace (sf_name form) \<and> cf_DeviceName cfg \<noteq> [] \<and>
     cf_PortMode cfg = (if sf_fixed form then ''fixed'' else ''automatic'') \<and> form_port form = Inr (cf_ListeningPort cfg) \<and>
     cf_DownloadDirectory cfg = TrimSpace (sf_download form) \<and> cf_DownloadDirectory cfg \<noteq> [] \<and>
     parseMaxSizeSelection (sf_maxSize form) (sf_maxCustom form) False = Inr (cf_MaxReceiveFileSize cfg) \<and>
     cf_NotificationsEnabled cfg = sf_notifications form \<and>
     parseRetentionSelection (sf_retention form) = Inr (cf_MessageRetentionDays cfg) \<and>
     cf_CleanupDownloadedFiles cfg = sf_cleanup form"

lemma run_disk_effect:
  "run_at_node (run_disk f) c = (r, c1) \<Longrightarrow>
   f (ct_disk c) = (r, ct_disk c1) \<and> ct_cfg c1 = ct_cfg c \<and> ct_cfgPath c1 = ct_cfgPath c \<and> ct_dataDir c1 = ct_dataDir c \<and>
   dv_options (ct_device c1) = dv_options (ct_device c) \<and>
   nd_options (dv_node (ct_device c1)) = nd_options (dv_node (ct_device c))"
  by (auto simp: run_at_node_def run_device_def run_node_def run_disk_def put_node_def split: prod.splits)

lemma setStatus_frame [simp]:
  "ct_cfg (setStatus ue m c) = ct_cfg c" "ct_device (setStatus ue m c) = ct_device c"
  "ct_cfgPath (setStatus ue m c) = ct_cfgPath c" "ct_dataDir (setStatus ue m c) = ct_dataDir c"
  by (simp_all add: setStatus_def applyStatusLabel_def Let_def)

lemma set_cfg_frame [simp]:
  "ct_cfg (set_cfg cfg c) = cfg" "ct_disk (set_cfg cfg c) = ct_disk c" "ct_cfgPath (set_cfg cfg c) = ct_cfgPath c"
  "getters_current (set_cfg cfg c)"
  by (simp_all add: set_cfg_def on_device_def getters_current_def with_getters_def ui_currentDownloadDirectory_def
      ui_currentMaxReceiveFileSize_def ui_currentMessageRetentionDays_def ui_cleanupDownloadedFilesEnabled_def Let_def)

lemma getters_same:
  assumes "ct_cfg c1 = ct_cfg c" "ct_dataDir c1 = ct_dataDir c" "dv_options (ct_device c1) = dv_options (ct_device c)"
    "nd_options (dv_node (ct_device c1)) = nd_options (dv_node (ct_device c))"
  shows "getters_current c1 = getters_current c"
proof -
  have getters: "ui_currentDownloadDirectory c1 = ui_currentDownloadDirectory c"
    "ui_currentMaxReceiveFileSize c1 = ui_currentMaxReceiveFileSize c"
    "ui_currentMessageRetentionDays c1 = ui_currentMessageRetentionDays c"
    "ui_cleanupDownloadedFilesEnabled c1 = ui_cleanupDownloadedFilesEnabled c"
    by (simp_all only: ui_currentDownloadDirectory_def ui_currentMaxReceiveFileSize_def
        ui_currentMessageRetentionDays_def ui_cleanupDownloadedFilesEnabled_def assms(1,2))
  have "with_getters c1 = with_getters c" by (rule ext) (simp only: with_getters_def getters)
  then show ?thesis by (simp only: getters_current_def getters assms(3,4))
qed

lemma MkdirAll_files: "os_MkdirAll fe dir d = (r, d') \<Longrightarrow> dk_files d' = dk_files d"
  by (auto simp: os_MkdirAll_def os_call_def split: option.splits if_splits)

lemma MkdirAll_made:
  "os_MkdirAll fe dir d = (None, d') \<Longrightarrow> map_of (dk_files d') dir = None \<and> is_dir d' dir"
  by (auto simp: os_MkdirAll_def os_call_def is_dir_def split: option.splits if_splits)

lemma form_config_effect:
  assumes "form_config ue form c = (Inr cfg, c1)"
  shows "stands_for form cfg" "dk_files (ct_disk c1) = dk_files (ct_disk c)" "ct_cfg c1 = ct_cfg c" "ct_cfgPath c1 = ct_cfgPath c"
    "getters_current c1 = getters_current c" "map_of (dk_files (ct_disk c1)) (cf_DownloadDirectory cfg) = None"
    "is_dir (ct_disk c1) (cf_DownloadDirectory cfg)"
proof -
  obtain port limit days where parts: "TrimSpace (sf_name form) \<noteq> []" "form_port form = Inr port" "TrimSpace (sf_download form) \<noteq> []"
    "parseMaxSizeSelection (sf_maxSize form) (sf_maxCustom form) False = Inr limit"
    "parseRetentionSelection (sf_retention form) = Inr days"
    and mk: "run_at_node (run_disk (os_MkdirAll (ue_fe ue) (TrimSpace (sf_download form)))) c = (None, c1)"
    and cfg: "cfg = (ct_cfg c)\<lparr>cf_DeviceName := TrimSpace (sf_name form),
      cf_PortMode := (if sf_fixed form then ''fixed'' else ''automatic''), cf_ListeningPort := port,
      cf_DownloadDirectory := TrimSpace (sf_download form), cf_MaxReceiveFileSize := limit,
      cf_NotificationsEnabled := sf_notifications form, cf_MessageRetentionDays := days,
      cf_CleanupDownloadedFiles := sf_cleanup form\<rparr>"
    using assms by (auto simp: form_config_def Let_def split: if_splits sum.splits prod.splits option.splits)
  note disk = run_disk_effect [OF mk]
  show "stands_for form cfg" using parts by (simp add: stands_for_def cfg)
  show "dk_files (ct_disk c1) = dk_files (ct_disk c)" "ct_cfg c1 = ct_cfg c" "ct_cfgPath c1 = ct_cfgPath c"
    "getters_current c1 = getters_current c"
    using disk MkdirAll_files [of "ue_fe ue" "TrimSpace (sf_download form)" "ct_disk c"] getters_same [of c1 c] by auto
  show "map_of (dk_files (ct_disk c1)) (cf_DownloadDirectory cfg) = None" "is_dir (ct_disk c1) (cf_DownloadDirectory cfg)"
    using MkdirAll_made conjunct1 [OF disk] by (auto simp: cfg)
qed

lemma update_name_frame:
  assumes "dv_UpdateDeviceName name d = (r, d')"
  shows "nd_disk (dv_node d') = nd_disk (dv_node d) \<and> nd_options (dv_node d') = nd_options (dv_node d) \<and> dv_options d' = dv_options d"
proof -
  have manager: "nd_disk (dv_node (snd (run_manager f d))) = nd_disk (dv_node d) \<and>
      nd_options (dv_node (snd (run_manager f d))) = nd_options (dv_node d) \<and> dv_options (snd (run_manager f d)) = dv_options d" for f :: "Manager \<Rightarrow> 'r \<times> Manager" and d
    by (simp add: run_manager_def run_node_def run_mgr_def put_node_def split: prod.split)
  have on: "nd_disk (dv_node (on_manager f d)) = nd_disk (dv_node d) \<and>
      nd_options (dv_node (on_manager f d)) = nd_options (dv_node d) \<and> dv_options (on_manager f d) = dv_options d" for f
    by (simp add: on_manager_def on_node_def on_mgr_def put_node_def)
  show ?thesis
    using assms manager [of "on_store (UpdatePeerDeviceName (local_id (dv_mgr d)) (TrimSpace name))"
        "on_manager (\<lambda>m. m\<lparr>localDeviceName := TrimSpace name\<rparr>) d"] on [of "\<lambda>m. m\<lparr>localDeviceName := TrimSpace name\<rparr>"]
    by (auto simp: dv_UpdateDeviceName_def dv_statement_def Let_def split: if_splits prod.splits option.splits)
qed

text \<open>Whether two controllers agree on the settings, the disk and the options of the manager.\<close>

definition same_settings :: "Controller \<Rightarrow> Controller \<Rightarrow> bool" where
  "same_settings c c' \<longleftrightarrow> ct_cfg c' = ct_cfg c \<and> ct_cfgPath c' = ct_cfgPath c \<and> ct_dataDir c' = ct_dataDir c \<and>
     ct_disk c' = ct_disk c \<and> dv_options (ct_device c') = dv_options (ct_device c) \<and>
     nd_options (dv_node (ct_device c')) = nd_options (dv_node (ct_device c))"

lemma same_settings_getters: "same_settings c c' \<Longrightarrow> getters_current c' = getters_current c"
  unfolding same_settings_def by (intro getters_same) blast+

lemma apply_name_effect: "apply_name ue P zc name c = (r, c') \<Longrightarrow> (\<exists>notice. r = Closed notice) \<and> same_settings c c'"
proof -
  assume a: "apply_name ue P zc name c = (r, c')"
  obtain r1 d1 where up: "dv_UpdateDeviceName name (ct_device c) = (r1, d1)" by fastforce
  have c1: "run_device (dv_UpdateDeviceName name) c = (r1, c\<lparr>ct_device := d1\<rparr>)" by (simp add: run_device_def up)
  show ?thesis
    using a update_name_frame [OF up]
    by (auto simp: apply_name_def c1 ui_service_def failed_def same_settings_def split: option.splits prod.splits)
qed

lemma saveSettings_closed:
  assumes "saveSettings ue P zc form c = (Closed notice, c')"
  obtains cfg c1 c2 where "form_config ue form c = (Inr cfg, c1)" "same_settings c2 c'"
    "cfg = ct_cfg c1 \<and> c2 = c1 \<or>
     run_at_node (run_disk (Save (ue_ce ue) (ct_cfgPath c1) cfg)) (set_cfg cfg c1) = (None, c2)"
proof -
  obtain cfg c1 where f: "form_config ue form c = (Inr cfg, c1)"
    using assms by (auto simp: saveSettings_def split: prod.splits sum.splits)
  have status: "same_settings c0 (setStatus ue m c0)" for m c0 by (simp add: same_settings_def)
  show ?thesis
  proof (cases "cfg = ct_cfg c1")
    case True
    then have "c' = setStatus ue ''Settings saved'' c1" using assms by (simp add: saveSettings_def f)
    then show ?thesis using that [OF f] True status by blast
  next
    case False
    then obtain c2 where save: "run_at_node (run_disk (Save (ue_ce ue) (ct_cfgPath c1) cfg)) (set_cfg cfg c1) = (None, c2)"
      using assms by (auto simp: saveSettings_def f Let_def split: prod.splits option.splits)
    have "same_settings c2 c'"
      using assms False apply_name_effect [of ue P zc "cf_DeviceName cfg" c2 "Closed notice" c'] status
      by (auto simp: saveSettings_def f save Let_def split: if_splits)
    then show ?thesis using that [OF f] save by blast
  qed
qed

text \<open>What was entered lies in the ranges the dialog shows again.\<close>

lemma Atoi_range: "Atoi s = Inr n \<Longrightarrow> is_int64 n"
  by (auto simp: Atoi_def Let_def split: if_splits)

lemma parsed_size_range: "parseMaxSizeSelection sel custom False = Inr n \<Longrightarrow> 0 \<le> n \<and> is_int64 n"
  using Atoi_range
  by (auto simp: parseMaxSizeSelection_def maxSizePresetValues_def is_int64_def split: if_splits sum.splits option.splits)

lemma parsed_retention: "parseRetentionSelection sel = Inr d \<Longrightarrow> normalizeMessageRetentionDays d = d"
  by (auto simp: parseRetentionSelection_def messageRetentionValues_def normalizeMessageRetentionDays_def split: option.splits if_splits)

lemma form_port_range: "form_port form = Inr p \<Longrightarrow> if sf_fixed form then 0 < p \<and> is_int64 p else p = 0"
  using Atoi_range by (auto simp: form_port_def split: if_splits sum.splits)

lemma shown_again:
  assumes "stands_for form (ct_cfg c)"
  shows "stands_for (showSettingsDialog c) (ct_cfg c)"
proof -
  let ?cfg = "ct_cfg c"
  have trim: "TrimSpace (cf_DeviceName ?cfg) = cf_DeviceName ?cfg" "TrimSpace (cf_DownloadDirectory ?cfg) = cf_DownloadDirectory ?cfg"
    "cf_DownloadDirectory ?cfg \<noteq> []" using assms by (auto simp: stands_for_def)
  have parsed: "form_port form = Inr (cf_ListeningPort ?cfg)"
    "parseMaxSizeSelection (sf_maxSize form) (sf_maxCustom form) False = Inr (cf_MaxReceiveFileSize ?cfg)"
    "parseRetentionSelection (sf_retention form) = Inr (cf_MessageRetentionDays ?cfg)"
    using assms by (simp_all add: stands_for_def)
  from form_port_range [OF parsed(1)] have "form_port (showSettingsDialog c) = Inr (cf_ListeningPort ?cfg)"
    using assms by (auto simp: form_port_def showSettingsDialog_def stands_for_def Let_def TrimSpace_Itoa Atoi_Itoa split: if_splits)
  moreover have "parseMaxSizeSelection (selectMaxSizePreset (cf_MaxReceiveFileSize ?cfg) False) (Itoa (cf_MaxReceiveFileSize ?cfg)) False =
      Inr (cf_MaxReceiveFileSize ?cfg)"
    using parsed_size_range [OF parsed(2)] settings_choices_read_back by blast
  moreover have "parseRetentionSelection (selectRetentionPreset (cf_MessageRetentionDays ?cfg)) = Inr (cf_MessageRetentionDays ?cfg)"
    using parsed_retention [OF parsed(3)] settings_choices_read_back [of 0] by (simp add: is_int64_def)
  ultimately show ?thesis
    using assms trim by (auto simp: stands_for_def showSettingsDialog_def ui_currentDownloadDirectory_def Let_def)
qed

lemma stands_for_determined:
  assumes "stands_for form (ct_cfg c)" "os_refuse (ue_fe ue) ''mkdir'' (cf_DownloadDirectory (ct_cfg c)) = None"
    and "map_of (dk_files (ct_disk c)) (cf_DownloadDirectory (ct_cfg c)) = None"
  shows "\<exists>c1. form_config ue form c = (Inr (ct_cfg c), c1) \<and> ct_cfg c1 = ct_cfg c \<and> dk_files (ct_disk c1) = dk_files (ct_disk c)"
proof -
  have dir: "TrimSpace (sf_download form) = cf_DownloadDirectory (ct_cfg c)"
    and filled: "TrimSpace (sf_name form) \<noteq> []" "TrimSpace (sf_download form) \<noteq> []"
    using assms(1) by (auto simp: stands_for_def)
  obtain r c1 where mk: "run_at_node (run_disk (os_MkdirAll (ue_fe ue) (TrimSpace (sf_download form)))) c = (r, c1)" by fastforce
  note disk = run_disk_effect [OF mk]
  have "r = None" using conjunct1 [OF disk] assms(2,3) by (simp add: os_MkdirAll_def os_call_def dir split: if_splits)
  moreover have "dk_files (ct_disk c1) = dk_files (ct_disk c)" using disk MkdirAll_files by blast
  moreover have "(ct_cfg c)\<lparr>cf_DeviceName := TrimSpace (sf_name form),
      cf_PortMode := (if sf_fixed form then ''fixed'' else ''automatic''), cf_ListeningPort := cf_ListeningPort (ct_cfg c),
      cf_DownloadDirectory := TrimSpace (sf_download form), cf_MaxReceiveFileSize := cf_MaxReceiveFileSize (ct_cfg c),
      cf_NotificationsEnabled := sf_notifications form, cf_MessageRetentionDays := cf_MessageRetentionDays (ct_cfg c),
      cf_CleanupDownloadedFiles := sf_cleanup form\<rparr> = ct_cfg c"
    using assms(1) by (intro DeviceConfig.equality) (simp_all add: stands_for_def)
  ultimately show ?thesis
    using assms(1) mk disk filled by (intro exI [of _ c1]) (simp add: form_config_def stands_for_def Let_def)
qed


definition sample_form :: SettingsForm where
  "sample_form =
     \<lparr>sf_name = ''n'', sf_fixed = False, sf_port = [], sf_download = ''/in'', sf_maxSize = ''Unlimited'', sf_maxCustom = [],
      sf_notifications = True, sf_retention = ''30 days'', sf_cleanup = True\<rparr>"

definition quiet_zeroconf :: Zeroconf where
  "quiet_zeroconf = \<lparr>zc_refuse = \<lambda>_. None\<rparr>"

lemma sample_save:
  "\<exists>c'. saveSettings sample_ue sample_tokens quiet_zeroconf sample_form (set_cfg sample_cfg sample_ui) = (Closed None, c')"
proof -
  let ?c = "set_cfg sample_cfg sample_ui" and ?new = "sample_cfg\<lparr>cf_CleanupDownloadedFiles := True\<rparr>"
  have trims: "TrimSpace ''n'' = ''n''" "TrimSpace ''/in'' = ''/in''" by code_simp+
  have fe: "os_refuse (ue_fe sample_ue) = (\<lambda>_ _. None)" by (simp add: sample_ue_def sample_config_env_def)
  obtain r c1 where mk: "run_at_node (run_disk (os_MkdirAll (ue_fe sample_ue) ''/in'')) ?c = (r, c1)" by fastforce
  have "ct_disk ?c = \<lparr>dk_files = [], dk_dirs = []\<rparr>"
    by (simp add: sample_ui_def sample_device_def new_node_def Let_def)
  then have made: "r = None" "ct_disk c1 = \<lparr>dk_files = [], dk_dirs = [''/in'']\<rparr>"
    using conjunct1 [OF run_disk_effect [OF mk]] by (simp_all add: os_MkdirAll_def os_call_def fe)
  have c1: "ct_cfg c1 = sample_cfg" "ct_cfgPath c1 = ''/config.json''"
    using run_disk_effect [OF mk] by (simp_all add: sample_ui_def)
  have "parseMaxSizeSelection ''Unlimited'' [] False = Inr 0" "parseRetentionSelection ''30 days'' = Inr 30"
    by (simp_all add: parseMaxSizeSelection_def parseRetentionSelection_def messageRetentionValues_def)
  then have form: "form_config sample_ue sample_form ?c = (Inr ?new, c1)"
    using mk by (simp add: form_config_def form_port_def sample_form_def trims made(1)) (simp add: sample_cfg_def)
  obtain r2 c2 where save: "run_at_node (run_disk (Save (ue_ce sample_ue) ''/config.json'' ?new)) (set_cfg ?new c1) = (r2, c2)"
    by fastforce
  have "r2 = None"
    using conjunct1 [OF run_disk_effect [OF save]]
    by (simp add: Save_def made(2) os_WriteFile_def os_call_def is_dir_def sample_ue_def sample_config_env_def counted_json_def)
  moreover have "cf_CleanupDownloadedFiles sample_cfg = False" by (simp add: sample_cfg_def)
  ultimately show ?thesis using save by (simp add: saveSettings_def form c1)
qed


end
