(* ===== verification/Spec2Isabelle.thy ===== *)
theory Spec2Isabelle
  imports DeviceSystem FileRoundtrip Config Discovery Program UiSteps UiViews
begin

text \<open>
  GoSend is a messenger and file transfer program for devices on one local network. A device finds others by mDNS,
  opens TCP connections to them, authenticates both ends by Ed25519 keys in a handshake that agrees on a session
  key, and then exchanges encrypted frames: chat messages, session key changes, requests to add or remove a peer,
  files and folders. Everything that must survive a restart is in an SQLite store.

  \<^bold>\<open>Layers.\<close> Each theory imports what its code calls.

  \<^item> \<open>GoPrelude\<close>, \<open>Codec\<close>, \<open>GoNet\<close>, \<open>Paths\<close>: what the program uses of Go and its standard library (errors and
    wrapping, ASCII case and trimming, truncated division, 64-bit wrap-around, base64, hex, decimal numbers,
    host and port, lexical paths), the locale \<open>keyed_table\<close> of a table with a unique key, and the path checks of
    \<open>file_transfer.go\<close>. A Go string and a byte slice are both a list of characters.
  \<^item> \<open>Crypto\<close> (\<open>src/crypto\<close>): signatures, key pairs on disk, key agreement, sealing. The primitives are the record
    \<open>Prims\<close>; the laws the code relies on (a signature made is verified, opening inverts sealing, key agreement
    commutes) are the predicate \<open>prims_ok\<close> and its parts, shown satisfiable by \<open>sample_prims\<close>.
  \<^item> \<open>Protocol\<close> (\<open>src/network/protocol.go\<close>): packets, framing, signed handshakes. JSON is a parameter with the law
    \<open>json_ok\<close>, shown satisfiable in \<open>SampleJson\<close>.
  \<^item> \<open>Handshake\<close> (\<open>handshake.go\<close>, \<open>client.go\<close>, \<open>server.go\<close>): both ends of the handshake, up to a session or an error.
  \<^item> \<open>Connection\<close> (\<open>connection.go\<close>): a session as a record, its sequence numbers and epochs as 64-bit words, the read
    and the keep-alive loop as one function per frame and per tick.
  \<^item> \<open>RateLimit\<close> (\<open>server.go\<close>, \<open>peer_manager.go\<close>): the three limiters, interpretations of the locale \<open>rate_limiter\<close>.
  \<^item> \<open>StoreTypes\<close>, \<open>StoreMessages\<close>, \<open>StorePeers\<close>, \<open>StoreFiles\<close> (\<open>src/storage\<close>): the tables as lists of records; every
    SQL statement is a function of the store, with the constraints of the schema in \<open>store_wf\<close>.
  \<^item> \<open>Manager\<close>, \<open>Messaging\<close>, \<open>Rekey\<close> (\<open>peer_manager.go\<close>): the tables of \<open>PeerManager\<close> that messages need, connections in
    a heap of numbered records (a pointer is a number), the handlers of messages, acknowledgements, errors, the
    outbound queue and session key changes.
  \<^item> \<open>FileTypes\<close>, \<open>FileCommon\<close>, \<open>FileReceive\<close>, \<open>FileSend\<close> (\<open>file_transfer.go\<close>): the record \<open>Node\<close> adds the tables of
    transfers and a disk. Files are byte lists under cleaned paths; every call on the disk may fail as the
    environment says.
  \<^item> \<open>Endpoints\<close>, \<open>Device\<close>, \<open>Lifecycle\<close> (\<open>peer_manager.go\<close>, \<open>server.go\<close>): the record \<open>Device\<close> adds the rest of
    \<open>PeerManager\<close>: options, listener, known addresses, pending questions, goroutines. Starting, stopping,
    accepting, dialling, registering and losing connections, adding and removing peers, changed keys, reconnecting.
  \<^item> \<open>Discovery\<close> (\<open>src/discovery\<close>) and \<open>Config\<close> (\<open>src/config/config.go\<close>) stand beside the peer manager.
  \<^item> \<open>Database\<close> (\<open>src/storage/database.go\<close>): opening the database, its migrations as statements on a schema of tables,
    columns and indexes, write-ahead log and closing.
  \<^item> \<open>UiTransfers\<close>, \<open>UiText\<close>, \<open>Controller\<close>, \<open>UserActions\<close> (\<open>src/ui\<close>): the record \<open>Controller\<close> adds to the device what the
    user interface remembers: live transfers, the selected conversation, discovered peers, prompts, status and log.
    The handlers of its events and buttons are functions of it, the fields of a dialog are arguments.
  \<^item> \<open>Program\<close> (\<open>src/main.go\<close>): the start, from the settings to the options the interface is run with.

  \<^bold>\<open>Concurrency.\<close> A goroutine is cut where it waits: what it does between two such points is one function, what it
  has to remember is data (\<open>Worker\<close> of a reconnecting goroutine, \<open>loop_phase\<close> of a connection, \<open>Run\<close> of a transfer,
  \<open>AddWait\<close> of a question). Time, randomness, the answers of sockets and of the user are arguments of these
  functions. The relations \<open>Messaging.chat_step\<close>, \<open>TransferSystem.transfer_step\<close>, \<open>DeviceSystem.device_step\<close> and
  \<open>UiViews.view_step\<close>, and the events \<open>UiSteps.ui_event\<close>, have one constructor per such function, so that their sequences are the interleavings; steps between two locks that the
  code takes one after the other are not interleaved further.

  \<^bold>\<open>What is shown.\<close>

  \<^item> Sessions: both ends of a faithful handshake agree; a listener accepts only what is signed under the presented
    key; a key change leaves both ends with the same key; frames cross it; nothing is accepted twice; what the
    read loop delivers was opened under a key of the session; idle and malformed peers are disconnected.
  \<^item> Keys (\<open>KeyRing\<close>, \<open>KeySteps\<close>, \<open>DeviceSystem\<close>): \<open>key_step\<close> is the specification of what a step may do to the pinned
    keys and to those in the store; every operation refines it, so in every reachable state a pinned key is the
    stored one and changes only by the decision of the user. \<open>Identities\<close> shows what leaves the keys alone.
  \<^item> Messages: the outcome of every branch of the handlers; delivery at most once in all interleavings; the bounds
    of the queue; search against its specification.
  \<^item> Transfers: \<open>Assembly\<close> reads a map from chunk numbers to bytes off the table and the disk, and \<open>handleFileData\<close>
    refines one update of it; \<open>FileRoundtrip\<close> closes the way from the sender's file to the receiver's. \<open>Frames\<close> holds
    locales that prove once what every operation keeps of a part of the node; \<open>TransferQueue\<close> and
    \<open>TransferRuns\<close> instantiate them for the outbound queue, \<open>TransferTables\<close> for the inbound table, \<open>Identities\<close> for
    the keys. \<open>TransferSystem\<close> puts the steps together.
  \<^item> Store, configuration, discovery, addresses: the schema is invariant under every sequence of statements; the
    settings survive a restart; the events of a scan mirror its table; an entry is listed under a known peer only
    with a token of that peer; the score of an address counts its successes and failures. Migrating any released
    schema ends in the current one or changes nothing.
  \<^item> Interface and program: \<open>UiTransfers\<close> shows what a conversation lists and that a finished transfer stays finished;
    \<open>UiSteps\<close> that, over every sequence of events, nothing is accepted that the user did not accept, prompts for a
    file are unique and no withdrawal is lost; \<open>UiViews\<close> that the discovered devices shown follow the scanner and that
    saved settings are in force, stored and shown again; \<open>Program\<close> that a successful start leaves settings, keys,
    fingerprint and database that agree.

  \<^bold>\<open>Bounds and fuel.\<close> Loops that consume their input are structural; the trimming and the eviction loop recurse on a
  measure. No definition carries fuel: a loop that waits is a step function, and what holds of it holds for every
  number of steps. Sequence numbers, epochs and chunk arithmetic wrap as \<open>uint64\<close> and \<open>int64\<close> do; times and
  the other integers are unbounded.

  \<^bold>\<open>Not modelled.\<close> Of \<open>src/ui\<close> what only draws, through a third-party toolkit: widgets, layouts, colours, icons,
  tooltips and the opening of files in other programs (\<open>theme.go\<close>, \<open>panel_chrome.go\<close>, \<open>clickable_label.go\<close>,
  \<open>material_icons.go\<close> and the constructors of panes in the other files); what a dialog is answered is an argument. What
  a handler queues for the thread of the toolkit runs at once, except where a prompt waits for its window. The types
  of \<open>src/models\<close> are used by no other code. SQLite itself, the figures for speed and remaining time (floating point, shown only), and the accessors of channels are
  left out. \<open>Close\<close> and \<open>Stop\<close> end where they wait for goroutines. A callback of the peer manager that only shows
  something is an entry of a list of notifications.
\<close>

end
